(* ===== verification/Prelude.thy ===== *)
theory Prelude
  imports Complex_Main "HOL-Library.AList" "HOL-Library.Char_ord" "HOL-Library.List_Lexorder"
begin

text \<open>
  The values of the program and the operations every component shares.

  Both services pass decoded JSON around: a value is a \<open>pyval\<close>.  Python integers are
  unbounded (\<open>int\<close>); a finite float is an exact rational, so comparisons between integers
  and floats are exact as in Python; the non-finite floats, which Python's \<open>json\<close> module
  accepts on input, are constructors of their own.  A \<open>dict\<close> is an association list in
  insertion order (\<^const>\<open>AList.update\<close> replaces in place and appends new keys, as Python
  does), a string is a list of characters.  An exception is the left side of a sum.

  The theory holds Python's truth test, equality and ordering on these values, the laws of
  dictionaries as a locale interpreted on the association lists, and the lemmas on sums,
  options and lists that the component theories use.
\<close>

named_theorems py_simps \<open>evaluation of Python's operators on values\<close>
named_theorems inv_simps \<open>definitions of the component invariants\<close>
named_theorems step_simps \<open>definitions of the component operations\<close>

section \<open>Python values\<close>

datatype pyfloat = Fin rat | PosInf | NegInf | NaN

datatype pyval =
    PNone
  | PBool bool
  | PInt int
  | PFloat pyfloat
  | PStr string
  | PList "pyval list"
  | PDict "(string \<times> pyval) list"

type_synonym 'v dict = "(string \<times> 'v) list"
type_synonym payload = "pyval dict"

text \<open>\<open>sep.join(xs)\<close>.\<close>

fun join_str :: "string \<Rightarrow> string list \<Rightarrow> string" where
  "join_str sep [] = []"
| "join_str sep [x] = x"
| "join_str sep (x # xs) = x @ sep @ join_str sep xs"

text \<open>\<open>repr(s)\<close> of a string of characters up to code 255: double quotes only when the
  string has a single quote and no double quote; control and unprintable characters escaped.\<close>

definition hex_digit :: "nat \<Rightarrow> char" where
  "hex_digit n = ''0123456789abcdef'' ! n"

definition repr_char :: "char \<Rightarrow> char \<Rightarrow> string" where
  "repr_char q c =
     (let n = of_char c :: nat in
      if c = q \<or> n = 92 then [CHR 0x5C, c]
      else if n = 10 then [CHR 0x5C, CHR ''n'']
      else if n = 13 then [CHR 0x5C, CHR ''r'']
      else if n = 9 then [CHR 0x5C, CHR ''t'']
      else if n < 32 \<or> 127 \<le> n \<and> n \<le> 160 \<or> n = 173
        then [CHR 0x5C, CHR ''x'', hex_digit (n div 16), hex_digit (n mod 16)]
      else [c])"

definition repr_str :: "string \<Rightarrow> string" where
  "repr_str s =
     (let q = (if CHR 0x27 \<in> set s \<and> CHR 0x22 \<notin> set s then CHR 0x22 else CHR 0x27)
      in q # concat (map (repr_char q) s) @ [q])"

text \<open>\<open>repr\<close> of a list of strings.\<close>

definition repr_strs :: "string list \<Rightarrow> string" where
  "repr_strs xs = ''['' @ join_str '', '' (map repr_str xs) @ '']''"

text \<open>The number a value denotes in arithmetic comparisons; booleans are numbers.\<close>

fun num_of :: "pyval \<Rightarrow> pyfloat option" where
  "num_of (PBool b) = Some (Fin (if b then 1 else 0))"
| "num_of (PInt i) = Some (Fin (of_int i))"
| "num_of (PFloat f) = Some f"
| "num_of _ = None"

fun num_eq :: "pyfloat \<Rightarrow> pyfloat \<Rightarrow> bool" where
  "num_eq (Fin a) (Fin b) = (a = b)"
| "num_eq a b = ((a = PosInf \<and> b = PosInf) \<or> (a = NegInf \<and> b = NegInf))"

fun num_lt :: "pyfloat \<Rightarrow> pyfloat \<Rightarrow> bool" where
  "num_lt (Fin a) (Fin b) = (a < b)"
| "num_lt (Fin _) PosInf = True"
| "num_lt NegInf (Fin _) = True"
| "num_lt NegInf PosInf = True"
| "num_lt _ _ = False"

definition num_le :: "pyfloat \<Rightarrow> pyfloat \<Rightarrow> bool" where
  "num_le a b = (num_lt a b \<or> num_eq a b)"

lemma num_le_simps [simp]:
  "num_le (Fin a) (Fin b) = (a \<le> b)"
  "num_le NaN x = False"
  "num_le x NaN = False"
  by (auto simp: num_le_def)

text \<open>\<open>bool(x)\<close>.\<close>

fun py_truth :: "pyval \<Rightarrow> bool" where
  "py_truth PNone = False"
| "py_truth (PBool b) = b"
| "py_truth (PInt i) = (i \<noteq> 0)"
| "py_truth (PFloat f) = (f \<noteq> Fin 0)"
| "py_truth (PStr s) = (s \<noteq> [])"
| "py_truth (PList xs) = (xs \<noteq> [])"
| "py_truth (PDict d) = (d \<noteq> [])"

text \<open>\<open>x == y\<close>: numbers by value, dictionaries by content and not by order.\<close>

function py_eq :: "pyval \<Rightarrow> pyval \<Rightarrow> bool" where
  "py_eq x y =
     (case (x, y) of
        (PNone, PNone) \<Rightarrow> True
      | (PStr s, PStr t) \<Rightarrow> s = t
      | (PList xs, PList ys) \<Rightarrow>
          length xs = length ys \<and> list_all (\<lambda>(a, b). py_eq a b) (zip xs ys)
      | (PDict d, PDict e) \<Rightarrow>
          length d = length e \<and>
          list_all (\<lambda>(k, a). case map_of e k of None \<Rightarrow> False | Some b \<Rightarrow> py_eq a b) d
      | _ \<Rightarrow> (case (num_of x, num_of y) of
                (Some a, Some b) \<Rightarrow> num_eq a b
              | _ \<Rightarrow> False))"
  by pat_completeness auto
termination
proof (relation "measure (\<lambda>(x, _). size x)", goal_cases)
  case 1
  show ?case by simp
next
  case (2 x y a b xs ys z p q)
  then have "p \<in> set xs" by (auto dest: set_zip_leftD)
  then have "size p < size (PList xs)" by (auto dest: size_list_estimation' [where f = size, OF _ order_refl])
  then show ?case using 2 by auto
next
  case (3 x y a b d e z k p q)
  then have "(k, p) \<in> set d" by auto
  then have "size p \<le> size_prod (\<lambda>_. 0) size (k, p)" by simp
  with \<open>(k, p) \<in> set d\<close> have "size p \<le> size_list (size_prod (\<lambda>_. 0) size) d"
    by (rule size_list_estimation')
  then show ?case using 3 by auto
qed

declare py_eq.simps [simp del]

lemma py_eq_simps [simp]:
  "py_eq PNone PNone"
  "py_eq (PStr s) (PStr t) = (s = t)"
  "py_eq (PBool b) (PBool c) = (b = c)"
  "py_eq (PInt i) (PInt j) = (i = j)"
  "py_eq (PFloat f) (PFloat g) = num_eq f g"
  "py_eq (PInt i) (PFloat f) = num_eq (Fin (of_int i)) f"
  "py_eq (PFloat f) (PInt i) = num_eq f (Fin (of_int i))"
  "py_eq (PBool b) (PInt i) = (of_bool b = i)"
  "py_eq (PInt i) (PBool b) = (i = of_bool b)"
  by (simp_all add: py_eq.simps of_bool_def split: pyfloat.splits)

lemma py_eq_PNone_iff [simp]:
  "py_eq PNone x = (x = PNone)" "py_eq x PNone = (x = PNone)"
  by (cases x; simp add: py_eq.simps)+

lemma py_eq_PStr_iff [simp]:
  "py_eq (PStr s) x = (x = PStr s)" "py_eq x (PStr s) = (x = PStr s)"
  by (cases x; auto simp: py_eq.simps)+

datatype ordop = OLt | OLe | OGt | OGe

fun num_rel :: "ordop \<Rightarrow> pyfloat \<Rightarrow> pyfloat \<Rightarrow> bool" where
  "num_rel OLt a b = num_lt a b"
| "num_rel OLe a b = num_le a b"
| "num_rel OGt a b = num_lt b a"
| "num_rel OGe a b = num_le b a"

fun str_rel :: "ordop \<Rightarrow> string \<Rightarrow> string \<Rightarrow> bool" where
  "str_rel OLt a b = (a < b)"
| "str_rel OLe a b = (a \<le> b)"
| "str_rel OGt a b = (b < a)"
| "str_rel OGe a b = (b \<le> a)"

fun len_rel :: "ordop \<Rightarrow> nat \<Rightarrow> nat \<Rightarrow> bool" where
  "len_rel OLt a b = (a < b)"
| "len_rel OLe a b = (a \<le> b)"
| "len_rel OGt a b = (b < a)"
| "len_rel OGe a b = (b \<le> a)"

text \<open>\<open>x < y\<close> and its kin; \<open>None\<close> is Python's \<open>TypeError\<close>.\<close>

fun py_rel :: "ordop \<Rightarrow> pyval \<Rightarrow> pyval \<Rightarrow> bool option"
  and py_rel_list :: "ordop \<Rightarrow> pyval list \<Rightarrow> pyval list \<Rightarrow> bool option" where
  "py_rel r (PStr s) (PStr t) = Some (str_rel r s t)"
| "py_rel r (PList xs) (PList ys) = py_rel_list r xs ys"
| "py_rel r x y =
     (case (num_of x, num_of y) of
        (Some a, Some b) \<Rightarrow> Some (num_rel r a b)
      | _ \<Rightarrow> None)"
| "py_rel_list r (x # xs) (y # ys) =
     (if py_eq x y then py_rel_list r xs ys else py_rel r x y)"
| "py_rel_list r xs ys = Some (len_rel r (length xs) (length ys))"

lemma py_rel_num:
  "num_of x = Some a \<Longrightarrow> num_of y = Some b \<Longrightarrow> py_rel r x y = Some (num_rel r a b)"
  by (cases x; cases y) auto

text \<open>
  \<open>x is y\<close>.  Identity is decided by the language only where an operand is one of the
  singletons \<open>None\<close>, \<open>True\<close> and \<open>False\<close>; elsewhere it depends on
  the interpreter and the result is \<open>None\<close> here.
\<close>

fun is_singleton_val :: "pyval \<Rightarrow> bool" where
  "is_singleton_val PNone = True"
| "is_singleton_val (PBool _) = True"
| "is_singleton_val _ = False"

definition py_is :: "pyval \<Rightarrow> pyval \<Rightarrow> bool option" where
  "py_is x y = (if is_singleton_val x \<or> is_singleton_val y then Some (x = y) else None)"

lemma py_is_PNone [simp]: "py_is x PNone = Some (x = PNone)"
  by (simp add: py_is_def)

section \<open>Dictionaries\<close>

text \<open>The interface of a keyed store, with the laws the components rely on; an association
  list with \<open>update\<close> and \<open>delete\<close> is Python's \<open>dict\<close>.\<close>

locale keyed_store =
  fixes get :: "'d \<Rightarrow> 'k \<Rightarrow> 'v option"
    and put :: "'k \<Rightarrow> 'v \<Rightarrow> 'd \<Rightarrow> 'd"
    and pop :: "'k \<Rightarrow> 'd \<Rightarrow> 'd"
  assumes get_put: "get (put k v d) = (get d)(k \<mapsto> v)"
    and get_pop: "get (pop k d) = (get d)(k := None)"
begin

definition keys :: "'d \<Rightarrow> 'k set" where
  "keys d = {k. get d k \<noteq> None}"

lemma keys_put: "keys (put k v d) = insert k (keys d)"
  by (auto simp: keys_def get_put)

lemma keys_pop: "keys (pop k d) = keys d - {k}"
  by (auto simp: keys_def get_pop)

lemma put_other: "j \<noteq> k \<Longrightarrow> get (put k v d) j = get d j"
  by (simp add: get_put)

lemma pop_other: "j \<noteq> k \<Longrightarrow> get (pop k d) j = get d j"
  by (simp add: get_pop)

lemma pop_gone: "k \<notin> keys (pop k d)"
  by (simp add: keys_def get_pop)

end

interpretation dict: keyed_store map_of AList.update AList.delete
  by unfold_locales (simp_all add: update_conv' delete_conv' fun_upd_def restrict_map_def fun_eq_iff)

lemma dict_keys: "dict.keys d = fst ` set d"
  unfolding dict.keys_def by (auto simp: map_of_eq_None_iff)

lemma keys_update [simp]: "fst ` set (AList.update k v d) = insert k (fst ` set d)"
  using dict.keys_put [of k v d] by (simp add: dict_keys)

lemma keys_delete [simp]: "fst ` set (AList.delete k d) = fst ` set d - {k}"
  using dict.keys_pop [of k d] by (simp add: dict_keys)

lemma map_of_key: "map_of d k = Some v \<Longrightarrow> k \<in> fst ` set d"
  by (force dest: map_of_SomeD)

text \<open>The first error of a sequence of checks.\<close>

fun first_error :: "'e option list \<Rightarrow> 'e option" where
  "first_error [] = None"
| "first_error (None # es) = first_error es"
| "first_error (Some e # es) = Some e"

lemma first_error_None_iff [simp]: "first_error es = None \<longleftrightarrow> (\<forall>e \<in> set es. e = None)"
  by (induction es rule: first_error.induct) auto

lemma first_error_Cons:
  "first_error (x # es) = (case x of None \<Rightarrow> first_error es | Some e \<Rightarrow> Some e)"
  by (cases x) simp_all

lemma first_error_append:
  "first_error (xs @ ys) = (case first_error xs of None \<Rightarrow> first_error ys | Some e \<Rightarrow> Some e)"
  by (induction xs rule: first_error.induct) simp_all

end
