(* ===== verification/Conditions.thy ===== *)
theory Conditions
  imports Prelude
begin

text \<open>
  \<open>guardrail/policy/conditions.py\<close>: the rewriting of a workbook condition into Python
  syntax (\<open>normalize\<close>, \<open>prepare_condition\<close>), the parse of the result and the
  closed evaluator (\<open>evaluate_condition\<close>).

  The parse is Python's \<open>ast.parse(.., mode="eval")\<close> restricted to the grammar the
  workbook uses: names, integer and string literals, the constants, parentheses,
  \<open>not\<close>, \<open>and\<close>, \<open>or\<close> and chained comparisons.  Text outside it does not
  parse here.  The nesting depth of the parser is bounded by the number of tokens, which is
  enough because every level of nesting consumes a parenthesis.
\<close>

section \<open>Rewriting\<close>

definition is_word_char :: "char \<Rightarrow> bool" where
  "is_word_char c =
     ((CHR ''a'' \<le> c \<and> c \<le> CHR ''z'') \<or> (CHR ''A'' \<le> c \<and> c \<le> CHR ''Z'') \<or>
      (CHR ''0'' \<le> c \<and> c \<le> CHR ''9'') \<or> c = CHR ''_'')"

definition is_digit_char :: "char \<Rightarrow> bool" where
  "is_digit_char c = (CHR ''0'' \<le> c \<and> c \<le> CHR ''9'')"

definition is_space_char :: "char \<Rightarrow> bool" where
  "is_space_char c = (c \<in> {CHR '' '', CHR 0x09, CHR 0x0A, CHR 0x0B, CHR 0x0C, CHR 0x0D})"

fun starts_word :: "string \<Rightarrow> bool" where
  "starts_word [] = False"
| "starts_word (c # _) = is_word_char c"

definition strip :: "string \<Rightarrow> string" where
  "strip s = rev (dropWhile is_space_char (rev (dropWhile is_space_char s)))"

fun starts_with :: "string \<Rightarrow> string \<Rightarrow> bool" where
  "starts_with [] _ = True"
| "starts_with (_ # _) [] = False"
| "starts_with (a # p) (b # s) = (a = b \<and> starts_with p s)"

text \<open>\<open>re.sub(r"\bW\b", R, s)\<close> for a non-empty word \<open>W\<close>; \<open>prev\<close> says whether
  the character before the text is a word character.\<close>

fun sub_word :: "string \<Rightarrow> string \<Rightarrow> bool \<Rightarrow> string \<Rightarrow> string" where
  "sub_word w r prev [] = []"
| "sub_word w r prev (c # cs) =
     (let rest = drop (length w - 1) cs in
      if \<not> prev \<and> starts_with w (c # cs) \<and> \<not> starts_word rest
      then r @ sub_word w r True rest
      else c # sub_word w r (is_word_char c) cs)"

text \<open>A match of \<open>speed\s*<\s*3\b\<close> at the start of the text: what follows it.\<close>

definition match_speed_lt_3 :: "string \<Rightarrow> string option" where
  "match_speed_lt_3 s =
     (if starts_with ''speed'' s
      then (case dropWhile is_space_char (drop 5 s) of
              c # u \<Rightarrow>
                (if c = CHR ''<''
                 then (case dropWhile is_space_char u of
                         d # v \<Rightarrow> if d = CHR ''3'' \<and> \<not> starts_word v then Some v else None
                       | [] \<Rightarrow> None)
                 else None)
            | [] \<Rightarrow> None)
      else None)"

lemma match_speed_lt_3_shorter: "match_speed_lt_3 s = Some v \<Longrightarrow> length v < length s"
proof -
  assume a: "match_speed_lt_3 s = Some v"
  then obtain c u where u: "dropWhile is_space_char (drop 5 s) = c # u"
    and d: "dropWhile is_space_char u = CHR ''3'' # v"
    by (auto simp: match_speed_lt_3_def split: if_splits list.splits)
  have "length (c # u) \<le> length s"
    using length_dropWhile_le [of is_space_char "drop 5 s"] by (simp add: u)
  moreover have "length (CHR ''3'' # v) \<le> length u"
    using length_dropWhile_le [of is_space_char u] by (simp add: d)
  ultimately show ?thesis by simp
qed

function sub_speed_lt_3 :: "string \<Rightarrow> string" where
  "sub_speed_lt_3 s =
     (case match_speed_lt_3 s of
        Some v \<Rightarrow> ''speed == 0'' @ sub_speed_lt_3 v
      | None \<Rightarrow> (case s of [] \<Rightarrow> [] | c # cs \<Rightarrow> c # sub_speed_lt_3 cs))"
  by pat_completeness auto
termination
  by (relation "measure length") (auto dest: match_speed_lt_3_shorter)

declare sub_speed_lt_3.simps [simp del]

definition normalize :: "string \<Rightarrow> string" where
  "normalize cond =
     (let c0 = strip cond;
          c1 = sub_word ''AND'' ''and'' False c0;
          c2 = sub_word ''OR'' ''or'' False c1;
          c3 = sub_word ''NOT'' ''not'' False c2;
          c4 = sub_word ''TRUE'' ''True'' False c3;
          c5 = sub_word ''FALSE'' ''False'' False c4
      in sub_speed_lt_3 c5)"

definition MANUAL_REWRITES :: "string dict" where
  "MANUAL_REWRITES =
    [(''R042'', ''speed == 0 and gear != '' @ [CHR 0x27] @ ''D'' @ [CHR 0x27]),
     (''R044'', ''speed == 0''),
     (''R052'', ''rain_sensor == True and speed <= 80''),
     (''R061'', ''rain_sensor == True and speed <= 80''),
     (''R073'', ''hand_off_wheel_duration_seconds > 15''),
     (''R108'', ''kb_has_feature == True''),
     (''R109'', ''kb_has_feature == False'')]"

definition prepare_condition :: "string \<Rightarrow> string \<Rightarrow> string" where
  "prepare_condition rule_id raw_condition =
     (case map_of MANUAL_REWRITES rule_id of
        Some c \<Rightarrow> c
      | None \<Rightarrow> normalize raw_condition)"

section \<open>Parsing\<close>

datatype token = TNum int | TStr string | TName string | TOp string

fun digits_val :: "int \<Rightarrow> string \<Rightarrow> int" where
  "digits_val acc [] = acc"
| "digits_val acc (c # cs) = digits_val (10 * acc + (of_char c - 48)) cs"

text \<open>Python reads no number with a leading zero (other than a zero) and none of more than 4300 digits.\<close>

definition bad_digits :: "char \<Rightarrow> string \<Rightarrow> bool" where
  "bad_digits c ds \<longleftrightarrow> c = CHR ''0'' \<and> list_ex (\<lambda>d. d \<noteq> CHR ''0'') ds \<or> 4300 \<le> length ds"

function lex :: "string \<Rightarrow> token list option" where
  "lex [] = Some []"
| "lex (c # cs) =
     (if is_space_char c then lex cs
      else if is_digit_char c then
        (let ds = takeWhile is_digit_char cs; rest = dropWhile is_digit_char cs in
         if starts_word rest \<or> starts_with ''.'' rest \<or> bad_digits c ds then None
         else map_option (\<lambda>ts. TNum (digits_val 0 (c # ds)) # ts) (lex rest))
      else if is_word_char c then
        map_option (\<lambda>ts. TName (c # takeWhile is_word_char cs) # ts)
          (lex (dropWhile is_word_char cs))
      else if c = CHR 0x27 then
        (let body = takeWhile (\<lambda>d. d \<noteq> CHR 0x27) cs in
         case dropWhile (\<lambda>d. d \<noteq> CHR 0x27) cs of
           [] \<Rightarrow> None
         | _ # rest \<Rightarrow>
             if CHR 0x5C \<in> set body then None
             else map_option (\<lambda>ts. TStr body # ts) (lex rest))
      else if c \<in> {CHR ''='', CHR ''!'', CHR ''<'', CHR ''>''} then
        (if starts_with ''='' cs then map_option (\<lambda>ts. TOp [c, CHR ''=''] # ts) (lex (tl cs))
         else map_option (\<lambda>ts. TOp [c] # ts) (lex cs))
      else if c \<in> {CHR ''('', CHR '')''} then map_option (\<lambda>ts. TOp [c] # ts) (lex cs)
      else None)"
  by pat_completeness auto
termination
proof (relation "measure length", goal_cases)
  case (5 c cs body x rest)
  have "length (dropWhile (\<lambda>d. d \<noteq> CHR 0x27) cs) \<le> length cs"
    by (rule length_dropWhile_le)
  with 5 show ?case by simp
qed (auto simp: le_imp_less_Suc length_dropWhile_le)

declare lex.simps [simp del]

datatype cmpop = Eq | NotEq | Lt | LtE | Gt | GtE | Is | IsNot | In | NotIn

datatype expr =
    Constant pyval
  | Name string
  | BoolOp bool "expr list"  \<comment> \<open>\<open>True\<close> for \<open>and\<close>, \<open>False\<close> for \<open>or\<close>\<close>
  | NotOp expr
  | Compare expr "(cmpop \<times> expr) list"
  | Unsupported string  \<comment> \<open>any other node, with the name of its class\<close>

definition keywords_py :: "string list" where
  "keywords_py =
    [''False'', ''None'', ''True'', ''and'', ''as'', ''assert'', ''async'', ''await'', ''break'',
     ''class'', ''continue'', ''def'', ''del'', ''elif'', ''else'', ''except'', ''finally'', ''for'',
     ''from'', ''global'', ''if'', ''import'', ''in'', ''is'', ''lambda'', ''nonlocal'', ''not'',
     ''or'', ''pass'', ''raise'', ''return'', ''try'', ''while'', ''with'', ''yield'']"

definition symbol_ops :: "(string \<times> cmpop) list" where
  "symbol_ops =
    [(''=='', Eq), (''!='', NotEq), (''<'', Lt), (''<='', LtE), (''>'', Gt), (''>='', GtE)]"

text \<open>A comparison operator at the head of the tokens, and the tokens after it.\<close>

fun cmp_token :: "token list \<Rightarrow> (cmpop \<times> token list) option" where
  "cmp_token (TOp s # ts) = map_option (\<lambda>c. (c, ts)) (map_of symbol_ops s)"
| "cmp_token (TName s # ts) =
     (if s = ''is'' then
        (case ts of
           TName t # us \<Rightarrow> if t = ''not'' then Some (IsNot, us) else Some (Is, ts)
         | _ \<Rightarrow> Some (Is, ts))
      else if s = ''in'' then Some (In, ts)
      else if s = ''not'' then
        (case ts of
           TName t # us \<Rightarrow> if t = ''in'' then Some (NotIn, us) else None
         | _ \<Rightarrow> None)
      else None)"
| "cmp_token _ = None"

type_synonym 'a parser = "token list \<Rightarrow> ('a \<times> token list) option"

text \<open>
  The grammar, one function per precedence level.  \<open>p\<close> is the parser of a whole
  expression, used between parentheses; \<open>p_expr\<close> ties the knot, its argument being one more
  than the parentheses that may still be opened.  The loops over \<open>or\<close>, \<open>and\<close> and comparison operators consume a
  token in each turn, so the number of tokens bounds them.
\<close>

definition p_atom :: "expr parser \<Rightarrow> expr parser" where
  "p_atom p ts =
     (case ts of
        TNum i # us \<Rightarrow> Some (Constant (PInt i), us)
      | TStr s # us \<Rightarrow> Some (Constant (PStr s), us)
      | TName s # us \<Rightarrow>
          (if s = ''True'' then Some (Constant (PBool True), us)
           else if s = ''False'' then Some (Constant (PBool False), us)
           else if s = ''None'' then Some (Constant PNone, us)
           else if s \<in> set keywords_py then None
           else Some (Name s, us))
      | TOp s # us \<Rightarrow>
          (if s = ''('' then
             (case p us of
                Some (e, TOp t # vs) \<Rightarrow> if t = '')'' then Some (e, vs) else None
              | _ \<Rightarrow> None)
           else None)
      | [] \<Rightarrow> None)"

primrec p_cmp_tail :: "expr parser \<Rightarrow> nat \<Rightarrow> (cmpop \<times> expr) list parser" where
  "p_cmp_tail p 0 ts = Some ([], ts)"
| "p_cmp_tail p (Suc n) ts =
     (case cmp_token ts of
        None \<Rightarrow> Some ([], ts)
      | Some (c, us) \<Rightarrow>
          (case p_atom p us of
             None \<Rightarrow> None
           | Some (e, vs) \<Rightarrow>
               map_option (\<lambda>(cs, ws). ((c, e) # cs, ws)) (p_cmp_tail p n vs)))"

definition p_cmp :: "expr parser \<Rightarrow> expr parser" where
  "p_cmp p ts =
     (case p_atom p ts of
        None \<Rightarrow> None
      | Some (e, us) \<Rightarrow>
          map_option (\<lambda>(cs, vs). (if cs = [] then e else Compare e cs, vs))
            (p_cmp_tail p (length us) us))"

fun p_not :: "expr parser \<Rightarrow> expr parser" where
  "p_not p (TName s # us) =
     (if s = ''not'' then map_option (\<lambda>(e, vs). (NotOp e, vs)) (p_not p us)
      else p_cmp p (TName s # us))"
| "p_not p ts = p_cmp p ts"

primrec p_tail :: "string \<Rightarrow> expr parser \<Rightarrow> nat \<Rightarrow> expr list parser" where
  "p_tail sep q 0 ts = Some ([], ts)"
| "p_tail sep q (Suc n) ts =
     (case ts of
        TName s # us \<Rightarrow>
          (if s = sep then
             (case q us of
                None \<Rightarrow> None
              | Some (e, vs) \<Rightarrow> map_option (\<lambda>(es, ws). (e # es, ws)) (p_tail sep q n vs))
           else Some ([], ts))
      | _ \<Rightarrow> Some ([], ts))"

definition p_chain :: "string \<Rightarrow> bool \<Rightarrow> expr parser \<Rightarrow> expr parser" where
  "p_chain sep is_and q ts =
     (case q ts of
        None \<Rightarrow> None
      | Some (e, us) \<Rightarrow>
          map_option (\<lambda>(es, vs). (if es = [] then e else BoolOp is_and (e # es), vs))
            (p_tail sep q (length us) us))"

definition p_and :: "expr parser \<Rightarrow> expr parser" where
  "p_and p = p_chain ''and'' True (p_not p)"

definition p_or :: "expr parser \<Rightarrow> expr parser" where
  "p_or p = p_chain ''or'' False (p_and p)"

primrec p_expr :: "nat \<Rightarrow> expr parser" where
  "p_expr 0 = (\<lambda>_. None)"
| "p_expr (Suc depth) = p_or (p_expr depth)"

text \<open>
  The texts read are single lines: a NUL, a line end and the other control characters (but the tab)
  are errors, and so is leading blank space, an unexpected indent.  Parentheses may nest to the
  200 levels of Python's tokenizer.
\<close>

definition source_line :: "string \<Rightarrow> bool" where
  "source_line s \<longleftrightarrow> \<not> starts_with '' '' s \<and> \<not> starts_with [CHR 0x09] s \<and>
     list_all (\<lambda>c. CHR '' '' \<le> c \<or> c = CHR 0x09) s"

definition MAX_NESTING :: nat where
  "MAX_NESTING = 200"

definition ast_parse :: "string \<Rightarrow> expr option" where
  "ast_parse s =
     (if \<not> source_line s then None
      else
        (case lex s of
           None \<Rightarrow> None
         | Some ts \<Rightarrow>
             (case p_expr (Suc (min (length ts) MAX_NESTING)) ts of
                Some (e, []) \<Rightarrow> Some e
              | _ \<Rightarrow> None)))"

section \<open>Evaluation\<close>

datatype cond_exn = ConditionError string | PyTypeError

definition option_exn :: "bool option \<Rightarrow> cond_exn + bool" where
  "option_exn r = (case r of None \<Rightarrow> Inl PyTypeError | Some b \<Rightarrow> Inr b)"

text \<open>\<open>_COMPARE_OPERATORS.get(type(op))\<close>, \<open>None\<close> for an operator not in the table.\<close>

fun compare_operator :: "cmpop \<Rightarrow> (pyval \<Rightarrow> pyval \<Rightarrow> cond_exn + bool) option" where
  "compare_operator Eq = Some (\<lambda>a b. Inr (py_eq a b))"
| "compare_operator NotEq = Some (\<lambda>a b. Inr (\<not> py_eq a b))"
| "compare_operator Lt = Some (\<lambda>a b. option_exn (py_rel OLt a b))"
| "compare_operator LtE = Some (\<lambda>a b. option_exn (py_rel OLe a b))"
| "compare_operator Gt = Some (\<lambda>a b. option_exn (py_rel OGt a b))"
| "compare_operator GtE = Some (\<lambda>a b. option_exn (py_rel OGe a b))"
| "compare_operator Is = Some (\<lambda>a b. option_exn (py_is a b))"
| "compare_operator IsNot = Some (\<lambda>a b. option_exn (map_option Not (py_is a b)))"
| "compare_operator _ = None"

fun visit :: "payload \<Rightarrow> expr \<Rightarrow> cond_exn + pyval"
  and visit_bools :: "payload \<Rightarrow> expr list \<Rightarrow> cond_exn + bool list"
  and visit_chain :: "payload \<Rightarrow> pyval \<Rightarrow> (cmpop \<times> expr) list \<Rightarrow> cond_exn + bool" where
  "visit vals (Constant v) = Inr v"
| "visit vals (Name x) =
     (case map_of vals x of
        None \<Rightarrow> Inl (ConditionError (''unknown condition variable: '' @ x))
      | Some v \<Rightarrow> Inr v)"
| "visit vals (BoolOp is_and es) =
     (case visit_bools vals es of
        Inl x \<Rightarrow> Inl x
      | Inr bs \<Rightarrow> Inr (PBool (if is_and then list_all id bs else list_ex id bs)))"
| "visit vals (NotOp e) =
     (case visit vals e of Inl x \<Rightarrow> Inl x | Inr v \<Rightarrow> Inr (PBool (\<not> py_truth v)))"
| "visit vals (Compare l cs) =
     (case visit vals l of
        Inl x \<Rightarrow> Inl x
      | Inr v \<Rightarrow> (case visit_chain vals v cs of Inl x \<Rightarrow> Inl x | Inr b \<Rightarrow> Inr (PBool b)))"
| "visit vals (Unsupported k) = Inl (ConditionError (''unsupported condition syntax: '' @ k))"
| "visit_bools vals [] = Inr []"
| "visit_bools vals (e # es) =
     (case visit vals e of
        Inl x \<Rightarrow> Inl x
      | Inr v \<Rightarrow>
          (case visit_bools vals es of
             Inl x \<Rightarrow> Inl x
           | Inr bs \<Rightarrow> Inr (py_truth v # bs)))"
| "visit_chain vals left [] = Inr True"
| "visit_chain vals left ((c, e) # rest) =
     (case compare_operator c of
        None \<Rightarrow> Inl (ConditionError (''unsupported comparison: '' @ (if c = In then ''In'' else ''NotIn'')))
      | Some operation \<Rightarrow>
          (case visit vals e of
             Inl x \<Rightarrow> Inl x
           | Inr right \<Rightarrow>
               (case operation left right of
                  Inl x \<Rightarrow> Inl x
                | Inr b \<Rightarrow> if b then visit_chain vals right rest else Inr False)))"

definition evaluate_condition :: "string \<Rightarrow> payload \<Rightarrow> cond_exn + bool" where
  "evaluate_condition condition vals =
     (case ast_parse condition of
        None \<Rightarrow> Inl (ConditionError (''cannot parse condition '' @ repr_str condition))
      | Some e \<Rightarrow> (case visit vals e of Inl x \<Rightarrow> Inl x | Inr v \<Rightarrow> Inr (py_truth v)))"

end
