(* ===== verification/PolicyState.thy ===== *)
theory PolicyState
  imports Prelude
begin

text \<open>
  \<open>guardrail/policy/state.py\<close>: the policy's vehicle state.  The class is a frozen
  dataclass whose annotations Python does not enforce, so a field holds any value;
  \<open>well_typed\<close> says that each field has the type it is annotated with.
  \<open>as_condition_values\<close> is the environment in which conditions are evaluated, and
  \<open>from_partial\<close> completes a partial dictionary onto the defaults.
\<close>

record vstate =
  gear :: pyval
  speed :: pyval
  rain_sensor :: pyval
  ambient_light :: pyval
  battery_pct :: pyval
  avh :: pyval
  epb :: pyval
  camp_mode_active :: pyval
  pet_mode_active :: pyval
  valet_mode_active :: pyval
  profile :: pyval
  autopark_state :: pyval
  acc_state :: pyval
  hand_off_wheel_duration_seconds :: pyval
  fog_light :: pyval
  hazard_light :: pyval
  lowbeam_mode :: pyval
  esc :: pyval
  door_lock_state :: pyval

definition STATE_DEFAULTS :: payload where
  "STATE_DEFAULTS =
    [(''gear'', PStr ''P''),
     (''speed'', PInt 0),
     (''rain_sensor'', PBool False),
     (''ambient_light'', PStr ''day''),
     (''battery_pct'', PInt 100),
     (''avh'', PBool True),
     (''epb'', PBool True),
     (''camp_mode_active'', PBool False),
     (''pet_mode_active'', PBool False),
     (''valet_mode_active'', PBool False),
     (''profile'', PStr ''OWNER''),
     (''autopark_state'', PStr ''INACTIVE''),
     (''acc_state'', PStr ''INACTIVE''),
     (''hand_off_wheel_duration_seconds'', PInt 0),
     (''fog_light'', PBool False),
     (''hazard_light'', PBool False),
     (''lowbeam_mode'', PStr ''Off''),
     (''esc'', PBool True),
     (''door_lock_state'', PStr ''locked'')]"

definition VehicleState_default :: vstate where
  "VehicleState_default =
    \<lparr>gear = PStr ''P'',
     speed = PInt 0,
     rain_sensor = PBool False,
     ambient_light = PStr ''day'',
     battery_pct = PInt 100,
     avh = PBool True,
     epb = PBool True,
     camp_mode_active = PBool False,
     pet_mode_active = PBool False,
     valet_mode_active = PBool False,
     profile = PStr ''OWNER'',
     autopark_state = PStr ''INACTIVE'',
     acc_state = PStr ''INACTIVE'',
     hand_off_wheel_duration_seconds = PInt 0,
     fog_light = PBool False,
     hazard_light = PBool False,
     lowbeam_mode = PStr ''Off'',
     esc = PBool True,
     door_lock_state = PStr ''locked''\<rparr>"

definition REQUEST_PARAMS :: "string list" where
  "REQUEST_PARAMS = [''target_angle'', ''kb_has_feature'']"

definition CONDITION_VARIABLES :: "string list" where
  "CONDITION_VARIABLES = map fst STATE_DEFAULTS @ REQUEST_PARAMS"

definition as_condition_values :: "vstate \<Rightarrow> payload" where
  "as_condition_values s =
    [(''gear'', gear s),
     (''speed'', speed s),
     (''rain_sensor'', rain_sensor s),
     (''ambient_light'', ambient_light s),
     (''battery_pct'', battery_pct s),
     (''avh'', avh s),
     (''epb'', epb s),
     (''camp_mode_active'', camp_mode_active s),
     (''pet_mode_active'', pet_mode_active s),
     (''valet_mode_active'', valet_mode_active s),
     (''profile'', profile s),
     (''autopark_state'', autopark_state s),
     (''acc_state'', acc_state s),
     (''hand_off_wheel_duration_seconds'', hand_off_wheel_duration_seconds s),
     (''fog_light'', fog_light s),
     (''hazard_light'', hazard_light s),
     (''lowbeam_mode'', lowbeam_mode s),
     (''esc'', esc s),
     (''door_lock_state'', door_lock_state s)]"

text \<open>Assignment of one field by name, as keyword arguments of the constructor and of
  \<open>dataclasses.replace\<close> do; \<open>None\<close> for a name that is no field.\<close>

definition field_setters :: "(string \<times> (pyval \<Rightarrow> vstate \<Rightarrow> vstate)) list" where
  "field_setters =
    [(''gear'', \<lambda>v. gear_update (\<lambda>_. v)),
     (''speed'', \<lambda>v. speed_update (\<lambda>_. v)),
     (''rain_sensor'', \<lambda>v. rain_sensor_update (\<lambda>_. v)),
     (''ambient_light'', \<lambda>v. ambient_light_update (\<lambda>_. v)),
     (''battery_pct'', \<lambda>v. battery_pct_update (\<lambda>_. v)),
     (''avh'', \<lambda>v. avh_update (\<lambda>_. v)),
     (''epb'', \<lambda>v. epb_update (\<lambda>_. v)),
     (''camp_mode_active'', \<lambda>v. camp_mode_active_update (\<lambda>_. v)),
     (''pet_mode_active'', \<lambda>v. pet_mode_active_update (\<lambda>_. v)),
     (''valet_mode_active'', \<lambda>v. valet_mode_active_update (\<lambda>_. v)),
     (''profile'', \<lambda>v. profile_update (\<lambda>_. v)),
     (''autopark_state'', \<lambda>v. autopark_state_update (\<lambda>_. v)),
     (''acc_state'', \<lambda>v. acc_state_update (\<lambda>_. v)),
     (''hand_off_wheel_duration_seconds'', \<lambda>v. hand_off_wheel_duration_seconds_update (\<lambda>_. v)),
     (''fog_light'', \<lambda>v. fog_light_update (\<lambda>_. v)),
     (''hazard_light'', \<lambda>v. hazard_light_update (\<lambda>_. v)),
     (''lowbeam_mode'', \<lambda>v. lowbeam_mode_update (\<lambda>_. v)),
     (''esc'', \<lambda>v. esc_update (\<lambda>_. v)),
     (''door_lock_state'', \<lambda>v. door_lock_state_update (\<lambda>_. v))]"

definition set_field :: "string \<Rightarrow> pyval \<Rightarrow> vstate \<Rightarrow> vstate option" where
  "set_field k v s = map_option (\<lambda>f. f v s) (map_of field_setters k)"

fun set_fields :: "payload \<Rightarrow> vstate \<Rightarrow> vstate option" where
  "set_fields [] s = Some s"
| "set_fields ((k, v) # kvs) s =
     (case set_field k v s of None \<Rightarrow> None | Some t \<Rightarrow> set_fields kvs t)"

definition field_names :: "string list" where
  "field_names = map fst STATE_DEFAULTS"

text \<open>\<open>from_partial\<close>: \<open>Inl\<close> carries the sorted unknown keys of the \<open>ValueError\<close>.\<close>

definition from_partial :: "payload \<Rightarrow> string list + vstate" where
  "from_partial overrides =
     (let data = filter (\<lambda>(k, _). k \<in> set field_names) overrides;
          unknown = filter (\<lambda>k. k \<notin> set field_names \<and> k \<notin> set REQUEST_PARAMS)
                      (map fst overrides)
      in if unknown \<noteq> [] then Inl (sort (remdups unknown))
         else (case set_fields data VehicleState_default of
                 Some s \<Rightarrow> Inr s
               | None \<Rightarrow> Inl []))"

section \<open>Fields and the environment\<close>

lemma field_names_eq [simp]: "map fst (as_condition_values s) = field_names"
  by (simp add: as_condition_values_def field_names_def STATE_DEFAULTS_def)

lemma map_fst_field_setters: "map fst field_setters = field_names"
  by (simp add: field_setters_def field_names_def STATE_DEFAULTS_def)

lemma set_field_defined_iff: "(\<exists>t. set_field k v s = Some t) \<longleftrightarrow> k \<in> set field_names"
  using map_of_eq_None_iff [of field_setters k] map_fst_field_setters
  by (auto simp: set_field_def simp flip: set_map)

lemma field_setters_update:
  "\<forall>(k, f) \<in> set field_setters.
     as_condition_values (f v s) = AList.update k v (as_condition_values s)"
  by (simp add: field_setters_def as_condition_values_def)

lemma set_field_update:
  assumes "set_field k v s = Some t"
  shows "as_condition_values t = AList.update k v (as_condition_values s)"
  using assms field_setters_update [of v s] by (auto simp: set_field_def dest: map_of_SomeD)

lemma map_of_set_field:
  assumes "set_field k v s = Some t"
  shows "map_of (as_condition_values t) = (map_of (as_condition_values s))(k \<mapsto> v)"
  by (simp add: set_field_update [OF assms] update_conv')

lemma map_of_set_fields:
  "set_fields kvs s = Some t \<Longrightarrow> distinct (map fst kvs) \<Longrightarrow>
   map_of (as_condition_values t) = map_of (as_condition_values s) ++ map_of kvs"
proof (induction kvs arbitrary: s)
  case Nil
  then show ?case by simp
next
  case (Cons kv kvs)
  obtain k v where kv: "kv = (k, v)" by fastforce
  with Cons.prems obtain u where u: "set_field k v s = Some u" "set_fields kvs u = Some t"
    by (auto split: option.splits)
  let ?m = "map_of (as_condition_values s)"
  from Cons.prems kv have k: "map_of kvs k = None" by (simp add: map_of_eq_None_iff)
  have "map_of (as_condition_values t) = map_of (as_condition_values u) ++ map_of kvs"
    using Cons.IH [OF u(2)] Cons.prems(2) by simp
  also have "\<dots> = ?m(k \<mapsto> v) ++ map_of kvs"
    by (simp only: map_of_set_field [OF u(1)])
  also have "\<dots> = ?m ++ map_of (kv # kvs)"
    using k by (auto simp: kv map_add_def fun_eq_iff split: option.splits)
  finally show ?case .
qed

lemma set_fields_defined:
  "set (map fst kvs) \<subseteq> set field_names \<Longrightarrow> \<exists>t. set_fields kvs s = Some t"
proof (induction kvs arbitrary: s)
  case Nil
  then show ?case by simp
next
  case (Cons kv kvs)
  obtain k v where kv: "kv = (k, v)" by fastforce
  with Cons.prems obtain u where "set_field k v s = Some u"
    using set_field_defined_iff [of k v s] by auto
  with Cons kv show ?case by auto
qed

section \<open>Typing\<close>

fun is_bool_val :: "pyval \<Rightarrow> bool" where
  "is_bool_val (PBool _) = True"
| "is_bool_val _ = False"

fun is_number_val :: "pyval \<Rightarrow> bool" where
  "is_number_val (PInt _) = True"
| "is_number_val (PFloat _) = True"
| "is_number_val _ = False"

fun is_str_val :: "pyval \<Rightarrow> bool" where
  "is_str_val (PStr _) = True"
| "is_str_val _ = False"

lemma val_type_iffs:
  "is_bool_val v \<longleftrightarrow> (\<exists>b. v = PBool b)"
  "is_str_val v \<longleftrightarrow> (\<exists>x. v = PStr x)"
  "is_number_val v \<longleftrightarrow> (\<exists>i. v = PInt i) \<or> (\<exists>f. v = PFloat f)"
  by (cases v; simp)+

definition well_typed :: "vstate \<Rightarrow> bool" where
  "well_typed s \<longleftrightarrow>
     is_str_val (gear s) \<and> is_number_val (speed s) \<and>
     (rain_sensor s = PNone \<or> is_bool_val (rain_sensor s)) \<and>
     is_str_val (ambient_light s) \<and>
     (battery_pct s = PNone \<or> is_number_val (battery_pct s)) \<and>
     (avh s = PNone \<or> is_bool_val (avh s)) \<and>
     is_bool_val (epb s) \<and> is_bool_val (camp_mode_active s) \<and>
     is_bool_val (pet_mode_active s) \<and> is_bool_val (valet_mode_active s) \<and>
     is_str_val (profile s) \<and> is_str_val (autopark_state s) \<and> is_str_val (acc_state s) \<and>
     is_number_val (hand_off_wheel_duration_seconds s) \<and>
     is_bool_val (fog_light s) \<and> is_bool_val (hazard_light s) \<and>
     is_str_val (lowbeam_mode s) \<and> is_bool_val (esc s) \<and>
     (door_lock_state s = PNone \<or> is_str_val (door_lock_state s))"

lemma well_typed_default: "well_typed VehicleState_default"
  by (simp add: well_typed_def VehicleState_default_def)

end
