(* ===== verification/Rules.thy ===== *)
theory Rules
  imports Conditions PolicyState
begin

text \<open>
  \<open>guardrail/policy/rules.py\<close>: one rule per row of the policy workbook, the set of
  rules with its index by intent and check mode, and the loader, which accepts a workbook
  only as a whole: \<open>Inl\<close> is the list of problems of the \<open>PolicyLoadError\<close>.
  Rows are what \<open>csv.DictReader\<close> returns; the digest of the canonical JSON text is the
  parameter \<open>H\<close>.
\<close>

record rule =
  rl_id :: string
  rl_intent :: string
  raw_condition :: string
  rl_check_mode :: string
  rl_outcome :: string
  prepared :: string

definition OUTCOMES :: "string list" where
  "OUTCOMES =
    [''ALLOW'', ''BLOCK_UNSAFE'', ''BLOCK_UNAVAILABLE'', ''CONFIRM'', ''NOT_VOICE_ACTIONABLE'',
     ''ANSWER'', ''UNKNOWN'']"

definition CHECK_MODES :: "string list" where
  "CHECK_MODES = [''gate'', ''monitor'']"

type_synonym rule_index = "((string \<times> string) \<times> rule list) list"

record ruleset =
  rs_rules :: "rule list"
  rs_policy_checksum :: string
  by_intent_mode :: rule_index
  rs_intents :: "string set"

section \<open>The index\<close>

text \<open>\<open>setdefault(key, []).append(r)\<close>.\<close>

definition index_add :: "rule_index \<Rightarrow> rule \<Rightarrow> rule_index" where
  "index_add d r =
     (let key = (rl_intent r, rl_check_mode r);
          old = (case map_of d key of None \<Rightarrow> [] | Some rs \<Rightarrow> rs)
      in AList.update key (old @ [r]) d)"

definition RuleSet :: "rule list \<Rightarrow> string \<Rightarrow> ruleset" where
  "RuleSet rules checksum =
     \<lparr>rs_rules = rules, rs_policy_checksum = checksum,
      by_intent_mode = foldl index_add [] rules,
      rs_intents = set (map rl_intent rules)\<rparr>"

definition for_intent :: "ruleset \<Rightarrow> string \<Rightarrow> string \<Rightarrow> rule list" where
  "for_intent rs intent mode =
     (case map_of (by_intent_mode rs) (intent, mode) of None \<Rightarrow> [] | Some l \<Rightarrow> l)"

section \<open>Loading\<close>

datatype load_problem =
    DuplicateRuleId nat string
  | BadCheckMode string string
  | BadOutcome string string
  | DoesNotParse string
  | CountMismatch string nat nat

definition EXPECTED :: "(string \<times> nat) list" where
  "EXPECTED = [(''rules'', 109), (''intents'', 53), (''gate'', 104), (''monitor'', 5)]"

type_synonym csv_row = "string dict"

definition row_field :: "csv_row \<Rightarrow> string \<Rightarrow> string" where
  "row_field row k = strip (case map_of row k of None \<Rightarrow> [] | Some s \<Rightarrow> s)"

definition row_rule :: "csv_row \<Rightarrow> rule" where
  "row_rule row =
     (let rid = row_field row ''rule_id''; cond = row_field row ''condition'' in
      \<lparr>rl_id = rid, rl_intent = row_field row ''intent'', raw_condition = cond,
       rl_check_mode = row_field row ''check_mode'', rl_outcome = row_field row ''outcome'',
       prepared = prepare_condition rid cond\<rparr>)"

definition rule_problems :: "nat \<Rightarrow> string list \<Rightarrow> rule \<Rightarrow> load_problem list" where
  "rule_problems i seen r =
     (if rl_id r \<in> set seen then [DuplicateRuleId i (rl_id r)] else []) @
     (if rl_check_mode r \<notin> set CHECK_MODES then [BadCheckMode (rl_id r) (rl_check_mode r)] else []) @
     (if rl_outcome r \<notin> set OUTCOMES then [BadOutcome (rl_id r) (rl_outcome r)] else []) @
     (if ast_parse (prepared r) = None then [DoesNotParse (rl_id r)] else [])"

definition is_rule_row :: "csv_row \<Rightarrow> bool" where
  "is_rule_row row \<longleftrightarrow> \<not> (row_field row ''rule_id'' = [] \<and> row_field row ''intent'' = [])"

text \<open>The loop over \<open>enumerate(rows, start=2)\<close>: a row with neither id nor intent is skipped.\<close>

fun load_rows ::
  "nat \<Rightarrow> string list \<Rightarrow> csv_row list \<Rightarrow> rule list \<times> load_problem list" where
  "load_rows i seen [] = ([], [])"
| "load_rows i seen (row # rows) =
     (if \<not> is_rule_row row then load_rows (Suc i) seen rows
      else (let r = row_rule row;
                (rules, problems) = load_rows (Suc i) (rl_id r # seen) rows
            in (r # rules, rule_problems i seen r @ problems)))"

definition rule_counts :: "rule list \<Rightarrow> (string \<times> nat) list" where
  "rule_counts rules =
     [(''rules'', length rules),
      (''intents'', length (remdups (map rl_intent rules))),
      (''gate'', length (filter (\<lambda>r. rl_check_mode r = ''gate'') rules)),
      (''monitor'', length (filter (\<lambda>r. rl_check_mode r = ''monitor'') rules))]"

definition count_problems :: "rule list \<Rightarrow> load_problem list" where
  "count_problems rules =
     concat (map (\<lambda>(key, expected).
       (case map_of (rule_counts rules) key of
          Some n \<Rightarrow> if n \<noteq> expected then [CountMismatch key expected n] else []
        | None \<Rightarrow> [])) EXPECTED)"

definition rules_checksum :: "(pyval \<Rightarrow> string) \<Rightarrow> rule list \<Rightarrow> string" where
  "rules_checksum H rules =
     ''sha256:'' @ H (PList (map (\<lambda>r. PList
       [PStr (rl_id r), PStr (rl_intent r), PStr (raw_condition r), PStr (rl_check_mode r),
        PStr (rl_outcome r)]) rules))"

definition load :: "(pyval \<Rightarrow> string) \<Rightarrow> csv_row list \<Rightarrow> load_problem list + ruleset" where
  "load H rows =
     (let (rules, row_probs) = load_rows 2 [] rows;
          problems = row_probs @ count_problems rules
      in if problems \<noteq> [] then Inl problems
         else Inr (RuleSet rules (rules_checksum H rules)))"

section \<open>Lemmas\<close>

text \<open>The index is equivalent to a scan of the rules in order.\<close>

lemma index_fold:
  "(case map_of (foldl index_add d rs) (it, m) of None \<Rightarrow> [] | Some l \<Rightarrow> l) =
   (case map_of d (it, m) of None \<Rightarrow> [] | Some l \<Rightarrow> l) @
   filter (\<lambda>r. rl_intent r = it \<and> rl_check_mode r = m) rs"
proof (induction rs arbitrary: d)
  case Nil
  then show ?case by simp
next
  case (Cons r rs)
  show ?case
    by (simp add: Cons.IH) (auto simp: index_add_def Let_def update_conv' split: option.splits)
qed

lemma for_intent_RuleSet [simp]:
  "for_intent (RuleSet rs c) it m = filter (\<lambda>r. rl_intent r = it \<and> rl_check_mode r = m) rs"
  using index_fold [of "[]" rs it m] by (simp add: for_intent_def RuleSet_def)

lemma RuleSet_sel [simp]:
  "rs_rules (RuleSet rs c) = rs" "rs_policy_checksum (RuleSet rs c) = c"
  "rs_intents (RuleSet rs c) = rl_intent ` set rs"
  by (simp_all add: RuleSet_def)

lemma load_InrD:
  assumes "load H rows = Inr rs"
  obtains rules where
    "load_rows 2 [] rows = (rules, [])" and "count_problems rules = []" and
    "rs = RuleSet rules (rules_checksum H rules)"
  using assms by (auto simp: load_def Let_def split: prod.splits if_splits)

text \<open>What the loop over the rows has checked of every rule it kept.\<close>

definition rule_ok :: "rule \<Rightarrow> bool" where
  "rule_ok r \<longleftrightarrow>
     rl_check_mode r \<in> set CHECK_MODES \<and> rl_outcome r \<in> set OUTCOMES \<and>
     (\<exists>e. ast_parse (prepared r) = Some e)"

lemma rule_problems_Nil:
  "rule_problems i seen r = [] \<longleftrightarrow> rl_id r \<notin> set seen \<and> rule_ok r"
  by (auto simp: rule_problems_def rule_ok_def)

text \<open>A row list whose rules all pass, with distinct ids, loads without a problem.\<close>

lemma load_rows_complete:
  assumes "list_all rule_ok (map row_rule (filter is_rule_row rows))"
  and "distinct (map rl_id (map row_rule (filter is_rule_row rows)))"
  and "set (map rl_id (map row_rule (filter is_rule_row rows))) \<inter> set seen = {}"
  shows "load_rows i seen rows = (map row_rule (filter is_rule_row rows), [])"
  using assms
proof (induction rows arbitrary: i seen)
  case Nil
  then show ?case by simp
next
  case (Cons row rows)
  show ?case
  proof (cases "is_rule_row row")
    case False
    with Cons show ?thesis by simp
  next
    case True
    with Cons.prems have "load_rows (Suc i) (rl_id (row_rule row) # seen) rows =
        (map row_rule (filter is_rule_row rows), [])"
      by (intro Cons.IH) auto
    with True Cons.prems show ?thesis by (auto simp: Let_def rule_problems_Nil)
  qed
qed

lemma load_rows_ok:
  "load_rows i seen rows = (rules, []) \<Longrightarrow>
   list_all rule_ok rules \<and> distinct (map rl_id rules) \<and> set (map rl_id rules) \<inter> set seen = {}"
proof (induction rows arbitrary: i seen rules)
  case Nil
  then show ?case by simp
next
  case (Cons row rows)
  show ?case
  proof (cases "is_rule_row row")
    case False
    with Cons show ?thesis by simp
  next
    case True
    obtain rs ps where rec: "load_rows (Suc i) (rl_id (row_rule row) # seen) rows = (rs, ps)"
      by fastforce
    with Cons.prems True have eqs: "rules = row_rule row # rs" "ps = []"
      "rule_problems i seen (row_rule row) = []"
      by (auto simp: Let_def)
    with Cons.IH [of "Suc i" "rl_id (row_rule row) # seen" rs] rec show ?thesis
      by (auto simp: rule_problems_Nil)
  qed
qed

end
