(* ===== verification/Engine.thy ===== *)
theory Engine
  imports Rules
begin

text \<open>
  \<open>guardrail/policy/engine.py\<close>: \<open>PolicyEngine.evaluate\<close> maps an intent, a vehicle
  state and request parameters to exactly one outcome, or fails closed (\<open>dc_error\<close> set,
  no outcome).  The left side of the result is an exception other than
  \<open>ConditionError\<close>, which the engine does not catch: a comparison of values Python does
\<close>

record decision =
  dc_intent :: string
  dc_check_mode :: string
  dc_outcome :: "string option"
  dc_rule_id :: "string option"
  dc_reason_code :: string
  dc_relevant_state :: payload
  dc_error :: "string option"
  dc_matched_rule_ids :: "string list"

definition execution_allowed :: "decision \<Rightarrow> bool" where
  "execution_allowed d = (dc_outcome d = Some ''ALLOW'')"

definition is_fail_closed :: "decision \<Rightarrow> bool" where
  "is_fail_closed d = (dc_error d \<noteq> None)"

definition RULE_PRIORITY :: "nat dict" where
  "RULE_PRIORITY = [(''R034'', 10), (''R038'', 10), (''R041'', 10)]"

definition rule_priority :: "rule \<Rightarrow> nat" where
  "rule_priority r = (case map_of RULE_PRIORITY (rl_id r) of None \<Rightarrow> 0 | Some n \<Rightarrow> n)"

text \<open>The names of a condition, as \<open>ast.walk\<close> finds them.\<close>

fun expr_names :: "expr \<Rightarrow> string list" where
  "expr_names (Constant v) = []"
| "expr_names (Name x) = [x]"
| "expr_names (BoolOp a es) = concat (map expr_names es)"
| "expr_names (NotOp e) = expr_names e"
| "expr_names (Compare l cs) = expr_names l @ concat (map (\<lambda>(_, e). expr_names e) cs)"
| "expr_names (Unsupported k) = []"

definition vars_in :: "rule \<Rightarrow> string list" where
  "vars_in r = (case ast_parse (prepared r) of None \<Rightarrow> [] | Some e \<Rightarrow> expr_names e)"

definition relevant :: "rule list \<Rightarrow> payload \<Rightarrow> payload" where
  "relevant rules vals =
     (let keys = sort (remdups (concat (map vars_in rules)))
      in concat (map (\<lambda>k. case map_of vals k of None \<Rightarrow> [] | Some v \<Rightarrow> [(k, v)]) keys))"

definition fail :: "string \<Rightarrow> string \<Rightarrow> string \<Rightarrow> string \<Rightarrow> payload \<Rightarrow> decision" where
  "fail intent mode code message relevant_state =
     \<lparr>dc_intent = intent, dc_check_mode = mode, dc_outcome = None, dc_rule_id = None,
      dc_reason_code = code, dc_relevant_state = relevant_state, dc_error = Some message,
      dc_matched_rule_ids = []\<rparr>"

text \<open>The loop that collects the matching rules; it stops at the first exception.  The
  message of a \<open>ConditionError\<close> is prefixed with the rule, as the handler reports it.\<close>

fun matching_rules :: "rule list \<Rightarrow> payload \<Rightarrow> cond_exn + rule list" where
  "matching_rules [] vals = Inr []"
| "matching_rules (r # rs) vals =
     (case evaluate_condition (prepared r) vals of
        Inl (ConditionError m) \<Rightarrow> Inl (ConditionError (rl_id r @ '': '' @ m))
      | Inl PyTypeError \<Rightarrow> Inl PyTypeError
      | Inr b \<Rightarrow>
          (case matching_rules rs vals of
             Inl x \<Rightarrow> Inl x
           | Inr ms \<Rightarrow> Inr (if b then r # ms else ms)))"

text \<open>The request parameters are merged in order; the first unknown one stops the merge.\<close>

fun merge_params :: "payload \<Rightarrow> payload \<Rightarrow> string + payload" where
  "merge_params vals [] = Inr vals"
| "merge_params vals ((k, v) # ps) =
     (if k \<notin> set CONDITION_VARIABLES then Inl k
      else merge_params (AList.update k v vals) ps)"

definition top_priority :: "rule list \<Rightarrow> nat" where
  "top_priority rs = fold max (map rule_priority rs) 0"

definition decide :: "string \<Rightarrow> string \<Rightarrow> payload \<Rightarrow> rule list \<Rightarrow> rule \<Rightarrow> string \<Rightarrow> decision" where
  "decide intent mode vals matches chosen note =
     \<lparr>dc_intent = intent, dc_check_mode = mode, dc_outcome = Some (rl_outcome chosen),
      dc_rule_id = Some (rl_id chosen),
      dc_reason_code = ''POLICY_'' @ rl_outcome chosen @ note,
      dc_relevant_state = relevant matches vals, dc_error = None,
      dc_matched_rule_ids = map rl_id matches\<rparr>"

text \<open>What the engine does with the non-empty list of matching rules.\<close>

definition precedence_note :: "rule list \<Rightarrow> string" where
  "precedence_note suppressed =
     '' (precedence over '' @ join_str '', '' (map rl_id suppressed) @ '')''"

definition resolve_matches ::
  "string \<Rightarrow> string \<Rightarrow> payload \<Rightarrow> rule list \<Rightarrow> decision" where
  "resolve_matches intent mode vals matches =
     (if length (remdups (map rl_outcome matches)) > 1 then
        (let top = top_priority matches;
             winners = filter (\<lambda>r. rule_priority r = top) matches;
             suppressed = filter (\<lambda>r. r \<notin> set winners) matches
         in if top = 0 \<or> length (remdups (map rl_outcome winners)) > 1
            then fail intent mode ''POLICY_AMBIGUITY''
                   (''conflicting outcomes: '' @
                    join_str '', '' (map (\<lambda>r. rl_id r @ ''='' @ rl_outcome r) matches))
                   (relevant matches vals)
            else decide intent mode vals winners (hd winners) (precedence_note suppressed))
      else decide intent mode vals matches (hd matches) [])"

definition evaluate ::
  "ruleset \<Rightarrow> string \<Rightarrow> vstate \<Rightarrow> string \<Rightarrow> payload \<Rightarrow> cond_exn + decision" where
  "evaluate rs intent state mode request_params =
     (if intent \<notin> rs_intents rs
      then Inr (fail intent mode ''INTENT_NOT_IN_CATALOG'' (''intent '' @ repr_str intent @ '' has no rule in the workbook'') [])
      else let rules = for_intent rs intent mode in
        if rules = []
        then Inr (fail intent mode ''NO_RULE_FOR_PHASE'' (''intent '' @ repr_str intent @ '' has no '' @ mode @ '' rule'') [])
        else (case merge_params (as_condition_values state) request_params of
          Inl k \<Rightarrow> Inr (fail intent mode ''UNKNOWN_REQUEST_PARAM'' (''unknown request parameter '' @ repr_str k) [])
        | Inr vals \<Rightarrow>
            (case matching_rules rules vals of
               Inl (ConditionError m) \<Rightarrow> Inr (fail intent mode ''CONDITION_EVAL_ERROR'' m [])
             | Inl PyTypeError \<Rightarrow> Inl PyTypeError
             | Inr [] \<Rightarrow>
                 (if mode = ''monitor''
                  then Inr \<lparr>dc_intent = intent, dc_check_mode = mode, dc_outcome = None,
                            dc_rule_id = None, dc_reason_code = ''NO_MONITOR_TRIGGER'',
                            dc_relevant_state = relevant rules vals, dc_error = None,
                            dc_matched_rule_ids = []\<rparr>
                  else Inr (fail intent mode ''NO_MATCHING_POLICY''
                              (''no '' @ mode @ '' rule matched for '' @ repr_str intent)
                              (relevant rules vals)))
             | Inr matches \<Rightarrow> Inr (resolve_matches intent mode vals matches))))"

end
