(* ===== verification/ToolMap.thy ===== *)
theory ToolMap
  imports Prelude
begin

text \<open>
  \<open>guardrail/service/tool_map.py\<close>: the deterministic table from a tool call
  \<open>(tool, action, target, value)\<close> to an intent.  \<open>index_rules\<close> is \<open>_index\<close>, which refuses
  a duplicate or ambiguous table at import; \<open>resolve\<close> is \<open>ToolMapper.resolve\<close>, whose left
  side is the \<open>ToolMappingError\<close> (its code and detail).
\<close>

type_synonym mapping_key = "string \<times> string \<times> string \<times> string option"

record mapping_rule =
  mr_tool_name :: string
  mr_action :: string
  mr_target :: string
  mr_intent :: string
  mr_value :: "string option"

definition mr_key :: "mapping_rule \<Rightarrow> mapping_key" where
  "mr_key r = (mr_tool_name r, mr_action r, mr_target r, mr_value r)"

definition M :: "string \<Rightarrow> string \<Rightarrow> string \<Rightarrow> string \<Rightarrow> string option \<Rightarrow> mapping_rule" where
  "M tool_name action target intent val =
     \<lparr>mr_tool_name = tool_name, mr_action = action, mr_target = target, mr_intent = intent,
      mr_value = val\<rparr>"

definition DEFAULT_MAPPING_RULES :: "mapping_rule list" where
  "DEFAULT_MAPPING_RULES =
    [M ''control_access'' ''open'' ''driver_door'' ''open_door'' None,
     M ''control_access'' ''open'' ''trunk'' ''open_trunk'' None,
     M ''control_access'' ''open'' ''charge_port'' ''open_chargeport'' None,
     M ''control_access'' ''open'' ''bonnet'' ''OPEN_BONNET'' None,
     M ''control_access'' ''lock'' ''all_doors'' ''lock_doors'' None,
     M ''control_access'' ''unlock'' ''all_doors'' ''unlock_doors'' None,
     M ''control_light'' ''turn_on'' ''high_beam'' ''turnon_highbeam'' None,
     M ''control_light'' ''turn_on'' ''low_beam'' ''turnon_lowbeam'' None,
     M ''control_light'' ''turn_on'' ''left_turn_signal'' ''turnon_turnsignal_left'' None,
     M ''control_light'' ''turn_on'' ''right_turn_signal'' ''turnon_turnsignal_right'' None,
     M ''control_light'' ''turn_on'' ''hazard_light'' ''turnon_hazardlight'' None,
     M ''control_light'' ''turn_on'' ''cornering_light'' ''turnon_corneringlight'' None,
     M ''control_light'' ''turn_on'' ''interior_light'' ''turnon_interiorlight'' None,
     M ''control_light'' ''turn_off'' ''high_beam'' ''turnoff_highbeam'' None,
     M ''control_light'' ''turn_off'' ''low_beam'' ''turnoff_lowbeam'' None,
     M ''control_light'' ''turn_off'' ''left_turn_signal'' ''turnoff_turnsignal_left'' None,
     M ''control_light'' ''turn_off'' ''right_turn_signal'' ''turnoff_turnsignal_right'' None,
     M ''control_light'' ''turn_off'' ''hazard_light'' ''turnoff_hazardlight'' None,
     M ''control_light'' ''activate'' ''automatic_high_beam'' ''activate_ahb'' None,
     M ''control_cabin'' ''set'' ''wiper'' ''AD_WIPER_MAX'' (Some ''max''),
     M ''control_cabin'' ''adjust'' ''steering_wheel'' ''ad_steeringwheel'' (Some ''forward''),
     M ''control_cabin'' ''adjust'' ''steering_wheel'' ''ad_steeringwheel'' (Some ''backward''),
     M ''control_cabin'' ''adjust'' ''steering_wheel'' ''ad_steeringwheel'' (Some ''up''),
     M ''control_cabin'' ''adjust'' ''steering_wheel'' ''ad_steeringwheel'' (Some ''down''),
     M ''control_cabin'' ''adjust'' ''driver_seat_angle'' ''ad_driverseat_angle'' (Some ''forward''),
     M ''control_cabin'' ''adjust'' ''driver_seat_angle'' ''ad_driverseat_angle'' (Some ''backward''),
     M ''control_cabin'' ''adjust'' ''driver_seat_angle'' ''ad_driverseat_angle'' (Some ''up''),
     M ''control_cabin'' ''adjust'' ''driver_seat_angle'' ''ad_driverseat_angle'' (Some ''down''),
     M ''control_cabin'' ''adjust'' ''driver_seat_position'' ''ad_driverseat_pos'' (Some ''forward''),
     M ''control_cabin'' ''adjust'' ''driver_seat_position'' ''ad_driverseat_pos'' (Some ''backward''),
     M ''control_cabin'' ''adjust'' ''driver_seat_position'' ''ad_driverseat_pos'' (Some ''up''),
     M ''control_cabin'' ''adjust'' ''driver_seat_position'' ''ad_driverseat_pos'' (Some ''down''),
     M ''control_cabin'' ''fold'' ''back_seat'' ''fold_backseat'' None,
     M ''control_cabin'' ''fold'' ''mirrors'' ''fold_mirrors'' None,
     M ''control_cabin'' ''open'' ''sunroof'' ''open_sunroof'' None,
     M ''control_cabin'' ''open'' ''driver_window'' ''open_window'' None,
     M ''control_cabin'' ''open'' ''front_passenger_window'' ''open_window'' None,
     M ''control_cabin'' ''open'' ''rear_left_window'' ''open_window'' None,
     M ''control_cabin'' ''open'' ''rear_right_window'' ''open_window'' None,
     M ''control_cabin'' ''restore'' ''driver_seat_position'' ''restore_driverseat_pos'' None,
     M ''set_drive_mode'' ''set'' ''drive_mode'' ''switch_drivemode_eco'' (Some ''eco''),
     M ''set_drive_mode'' ''set'' ''drive_mode'' ''switch_drivemode_normal'' (Some ''normal''),
     M ''set_drive_mode'' ''set'' ''drive_mode'' ''switch_drivemode_sport'' (Some ''sport''),
     M ''control_transmission'' ''shift'' ''gear'' ''shift_gear_park'' (Some ''park''),
     M ''control_transmission'' ''shift'' ''gear'' ''SHIFT_GEAR_REVERSE'' (Some ''reverse''),
     M ''control_transmission'' ''activate'' ''electronic_parking_brake'' ''activate_epb'' None,
     M ''control_driver_assistance'' ''activate'' ''auto_park'' ''activate_autopark'' None,
     M ''control_driver_assistance'' ''activate'' ''adaptive_cruise_control'' ''activate_aac'' None,
     M ''control_driver_assistance'' ''activate'' ''highway_drive_assist'' ''activate_hda'' None,
     M ''control_driver_assistance'' ''activate'' ''traction_control'' ''activate_tcs'' None,
     M ''control_driver_assistance'' ''activate'' ''auto_vehicle_hold'' ''activate_avh'' None,
     M ''control_driver_assistance'' ''deactivate'' ''lane_keeping_assist'' ''turnoff_LKA'' None,
     M ''control_driver_assistance'' ''activate'' ''lane_keeping_assist'' ''turnon_LKA'' None,
     M ''control_driver_assistance'' ''deactivate'' ''electronic_stability_control'' ''deactivate_esc'' None,
     M ''control_special_mode'' ''activate'' ''creep_mode'' ''activate_creepmode'' None,
     M ''control_special_mode'' ''activate'' ''camp_mode'' ''activate_campmode'' None,
     M ''control_special_mode'' ''activate'' ''pet_mode'' ''activate_petmode'' None,
     M ''control_special_mode'' ''activate'' ''valet_mode'' ''activate_valetmode'' None,
     M ''control_ui'' ''open'' ''notification_center'' ''open_noti_center'' None,
     M ''control_ui'' ''deactivate'' ''head_up_display'' ''deactivate_hud'' None,
     M ''query_vehicle_state'' ''get'' ''current_speed'' ''get_current_speed'' None,
     M ''query_vehicle_state'' ''get'' ''battery_percentage'' ''get_battery_pct'' None,
     M ''query_vehicle_state'' ''get'' ''gear'' ''get_gear'' None,
     M ''query_vehicle_state'' ''get'' ''door_lock_status'' ''get_door_lock_status'' None,
     M ''query_vehicle_state'' ''get'' ''auto_vehicle_hold_status'' ''get_avh_status'' None,
     M ''explain_vehicle_feature'' ''explain'' ''adaptive_cruise_control'' ''explain_feature'' None,
     M ''explain_vehicle_feature'' ''explain'' ''auto_park'' ''explain_feature'' None,
     M ''explain_vehicle_feature'' ''explain'' ''auto_vehicle_hold'' ''explain_feature'' None,
     M ''explain_vehicle_feature'' ''explain'' ''automatic_high_beam'' ''explain_feature'' None,
     M ''explain_vehicle_feature'' ''explain'' ''camp_mode'' ''explain_feature'' None,
     M ''explain_vehicle_feature'' ''explain'' ''creep_mode'' ''explain_feature'' None,
     M ''explain_vehicle_feature'' ''explain'' ''electronic_parking_brake'' ''explain_feature'' None,
     M ''explain_vehicle_feature'' ''explain'' ''electronic_stability_control'' ''explain_feature'' None,
     M ''explain_vehicle_feature'' ''explain'' ''head_up_display'' ''explain_feature'' None,
     M ''explain_vehicle_feature'' ''explain'' ''highway_drive_assist'' ''explain_feature'' None,
     M ''explain_vehicle_feature'' ''explain'' ''lane_keeping_assist'' ''explain_feature'' None,
     M ''explain_vehicle_feature'' ''explain'' ''pet_mode'' ''explain_feature'' None,
     M ''explain_vehicle_feature'' ''explain'' ''traction_control'' ''explain_feature'' None,
     M ''explain_vehicle_feature'' ''explain'' ''valet_mode'' ''explain_feature'' None]"

definition QUERY_INTENTS :: "string list" where
  "QUERY_INTENTS =
     remdups (map mr_intent
       (filter (\<lambda>r. mr_tool_name r = ''query_vehicle_state'') DEFAULT_MAPPING_RULES))"

definition EXPLAIN_INTENTS :: "string list" where
  "EXPLAIN_INTENTS =
     remdups (map mr_intent
       (filter (\<lambda>r. mr_tool_name r = ''explain_vehicle_feature'') DEFAULT_MAPPING_RULES))"

definition EXPLAIN_FEATURE_TARGETS :: "string list" where
  "EXPLAIN_FEATURE_TARGETS =
     remdups (map mr_target
       (filter (\<lambda>r. mr_tool_name r = ''explain_vehicle_feature'') DEFAULT_MAPPING_RULES))"

text \<open>\<open>_index\<close>: the left side is the \<open>ToolMapReadinessError\<close>.\<close>

type_synonym mapping_table = "(mapping_key \<times> string) list"

definition repr_key :: "mapping_key \<Rightarrow> string" where
  "repr_key k = (case k of (tool, act, tgt, val) \<Rightarrow>
     ''('' @ join_str '', '' [repr_str tool, repr_str act, repr_str tgt,
        (case val of None \<Rightarrow> ''None'' | Some v \<Rightarrow> repr_str v)] @ '')'')"

fun index_from :: "mapping_table \<Rightarrow> mapping_rule list \<Rightarrow> string + mapping_table" where
  "index_from table [] = Inr table"
| "index_from table (r # rs) =
     (case map_of table (mr_key r) of
        Some existing \<Rightarrow>
          Inl ((if existing = mr_intent r then ''DUPLICATE'' else ''AMBIGUOUS'') @
               ''_MAPPING: key '' @ repr_key (mr_key r) @ '' -> '' @ repr_str existing @
               '' and '' @ repr_str (mr_intent r))
      | None \<Rightarrow> index_from (AList.update (mr_key r) (mr_intent r) table) rs)"

definition index_rules :: "mapping_rule list \<Rightarrow> string + mapping_table" where
  "index_rules rules = index_from [] rules"

definition TABLE :: mapping_table where
  "TABLE = (case index_rules DEFAULT_MAPPING_RULES of Inl _ \<Rightarrow> [] | Inr t \<Rightarrow> t)"

text \<open>\<open>isinstance(x, str) and x\<close>.\<close>

fun nonempty_str :: "pyval option \<Rightarrow> string option" where
  "nonempty_str (Some (PStr s)) = (if s = [] then None else Some s)"
| "nonempty_str _ = None"

definition tool_mapping_error :: "string \<Rightarrow> string \<Rightarrow> (string \<times> string) + 'a" where
  "tool_mapping_error code detail = Inl (code, code @ '': '' @ detail)"

definition resolve :: "mapping_table \<Rightarrow> pyval \<Rightarrow> pyval \<Rightarrow> (string \<times> string) + string" where
  "resolve table tool arguments =
     (case nonempty_str (Some tool) of
        None \<Rightarrow> tool_mapping_error ''INVALID_TOOL'' ''tool must be a non-empty string''
      | Some t \<Rightarrow>
          (case arguments of
             PDict args \<Rightarrow>
               (case nonempty_str (map_of args ''action'') of
                  None \<Rightarrow> tool_mapping_error ''INCOMPLETE_TOOL_CALL'' ''arguments.action is required''
                | Some act \<Rightarrow>
               (case nonempty_str (map_of args ''target'') of
                  None \<Rightarrow> tool_mapping_error ''INCOMPLETE_TOOL_CALL'' ''arguments.target is required''
                | Some tgt \<Rightarrow>
               (let look = (\<lambda>val. case map_of table (t, act, tgt, val) of
                              Some intent \<Rightarrow> Inr intent
                            | None \<Rightarrow> tool_mapping_error ''UNSUPPORTED_TOOL_MAPPING''
                                (''no reviewed mapping for '' @ repr_key (t, act, tgt, val)))
                in case map_of args ''value'' of
                     None \<Rightarrow> look None
                   | Some PNone \<Rightarrow> look None
                   | Some (PStr v) \<Rightarrow> look (Some v)
                   | Some _ \<Rightarrow> tool_mapping_error ''INVALID_ARGUMENTS'' ''arguments.value must be a string'')))
           | _ \<Rightarrow> tool_mapping_error ''INVALID_ARGUMENTS'' ''arguments must be an object''))"

section \<open>The table\<close>

lemma index_from_ok:
  "index_from table rs = Inr t \<longleftrightarrow>
     distinct (map mr_key rs) \<and> set (map mr_key rs) \<inter> fst ` set table = {} \<and>
     t = table @ map (\<lambda>r. (mr_key r, mr_intent r)) rs"
proof (induction rs arbitrary: table)
  case Nil
  then show ?case by auto
next
  case (Cons r rs)
  show ?case
  proof (cases "map_of table (mr_key r)")
    case None
    then have new: "mr_key r \<notin> fst ` set table" by (simp add: map_of_eq_None_iff)
    have "AList.update (mr_key r) (mr_intent r) table = table @ [(mr_key r, mr_intent r)]"
      using None by (induction table) auto
    then have "index_from table (r # rs) = Inr t \<longleftrightarrow>
        index_from (table @ [(mr_key r, mr_intent r)]) rs = Inr t"
      by (simp add: None)
    also have "\<dots> \<longleftrightarrow> distinct (map mr_key rs) \<and>
        set (map mr_key rs) \<inter> insert (mr_key r) (fst ` set table) = {} \<and>
        t = (table @ [(mr_key r, mr_intent r)]) @ map (\<lambda>r. (mr_key r, mr_intent r)) rs"
      by (simp add: Cons.IH)
    also have "\<dots> \<longleftrightarrow> distinct (map mr_key (r # rs)) \<and>
        set (map mr_key (r # rs)) \<inter> fst ` set table = {} \<and>
        t = table @ map (\<lambda>r. (mr_key r, mr_intent r)) (r # rs)"
      using new by (simp del: split_paired_All split_paired_Ex) blast
    finally show ?thesis .
  next
    case (Some x)
    then have "mr_key r \<in> fst ` set table" by (force dest: map_of_SomeD)
    with Some show ?thesis by auto
  qed
qed

lemma distinct_default_keys: "distinct (map mr_key DEFAULT_MAPPING_RULES)"
  by code_simp

lemma TABLE_eq [code]: "TABLE = map (\<lambda>r. (mr_key r, mr_intent r)) DEFAULT_MAPPING_RULES"
proof -
  have "index_rules DEFAULT_MAPPING_RULES =
        Inr (map (\<lambda>r. (mr_key r, mr_intent r)) DEFAULT_MAPPING_RULES)"
    by (simp add: index_rules_def index_from_ok distinct_default_keys)
  then show ?thesis by (simp add: TABLE_def)
qed

lemma TABLE_lookup:
  "map_of TABLE k = Some it \<longleftrightarrow> (\<exists>r \<in> set DEFAULT_MAPPING_RULES. mr_key r = k \<and> mr_intent r = it)"
proof -
  have "distinct (map fst TABLE)"
    using distinct_default_keys by (simp add: TABLE_eq comp_def)
  then have "map_of TABLE k = Some it \<longleftrightarrow> (k, it) \<in> set TABLE"
    by simp
  then show ?thesis by (auto simp: TABLE_eq)
qed

section \<open>Resolution\<close>

lemma nonempty_str_Some [simp]: "nonempty_str v = Some s \<longleftrightarrow> v = Some (PStr s) \<and> s \<noteq> []"
  by (cases v rule: nonempty_str.cases) auto

lemma resolve_InrE:
  assumes "resolve table tool arguments = Inr it"
  obtains t args act tgt val where "tool = PStr t" "arguments = PDict args"
    "map_of args ''action'' = Some (PStr act)" "map_of args ''target'' = Some (PStr tgt)"
    "val = (case map_of args ''value'' of Some (PStr v) \<Rightarrow> Some v | _ \<Rightarrow> None)"
    "map_of args ''value'' \<in> {None, Some PNone} \<or> (\<exists>v. map_of args ''value'' = Some (PStr v))"
    "map_of table (t, act, tgt, val) = Some it"
  using assms
  by (auto simp: resolve_def tool_mapping_error_def Let_def
      split: option.splits pyval.splits if_splits)

text \<open>What it means that the arguments of a call name a row of the table.\<close>

definition names_row :: "payload \<Rightarrow> mapping_rule \<Rightarrow> bool" where
  "names_row args r \<longleftrightarrow>
     map_of args ''action'' = Some (PStr (mr_action r)) \<and>
     map_of args ''target'' = Some (PStr (mr_target r)) \<and>
     (case mr_value r of
        None \<Rightarrow> map_of args ''value'' \<in> {None, Some PNone}
      | Some v \<Rightarrow> map_of args ''value'' = Some (PStr v))"

lemma rows_nonempty:
  "r \<in> set DEFAULT_MAPPING_RULES \<Longrightarrow> mr_tool_name r \<noteq> [] \<and> mr_action r \<noteq> [] \<and> mr_target r \<noteq> []"
proof -
  have "list_all (\<lambda>r. mr_tool_name r \<noteq> [] \<and> mr_action r \<noteq> [] \<and> mr_target r \<noteq> [])
          DEFAULT_MAPPING_RULES"
    by (simp add: DEFAULT_MAPPING_RULES_def M_def)
  then show "r \<in> set DEFAULT_MAPPING_RULES \<Longrightarrow> ?thesis"
    by (auto simp: list_all_iff)
qed

lemma resolve_sound:
  assumes "resolve TABLE tool arguments = Inr it"
  shows "\<exists>args. arguments = PDict args \<and>
    (\<exists>r \<in> set DEFAULT_MAPPING_RULES. tool = PStr (mr_tool_name r) \<and> names_row args r \<and> mr_intent r = it)"
proof -
  obtain t args act tgt val where *: "tool = PStr t" "arguments = PDict args"
    "map_of args ''action'' = Some (PStr act)" "map_of args ''target'' = Some (PStr tgt)"
    "val = (case map_of args ''value'' of Some (PStr v) \<Rightarrow> Some v | _ \<Rightarrow> None)"
    "map_of args ''value'' \<in> {None, Some PNone} \<or> (\<exists>v. map_of args ''value'' = Some (PStr v))"
    "map_of TABLE (t, act, tgt, val) = Some it"
    by (rule resolve_InrE [OF assms])
  obtain r where "r \<in> set DEFAULT_MAPPING_RULES" "mr_key r = (t, act, tgt, val)" "mr_intent r = it"
    using *(7) by (auto simp: TABLE_lookup)
  with *(1-6) show ?thesis
    by (intro exI [of _ args] conjI bexI [of _ r])
      (auto simp: names_row_def mr_key_def split: option.splits)
qed

lemma resolve_complete:
  assumes r: "r \<in> set DEFAULT_MAPPING_RULES" and args: "names_row args r"
  shows "resolve TABLE (PStr (mr_tool_name r)) (PDict args) = Inr (mr_intent r)"
proof -
  have "map_of TABLE (mr_tool_name r, mr_action r, mr_target r, mr_value r) = Some (mr_intent r)"
    using r by (auto simp: TABLE_lookup mr_key_def)
  with rows_nonempty [OF r] args show ?thesis
    by (cases "mr_value r")
      (auto simp: resolve_def names_row_def Let_def)
qed

text \<open>A tool call is resolved to an intent exactly when it names a row of the reviewed
  table, and then to that row's intent: no call outside the table is ever given an intent, and
  every row can be reached.\<close>

theorem resolve_exact:
  "resolve TABLE tool arguments = Inr it \<longleftrightarrow>
    (\<exists>args. arguments = PDict args \<and>
      (\<exists>r \<in> set DEFAULT_MAPPING_RULES. tool = PStr (mr_tool_name r) \<and> names_row args r \<and> mr_intent r = it))"
  using resolve_sound resolve_complete by blast

end
