(* ===== verification/VersionedStore.thy ===== *)
theory VersionedStore
  imports Prelude
begin

text \<open>
  The contract of a versioned store, which the guardrail's \<open>VehicleStateStore\<close> and the
  agent's \<open>VehicleStateMachine\<close> both keep: an operation either leaves content and version
  alone or raises the version by one.  From it, once for both: versions only grow, a version
  counts the operations that took effect, and along a history a version names one content.
\<close>

locale versioned_store =
  fixes version :: "'s \<Rightarrow> int"
    and content :: "'s \<Rightarrow> 'c"
    and step :: "'o \<Rightarrow> 's \<Rightarrow> 's"
  assumes step_version:
    "(content (step x s) = content s \<and> version (step x s) = version s) \<or>
     version (step x s) = version s + 1"
begin

definition run :: "'o list \<Rightarrow> 's \<Rightarrow> 's" where
  "run xs s = fold step xs s"

lemma run_Nil [simp]: "run [] s = s"
  by (simp add: run_def)

lemma run_Cons [simp]: "run (x # xs) s = run xs (step x s)"
  by (simp add: run_def)

lemma run_append: "run (xs @ ys) s = run ys (run xs s)"
  by (simp add: run_def)

lemma version_mono: "version s \<le> version (run xs s)"
proof (induction xs arbitrary: s)
  case (Cons x xs)
  have "version s \<le> version (step x s)"
    using step_version [where x = x and s = s] by auto
  with Cons [of "step x s"] show ?case by simp
qed simp

lemma version_bound: "version (run xs s) \<le> version s + int (length xs)"
proof (induction xs arbitrary: s)
  case (Cons x xs)
  have "version (step x s) \<le> version s + 1"
    using step_version [where x = x and s = s] by auto
  with Cons [of "step x s"] show ?case by simp
qed simp

lemma same_version_same_content:
  "version (run xs s) = version s \<Longrightarrow> content (run xs s) = content s"
proof (induction xs arbitrary: s)
  case (Cons x xs)
  have "version (step x s) \<le> version (run xs (step x s))" by (rule version_mono)
  with Cons.prems step_version [where x = x and s = s]
  have *: "content (step x s) = content s" "version (step x s) = version s" by auto
  with Cons.IH [of "step x s"] Cons.prems show ?case by simp
qed simp

lemma version_names_content:
  assumes "version (run (xs @ ys) s) = version (run xs s)"
  shows "content (run (xs @ ys) s) = content (run xs s)"
  using assms same_version_same_content [of ys "run xs s"] by (simp add: run_append)

end

end
