(* ===== verification/StateStore.thy ===== *)
theory StateStore
  imports PolicyState VersionedStore
begin

text \<open>
  \<open>guardrail/service/state_store.py\<close>: the check of a vehicle state that arrives on the
  wire (\<open>validate_wire\<close>), the presets, and the guardrail's own vehicle state with its
  version (\<open>VehicleStateStore\<close>).  An operation returns its result, or the exception it
  raises, beside the store it leaves.
\<close>

definition BOOL_FIELDS :: "string list" where
  "BOOL_FIELDS = [''rain_sensor'', ''avh'', ''epb'', ''camp_mode_active'', ''pet_mode_active'',
     ''valet_mode_active'', ''fog_light'', ''hazard_light'', ''esc'']"

definition NUMERIC_FIELDS :: "string list" where
  "NUMERIC_FIELDS = [''speed'', ''battery_pct'', ''hand_off_wheel_duration_seconds'']"

definition STRING_FIELDS :: "string list" where
  "STRING_FIELDS = [''gear'', ''ambient_light'', ''profile'', ''autopark_state'', ''acc_state'',
     ''lowbeam_mode'', ''door_lock_state'']"

definition NULLABLE_FIELDS :: "string list" where
  "NULLABLE_FIELDS = [''rain_sensor'', ''avh'', ''battery_pct'', ''door_lock_state'']"

definition wire_value_error :: "string \<Rightarrow> pyval \<Rightarrow> string option" where
  "wire_value_error k v =
     (if k \<in> set NULLABLE_FIELDS \<and> v = PNone then None
      else if k \<in> set BOOL_FIELDS then
        (if is_bool_val v then None else Some (''vehicle_state.'' @ k @ '' must be a boolean''))
      else if k \<in> set NUMERIC_FIELDS then
        (if is_number_val v then None else Some (''vehicle_state.'' @ k @ '' must be a number''))
      else if k \<in> set STRING_FIELDS then
        (if is_str_val v then None else Some (''vehicle_state.'' @ k @ '' must be a string''))
      else None)"

fun wire_error :: "payload \<Rightarrow> string option" where
  "wire_error [] = None"
| "wire_error ((k, v) # raw) =
     (case wire_value_error k v of Some e \<Rightarrow> Some e | None \<Rightarrow> wire_error raw)"

definition validate_wire_vehicle_state :: "payload \<Rightarrow> string + vstate" where
  "validate_wire_vehicle_state raw =
     (case wire_error raw of
        Some e \<Rightarrow> Inl e
      | None \<Rightarrow>
          (case from_partial raw of
             Inl unknown \<Rightarrow> Inl (''unknown vehicle_state keys: '' @ repr_strs unknown)
           | Inr s \<Rightarrow> Inr s))"

definition PRESETS :: "payload dict" where
  "PRESETS =
     [(''parked_safe'', []),
      (''driving'', [(''gear'', PStr ''D''), (''speed'', PInt 50)]),
      (''rainy'', [(''gear'', PStr ''D''), (''speed'', PInt 40), (''rain_sensor'', PBool True),
                   (''lowbeam_mode'', PStr ''On'')]),
      (''low_battery'', [(''gear'', PStr ''P''), (''speed'', PInt 0), (''battery_pct'', PInt 8)])]"

record state_store =
  st_state :: vstate
  st_version :: int

definition VehicleStateStore :: "vstate option \<Rightarrow> int \<Rightarrow> string + state_store" where
  "VehicleStateStore state state_version =
     (if state_version < 1 then Inl ''state_version must start at >= 1''
      else Inr \<lparr>st_state = (case state of None \<Rightarrow> VehicleState_default | Some s \<Rightarrow> s),
                st_version = state_version\<rparr>)"

definition snapshot :: "state_store \<Rightarrow> vstate \<times> int" where
  "snapshot st = (st_state st, st_version st)"

definition mutate :: "payload \<Rightarrow> state_store \<Rightarrow> (string + vstate \<times> int) \<times> state_store" where
  "mutate overrides st =
     (if overrides = [] then (Inl ''mutate() requires at least one field override'', st)
      else let unknown = filter (\<lambda>k. k \<notin> set (map fst (as_condition_values VehicleState_default)))
                           (map fst overrides)
      in if unknown \<noteq> []
         then (Inl (''unknown vehicle_state fields: '' @ repr_strs (sort (remdups unknown))), st)
         else (case set_fields overrides (st_state st) of
                 None \<Rightarrow> (Inl ''unexpected keyword argument'', st)
               | Some s \<Rightarrow>
                   (let st' = \<lparr>st_state = s, st_version = st_version st + 1\<rparr>
                    in (Inr (snapshot st'), st'))))"

definition apply_preset :: "string \<Rightarrow> state_store \<Rightarrow> (string + vstate \<times> int) \<times> state_store" where
  "apply_preset name st =
     (case map_of PRESETS name of
        None \<Rightarrow> (Inl (''unknown preset '' @ repr_str name @ ''; choose from '' @
                       repr_strs (sort (map fst PRESETS))), st)
      | Some preset \<Rightarrow>
          (case set_fields preset VehicleState_default of
             None \<Rightarrow> (Inl ''unexpected keyword argument'', st)
           | Some s \<Rightarrow>
               (let st' = \<lparr>st_state = s, st_version = st_version st + 1\<rparr>
                in (Inr (snapshot st'), st'))))"

section \<open>The wire check\<close>

lemma wire_error_None: "wire_error raw = None \<longleftrightarrow> (\<forall>(k, v) \<in> set raw. wire_value_error k v = None)"
  by (induction raw) (auto split: option.splits)

lemma from_partial_Inr:
  assumes "from_partial raw = Inr s"
  shows "set_fields (filter (\<lambda>(k, _). k \<in> set field_names) raw) VehicleState_default = Some s"
    and "fst ` set raw \<subseteq> set field_names \<union> set REQUEST_PARAMS"
  using assms
  by (auto simp: from_partial_def Let_def filter_empty_conv split: if_splits option.splits)

definition value_ok :: "string \<Rightarrow> pyval \<Rightarrow> bool" where
  "value_ok k v \<longleftrightarrow> wire_value_error k v = None"

lemma well_typed_iff_values:
  "well_typed s \<longleftrightarrow> (\<forall>(k, v) \<in> set (as_condition_values s). value_ok k v)"
  by (simp add: well_typed_def as_condition_values_def value_ok_def wire_value_error_def
      BOOL_FIELDS_def NUMERIC_FIELDS_def STRING_FIELDS_def NULLABLE_FIELDS_def)

lemma in_update: "kv \<in> set (AList.update k v xs) \<Longrightarrow> kv = (k, v) \<or> kv \<in> set xs"
  by (induction xs) (auto split: if_splits)

lemma set_field_well_typed:
  assumes "set_field k v s = Some t" and "well_typed s" and "value_ok k v"
  shows "well_typed t"
  using assms
  by (auto simp: well_typed_iff_values set_field_update dest!: in_update)

lemma set_fields_well_typed:
  "set_fields kvs s = Some t \<Longrightarrow> well_typed s \<Longrightarrow> \<forall>(k, v) \<in> set kvs. value_ok k v \<Longrightarrow> well_typed t"
  by (induction kvs s rule: set_fields.induct)
    (auto split: option.splits dest: set_field_well_typed)

lemma map_of_filter_fields:
  "map_of (filter (\<lambda>(k, _). k \<in> A) raw) k = (if k \<in> A then map_of raw k else None)"
  by (induction raw) auto

lemma distinct_map_filter: "distinct (map fst xs) \<Longrightarrow> distinct (map fst (filter P xs))"
  by (simp add: distinct_map inj_on_def)

text \<open>C2. A vehicle state that passes the wire check is well typed, whatever JSON the caller
  sent, and is exactly the sent fields completed onto the defaults: each known field has the
  value that was sent, and every other one its default.\<close>

theorem wire_check_sound:
  assumes "validate_wire_vehicle_state raw = Inr s" and "distinct (map fst raw)"
  shows "well_typed s \<and>
    map_of (as_condition_values s) =
      map_of (as_condition_values VehicleState_default) ++ (map_of raw |` set field_names)"
proof -
  have w: "wire_error raw = None" and p: "from_partial raw = Inr s"
    using assms(1) by (auto simp: validate_wire_vehicle_state_def split: option.splits sum.splits)
  let ?data = "filter (\<lambda>(k, _). k \<in> set field_names) raw"
  have f: "set_fields ?data VehicleState_default = Some s"
    by (rule from_partial_Inr [OF p])
  have "\<forall>(k, v) \<in> set ?data. value_ok k v"
    using w by (auto simp: wire_error_None value_ok_def)
  with f have "well_typed s"
    by (rule set_fields_well_typed [OF _ well_typed_default])
  moreover have "map_of ?data = map_of raw |` set field_names"
    by (simp add: fun_eq_iff map_of_filter_fields restrict_map_def)
  ultimately show ?thesis
    using map_of_set_fields [OF f distinct_map_filter [OF assms(2)]] by simp
qed

theorem wire_check_sound_witness:
  "\<exists>s. validate_wire_vehicle_state [(''speed'', PInt 80), (''rain_sensor'', PNone)] = Inr s \<and>
       well_typed s \<and> map_of (as_condition_values s) ''speed'' = Some (PInt 80)"
proof -
  let ?raw = "[(''speed'', PInt 80), (''rain_sensor'', PNone)]"
  obtain s where s: "validate_wire_vehicle_state ?raw = Inr s"
    by (simp add: validate_wire_vehicle_state_def wire_value_error_def BOOL_FIELDS_def
        NUMERIC_FIELDS_def NULLABLE_FIELDS_def STRING_FIELDS_def from_partial_def field_names_def
        STATE_DEFAULTS_def set_field_def field_setters_def)
  have "distinct (map fst ?raw)" by simp
  from wire_check_sound [OF s this] s show ?thesis
    by (intro exI [of _ s]) (simp add: restrict_map_def field_names_def STATE_DEFAULTS_def)
qed

section \<open>The store as a versioned store\<close>

datatype store_op = Mutate payload | ApplyPreset string

fun store_step :: "store_op \<Rightarrow> state_store \<Rightarrow> state_store" where
  "store_step (Mutate overrides) st = snd (mutate overrides st)"
| "store_step (ApplyPreset name) st = snd (apply_preset name st)"

interpretation vstore: versioned_store st_version st_state store_step
proof
  fix x and s :: state_store
  show "(st_state (store_step x s) = st_state s \<and> st_version (store_step x s) = st_version s) \<or>
        st_version (store_step x s) = st_version s + 1"
    by (cases x) (auto simp: mutate_def apply_preset_def Let_def split: option.splits)
qed

lemma mutate_ok:
  assumes "overrides \<noteq> []" and "fst ` set overrides \<subseteq> set field_names"
  obtains s where "set_fields overrides (st_state st) = Some s"
    "mutate overrides st = (Inr (s, st_version st + 1), \<lparr>st_state = s, st_version = st_version st + 1\<rparr>)"
proof -
  obtain s where s: "set_fields overrides (st_state st) = Some s"
    using set_fields_defined [of overrides "st_state st"] assms(2) by auto
  have "filter (\<lambda>k. k \<notin> set field_names) (map fst overrides) = []"
    using assms(2) by (auto simp: filter_empty_conv)
  with s assms(1) have "mutate overrides st = (Inr (s, st_version st + 1), \<lparr>st_state = s, st_version = st_version st + 1\<rparr>)"
    by (simp add: mutate_def Let_def snapshot_def flip: set_map)
  with s show thesis by (rule that)
qed

text \<open>Along every history of mutations and presets, accepted or rejected, one version of
  the guardrail's store names one vehicle state: a decision that reports the version it read
  determines the state it was taken on.\<close>

theorem store_version_names_state:
  assumes "st_version (fold store_step (xs @ ys) st) = st_version (fold store_step xs st)"
  shows "st_state (fold store_step (xs @ ys) st) = st_state (fold store_step xs st)"
  using assms vstore.version_names_content [of xs ys st] by (simp only: vstore.run_def)

theorem store_version_names_state_witness:
  "st_state (fold store_step ([ApplyPreset ''rainy''] @ [Mutate [(''wings'', PInt 2)], Mutate []])
      \<lparr>st_state = VehicleState_default, st_version = 1\<rparr>) =
   st_state (fold store_step [ApplyPreset ''rainy''] \<lparr>st_state = VehicleState_default, st_version = 1\<rparr>)"
  by (rule store_version_names_state)
    (simp add: mutate_def apply_preset_def as_condition_values_def)

end
