(* ===== verification/Platform.thy ===== *)
theory Platform
  imports Prelude
begin

text \<open>
  What both services take from the Python runtime: text of values (\<open>str\<close>, \<open>repr\<close>), the
  canonical JSON text \<open>json.dumps(v, ensure_ascii=False, allow_nan=False,
  separators=(",", ":"), sort_keys=True)\<close>, the clock and random identifiers.

  Three functions of the platform are parameters: the SHA-256 hex digest of a text, the text
  of a finite float and the ISO-8601 text of an instant (in microseconds since the epoch).
  The clock and \<open>uuid4\<close> are streams of readings with a position in the \<open>world\<close>:
  each call takes the next reading.  Strings are restricted to code points up to 255.
\<close>

record platform =
  pf_sha256 :: "string \<Rightarrow> string"
  pf_float :: "rat \<Rightarrow> string"
  pf_iso :: "int \<Rightarrow> string"

section \<open>Text of values\<close>

definition digit_char :: "nat \<Rightarrow> char" where
  "digit_char n = hex_digit n"

fun dec_nat :: "nat \<Rightarrow> string" where
  "dec_nat n = (if n < 10 then [digit_char n] else dec_nat (n div 10) @ [digit_char (n mod 10)])"

declare dec_nat.simps [simp del]

definition dec_int :: "int \<Rightarrow> string" where
  "dec_int i = (if i < 0 then CHR ''-'' # dec_nat (nat (- i)) else dec_nat (nat i))"

fun float_text :: "platform \<Rightarrow> pyfloat \<Rightarrow> string" where
  "float_text pf (Fin r) = pf_float pf r"
| "float_text pf PosInf = ''inf''"
| "float_text pf NegInf = ''-inf''"
| "float_text pf NaN = ''nan''"

fun py_repr :: "platform \<Rightarrow> pyval \<Rightarrow> string" where
  "py_repr pf PNone = ''None''"
| "py_repr pf (PBool b) = (if b then ''True'' else ''False'')"
| "py_repr pf (PInt i) = dec_int i"
| "py_repr pf (PFloat f) = float_text pf f"
| "py_repr pf (PStr s) = repr_str s"
| "py_repr pf (PList vs) = ''['' @ join_str '', '' (map (py_repr pf) vs) @ '']''"
| "py_repr pf (PDict kvs) =
     ''{'' @ join_str '', '' (map (\<lambda>(k, v). repr_str k @ '': '' @ py_repr pf v) kvs) @ ''}''"

fun py_str :: "platform \<Rightarrow> pyval \<Rightarrow> string" where
  "py_str pf (PStr s) = s"
| "py_str pf v = py_repr pf v"

section \<open>Canonical JSON\<close>

definition json_char :: "char \<Rightarrow> string" where
  "json_char c =
     (let n = of_char c :: nat in
      if n = 34 \<or> n = 92 then [CHR 0x5C, c]
      else if n = 10 then [CHR 0x5C, CHR ''n'']
      else if n = 13 then [CHR 0x5C, CHR ''r'']
      else if n = 9 then [CHR 0x5C, CHR ''t'']
      else if n = 12 then [CHR 0x5C, CHR ''f'']
      else if n = 8 then [CHR 0x5C, CHR ''b'']
      else if n < 32
        then [CHR 0x5C, CHR ''u'', CHR ''0'', CHR ''0'', hex_digit (n div 16), hex_digit (n mod 16)]
      else [c])"

definition json_str :: "string \<Rightarrow> string" where
  "json_str s = CHR 0x22 # concat (map json_char s) @ [CHR 0x22]"

fun all_some :: "'a option list \<Rightarrow> 'a list option" where
  "all_some [] = Some []"
| "all_some (None # xs) = None"
| "all_some (Some x # xs) = map_option (Cons x) (all_some xs)"

definition json_member :: "string \<times> string \<Rightarrow> string" where
  "json_member kt = json_str (fst kt) @ '':'' @ snd kt"

text \<open>\<open>None\<close> is the \<open>ValueError\<close> for a float that is not finite.\<close>

fun dumps :: "platform \<Rightarrow> pyval \<Rightarrow> string option" where
  "dumps pf PNone = Some ''null''"
| "dumps pf (PBool b) = Some (if b then ''true'' else ''false'')"
| "dumps pf (PInt i) = Some (dec_int i)"
| "dumps pf (PFloat f) = (case f of Fin r \<Rightarrow> Some (pf_float pf r) | _ \<Rightarrow> None)"
| "dumps pf (PStr s) = Some (json_str s)"
| "dumps pf (PList vs) =
     map_option (\<lambda>ts. ''['' @ join_str '','' ts @ '']'') (all_some (map (dumps pf) vs))"
| "dumps pf (PDict kvs) =
     map_option (\<lambda>kts. ''{'' @ join_str '','' (map json_member (sort_key fst kts)) @ ''}'')
       (all_some (map (\<lambda>(k, v). map_option (Pair k) (dumps pf v)) kvs))"

section \<open>Clock and identifiers\<close>

record world =
  w_clock :: "nat \<Rightarrow> int"
  w_ticks :: nat
  w_uuids :: "nat \<Rightarrow> string"
  w_drawn :: nat

definition now :: "world \<Rightarrow> int \<times> world" where
  "now w = (w_clock w (w_ticks w), w\<lparr>w_ticks := Suc (w_ticks w)\<rparr>)"

definition new_id :: "string \<Rightarrow> world \<Rightarrow> string \<times> world" where
  "new_id prefix w = (prefix @ ''-'' @ w_uuids w (w_drawn w), w\<lparr>w_drawn := Suc (w_drawn w)\<rparr>)"

text \<open>Identifiers already issued under a prefix.\<close>

definition issued :: "string \<Rightarrow> world \<Rightarrow> string set" where
  "issued prefix w = (\<lambda>k. prefix @ ''-'' @ w_uuids w k) ` {..< w_drawn w}"

lemma new_id_fresh:
  assumes "inj (w_uuids w)" and "new_id prefix w = (i, w')"
  shows "i \<notin> issued prefix w" and "issued prefix w' = insert i (issued prefix w)"
    and "w_uuids w' = w_uuids w"
  using assms by (auto simp: new_id_def issued_def inj_eq lessThan_Suc)

lemma issued_new_id: "issued p w \<subseteq> issued p (snd (new_id q w))"
  by (auto simp: new_id_def issued_def)

lemma issued_now [simp]: "issued p (snd (now w)) = issued p w"
  by (simp add: now_def issued_def)

lemma all_some_eq_Some: "all_some xs = Some ys \<longleftrightarrow> xs = map Some ys"
proof (induction xs arbitrary: ys)
  case (Cons x xs)
  then show ?case by (cases x; cases ys) auto
qed auto

end
