(* ===== verification/Tokens.thy ===== *)
theory Tokens
  imports Prelude
begin

text \<open>
  The contract of single-use tokens, which the guardrail's pending confirmations, the agent's
  permit store and its confirmation manager keep: a step may grant a token, a granted token
  is spent by the step, a spent token is never granted again and never becomes unspent.
\<close>

locale single_use_tokens =
  fixes inv :: "'s \<Rightarrow> bool"
    and spent :: "'s \<Rightarrow> 'i set"
    and step :: "'o \<Rightarrow> 's \<Rightarrow> 's"
    and grants :: "'o \<Rightarrow> 's \<Rightarrow> 'i option"
  assumes inv_step: "inv s \<Longrightarrow> inv (step x s)"
    and spent_mono: "inv s \<Longrightarrow> spent s \<subseteq> spent (step x s)"
    and grant_unspent: "inv s \<Longrightarrow> grants x s = Some i \<Longrightarrow> i \<notin> spent s"
    and grant_spends: "inv s \<Longrightarrow> grants x s = Some i \<Longrightarrow> i \<in> spent (step x s)"
begin

text \<open>The tokens a history grants, in order.\<close>

fun granted :: "'o list \<Rightarrow> 's \<Rightarrow> 'i list" where
  "granted [] s = []"
| "granted (x # xs) s =
     (case grants x s of None \<Rightarrow> [] | Some i \<Rightarrow> [i]) @ granted xs (step x s)"

lemma inv_run: "inv s \<Longrightarrow> inv (fold step xs s)"
  by (induction xs arbitrary: s) (auto intro: inv_step)

lemma spent_run: "inv s \<Longrightarrow> spent s \<subseteq> spent (fold step xs s)"
proof (induction xs arbitrary: s)
  case (Cons x xs)
  show ?case using spent_mono [OF Cons.prems, of x] Cons.IH [OF inv_step [OF Cons.prems], of x] by auto
qed simp

lemma granted_unspent: "inv s \<Longrightarrow> i \<in> set (granted xs s) \<Longrightarrow> i \<notin> spent s"
proof (induction xs arbitrary: s)
  case (Cons x xs)
  from Cons.prems(2) consider "grants x s = Some i" | "i \<in> set (granted xs (step x s))"
    by (auto split: option.splits)
  then show ?case
  proof cases
    case 1
    with Cons.prems(1) show ?thesis by (rule grant_unspent)
  next
    case 2
    with Cons.IH [OF inv_step [OF Cons.prems(1)]] spent_mono [OF Cons.prems(1), of x] show ?thesis by blast
  qed
qed simp

lemma granted_once: "inv s \<Longrightarrow> distinct (granted xs s)"
proof (induction xs arbitrary: s)
  case (Cons x xs)
  have "distinct (granted xs (step x s))"
    by (rule Cons.IH [OF inv_step [OF Cons.prems]])
  moreover have "i \<notin> set (granted xs (step x s))" if "grants x s = Some i" for i
    using granted_unspent [OF inv_step [OF Cons.prems], of i xs x] grant_spends [OF Cons.prems that] by blast
  ultimately show ?case by (simp split: option.split)
qed simp

lemma never_again:
  assumes "inv s" and "i \<in> spent s"
  shows "grants x (fold step xs s) \<noteq> Some i"
  using grant_unspent [OF inv_run [OF assms(1)]] spent_run [OF assms(1), of xs] assms(2) by blast

end

end
