(* ===== verification/Confirmations.thy ===== *)
theory Confirmations
  imports Platform Tokens
begin

text \<open>
  \<open>guardrail/service/confirmations.py\<close>: the pending confirmations behind single-use,
  time-boxed identifiers.  An operation takes the store and the world (clock and
  identifiers) and returns both beside its result.
\<close>

text \<open>\<open>CONFIRM_TTL\<close>, in microseconds.\<close>

definition CONFIRM_TTL :: int where
  "CONFIRM_TTL = 30 * 1000000"

record pending_confirmation =
  pc_confirmation_id :: string
  pc_proposal :: payload
  pc_intent :: string
  pc_origin_rule_id :: string
  pc_session_id :: string
  pc_issued_at :: int
  pc_expires_at :: int

record confirmation_store =
  cs_pending :: "pending_confirmation dict"
  cs_consumed :: "string list"

definition PendingConfirmationStore :: confirmation_store where
  "PendingConfirmationStore = \<lparr>cs_pending = [], cs_consumed = []\<rparr>"

text \<open>\<open>str(proposal.get("session_id") or "")\<close>.\<close>

definition session_of :: "platform \<Rightarrow> payload \<Rightarrow> string" where
  "session_of pf proposal =
     (case map_of proposal ''session_id'' of
        None \<Rightarrow> []
      | Some v \<Rightarrow> if py_truth v then py_str pf v else [])"

definition create ::
  "platform \<Rightarrow> payload \<Rightarrow> string \<Rightarrow> string \<Rightarrow> confirmation_store \<Rightarrow> world \<Rightarrow>
   pending_confirmation \<times> confirmation_store \<times> world" where
  "create pf proposal intent origin_rule_id cs w =
     (let (moment, w) = now w;
          (cid, w) = new_id ''confirm'' w;
          r = \<lparr>pc_confirmation_id = cid, pc_proposal = proposal, pc_intent = intent,
               pc_origin_rule_id = origin_rule_id, pc_session_id = session_of pf proposal,
               pc_issued_at = moment, pc_expires_at = moment + CONFIRM_TTL\<rparr>
      in (r, cs\<lparr>cs_pending := AList.update cid r (cs_pending cs)\<rparr>, w))"

text \<open>The result of \<open>consume\<close>: the exception, or the record or \<open>None\<close>.\<close>

datatype consumed = SessionMismatch | NotActive | Consumed pending_confirmation

definition consume ::
  "string \<Rightarrow> string \<Rightarrow> confirmation_store \<Rightarrow> world \<Rightarrow> consumed \<times> confirmation_store \<times> world" where
  "consume cid session_id cs w =
     (let (moment, w) = now w in
      case map_of (cs_pending cs) cid of
        None \<Rightarrow> (NotActive, cs, w)
      | Some r \<Rightarrow>
          if pc_session_id r \<noteq> [] \<and> pc_session_id r \<noteq> session_id
          then (SessionMismatch, cs, w)
          else (let cs' = \<lparr>cs_pending = AList.delete cid (cs_pending cs),
                           cs_consumed = List.insert cid (cs_consumed cs)\<rparr>
                in (if pc_expires_at r < moment then NotActive else Consumed r, cs', w)))"

definition peek :: "string \<Rightarrow> confirmation_store \<Rightarrow> pending_confirmation option" where
  "peek cid cs = map_of (cs_pending cs) cid"

section \<open>The invariant\<close>

text \<open>Pending and consumed identifiers are disjoint and were issued; \<open>uuid4\<close> never
  repeats itself.\<close>

definition confirmations_inv :: "confirmation_store \<Rightarrow> world \<Rightarrow> bool" where
  "confirmations_inv cs w \<longleftrightarrow>
     inj (w_uuids w) \<and>
     fst ` set (cs_pending cs) \<inter> set (cs_consumed cs) = {} \<and>
     fst ` set (cs_pending cs) \<union> set (cs_consumed cs) \<subseteq> issued ''confirm'' w"

lemma confirmations_inv_init: "inj (w_uuids w) \<Longrightarrow> confirmations_inv PendingConfirmationStore w"
  by (simp add: confirmations_inv_def PendingConfirmationStore_def)

lemma confirmations_inv_world:
  assumes "confirmations_inv cs w" and "w_uuids w' = w_uuids w"
    and "issued ''confirm'' w \<subseteq> issued ''confirm'' w'"
  shows "confirmations_inv cs w'"
  using assms by (auto simp: confirmations_inv_def)

lemma createE:
  assumes "create pf proposal it rid cs w = (r, cs', w')"
  obtains w1 where "w1 = snd (now w)" "new_id ''confirm'' w1 = (pc_confirmation_id r, w')"
    "cs' = cs\<lparr>cs_pending := AList.update (pc_confirmation_id r) r (cs_pending cs)\<rparr>"
    "r = \<lparr>pc_confirmation_id = pc_confirmation_id r, pc_proposal = proposal, pc_intent = it,
          pc_origin_rule_id = rid, pc_session_id = session_of pf proposal,
          pc_issued_at = fst (now w), pc_expires_at = fst (now w) + CONFIRM_TTL\<rparr>"
proof -
  obtain m w1 where n: "now w = (m, w1)" by fastforce
  obtain cid w2 where i: "new_id ''confirm'' w1 = (cid, w2)" by fastforce
  from assms n i have "w2 = w'" "pc_confirmation_id r = cid" by (auto simp: create_def Let_def)
  with assms n i show thesis by (intro that [of w1]) (auto simp: create_def Let_def)
qed

lemma confirmations_inv_create:
  assumes "confirmations_inv cs w" and "create pf proposal it rid cs w = (r, cs', w')"
  shows "confirmations_inv cs' w'"
proof -
  obtain w1 where w1: "w1 = snd (now w)" and i: "new_id ''confirm'' w1 = (pc_confirmation_id r, w')"
    and cs': "cs' = cs\<lparr>cs_pending := AList.update (pc_confirmation_id r) r (cs_pending cs)\<rparr>"
    using createE [OF assms(2)] by blast
  have "inj (w_uuids w1)" using assms(1) by (simp add: confirmations_inv_def w1 now_def)
  note f = new_id_fresh [OF this i]
  have "fst ` set (cs_pending cs') = insert (pc_confirmation_id r) (fst ` set (cs_pending cs))"
    and "cs_consumed cs' = cs_consumed cs"
    by (simp_all add: cs')
  with assms(1) f show ?thesis
    unfolding confirmations_inv_def w1 issued_now by (simp add: now_def) blast
qed

lemma consume_cases:
  assumes "consume cid sid cs w = (res, cs', w')"
  obtains (unknown) "map_of (cs_pending cs) cid = None" "res = NotActive" "cs' = cs"
  | (mismatch) r where "map_of (cs_pending cs) cid = Some r" "res = SessionMismatch" "cs' = cs"
      "pc_session_id r \<noteq> []" "pc_session_id r \<noteq> sid"
  | (taken) r where "map_of (cs_pending cs) cid = Some r"
      "pc_session_id r = [] \<or> pc_session_id r = sid"
      "res = (if pc_expires_at r < fst (now w) then NotActive else Consumed r)"
      "cs' = \<lparr>cs_pending = AList.delete cid (cs_pending cs),
              cs_consumed = List.insert cid (cs_consumed cs)\<rparr>"
  using assms
  by (auto simp: consume_def Let_def split: option.splits if_splits prod.splits)

lemma consume_world: "consume cid sid cs w = (res, cs', w') \<Longrightarrow> w' = snd (now w)"
  by (auto simp: consume_def Let_def split: option.splits if_splits prod.splits)

lemma confirmations_inv_consume:
  assumes "confirmations_inv cs w" and "consume cid sid cs w = (res, cs', w')"
  shows "confirmations_inv cs' w'"
proof -
  have w': "w_uuids w' = w_uuids w" "issued ''confirm'' w' = issued ''confirm'' w"
    using consume_world [OF assms(2)] by (simp_all add: now_def issued_def)
  from assms(2) show ?thesis
  proof (cases rule: consume_cases)
    case (taken r)
    then have "cid \<in> fst ` set (cs_pending cs)" by (force dest: map_of_SomeD)
    moreover have "fst ` set (cs_pending cs') = fst ` set (cs_pending cs) - {cid}"
      and "set (cs_consumed cs') = insert cid (set (cs_consumed cs))"
      by (simp_all add: taken)
    ultimately show ?thesis
      using assms(1) unfolding confirmations_inv_def w' by simp blast
  qed (use assms(1) w' in \<open>simp_all add: confirmations_inv_def\<close>)
qed

section \<open>Histories of the store\<close>

datatype confirmation_op =
    Create payload string string
  | Consume string string

fun confirmation_step ::
  "platform \<Rightarrow> confirmation_op \<Rightarrow> confirmation_store \<times> world \<Rightarrow> confirmation_store \<times> world" where
  "confirmation_step pf (Create proposal it rid) (cs, w) = snd (create pf proposal it rid cs w)"
| "confirmation_step pf (Consume cid sid) (cs, w) = snd (consume cid sid cs w)"

fun confirmation_grant :: "confirmation_op \<Rightarrow> confirmation_store \<times> world \<Rightarrow> string option" where
  "confirmation_grant (Create proposal it rid) cw = None"
| "confirmation_grant (Consume cid sid) (cs, w) =
     (case consume cid sid cs w of (Consumed r, _) \<Rightarrow> Some cid | _ \<Rightarrow> None)"

interpretation tokens: single_use_tokens
  "\<lambda>(cs, w). confirmations_inv cs w" "\<lambda>(cs, w). set (cs_consumed cs)"
  "confirmation_step pf" confirmation_grant for pf
proof
  fix x :: confirmation_op and s :: "confirmation_store \<times> world" and i
  obtain cs w where s: "s = (cs, w)" by fastforce
  let ?inv = "\<lambda>(cs, w). confirmations_inv cs w"
  let ?spent = "\<lambda>(cs, w). set (cs_consumed cs)"
  show "?inv (confirmation_step pf x s)" if "?inv s"
  proof (cases x)
    case (Create p it rid)
    obtain r cs' w' where c: "create pf p it rid cs w = (r, cs', w')" by (metis prod_cases3)
    with that Create s show ?thesis by (auto intro: confirmations_inv_create [OF _ c])
  next
    case (Consume cid sid)
    obtain r cs' w' where c: "consume cid sid cs w = (r, cs', w')" by (metis prod_cases3)
    with that Consume s show ?thesis by (auto intro: confirmations_inv_consume [OF _ c])
  qed
  show "?spent s \<subseteq> ?spent (confirmation_step pf x s)"
  proof (cases x)
    case (Create p it rid)
    obtain r cs' w' where c: "create pf p it rid cs w = (r, cs', w')" by (metis prod_cases3)
    then have "cs_consumed cs' = cs_consumed cs" by (auto elim!: createE)
    with c Create s show ?thesis by simp
  next
    case (Consume cid sid)
    obtain r cs' w' where c: "consume cid sid cs w = (r, cs', w')" by (metis prod_cases3)
    then have "set (cs_consumed cs) \<subseteq> set (cs_consumed cs')" by (auto elim!: consume_cases)
    with c Consume s show ?thesis by simp
  qed
  assume g: "confirmation_grant x s = Some i"
  then obtain sid where x: "x = Consume i sid"
    using s by (cases x) (auto split: prod.splits consumed.splits)
  obtain r cs' w' where c: "consume i sid cs w = (Consumed r, cs', w')"
    using g s x by (auto split: prod.splits consumed.splits)
  from c have t: "map_of (cs_pending cs) i = Some r" "i \<in> set (cs_consumed cs')"
    by (cases rule: consume_cases; auto split: if_splits)+
  show "i \<in> ?spent (confirmation_step pf x s)"
    using t c s x by simp
  show "i \<notin> ?spent s" if "?inv s"
    using that t(1) s by (force simp: confirmations_inv_def dest: map_of_SomeD)
qed

lemma consume_spent:
  assumes "confirmations_inv cs w" and "cid \<in> set (cs_consumed cs)"
  shows "fst (consume cid sid cs w) = NotActive"
proof -
  have "map_of (cs_pending cs) cid = None"
    using assms by (auto simp: confirmations_inv_def map_of_eq_None_iff)
  then show ?thesis by (simp add: consume_def Let_def split: prod.split)
qed

text \<open>An identifier that unlocked its proposal once never unlocks it again: after any
  further history of parked proposals and confirmation requests, from whatever session, the
  store answers that it is not active.\<close>

theorem confirmation_single_use:
  assumes "confirmations_inv cs w" and "consume cid sid cs w = (Consumed r, cs', w')"
    and "fold (confirmation_step pf) ops (cs', w') = (cs2, w2)"
  shows "fst (consume cid sid2 cs2 w2) = NotActive"
proof -
  let ?s = "confirmation_step pf (Consume cid sid) (cs, w)"
  have s: "?s = (cs', w')" using assms(2) by simp
  have "confirmations_inv cs2 w2"
    using tokens.inv_run [of "(cs', w')" pf ops] confirmations_inv_consume [OF assms(1,2)] assms(3)
    by simp
  moreover have "cid \<in> set (cs_consumed cs')"
    using tokens.grant_spends [of "(cs, w)" "Consume cid sid" cid pf] assms(1,2) by simp
  then have "cid \<in> set (cs_consumed cs2)"
    using tokens.spent_run [of "(cs', w')" pf ops] confirmations_inv_consume [OF assms(1,2)] assms(3) by auto
  ultimately show ?thesis by (rule consume_spent)
qed

text \<open>A world whose clock stands still and whose identifiers are the numerals.\<close>

definition still_world :: world where
  "still_world = \<lparr>w_clock = (\<lambda>_. 0), w_ticks = 0, w_uuids = (\<lambda>n. replicate n CHR ''0''), w_drawn = 0\<rparr>"

lemma inj_still_world: "inj (w_uuids still_world)"
  by (rule injI) (simp add: still_world_def)

definition plain_platform :: platform where
  "plain_platform = \<lparr>pf_sha256 = id, pf_float = (\<lambda>_. ''0.0''), pf_iso = (\<lambda>_. ''1970-01-01T00:00:00+00:00'')\<rparr>"

theorem confirmation_single_use_witness:
  "fst (consume ''confirm-'' ''s2''
     \<lparr>cs_pending = [], cs_consumed = [''confirm-'']\<rparr> (still_world\<lparr>w_drawn := 1, w_ticks := 1\<rparr>)) =
   NotActive"
proof -
  let ?r = "\<lparr>pc_confirmation_id = ''confirm-'', pc_proposal = [], pc_intent = ''open_window'',
    pc_origin_rule_id = ''R070'', pc_session_id = ''s1'', pc_issued_at = 0, pc_expires_at = 30000000\<rparr>"
  let ?w = "still_world\<lparr>w_drawn := 1\<rparr>"
  show ?thesis
  proof (rule confirmation_single_use [where ops = "[]" and pf = plain_platform])
    show "confirmations_inv \<lparr>cs_pending = [(''confirm-'', ?r)], cs_consumed = []\<rparr> ?w"
      using inj_still_world by (simp add: confirmations_inv_def issued_def still_world_def)
    show "consume ''confirm-'' ''s1'' \<lparr>cs_pending = [(''confirm-'', ?r)], cs_consumed = []\<rparr> ?w =
      (Consumed ?r, \<lparr>cs_pending = [], cs_consumed = [''confirm-'']\<rparr>, still_world\<lparr>w_drawn := 1, w_ticks := 1\<rparr>)"
      by (simp add: consume_def now_def still_world_def)
  qed simp
qed

text \<open>A request from a session other than the one that raised the confirmation leaves the
  token in place: the store is unchanged, and the rightful session can still take the record
  until it expires.\<close>

theorem mismatch_keeps_token:
  assumes "map_of (cs_pending cs) cid = Some r" and "pc_session_id r \<noteq> []"
    and "sid \<noteq> pc_session_id r" and "fst (now (snd (now w))) \<le> pc_expires_at r"
  shows "\<exists>w'. consume cid sid cs w = (SessionMismatch, cs, w') \<and>
              fst (consume cid (pc_session_id r) cs w') = Consumed r"
  using assms by (intro exI [of _ "snd (now w)"]) (simp add: consume_def now_def)

theorem mismatch_keeps_token_witness:
  "\<exists>cs r w'. consume ''confirm-1'' ''thief'' cs still_world = (SessionMismatch, cs, w') \<and>
     fst (consume ''confirm-1'' ''owner'' cs w') = Consumed r"
proof -
  define r where "r = \<lparr>pc_confirmation_id = ''confirm-1'', pc_proposal = [], pc_intent = ''open_window'',
    pc_origin_rule_id = ''R070'', pc_session_id = ''owner'', pc_issued_at = 0, pc_expires_at = 30000000\<rparr>"
  define cs where "cs = \<lparr>cs_pending = [(''confirm-1'', r)], cs_consumed = []\<rparr>"
  have "\<exists>w'. consume ''confirm-1'' ''thief'' cs still_world = (SessionMismatch, cs, w') \<and>
     fst (consume ''confirm-1'' (pc_session_id r) cs w') = Consumed r"
    by (rule mismatch_keeps_token) (simp_all add: cs_def r_def now_def still_world_def)
  then show ?thesis by (auto simp: r_def)
qed

end
