(* ===== verification/ActiveActions.thy ===== *)
theory ActiveActions
  imports Platform
begin

text \<open>
  \<open>guardrail/service/active_actions.py\<close>: the guardrail's view of the monitored actions it
  authorised.  \<open>register\<close> ignores intents that are not monitored.
\<close>

definition MONITORED_INTENTS :: "string list" where
  "MONITORED_INTENTS =
     [''activate_aac'', ''activate_autopark'', ''activate_campmode'', ''activate_hda'',
      ''activate_petmode'']"

record active_action =
  aa_active_action_id :: string
  aa_intent :: string
  aa_started_at :: int

type_synonym action_registry = "active_action dict"

definition register :: "string \<Rightarrow> string \<Rightarrow> action_registry \<Rightarrow> world \<Rightarrow> action_registry \<times> world" where
  "register action_id intent reg w =
     (if intent \<notin> set MONITORED_INTENTS then (reg, w)
      else let (started, w) = now w
           in (AList.update action_id
                 \<lparr>aa_active_action_id = action_id, aa_intent = intent, aa_started_at = started\<rparr> reg, w))"

definition deregister :: "string \<Rightarrow> action_registry \<Rightarrow> action_registry" where
  "deregister action_id reg = AList.delete action_id reg"

definition is_active :: "string \<Rightarrow> action_registry \<Rightarrow> bool" where
  "is_active action_id reg = (action_id \<in> fst ` set reg)"

definition actions_snapshot :: "action_registry \<Rightarrow> active_action list" where
  "actions_snapshot reg = map snd reg"

text \<open>Every registered action is monitored and filed under its own identifier.\<close>

definition registry_inv :: "action_registry \<Rightarrow> bool" where
  "registry_inv reg \<longleftrightarrow>
     distinct (map fst reg) \<and>
     (\<forall>(i, a) \<in> set reg. aa_active_action_id a = i \<and> aa_intent a \<in> set MONITORED_INTENTS)"

lemma registry_inv_Nil [simp]: "registry_inv []"
  by (simp add: registry_inv_def)

lemma in_update_cases: "kv \<in> set (AList.update k v xs) \<Longrightarrow> kv = (k, v) \<or> kv \<in> set xs"
  by (induction xs) (auto split: if_splits)

lemma registry_inv_register:
  "registry_inv reg \<Longrightarrow> registry_inv (fst (register i it reg w))"
  by (auto simp: register_def registry_inv_def distinct_update Let_def split: prod.splits
      dest!: in_update_cases)

lemma registry_inv_deregister: "registry_inv reg \<Longrightarrow> registry_inv (deregister i reg)"
  by (auto simp: deregister_def registry_inv_def AList.delete_eq distinct_map inj_on_def)

lemma is_active_register:
  "is_active j (fst (register i it reg w)) \<longleftrightarrow>
     is_active j reg \<or> j = i \<and> it \<in> set MONITORED_INTENTS"
  by (auto simp: is_active_def register_def Let_def split: prod.split)

lemma is_active_deregister: "is_active j (deregister i reg) \<longleftrightarrow> j \<noteq> i \<and> is_active j reg"
  by (auto simp: is_active_def deregister_def)

end
