(* ===== verification/AnswerFacts.thy ===== *)
theory AnswerFacts
  imports PolicyState ToolMap
begin

text \<open>
  \<open>guardrail/service/answer_facts.py\<close>: the request parameters of a call and the
  structured facts of an answer.
\<close>

definition QUERY_FIELD :: "string dict" where
  "QUERY_FIELD =
     [(''get_current_speed'', ''speed''),
      (''get_battery_pct'', ''battery_pct''),
      (''get_gear'', ''gear''),
      (''get_door_lock_status'', ''door_lock_state''),
      (''get_avh_status'', ''avh'')]"

text \<open>\<open>mapping.get(key)\<close> with Python's \<open>None\<close> for a missing key.\<close>

definition get_or_None :: "payload \<Rightarrow> string \<Rightarrow> pyval" where
  "get_or_None d k = (case map_of d k of None \<Rightarrow> PNone | Some v \<Rightarrow> v)"

definition kb_has_feature :: "payload \<Rightarrow> bool" where
  "kb_has_feature arguments =
     (case map_of arguments ''target'' of
        Some (PStr target) \<Rightarrow> target \<in> set EXPLAIN_FEATURE_TARGETS
      | _ \<Rightarrow> False)"

definition request_params_for :: "string \<Rightarrow> payload \<Rightarrow> payload" where
  "request_params_for intent arguments =
     (if intent = ''explain_feature'' then [(''kb_has_feature'', PBool (kb_has_feature arguments))]
      else [])"

definition shape_answer ::
  "string \<Rightarrow> string option \<Rightarrow> vstate \<Rightarrow> payload \<Rightarrow> payload \<Rightarrow> payload option" where
  "shape_answer intent outcome state arguments relevant_state =
     (if outcome \<notin> {Some ''ANSWER'', Some ''UNKNOWN''} then None
      else let grounded = (outcome = Some ''ANSWER'') in
        (case map_of QUERY_FIELD intent of
           Some field \<Rightarrow>
             Some [(''grounded'', PBool grounded),
                   (''facts'', PDict [(field, get_or_None (as_condition_values state) field)])]
         | None \<Rightarrow>
             (if intent = ''explain_feature'' then
                Some [(''grounded'', PBool grounded),
                      (''facts'', PDict [(''feature'', get_or_None arguments ''target''),
                                         (''kb_has_feature'', PBool grounded)])]
              else Some [(''grounded'', PBool grounded), (''facts'', PDict relevant_state)])))"

end
