(* ===== verification/Envelope.thy ===== *)
theory Envelope
  imports Platform Conditions
begin

text \<open>
  \<open>guardrail/service/envelope.py\<close>: validation of an action proposal, its digest, and the
  envelopes the service answers with.  A body is a dictionary; an exception is the left side
  of a result: a \<open>WireError\<close> with its code and message, or a \<open>ValueError\<close> of the JSON
  encoder.  The builders that read the clock or draw identifiers take and return the world.
\<close>

definition CONTRACT_VERSION :: string where
  "CONTRACT_VERSION = ''1.0.0''"

text \<open>\<open>PERMIT_TTL\<close>, in microseconds.\<close>

definition PERMIT_TTL :: int where
  "PERMIT_TTL = 2 * 1000000"

definition WIRE_OUTCOMES :: "string list" where
  "WIRE_OUTCOMES = [''ALLOW'', ''BLOCK_UNSAFE'', ''BLOCK_UNAVAILABLE'', ''CONFIRM'',
     ''NOT_VOICE_ACTIONABLE'', ''ANSWER'', ''UNKNOWN'']"

text \<open>\<open>_DIGEST_PATTERN.fullmatch\<close>.\<close>

definition is_digest :: "string \<Rightarrow> bool" where
  "is_digest s \<longleftrightarrow>
     take 7 s = ''sha256:'' \<and> length s = 71 \<and> list_all (\<lambda>c. c \<in> set ''0123456789abcdef'') (drop 7 s)"

definition PROPOSAL_FIELDS :: "string list" where
  "PROPOSAL_FIELDS = [''contract_version'', ''proposal_id'', ''session_id'', ''source_turn_id'',
     ''tool'', ''arguments'', ''model_provider'', ''model_id'']"

datatype wire_exn = WireError string string | EncodeError

fun is_identifier :: "pyval \<Rightarrow> bool" where
  "is_identifier (PStr s) = (1 \<le> length s \<and> length s \<le> 128)"
| "is_identifier _ = False"

definition check_identifier :: "pyval \<Rightarrow> string \<Rightarrow> string \<Rightarrow> wire_exn option" where
  "check_identifier v field code =
     (if is_identifier v then None
      else Some (WireError code (field @ '' must be a non-empty identifier (<=128 chars)'')))"

definition require_contract_version :: "platform \<Rightarrow> payload \<Rightarrow> wire_exn option" where
  "require_contract_version pf payload =
     (let version = (case map_of payload ''contract_version'' of None \<Rightarrow> PNone | Some v \<Rightarrow> v)
      in if version = PStr CONTRACT_VERSION then None
         else Some (WireError ''CONTRACT_VERSION_MISMATCH''
                (''Expected contract '' @ repr_str CONTRACT_VERSION @ '', got '' @ py_repr pf version)))"

definition validate_action_proposal :: "platform \<Rightarrow> payload \<Rightarrow> wire_exn option" where
  "validate_action_proposal pf proposal =
     (case require_contract_version pf proposal of
        Some e \<Rightarrow> Some e
      | None \<Rightarrow>
     (let missing = sort (filter (\<lambda>f. f \<notin> fst ` set proposal) PROPOSAL_FIELDS)
      in if missing \<noteq> [] then Some (WireError ''MALFORMED_GUARDRAIL_RESPONSE''
             (''ActionProposal is missing required fields: '' @ join_str '', '' missing))
         else
     (let extras = sort (remdups (filter (\<lambda>f. f \<notin> set PROPOSAL_FIELDS) (map fst proposal)))
      in if extras \<noteq> [] then Some (WireError ''INVALID_ACTION_PROPOSAL''
             (''Unexpected fields: '' @ join_str '', '' extras))
         else if \<not> (case map_of proposal ''arguments'' of Some (PDict _) \<Rightarrow> True | _ \<Rightarrow> False)
         then Some (WireError ''INVALID_ACTION_PROPOSAL'' ''arguments must be an object'')
         else first_error (map (\<lambda>f. check_identifier (the (map_of proposal f)) f ''INVALID_ACTION_PROPOSAL'')
                [''proposal_id'', ''session_id'', ''source_turn_id'', ''tool'', ''model_provider'', ''model_id'']))))"

definition sha256_projection :: "platform \<Rightarrow> payload \<Rightarrow> wire_exn + string" where
  "sha256_projection pf projection =
     (case dumps pf (PDict projection) of
        None \<Rightarrow> Inl EncodeError
      | Some canonical \<Rightarrow> Inr (''sha256:'' @ pf_sha256 pf canonical))"

definition proposal_projection :: "payload \<Rightarrow> payload" where
  "proposal_projection proposal =
     map (\<lambda>f. (f, the (map_of proposal f)))
       [''arguments'', ''contract_version'', ''proposal_id'', ''session_id'', ''source_turn_id'', ''tool'']"

definition proposal_digest :: "platform \<Rightarrow> payload \<Rightarrow> wire_exn + string" where
  "proposal_digest pf proposal =
     (case validate_action_proposal pf proposal of
        Some e \<Rightarrow> Inl e
      | None \<Rightarrow> sha256_projection pf (proposal_projection proposal))"

text \<open>\<open>str(payload.get(key, ""))\<close>.\<close>

definition str_field :: "platform \<Rightarrow> payload \<Rightarrow> string \<Rightarrow> string" where
  "str_field pf payload k = (case map_of payload k of None \<Rightarrow> [] | Some v \<Rightarrow> py_str pf v)"

definition monitor_request_digest :: "platform \<Rightarrow> payload \<Rightarrow> wire_exn + string" where
  "monitor_request_digest pf payload =
     sha256_projection pf
       [(''active_action_id'', PStr (str_field pf payload ''active_action_id'')),
        (''contract_version'', PStr CONTRACT_VERSION),
        (''intent'', PStr (str_field pf payload ''intent'')),
        (''request_id'', PStr (str_field pf payload ''request_id''))]"

section \<open>Outbound builders\<close>

definition error_envelope :: "string \<Rightarrow> string \<Rightarrow> string \<Rightarrow> payload" where
  "error_envelope request_id code message =
     [(''contract_version'', PStr CONTRACT_VERSION),
      (''kind'', PStr ''error''),
      (''request_id'', PStr (if request_id \<noteq> [] then request_id else ''unknown'')),
      (''error'', PDict [(''code'', PStr code), (''message'', PStr message), (''retryable'', PBool False)])]"

definition reason_token :: "string \<Rightarrow> string" where
  "reason_token reason_code =
     (let token = strip (takeWhile (\<lambda>c. c \<noteq> CHR '' '') reason_code)
      in take 128 (if token = [] then ''POLICY_DECISION'' else token))"

definition permit_fields ::
  "platform \<Rightarrow> string \<Rightarrow> string \<Rightarrow> string \<Rightarrow> string \<Rightarrow> int \<Rightarrow> string \<Rightarrow> int \<Rightarrow> payload" where
  "permit_fields pf permit_id digest intent rule_id state_version policy_checksum issued_at =
     [(''permit_id'', PStr permit_id),
      (''proposal_digest'', PStr digest),
      (''intent'', PStr intent),
      (''rule_id'', PStr rule_id),
      (''state_version'', PInt state_version),
      (''policy_checksum'', PStr policy_checksum),
      (''issued_at'', PStr (pf_iso pf issued_at)),
      (''expires_at'', PStr (pf_iso pf (issued_at + PERMIT_TTL))),
      (''single_use'', PBool True)]"

definition permit ::
  "platform \<Rightarrow> payload \<Rightarrow> string \<Rightarrow> string \<Rightarrow> int \<Rightarrow> string \<Rightarrow> world \<Rightarrow> (wire_exn + payload) \<times> world" where
  "permit pf proposal intent rule_id state_version policy_checksum w =
     (let (issued_at, w) = now w;
          (permit_id, w) = new_id ''permit'' w
      in (case proposal_digest pf proposal of
            Inl e \<Rightarrow> Inl e
          | Inr digest \<Rightarrow> Inr (permit_fields pf permit_id digest intent rule_id state_version
                             policy_checksum issued_at), w))"

definition decision_fields ::
  "string \<Rightarrow> string \<Rightarrow> string \<Rightarrow> string \<Rightarrow> string \<Rightarrow> int \<Rightarrow> string \<Rightarrow> string \<Rightarrow> payload \<Rightarrow> payload" where
  "decision_fields request_id proposal_id intent outcome rule_id state_version policy_checksum
      reason_code relevant_state =
     [(''contract_version'', PStr CONTRACT_VERSION),
      (''kind'', PStr ''decision''),
      (''request_id'', PStr request_id),
      (''proposal_id'', PStr proposal_id),
      (''intent'', PStr intent),
      (''outcome'', PStr outcome),
      (''rule_id'', PStr rule_id),
      (''state_version'', PInt state_version),
      (''policy_checksum'', PStr policy_checksum),
      (''reason_code'', PStr (reason_token reason_code)),
      (''relevant_state'', PDict relevant_state)]"

text \<open>\<open>x if x else new_id(prefix)\<close>.\<close>

definition id_or_new :: "string \<Rightarrow> string \<Rightarrow> world \<Rightarrow> string \<times> world" where
  "id_or_new given prefix w = (if given \<noteq> [] then (given, w) else new_id prefix w)"

definition decision_envelope ::
  "platform \<Rightarrow> string \<Rightarrow> payload \<Rightarrow> string \<Rightarrow> string \<Rightarrow> string \<Rightarrow> int \<Rightarrow> string \<Rightarrow> string \<Rightarrow>
   payload \<Rightarrow> payload option \<Rightarrow> payload option \<Rightarrow> world \<Rightarrow> (wire_exn + payload) \<times> world" where
  "decision_envelope pf request_id proposal intent outcome rule_id state_version policy_checksum
      reason_code relevant_state answer confirmation w =
     (if outcome \<notin> set WIRE_OUTCOMES
      then (Inl (WireError ''UNKNOWN_OUTCOME'' (''unsupported outcome '' @ repr_str outcome)), w)
      else if rule_id = []
      then (Inl (WireError ''MALFORMED_GUARDRAIL_RESPONSE'' ''rule_id must be a non-empty identifier''), w)
      else if \<not> is_digest policy_checksum
      then (Inl (WireError ''MALFORMED_GUARDRAIL_RESPONSE'' ''policy_checksum must be a sha256 digest''), w)
      else
        (let (rid, w) = id_or_new request_id ''req'' w;
             base = decision_fields rid (case map_of proposal ''proposal_id'' of Some (PStr p) \<Rightarrow> p | _ \<Rightarrow> [])
                      intent outcome rule_id state_version policy_checksum reason_code relevant_state;
             decision = base @
               (case answer of
                  Some a \<Rightarrow> if outcome \<in> {''ANSWER'', ''UNKNOWN''} then [(''answer'', PDict a)] else []
                | None \<Rightarrow> [])
         in if outcome = ''CONFIRM'' then
              (case confirmation of
                 None \<Rightarrow> (Inl (WireError ''MALFORMED_GUARDRAIL_RESPONSE''
                                ''CONFIRM requires a confirmation block''), w)
               | Some c \<Rightarrow> (Inr (decision @ [(''confirmation'', PDict c)]), w))
            else if outcome = ''ALLOW'' then
              (case permit pf proposal intent rule_id state_version policy_checksum w of
                 (Inl e, w) \<Rightarrow> (Inl e, w)
               | (Inr p, w) \<Rightarrow> (Inr (decision @ [(''permit'', PDict p)]), w))
            else (Inr decision, w)))"

definition query_decision_envelope ::
  "string \<Rightarrow> string \<Rightarrow> string \<Rightarrow> string \<Rightarrow> string \<Rightarrow> int \<Rightarrow> string \<Rightarrow> string \<Rightarrow> payload \<Rightarrow>
   payload option \<Rightarrow> world \<Rightarrow> (wire_exn + payload) \<times> world" where
  "query_decision_envelope request_id proposal_id intent outcome rule_id state_version
      policy_checksum reason_code relevant_state answer w =
     (if outcome \<notin> {''ANSWER'', ''UNKNOWN''}
      then (Inl (WireError ''UNKNOWN_OUTCOME'' (''query path cannot return '' @ repr_str outcome)), w)
      else
        (let (rid, w) = id_or_new request_id ''req-query'' w
         in (Inr (decision_fields rid proposal_id intent outcome
                    (if rule_id \<noteq> [] then rule_id else ''Q000'') state_version policy_checksum
                    reason_code relevant_state @
                  (case answer of None \<Rightarrow> [] | Some a \<Rightarrow> [(''answer'', PDict a)])), w)))"

definition confirmation_block :: "string \<Rightarrow> string \<Rightarrow> string \<Rightarrow> payload" where
  "confirmation_block confirmation_id proposal_id expires_at =
     [(''confirmation_id'', PStr confirmation_id),
      (''proposal_id'', PStr proposal_id),
      (''expires_at'', PStr expires_at),
      (''single_use'', PBool True)]"

definition monitor_decision_envelope ::
  "platform \<Rightarrow> string \<Rightarrow> string \<Rightarrow> string \<Rightarrow> string \<Rightarrow> string \<Rightarrow> int \<Rightarrow> string \<Rightarrow> string \<Rightarrow>
   payload \<Rightarrow> string \<Rightarrow> world \<Rightarrow> payload \<times> world" where
  "monitor_decision_envelope pf request_id active_action_id intent outcome rule_id state_version
      policy_checksum reason_code relevant_state digest w =
     (let (rid, w) = id_or_new request_id ''req-mon'' w;
          decision = decision_fields rid active_action_id intent outcome rule_id state_version
                       policy_checksum reason_code relevant_state
      in if outcome = ''ALLOW'' then
           (let (issued_at, w) = now w;
                (permit_id, w) = new_id ''permit-mon'' w
            in (decision @ [(''permit'', PDict (permit_fields pf permit_id digest intent rule_id
                  state_version policy_checksum issued_at))], w))
         else (decision, w))"

section \<open>Shape of the envelopes\<close>

lemma keys_decision_fields:
  "map fst (decision_fields rid pid it out rl ver chk rc rel) =
     [''contract_version'', ''kind'', ''request_id'', ''proposal_id'', ''intent'', ''outcome'',
      ''rule_id'', ''state_version'', ''policy_checksum'', ''reason_code'', ''relevant_state'']"
  by (simp add: decision_fields_def)

lemma map_of_error_envelope:
  "map_of (error_envelope rid code msg) ''permit'' = None"
  "map_of (error_envelope rid code msg) ''kind'' = Some (PStr ''error'')"
  by (simp_all add: error_envelope_def)

definition answer_field :: "string \<Rightarrow> payload option \<Rightarrow> payload" where
  "answer_field out ans =
     (case ans of
        Some a \<Rightarrow> if out \<in> {''ANSWER'', ''UNKNOWN''} then [(''answer'', PDict a)] else []
      | None \<Rightarrow> [])"

definition proposal_id_of :: "payload \<Rightarrow> string" where
  "proposal_id_of p = (case map_of p ''proposal_id'' of Some (PStr i) \<Rightarrow> i | _ \<Rightarrow> [])"

text \<open>The three shapes of a decision: a confirmation block, a permit, or neither.\<close>

lemma decision_envelope_cases:
  assumes "decision_envelope pf rid p it out rl ver chk rc rel ans conf w = (Inr body, w')"
  obtains (confirm) rid' c where "out = ''CONFIRM''" "conf = Some c"
      "body = decision_fields rid' (proposal_id_of p) it out rl ver chk rc rel @ answer_field out ans @
        [(''confirmation'', PDict c)]"
  | (allow) rid' permit_id digest issued_at where "out = ''ALLOW''" "proposal_digest pf p = Inr digest"
      "body = decision_fields rid' (proposal_id_of p) it out rl ver chk rc rel @ answer_field out ans @
        [(''permit'', PDict (permit_fields pf permit_id digest it rl ver chk issued_at))]"
  | (plain) rid' where "out \<noteq> ''CONFIRM''" "out \<noteq> ''ALLOW''"
      "body = decision_fields rid' (proposal_id_of p) it out rl ver chk rc rel @ answer_field out ans"
proof -
  obtain rid' w1 where i: "id_or_new rid ''req'' w = (rid', w1)" by fastforce
  let ?base = "decision_fields rid' (proposal_id_of p) it out rl ver chk rc rel @ answer_field out ans"
  have ok: "\<not> out \<notin> set WIRE_OUTCOMES" "rl \<noteq> []" "\<not> \<not> is_digest chk"
    using assms by (auto simp: decision_envelope_def split: if_splits)
  note env = assms [unfolded decision_envelope_def, simplified ok if_False,
      folded answer_field_def proposal_id_of_def, unfolded i Let_def prod.case]
  show thesis
  proof (cases "out = ''CONFIRM''")
    case True
    with env show thesis by (cases conf) (auto intro: confirm)
  next
    case F: False
    show thesis
    proof (cases "out = ''ALLOW''")
      case True
      obtain r w2 where p: "permit pf p it rl ver chk w1 = (r, w2)" by fastforce
      with env True obtain q where q: "r = Inr q" "body = ?base @ [(''permit'', PDict q)]"
        by (cases r) auto
      with p obtain permit_id digest issued_at where "proposal_digest pf p = Inr digest"
        "q = permit_fields pf permit_id digest it rl ver chk issued_at"
        by (auto simp: permit_def Let_def split: prod.splits sum.splits)
      with True q show thesis
        by (intro allow [of digest rid' permit_id issued_at]) simp_all
    next
      case False
      with env F show thesis by (intro plain) auto
    qed
  qed
qed

lemma decision_envelope_ok:
  assumes "decision_envelope pf rid p it out rl ver chk rc rel ans conf w = (Inr body, w')"
  shows "out \<in> set WIRE_OUTCOMES" "rl \<noteq> []" "is_digest chk"
  using assms by (auto simp: decision_envelope_def split: if_splits)

lemma map_of_decision_fields:
  "map_of (decision_fields rid pid it out rl ver chk rc rel) k =
     (if k = ''contract_version'' then Some (PStr CONTRACT_VERSION)
      else if k = ''kind'' then Some (PStr ''decision'')
      else if k = ''request_id'' then Some (PStr rid)
      else if k = ''proposal_id'' then Some (PStr pid)
      else if k = ''intent'' then Some (PStr it)
      else if k = ''outcome'' then Some (PStr out)
      else if k = ''rule_id'' then Some (PStr rl)
      else if k = ''state_version'' then Some (PInt ver)
      else if k = ''policy_checksum'' then Some (PStr chk)
      else if k = ''reason_code'' then Some (PStr (reason_token rc))
      else if k = ''relevant_state'' then Some (PDict rel) else None)"
  by (simp add: decision_fields_def)

lemma map_of_answer_field: "k \<noteq> ''answer'' \<Longrightarrow> map_of (answer_field out ans) k = None"
  by (simp add: answer_field_def split: option.split)

lemmas envelope_lookup = map_of_decision_fields map_of_answer_field map_add_def

lemma decision_envelope_permit:
  assumes "decision_envelope pf rid p it out rl ver chk rc rel ans conf w = (Inr body, w')"
    and "map_of body ''permit'' = Some v"
  obtains permit_id digest issued_at where "out = ''ALLOW''" "proposal_digest pf p = Inr digest"
    "v = PDict (permit_fields pf permit_id digest it rl ver chk issued_at)"
  using assms(1)
proof (cases rule: decision_envelope_cases)
  case (confirm rid' c)
  with assms(2) show thesis by (simp add: envelope_lookup)
next
  case (allow rid' permit_id digest issued_at)
  with assms(2) show thesis
    by (intro that [of digest permit_id issued_at]) (simp_all add: envelope_lookup)
next
  case (plain rid')
  with assms(2) show thesis by (simp add: envelope_lookup)
qed

lemma decision_envelope_outcome:
  assumes "decision_envelope pf rid p it out rl ver chk rc rel ans conf w = (Inr body, w')"
  shows "map_of body ''outcome'' = Some (PStr out)" "map_of body ''intent'' = Some (PStr it)"
    "map_of body ''rule_id'' = Some (PStr rl)" "map_of body ''state_version'' = Some (PInt ver)"
    "map_of body ''kind'' = Some (PStr ''decision'')"
    "map_of body ''contract_version'' = Some (PStr CONTRACT_VERSION)"
  using assms by (cases rule: decision_envelope_cases; simp add: envelope_lookup)+

lemma monitor_envelope_permit:
  assumes "map_of (fst (monitor_decision_envelope pf rid aid it out rl ver chk rc rel dg w)) ''permit'' = Some v"
  shows "out = ''ALLOW''"
proof (rule ccontr)
  assume "out \<noteq> ''ALLOW''"
  with assms show False
    by (simp add: monitor_decision_envelope_def Let_def envelope_lookup split: prod.splits)
qed

lemma query_envelope_no_permit:
  assumes "query_decision_envelope rid pid it out rl ver chk rc rel ans w = (Inr body, w')"
  shows "map_of body ''permit'' = None"
proof -
  obtain rid' w1 where i: "id_or_new rid ''req-query'' w = (rid', w1)" by fastforce
  with assms have "body = decision_fields rid' pid it out (if rl \<noteq> [] then rl else ''Q000'') ver chk rc rel @
      (case ans of None \<Rightarrow> [] | Some a \<Rightarrow> [(''answer'', PDict a)])"
    by (simp only: query_decision_envelope_def Let_def) (simp split: if_splits)
  then show ?thesis
    by (simp add: envelope_lookup split: option.split)
qed

end
