(* ===== verification/Trace.thy ===== *)
theory Trace
  imports Platform
begin

text \<open>
  \<open>guardrail/service/trace.py\<close>: the in-memory trace of the last \<open>capacity\<close> requests.
  The performance counter (in seconds) and the time stamps of events are streams of readings
  of the recorder's own, with the position of the next reading; durations are computed in
  exact arithmetic.  A sink, when one is set, is the list of the events written to it.
\<close>

definition EVENT_TYPES :: "string list" where
  "EVENT_TYPES = [''guardrail_started'', ''tool_mapped'', ''mapping_failed'', ''constraint_evaluated'',
     ''confirmation_requested'', ''confirmation_resolved'', ''monitor_evaluated'',
     ''guardrail_completed'', ''guardrail_error'']"

record request_trace =
  rt_request_id :: string
  rt_session_id :: string
  rt_route :: string
  rt_started_at :: string
  rt_t0 :: rat
  rt_last :: rat
  rt_events :: "payload list"

record trace_recorder =
  tr_traces :: "request_trace dict"
  tr_capacity :: nat
  tr_policy_checksum :: string
  tr_sink :: "payload list option"
  tr_perf :: "nat \<Rightarrow> rat"
  tr_perf_pos :: nat
  tr_stamps :: "nat \<Rightarrow> string"
  tr_stamp_pos :: nat

definition perf_counter :: "trace_recorder \<Rightarrow> rat \<times> trace_recorder" where
  "perf_counter tr = (tr_perf tr (tr_perf_pos tr), tr\<lparr>tr_perf_pos := Suc (tr_perf_pos tr)\<rparr>)"

definition now_iso :: "trace_recorder \<Rightarrow> string \<times> trace_recorder" where
  "now_iso tr = (tr_stamps tr (tr_stamp_pos tr), tr\<lparr>tr_stamp_pos := Suc (tr_stamp_pos tr)\<rparr>)"

text \<open>\<open>round(seconds * 1000.0, 3)\<close>: to the nearest, ties to even.\<close>

definition round_half_even :: "rat \<Rightarrow> int" where
  "round_half_even x =
     (let f = \<lfloor>x\<rfloor>; d = x - of_int f
      in if d < 1 / 2 then f else if 1 / 2 < d then f + 1 else if even f then f else f + 1)"

definition millis :: "rat \<Rightarrow> pyval" where
  "millis seconds = PFloat (Fin (of_int (round_half_even (seconds * 1000000)) / 1000))"

definition split_ms :: "request_trace \<Rightarrow> trace_recorder \<Rightarrow> (pyval \<times> pyval) \<times> request_trace \<times> trace_recorder" where
  "split_ms t tr =
     (let (moment, tr) = perf_counter tr
      in ((millis (moment - rt_last t), millis (moment - rt_t0 t)), t\<lparr>rt_last := moment\<rparr>, tr))"

text \<open>\<open>{**base, **detail}\<close>.\<close>

definition dict_merge :: "payload \<Rightarrow> payload \<Rightarrow> payload" where
  "dict_merge base detail = fold (\<lambda>(k, v). AList.update k v) detail base"

definition event_base ::
  "string \<Rightarrow> string \<Rightarrow> string \<Rightarrow> string \<Rightarrow> string \<Rightarrow> pyval \<Rightarrow> pyval \<Rightarrow> string \<Rightarrow> payload" where
  "event_base event_type request_id session_id stamp stage stage_ms since_start_ms checksum =
     [(''event_type'', PStr event_type), (''request_id'', PStr request_id),
      (''session_id'', PStr session_id), (''timestamp'', PStr stamp), (''stage'', PStr stage),
      (''stage_ms'', stage_ms), (''since_start_ms'', since_start_ms),
      (''policy_checksum'', PStr checksum)]"

definition emit :: "payload \<Rightarrow> trace_recorder \<Rightarrow> trace_recorder" where
  "emit event tr = tr\<lparr>tr_sink := map_option (\<lambda>es. es @ [event]) (tr_sink tr)\<rparr>"

text \<open>\<open>record\<close>; the left side is the \<open>ValueError\<close> for an unknown event type.\<close>

definition record_event ::
  "string \<Rightarrow> string \<Rightarrow> string \<Rightarrow> payload \<Rightarrow> trace_recorder \<Rightarrow> string + trace_recorder" where
  "record_event request_id event_type stage detail tr =
     (if event_type \<notin> set EVENT_TYPES then Inl (''unknown trace event_type: '' @ repr_str event_type)
      else case map_of (tr_traces tr) request_id of
        None \<Rightarrow>
          (let (stamp, tr) = now_iso tr
           in Inr (emit (dict_merge (event_base event_type request_id ''unknown'' stamp stage
                     (PFloat (Fin 0)) (PFloat (Fin 0)) (tr_policy_checksum tr)) detail) tr))
      | Some t \<Rightarrow>
          (let ((stage_ms, since_start_ms), t, tr) = split_ms t tr;
               (stamp, tr) = now_iso tr;
               event = dict_merge (event_base event_type request_id (rt_session_id t) stamp stage
                         stage_ms since_start_ms (tr_policy_checksum tr)) detail;
               t = t\<lparr>rt_events := rt_events t @ [event]\<rparr>
           in Inr (emit event (tr\<lparr>tr_traces := AList.update request_id t (tr_traces tr)\<rparr>))))"

text \<open>A call of \<open>record\<close> with an event type of the table.\<close>

definition trace_event ::
  "string \<Rightarrow> string \<Rightarrow> string \<Rightarrow> payload \<Rightarrow> trace_recorder \<Rightarrow> trace_recorder" where
  "trace_event request_id event_type stage detail tr =
     (case record_event request_id event_type stage detail tr of Inl _ \<Rightarrow> tr | Inr tr' \<Rightarrow> tr')"

fun evict :: "nat \<Rightarrow> 'a list \<Rightarrow> 'a list" where
  "evict capacity [] = []"
| "evict capacity (x # xs) = (if length (x # xs) > capacity then evict capacity xs else x # xs)"

definition begin_trace :: "string \<Rightarrow> string \<Rightarrow> string \<Rightarrow> trace_recorder \<Rightarrow> trace_recorder" where
  "begin_trace request_id session_id route tr =
     (let (started, tr) = now_iso tr;
          (t0, tr) = perf_counter tr;
          t = \<lparr>rt_request_id = request_id, rt_session_id = session_id, rt_route = route,
               rt_started_at = started, rt_t0 = t0, rt_last = t0, rt_events = []\<rparr>;
          traces = evict (tr_capacity tr) (AList.delete request_id (tr_traces tr) @ [(request_id, t)])
      in trace_event request_id ''guardrail_started'' ''ingress'' [(''route'', PStr route)]
           (tr\<lparr>tr_traces := traces\<rparr>))"

definition opt_str :: "string option \<Rightarrow> pyval" where
  "opt_str x = (case x of None \<Rightarrow> PNone | Some s \<Rightarrow> PStr s)"

definition end_trace ::
  "string \<Rightarrow> int \<Rightarrow> pyval \<Rightarrow> pyval \<Rightarrow> trace_recorder \<Rightarrow> trace_recorder" where
  "end_trace request_id status outcome error_code tr =
     (let (elapsed, tr) =
            (case map_of (tr_traces tr) request_id of
               None \<Rightarrow> (PFloat (Fin 0), tr)
             | Some t \<Rightarrow> (let (moment, tr) = perf_counter tr in (millis (moment - rt_t0 t), tr)));
          event_type = (if py_truth error_code then ''guardrail_error'' else ''guardrail_completed'')
      in trace_event request_id event_type ''egress''
           [(''http_status'', PInt status), (''outcome'', outcome), (''error_code'', error_code),
            (''end_to_end_ms'', elapsed)] tr)"

section \<open>The window of requests\<close>

lemma evict_eq: "evict c xs = drop (length xs - c) xs"
  by (induction xs) (auto simp: Suc_diff_le not_less)

definition events_of :: "string \<Rightarrow> trace_recorder \<Rightarrow> payload list option" where
  "events_of request_id tr = map_option rt_events (map_of (tr_traces tr) request_id)"

definition trace_inv :: "trace_recorder \<Rightarrow> bool" where
  "trace_inv tr \<longleftrightarrow> distinct (map fst (tr_traces tr)) \<and> length (tr_traces tr) \<le> tr_capacity tr"

lemma length_update_present:
  "k \<in> fst ` set d \<Longrightarrow> length (AList.update k v d) = length d"
  by (induction d) auto

lemma trace_event_frame [simp]:
  "tr_capacity (trace_event rid et st d tr) = tr_capacity tr"
  by (auto simp: trace_event_def record_event_def emit_def now_iso_def split_ms_def perf_counter_def
      Let_def split: option.splits sum.splits if_splits)

lemma traces_trace_event:
  "map fst (tr_traces (trace_event rid et st d tr)) = map fst (tr_traces tr)"
  by (auto simp: trace_event_def record_event_def emit_def now_iso_def split_ms_def perf_counter_def
      Let_def update_keys split: option.splits sum.splits if_splits dest: map_of_key)

lemma trace_inv_event:
  assumes "trace_inv tr"
  shows "trace_inv (trace_event rid et st d tr)"
proof -
  have "length (tr_traces (trace_event rid et st d tr)) = length (tr_traces tr)"
    by (metis length_map traces_trace_event)
  with assms show ?thesis by (simp add: trace_inv_def traces_trace_event)
qed

lemma trace_inv_begin:
  assumes "trace_inv tr"
  shows "trace_inv (begin_trace rid sid route tr)"
proof -
  have d: "distinct (map fst (AList.delete rid (tr_traces tr) @ [(rid, t)]))" for t
    using assms by (simp add: trace_inv_def distinct_delete)
  have "distinct (map fst (evict c (AList.delete rid (tr_traces tr) @ [(rid, t)])))" for c t
    unfolding evict_eq drop_map [symmetric] by (rule distinct_drop [OF d])
  then show ?thesis
    by (simp add: begin_trace_def now_iso_def perf_counter_def Let_def)
      (rule trace_inv_event, simp add: trace_inv_def evict_eq)
qed

lemma trace_inv_end: "trace_inv tr \<Longrightarrow> trace_inv (end_trace rid status out code tr)"
  by (auto simp: end_trace_def perf_counter_def Let_def split: option.split prod.split
      intro!: trace_inv_event) (simp_all add: trace_inv_def)

section \<open>What a request leaves behind\<close>

definition types_of :: "string \<Rightarrow> trace_recorder \<Rightarrow> pyval option list option" where
  "types_of rid tr = map_option (map (\<lambda>e. map_of e ''event_type'')) (events_of rid tr)"

lemma map_of_dict_merge:
  "k \<notin> fst ` set detail \<Longrightarrow> map_of (dict_merge base detail) k = map_of base k"
  by (induction detail arbitrary: base) (auto simp: dict_merge_def dict.put_other)

lemma types_trace_event:
  assumes "et \<in> set EVENT_TYPES" and "''event_type'' \<notin> fst ` set d"
  shows "types_of rid (trace_event rid et st d tr) =
    map_option (\<lambda>ts. ts @ [Some (PStr et)]) (types_of rid tr)"
  using assms
  by (simp add: types_of_def events_of_def trace_event_def record_event_def emit_def now_iso_def
      split_ms_def perf_counter_def Let_def map_of_dict_merge update_conv' event_base_def
      split: option.split)

lemma evict_keeps_last:
  "0 < c \<Longrightarrow> k \<notin> fst ` set d \<Longrightarrow> map_of (evict c (d @ [(k, t)])) k = Some t"
  by (induction d) (auto simp: map_add_def split: option.split dest: map_of_key)

lemma types_begin:
  assumes "0 < tr_capacity tr"
  shows "types_of rid (begin_trace rid sid route tr) = Some [Some (PStr ''guardrail_started'')]"
proof -
  have "rid \<notin> fst ` set (AList.delete rid (tr_traces tr))" by simp
  note last = evict_keeps_last [OF assms this]
  show ?thesis
    by (simp add: begin_trace_def now_iso_def perf_counter_def Let_def types_trace_event
        EVENT_TYPES_def) (simp add: types_of_def events_of_def last)
qed

lemma types_end:
  "types_of rid (end_trace rid status out code tr) =
     map_option (\<lambda>ts. ts @ [Some (PStr (if py_truth code then ''guardrail_error'' else ''guardrail_completed''))])
       (types_of rid tr)"
  by (simp add: end_trace_def perf_counter_def Let_def types_trace_event EVENT_TYPES_def
      types_of_def [of rid "tr\<lparr>tr_perf_pos := _\<rparr>"] events_of_def split: option.split)
    (simp add: types_of_def events_of_def)?

text \<open>Recording an event never removes one, of this request or of another.\<close>

lemma types_trace_extends:
  "\<exists>mid. types_of r (trace_event rid et st d tr) = map_option (\<lambda>ts. ts @ mid) (types_of r tr)"
proof (cases "et \<in> set EVENT_TYPES")
  case False
  then show ?thesis
    by (intro exI [of _ "[]"]) (simp add: trace_event_def record_event_def option.map_ident)
next
  case True
  show ?thesis
  proof (cases "map_of (tr_traces tr) rid")
    case None
    with True show ?thesis
      by (intro exI [of _ "[]"])
        (simp add: trace_event_def record_event_def types_of_def events_of_def emit_def now_iso_def
          Let_def option.map_comp comp_def)
  next
    case (Some t)
    show ?thesis
    proof (cases "r = rid")
      case True
      from True Some \<open>et \<in> set EVENT_TYPES\<close> show ?thesis
        by (simp add: trace_event_def record_event_def types_of_def events_of_def emit_def now_iso_def
            split_ms_def perf_counter_def Let_def dict.get_put)
    next
      case False
      with Some \<open>et \<in> set EVENT_TYPES\<close> show ?thesis
        by (intro exI [of _ "[]"])
          (simp add: trace_event_def record_event_def types_of_def events_of_def emit_def now_iso_def
            split_ms_def perf_counter_def Let_def dict.get_put option.map_comp comp_def)
    qed
  qed
qed

end
