(* ===== verification/Service.thy ===== *)
theory Service
  imports Engine ToolMap StateStore Confirmations ActiveActions AnswerFacts Envelope Trace
begin

text \<open>
  \<open>guardrail/service/app.py\<close>: \<open>GuardrailService\<close>, the whole request surface of the
  guardrail.  The state of the service is the store of the vehicle state, the policy, the
  mapping table, the pending confirmations, the active actions, the trace and the world.
  A handler returns a status and a body, or the exception that escapes from it, beside the
  state it leaves; \<open>handle\<close> turns an escaped exception into a 500.
\<close>

record service =
  sv_store :: state_store
  sv_rules :: ruleset
  sv_table :: mapping_table
  sv_confirmations :: confirmation_store
  sv_actions :: action_registry
  sv_trace :: trace_recorder
  sv_world :: world

type_synonym response = "int \<times> payload"
type_synonym handled = "(wire_exn + response) \<times> service"

text \<open>The constructor with the parts it is given; \<open>sv_trace\<close> has the policy's checksum.\<close>

definition TraceRecorder :: "nat \<Rightarrow> string \<Rightarrow> (nat \<Rightarrow> rat) \<Rightarrow> (nat \<Rightarrow> string) \<Rightarrow> trace_recorder" where
  "TraceRecorder capacity checksum perf stamps =
     \<lparr>tr_traces = [], tr_capacity = capacity, tr_policy_checksum = checksum, tr_sink = None,
      tr_perf = perf, tr_perf_pos = 0, tr_stamps = stamps, tr_stamp_pos = 0\<rparr>"

definition GuardrailService ::
  "state_store \<Rightarrow> ruleset \<Rightarrow> mapping_table \<Rightarrow> (nat \<Rightarrow> rat) \<Rightarrow> (nat \<Rightarrow> string) \<Rightarrow> world \<Rightarrow> service" where
  "GuardrailService st rules table perf stamps w =
     \<lparr>sv_store = st, sv_rules = rules, sv_table = table,
      sv_confirmations = PendingConfirmationStore, sv_actions = [],
      sv_trace = TraceRecorder 256 (rs_policy_checksum rules) perf stamps, sv_world = w\<rparr>"

definition FAIL_CLOSED_STATUS :: int where
  "FAIL_CLOSED_STATUS = 422"

definition ACTION_ROUTE :: string where "ACTION_ROUTE = ''/v1/evaluate/action''"
definition QUERY_ROUTE :: string where "QUERY_ROUTE = ''/v1/evaluate/query''"
definition CONFIRM_ROUTE :: string where "CONFIRM_ROUTE = ''/v1/confirmations/confirm''"
definition MONITOR_ROUTE :: string where "MONITOR_ROUTE = ''/v1/monitor/evaluate''"

fun as_id :: "pyval \<Rightarrow> string option" where
  "as_id (PStr s) = (if 1 \<le> length s \<and> length s \<le> 128 then Some s else None)"
| "as_id _ = None"

text \<open>\<open>x or d\<close> for an optional string.\<close>

definition str_or :: "string option \<Rightarrow> string \<Rightarrow> string" where
  "str_or x d = (case x of None \<Rightarrow> d | Some s \<Rightarrow> if s = [] then d else s)"

text \<open>\<open>_evaluate\<close>: the engine, with every exception turned into a closed decision.\<close>

definition evaluate_closed ::
  "ruleset \<Rightarrow> string \<Rightarrow> vstate \<Rightarrow> string \<Rightarrow> payload \<Rightarrow> decision" where
  "evaluate_closed rules intent state check_mode request_params =
     (case evaluate rules intent state check_mode request_params of
        Inr d \<Rightarrow> d
      | Inl _ \<Rightarrow>
          \<lparr>dc_intent = intent, dc_check_mode = check_mode, dc_outcome = None, dc_rule_id = None,
           dc_reason_code = ''ENGINE_EVAL_ERROR'', dc_relevant_state = [],
           dc_error = Some ''TypeError'', dc_matched_rule_ids = []\<rparr>)"

definition trace_sv :: "string \<Rightarrow> string \<Rightarrow> string \<Rightarrow> payload \<Rightarrow> service \<Rightarrow> service" where
  "trace_sv request_id event_type stage detail sv =
     sv\<lparr>sv_trace := trace_event request_id event_type stage detail (sv_trace sv)\<rparr>"

definition trace_evaluation :: "string \<Rightarrow> decision \<Rightarrow> int \<Rightarrow> service \<Rightarrow> service" where
  "trace_evaluation request_id d state_version sv =
     trace_sv request_id ''constraint_evaluated'' ''policy_engine''
       [(''intent'', PStr (dc_intent d)),
        (''check_mode'', PStr (dc_check_mode d)),
        (''outcome'', opt_str (dc_outcome d)),
        (''rule_id'', opt_str (dc_rule_id d)),
        (''reason_code'', PStr (dc_reason_code d)),
        (''state_version'', PInt state_version),
        (''relevant_state'', PDict (dc_relevant_state d)),
        (''fail_closed'', PBool (is_fail_closed d))] sv"

text \<open>\<open>decision_envelope\<close> on the outcome of a decision, which may be \<open>None\<close>; its world is
  the service's.\<close>

definition decide_body ::
  "platform \<Rightarrow> string \<Rightarrow> payload \<Rightarrow> string \<Rightarrow> string option \<Rightarrow> string \<Rightarrow> int \<Rightarrow> string \<Rightarrow>
   payload \<Rightarrow> payload option \<Rightarrow> payload option \<Rightarrow> service \<Rightarrow> (wire_exn + payload) \<times> service" where
  "decide_body pf request_id proposal intent outcome rule_id state_version reason_code
      relevant_state answer confirmation sv =
     (case outcome of
        None \<Rightarrow> (Inl (WireError ''UNKNOWN_OUTCOME'' ''unsupported outcome None''), sv)
      | Some out \<Rightarrow>
          (let (r, w) = decision_envelope pf request_id proposal intent out rule_id state_version
                 (rs_policy_checksum (sv_rules sv)) reason_code relevant_state answer confirmation
                 (sv_world sv)
           in (r, sv\<lparr>sv_world := w\<rparr>)))"

definition create_sv ::
  "platform \<Rightarrow> string \<Rightarrow> payload \<Rightarrow> string \<Rightarrow> string \<Rightarrow> service \<Rightarrow> pending_confirmation \<times> service" where
  "create_sv pf request_id proposal intent rule_id sv =
     (let (r, cs, w) = create pf proposal intent rule_id (sv_confirmations sv) (sv_world sv)
      in (r, trace_sv request_id ''confirmation_requested'' ''confirmation''
               [(''confirmation_id'', PStr (pc_confirmation_id r)),
                (''intent'', PStr intent),
                (''expires_at'', PStr (pf_iso pf (pc_expires_at r)))]
               (sv\<lparr>sv_confirmations := cs, sv_world := w\<rparr>)))"

definition register_sv :: "string \<Rightarrow> string \<Rightarrow> service \<Rightarrow> service" where
  "register_sv action_id intent sv =
     (let (reg, w) = register action_id intent (sv_actions sv) (sv_world sv)
      in sv\<lparr>sv_actions := reg, sv_world := w\<rparr>)"

section \<open>The action route\<close>

definition evaluate_action :: "platform \<Rightarrow> payload \<Rightarrow> string \<Rightarrow> service \<Rightarrow> handled" where
  "evaluate_action pf proposal request_id sv =
     (let proposal_id = str_or (as_id (get_or_None proposal ''proposal_id'')) ''unknown'' in
      case validate_action_proposal pf proposal of
        Some (WireError code msg) \<Rightarrow>
          (Inr (if code = ''CONTRACT_VERSION_MISMATCH'' then 409 else 400,
                error_envelope proposal_id code msg), sv)
      | Some EncodeError \<Rightarrow> (Inl EncodeError, sv)
      | None \<Rightarrow>
     (case resolve (sv_table sv) (get_or_None proposal ''tool'') (get_or_None proposal ''arguments'') of
        Inl (code, msg) \<Rightarrow>
          (Inr (FAIL_CLOSED_STATUS, error_envelope proposal_id code msg),
           trace_sv request_id ''mapping_failed'' ''tool_map''
             [(''tool'', get_or_None proposal ''tool''), (''error_code'', PStr code)] sv)
      | Inr intent \<Rightarrow>
     (let sv = trace_sv request_id ''tool_mapped'' ''tool_map''
                 [(''tool'', get_or_None proposal ''tool''), (''intent'', PStr intent)] sv;
          arguments = (case get_or_None proposal ''arguments'' of PDict a \<Rightarrow> a | _ \<Rightarrow> []);
          (state, state_version) = snapshot (sv_store sv);
          d = evaluate_closed (sv_rules sv) intent state ''gate'' (request_params_for intent arguments);
          sv = trace_evaluation request_id d state_version sv
      in if is_fail_closed d then
           (Inr (FAIL_CLOSED_STATUS, error_envelope proposal_id (dc_reason_code d)
                   (str_or (dc_error d) ''policy fail-closed'')), sv)
         else if dc_outcome d = Some ''CONFIRM'' then
           (let (r, sv) = create_sv pf request_id proposal (dc_intent d) (str_or (dc_rule_id d) []) sv;
                (body, sv) = decide_body pf [] proposal (dc_intent d) (Some ''CONFIRM'')
                  (str_or (dc_rule_id d) ''R000'') state_version (dc_reason_code d) (dc_relevant_state d)
                  None
                  (Some (confirmation_block (pc_confirmation_id r) (proposal_id_of proposal)
                           (pf_iso pf (pc_expires_at r)))) sv
            in (case body of Inl e \<Rightarrow> Inl e | Inr b \<Rightarrow> Inr (200, b), sv))
         else
           (let answer = shape_answer (dc_intent d) (dc_outcome d) state arguments (dc_relevant_state d);
                (body, sv) = decide_body pf [] proposal (dc_intent d) (dc_outcome d)
                  (str_or (dc_rule_id d) []) state_version (dc_reason_code d) (dc_relevant_state d)
                  answer None sv
            in case body of
                 Inl (WireError code msg) \<Rightarrow>
                   (Inr (FAIL_CLOSED_STATUS, error_envelope proposal_id code msg), sv)
               | Inl EncodeError \<Rightarrow> (Inl EncodeError, sv)
               | Inr b \<Rightarrow>
                   (Inr (200, b),
                    if dc_outcome d = Some ''ALLOW'' \<and> dc_intent d \<in> set MONITORED_INTENTS
                    then register_sv (proposal_id_of proposal) (dc_intent d) sv else sv)))))"

section \<open>The confirmation route\<close>

definition confirm :: "platform \<Rightarrow> payload \<Rightarrow> string \<Rightarrow> service \<Rightarrow> handled" where
  "confirm pf payload request_id sv =
     (case (as_id (get_or_None payload ''confirmation_id''), as_id (get_or_None payload ''session_id''),
            as_id (get_or_None payload ''request_id'')) of
        (Some confirmation_id, Some session_id, Some _) \<Rightarrow>
          (let (res, cs, w) = consume confirmation_id session_id (sv_confirmations sv) (sv_world sv);
               sv = sv\<lparr>sv_confirmations := cs, sv_world := w\<rparr>
           in case res of
                SessionMismatch \<Rightarrow>
                  (Inr (403, error_envelope request_id ''CONFIRMATION_SESSION_MISMATCH''
                          ''Confirmation belongs to a different session''), sv)
              | NotActive \<Rightarrow>
                  (Inr (409, error_envelope request_id ''CONFIRMATION_NOT_ACTIVE''
                          ''Confirmation is unknown, expired, or already consumed''), sv)
              | Consumed r \<Rightarrow>
          (let (state, state_version) = snapshot (sv_store sv);
               d = evaluate_closed (sv_rules sv) (pc_intent r) state ''gate'' [];
               sv = trace_evaluation request_id d state_version sv;
               sv = trace_sv request_id ''confirmation_resolved'' ''confirmation''
                      [(''confirmation_id'', PStr confirmation_id), (''intent'', PStr (pc_intent r)),
                       (''reevaluated_outcome'', opt_str (dc_outcome d))] sv
           in if is_fail_closed d then
                (Inr (FAIL_CLOSED_STATUS, error_envelope request_id (dc_reason_code d)
                        (str_or (dc_error d) ''policy fail-closed'')), sv)
              else if dc_outcome d = Some ''ALLOW'' \<or>
                      dc_outcome d = Some ''CONFIRM'' \<and> str_or (dc_rule_id d) [] = pc_origin_rule_id r then
                (let (body, sv) = decide_body pf request_id (pc_proposal r) (pc_intent r) (Some ''ALLOW'')
                       (str_or (dc_rule_id d) (str_or (Some (pc_origin_rule_id r)) ''R000'')) state_version
                       ''CONFIRMATION_REEVALUATED_ALLOW'' (dc_relevant_state d) None None sv
                 in case body of
                      Inl e \<Rightarrow> (Inl e, sv)
                    | Inr b \<Rightarrow>
                        (Inr (200, b),
                         if pc_intent r \<in> set MONITORED_INTENTS
                         then register_sv (proposal_id_of (pc_proposal r)) (pc_intent r) sv else sv))
              else if dc_outcome d = Some ''CONFIRM'' then
                (let (fresh, sv) = create_sv pf request_id (pc_proposal r) (pc_intent r)
                                     (str_or (dc_rule_id d) []) sv;
                     (body, sv) = decide_body pf request_id (pc_proposal r) (pc_intent r) (Some ''CONFIRM'')
                       (str_or (dc_rule_id d) ''R000'') state_version (dc_reason_code d)
                       (dc_relevant_state d) None
                       (Some (confirmation_block (pc_confirmation_id fresh)
                                (proposal_id_of (pc_proposal r)) (pf_iso pf (pc_expires_at fresh)))) sv
                 in (case body of Inl e \<Rightarrow> Inl e | Inr b \<Rightarrow> Inr (200, b), sv))
              else
                (let (body, sv) = decide_body pf request_id (pc_proposal r) (pc_intent r) (dc_outcome d)
                       (str_or (dc_rule_id d) []) state_version (dc_reason_code d) (dc_relevant_state d)
                       None None sv
                 in (case body of Inl e \<Rightarrow> Inl e | Inr b \<Rightarrow> Inr (200, b), sv))))
      | _ \<Rightarrow>
          (Inr (400, error_envelope request_id ''INVALID_CONFIRMATION''
                  ''confirm requires request_id, confirmation_id and session_id''), sv))"

section \<open>The monitor route\<close>

text \<open>The vehicle state a monitor request is evaluated on: the one it carries, or the store's.\<close>

definition monitor_state :: "pyval \<Rightarrow> state_store \<Rightarrow> string + vstate \<times> int" where
  "monitor_state vehicle_state st =
     (case vehicle_state of
        PNone \<Rightarrow> Inr (snapshot st)
      | PDict raw \<Rightarrow>
          (case validate_wire_vehicle_state raw of Inl m \<Rightarrow> Inl m | Inr s \<Rightarrow> Inr (s, - 1))
      | _ \<Rightarrow> Inl ''vehicle_state must be an object'')"

text \<open>\<open>if not continue_running: self.active_actions.deregister(...)\<close>.\<close>

definition release_sv :: "bool \<Rightarrow> string \<Rightarrow> service \<Rightarrow> service" where
  "release_sv continue_running active_action_id sv =
     (if continue_running then sv
      else sv\<lparr>sv_actions := deregister active_action_id (sv_actions sv)\<rparr>)"

definition monitor :: "platform \<Rightarrow> payload \<Rightarrow> string \<Rightarrow> service \<Rightarrow> handled" where
  "monitor pf payload request_id sv =
     (case (as_id (get_or_None payload ''active_action_id''), as_id (get_or_None payload ''intent''),
            as_id (get_or_None payload ''request_id'')) of
        (Some active_action_id, Some intent, Some _) \<Rightarrow>
     (case monitor_state (get_or_None payload ''vehicle_state'') (sv_store sv) of
        Inl m \<Rightarrow> (Inr (400, error_envelope request_id ''INVALID_VEHICLE_STATE'' m), sv)
      | Inr (state, state_version) \<Rightarrow>
     (let d = evaluate_closed (sv_rules sv) intent state ''monitor'' []
      in case monitor_request_digest pf payload of
        Inl e \<Rightarrow> (Inl e, sv)
      | Inr digest \<Rightarrow>
     (let version = (if state_version \<ge> 0 then state_version else 0);
          sv = trace_evaluation request_id d version sv;
          sv = trace_sv request_id ''monitor_evaluated'' ''monitor''
                 [(''active_action_id'', PStr active_action_id), (''intent'', PStr intent),
                  (''monitor_outcome'', opt_str (dc_outcome d)), (''rule_id'', opt_str (dc_rule_id d))] sv
      in if is_fail_closed d then
           (Inr (FAIL_CLOSED_STATUS, error_envelope request_id
                   (if dc_reason_code d \<in> {''NO_RULE_FOR_PHASE'', ''INTENT_NOT_IN_CATALOG''}
                    then ''NOT_A_MONITORED_INTENT'' else dc_reason_code d)
                   (str_or (dc_error d) ''monitor fail-closed'')), sv)
         else
           (let continue_running = dc_outcome d \<in> {None, Some ''ALLOW''};
                outcome = (case dc_outcome d of None \<Rightarrow> ''ALLOW'' | Some out \<Rightarrow> out);
                rule_id = str_or (dc_rule_id d)
                            (if continue_running then ''MONITOR_NO_TRIGGER'' else ''MONITOR_RULE'');
                sv = release_sv continue_running active_action_id sv;
                (body, w) = monitor_decision_envelope pf request_id active_action_id intent outcome
                  rule_id version (rs_policy_checksum (sv_rules sv)) (dc_reason_code d)
                  (dc_relevant_state d) digest (sv_world sv)
            in (Inr (200, body), sv\<lparr>sv_world := w\<rparr>)))))
      | _ \<Rightarrow>
          (Inr (400, error_envelope request_id ''INVALID_MONITOR_REQUEST''
                  ''monitor requires request_id, active_action_id and intent''), sv))"

section \<open>The query route\<close>

text \<open>\<open>isinstance(tool, str) and isinstance(arguments, dict)\<close>.\<close>

fun as_query :: "pyval \<Rightarrow> pyval \<Rightarrow> (string \<times> payload) option" where
  "as_query (PStr tool) (PDict arguments) = Some (tool, arguments)"
| "as_query _ _ = None"

definition evaluate_query :: "platform \<Rightarrow> payload \<Rightarrow> string \<Rightarrow> service \<Rightarrow> handled" where
  "evaluate_query pf payload request_id sv =
     (case as_query (get_or_None payload ''tool'') (get_or_None payload ''arguments'') of
        Some (tool, arguments) \<Rightarrow>
     (case resolve (sv_table sv) (PStr tool) (PDict arguments) of
        Inl (code, msg) \<Rightarrow>
          (Inr (FAIL_CLOSED_STATUS, error_envelope request_id code msg),
           trace_sv request_id ''mapping_failed'' ''tool_map''
             [(''tool'', PStr tool), (''error_code'', PStr code)] sv)
      | Inr intent \<Rightarrow>
      if intent \<notin> set QUERY_INTENTS \<union> set EXPLAIN_INTENTS then
        (Inr (FAIL_CLOSED_STATUS, error_envelope request_id ''NOT_A_QUERY_INTENT''
                (repr_str intent @ '' is not a read-only query'')), sv)
      else
     (let sv = trace_sv request_id ''tool_mapped'' ''tool_map''
                 [(''tool'', PStr tool), (''intent'', PStr intent)] sv;
          (state, state_version) = snapshot (sv_store sv);
          d = evaluate_closed (sv_rules sv) intent state ''gate'' (request_params_for intent arguments);
          sv = trace_evaluation request_id d state_version sv
      in if is_fail_closed d then
           (Inr (FAIL_CLOSED_STATUS, error_envelope request_id (dc_reason_code d)
                   (str_or (dc_error d) ''policy fail-closed'')), sv)
         else
           (let answer = shape_answer (dc_intent d) (dc_outcome d) state arguments (dc_relevant_state d);
                (body, w) = query_decision_envelope
                  (if request_id \<noteq> ''unknown'' then request_id else [])
                  (str_or (as_id (get_or_None payload ''proposal_id'')) ''query'')
                  (dc_intent d) (str_or (dc_outcome d) ''UNKNOWN'') (str_or (dc_rule_id d) ''Q000'')
                  state_version (rs_policy_checksum (sv_rules sv)) (dc_reason_code d)
                  (dc_relevant_state d) answer (sv_world sv);
                sv = sv\<lparr>sv_world := w\<rparr>
            in case body of
                 Inl (WireError code msg) \<Rightarrow>
                   (Inr (FAIL_CLOSED_STATUS, error_envelope request_id code msg), sv)
               | Inl EncodeError \<Rightarrow> (Inl EncodeError, sv)
               | Inr b \<Rightarrow> (Inr (200, b), sv))))
      | None \<Rightarrow>
          (Inr (400, error_envelope request_id ''INVALID_QUERY'' (''query requires 'tool' and 'arguments'' @ [CHR 0x27])), sv))"

section \<open>Routing\<close>

definition dispatch :: "platform \<Rightarrow> string \<Rightarrow> payload \<Rightarrow> string \<Rightarrow> service \<Rightarrow> handled" where
  "dispatch pf path payload request_id sv =
     (case require_contract_version pf payload of
        Some (WireError code msg) \<Rightarrow> (Inr (409, error_envelope request_id code msg), sv)
      | Some EncodeError \<Rightarrow> (Inl EncodeError, sv)
      | None \<Rightarrow>
          if path = ACTION_ROUTE then evaluate_action pf payload request_id sv
          else if path = QUERY_ROUTE then evaluate_query pf payload request_id sv
          else if path = CONFIRM_ROUTE then confirm pf payload request_id sv
          else if path = MONITOR_ROUTE then monitor pf payload request_id sv
          else (Inr (404, error_envelope request_id ''ROUTE_NOT_FOUND'' path), sv))"

definition error_code_of :: "payload \<Rightarrow> pyval" where
  "error_code_of body =
     (case get_or_None body ''error'' of PDict e \<Rightarrow> get_or_None e ''code'' | _ \<Rightarrow> PNone)"

text \<open>The steps of \<open>handle\<close>: the identifiers of the request, the trace around the dispatch,
  and the 500 for an exception that escaped.\<close>

definition request_id_of :: "payload \<Rightarrow> string" where
  "request_id_of payload =
     str_or (as_id (get_or_None payload ''request_id''))
       (str_or (as_id (get_or_None payload ''proposal_id'')) ''unknown'')"

definition begin_sv :: "string \<Rightarrow> payload \<Rightarrow> service \<Rightarrow> service" where
  "begin_sv path payload sv =
     sv\<lparr>sv_trace := begin_trace (request_id_of payload)
          (str_or (as_id (get_or_None payload ''session_id'')) ''-'') path (sv_trace sv)\<rparr>"

definition response_of :: "string \<Rightarrow> wire_exn + response \<Rightarrow> response" where
  "response_of request_id res =
     (case res of
        Inr r \<Rightarrow> r
      | Inl _ \<Rightarrow> (500, error_envelope request_id ''GUARDRAIL_INTERNAL_ERROR'' ''internal error''))"

definition end_sv :: "string \<Rightarrow> response \<Rightarrow> service \<Rightarrow> service" where
  "end_sv request_id r sv =
     (case r of (status, answer) \<Rightarrow>
        let kind = get_or_None answer ''kind''
        in sv\<lparr>sv_trace := end_trace request_id status
               (if kind = PStr ''decision'' then get_or_None answer ''outcome'' else PNone)
               (if kind = PStr ''error'' then error_code_of answer else PNone) (sv_trace sv)\<rparr>)"

definition handle :: "platform \<Rightarrow> string \<Rightarrow> pyval \<Rightarrow> service \<Rightarrow> response \<times> service" where
  "handle pf path body sv =
     (case body of
        PDict payload \<Rightarrow>
          (let request_id = request_id_of payload;
               (res, sv) = dispatch pf path payload request_id (begin_sv path payload sv);
               r = response_of request_id res
           in (r, end_sv request_id r sv))
      | _ \<Rightarrow> ((400, error_envelope ''unknown'' ''INVALID_JSON'' ''request body must be a JSON object''), sv))"

lemma handle_PDict:
  "handle pf path (PDict p) sv =
     (response_of (request_id_of p) (fst (dispatch pf path p (request_id_of p) (begin_sv path p sv))),
      end_sv (request_id_of p)
        (response_of (request_id_of p) (fst (dispatch pf path p (request_id_of p) (begin_sv path p sv))))
        (snd (dispatch pf path p (request_id_of p) (begin_sv path p sv))))"
  by (simp add: handle_def Let_def case_prod_beta)

lemma begin_end_frames [simp]:
  "sv_store (begin_sv path p sv) = sv_store sv" "sv_rules (begin_sv path p sv) = sv_rules sv"
  "sv_table (begin_sv path p sv) = sv_table sv" "sv_actions (begin_sv path p sv) = sv_actions sv"
  "sv_confirmations (begin_sv path p sv) = sv_confirmations sv" "sv_world (begin_sv path p sv) = sv_world sv"
  "sv_store (end_sv rid r sv) = sv_store sv" "sv_rules (end_sv rid r sv) = sv_rules sv"
  "sv_table (end_sv rid r sv) = sv_table sv" "sv_actions (end_sv rid r sv) = sv_actions sv"
  "sv_confirmations (end_sv rid r sv) = sv_confirmations sv" "sv_world (end_sv rid r sv) = sv_world sv"
  by (simp_all add: begin_sv_def end_sv_def Let_def case_prod_beta)

end
