(* ===== verification/ServiceFrame.thy ===== *)
theory ServiceFrame
  imports Service
begin

text \<open>
  What every request keeps: the vehicle state, the policy and the mapping table are never
  touched, spent confirmations stay spent, and the invariant of the service (identifiers are
  fresh, registered actions are monitored, the trace is a bounded window) is preserved.
  \<open>evolves\<close> is that relation; each helper of the handlers is shown to extend it, and the
  handlers are chains of helpers.
\<close>

definition service_inv :: "service \<Rightarrow> bool" where
  "service_inv sv \<longleftrightarrow>
     confirmations_inv (sv_confirmations sv) (sv_world sv) \<and>
     registry_inv (sv_actions sv) \<and> trace_inv (sv_trace sv)"

definition keeps :: "service \<Rightarrow> service \<Rightarrow> bool" where
  "keeps sv sv' \<longleftrightarrow>
     sv_store sv' = sv_store sv \<and> sv_rules sv' = sv_rules sv \<and> sv_table sv' = sv_table sv \<and>
     set (cs_consumed (sv_confirmations sv)) \<subseteq> set (cs_consumed (sv_confirmations sv')) \<and>
     (service_inv sv \<longrightarrow> service_inv sv')"

definition logs :: "service \<Rightarrow> service \<Rightarrow> bool" where
  "logs sv sv' \<longleftrightarrow>
     (\<forall>r. \<exists>mid. types_of r (sv_trace sv') = map_option (\<lambda>ts. ts @ mid) (types_of r (sv_trace sv)))"

definition evolves :: "service \<Rightarrow> service \<Rightarrow> bool" where
  "evolves sv sv' \<longleftrightarrow> keeps sv sv' \<and> logs sv sv'"

lemma keeps_refl [simp]: "keeps sv sv"
  by (simp add: keeps_def)

lemma keeps_trans: "keeps a b \<Longrightarrow> keeps b c \<Longrightarrow> keeps a c"
  by (auto simp: keeps_def)

lemma logs_same: "sv_trace sv' = sv_trace sv \<Longrightarrow> logs sv sv'"
  unfolding logs_def by (auto intro!: exI [of _ "[]"] simp: option.map_ident)

lemma logs_trans:
  assumes "logs a b" and "logs b c"
  shows "logs a c"
  unfolding logs_def
proof
  fix r
  obtain m n where "types_of r (sv_trace b) = map_option (\<lambda>ts. ts @ m) (types_of r (sv_trace a))"
    "types_of r (sv_trace c) = map_option (\<lambda>ts. ts @ n) (types_of r (sv_trace b))"
    using assms unfolding logs_def by metis
  then show "\<exists>mid. types_of r (sv_trace c) = map_option (\<lambda>ts. ts @ mid) (types_of r (sv_trace a))"
    by (intro exI [of _ "m @ n"]) (simp add: option.map_comp comp_def)
qed

lemma evolves_step:
  assumes "evolves sv0 sv" and "keeps sv sv'" and "logs sv sv'"
  shows "evolves sv0 sv'"
  using assms by (auto simp: evolves_def intro: keeps_trans logs_trans)

named_theorems evolves_intros \<open>helpers of the handlers extend the evolution of the service\<close>

lemma evolves_refl [evolves_intros, simp]: "evolves sv sv"
  by (simp add: evolves_def logs_same)

lemma evolves_silent:
  assumes "evolves sv0 sv" and "keeps sv sv'" and "sv_trace sv' = sv_trace sv"
  shows "evolves sv0 sv'"
  using evolves_step [OF assms(1,2) logs_same [OF assms(3)]] .

section \<open>The world\<close>

definition later :: "world \<Rightarrow> world \<Rightarrow> bool" where
  "later w w' \<longleftrightarrow> w_uuids w' = w_uuids w \<and> w_drawn w \<le> w_drawn w'"

lemma later_refl [simp]: "later w w"
  by (simp add: later_def)

lemma later_trans: "later w1 w2 \<Longrightarrow> later w2 w3 \<Longrightarrow> later w1 w3"
  by (simp add: later_def)

lemma later_now: "later w (snd (now w))"
  by (simp add: later_def now_def)

lemma later_new_id: "later w (snd (new_id p w))"
  by (simp add: later_def new_id_def)

lemma later_id_or_new: "later w (snd (id_or_new given p w))"
  by (simp add: id_or_new_def later_new_id)

lemma confirmations_inv_later:
  "confirmations_inv cs w \<Longrightarrow> later w w' \<Longrightarrow> confirmations_inv cs w'"
  by (rule confirmations_inv_world) (auto simp: later_def issued_def)

lemma later_permit: "later w (snd (permit pf p it rl ver chk w))"
  by (simp add: permit_def Let_def later_def now_def new_id_def split: prod.split)

lemma later_decision_envelope:
  "later w (snd (decision_envelope pf rid p it out rl ver chk rc rel ans conf w))"
proof -
  obtain rid' w1 where i: "id_or_new rid ''req'' w = (rid', w1)" by fastforce
  have "later w w1" using later_id_or_new [of w rid "''req''"] by (simp add: i)
  moreover obtain r w2 where p: "permit pf p it rl ver chk w1 = (r, w2)" by fastforce
  have "later w1 w2" using later_permit [of w1 pf p it rl ver chk] by (simp add: p)
  ultimately have "later w w1" "later w w2" by (auto intro: later_trans)
  with i p show ?thesis
    by (cases r; cases conf) (simp_all add: decision_envelope_def Let_def)
qed

lemma later_query_envelope:
  "later w (snd (query_decision_envelope rid pid it out rl ver chk rc rel ans w))"
  using later_id_or_new [of w rid "''req-query''"]
  by (simp add: query_decision_envelope_def Let_def case_prod_beta)

lemma later_monitor_envelope:
  "later w (snd (monitor_decision_envelope pf rid aid it out rl ver chk rc rel dg w))"
proof -
  obtain rid' w1 where i: "id_or_new rid ''req-mon'' w = (rid', w1)" by fastforce
  have "later w w1" using later_id_or_new [of w rid "''req-mon''"] by (simp add: i)
  then have "later w (snd (new_id ''permit-mon'' (snd (now w1))))"
    by (intro later_trans [OF _ later_trans [OF later_now later_new_id]])
  with i \<open>later w w1\<close> show ?thesis
    by (simp add: monitor_decision_envelope_def Let_def case_prod_beta)
qed

lemma later_register: "later w (snd (register i it reg w))"
  by (simp add: register_def Let_def case_prod_beta later_now)

section \<open>Helpers\<close>

lemma evolves_world:
  assumes "evolves sv0 sv" and "later (sv_world sv) w"
  shows "evolves sv0 (sv\<lparr>sv_world := w\<rparr>)"
  by (rule evolves_silent [OF assms(1)])
    (auto simp: keeps_def service_inv_def intro: confirmations_inv_later [OF _ assms(2)])

lemma evolves_trace_sv [evolves_intros]:
  assumes "evolves sv0 sv"
  shows "evolves sv0 (trace_sv rid et st d sv)"
  by (rule evolves_step [OF assms])
    (simp_all add: keeps_def logs_def trace_sv_def service_inv_def trace_inv_event types_trace_extends)

lemma evolves_trace_evaluation [evolves_intros]:
  "evolves sv0 sv \<Longrightarrow> evolves sv0 (trace_evaluation rid d ver sv)"
  by (simp add: trace_evaluation_def evolves_trace_sv)

lemma evolves_decide_body [evolves_intros]:
  "evolves sv0 sv \<Longrightarrow> evolves sv0 (snd (decide_body pf rid p it out rl ver rc rel ans conf sv))"
  by (auto simp: decide_body_def Let_def case_prod_beta split: option.split
      intro!: evolves_world later_decision_envelope)

lemma evolves_create_sv [evolves_intros]:
  assumes "evolves sv0 sv"
  shows "evolves sv0 (snd (create_sv pf rid p it rl sv))"
proof -
  obtain r cs w where c: "create pf p it rl (sv_confirmations sv) (sv_world sv) = (r, cs, w)"
    by (metis prod_cases3)
  then have "cs_consumed cs = cs_consumed (sv_confirmations sv)" by (auto elim!: createE)
  with c have "keeps sv (sv\<lparr>sv_confirmations := cs, sv_world := w\<rparr>)"
    by (auto simp: keeps_def service_inv_def intro: confirmations_inv_create)
  with assms have "evolves sv0 (sv\<lparr>sv_confirmations := cs, sv_world := w\<rparr>)"
    by (rule evolves_silent) simp
  with c show ?thesis by (simp add: create_sv_def evolves_trace_sv)
qed

lemma evolves_register_sv [evolves_intros]:
  assumes "evolves sv0 sv"
  shows "evolves sv0 (register_sv i it sv)"
proof -
  obtain reg w where r: "register i it (sv_actions sv) (sv_world sv) = (reg, w)" by fastforce
  have "registry_inv (sv_actions sv) \<Longrightarrow> registry_inv reg" "later (sv_world sv) w"
    using registry_inv_register [of "sv_actions sv" i it "sv_world sv"]
      later_register [of "sv_world sv" i it "sv_actions sv"] by (simp_all add: r)
  then have "keeps sv (register_sv i it sv)"
    using r by (auto simp: keeps_def register_sv_def service_inv_def intro: confirmations_inv_later)
  with assms show ?thesis
    by (rule evolves_silent) (simp add: register_sv_def r)
qed

lemma evolves_release [evolves_intros]:
  assumes "evolves sv0 sv"
  shows "evolves sv0 (release_sv c i sv)"
  by (rule evolves_silent [OF assms])
    (simp_all add: keeps_def release_sv_def service_inv_def registry_inv_deregister)

lemma evolves_consume:
  assumes "consume cid sid (sv_confirmations sv) (sv_world sv) = (res, cs, w)"
  shows "evolves sv (sv\<lparr>sv_confirmations := cs, sv_world := w\<rparr>)"
proof -
  have "set (cs_consumed (sv_confirmations sv)) \<subseteq> set (cs_consumed cs)"
    using assms by (cases rule: consume_cases) auto
  with assms have "keeps sv (sv\<lparr>sv_confirmations := cs, sv_world := w\<rparr>)"
    by (auto simp: keeps_def service_inv_def intro: confirmations_inv_consume)
  then show ?thesis by (rule evolves_silent [OF evolves_refl]) simp
qed

section \<open>Handlers\<close>

text \<open>The structure of a handler: branches and pairs.\<close>

lemma evolves_if [evolves_intros]:
  "(c \<Longrightarrow> evolves sv x) \<Longrightarrow> (\<not> c \<Longrightarrow> evolves sv y) \<Longrightarrow> evolves sv (if c then x else y)"
  by simp

lemma evolves_snd_if [evolves_intros]:
  "(c \<Longrightarrow> evolves sv (snd x)) \<Longrightarrow> (\<not> c \<Longrightarrow> evolves sv (snd y)) \<Longrightarrow> evolves sv (snd (if c then x else y))"
  by simp

lemma evolves_snd_option [evolves_intros]:
  "(x = None \<Longrightarrow> evolves sv (snd n)) \<Longrightarrow> (\<And>y. x = Some y \<Longrightarrow> evolves sv (snd (f y))) \<Longrightarrow>
   evolves sv (snd (case x of None \<Rightarrow> n | Some y \<Rightarrow> f y))"
  by (simp split: option.split)

lemma evolves_snd_sum [evolves_intros]:
  "(\<And>y. x = Inl y \<Longrightarrow> evolves sv (snd (f y))) \<Longrightarrow> (\<And>y. x = Inr y \<Longrightarrow> evolves sv (snd (g y))) \<Longrightarrow>
   evolves sv (snd (case x of Inl y \<Rightarrow> f y | Inr y \<Rightarrow> g y))"
  by (simp split: sum.split)

lemma evolves_snd_wire_exn [evolves_intros]:
  "(\<And>c m. x = WireError c m \<Longrightarrow> evolves sv (snd (f c m))) \<Longrightarrow> (x = EncodeError \<Longrightarrow> evolves sv (snd e)) \<Longrightarrow>
   evolves sv (snd (case x of WireError c m \<Rightarrow> f c m | EncodeError \<Rightarrow> e))"
  by (simp split: wire_exn.split)

lemma evolves_snd_consumed [evolves_intros]:
  "evolves sv (snd f) \<Longrightarrow> evolves sv (snd g) \<Longrightarrow> (\<And>r. evolves sv (snd (h r))) \<Longrightarrow>
   evolves sv (snd (case x of SessionMismatch \<Rightarrow> f | NotActive \<Rightarrow> g | Consumed r \<Rightarrow> h r))"
  by (simp split: consumed.split)

lemma evolves_snd_pair [evolves_intros]: "evolves sv x \<Longrightarrow> evolves sv (snd (r, x))"
  by simp

lemmas handler_unfold = Let_def case_prod_beta

lemma evolves_action: "evolves sv (snd (evaluate_action pf p rid sv))"
  unfolding evaluate_action_def handler_unfold by (intro evolves_intros)

lemma evolves_query: "evolves sv (snd (evaluate_query pf p rid sv))"
  unfolding evaluate_query_def handler_unfold
  by (intro evolves_intros evolves_world later_query_envelope)

lemma evolves_monitor: "evolves sv (snd (monitor pf p rid sv))"
  unfolding monitor_def handler_unfold prod.case
  by (intro evolves_intros evolves_world later_monitor_envelope)

lemma evolves_consume_world:
  "evolves sv (sv\<lparr>sv_confirmations := fst (snd (consume cid sid (sv_confirmations sv) (sv_world sv))),
                 sv_world := snd (snd (consume cid sid (sv_confirmations sv) (sv_world sv)))\<rparr>)"
  by (rule evolves_consume) (simp add: prod_eq_iff)

lemma evolves_confirm: "evolves sv (snd (confirm pf p rid sv))"
  unfolding confirm_def handler_unfold prod.case
  by (intro evolves_intros evolves_consume_world)

lemma evolves_dispatch: "evolves sv (snd (dispatch pf path p rid sv))"
  by (auto simp: dispatch_def evolves_action evolves_query evolves_confirm evolves_monitor
      split: option.split wire_exn.split)

section \<open>A whole request\<close>

lemma keeps_begin: "keeps sv (begin_sv path p sv)"
  by (simp add: keeps_def begin_sv_def service_inv_def trace_inv_begin)

lemma keeps_end: "keeps sv (end_sv rid r sv)"
  by (simp add: keeps_def end_sv_def service_inv_def trace_inv_end Let_def case_prod_beta)

lemma keeps_dispatch: "keeps sv (snd (dispatch pf path p rid sv))"
  using evolves_dispatch [of sv pf path p rid] by (simp add: evolves_def)

lemma keeps_handle: "keeps sv (snd (handle pf path body sv))"
proof (cases body)
  case (PDict p)
  show ?thesis
    unfolding PDict handle_PDict snd_conv
    by (rule keeps_trans [OF keeps_trans [OF keeps_begin keeps_dispatch] keeps_end])
qed (simp_all add: handle_def)

text \<open>The trace of a request: it starts with \<open>guardrail_started\<close> and ends with the
  event that tells how the request ended.\<close>

lemma handle_logs:
  assumes "0 < tr_capacity (sv_trace sv)"
  shows "\<exists>mid last. last \<in> {''guardrail_completed'', ''guardrail_error''} \<and>
    types_of (request_id_of p) (sv_trace (snd (handle pf path (PDict p) sv))) =
      Some (Some (PStr ''guardrail_started'') # mid @ [Some (PStr last)])"
proof -
  let ?rid = "request_id_of p" and ?sv0 = "begin_sv path p sv"
  let ?sv1 = "snd (dispatch pf path p ?rid ?sv0)"
  have start: "types_of ?rid (sv_trace ?sv0) = Some [Some (PStr ''guardrail_started'')]"
    using types_begin [OF assms] by (simp add: begin_sv_def)
  have "logs ?sv0 ?sv1"
    using evolves_dispatch [of ?sv0 pf path p ?rid] by (simp add: evolves_def)
  then obtain mid where
    "types_of ?rid (sv_trace ?sv1) = map_option (\<lambda>ts. ts @ mid) (types_of ?rid (sv_trace ?sv0))"
    unfolding logs_def by blast
  with start have "types_of ?rid (sv_trace ?sv1) = Some (Some (PStr ''guardrail_started'') # mid)"
    by simp
  then show ?thesis
    by (simp add: handle_PDict end_sv_def Let_def case_prod_beta types_end)
qed

end
