(* ===== verification/ServiceSafety.thy ===== *)
theory ServiceSafety
  imports ServiceFrame
begin

text \<open>
  The safety of the service.  \<open>authorised\<close> is the specification of a permit: what must be
  the case for a request to be answered with one, on each route.  The main lemma says that
  every permit in every answer is authorised, whatever the request and the state.
\<close>

definition gate_decision :: "service \<Rightarrow> string \<Rightarrow> payload \<Rightarrow> decision \<Rightarrow> bool" where
  "gate_decision sv it params d \<longleftrightarrow>
     evaluate (sv_rules sv) it (st_state (sv_store sv)) ''gate'' params = Inr d \<and> dc_error d = None"

inductive authorised :: "platform \<Rightarrow> service \<Rightarrow> string \<Rightarrow> payload \<Rightarrow> pyval \<Rightarrow> bool" for pf sv where
  action:
  "validate_action_proposal pf p = None \<Longrightarrow>
   map_of p ''arguments'' = Some (PDict args) \<Longrightarrow>
   resolve (sv_table sv) (get_or_None p ''tool'') (PDict args) = Inr it \<Longrightarrow>
   gate_decision sv it (request_params_for it args) d \<Longrightarrow>
   dc_outcome d = Some ''ALLOW'' \<Longrightarrow> dc_rule_id d = Some rl \<Longrightarrow>
   proposal_digest pf p = Inr dg \<Longrightarrow>
   authorised pf sv ACTION_ROUTE p
     (PDict (permit_fields pf pid dg it rl (st_version (sv_store sv)) (rs_policy_checksum (sv_rules sv)) t))"
| confirmed:
  "map_of p ''confirmation_id'' = Some (PStr cid) \<Longrightarrow> map_of p ''session_id'' = Some (PStr sid) \<Longrightarrow>
   map_of (cs_pending (sv_confirmations sv)) cid = Some r \<Longrightarrow>
   pc_session_id r = [] \<or> pc_session_id r = sid \<Longrightarrow>
   fst (now (sv_world sv)) \<le> pc_expires_at r \<Longrightarrow>
   gate_decision sv (pc_intent r) [] d \<Longrightarrow>
   dc_outcome d = Some ''ALLOW'' \<or>
     dc_outcome d = Some ''CONFIRM'' \<and> str_or (dc_rule_id d) [] = pc_origin_rule_id r \<Longrightarrow>
   proposal_digest pf (pc_proposal r) = Inr dg \<Longrightarrow>
   authorised pf sv CONFIRM_ROUTE p
     (PDict (permit_fields pf pid dg (pc_intent r)
       (str_or (dc_rule_id d) (str_or (Some (pc_origin_rule_id r)) ''R000''))
       (st_version (sv_store sv)) (rs_policy_checksum (sv_rules sv)) t))"
| keep_running:
  "map_of p ''active_action_id'' = Some (PStr aid) \<Longrightarrow> map_of p ''intent'' = Some (PStr it) \<Longrightarrow>
   monitor_state (get_or_None p ''vehicle_state'') (sv_store sv) = Inr (s, ver) \<Longrightarrow>
   evaluate (sv_rules sv) it s ''monitor'' [] = Inr d \<Longrightarrow> dc_error d = None \<Longrightarrow>
   dc_outcome d = None \<or> dc_outcome d = Some ''ALLOW'' \<Longrightarrow>
   monitor_request_digest pf p = Inr dg \<Longrightarrow>
   authorised pf sv MONITOR_ROUTE p
     (PDict (permit_fields pf pid dg it rl ver' (rs_policy_checksum (sv_rules sv)) t))"

lemma routes_distinct [simp]:
  "ACTION_ROUTE \<noteq> CONFIRM_ROUTE" "ACTION_ROUTE \<noteq> MONITOR_ROUTE" "ACTION_ROUTE \<noteq> QUERY_ROUTE"
  "CONFIRM_ROUTE \<noteq> ACTION_ROUTE" "CONFIRM_ROUTE \<noteq> MONITOR_ROUTE" "CONFIRM_ROUTE \<noteq> QUERY_ROUTE"
  "MONITOR_ROUTE \<noteq> ACTION_ROUTE" "MONITOR_ROUTE \<noteq> CONFIRM_ROUTE" "MONITOR_ROUTE \<noteq> QUERY_ROUTE"
  by (simp_all add: ACTION_ROUTE_def CONFIRM_ROUTE_def MONITOR_ROUTE_def QUERY_ROUTE_def)

inductive_cases authorised_actionE: "authorised pf sv ACTION_ROUTE p v"
inductive_cases authorised_confirmE: "authorised pf sv CONFIRM_ROUTE p v"
inductive_cases authorised_monitorE: "authorised pf sv MONITOR_ROUTE p v"

lemma gate_decision_trace [simp]:
  "gate_decision (sv\<lparr>sv_trace := tr\<rparr>) it params d = gate_decision sv it params d"
  by (simp add: gate_decision_def)

lemma authorised_trace:
  assumes "authorised pf (sv\<lparr>sv_trace := tr\<rparr>) path p v"
  shows "authorised pf sv path p v"
  using assms
proof cases
  case (action args it d rl dg pid t)
  with authorised.action [of pf p args sv it d rl dg pid t] show ?thesis by simp
next
  case (confirmed cid sid r d dg pid t)
  with authorised.confirmed [of p cid sid sv r d pf dg pid t] show ?thesis by simp
next
  case (keep_running aid it s ver d dg pid rl ver' t)
  with authorised.keep_running [of p aid it sv s ver d pf dg pid rl ver' t] show ?thesis by simp
qed

section \<open>Decisions\<close>

lemma evaluate_closed_open:
  assumes "\<not> is_fail_closed (evaluate_closed rs it s m ps)"
  shows "evaluate rs it s m ps = Inr (evaluate_closed rs it s m ps)"
    and "dc_error (evaluate_closed rs it s m ps) = None"
  using assms by (auto simp: evaluate_closed_def is_fail_closed_def split: sum.splits)

lemma resolve_matches_intent: "dc_intent (resolve_matches it m vals ms) = it"
  by (simp add: resolve_matches_def fail_def decide_def Let_def)

lemma evaluate_intent: "evaluate rs it s m ps = Inr d \<Longrightarrow> dc_intent d = it"
  by (auto simp: evaluate_def fail_def Let_def resolve_matches_intent
      split: if_splits sum.splits cond_exn.splits list.splits)

lemma evaluate_closed_intent [simp]: "dc_intent (evaluate_closed rs it s m ps) = it"
  by (auto simp: evaluate_closed_def dest: evaluate_intent split: sum.split)

section \<open>Answers with a permit\<close>

text \<open>\<open>holds P r\<close>: an answer with a permit satisfies \<open>P\<close>.\<close>

definition holds :: "(int \<Rightarrow> payload \<Rightarrow> pyval \<Rightarrow> bool) \<Rightarrow> wire_exn + response \<Rightarrow> bool" where
  "holds P r \<longleftrightarrow> (\<forall>st b v. r = Inr (st, b) \<longrightarrow> map_of b ''permit'' = Some v \<longrightarrow> P st b v)"

named_theorems holds_intros \<open>structure of the handlers, for statements about their answers\<close>

lemma holds_error [holds_intros]: "holds P (Inr (st, error_envelope rid code msg))"
  by (simp add: holds_def map_of_error_envelope)

lemma holds_exn [holds_intros]: "holds P (Inl e)"
  by (simp add: holds_def)

lemma holds_fst_if [holds_intros]:
  "(c \<Longrightarrow> holds P (fst x)) \<Longrightarrow> (\<not> c \<Longrightarrow> holds P (fst y)) \<Longrightarrow> holds P (fst (if c then x else y))"
  by simp

lemma holds_fst_option [holds_intros]:
  "(x = None \<Longrightarrow> holds P (fst n)) \<Longrightarrow> (\<And>y. x = Some y \<Longrightarrow> holds P (fst (f y))) \<Longrightarrow>
   holds P (fst (case x of None \<Rightarrow> n | Some y \<Rightarrow> f y))"
  by (simp split: option.split)

lemma holds_fst_sum [holds_intros]:
  "(\<And>y. x = Inl y \<Longrightarrow> holds P (fst (f y))) \<Longrightarrow> (\<And>y. x = Inr y \<Longrightarrow> holds P (fst (g y))) \<Longrightarrow>
   holds P (fst (case x of Inl y \<Rightarrow> f y | Inr y \<Rightarrow> g y))"
  by (simp split: sum.split)

lemma holds_sum [holds_intros]:
  "(\<And>y. x = Inl y \<Longrightarrow> holds P (f y)) \<Longrightarrow> (\<And>y. x = Inr y \<Longrightarrow> holds P (g y)) \<Longrightarrow>
   holds P (case x of Inl y \<Rightarrow> f y | Inr y \<Rightarrow> g y)"
  by (simp split: sum.split)

lemma holds_fst_wire_exn [holds_intros]:
  "(\<And>c m. x = WireError c m \<Longrightarrow> holds P (fst (f c m))) \<Longrightarrow> (x = EncodeError \<Longrightarrow> holds P (fst e)) \<Longrightarrow>
   holds P (fst (case x of WireError c m \<Rightarrow> f c m | EncodeError \<Rightarrow> e))"
  by (simp split: wire_exn.split)

lemma holds_fst_consumed [holds_intros]:
  "holds P (fst f) \<Longrightarrow> holds P (fst g) \<Longrightarrow> (\<And>r. x = Consumed r \<Longrightarrow> holds P (fst (h r))) \<Longrightarrow>
   holds P (fst (case x of SessionMismatch \<Rightarrow> f | NotActive \<Rightarrow> g | Consumed r \<Rightarrow> h r))"
  by (simp split: consumed.split)

lemma holds_fst_pair [holds_intros]: "holds P r \<Longrightarrow> holds P (fst (r, sv))"
  by simp

lemma holds_decided:
  assumes "fst (decide_body pf rid p it out rl ver rc rel ans conf sv) = Inr b"
    and "\<And>pid dg t. out = Some ''ALLOW'' \<Longrightarrow> rl \<noteq> [] \<Longrightarrow> proposal_digest pf p = Inr dg \<Longrightarrow>
      map_of b ''outcome'' = Some (PStr ''ALLOW'') \<Longrightarrow>
      P st b (PDict (permit_fields pf pid dg it rl ver (rs_policy_checksum (sv_rules sv)) t))"
  shows "holds P (Inr (st, b))"
proof (cases out)
  case None
  with assms(1) show ?thesis by (simp add: decide_body_def)
next
  case (Some x)
  with assms(1) obtain w where
    e: "decision_envelope pf rid p it x rl ver (rs_policy_checksum (sv_rules sv)) rc rel ans conf
         (sv_world sv) = (Inr b, w)"
    by (auto simp: decide_body_def Let_def case_prod_beta prod_eq_iff)
  show ?thesis
    unfolding holds_def
  proof (intro allI impI, clarsimp)
    fix v
    assume "map_of b ''permit'' = Some v"
    then obtain pid dg t where "x = ''ALLOW''" "proposal_digest pf p = Inr dg"
      "v = PDict (permit_fields pf pid dg it rl ver (rs_policy_checksum (sv_rules sv)) t)"
      using decision_envelope_permit [OF e] by metis
    with assms(2) Some decision_envelope_ok(2) [OF e] decision_envelope_outcome(1) [OF e]
    show "P st b v" by simp
  qed
qed

definition answers :: "platform \<Rightarrow> service \<Rightarrow> string \<Rightarrow> payload \<Rightarrow> int \<Rightarrow> payload \<Rightarrow> pyval \<Rightarrow> bool" where
  "answers pf sv path p st b v \<longleftrightarrow>
     st = 200 \<and> map_of b ''outcome'' = Some (PStr ''ALLOW'') \<and> authorised pf sv path p v"

lemma str_or_Some: "str_or x [] \<noteq> [] \<Longrightarrow> x = Some (str_or x [])"
  by (auto simp: str_or_def split: option.splits)

lemma sv_frames [simp]:
  "sv_rules (trace_sv rid et st d sv) = sv_rules sv" "sv_store (trace_sv rid et st d sv) = sv_store sv"
  "sv_rules (trace_evaluation rid dc ver sv) = sv_rules sv"
  "sv_store (trace_evaluation rid dc ver sv) = sv_store sv"
  "sv_rules (snd (create_sv pf rid p it rl sv)) = sv_rules sv"
  "sv_rules (release_sv c i sv) = sv_rules sv"
  by (simp_all add: trace_sv_def trace_evaluation_def create_sv_def release_sv_def Let_def case_prod_beta)

lemma proposal_arguments:
  "validate_action_proposal pf p = None \<Longrightarrow> \<exists>args. map_of p ''arguments'' = Some (PDict args)"
  by (auto simp: validate_action_proposal_def Let_def split: option.splits if_splits pyval.splits)

lemma answers_action:
  fixes pf sv p it
  defines "args \<equiv> (case get_or_None p ''arguments'' of PDict a \<Rightarrow> a | _ \<Rightarrow> [])"
  defines "d \<equiv> evaluate_closed (sv_rules sv) it (fst (snapshot (sv_store sv))) ''gate''
             (request_params_for it args)"
  assumes "validate_action_proposal pf p = None"
    and "resolve (sv_table sv) (get_or_None p ''tool'') (get_or_None p ''arguments'') = Inr it"
    and "\<not> is_fail_closed d" and "dc_outcome d = Some ''ALLOW''" and "str_or (dc_rule_id d) [] \<noteq> []"
    and "proposal_digest pf p = Inr dg" and "map_of b ''outcome'' = Some (PStr ''ALLOW'')"
  shows "answers pf sv ACTION_ROUTE p 200 b (PDict (permit_fields pf pid dg it (str_or (dc_rule_id d) [])
           (snd (snapshot (sv_store sv))) (rs_policy_checksum (sv_rules sv)) t))"
proof -
  obtain a where a: "map_of p ''arguments'' = Some (PDict a)"
    using proposal_arguments [OF assms(3)] by blast
  then have "get_or_None p ''arguments'' = PDict args" "map_of p ''arguments'' = Some (PDict args)"
    by (simp_all add: get_or_None_def args_def)
  moreover have "gate_decision sv it (request_params_for it args) d"
    using evaluate_closed_open [OF assms(5) [unfolded d_def]]
    by (simp add: gate_decision_def d_def snapshot_def)
  ultimately show ?thesis
    using assms str_or_Some [OF assms(7)]
    by (simp add: answers_def snapshot_def authorised.action)
qed

lemma holds_action: "holds (answers pf sv ACTION_ROUTE p) (fst (evaluate_action pf p rid sv))"
  unfolding evaluate_action_def Let_def case_prod_beta
  by (intro holds_intros; (erule holds_decided)?) (simp_all add: answers_action)

lemma as_id_Some: "as_id (get_or_None p k) = Some i \<Longrightarrow> map_of p k = Some (PStr i)"
  by (cases "get_or_None p k") (auto simp: get_or_None_def split: option.splits if_splits)

lemma answers_confirm:
  fixes sv r
  defines "d \<equiv> evaluate_closed (sv_rules sv) (pc_intent r) (fst (snapshot (sv_store sv))) ''gate'' []"
  assumes "as_id (get_or_None p ''confirmation_id'') = Some cid"
    and "as_id (get_or_None p ''session_id'') = Some sid"
    and "fst (consume cid sid (sv_confirmations sv) (sv_world sv)) = Consumed r"
    and "\<not> is_fail_closed d"
    and "dc_outcome d = Some ''ALLOW'' \<or>
      dc_outcome d = Some ''CONFIRM'' \<and> str_or (dc_rule_id d) [] = pc_origin_rule_id r"
    and "proposal_digest pf (pc_proposal r) = Inr dg" and "map_of b ''outcome'' = Some (PStr ''ALLOW'')"
  shows "answers pf sv CONFIRM_ROUTE p 200 b (PDict (permit_fields pf pid dg (pc_intent r)
           (str_or (dc_rule_id d) (str_or (Some (pc_origin_rule_id r)) ''R000''))
           (snd (snapshot (sv_store sv))) (rs_policy_checksum (sv_rules sv)) t))"
proof -
  obtain cs w where c: "consume cid sid (sv_confirmations sv) (sv_world sv) = (Consumed r, cs, w)"
    using assms(4) by (metis prod.collapse)
  then have "map_of (cs_pending (sv_confirmations sv)) cid = Some r"
    "pc_session_id r = [] \<or> pc_session_id r = sid" "fst (now (sv_world sv)) \<le> pc_expires_at r"
    by (cases rule: consume_cases; auto split: if_splits)+
  moreover have "gate_decision sv (pc_intent r) [] d"
    using evaluate_closed_open [OF assms(5) [unfolded d_def]]
    by (simp add: gate_decision_def d_def snapshot_def)
  ultimately show ?thesis
    using assms by (simp add: answers_def snapshot_def authorised.confirmed as_id_Some)
qed

lemma holds_confirm: "holds (answers pf sv CONFIRM_ROUTE p) (fst (confirm pf p rid sv))"
  unfolding confirm_def Let_def case_prod_beta prod.case
  by (intro holds_intros; (erule holds_decided)?) (simp_all add: answers_confirm)

lemma holds_monitored:
  assumes "\<And>pid t. out = ''ALLOW'' \<Longrightarrow>
    map_of (fst (monitor_decision_envelope pf rid aid it out rl ver chk rc rel dg w)) ''outcome'' =
      Some (PStr ''ALLOW'') \<Longrightarrow>
    P st (fst (monitor_decision_envelope pf rid aid it out rl ver chk rc rel dg w))
      (PDict (permit_fields pf pid dg it rl ver chk t))"
  shows "holds P (Inr (st, fst (monitor_decision_envelope pf rid aid it out rl ver chk rc rel dg w)))"
proof (cases "out = ''ALLOW''")
  case True
  with assms show ?thesis
    by (auto simp: holds_def monitor_decision_envelope_def Let_def case_prod_beta envelope_lookup)
next
  case False
  then show ?thesis
    by (simp add: holds_def monitor_decision_envelope_def Let_def case_prod_beta envelope_lookup)
qed

lemma answers_monitor:
  assumes "as_id (get_or_None p ''active_action_id'') = Some aid"
    and "as_id (get_or_None p ''intent'') = Some it"
    and "monitor_state (get_or_None p ''vehicle_state'') (sv_store sv) = Inr m"
    and "monitor_request_digest pf p = Inr dg"
    and "\<not> is_fail_closed (evaluate_closed (sv_rules sv) it (fst m) ''monitor'' [])"
    and "(case dc_outcome (evaluate_closed (sv_rules sv) it (fst m) ''monitor'' []) of
            None \<Rightarrow> ''ALLOW'' | Some out \<Rightarrow> out) = ''ALLOW''"
    and "map_of b ''outcome'' = Some (PStr ''ALLOW'')"
  shows "answers pf sv MONITOR_ROUTE p 200 b (PDict (permit_fields pf pid dg it rl ver'
           (rs_policy_checksum (sv_rules sv)) t))"
  using assms evaluate_closed_open [OF assms(5)] authorised.keep_running
    [of p aid it sv "fst m" "snd m" "evaluate_closed (sv_rules sv) it (fst m) ''monitor'' []" pf dg pid rl ver' t]
  by (simp add: answers_def as_id_Some split: option.splits)

lemma holds_monitor: "holds (answers pf sv MONITOR_ROUTE p) (fst (monitor pf p rid sv))"
  unfolding monitor_def Let_def case_prod_beta prod.case
  by (intro holds_intros holds_monitored) (simp_all add: answers_monitor)

lemma holds_queried:
  "fst (query_decision_envelope rid pid it out rl ver chk rc rel ans w) = Inr b \<Longrightarrow>
   holds P (Inr (st, b))"
  using query_envelope_no_permit
    [of rid pid it out rl ver chk rc rel ans w b "snd (query_decision_envelope rid pid it out rl ver chk rc rel ans w)"]
  by (simp add: holds_def prod_eq_iff)

lemma holds_query: "holds P (fst (evaluate_query pf p rid sv))"
  unfolding evaluate_query_def Let_def case_prod_beta prod.case
  by (intro holds_intros; (erule holds_queried)?)

lemma holds_dispatch: "holds (answers pf sv path p) (fst (dispatch pf path p rid sv))"
  using holds_action holds_confirm holds_monitor
  by (auto simp: dispatch_def holds_query holds_error holds_exn split: option.split wire_exn.split)

lemma answers_trace: "answers pf (sv\<lparr>sv_trace := tr\<rparr>) path p st b v \<Longrightarrow> answers pf sv path p st b v"
  by (auto simp: answers_def intro: authorised_trace)

lemma permit_authorised':
  assumes "handle pf path (PDict p) sv = ((st, b), sv')" and "map_of b ''permit'' = Some v"
  shows "answers pf sv path p st b v"
proof -
  have "(st, b) = response_of (request_id_of p)
      (fst (dispatch pf path p (request_id_of p) (begin_sv path p sv)))"
    using assms(1) by (simp add: handle_PDict)
  with assms(2) have "fst (dispatch pf path p (request_id_of p) (begin_sv path p sv)) = Inr (st, b)"
    by (auto simp: response_of_def map_of_error_envelope split: sum.splits)
  with holds_dispatch [of pf "begin_sv path p sv" path p "request_id_of p"] assms(2)
  have "answers pf (begin_sv path p sv) path p st b v"
    by (simp add: holds_def)
  then show ?thesis unfolding begin_sv_def by (rule answers_trace)
qed

end
