(* ===== verification/Workbook.thy ===== *)
theory Workbook
  imports Engine
begin

text \<open>
  The policy workbook \<open>guardrail/policy/constraints.csv\<close>, row by row as
  \<open>csv.DictReader\<close> yields it, the rules the loader makes of it, their
  grouping by intent, and the parse of every prepared condition.  \<open>load_workbook\<close> is the check
  that the committed workbook is accepted: 109 rules, 53 intents, 104 gate and 5 monitor rules.
\<close>

definition csv_row :: "string \<Rightarrow> string \<Rightarrow> string \<Rightarrow> string \<Rightarrow> string \<Rightarrow> csv_row" where
  "csv_row rid it cond m out =
     [(''rule_id'', rid), (''intent'', it), (''condition'', cond), (''check_mode'', m),
      (''outcome'', out)]"

definition workbook_rows :: "csv_row list" where
  "workbook_rows =
    [csv_row ''R001'' ''open_door'' (''( gear == 'P' ) AND ( speed < 3 )'') ''gate'' ''ALLOW'',
     csv_row ''R002'' ''open_door'' (''NOT ( ( gear == 'P' ) AND ( speed < 3 ) )'') ''gate'' ''BLOCK_UNSAFE'',
     csv_row ''R003'' ''open_trunk'' (''( speed < 3 )'') ''gate'' ''ALLOW'',
     csv_row ''R004'' ''open_trunk'' (''NOT ( ( speed < 3 ) )'') ''gate'' ''BLOCK_UNSAFE'',
     csv_row ''R005'' ''open_chargeport'' (''( speed < 3 ) AND rain_sensor == False'') ''gate'' ''ALLOW'',
     csv_row ''R006'' ''open_chargeport'' (''( speed < 3 ) AND rain_sensor == True'') ''gate'' ''CONFIRM'',
     csv_row ''R007'' ''open_chargeport'' (''( speed < 3 ) AND rain_sensor is None'') ''gate'' ''ALLOW'',
     csv_row ''R008'' ''open_chargeport'' (''NOT ( ( speed < 3 ) )'') ''gate'' ''BLOCK_UNSAFE'',
     csv_row ''R009'' ''turnoff_highbeam'' (''ambient_light == 'night'' @ [CHR 0x27]) ''gate'' ''CONFIRM'',
     csv_row ''R010'' ''turnoff_highbeam'' (''ambient_light == 'day'' @ [CHR 0x27]) ''gate'' ''ALLOW'',
     csv_row ''R011'' ''turnon_highbeam'' (''ambient_light == 'day'' @ [CHR 0x27]) ''gate'' ''CONFIRM'',
     csv_row ''R012'' ''turnon_highbeam'' (''ambient_light == 'night'' @ [CHR 0x27]) ''gate'' ''ALLOW'',
     csv_row ''R013'' ''turnoff_lowbeam'' (''ambient_light == 'night'' @ [CHR 0x27]) ''gate'' ''CONFIRM'',
     csv_row ''R014'' ''turnoff_lowbeam'' (''ambient_light == 'day'' @ [CHR 0x27]) ''gate'' ''ALLOW'',
     csv_row ''R015'' ''turnon_lowbeam'' (''ambient_light == 'day'' @ [CHR 0x27]) ''gate'' ''CONFIRM'',
     csv_row ''R016'' ''turnon_lowbeam'' (''ambient_light == 'night'' @ [CHR 0x27]) ''gate'' ''ALLOW'',
     csv_row ''R017'' ''lock_doors'' (''TRUE'') ''gate'' ''ALLOW'',
     csv_row ''R018'' ''unlock_doors'' (''speed < 10'') ''gate'' ''ALLOW'',
     csv_row ''R019'' ''unlock_doors'' (''NOT ( speed < 10 )'') ''gate'' ''BLOCK_UNSAFE'',
     csv_row ''R020'' ''OPEN_BONNET'' (''( gear == 'P' ) AND ( speed < 3 )'') ''gate'' ''ALLOW'',
     csv_row ''R021'' ''OPEN_BONNET'' (''NOT ( ( gear == 'P' ) AND ( speed < 3 ) )'') ''gate'' ''BLOCK_UNSAFE'',
     csv_row ''R022'' ''AD_WIPER_MAX'' (''rain_sensor == True'') ''gate'' ''ALLOW'',
     csv_row ''R023'' ''AD_WIPER_MAX'' (''rain_sensor == False'') ''gate'' ''CONFIRM'',
     csv_row ''R024'' ''switch_drivemode_sport'' (''battery_pct >= 25'') ''gate'' ''ALLOW'',
     csv_row ''R025'' ''switch_drivemode_sport'' (''battery_pct < 25'') ''gate'' ''CONFIRM'',
     csv_row ''R026'' ''switch_drivemode_eco'' (''TRUE'') ''gate'' ''ALLOW'',
     csv_row ''R027'' ''switch_drivemode_normal'' (''TRUE'') ''gate'' ''ALLOW'',
     csv_row ''R028'' ''activate_creepmode'' (''avh == False'') ''gate'' ''ALLOW'',
     csv_row ''R029'' ''activate_creepmode'' (''NOT ( avh == False )'') ''gate'' ''BLOCK_UNAVAILABLE'',
     csv_row ''R030'' ''turnoff_LKA'' (''TRUE'') ''gate'' ''CONFIRM'',
     csv_row ''R031'' ''activate_campmode'' (''( ( speed < 3 ) AND gear == 'P' AND epb == True ) AND ( battery_pct > 25 )'') ''gate'' ''ALLOW'',
     csv_row ''R032'' ''activate_campmode'' (''NOT ( ( ( speed < 3 ) AND gear == 'P' AND epb == True ) AND ( battery_pct > 25 ) )'') ''gate'' ''BLOCK_UNAVAILABLE'',
     csv_row ''R033'' ''activate_campmode'' (''battery_pct < 15'') ''monitor'' ''BLOCK_UNAVAILABLE'',
     csv_row ''R034'' ''activate_campmode'' (''( camp_mode_active == True OR pet_mode_active == True OR valet_mode_active == True )'') ''gate'' ''BLOCK_UNAVAILABLE'',
     csv_row ''R035'' ''activate_petmode'' (''( gear == 'P' ) AND ( battery_pct > 25 )'') ''gate'' ''ALLOW'',
     csv_row ''R036'' ''activate_petmode'' (''NOT ( ( gear == 'P' ) AND ( battery_pct > 25 ) )'') ''gate'' ''BLOCK_UNAVAILABLE'',
     csv_row ''R037'' ''activate_petmode'' (''battery_pct < 25'') ''monitor'' ''BLOCK_UNAVAILABLE'',
     csv_row ''R038'' ''activate_petmode'' (''( camp_mode_active == True OR pet_mode_active == True OR valet_mode_active == True )'') ''gate'' ''BLOCK_UNAVAILABLE'',
     csv_row ''R039'' ''activate_valetmode'' (''profile != 'GUEST'' @ [CHR 0x27]) ''gate'' ''ALLOW'',
     csv_row ''R040'' ''activate_valetmode'' (''NOT ( profile != 'GUEST' )'') ''gate'' ''BLOCK_UNAVAILABLE'',
     csv_row ''R041'' ''activate_valetmode'' (''( camp_mode_active == True OR pet_mode_active == True OR valet_mode_active == True )'') ''gate'' ''BLOCK_UNAVAILABLE'',
     csv_row ''R042'' ''SHIFT_GEAR_REVERSE'' (''( speed = 0 ) AND gear != 'D'' @ [CHR 0x27]) ''gate'' ''ALLOW'',
     csv_row ''R043'' ''SHIFT_GEAR_REVERSE'' (''NOT ( ( speed < 3 ) AND gear != 'D' )'') ''gate'' ''BLOCK_UNSAFE'',
     csv_row ''R044'' ''ad_steeringwheel'' (''( speed = 0 )'') ''gate'' ''ALLOW'',
     csv_row ''R045'' ''ad_steeringwheel'' (''NOT ( ( speed < 3 ) )'') ''gate'' ''BLOCK_UNSAFE'',
     csv_row ''R046'' ''activate_autopark'' (''speed < 15'') ''gate'' ''ALLOW'',
     csv_row ''R047'' ''activate_autopark'' (''NOT ( speed < 15 )'') ''gate'' ''BLOCK_UNAVAILABLE'',
     csv_row ''R048'' ''activate_autopark'' (''autopark_state == 'ACTIVE' AND NOT ( speed < 15 )'') ''monitor'' ''BLOCK_UNSAFE'',
     csv_row ''R049'' ''fold_backseat'' (''( gear == 'P' ) AND ( speed < 3 )'') ''gate'' ''ALLOW'',
     csv_row ''R050'' ''fold_backseat'' (''NOT ( ( gear == 'P' ) AND ( speed < 3 ) )'') ''gate'' ''CONFIRM'',
     csv_row ''R051'' ''open_sunroof'' (''speed > 80'') ''gate'' ''BLOCK_UNSAFE'',
     csv_row ''R052'' ''open_sunroof'' (''rain_sensor = True AND speed <= 80'') ''gate'' ''CONFIRM'',
     csv_row ''R053'' ''open_sunroof'' (''speed <= 80 AND NOT ( rain_sensor == True )'') ''gate'' ''CONFIRM'',
     csv_row ''R054'' ''ad_driverseat_angle'' (''( speed < 3 )'') ''gate'' ''ALLOW'',
     csv_row ''R055'' ''ad_driverseat_angle'' (''NOT ( ( speed < 3 ) ) AND target_angle <= 110'') ''gate'' ''ALLOW'',
     csv_row ''R056'' ''ad_driverseat_angle'' (''NOT ( ( speed < 3 ) ) AND target_angle > 110'') ''gate'' ''BLOCK_UNSAFE'',
     csv_row ''R057'' ''ad_driverseat_pos'' (''( speed < 3 )'') ''gate'' ''ALLOW'',
     csv_row ''R058'' ''ad_driverseat_pos'' (''NOT ( ( speed < 3 ) )'') ''gate'' ''BLOCK_UNSAFE'',
     csv_row ''R059'' ''open_window'' (''speed <= 80 AND NOT ( rain_sensor == True )'') ''gate'' ''CONFIRM'',
     csv_row ''R060'' ''open_window'' (''speed > 80'') ''gate'' ''BLOCK_UNSAFE'',
     csv_row ''R061'' ''open_window'' (''rain_sensor = True AND speed <= 80'') ''gate'' ''CONFIRM'',
     csv_row ''R062'' ''restore_driverseat_pos'' (''( speed < 3 )'') ''gate'' ''ALLOW'',
     csv_row ''R063'' ''restore_driverseat_pos'' (''NOT ( ( speed < 3 ) ) AND target_angle < 110'') ''gate'' ''CONFIRM'',
     csv_row ''R064'' ''restore_driverseat_pos'' (''NOT ( ( speed < 3 ) ) AND target_angle >= 110'') ''gate'' ''BLOCK_UNSAFE'',
     csv_row ''R065'' ''activate_epb'' (''( gear == 'P' )'') ''gate'' ''ALLOW'',
     csv_row ''R066'' ''activate_epb'' (''NOT ( ( gear == 'P' ) )'') ''gate'' ''BLOCK_UNAVAILABLE'',
     csv_row ''R067'' ''deactivate_hud'' (''TRUE'') ''gate'' ''CONFIRM'',
     csv_row ''R068'' ''activate_aac'' (''( 20 < speed < 150 )'') ''gate'' ''ALLOW'',
     csv_row ''R069'' ''activate_aac'' (''NOT ( ( 20 < speed < 150 ) )'') ''gate'' ''BLOCK_UNAVAILABLE'',
     csv_row ''R070'' ''activate_aac'' (''( acc_state == 'ACTIVE' ) AND speed == 0'') ''monitor'' ''ALLOW'',
     csv_row ''R071'' ''activate_hda'' (''( acc_state == 'ACTIVE' ) AND ( 0 < speed < 150 ) AND gear != 'R'' @ [CHR 0x27]) ''gate'' ''ALLOW'',
     csv_row ''R072'' ''activate_hda'' (''NOT ( ( acc_state == 'ACTIVE' ) AND ( 0 < speed < 150 ) AND gear != 'R' )'') ''gate'' ''BLOCK_UNAVAILABLE'',
     csv_row ''R073'' ''activate_hda'' (''duration_seconds(hand_on_steeringwheel == False) > 15'') ''monitor'' ''BLOCK_UNSAFE'',
     csv_row ''R074'' ''shift_gear_park'' (''( speed < 3 )'') ''gate'' ''ALLOW'',
     csv_row ''R075'' ''shift_gear_park'' (''NOT ( ( speed < 3 ) )'') ''gate'' ''BLOCK_UNAVAILABLE'',
     csv_row ''R076'' ''fold_mirrors'' (''speed < 16'') ''gate'' ''ALLOW'',
     csv_row ''R077'' ''fold_mirrors'' (''NOT ( speed < 16 )'') ''gate'' ''BLOCK_UNAVAILABLE'',
     csv_row ''R078'' ''activate_ahb'' (''fog_light == False'') ''gate'' ''ALLOW'',
     csv_row ''R079'' ''activate_ahb'' (''NOT ( fog_light == False )'') ''gate'' ''BLOCK_UNAVAILABLE'',
     csv_row ''R080'' ''turnon_turnsignal_right'' (''hazard_light == False'') ''gate'' ''ALLOW'',
     csv_row ''R081'' ''turnon_turnsignal_right'' (''NOT ( hazard_light == False )'') ''gate'' ''BLOCK_UNAVAILABLE'',
     csv_row ''R082'' ''turnon_turnsignal_left'' (''hazard_light == False'') ''gate'' ''ALLOW'',
     csv_row ''R083'' ''turnon_turnsignal_left'' (''NOT ( hazard_light == False )'') ''gate'' ''BLOCK_UNAVAILABLE'',
     csv_row ''R084'' ''turnoff_turnsignal_right'' (''TRUE'') ''gate'' ''ALLOW'',
     csv_row ''R085'' ''turnoff_turnsignal_left'' (''TRUE'') ''gate'' ''ALLOW'',
     csv_row ''R086'' ''turnon_hazardlight'' (''TRUE'') ''gate'' ''ALLOW'',
     csv_row ''R087'' ''turnoff_hazardlight'' (''TRUE'') ''gate'' ''ALLOW'',
     csv_row ''R088'' ''turnon_corneringlight'' (''lowbeam_mode == 'On' AND fog_light == False AND speed <= 40'') ''gate'' ''ALLOW'',
     csv_row ''R089'' ''turnon_corneringlight'' (''NOT ( lowbeam_mode == 'On' AND fog_light == False AND speed <= 40 )'') ''gate'' ''BLOCK_UNAVAILABLE'',
     csv_row ''R090'' ''turnon_interiorlight'' (''( speed < 3 )'') ''gate'' ''ALLOW'',
     csv_row ''R091'' ''turnon_interiorlight'' (''NOT ( ( speed < 3 ) )'') ''gate'' ''CONFIRM'',
     csv_row ''R092'' ''activate_tcs'' (''esc == True'') ''gate'' ''ALLOW'',
     csv_row ''R093'' ''activate_tcs'' (''NOT ( esc == True )'') ''gate'' ''BLOCK_UNAVAILABLE'',
     csv_row ''R094'' ''deactivate_esc'' (''TRUE'') ''gate'' ''NOT_VOICE_ACTIONABLE'',
     csv_row ''R095'' ''activate_avh'' (''gear != 'P'' @ [CHR 0x27]) ''gate'' ''ALLOW'',
     csv_row ''R096'' ''activate_avh'' (''NOT ( gear != 'P' )'') ''gate'' ''BLOCK_UNAVAILABLE'',
     csv_row ''R097'' ''open_noti_center'' (''profile != 'GUEST' AND profile != 'VALET'' @ [CHR 0x27]) ''gate'' ''ALLOW'',
     csv_row ''R098'' ''open_noti_center'' (''NOT ( profile != 'GUEST' AND profile != 'VALET' )'') ''gate'' ''BLOCK_UNAVAILABLE'',
     csv_row ''R099'' ''get_current_speed'' (''speed is not None'') ''gate'' ''ANSWER'',
     csv_row ''R100'' ''get_battery_pct'' (''battery_pct is not None'') ''gate'' ''ANSWER'',
     csv_row ''R101'' ''get_battery_pct'' (''NOT ( battery_pct is not None )'') ''gate'' ''UNKNOWN'',
     csv_row ''R102'' ''get_gear'' (''gear is not None'') ''gate'' ''ANSWER'',
     csv_row ''R103'' ''get_gear'' (''NOT ( gear is not None )'') ''gate'' ''UNKNOWN'',
     csv_row ''R104'' ''get_door_lock_status'' (''door_lock_state is not None'') ''gate'' ''ANSWER'',
     csv_row ''R105'' ''get_door_lock_status'' (''NOT ( door_lock_state is not None )'') ''gate'' ''UNKNOWN'',
     csv_row ''R106'' ''get_avh_status'' (''avh is not None'') ''gate'' ''ANSWER'',
     csv_row ''R107'' ''get_avh_status'' (''NOT ( avh is not None )'') ''gate'' ''UNKNOWN'',
     csv_row ''R108'' ''explain_feature'' (''kb_has_feature(feature_id) == True'') ''gate'' ''ANSWER'',
     csv_row ''R109'' ''explain_feature'' (''kb_has_feature(feature_id) == False'') ''gate'' ''UNKNOWN'',
     csv_row '''' '''' ('''') '''' '''']"

section \<open>The rules\<close>

definition R001 :: rule where
  "R001 =
    \<lparr>rl_id = ''R001'', rl_intent = ''open_door'', raw_condition = ''( gear == 'P' ) AND ( speed < 3 )'',
     rl_check_mode = ''gate'', rl_outcome = ''ALLOW'',
     prepared = ''( gear == 'P' ) and ( speed == 0 )''\<rparr>"

definition R002 :: rule where
  "R002 =
    \<lparr>rl_id = ''R002'', rl_intent = ''open_door'', raw_condition = ''NOT ( ( gear == 'P' ) AND ( speed < 3 ) )'',
     rl_check_mode = ''gate'', rl_outcome = ''BLOCK_UNSAFE'',
     prepared = ''not ( ( gear == 'P' ) and ( speed == 0 ) )''\<rparr>"

definition R003 :: rule where
  "R003 =
    \<lparr>rl_id = ''R003'', rl_intent = ''open_trunk'', raw_condition = ''( speed < 3 )'',
     rl_check_mode = ''gate'', rl_outcome = ''ALLOW'',
     prepared = ''( speed == 0 )''\<rparr>"

definition R004 :: rule where
  "R004 =
    \<lparr>rl_id = ''R004'', rl_intent = ''open_trunk'', raw_condition = ''NOT ( ( speed < 3 ) )'',
     rl_check_mode = ''gate'', rl_outcome = ''BLOCK_UNSAFE'',
     prepared = ''not ( ( speed == 0 ) )''\<rparr>"

definition R005 :: rule where
  "R005 =
    \<lparr>rl_id = ''R005'', rl_intent = ''open_chargeport'', raw_condition = ''( speed < 3 ) AND rain_sensor == False'',
     rl_check_mode = ''gate'', rl_outcome = ''ALLOW'',
     prepared = ''( speed == 0 ) and rain_sensor == False''\<rparr>"

definition R006 :: rule where
  "R006 =
    \<lparr>rl_id = ''R006'', rl_intent = ''open_chargeport'', raw_condition = ''( speed < 3 ) AND rain_sensor == True'',
     rl_check_mode = ''gate'', rl_outcome = ''CONFIRM'',
     prepared = ''( speed == 0 ) and rain_sensor == True''\<rparr>"

definition R007 :: rule where
  "R007 =
    \<lparr>rl_id = ''R007'', rl_intent = ''open_chargeport'', raw_condition = ''( speed < 3 ) AND rain_sensor is None'',
     rl_check_mode = ''gate'', rl_outcome = ''ALLOW'',
     prepared = ''( speed == 0 ) and rain_sensor is None''\<rparr>"

definition R008 :: rule where
  "R008 =
    \<lparr>rl_id = ''R008'', rl_intent = ''open_chargeport'', raw_condition = ''NOT ( ( speed < 3 ) )'',
     rl_check_mode = ''gate'', rl_outcome = ''BLOCK_UNSAFE'',
     prepared = ''not ( ( speed == 0 ) )''\<rparr>"

definition R009 :: rule where
  "R009 =
    \<lparr>rl_id = ''R009'', rl_intent = ''turnoff_highbeam'', raw_condition = ''ambient_light == 'night'' @ [CHR 0x27],
     rl_check_mode = ''gate'', rl_outcome = ''CONFIRM'',
     prepared = ''ambient_light == 'night'' @ [CHR 0x27]\<rparr>"

definition R010 :: rule where
  "R010 =
    \<lparr>rl_id = ''R010'', rl_intent = ''turnoff_highbeam'', raw_condition = ''ambient_light == 'day'' @ [CHR 0x27],
     rl_check_mode = ''gate'', rl_outcome = ''ALLOW'',
     prepared = ''ambient_light == 'day'' @ [CHR 0x27]\<rparr>"

definition R011 :: rule where
  "R011 =
    \<lparr>rl_id = ''R011'', rl_intent = ''turnon_highbeam'', raw_condition = ''ambient_light == 'day'' @ [CHR 0x27],
     rl_check_mode = ''gate'', rl_outcome = ''CONFIRM'',
     prepared = ''ambient_light == 'day'' @ [CHR 0x27]\<rparr>"

definition R012 :: rule where
  "R012 =
    \<lparr>rl_id = ''R012'', rl_intent = ''turnon_highbeam'', raw_condition = ''ambient_light == 'night'' @ [CHR 0x27],
     rl_check_mode = ''gate'', rl_outcome = ''ALLOW'',
     prepared = ''ambient_light == 'night'' @ [CHR 0x27]\<rparr>"

definition R013 :: rule where
  "R013 =
    \<lparr>rl_id = ''R013'', rl_intent = ''turnoff_lowbeam'', raw_condition = ''ambient_light == 'night'' @ [CHR 0x27],
     rl_check_mode = ''gate'', rl_outcome = ''CONFIRM'',
     prepared = ''ambient_light == 'night'' @ [CHR 0x27]\<rparr>"

definition R014 :: rule where
  "R014 =
    \<lparr>rl_id = ''R014'', rl_intent = ''turnoff_lowbeam'', raw_condition = ''ambient_light == 'day'' @ [CHR 0x27],
     rl_check_mode = ''gate'', rl_outcome = ''ALLOW'',
     prepared = ''ambient_light == 'day'' @ [CHR 0x27]\<rparr>"

definition R015 :: rule where
  "R015 =
    \<lparr>rl_id = ''R015'', rl_intent = ''turnon_lowbeam'', raw_condition = ''ambient_light == 'day'' @ [CHR 0x27],
     rl_check_mode = ''gate'', rl_outcome = ''CONFIRM'',
     prepared = ''ambient_light == 'day'' @ [CHR 0x27]\<rparr>"

definition R016 :: rule where
  "R016 =
    \<lparr>rl_id = ''R016'', rl_intent = ''turnon_lowbeam'', raw_condition = ''ambient_light == 'night'' @ [CHR 0x27],
     rl_check_mode = ''gate'', rl_outcome = ''ALLOW'',
     prepared = ''ambient_light == 'night'' @ [CHR 0x27]\<rparr>"

definition R017 :: rule where
  "R017 =
    \<lparr>rl_id = ''R017'', rl_intent = ''lock_doors'', raw_condition = ''TRUE'',
     rl_check_mode = ''gate'', rl_outcome = ''ALLOW'',
     prepared = ''True''\<rparr>"

definition R018 :: rule where
  "R018 =
    \<lparr>rl_id = ''R018'', rl_intent = ''unlock_doors'', raw_condition = ''speed < 10'',
     rl_check_mode = ''gate'', rl_outcome = ''ALLOW'',
     prepared = ''speed < 10''\<rparr>"

definition R019 :: rule where
  "R019 =
    \<lparr>rl_id = ''R019'', rl_intent = ''unlock_doors'', raw_condition = ''NOT ( speed < 10 )'',
     rl_check_mode = ''gate'', rl_outcome = ''BLOCK_UNSAFE'',
     prepared = ''not ( speed < 10 )''\<rparr>"

definition R020 :: rule where
  "R020 =
    \<lparr>rl_id = ''R020'', rl_intent = ''OPEN_BONNET'', raw_condition = ''( gear == 'P' ) AND ( speed < 3 )'',
     rl_check_mode = ''gate'', rl_outcome = ''ALLOW'',
     prepared = ''( gear == 'P' ) and ( speed == 0 )''\<rparr>"

definition R021 :: rule where
  "R021 =
    \<lparr>rl_id = ''R021'', rl_intent = ''OPEN_BONNET'', raw_condition = ''NOT ( ( gear == 'P' ) AND ( speed < 3 ) )'',
     rl_check_mode = ''gate'', rl_outcome = ''BLOCK_UNSAFE'',
     prepared = ''not ( ( gear == 'P' ) and ( speed == 0 ) )''\<rparr>"

definition R022 :: rule where
  "R022 =
    \<lparr>rl_id = ''R022'', rl_intent = ''AD_WIPER_MAX'', raw_condition = ''rain_sensor == True'',
     rl_check_mode = ''gate'', rl_outcome = ''ALLOW'',
     prepared = ''rain_sensor == True''\<rparr>"

definition R023 :: rule where
  "R023 =
    \<lparr>rl_id = ''R023'', rl_intent = ''AD_WIPER_MAX'', raw_condition = ''rain_sensor == False'',
     rl_check_mode = ''gate'', rl_outcome = ''CONFIRM'',
     prepared = ''rain_sensor == False''\<rparr>"

definition R024 :: rule where
  "R024 =
    \<lparr>rl_id = ''R024'', rl_intent = ''switch_drivemode_sport'', raw_condition = ''battery_pct >= 25'',
     rl_check_mode = ''gate'', rl_outcome = ''ALLOW'',
     prepared = ''battery_pct >= 25''\<rparr>"

definition R025 :: rule where
  "R025 =
    \<lparr>rl_id = ''R025'', rl_intent = ''switch_drivemode_sport'', raw_condition = ''battery_pct < 25'',
     rl_check_mode = ''gate'', rl_outcome = ''CONFIRM'',
     prepared = ''battery_pct < 25''\<rparr>"

definition R026 :: rule where
  "R026 =
    \<lparr>rl_id = ''R026'', rl_intent = ''switch_drivemode_eco'', raw_condition = ''TRUE'',
     rl_check_mode = ''gate'', rl_outcome = ''ALLOW'',
     prepared = ''True''\<rparr>"

definition R027 :: rule where
  "R027 =
    \<lparr>rl_id = ''R027'', rl_intent = ''switch_drivemode_normal'', raw_condition = ''TRUE'',
     rl_check_mode = ''gate'', rl_outcome = ''ALLOW'',
     prepared = ''True''\<rparr>"

definition R028 :: rule where
  "R028 =
    \<lparr>rl_id = ''R028'', rl_intent = ''activate_creepmode'', raw_condition = ''avh == False'',
     rl_check_mode = ''gate'', rl_outcome = ''ALLOW'',
     prepared = ''avh == False''\<rparr>"

definition R029 :: rule where
  "R029 =
    \<lparr>rl_id = ''R029'', rl_intent = ''activate_creepmode'', raw_condition = ''NOT ( avh == False )'',
     rl_check_mode = ''gate'', rl_outcome = ''BLOCK_UNAVAILABLE'',
     prepared = ''not ( avh == False )''\<rparr>"

definition R030 :: rule where
  "R030 =
    \<lparr>rl_id = ''R030'', rl_intent = ''turnoff_LKA'', raw_condition = ''TRUE'',
     rl_check_mode = ''gate'', rl_outcome = ''CONFIRM'',
     prepared = ''True''\<rparr>"

definition R031 :: rule where
  "R031 =
    \<lparr>rl_id = ''R031'', rl_intent = ''activate_campmode'', raw_condition = ''( ( speed < 3 ) AND gear == 'P' AND epb == True ) AND ( battery_pct > 25 )'',
     rl_check_mode = ''gate'', rl_outcome = ''ALLOW'',
     prepared = ''( ( speed == 0 ) and gear == 'P' and epb == True ) and ( battery_pct > 25 )''\<rparr>"

definition R032 :: rule where
  "R032 =
    \<lparr>rl_id = ''R032'', rl_intent = ''activate_campmode'', raw_condition = ''NOT ( ( ( speed < 3 ) AND gear == 'P' AND epb == True ) AND ( battery_pct > 25 ) )'',
     rl_check_mode = ''gate'', rl_outcome = ''BLOCK_UNAVAILABLE'',
     prepared = ''not ( ( ( speed == 0 ) and gear == 'P' and epb == True ) and ( battery_pct > 25 ) )''\<rparr>"

definition R033 :: rule where
  "R033 =
    \<lparr>rl_id = ''R033'', rl_intent = ''activate_campmode'', raw_condition = ''battery_pct < 15'',
     rl_check_mode = ''monitor'', rl_outcome = ''BLOCK_UNAVAILABLE'',
     prepared = ''battery_pct < 15''\<rparr>"

definition R034 :: rule where
  "R034 =
    \<lparr>rl_id = ''R034'', rl_intent = ''activate_campmode'', raw_condition = ''( camp_mode_active == True OR pet_mode_active == True OR valet_mode_active == True )'',
     rl_check_mode = ''gate'', rl_outcome = ''BLOCK_UNAVAILABLE'',
     prepared = ''( camp_mode_active == True or pet_mode_active == True or valet_mode_active == True )''\<rparr>"

definition R035 :: rule where
  "R035 =
    \<lparr>rl_id = ''R035'', rl_intent = ''activate_petmode'', raw_condition = ''( gear == 'P' ) AND ( battery_pct > 25 )'',
     rl_check_mode = ''gate'', rl_outcome = ''ALLOW'',
     prepared = ''( gear == 'P' ) and ( battery_pct > 25 )''\<rparr>"

definition R036 :: rule where
  "R036 =
    \<lparr>rl_id = ''R036'', rl_intent = ''activate_petmode'', raw_condition = ''NOT ( ( gear == 'P' ) AND ( battery_pct > 25 ) )'',
     rl_check_mode = ''gate'', rl_outcome = ''BLOCK_UNAVAILABLE'',
     prepared = ''not ( ( gear == 'P' ) and ( battery_pct > 25 ) )''\<rparr>"

definition R037 :: rule where
  "R037 =
    \<lparr>rl_id = ''R037'', rl_intent = ''activate_petmode'', raw_condition = ''battery_pct < 25'',
     rl_check_mode = ''monitor'', rl_outcome = ''BLOCK_UNAVAILABLE'',
     prepared = ''battery_pct < 25''\<rparr>"

definition R038 :: rule where
  "R038 =
    \<lparr>rl_id = ''R038'', rl_intent = ''activate_petmode'', raw_condition = ''( camp_mode_active == True OR pet_mode_active == True OR valet_mode_active == True )'',
     rl_check_mode = ''gate'', rl_outcome = ''BLOCK_UNAVAILABLE'',
     prepared = ''( camp_mode_active == True or pet_mode_active == True or valet_mode_active == True )''\<rparr>"

definition R039 :: rule where
  "R039 =
    \<lparr>rl_id = ''R039'', rl_intent = ''activate_valetmode'', raw_condition = ''profile != 'GUEST'' @ [CHR 0x27],
     rl_check_mode = ''gate'', rl_outcome = ''ALLOW'',
     prepared = ''profile != 'GUEST'' @ [CHR 0x27]\<rparr>"

definition R040 :: rule where
  "R040 =
    \<lparr>rl_id = ''R040'', rl_intent = ''activate_valetmode'', raw_condition = ''NOT ( profile != 'GUEST' )'',
     rl_check_mode = ''gate'', rl_outcome = ''BLOCK_UNAVAILABLE'',
     prepared = ''not ( profile != 'GUEST' )''\<rparr>"

definition R041 :: rule where
  "R041 =
    \<lparr>rl_id = ''R041'', rl_intent = ''activate_valetmode'', raw_condition = ''( camp_mode_active == True OR pet_mode_active == True OR valet_mode_active == True )'',
     rl_check_mode = ''gate'', rl_outcome = ''BLOCK_UNAVAILABLE'',
     prepared = ''( camp_mode_active == True or pet_mode_active == True or valet_mode_active == True )''\<rparr>"

definition R042 :: rule where
  "R042 =
    \<lparr>rl_id = ''R042'', rl_intent = ''SHIFT_GEAR_REVERSE'', raw_condition = ''( speed = 0 ) AND gear != 'D'' @ [CHR 0x27],
     rl_check_mode = ''gate'', rl_outcome = ''ALLOW'',
     prepared = ''speed == 0 and gear != 'D'' @ [CHR 0x27]\<rparr>"

definition R043 :: rule where
  "R043 =
    \<lparr>rl_id = ''R043'', rl_intent = ''SHIFT_GEAR_REVERSE'', raw_condition = ''NOT ( ( speed < 3 ) AND gear != 'D' )'',
     rl_check_mode = ''gate'', rl_outcome = ''BLOCK_UNSAFE'',
     prepared = ''not ( ( speed == 0 ) and gear != 'D' )''\<rparr>"

definition R044 :: rule where
  "R044 =
    \<lparr>rl_id = ''R044'', rl_intent = ''ad_steeringwheel'', raw_condition = ''( speed = 0 )'',
     rl_check_mode = ''gate'', rl_outcome = ''ALLOW'',
     prepared = ''speed == 0''\<rparr>"

definition R045 :: rule where
  "R045 =
    \<lparr>rl_id = ''R045'', rl_intent = ''ad_steeringwheel'', raw_condition = ''NOT ( ( speed < 3 ) )'',
     rl_check_mode = ''gate'', rl_outcome = ''BLOCK_UNSAFE'',
     prepared = ''not ( ( speed == 0 ) )''\<rparr>"

definition R046 :: rule where
  "R046 =
    \<lparr>rl_id = ''R046'', rl_intent = ''activate_autopark'', raw_condition = ''speed < 15'',
     rl_check_mode = ''gate'', rl_outcome = ''ALLOW'',
     prepared = ''speed < 15''\<rparr>"

definition R047 :: rule where
  "R047 =
    \<lparr>rl_id = ''R047'', rl_intent = ''activate_autopark'', raw_condition = ''NOT ( speed < 15 )'',
     rl_check_mode = ''gate'', rl_outcome = ''BLOCK_UNAVAILABLE'',
     prepared = ''not ( speed < 15 )''\<rparr>"

definition R048 :: rule where
  "R048 =
    \<lparr>rl_id = ''R048'', rl_intent = ''activate_autopark'', raw_condition = ''autopark_state == 'ACTIVE' AND NOT ( speed < 15 )'',
     rl_check_mode = ''monitor'', rl_outcome = ''BLOCK_UNSAFE'',
     prepared = ''autopark_state == 'ACTIVE' and not ( speed < 15 )''\<rparr>"

definition R049 :: rule where
  "R049 =
    \<lparr>rl_id = ''R049'', rl_intent = ''fold_backseat'', raw_condition = ''( gear == 'P' ) AND ( speed < 3 )'',
     rl_check_mode = ''gate'', rl_outcome = ''ALLOW'',
     prepared = ''( gear == 'P' ) and ( speed == 0 )''\<rparr>"

definition R050 :: rule where
  "R050 =
    \<lparr>rl_id = ''R050'', rl_intent = ''fold_backseat'', raw_condition = ''NOT ( ( gear == 'P' ) AND ( speed < 3 ) )'',
     rl_check_mode = ''gate'', rl_outcome = ''CONFIRM'',
     prepared = ''not ( ( gear == 'P' ) and ( speed == 0 ) )''\<rparr>"

definition R051 :: rule where
  "R051 =
    \<lparr>rl_id = ''R051'', rl_intent = ''open_sunroof'', raw_condition = ''speed > 80'',
     rl_check_mode = ''gate'', rl_outcome = ''BLOCK_UNSAFE'',
     prepared = ''speed > 80''\<rparr>"

definition R052 :: rule where
  "R052 =
    \<lparr>rl_id = ''R052'', rl_intent = ''open_sunroof'', raw_condition = ''rain_sensor = True AND speed <= 80'',
     rl_check_mode = ''gate'', rl_outcome = ''CONFIRM'',
     prepared = ''rain_sensor == True and speed <= 80''\<rparr>"

definition R053 :: rule where
  "R053 =
    \<lparr>rl_id = ''R053'', rl_intent = ''open_sunroof'', raw_condition = ''speed <= 80 AND NOT ( rain_sensor == True )'',
     rl_check_mode = ''gate'', rl_outcome = ''CONFIRM'',
     prepared = ''speed <= 80 and not ( rain_sensor == True )''\<rparr>"

definition R054 :: rule where
  "R054 =
    \<lparr>rl_id = ''R054'', rl_intent = ''ad_driverseat_angle'', raw_condition = ''( speed < 3 )'',
     rl_check_mode = ''gate'', rl_outcome = ''ALLOW'',
     prepared = ''( speed == 0 )''\<rparr>"

definition R055 :: rule where
  "R055 =
    \<lparr>rl_id = ''R055'', rl_intent = ''ad_driverseat_angle'', raw_condition = ''NOT ( ( speed < 3 ) ) AND target_angle <= 110'',
     rl_check_mode = ''gate'', rl_outcome = ''ALLOW'',
     prepared = ''not ( ( speed == 0 ) ) and target_angle <= 110''\<rparr>"

definition R056 :: rule where
  "R056 =
    \<lparr>rl_id = ''R056'', rl_intent = ''ad_driverseat_angle'', raw_condition = ''NOT ( ( speed < 3 ) ) AND target_angle > 110'',
     rl_check_mode = ''gate'', rl_outcome = ''BLOCK_UNSAFE'',
     prepared = ''not ( ( speed == 0 ) ) and target_angle > 110''\<rparr>"

definition R057 :: rule where
  "R057 =
    \<lparr>rl_id = ''R057'', rl_intent = ''ad_driverseat_pos'', raw_condition = ''( speed < 3 )'',
     rl_check_mode = ''gate'', rl_outcome = ''ALLOW'',
     prepared = ''( speed == 0 )''\<rparr>"

definition R058 :: rule where
  "R058 =
    \<lparr>rl_id = ''R058'', rl_intent = ''ad_driverseat_pos'', raw_condition = ''NOT ( ( speed < 3 ) )'',
     rl_check_mode = ''gate'', rl_outcome = ''BLOCK_UNSAFE'',
     prepared = ''not ( ( speed == 0 ) )''\<rparr>"

definition R059 :: rule where
  "R059 =
    \<lparr>rl_id = ''R059'', rl_intent = ''open_window'', raw_condition = ''speed <= 80 AND NOT ( rain_sensor == True )'',
     rl_check_mode = ''gate'', rl_outcome = ''CONFIRM'',
     prepared = ''speed <= 80 and not ( rain_sensor == True )''\<rparr>"

definition R060 :: rule where
  "R060 =
    \<lparr>rl_id = ''R060'', rl_intent = ''open_window'', raw_condition = ''speed > 80'',
     rl_check_mode = ''gate'', rl_outcome = ''BLOCK_UNSAFE'',
     prepared = ''speed > 80''\<rparr>"

definition R061 :: rule where
  "R061 =
    \<lparr>rl_id = ''R061'', rl_intent = ''open_window'', raw_condition = ''rain_sensor = True AND speed <= 80'',
     rl_check_mode = ''gate'', rl_outcome = ''CONFIRM'',
     prepared = ''rain_sensor == True and speed <= 80''\<rparr>"

definition R062 :: rule where
  "R062 =
    \<lparr>rl_id = ''R062'', rl_intent = ''restore_driverseat_pos'', raw_condition = ''( speed < 3 )'',
     rl_check_mode = ''gate'', rl_outcome = ''ALLOW'',
     prepared = ''( speed == 0 )''\<rparr>"

definition R063 :: rule where
  "R063 =
    \<lparr>rl_id = ''R063'', rl_intent = ''restore_driverseat_pos'', raw_condition = ''NOT ( ( speed < 3 ) ) AND target_angle < 110'',
     rl_check_mode = ''gate'', rl_outcome = ''CONFIRM'',
     prepared = ''not ( ( speed == 0 ) ) and target_angle < 110''\<rparr>"

definition R064 :: rule where
  "R064 =
    \<lparr>rl_id = ''R064'', rl_intent = ''restore_driverseat_pos'', raw_condition = ''NOT ( ( speed < 3 ) ) AND target_angle >= 110'',
     rl_check_mode = ''gate'', rl_outcome = ''BLOCK_UNSAFE'',
     prepared = ''not ( ( speed == 0 ) ) and target_angle >= 110''\<rparr>"

definition R065 :: rule where
  "R065 =
    \<lparr>rl_id = ''R065'', rl_intent = ''activate_epb'', raw_condition = ''( gear == 'P' )'',
     rl_check_mode = ''gate'', rl_outcome = ''ALLOW'',
     prepared = ''( gear == 'P' )''\<rparr>"

definition R066 :: rule where
  "R066 =
    \<lparr>rl_id = ''R066'', rl_intent = ''activate_epb'', raw_condition = ''NOT ( ( gear == 'P' ) )'',
     rl_check_mode = ''gate'', rl_outcome = ''BLOCK_UNAVAILABLE'',
     prepared = ''not ( ( gear == 'P' ) )''\<rparr>"

definition R067 :: rule where
  "R067 =
    \<lparr>rl_id = ''R067'', rl_intent = ''deactivate_hud'', raw_condition = ''TRUE'',
     rl_check_mode = ''gate'', rl_outcome = ''CONFIRM'',
     prepared = ''True''\<rparr>"

definition R068 :: rule where
  "R068 =
    \<lparr>rl_id = ''R068'', rl_intent = ''activate_aac'', raw_condition = ''( 20 < speed < 150 )'',
     rl_check_mode = ''gate'', rl_outcome = ''ALLOW'',
     prepared = ''( 20 < speed < 150 )''\<rparr>"

definition R069 :: rule where
  "R069 =
    \<lparr>rl_id = ''R069'', rl_intent = ''activate_aac'', raw_condition = ''NOT ( ( 20 < speed < 150 ) )'',
     rl_check_mode = ''gate'', rl_outcome = ''BLOCK_UNAVAILABLE'',
     prepared = ''not ( ( 20 < speed < 150 ) )''\<rparr>"

definition R070 :: rule where
  "R070 =
    \<lparr>rl_id = ''R070'', rl_intent = ''activate_aac'', raw_condition = ''( acc_state == 'ACTIVE' ) AND speed == 0'',
     rl_check_mode = ''monitor'', rl_outcome = ''ALLOW'',
     prepared = ''( acc_state == 'ACTIVE' ) and speed == 0''\<rparr>"

definition R071 :: rule where
  "R071 =
    \<lparr>rl_id = ''R071'', rl_intent = ''activate_hda'', raw_condition = ''( acc_state == 'ACTIVE' ) AND ( 0 < speed < 150 ) AND gear != 'R'' @ [CHR 0x27],
     rl_check_mode = ''gate'', rl_outcome = ''ALLOW'',
     prepared = ''( acc_state == 'ACTIVE' ) and ( 0 < speed < 150 ) and gear != 'R'' @ [CHR 0x27]\<rparr>"

definition R072 :: rule where
  "R072 =
    \<lparr>rl_id = ''R072'', rl_intent = ''activate_hda'', raw_condition = ''NOT ( ( acc_state == 'ACTIVE' ) AND ( 0 < speed < 150 ) AND gear != 'R' )'',
     rl_check_mode = ''gate'', rl_outcome = ''BLOCK_UNAVAILABLE'',
     prepared = ''not ( ( acc_state == 'ACTIVE' ) and ( 0 < speed < 150 ) and gear != 'R' )''\<rparr>"

definition R073 :: rule where
  "R073 =
    \<lparr>rl_id = ''R073'', rl_intent = ''activate_hda'', raw_condition = ''duration_seconds(hand_on_steeringwheel == False) > 15'',
     rl_check_mode = ''monitor'', rl_outcome = ''BLOCK_UNSAFE'',
     prepared = ''hand_off_wheel_duration_seconds > 15''\<rparr>"

definition R074 :: rule where
  "R074 =
    \<lparr>rl_id = ''R074'', rl_intent = ''shift_gear_park'', raw_condition = ''( speed < 3 )'',
     rl_check_mode = ''gate'', rl_outcome = ''ALLOW'',
     prepared = ''( speed == 0 )''\<rparr>"

definition R075 :: rule where
  "R075 =
    \<lparr>rl_id = ''R075'', rl_intent = ''shift_gear_park'', raw_condition = ''NOT ( ( speed < 3 ) )'',
     rl_check_mode = ''gate'', rl_outcome = ''BLOCK_UNAVAILABLE'',
     prepared = ''not ( ( speed == 0 ) )''\<rparr>"

definition R076 :: rule where
  "R076 =
    \<lparr>rl_id = ''R076'', rl_intent = ''fold_mirrors'', raw_condition = ''speed < 16'',
     rl_check_mode = ''gate'', rl_outcome = ''ALLOW'',
     prepared = ''speed < 16''\<rparr>"

definition R077 :: rule where
  "R077 =
    \<lparr>rl_id = ''R077'', rl_intent = ''fold_mirrors'', raw_condition = ''NOT ( speed < 16 )'',
     rl_check_mode = ''gate'', rl_outcome = ''BLOCK_UNAVAILABLE'',
     prepared = ''not ( speed < 16 )''\<rparr>"

definition R078 :: rule where
  "R078 =
    \<lparr>rl_id = ''R078'', rl_intent = ''activate_ahb'', raw_condition = ''fog_light == False'',
     rl_check_mode = ''gate'', rl_outcome = ''ALLOW'',
     prepared = ''fog_light == False''\<rparr>"

definition R079 :: rule where
  "R079 =
    \<lparr>rl_id = ''R079'', rl_intent = ''activate_ahb'', raw_condition = ''NOT ( fog_light == False )'',
     rl_check_mode = ''gate'', rl_outcome = ''BLOCK_UNAVAILABLE'',
     prepared = ''not ( fog_light == False )''\<rparr>"

definition R080 :: rule where
  "R080 =
    \<lparr>rl_id = ''R080'', rl_intent = ''turnon_turnsignal_right'', raw_condition = ''hazard_light == False'',
     rl_check_mode = ''gate'', rl_outcome = ''ALLOW'',
     prepared = ''hazard_light == False''\<rparr>"

definition R081 :: rule where
  "R081 =
    \<lparr>rl_id = ''R081'', rl_intent = ''turnon_turnsignal_right'', raw_condition = ''NOT ( hazard_light == False )'',
     rl_check_mode = ''gate'', rl_outcome = ''BLOCK_UNAVAILABLE'',
     prepared = ''not ( hazard_light == False )''\<rparr>"

definition R082 :: rule where
  "R082 =
    \<lparr>rl_id = ''R082'', rl_intent = ''turnon_turnsignal_left'', raw_condition = ''hazard_light == False'',
     rl_check_mode = ''gate'', rl_outcome = ''ALLOW'',
     prepared = ''hazard_light == False''\<rparr>"

definition R083 :: rule where
  "R083 =
    \<lparr>rl_id = ''R083'', rl_intent = ''turnon_turnsignal_left'', raw_condition = ''NOT ( hazard_light == False )'',
     rl_check_mode = ''gate'', rl_outcome = ''BLOCK_UNAVAILABLE'',
     prepared = ''not ( hazard_light == False )''\<rparr>"

definition R084 :: rule where
  "R084 =
    \<lparr>rl_id = ''R084'', rl_intent = ''turnoff_turnsignal_right'', raw_condition = ''TRUE'',
     rl_check_mode = ''gate'', rl_outcome = ''ALLOW'',
     prepared = ''True''\<rparr>"

definition R085 :: rule where
  "R085 =
    \<lparr>rl_id = ''R085'', rl_intent = ''turnoff_turnsignal_left'', raw_condition = ''TRUE'',
     rl_check_mode = ''gate'', rl_outcome = ''ALLOW'',
     prepared = ''True''\<rparr>"

definition R086 :: rule where
  "R086 =
    \<lparr>rl_id = ''R086'', rl_intent = ''turnon_hazardlight'', raw_condition = ''TRUE'',
     rl_check_mode = ''gate'', rl_outcome = ''ALLOW'',
     prepared = ''True''\<rparr>"

definition R087 :: rule where
  "R087 =
    \<lparr>rl_id = ''R087'', rl_intent = ''turnoff_hazardlight'', raw_condition = ''TRUE'',
     rl_check_mode = ''gate'', rl_outcome = ''ALLOW'',
     prepared = ''True''\<rparr>"

definition R088 :: rule where
  "R088 =
    \<lparr>rl_id = ''R088'', rl_intent = ''turnon_corneringlight'', raw_condition = ''lowbeam_mode == 'On' AND fog_light == False AND speed <= 40'',
     rl_check_mode = ''gate'', rl_outcome = ''ALLOW'',
     prepared = ''lowbeam_mode == 'On' and fog_light == False and speed <= 40''\<rparr>"

definition R089 :: rule where
  "R089 =
    \<lparr>rl_id = ''R089'', rl_intent = ''turnon_corneringlight'', raw_condition = ''NOT ( lowbeam_mode == 'On' AND fog_light == False AND speed <= 40 )'',
     rl_check_mode = ''gate'', rl_outcome = ''BLOCK_UNAVAILABLE'',
     prepared = ''not ( lowbeam_mode == 'On' and fog_light == False and speed <= 40 )''\<rparr>"

definition R090 :: rule where
  "R090 =
    \<lparr>rl_id = ''R090'', rl_intent = ''turnon_interiorlight'', raw_condition = ''( speed < 3 )'',
     rl_check_mode = ''gate'', rl_outcome = ''ALLOW'',
     prepared = ''( speed == 0 )''\<rparr>"

definition R091 :: rule where
  "R091 =
    \<lparr>rl_id = ''R091'', rl_intent = ''turnon_interiorlight'', raw_condition = ''NOT ( ( speed < 3 ) )'',
     rl_check_mode = ''gate'', rl_outcome = ''CONFIRM'',
     prepared = ''not ( ( speed == 0 ) )''\<rparr>"

definition R092 :: rule where
  "R092 =
    \<lparr>rl_id = ''R092'', rl_intent = ''activate_tcs'', raw_condition = ''esc == True'',
     rl_check_mode = ''gate'', rl_outcome = ''ALLOW'',
     prepared = ''esc == True''\<rparr>"

definition R093 :: rule where
  "R093 =
    \<lparr>rl_id = ''R093'', rl_intent = ''activate_tcs'', raw_condition = ''NOT ( esc == True )'',
     rl_check_mode = ''gate'', rl_outcome = ''BLOCK_UNAVAILABLE'',
     prepared = ''not ( esc == True )''\<rparr>"

definition R094 :: rule where
  "R094 =
    \<lparr>rl_id = ''R094'', rl_intent = ''deactivate_esc'', raw_condition = ''TRUE'',
     rl_check_mode = ''gate'', rl_outcome = ''NOT_VOICE_ACTIONABLE'',
     prepared = ''True''\<rparr>"

definition R095 :: rule where
  "R095 =
    \<lparr>rl_id = ''R095'', rl_intent = ''activate_avh'', raw_condition = ''gear != 'P'' @ [CHR 0x27],
     rl_check_mode = ''gate'', rl_outcome = ''ALLOW'',
     prepared = ''gear != 'P'' @ [CHR 0x27]\<rparr>"

definition R096 :: rule where
  "R096 =
    \<lparr>rl_id = ''R096'', rl_intent = ''activate_avh'', raw_condition = ''NOT ( gear != 'P' )'',
     rl_check_mode = ''gate'', rl_outcome = ''BLOCK_UNAVAILABLE'',
     prepared = ''not ( gear != 'P' )''\<rparr>"

definition R097 :: rule where
  "R097 =
    \<lparr>rl_id = ''R097'', rl_intent = ''open_noti_center'', raw_condition = ''profile != 'GUEST' AND profile != 'VALET'' @ [CHR 0x27],
     rl_check_mode = ''gate'', rl_outcome = ''ALLOW'',
     prepared = ''profile != 'GUEST' and profile != 'VALET'' @ [CHR 0x27]\<rparr>"

definition R098 :: rule where
  "R098 =
    \<lparr>rl_id = ''R098'', rl_intent = ''open_noti_center'', raw_condition = ''NOT ( profile != 'GUEST' AND profile != 'VALET' )'',
     rl_check_mode = ''gate'', rl_outcome = ''BLOCK_UNAVAILABLE'',
     prepared = ''not ( profile != 'GUEST' and profile != 'VALET' )''\<rparr>"

definition R099 :: rule where
  "R099 =
    \<lparr>rl_id = ''R099'', rl_intent = ''get_current_speed'', raw_condition = ''speed is not None'',
     rl_check_mode = ''gate'', rl_outcome = ''ANSWER'',
     prepared = ''speed is not None''\<rparr>"

definition R100 :: rule where
  "R100 =
    \<lparr>rl_id = ''R100'', rl_intent = ''get_battery_pct'', raw_condition = ''battery_pct is not None'',
     rl_check_mode = ''gate'', rl_outcome = ''ANSWER'',
     prepared = ''battery_pct is not None''\<rparr>"

definition R101 :: rule where
  "R101 =
    \<lparr>rl_id = ''R101'', rl_intent = ''get_battery_pct'', raw_condition = ''NOT ( battery_pct is not None )'',
     rl_check_mode = ''gate'', rl_outcome = ''UNKNOWN'',
     prepared = ''not ( battery_pct is not None )''\<rparr>"

definition R102 :: rule where
  "R102 =
    \<lparr>rl_id = ''R102'', rl_intent = ''get_gear'', raw_condition = ''gear is not None'',
     rl_check_mode = ''gate'', rl_outcome = ''ANSWER'',
     prepared = ''gear is not None''\<rparr>"

definition R103 :: rule where
  "R103 =
    \<lparr>rl_id = ''R103'', rl_intent = ''get_gear'', raw_condition = ''NOT ( gear is not None )'',
     rl_check_mode = ''gate'', rl_outcome = ''UNKNOWN'',
     prepared = ''not ( gear is not None )''\<rparr>"

definition R104 :: rule where
  "R104 =
    \<lparr>rl_id = ''R104'', rl_intent = ''get_door_lock_status'', raw_condition = ''door_lock_state is not None'',
     rl_check_mode = ''gate'', rl_outcome = ''ANSWER'',
     prepared = ''door_lock_state is not None''\<rparr>"

definition R105 :: rule where
  "R105 =
    \<lparr>rl_id = ''R105'', rl_intent = ''get_door_lock_status'', raw_condition = ''NOT ( door_lock_state is not None )'',
     rl_check_mode = ''gate'', rl_outcome = ''UNKNOWN'',
     prepared = ''not ( door_lock_state is not None )''\<rparr>"

definition R106 :: rule where
  "R106 =
    \<lparr>rl_id = ''R106'', rl_intent = ''get_avh_status'', raw_condition = ''avh is not None'',
     rl_check_mode = ''gate'', rl_outcome = ''ANSWER'',
     prepared = ''avh is not None''\<rparr>"

definition R107 :: rule where
  "R107 =
    \<lparr>rl_id = ''R107'', rl_intent = ''get_avh_status'', raw_condition = ''NOT ( avh is not None )'',
     rl_check_mode = ''gate'', rl_outcome = ''UNKNOWN'',
     prepared = ''not ( avh is not None )''\<rparr>"

definition R108 :: rule where
  "R108 =
    \<lparr>rl_id = ''R108'', rl_intent = ''explain_feature'', raw_condition = ''kb_has_feature(feature_id) == True'',
     rl_check_mode = ''gate'', rl_outcome = ''ANSWER'',
     prepared = ''kb_has_feature == True''\<rparr>"

definition R109 :: rule where
  "R109 =
    \<lparr>rl_id = ''R109'', rl_intent = ''explain_feature'', raw_condition = ''kb_has_feature(feature_id) == False'',
     rl_check_mode = ''gate'', rl_outcome = ''UNKNOWN'',
     prepared = ''kb_has_feature == False''\<rparr>"

definition workbook_rules :: "rule list" where
  "workbook_rules =
    [R001, R002, R003, R004, R005, R006, R007, R008, R009, R010, R011, R012, R013, R014,
     R015, R016, R017, R018, R019, R020, R021, R022, R023, R024, R025, R026, R027, R028,
     R029, R030, R031, R032, R033, R034, R035, R036, R037, R038, R039, R040, R041, R042,
     R043, R044, R045, R046, R047, R048, R049, R050, R051, R052, R053, R054, R055, R056,
     R057, R058, R059, R060, R061, R062, R063, R064, R065, R066, R067, R068, R069, R070,
     R071, R072, R073, R074, R075, R076, R077, R078, R079, R080, R081, R082, R083, R084,
     R085, R086, R087, R088, R089, R090, R091, R092, R093, R094, R095, R096, R097, R098,
     R099, R100, R101, R102, R103, R104, R105, R106, R107, R108, R109]"

lemmas rule_defs =
  R001_def R002_def R003_def R004_def R005_def R006_def R007_def R008_def
  R009_def R010_def R011_def R012_def R013_def R014_def R015_def R016_def
  R017_def R018_def R019_def R020_def R021_def R022_def R023_def R024_def
  R025_def R026_def R027_def R028_def R029_def R030_def R031_def R032_def
  R033_def R034_def R035_def R036_def R037_def R038_def R039_def R040_def
  R041_def R042_def R043_def R044_def R045_def R046_def R047_def R048_def
  R049_def R050_def R051_def R052_def R053_def R054_def R055_def R056_def
  R057_def R058_def R059_def R060_def R061_def R062_def R063_def R064_def
  R065_def R066_def R067_def R068_def R069_def R070_def R071_def R072_def
  R073_def R074_def R075_def R076_def R077_def R078_def R079_def R080_def
  R081_def R082_def R083_def R084_def R085_def R086_def R087_def R088_def
  R089_def R090_def R091_def R092_def R093_def R094_def R095_def R096_def
  R097_def R098_def R099_def R100_def R101_def R102_def R103_def R104_def
  R105_def R106_def R107_def R108_def R109_def

section \<open>The conditions parse\<close>

definition workbook_asts :: "expr list" where
  "workbook_asts =
    [BoolOp True [Compare (Name ''gear'') [(Eq, Constant (PStr ''P''))], Compare (Name ''speed'') [(Eq, Constant (PInt 0))]],
     NotOp (BoolOp True [Compare (Name ''gear'') [(Eq, Constant (PStr ''P''))], Compare (Name ''speed'') [(Eq, Constant (PInt 0))]]),
     Compare (Name ''speed'') [(Eq, Constant (PInt 0))],
     NotOp (Compare (Name ''speed'') [(Eq, Constant (PInt 0))]),
     BoolOp True [Compare (Name ''speed'') [(Eq, Constant (PInt 0))], Compare (Name ''rain_sensor'') [(Eq, Constant (PBool False))]],
     BoolOp True [Compare (Name ''speed'') [(Eq, Constant (PInt 0))], Compare (Name ''rain_sensor'') [(Eq, Constant (PBool True))]],
     BoolOp True [Compare (Name ''speed'') [(Eq, Constant (PInt 0))], Compare (Name ''rain_sensor'') [(Is, Constant PNone)]],
     NotOp (Compare (Name ''speed'') [(Eq, Constant (PInt 0))]),
     Compare (Name ''ambient_light'') [(Eq, Constant (PStr ''night''))],
     Compare (Name ''ambient_light'') [(Eq, Constant (PStr ''day''))],
     Compare (Name ''ambient_light'') [(Eq, Constant (PStr ''day''))],
     Compare (Name ''ambient_light'') [(Eq, Constant (PStr ''night''))],
     Compare (Name ''ambient_light'') [(Eq, Constant (PStr ''night''))],
     Compare (Name ''ambient_light'') [(Eq, Constant (PStr ''day''))],
     Compare (Name ''ambient_light'') [(Eq, Constant (PStr ''day''))],
     Compare (Name ''ambient_light'') [(Eq, Constant (PStr ''night''))],
     Constant (PBool True),
     Compare (Name ''speed'') [(Lt, Constant (PInt 10))],
     NotOp (Compare (Name ''speed'') [(Lt, Constant (PInt 10))]),
     BoolOp True [Compare (Name ''gear'') [(Eq, Constant (PStr ''P''))], Compare (Name ''speed'') [(Eq, Constant (PInt 0))]],
     NotOp (BoolOp True [Compare (Name ''gear'') [(Eq, Constant (PStr ''P''))], Compare (Name ''speed'') [(Eq, Constant (PInt 0))]]),
     Compare (Name ''rain_sensor'') [(Eq, Constant (PBool True))],
     Compare (Name ''rain_sensor'') [(Eq, Constant (PBool False))],
     Compare (Name ''battery_pct'') [(GtE, Constant (PInt 25))],
     Compare (Name ''battery_pct'') [(Lt, Constant (PInt 25))],
     Constant (PBool True),
     Constant (PBool True),
     Compare (Name ''avh'') [(Eq, Constant (PBool False))],
     NotOp (Compare (Name ''avh'') [(Eq, Constant (PBool False))]),
     Constant (PBool True),
     BoolOp True [BoolOp True [Compare (Name ''speed'') [(Eq, Constant (PInt 0))], Compare (Name ''gear'') [(Eq, Constant (PStr ''P''))], Compare (Name ''epb'') [(Eq, Constant (PBool True))]], Compare (Name ''battery_pct'') [(Gt, Constant (PInt 25))]],
     NotOp (BoolOp True [BoolOp True [Compare (Name ''speed'') [(Eq, Constant (PInt 0))], Compare (Name ''gear'') [(Eq, Constant (PStr ''P''))], Compare (Name ''epb'') [(Eq, Constant (PBool True))]], Compare (Name ''battery_pct'') [(Gt, Constant (PInt 25))]]),
     Compare (Name ''battery_pct'') [(Lt, Constant (PInt 15))],
     BoolOp False [Compare (Name ''camp_mode_active'') [(Eq, Constant (PBool True))], Compare (Name ''pet_mode_active'') [(Eq, Constant (PBool True))], Compare (Name ''valet_mode_active'') [(Eq, Constant (PBool True))]],
     BoolOp True [Compare (Name ''gear'') [(Eq, Constant (PStr ''P''))], Compare (Name ''battery_pct'') [(Gt, Constant (PInt 25))]],
     NotOp (BoolOp True [Compare (Name ''gear'') [(Eq, Constant (PStr ''P''))], Compare (Name ''battery_pct'') [(Gt, Constant (PInt 25))]]),
     Compare (Name ''battery_pct'') [(Lt, Constant (PInt 25))],
     BoolOp False [Compare (Name ''camp_mode_active'') [(Eq, Constant (PBool True))], Compare (Name ''pet_mode_active'') [(Eq, Constant (PBool True))], Compare (Name ''valet_mode_active'') [(Eq, Constant (PBool True))]],
     Compare (Name ''profile'') [(NotEq, Constant (PStr ''GUEST''))],
     NotOp (Compare (Name ''profile'') [(NotEq, Constant (PStr ''GUEST''))]),
     BoolOp False [Compare (Name ''camp_mode_active'') [(Eq, Constant (PBool True))], Compare (Name ''pet_mode_active'') [(Eq, Constant (PBool True))], Compare (Name ''valet_mode_active'') [(Eq, Constant (PBool True))]],
     BoolOp True [Compare (Name ''speed'') [(Eq, Constant (PInt 0))], Compare (Name ''gear'') [(NotEq, Constant (PStr ''D''))]],
     NotOp (BoolOp True [Compare (Name ''speed'') [(Eq, Constant (PInt 0))], Compare (Name ''gear'') [(NotEq, Constant (PStr ''D''))]]),
     Compare (Name ''speed'') [(Eq, Constant (PInt 0))],
     NotOp (Compare (Name ''speed'') [(Eq, Constant (PInt 0))]),
     Compare (Name ''speed'') [(Lt, Constant (PInt 15))],
     NotOp (Compare (Name ''speed'') [(Lt, Constant (PInt 15))]),
     BoolOp True [Compare (Name ''autopark_state'') [(Eq, Constant (PStr ''ACTIVE''))], NotOp (Compare (Name ''speed'') [(Lt, Constant (PInt 15))])],
     BoolOp True [Compare (Name ''gear'') [(Eq, Constant (PStr ''P''))], Compare (Name ''speed'') [(Eq, Constant (PInt 0))]],
     NotOp (BoolOp True [Compare (Name ''gear'') [(Eq, Constant (PStr ''P''))], Compare (Name ''speed'') [(Eq, Constant (PInt 0))]]),
     Compare (Name ''speed'') [(Gt, Constant (PInt 80))],
     BoolOp True [Compare (Name ''rain_sensor'') [(Eq, Constant (PBool True))], Compare (Name ''speed'') [(LtE, Constant (PInt 80))]],
     BoolOp True [Compare (Name ''speed'') [(LtE, Constant (PInt 80))], NotOp (Compare (Name ''rain_sensor'') [(Eq, Constant (PBool True))])],
     Compare (Name ''speed'') [(Eq, Constant (PInt 0))],
     BoolOp True [NotOp (Compare (Name ''speed'') [(Eq, Constant (PInt 0))]), Compare (Name ''target_angle'') [(LtE, Constant (PInt 110))]],
     BoolOp True [NotOp (Compare (Name ''speed'') [(Eq, Constant (PInt 0))]), Compare (Name ''target_angle'') [(Gt, Constant (PInt 110))]],
     Compare (Name ''speed'') [(Eq, Constant (PInt 0))],
     NotOp (Compare (Name ''speed'') [(Eq, Constant (PInt 0))]),
     BoolOp True [Compare (Name ''speed'') [(LtE, Constant (PInt 80))], NotOp (Compare (Name ''rain_sensor'') [(Eq, Constant (PBool True))])],
     Compare (Name ''speed'') [(Gt, Constant (PInt 80))],
     BoolOp True [Compare (Name ''rain_sensor'') [(Eq, Constant (PBool True))], Compare (Name ''speed'') [(LtE, Constant (PInt 80))]],
     Compare (Name ''speed'') [(Eq, Constant (PInt 0))],
     BoolOp True [NotOp (Compare (Name ''speed'') [(Eq, Constant (PInt 0))]), Compare (Name ''target_angle'') [(Lt, Constant (PInt 110))]],
     BoolOp True [NotOp (Compare (Name ''speed'') [(Eq, Constant (PInt 0))]), Compare (Name ''target_angle'') [(GtE, Constant (PInt 110))]],
     Compare (Name ''gear'') [(Eq, Constant (PStr ''P''))],
     NotOp (Compare (Name ''gear'') [(Eq, Constant (PStr ''P''))]),
     Constant (PBool True),
     Compare (Constant (PInt 20)) [(Lt, Name ''speed''), (Lt, Constant (PInt 150))],
     NotOp (Compare (Constant (PInt 20)) [(Lt, Name ''speed''), (Lt, Constant (PInt 150))]),
     BoolOp True [Compare (Name ''acc_state'') [(Eq, Constant (PStr ''ACTIVE''))], Compare (Name ''speed'') [(Eq, Constant (PInt 0))]],
     BoolOp True [Compare (Name ''acc_state'') [(Eq, Constant (PStr ''ACTIVE''))], Compare (Constant (PInt 0)) [(Lt, Name ''speed''), (Lt, Constant (PInt 150))], Compare (Name ''gear'') [(NotEq, Constant (PStr ''R''))]],
     NotOp (BoolOp True [Compare (Name ''acc_state'') [(Eq, Constant (PStr ''ACTIVE''))], Compare (Constant (PInt 0)) [(Lt, Name ''speed''), (Lt, Constant (PInt 150))], Compare (Name ''gear'') [(NotEq, Constant (PStr ''R''))]]),
     Compare (Name ''hand_off_wheel_duration_seconds'') [(Gt, Constant (PInt 15))],
     Compare (Name ''speed'') [(Eq, Constant (PInt 0))],
     NotOp (Compare (Name ''speed'') [(Eq, Constant (PInt 0))]),
     Compare (Name ''speed'') [(Lt, Constant (PInt 16))],
     NotOp (Compare (Name ''speed'') [(Lt, Constant (PInt 16))]),
     Compare (Name ''fog_light'') [(Eq, Constant (PBool False))],
     NotOp (Compare (Name ''fog_light'') [(Eq, Constant (PBool False))]),
     Compare (Name ''hazard_light'') [(Eq, Constant (PBool False))],
     NotOp (Compare (Name ''hazard_light'') [(Eq, Constant (PBool False))]),
     Compare (Name ''hazard_light'') [(Eq, Constant (PBool False))],
     NotOp (Compare (Name ''hazard_light'') [(Eq, Constant (PBool False))]),
     Constant (PBool True),
     Constant (PBool True),
     Constant (PBool True),
     Constant (PBool True),
     BoolOp True [Compare (Name ''lowbeam_mode'') [(Eq, Constant (PStr ''On''))], Compare (Name ''fog_light'') [(Eq, Constant (PBool False))], Compare (Name ''speed'') [(LtE, Constant (PInt 40))]],
     NotOp (BoolOp True [Compare (Name ''lowbeam_mode'') [(Eq, Constant (PStr ''On''))], Compare (Name ''fog_light'') [(Eq, Constant (PBool False))], Compare (Name ''speed'') [(LtE, Constant (PInt 40))]]),
     Compare (Name ''speed'') [(Eq, Constant (PInt 0))],
     NotOp (Compare (Name ''speed'') [(Eq, Constant (PInt 0))]),
     Compare (Name ''esc'') [(Eq, Constant (PBool True))],
     NotOp (Compare (Name ''esc'') [(Eq, Constant (PBool True))]),
     Constant (PBool True),
     Compare (Name ''gear'') [(NotEq, Constant (PStr ''P''))],
     NotOp (Compare (Name ''gear'') [(NotEq, Constant (PStr ''P''))]),
     BoolOp True [Compare (Name ''profile'') [(NotEq, Constant (PStr ''GUEST''))], Compare (Name ''profile'') [(NotEq, Constant (PStr ''VALET''))]],
     NotOp (BoolOp True [Compare (Name ''profile'') [(NotEq, Constant (PStr ''GUEST''))], Compare (Name ''profile'') [(NotEq, Constant (PStr ''VALET''))]]),
     Compare (Name ''speed'') [(IsNot, Constant PNone)],
     Compare (Name ''battery_pct'') [(IsNot, Constant PNone)],
     NotOp (Compare (Name ''battery_pct'') [(IsNot, Constant PNone)]),
     Compare (Name ''gear'') [(IsNot, Constant PNone)],
     NotOp (Compare (Name ''gear'') [(IsNot, Constant PNone)]),
     Compare (Name ''door_lock_state'') [(IsNot, Constant PNone)],
     NotOp (Compare (Name ''door_lock_state'') [(IsNot, Constant PNone)]),
     Compare (Name ''avh'') [(IsNot, Constant PNone)],
     NotOp (Compare (Name ''avh'') [(IsNot, Constant PNone)]),
     Compare (Name ''kb_has_feature'') [(Eq, Constant (PBool True))],
     Compare (Name ''kb_has_feature'') [(Eq, Constant (PBool False))]]"

lemma parse_workbook_list:
  "map (\<lambda>r. ast_parse (prepared r)) workbook_rules = map Some workbook_asts"
  by code_simp

lemmas parse_workbook =
  parse_workbook_list [unfolded workbook_rules_def workbook_asts_def list.map list.inject]

section \<open>The rules by intent\<close>

text \<open>The selectors of the rules, one equation per rule.\<close>

lemmas rule_sels =
  rule_defs [THEN arg_cong [where f = rl_id], simplified rule.simps]
  rule_defs [THEN arg_cong [where f = rl_intent], simplified rule.simps]
  rule_defs [THEN arg_cong [where f = rl_check_mode], simplified rule.simps]
  rule_defs [THEN arg_cong [where f = rl_outcome], simplified rule.simps]

text \<open>The workbook keeps the rules of an intent together.\<close>

definition workbook_groups :: "(string \<times> rule list) list" where
  "workbook_groups =
    [(''open_door'', [R001, R002]),
     (''open_trunk'', [R003, R004]),
     (''open_chargeport'', [R005, R006, R007, R008]),
     (''turnoff_highbeam'', [R009, R010]),
     (''turnon_highbeam'', [R011, R012]),
     (''turnoff_lowbeam'', [R013, R014]),
     (''turnon_lowbeam'', [R015, R016]),
     (''lock_doors'', [R017]),
     (''unlock_doors'', [R018, R019]),
     (''OPEN_BONNET'', [R020, R021]),
     (''AD_WIPER_MAX'', [R022, R023]),
     (''switch_drivemode_sport'', [R024, R025]),
     (''switch_drivemode_eco'', [R026]),
     (''switch_drivemode_normal'', [R027]),
     (''activate_creepmode'', [R028, R029]),
     (''turnoff_LKA'', [R030]),
     (''activate_campmode'', [R031, R032, R033, R034]),
     (''activate_petmode'', [R035, R036, R037, R038]),
     (''activate_valetmode'', [R039, R040, R041]),
     (''SHIFT_GEAR_REVERSE'', [R042, R043]),
     (''ad_steeringwheel'', [R044, R045]),
     (''activate_autopark'', [R046, R047, R048]),
     (''fold_backseat'', [R049, R050]),
     (''open_sunroof'', [R051, R052, R053]),
     (''ad_driverseat_angle'', [R054, R055, R056]),
     (''ad_driverseat_pos'', [R057, R058]),
     (''open_window'', [R059, R060, R061]),
     (''restore_driverseat_pos'', [R062, R063, R064]),
     (''activate_epb'', [R065, R066]),
     (''deactivate_hud'', [R067]),
     (''activate_aac'', [R068, R069, R070]),
     (''activate_hda'', [R071, R072, R073]),
     (''shift_gear_park'', [R074, R075]),
     (''fold_mirrors'', [R076, R077]),
     (''activate_ahb'', [R078, R079]),
     (''turnon_turnsignal_right'', [R080, R081]),
     (''turnon_turnsignal_left'', [R082, R083]),
     (''turnoff_turnsignal_right'', [R084]),
     (''turnoff_turnsignal_left'', [R085]),
     (''turnon_hazardlight'', [R086]),
     (''turnoff_hazardlight'', [R087]),
     (''turnon_corneringlight'', [R088, R089]),
     (''turnon_interiorlight'', [R090, R091]),
     (''activate_tcs'', [R092, R093]),
     (''deactivate_esc'', [R094]),
     (''activate_avh'', [R095, R096]),
     (''open_noti_center'', [R097, R098]),
     (''get_current_speed'', [R099]),
     (''get_battery_pct'', [R100, R101]),
     (''get_gear'', [R102, R103]),
     (''get_door_lock_status'', [R104, R105]),
     (''get_avh_status'', [R106, R107]),
     (''explain_feature'', [R108, R109])]"

lemma concat_workbook_groups: "concat (map snd workbook_groups) = workbook_rules"
  by (simp add: workbook_groups_def workbook_rules_def)

lemma workbook_groups_intent:
  "list_all (\<lambda>(i, g). g \<noteq> [] \<and> list_all (\<lambda>r. rl_intent r = i) g) workbook_groups"
  by (simp add: workbook_groups_def rule_sels)

lemma distinct_workbook_groups: "distinct (map fst workbook_groups)"
  by (simp add: workbook_groups_def)

definition workbook_intents :: "string list" where
  "workbook_intents = map fst workbook_groups"

lemma filter_groups:
  "list_all (\<lambda>(i, g). list_all (\<lambda>r. rl_intent r = i) g) gs \<Longrightarrow> distinct (map fst gs) \<Longrightarrow>
   filter (\<lambda>r. rl_intent r = it \<and> P r) (concat (map snd gs)) =
   (case map_of gs it of None \<Rightarrow> [] | Some g \<Rightarrow> filter P g)"
proof (induction gs)
  case Nil
  then show ?case by simp
next
  case (Cons p gs)
  obtain i g where p: "p = (i, g)" by fastforce
  show ?case
  proof (cases "i = it")
    case True
    with Cons.prems p have "map_of gs it = None" by (auto simp: map_of_eq_None_iff)
    moreover have "filter (\<lambda>r. rl_intent r = it \<and> P r) g = filter P g"
      using Cons.prems p True by (auto simp: list_all_iff intro: filter_cong)
    ultimately show ?thesis using Cons p True by simp
  next
    case False
    with Cons.prems p have "filter (\<lambda>r. rl_intent r = it \<and> P r) g = []"
      by (auto simp: list_all_iff filter_empty_conv)
    with Cons p False show ?thesis by simp
  qed
qed

section \<open>The workbook loads\<close>

lemma map_row_rule_workbook:
  "map row_rule (filter is_rule_row workbook_rows) = workbook_rules"
  by code_simp

lemma distinct_workbook_ids: "distinct (map rl_id workbook_rules)"
proof -
  have "map (\<lambda>s. digits_val 0 (tl s)) (map rl_id workbook_rules) = [1..109]"
    by code_simp
  then have "distinct (map (\<lambda>s. digits_val 0 (tl s)) (map rl_id workbook_rules))"
    by simp
  then show ?thesis by (simp only: distinct_map)
qed

lemma workbook_rules_ok: "list_all rule_ok workbook_rules"
proof -
  have "list_all (\<lambda>r. \<exists>e. ast_parse (prepared r) = Some e) workbook_rules"
    by (simp add: workbook_rules_def parse_workbook)
  moreover have "list_all (\<lambda>r. rl_check_mode r \<in> set CHECK_MODES \<and> rl_outcome r \<in> set OUTCOMES)
      workbook_rules"
    by (simp add: workbook_rules_def rule_sels CHECK_MODES_def OUTCOMES_def)
  ultimately show ?thesis by (simp add: list_all_iff rule_ok_def)
qed

lemma load_rows_workbook: "load_rows 2 [] workbook_rows = (workbook_rules, [])"
proof (rule load_rows_complete [of workbook_rows "[]" 2, unfolded map_row_rule_workbook])
  show "list_all rule_ok workbook_rules" by (rule workbook_rules_ok)
  show "distinct (map rl_id workbook_rules)" by (rule distinct_workbook_ids)
  show "set (map rl_id workbook_rules) \<inter> set [] = {}" by (simp only: list.set(1) Int_empty_right)
qed

lemma set_workbook_intents: "rl_intent ` set workbook_rules = set workbook_intents"
proof -
  have eq: "rl_intent ` set (snd p) = {fst p}" if p: "p \<in> set workbook_groups" for p
  proof -
    have "snd p \<noteq> []" and "\<And>r. r \<in> set (snd p) \<Longrightarrow> rl_intent r = fst p"
      using p workbook_groups_intent by (auto simp: list_all_iff)
    then show ?thesis by (cases "snd p") auto
  qed
  have "rl_intent ` set workbook_rules = (\<Union>p \<in> set workbook_groups. rl_intent ` set (snd p))"
    by (simp add: image_UN flip: concat_workbook_groups)
  also have "\<dots> = (\<Union>p \<in> set workbook_groups. {fst p})"
    by (rule SUP_cong [OF refl eq])
  also have "\<dots> = set workbook_intents"
    by (auto simp: workbook_intents_def)
  finally show ?thesis .
qed

lemma count_problems_workbook: "count_problems workbook_rules = []"
proof -
  have "length (remdups (map rl_intent workbook_rules)) = card (set workbook_intents)"
    by (simp only: length_remdups_card_conv set_map set_workbook_intents)
  also have "\<dots> = length workbook_intents"
    using distinct_workbook_groups unfolding workbook_intents_def by (rule distinct_card)
  also have "\<dots> = 53"
    by (simp add: workbook_intents_def workbook_groups_def)
  finally have intents: "length (remdups (map rl_intent workbook_rules)) = 53" .
  have "length workbook_rules = 109"
    "length (filter (\<lambda>r. rl_check_mode r = ''gate'') workbook_rules) = 104"
    "length (filter (\<lambda>r. rl_check_mode r = ''monitor'') workbook_rules) = 5"
    by (simp_all add: workbook_rules_def rule_sels)
  with intents show ?thesis
    by (simp add: count_problems_def rule_counts_def EXPECTED_def)
qed

definition workbook :: "(pyval \<Rightarrow> string) \<Rightarrow> ruleset" where
  "workbook H = RuleSet workbook_rules (rules_checksum H workbook_rules)"

lemma load_workbook: "load H workbook_rows = Inr (workbook H)"
  by (simp add: load_def workbook_def load_rows_workbook count_problems_workbook)

lemma for_intent_workbook:
  "for_intent (workbook H) it m =
   (case map_of workbook_groups it of None \<Rightarrow> []
    | Some g \<Rightarrow> filter (\<lambda>r. rl_check_mode r = m) g)"
proof -
  have "list_all (\<lambda>(i, g). list_all (\<lambda>r. rl_intent r = i) g) workbook_groups"
    using workbook_groups_intent by (auto simp: list_all_iff)
  from filter_groups [OF this distinct_workbook_groups] show ?thesis
    by (simp add: workbook_def concat_workbook_groups)
qed

lemma intents_workbook: "rs_intents (workbook H) = set workbook_intents"
  by (simp add: workbook_def set_workbook_intents)

end
