(* ===== verification/PolicySpec.thy ===== *)
theory PolicySpec
  imports Workbook
begin

text \<open>
  What the policy is meant to say: \<open>policy_spec\<close> gives, for each of the 53 intents, the
  verdict as a function of a typed vehicle state (\<open>car\<close>) and the two request parameters,
  \<open>monitor_spec\<close> the verdict for a running action.  The lemmas \<open>refines_*\<close> prove
  that the engine, run on the workbook, computes this function on every state that represents a
  car: the rule text, its rewriting, its parse, the evaluator and the precedence of the
  mode-exclusion rules together implement the specification.
\<close>


section \<open>Typed vehicle states\<close>

record car =
  c_gear :: string
  c_speed :: rat
  c_rain :: "bool option"
  c_ambient :: string
  c_battery :: "rat option"
  c_avh :: "bool option"
  c_epb :: bool
  c_camp :: bool
  c_pet :: bool
  c_valet :: bool
  c_profile :: string
  c_autopark :: string
  c_acc :: string
  c_hands_off :: rat
  c_fog :: bool
  c_hazard :: bool
  c_lowbeam :: string
  c_esc :: bool
  c_door_lock :: "string option"

fun abs_str :: "pyval \<Rightarrow> string option" where
  "abs_str (PStr x) = Some x"
| "abs_str _ = None"

fun abs_bool :: "pyval \<Rightarrow> bool option" where
  "abs_bool (PBool b) = Some b"
| "abs_bool _ = None"

fun abs_num :: "pyval \<Rightarrow> rat option" where
  "abs_num (PInt i) = Some (of_int i)"
| "abs_num (PFloat (Fin r)) = Some r"
| "abs_num _ = None"

fun abs_null :: "(pyval \<Rightarrow> 'a option) \<Rightarrow> pyval \<Rightarrow> 'a option option" where
  "abs_null f PNone = Some None"
| "abs_null f v = map_option Some (f v)"

definition represents :: "vstate \<Rightarrow> car \<Rightarrow> bool" where
  "represents s c \<longleftrightarrow>
     abs_str (gear s) = Some (c_gear c) \<and>
     abs_num (speed s) = Some (c_speed c) \<and>
     abs_null abs_bool (rain_sensor s) = Some (c_rain c) \<and>
     abs_str (ambient_light s) = Some (c_ambient c) \<and>
     abs_null abs_num (battery_pct s) = Some (c_battery c) \<and>
     abs_null abs_bool (avh s) = Some (c_avh c) \<and>
     abs_bool (epb s) = Some (c_epb c) \<and>
     abs_bool (camp_mode_active s) = Some (c_camp c) \<and>
     abs_bool (pet_mode_active s) = Some (c_pet c) \<and>
     abs_bool (valet_mode_active s) = Some (c_valet c) \<and>
     abs_str (profile s) = Some (c_profile c) \<and>
     abs_str (autopark_state s) = Some (c_autopark c) \<and>
     abs_str (acc_state s) = Some (c_acc c) \<and>
     abs_num (hand_off_wheel_duration_seconds s) = Some (c_hands_off c) \<and>
     abs_bool (fog_light s) = Some (c_fog c) \<and>
     abs_bool (hazard_light s) = Some (c_hazard c) \<and>
     abs_str (lowbeam_mode s) = Some (c_lowbeam c) \<and>
     abs_bool (esc s) = Some (c_esc c) \<and>
     abs_null abs_str (door_lock_state s) = Some (c_door_lock c)"


section \<open>Verdicts\<close>

datatype verdict = Verdict string | NoTrigger | FailClosed

definition verdict_of :: "cond_exn + decision \<Rightarrow> verdict" where
  "verdict_of r =
     (case r of
        Inl _ \<Rightarrow> FailClosed
      | Inr d \<Rightarrow> if is_fail_closed d then FailClosed
                 else (case dc_outcome d of None \<Rightarrow> NoTrigger | Some out \<Rightarrow> Verdict out))"

text \<open>The request parameters of a call: \<open>kb_has_feature\<close> and \<open>target_angle\<close>.\<close>

definition request_params :: "bool option \<Rightarrow> rat option \<Rightarrow> payload" where
  "request_params kb ang =
     (case kb of None \<Rightarrow> [] | Some b \<Rightarrow> [(''kb_has_feature'', PBool b)]) @
     (case ang of None \<Rightarrow> [] | Some a \<Rightarrow> [(''target_angle'', PFloat (Fin a))])"

definition special_mode :: "car \<Rightarrow> bool" where
  "special_mode c \<longleftrightarrow> c_camp c \<or> c_pet c \<or> c_valet c"

definition by_light :: "car \<Rightarrow> string \<Rightarrow> string \<Rightarrow> verdict" where
  "by_light c day night =
     (if c_ambient c = ''day'' then Verdict day
      else if c_ambient c = ''night'' then Verdict night
      else FailClosed)"

section \<open>The gate policy\<close>

type_synonym spec_table = "(string \<times> (car \<Rightarrow> bool option \<Rightarrow> rat option \<Rightarrow> verdict)) list"

definition access_spec :: spec_table where
  "access_spec =
    [(''open_door'', \<lambda>c kb ang.
        Verdict (if c_gear c = ''P'' \<and> c_speed c = 0 then ''ALLOW'' else ''BLOCK_UNSAFE'')),
     (''open_trunk'', \<lambda>c kb ang.
        Verdict (if c_speed c = 0 then ''ALLOW'' else ''BLOCK_UNSAFE'')),
     (''open_chargeport'', \<lambda>c kb ang.
        Verdict (if c_speed c \<noteq> 0 then ''BLOCK_UNSAFE'' else if c_rain c = Some True then ''CONFIRM'' else ''ALLOW'')),
     (''lock_doors'', \<lambda>c kb ang.
        Verdict (''ALLOW'')),
     (''unlock_doors'', \<lambda>c kb ang.
        Verdict (if c_speed c < 10 then ''ALLOW'' else ''BLOCK_UNSAFE'')),
     (''OPEN_BONNET'', \<lambda>c kb ang.
        Verdict (if c_gear c = ''P'' \<and> c_speed c = 0 then ''ALLOW'' else ''BLOCK_UNSAFE''))]"

definition cabin_spec :: spec_table where
  "cabin_spec =
    [(''AD_WIPER_MAX'', \<lambda>c kb ang.
        case c_rain c of Some True \<Rightarrow> Verdict ''ALLOW'' | Some False \<Rightarrow> Verdict ''CONFIRM'' | None \<Rightarrow> FailClosed),
     (''ad_steeringwheel'', \<lambda>c kb ang.
        Verdict (if c_speed c = 0 then ''ALLOW'' else ''BLOCK_UNSAFE'')),
     (''fold_backseat'', \<lambda>c kb ang.
        Verdict (if c_gear c = ''P'' \<and> c_speed c = 0 then ''ALLOW'' else ''CONFIRM'')),
     (''open_sunroof'', \<lambda>c kb ang.
        Verdict (if c_speed c > 80 then ''BLOCK_UNSAFE'' else ''CONFIRM'')),
     (''open_window'', \<lambda>c kb ang.
        Verdict (if c_speed c > 80 then ''BLOCK_UNSAFE'' else ''CONFIRM'')),
     (''ad_driverseat_angle'', \<lambda>c kb ang.
        case ang of None \<Rightarrow> FailClosed | Some a \<Rightarrow>
          Verdict (if c_speed c = 0 \<or> a \<le> 110 then ''ALLOW'' else ''BLOCK_UNSAFE'')),
     (''ad_driverseat_pos'', \<lambda>c kb ang.
        Verdict (if c_speed c = 0 then ''ALLOW'' else ''BLOCK_UNSAFE'')),
     (''restore_driverseat_pos'', \<lambda>c kb ang.
        case ang of None \<Rightarrow> FailClosed | Some a \<Rightarrow>
          Verdict (if c_speed c = 0 then ''ALLOW'' else if a < 110 then ''CONFIRM'' else ''BLOCK_UNSAFE'')),
     (''fold_mirrors'', \<lambda>c kb ang.
        Verdict (if c_speed c < 16 then ''ALLOW'' else ''BLOCK_UNAVAILABLE'')),
     (''deactivate_hud'', \<lambda>c kb ang.
        Verdict (''CONFIRM'')),
     (''open_noti_center'', \<lambda>c kb ang.
        Verdict (if c_profile c \<in> {''GUEST'', ''VALET''} then ''BLOCK_UNAVAILABLE'' else ''ALLOW''))]"

definition lights_spec :: spec_table where
  "lights_spec =
    [(''turnoff_highbeam'', \<lambda>c kb ang.
        by_light c ''ALLOW'' ''CONFIRM''),
     (''turnon_highbeam'', \<lambda>c kb ang.
        by_light c ''CONFIRM'' ''ALLOW''),
     (''turnoff_lowbeam'', \<lambda>c kb ang.
        by_light c ''ALLOW'' ''CONFIRM''),
     (''turnon_lowbeam'', \<lambda>c kb ang.
        by_light c ''CONFIRM'' ''ALLOW''),
     (''activate_ahb'', \<lambda>c kb ang.
        Verdict (if c_fog c then ''BLOCK_UNAVAILABLE'' else ''ALLOW'')),
     (''turnon_turnsignal_right'', \<lambda>c kb ang.
        Verdict (if c_hazard c then ''BLOCK_UNAVAILABLE'' else ''ALLOW'')),
     (''turnon_turnsignal_left'', \<lambda>c kb ang.
        Verdict (if c_hazard c then ''BLOCK_UNAVAILABLE'' else ''ALLOW'')),
     (''turnoff_turnsignal_right'', \<lambda>c kb ang.
        Verdict (''ALLOW'')),
     (''turnoff_turnsignal_left'', \<lambda>c kb ang.
        Verdict (''ALLOW'')),
     (''turnon_hazardlight'', \<lambda>c kb ang.
        Verdict (''ALLOW'')),
     (''turnoff_hazardlight'', \<lambda>c kb ang.
        Verdict (''ALLOW'')),
     (''turnon_corneringlight'', \<lambda>c kb ang.
        Verdict (if c_lowbeam c = ''On'' \<and> \<not> c_fog c \<and> c_speed c \<le> 40 then ''ALLOW'' else ''BLOCK_UNAVAILABLE'')),
     (''turnon_interiorlight'', \<lambda>c kb ang.
        Verdict (if c_speed c = 0 then ''ALLOW'' else ''CONFIRM''))]"

definition modes_spec :: spec_table where
  "modes_spec =
    [(''switch_drivemode_sport'', \<lambda>c kb ang.
        case c_battery c of None \<Rightarrow> FailClosed | Some b \<Rightarrow> Verdict (if b \<ge> 25 then ''ALLOW'' else ''CONFIRM'')),
     (''switch_drivemode_eco'', \<lambda>c kb ang.
        Verdict (''ALLOW'')),
     (''switch_drivemode_normal'', \<lambda>c kb ang.
        Verdict (''ALLOW'')),
     (''activate_creepmode'', \<lambda>c kb ang.
        Verdict (if c_avh c = Some False then ''ALLOW'' else ''BLOCK_UNAVAILABLE'')),
     (''activate_campmode'', \<lambda>c kb ang.
        case c_battery c of None \<Rightarrow> FailClosed | Some b \<Rightarrow>
          Verdict (if special_mode c \<or> \<not> (c_speed c = 0 \<and> c_gear c = ''P'' \<and> c_epb c \<and> b > 25)
                   then ''BLOCK_UNAVAILABLE'' else ''ALLOW'')),
     (''activate_petmode'', \<lambda>c kb ang.
        case c_battery c of None \<Rightarrow> FailClosed | Some b \<Rightarrow>
          Verdict (if special_mode c \<or> \<not> (c_gear c = ''P'' \<and> b > 25) then ''BLOCK_UNAVAILABLE'' else ''ALLOW'')),
     (''activate_valetmode'', \<lambda>c kb ang.
        Verdict (if special_mode c \<or> c_profile c = ''GUEST'' then ''BLOCK_UNAVAILABLE'' else ''ALLOW''))]"

definition driving_spec :: spec_table where
  "driving_spec =
    [(''turnoff_LKA'', \<lambda>c kb ang.
        Verdict (''CONFIRM'')),
     (''SHIFT_GEAR_REVERSE'', \<lambda>c kb ang.
        Verdict (if c_speed c = 0 \<and> c_gear c \<noteq> ''D'' then ''ALLOW'' else ''BLOCK_UNSAFE'')),
     (''shift_gear_park'', \<lambda>c kb ang.
        Verdict (if c_speed c = 0 then ''ALLOW'' else ''BLOCK_UNAVAILABLE'')),
     (''activate_epb'', \<lambda>c kb ang.
        Verdict (if c_gear c = ''P'' then ''ALLOW'' else ''BLOCK_UNAVAILABLE'')),
     (''activate_autopark'', \<lambda>c kb ang.
        Verdict (if c_speed c < 15 then ''ALLOW'' else ''BLOCK_UNAVAILABLE'')),
     (''activate_aac'', \<lambda>c kb ang.
        Verdict (if 20 < c_speed c \<and> c_speed c < 150 then ''ALLOW'' else ''BLOCK_UNAVAILABLE'')),
     (''activate_hda'', \<lambda>c kb ang.
        Verdict (if c_acc c = ''ACTIVE'' \<and> 0 < c_speed c \<and> c_speed c < 150 \<and> c_gear c \<noteq> ''R''
            then ''ALLOW'' else ''BLOCK_UNAVAILABLE'')),
     (''activate_tcs'', \<lambda>c kb ang.
        Verdict (if c_esc c then ''ALLOW'' else ''BLOCK_UNAVAILABLE'')),
     (''deactivate_esc'', \<lambda>c kb ang.
        Verdict (''NOT_VOICE_ACTIONABLE'')),
     (''activate_avh'', \<lambda>c kb ang.
        Verdict (if c_gear c \<noteq> ''P'' then ''ALLOW'' else ''BLOCK_UNAVAILABLE''))]"

definition queries_spec :: spec_table where
  "queries_spec =
    [(''get_current_speed'', \<lambda>c kb ang.
        Verdict (''ANSWER'')),
     (''get_battery_pct'', \<lambda>c kb ang.
        Verdict (if c_battery c = None then ''UNKNOWN'' else ''ANSWER'')),
     (''get_gear'', \<lambda>c kb ang.
        Verdict (''ANSWER'')),
     (''get_door_lock_status'', \<lambda>c kb ang.
        Verdict (if c_door_lock c = None then ''UNKNOWN'' else ''ANSWER'')),
     (''get_avh_status'', \<lambda>c kb ang.
        Verdict (if c_avh c = None then ''UNKNOWN'' else ''ANSWER'')),
     (''explain_feature'', \<lambda>c kb ang.
        case kb of None \<Rightarrow> FailClosed | Some b \<Rightarrow> Verdict (if b then ''ANSWER'' else ''UNKNOWN''))]"

definition spec_table :: spec_table where
  "spec_table = access_spec @ cabin_spec @ lights_spec @ modes_spec @ driving_spec @ queries_spec"

text \<open>An intent that is not in the catalogue fails closed.\<close>

definition policy_spec :: "string \<Rightarrow> car \<Rightarrow> bool option \<Rightarrow> rat option \<Rightarrow> verdict" where
  "policy_spec it c kb ang =
     (case map_of spec_table it of None \<Rightarrow> FailClosed | Some f \<Rightarrow> f c kb ang)"

section \<open>The monitor policy\<close>

definition monitor_spec_table :: "(string \<times> (car \<Rightarrow> verdict)) list" where
  "monitor_spec_table =
    [(''activate_campmode'', \<lambda>c.
        case c_battery c of None \<Rightarrow> FailClosed
        | Some b \<Rightarrow> if b < 15 then Verdict ''BLOCK_UNAVAILABLE'' else NoTrigger),
     (''activate_petmode'', \<lambda>c.
        case c_battery c of None \<Rightarrow> FailClosed
        | Some b \<Rightarrow> if b < 25 then Verdict ''BLOCK_UNAVAILABLE'' else NoTrigger),
     (''activate_autopark'', \<lambda>c.
        if c_autopark c = ''ACTIVE'' \<and> 15 \<le> c_speed c then Verdict ''BLOCK_UNSAFE'' else NoTrigger),
     (''activate_aac'', \<lambda>c.
        if c_acc c = ''ACTIVE'' \<and> c_speed c = 0 then Verdict ''ALLOW'' else NoTrigger),
     (''activate_hda'', \<lambda>c.
        if 15 < c_hands_off c then Verdict ''BLOCK_UNSAFE'' else NoTrigger)]"

definition monitor_spec :: "string \<Rightarrow> car \<Rightarrow> verdict" where
  "monitor_spec it c =
     (case map_of monitor_spec_table it of None \<Rightarrow> FailClosed | Some f \<Rightarrow> f c)"

section \<open>Evaluating conditions on a represented state\<close>

lemma abs_simps:
  "abs_str v = Some x \<longleftrightarrow> v = PStr x"
  "abs_bool v = Some b \<longleftrightarrow> v = PBool b"
  "abs_null f v = Some None \<longleftrightarrow> v = PNone"
  "abs_null f v = Some (Some y) \<longleftrightarrow> v \<noteq> PNone \<and> f v = Some y"
  by (cases v; auto)+

lemma abs_num_props:
  assumes "abs_num v = Some r"
  shows "num_of v = Some (Fin r)" "v \<noteq> PNone"
  using assms by (cases v rule: abs_num.cases; auto)+

lemma py_eq_num:
  "num_of x = Some a \<Longrightarrow> num_of y = Some b \<Longrightarrow> py_eq x y = num_eq a b"
  by (cases x; cases y) (auto simp: py_eq.simps)

lemma condition_values [simp]:
  "map_of (as_condition_values s) ''gear'' = Some (gear s)"
  "map_of (as_condition_values s) ''speed'' = Some (speed s)"
  "map_of (as_condition_values s) ''rain_sensor'' = Some (rain_sensor s)"
  "map_of (as_condition_values s) ''ambient_light'' = Some (ambient_light s)"
  "map_of (as_condition_values s) ''battery_pct'' = Some (battery_pct s)"
  "map_of (as_condition_values s) ''avh'' = Some (avh s)"
  "map_of (as_condition_values s) ''epb'' = Some (epb s)"
  "map_of (as_condition_values s) ''camp_mode_active'' = Some (camp_mode_active s)"
  "map_of (as_condition_values s) ''pet_mode_active'' = Some (pet_mode_active s)"
  "map_of (as_condition_values s) ''valet_mode_active'' = Some (valet_mode_active s)"
  "map_of (as_condition_values s) ''profile'' = Some (profile s)"
  "map_of (as_condition_values s) ''autopark_state'' = Some (autopark_state s)"
  "map_of (as_condition_values s) ''acc_state'' = Some (acc_state s)"
  "map_of (as_condition_values s) ''hand_off_wheel_duration_seconds'' =
     Some (hand_off_wheel_duration_seconds s)"
  "map_of (as_condition_values s) ''fog_light'' = Some (fog_light s)"
  "map_of (as_condition_values s) ''hazard_light'' = Some (hazard_light s)"
  "map_of (as_condition_values s) ''lowbeam_mode'' = Some (lowbeam_mode s)"
  "map_of (as_condition_values s) ''esc'' = Some (esc s)"
  "map_of (as_condition_values s) ''door_lock_state'' = Some (door_lock_state s)"
  "map_of (as_condition_values s) ''target_angle'' = None"
  "map_of (as_condition_values s) ''kb_has_feature'' = None"
  by (simp_all add: as_condition_values_def)


text \<open>The verdict of a list of rules, without the bookkeeping of the decision record.\<close>

definition pick_verdict :: "rule list \<Rightarrow> verdict" where
  "pick_verdict ms =
     (if length (remdups (map rl_outcome ms)) > 1 then
        (let winners = filter (\<lambda>r. rule_priority r = top_priority ms) ms
         in if top_priority ms = 0 \<or> length (remdups (map rl_outcome winners)) > 1
            then FailClosed else Verdict (rl_outcome (hd winners)))
      else Verdict (rl_outcome (hd ms)))"

definition run_rules :: "string \<Rightarrow> rule list \<Rightarrow> payload \<Rightarrow> verdict" where
  "run_rules m rules vals =
     (case matching_rules rules vals of
        Inl _ \<Rightarrow> FailClosed
      | Inr ms \<Rightarrow> if ms = [] then (if m = ''monitor'' then NoTrigger else FailClosed)
                  else pick_verdict ms)"

lemma verdict_resolve: "verdict_of (Inr (resolve_matches it m vals ms)) = pick_verdict ms"
  by (simp add: resolve_matches_def pick_verdict_def decide_def fail_def verdict_of_def
      is_fail_closed_def Let_def)

lemma verdict_fail [simp]: "verdict_of (Inr (fail it m code msg vs)) = FailClosed"
  by (simp add: verdict_of_def fail_def is_fail_closed_def)

lemma verdict_exn [simp]: "verdict_of (Inl x) = FailClosed"
  by (simp add: verdict_of_def)

lemma verdict_evaluate:
  assumes "it \<in> rs_intents rs" and "for_intent rs it m \<noteq> []"
    and "merge_params (as_condition_values s) ps = Inr vals"
  shows "verdict_of (evaluate rs it s m ps) = run_rules m (for_intent rs it m) vals"
proof (cases "matching_rules (for_intent rs it m) vals")
  case (Inl x)
  with assms show ?thesis
    by (cases x) (simp_all add: evaluate_def run_rules_def)
next
  case (Inr ms)
  show ?thesis
  proof (cases ms)
    case Nil
    with Inr assms show ?thesis
      by (simp add: evaluate_def run_rules_def Let_def) (simp add: verdict_of_def is_fail_closed_def)
  next
    case (Cons r rs')
    with Inr assms show ?thesis
      by (simp add: evaluate_def run_rules_def verdict_resolve)
  qed
qed

lemma verdict_workbook:
  assumes "for_intent (workbook H) it m \<noteq> []"
    and "merge_params (as_condition_values s) ps = Inr vals"
  shows "verdict_of (evaluate (workbook H) it s m ps) =
         run_rules m (for_intent (workbook H) it m) vals"
proof (rule verdict_evaluate [OF _ assms])
  show "it \<in> rs_intents (workbook H)"
    using assms(1) by (auto simp: workbook_def filter_empty_conv)
qed

text \<open>The environment of a call with request parameters.\<close>

definition call_values :: "vstate \<Rightarrow> bool option \<Rightarrow> rat option \<Rightarrow> payload" where
  "call_values s kb ang =
     (let v1 = (case kb of None \<Rightarrow> as_condition_values s
                | Some b \<Rightarrow> AList.update ''kb_has_feature'' (PBool b) (as_condition_values s))
      in (case ang of None \<Rightarrow> v1 | Some a \<Rightarrow> AList.update ''target_angle'' (PFloat (Fin a)) v1))"

lemma merge_request_params:
  "merge_params (as_condition_values s) (request_params kb ang) = Inr (call_values s kb ang)"
  by (simp add: request_params_def call_values_def CONDITION_VARIABLES_def REQUEST_PARAMS_def
      split: option.splits)

lemma map_of_call_values [simp]:
  "map_of (call_values s kb ang) =
     (map_of (as_condition_values s))
       (''kb_has_feature'' := map_option PBool kb,
        ''target_angle'' := map_option (\<lambda>a. PFloat (Fin a)) ang)"
  by (cases kb; cases ang)
    (auto simp: call_values_def update_conv' fun_eq_iff as_condition_values_def)

lemmas rule_eval_simps =
  run_rules_def pick_verdict_def evaluate_condition_def parse_workbook option_exn_def
  top_priority_def rule_priority_def RULE_PRIORITY_def rule_sels

lemmas rep_simps =
  represents_def abs_simps abs_num_props py_eq_num py_rel_num

text \<open>The rules of every intent, in the order of the workbook.\<close>

lemma for_intent_groups:
  "list_all (\<lambda>(i, g). for_intent (workbook H) i m = filter (\<lambda>r. rl_check_mode r = m) g)
     workbook_groups"
  using map_of_is_SomeI [OF distinct_workbook_groups]
  by (auto simp: list_all_iff for_intent_workbook)

lemmas gate_rules [simp] =
  for_intent_groups [where m = "''gate''",
    unfolded workbook_groups_def list.pred_inject prod.case filter.simps rule_sels,
    simplified]

lemmas monitor_rules [simp] =
  for_intent_groups [where m = "''monitor''",
    unfolded workbook_groups_def list.pred_inject prod.case filter.simps rule_sels,
    simplified]


section \<open>The engine refines the specification\<close>

text \<open>
  One lemma per group of intents.  Each proof finds the rules of the intent in the workbook,
  evaluates their parsed conditions on the represented state and compares with the table.
\<close>

definition gate_refines :: "(pyval \<Rightarrow> string) \<Rightarrow> vstate \<Rightarrow> car \<Rightarrow> bool option \<Rightarrow> rat option
    \<Rightarrow> spec_table \<Rightarrow> bool" where
  "gate_refines H s c kb ang tab \<longleftrightarrow>
     list_all (\<lambda>(it, f).
       verdict_of (evaluate (workbook H) it s ''gate'' (request_params kb ang)) = f c kb ang) tab"

lemma gate_refines_Nil [simp]: "gate_refines H s c kb ang []"
  by (simp add: gate_refines_def)

lemma gate_refines_append [simp]:
  "gate_refines H s c kb ang (t @ u) \<longleftrightarrow> gate_refines H s c kb ang t \<and> gate_refines H s c kb ang u"
  by (simp add: gate_refines_def)

lemma gate_refines_Cons:
  assumes "for_intent (workbook H) it ''gate'' \<noteq> []"
    and "run_rules ''gate'' (for_intent (workbook H) it ''gate'') (call_values s kb ang) =
         f c kb ang"
    and "gate_refines H s c kb ang tab"
  shows "gate_refines H s c kb ang ((it, f) # tab)"
  using assms verdict_workbook [OF assms(1) merge_request_params]
  by (simp add: gate_refines_def)

lemma refines_access:
  assumes "represents s c"
  shows "gate_refines H s c kb ang access_spec"
  unfolding access_spec_def
  using assms
  by (intro gate_refines_Cons gate_refines_Nil; cases "c_rain c")
    (auto simp: rule_eval_simps rep_simps special_mode_def by_light_def
      split: option.splits bool.splits)

lemma refines_cabin:
  assumes "represents s c"
  shows "gate_refines H s c kb ang cabin_spec"
  unfolding cabin_spec_def
  using assms
  by (intro gate_refines_Cons gate_refines_Nil)
    (auto simp: rule_eval_simps rep_simps special_mode_def by_light_def
      split: option.splits bool.splits)

lemma refines_lights:
  assumes "represents s c"
  shows "gate_refines H s c kb ang lights_spec"
  unfolding lights_spec_def
  using assms
  by (intro gate_refines_Cons gate_refines_Nil)
    (auto simp: rule_eval_simps rep_simps special_mode_def by_light_def
      split: option.splits bool.splits)

lemma refines_modes:
  assumes "represents s c"
  shows "gate_refines H s c kb ang modes_spec"
  unfolding modes_spec_def
  using assms
  by (intro gate_refines_Cons gate_refines_Nil; cases "c_battery c"; cases "c_avh c")
    (auto simp: rule_eval_simps rep_simps special_mode_def by_light_def
      split: option.splits bool.splits)

lemma refines_driving:
  assumes "represents s c"
  shows "gate_refines H s c kb ang driving_spec"
  unfolding driving_spec_def
  using assms
  by (intro gate_refines_Cons gate_refines_Nil)
    (auto simp: rule_eval_simps rep_simps special_mode_def by_light_def
      split: option.splits bool.splits)

lemma refines_queries:
  assumes "represents s c"
  shows "gate_refines H s c kb ang queries_spec"
  unfolding queries_spec_def
  using assms
  by (intro gate_refines_Cons gate_refines_Nil; cases "c_battery c"; cases "c_avh c"; cases "c_door_lock c")
    (auto simp: rule_eval_simps rep_simps special_mode_def by_light_def
      split: option.splits bool.splits)

lemma refines_spec_table:
  "represents s c \<Longrightarrow> gate_refines H s c kb ang spec_table"
  by (simp add: spec_table_def refines_access refines_cabin refines_lights refines_modes
      refines_driving refines_queries)

lemma spec_table_complete:
  "it \<in> set workbook_intents \<Longrightarrow> it \<in> fst ` set spec_table"
proof -
  have "list_all (\<lambda>i. i \<in> set (map fst spec_table)) workbook_intents"
    by code_simp
  then show "it \<in> set workbook_intents \<Longrightarrow> it \<in> fst ` set spec_table"
    by (simp add: list_all_iff)
qed

lemma engine_refines_policy_spec':
  assumes "represents s c"
  shows "verdict_of (evaluate (workbook H) it s ''gate'' (request_params kb ang)) =
         policy_spec it c kb ang"
proof (cases "map_of spec_table it")
  case None
  then have "it \<notin> rs_intents (workbook H)"
    using spec_table_complete [of it] by (auto simp: intents_workbook map_of_eq_None_iff)
  with None show ?thesis by (simp add: evaluate_def policy_spec_def)
next
  case (Some f)
  then have "(it, f) \<in> set spec_table" by (rule map_of_SomeD)
  with refines_spec_table [OF assms, of H kb ang] Some show ?thesis
    by (auto simp: gate_refines_def list_all_iff policy_spec_def)
qed

text \<open>C1. For every vehicle state that represents a typed car, every intent and every
  combination of the request parameters, the policy engine run on the committed workbook gives
  exactly the verdict of the specification; intents outside the catalogue fail closed.\<close>

theorem engine_refines_policy_spec:
  assumes "represents s c"
  shows "verdict_of (evaluate (workbook H) it s ''gate'' (request_params kb ang)) =
         policy_spec it c kb ang"
  using assms by (rule engine_refines_policy_spec')

text \<open>The state and the car of the witnesses: the parked default.\<close>

definition parked_car :: car where
  "parked_car =
    \<lparr>c_gear = ''P'', c_speed = 0, c_rain = Some False, c_ambient = ''day'',
     c_battery = Some 100, c_avh = Some True, c_epb = True, c_camp = False, c_pet = False,
     c_valet = False, c_profile = ''OWNER'', c_autopark = ''INACTIVE'', c_acc = ''INACTIVE'',
     c_hands_off = 0, c_fog = False, c_hazard = False, c_lowbeam = ''Off'', c_esc = True,
     c_door_lock = Some ''locked''\<rparr>"

lemma represents_default: "represents VehicleState_default parked_car"
  by (simp add: represents_def VehicleState_default_def parked_car_def)

theorem engine_refines_policy_spec_witness:
  "verdict_of (evaluate (workbook (\<lambda>_. [])) ''open_door'' VehicleState_default ''gate'' []) =
   Verdict ''ALLOW''"
  using engine_refines_policy_spec
    [OF represents_default, of "\<lambda>_. []" "''open_door''" None None]
  by (simp add: policy_spec_def spec_table_def access_spec_def parked_car_def request_params_def)

section \<open>Monitoring\<close>

lemma monitor_refines_table:
  assumes "represents s c"
  shows "list_all (\<lambda>(it, f). for_intent (workbook H) it ''monitor'' \<noteq> [] \<and>
      run_rules ''monitor'' (for_intent (workbook H) it ''monitor'') (as_condition_values s) = f c)
    monitor_spec_table"
  using assms
  by (cases "c_battery c")
    (auto simp: monitor_spec_table_def rule_eval_simps rep_simps split: bool.splits)

lemma monitor_table_complete:
  "for_intent (workbook H) it ''monitor'' \<noteq> [] \<Longrightarrow> it \<in> fst ` set monitor_spec_table"
proof -
  assume a: "for_intent (workbook H) it ''monitor'' \<noteq> []"
  have "list_all (\<lambda>(i, g). filter (\<lambda>r. rl_check_mode r = ''monitor'') g = [] \<or>
      i \<in> set (map fst monitor_spec_table)) workbook_groups"
    by code_simp
  with a show ?thesis
    by (fastforce simp: for_intent_workbook list_all_iff dest: map_of_SomeD split: option.splits)
qed

text \<open>The monitor verdict on every represented state is the one of the monitor
  specification: a stop of the running action, no trigger, or fail closed for an intent that
  has no monitor rule.\<close>

theorem engine_refines_monitor_spec:
  assumes "represents s c"
  shows "verdict_of (evaluate (workbook H) it s ''monitor'' []) = monitor_spec it c"
proof (cases "map_of monitor_spec_table it")
  case None
  then have "for_intent (workbook H) it ''monitor'' = []"
    using monitor_table_complete [of H it] by (auto simp: map_of_eq_None_iff)
  with None show ?thesis by (simp add: evaluate_def monitor_spec_def)
next
  case (Some f)
  then have "(it, f) \<in> set monitor_spec_table" by (rule map_of_SomeD)
  with monitor_refines_table [OF assms, of H]
  have "for_intent (workbook H) it ''monitor'' \<noteq> []"
    "run_rules ''monitor'' (for_intent (workbook H) it ''monitor'') (as_condition_values s) = f c"
    by (auto simp: list_all_iff)
  with Some verdict_workbook [of H it "''monitor''" s "[]"] show ?thesis
    by (simp add: monitor_spec_def)
qed

theorem engine_refines_monitor_spec_witness:
  "verdict_of (evaluate (workbook (\<lambda>_. [])) ''activate_petmode'' VehicleState_default
     ''monitor'' []) = NoTrigger"
  using engine_refines_monitor_spec
    [OF represents_default, of "\<lambda>_. []" "''activate_petmode''"]
  by (simp add: monitor_spec_def monitor_spec_table_def parked_car_def)

section \<open>Completeness of the policy\<close>

text \<open>All sensors that may be absent are present, and the light sensor reads day or night.\<close>

definition sensors_known :: "car \<Rightarrow> bool" where
  "sensors_known c \<longleftrightarrow> c_rain c \<noteq> None \<and> c_battery c \<noteq> None \<and> c_ambient c \<in> {''day'', ''night''}"

text \<open>The verdict is one of the seven outcomes.\<close>

fun decided :: "verdict \<Rightarrow> bool" where
  "decided (Verdict out) = (out \<in> set OUTCOMES)"
| "decided _ = False"

lemma decided_outcomes:
  "decided (Verdict ''ALLOW'')" "decided (Verdict ''BLOCK_UNSAFE'')"
  "decided (Verdict ''BLOCK_UNAVAILABLE'')" "decided (Verdict ''CONFIRM'')"
  "decided (Verdict ''NOT_VOICE_ACTIONABLE'')" "decided (Verdict ''ANSWER'')"
  "decided (Verdict ''UNKNOWN'')"
  by (simp_all add: OUTCOMES_def)

lemma decided_if:
  "decided (Verdict (if b then x else y)) = (if b then decided (Verdict x) else decided (Verdict y))"
  "decided (if b then u else v) = (if b then decided u else decided v)"
  by simp_all

definition needs_parameter :: "string \<Rightarrow> bool option \<Rightarrow> rat option \<Rightarrow> bool" where
  "needs_parameter it kb ang \<longleftrightarrow>
     it \<in> {''ad_driverseat_angle'', ''restore_driverseat_pos''} \<and> ang = None \<or>
     it = ''explain_feature'' \<and> kb = None"

definition group_decides :: "car \<Rightarrow> bool option \<Rightarrow> rat option \<Rightarrow> spec_table \<Rightarrow> bool" where
  "group_decides c kb ang tab \<longleftrightarrow>
     list_all (\<lambda>(it, f). needs_parameter it kb ang \<or> decided (f c kb ang)) tab"

lemma group_decides_append [simp]:
  "group_decides c kb ang (t @ u) \<longleftrightarrow> group_decides c kb ang t \<and> group_decides c kb ang u"
  by (simp add: group_decides_def)

lemmas decide_simps =
  group_decides_def decided_outcomes decided_if by_light_def needs_parameter_def

lemma spec_table_decides:
  assumes "sensors_known c"
  shows "group_decides c kb ang spec_table"
proof -
  from assms obtain r b where known: "c_rain c = Some r" "c_battery c = Some b"
    "c_ambient c = ''day'' \<or> c_ambient c = ''night''"
    by (auto simp: sensors_known_def)
  have "group_decides c kb ang access_spec"
    by (simp add: access_spec_def decide_simps del: decided.simps)
  moreover have "group_decides c kb ang cabin_spec"
    using known(1) by (cases r; simp add: cabin_spec_def decide_simps split: option.split del: decided.simps)
  moreover have "group_decides c kb ang lights_spec"
    using known(3) by (elim disjE; simp add: lights_spec_def decide_simps del: decided.simps)
  moreover have "group_decides c kb ang modes_spec"
    using known(2) by (simp add: modes_spec_def decide_simps del: decided.simps)
  moreover have "group_decides c kb ang driving_spec"
    by (simp add: driving_spec_def decide_simps del: decided.simps)
  moreover have "group_decides c kb ang queries_spec"
    by (simp add: queries_spec_def decide_simps split: option.split del: decided.simps)
  ultimately show ?thesis
    by (simp add: spec_table_def)
qed

text \<open>With the sensors known, every intent of the catalogue gets exactly one of the
  seven outcomes, except where the intent's own request parameter is missing: the workbook has
  no gap and no unresolved conflict on such states.\<close>

theorem policy_complete:
  assumes "represents s c" and "sensors_known c" and "it \<in> rs_intents (workbook H)"
    and "\<not> needs_parameter it kb ang"
  shows "decided (verdict_of (evaluate (workbook H) it s ''gate'' (request_params kb ang)))"
proof -
  from assms(3) obtain f where f: "map_of spec_table it = Some f"
    using spec_table_complete [of it]
    by (cases "map_of spec_table it") (auto simp: intents_workbook map_of_eq_None_iff)
  then have "(it, f) \<in> set spec_table" by (rule map_of_SomeD)
  with spec_table_decides [OF assms(2), of kb ang] assms(4) have "decided (f c kb ang)"
    by (auto simp: group_decides_def list_all_iff)
  with f show ?thesis
    by (simp add: engine_refines_policy_spec' [OF assms(1)] policy_spec_def)
qed

theorem policy_complete_witness:
  "decided (verdict_of (evaluate (workbook (\<lambda>_. [])) ''AD_WIPER_MAX'' VehicleState_default
     ''gate'' (request_params None None)))"
proof (rule policy_complete [OF represents_default])
  show "sensors_known parked_car" by (simp add: sensors_known_def parked_car_def)
  show "''AD_WIPER_MAX'' \<in> rs_intents (workbook (\<lambda>_. []))"
    unfolding intents_workbook by code_simp
  show "\<not> needs_parameter ''AD_WIPER_MAX'' None None" by (simp add: needs_parameter_def)
qed

text \<open>The two seat intents whose rules read \<open>target_angle\<close> fail closed on every
  vehicle state when the request carries no angle, even in a stationary car: the evaluator
  evaluates every operand of a conjunction, so the missing variable is an error.\<close>

theorem seat_intents_need_angle:
  "verdict_of (evaluate (workbook H) ''ad_driverseat_angle'' s ''gate'' (request_params kb None)) =
     FailClosed \<and>
   verdict_of (evaluate (workbook H) ''restore_driverseat_pos'' s ''gate'' (request_params kb None)) =
     FailClosed"
  by (simp add: verdict_workbook [OF _ merge_request_params] rule_eval_simps)

end
