(* ===== verification/ServiceRuns.thy ===== *)
theory ServiceRuns
  imports ServiceSafety PolicySpec
begin

text \<open>
  The guardrail over a lifetime: requests of every kind and changes of the vehicle state in
  any order, from a fresh service.  The properties of the service stand here.
\<close>

datatype guardrail_event = Request string pyval | Drive store_op

fun guardrail_step :: "platform \<Rightarrow> guardrail_event \<Rightarrow> service \<Rightarrow> service" where
  "guardrail_step pf (Request path body) sv = snd (handle pf path body sv)"
| "guardrail_step pf (Drive op) sv = sv\<lparr>sv_store := store_step op (sv_store sv)\<rparr>"

inductive reachable :: "platform \<Rightarrow> service \<Rightarrow> bool" for pf where
  fresh: "inj (w_uuids w) \<Longrightarrow> reachable pf (GuardrailService st rules table perf stamps w)"
| step: "reachable pf sv \<Longrightarrow> reachable pf (guardrail_step pf ev sv)"

inductive_simps reachable_iff: "reachable pf sv"

lemma service_inv_fresh: "inj (w_uuids w) \<Longrightarrow> service_inv (GuardrailService st rules table perf stamps w)"
  by (simp add: service_inv_def GuardrailService_def TraceRecorder_def confirmations_inv_init trace_inv_def)

lemma service_inv_step: "service_inv sv \<Longrightarrow> service_inv (guardrail_step pf ev sv)"
  using keeps_handle [of sv pf]
  by (cases ev) (auto simp: keeps_def service_inv_def)

lemma reachable_inv: "reachable pf sv \<Longrightarrow> service_inv sv"
  by (induction rule: reachable.induct) (auto intro: service_inv_fresh service_inv_step)

text \<open>A service for the witnesses: two rules, the default vehicle state, a clock that stands
  still and a digest of zeros.\<close>

definition demo_platform :: platform where
  "demo_platform = plain_platform\<lparr>pf_sha256 := \<lambda>_. replicate 64 CHR ''0''\<rparr>"

definition demo_rules :: ruleset where
  "demo_rules = RuleSet
     [\<lparr>rl_id = ''R1'', rl_intent = ''open_door'', raw_condition = ''TRUE'', rl_check_mode = ''gate'',
       rl_outcome = ''ALLOW'', prepared = ''True''\<rparr>,
      \<lparr>rl_id = ''R2'', rl_intent = ''open_window'', raw_condition = ''TRUE'', rl_check_mode = ''gate'',
       rl_outcome = ''CONFIRM'', prepared = ''True''\<rparr>,
      \<lparr>rl_id = ''R3'', rl_intent = ''activate_campmode'', raw_condition = ''TRUE'', rl_check_mode = ''monitor'',
       rl_outcome = ''BLOCK_UNSAFE'', prepared = ''True''\<rparr>]
     (''sha256:'' @ replicate 64 CHR ''0'')"

definition demo_service :: service where
  "demo_service = GuardrailService \<lparr>st_state = VehicleState_default, st_version = 1\<rparr> demo_rules
     [((''control_access'', ''open'', ''driver_door'', None), ''open_door''),
      ((''control_cabin'', ''open'', ''sunroof'', None), ''open_window'')]
     (\<lambda>_. 0) (\<lambda>_. []) still_world"

definition demo_proposal :: "string \<Rightarrow> string \<Rightarrow> string \<Rightarrow> payload" where
  "demo_proposal tool act tgt =
     [(''contract_version'', PStr ''1.0.0''), (''proposal_id'', PStr ''p1''), (''session_id'', PStr ''s1''),
      (''source_turn_id'', PStr ''t1''), (''tool'', PStr tool),
      (''arguments'', PDict [(''action'', PStr act), (''target'', PStr tgt)]),
      (''model_provider'', PStr ''m''), (''model_id'', PStr ''m1'')]"

lemma demo_reachable: "reachable pf demo_service"
  unfolding demo_service_def by (rule reachable.fresh) (rule inj_still_world)

text \<open>C3. Every permit is authorised.  Whatever JSON arrives on whatever route, in whatever
  state: an answer that carries a permit has status 200 and outcome ALLOW, and the permit is one
  the specification grants - on the action route the engine allowed the mapped intent on the
  current vehicle state and the permit is bound to the digest of this proposal, the rule, the
  state version and the policy; on the confirmation route a live token of this session was
  redeemed in time and the fresh re-evaluation still allows the intent; on the monitor route no
  stop rule holds.\<close>

theorem permit_authorised:
  assumes "handle pf path (PDict p) sv = ((st, b), sv')" and "map_of b ''permit'' = Some v"
  shows "st = 200 \<and> map_of b ''outcome'' = Some (PStr ''ALLOW'') \<and> authorised pf sv path p v"
  using permit_authorised' [OF assms] by (simp add: answers_def)

theorem permit_authorised_witness:
  "\<exists>v. map_of (snd (fst (handle demo_platform ACTION_ROUTE
      (PDict (demo_proposal ''control_access'' ''open'' ''driver_door'')) demo_service))) ''permit'' = Some v \<and>
    authorised demo_platform demo_service ACTION_ROUTE
      (demo_proposal ''control_access'' ''open'' ''driver_door'') v"
proof -
  let ?r = "handle demo_platform ACTION_ROUTE
    (PDict (demo_proposal ''control_access'' ''open'' ''driver_door'')) demo_service"
  have "map_of (snd (fst ?r)) ''permit'' \<noteq> None" by code_simp
  then obtain v where v: "map_of (snd (fst ?r)) ''permit'' = Some v" by blast
  have "?r = ((fst (fst ?r), snd (fst ?r)), snd ?r)" by simp
  from permit_authorised [OF this v] v show ?thesis by blast
qed

text \<open>C4. In every state the guardrail reaches, by any requests and any changes of the
  vehicle state: no pending confirmation was ever consumed, every identifier was issued, each
  active action is one of the monitored intents under its own identifier, and the trace holds at
  most as many requests as its capacity.\<close>

theorem reachable_service_inv:
  assumes "reachable pf sv"
  shows "confirmations_inv (sv_confirmations sv) (sv_world sv) \<and> registry_inv (sv_actions sv) \<and>
    trace_inv (sv_trace sv)"
  using reachable_inv [OF assms] by (simp add: service_inv_def)

theorem reachable_service_inv_witness:
  "registry_inv (sv_actions (guardrail_step demo_platform
     (Request ACTION_ROUTE (PDict (demo_proposal ''control_access'' ''open'' ''driver_door''))) demo_service))"
  using reachable_service_inv [OF reachable.step [OF demo_reachable]] by blast

text \<open>A request of any kind, accepted or refused, leaves the vehicle state, its version,
  the policy and the mapping table as they were: the guardrail decides about the vehicle and
  never drives it.\<close>

theorem requests_do_not_drive:
  "sv_store (snd (handle pf path body sv)) = sv_store sv \<and>
   sv_rules (snd (handle pf path body sv)) = sv_rules sv \<and>
   sv_table (snd (handle pf path body sv)) = sv_table sv"
  using keeps_handle [of sv pf path body] by (simp add: keeps_def)

section \<open>Confirmations are redeemed once\<close>

lemma confirm_taken:
  assumes "as_id (get_or_None p ''confirmation_id'') = Some cid"
    and "as_id (get_or_None p ''session_id'') = Some sid" and "as_id (get_or_None p ''request_id'') = Some x"
    and "consume cid sid (sv_confirmations sv) (sv_world sv) = (Consumed r, cs, w)"
  shows "evolves (sv\<lparr>sv_confirmations := cs, sv_world := w\<rparr>) (snd (confirm pf p rid sv))"
  unfolding confirm_def assms option.case prod.case consumed.case Let_def case_prod_beta fst_conv snd_conv
  by (intro evolves_intros)

lemma confirm_200:
  assumes "fst (confirm pf p rid sv) = Inr (200, b)" and "map_of p ''confirmation_id'' = Some (PStr cid)"
  shows "cid \<in> set (cs_consumed (sv_confirmations (snd (confirm pf p rid sv))))"
proof -
  from assms(1) obtain c sid x where ids: "as_id (get_or_None p ''confirmation_id'') = Some c"
    "as_id (get_or_None p ''session_id'') = Some sid" "as_id (get_or_None p ''request_id'') = Some x"
    by (auto simp: confirm_def split: option.splits)
  have "c = cid" using as_id_Some [OF ids(1)] assms(2) by simp
  obtain res cs w where c: "consume cid sid (sv_confirmations sv) (sv_world sv) = (res, cs, w)"
    by (metis prod_cases3)
  from assms(1) ids c \<open>c = cid\<close> obtain r where "res = Consumed r"
    by (cases res) (simp_all add: confirm_def)
  with c have taken: "consume cid sid (sv_confirmations sv) (sv_world sv) = (Consumed r, cs, w)" by simp
  then have "cid \<in> set (cs_consumed cs)"
    by (cases rule: consume_cases) (auto split: if_split_asm)
  moreover have "evolves (sv\<lparr>sv_confirmations := cs, sv_world := w\<rparr>) (snd (confirm pf p rid sv))"
    using confirm_taken ids taken \<open>c = cid\<close> by blast
  ultimately show ?thesis by (auto simp: evolves_def keeps_def)
qed

lemma confirm_spent:
  assumes "service_inv sv" and "cid \<in> set (cs_consumed (sv_confirmations sv))"
    and "map_of p ''confirmation_id'' = Some (PStr cid)"
  shows "\<exists>st b. fst (confirm pf p rid sv) = Inr (st, b) \<and> st \<in> {400, 409}"
proof -
  have "fst (consume cid sid (sv_confirmations sv) (sv_world sv)) = NotActive" for sid
    using assms by (intro consume_spent) (simp_all add: service_inv_def)
  then show ?thesis
    using assms(3)
    by (auto simp: confirm_def get_or_None_def Let_def case_prod_beta split: option.split if_splits)
qed

lemma consumed_run:
  "set (cs_consumed (sv_confirmations sv)) \<subseteq> set (cs_consumed (sv_confirmations (fold (guardrail_step pf) evs sv)))"
proof (induction evs arbitrary: sv)
  case (Cons ev evs)
  have "set (cs_consumed (sv_confirmations sv)) \<subseteq> set (cs_consumed (sv_confirmations (guardrail_step pf ev sv)))"
    using keeps_handle [of sv pf] by (cases ev) (auto simp: keeps_def)
  with Cons [of "guardrail_step pf ev sv"] show ?case by auto
qed simp

lemma service_inv_run: "service_inv sv \<Longrightarrow> service_inv (fold (guardrail_step pf) evs sv)"
  by (induction evs arbitrary: sv) (auto intro: service_inv_step)

lemma dispatch_confirm:
  "dispatch pf CONFIRM_ROUTE p rid sv = confirm pf p rid sv \<or>
   (\<exists>b. fst (dispatch pf CONFIRM_ROUTE p rid sv) = Inr (409, b))"
  by (auto simp: dispatch_def require_contract_version_def Let_def)

text \<open>C5. A confirmation is redeemed at most once over the life of the service: after a
  confirmation request that was answered with a decision, and after any further requests and
  drives, every request with the same confirmation identifier, from any session, is refused with
  status 400 or 409.\<close>

theorem confirmation_redeemed_once:
  assumes "reachable pf sv" and "handle pf CONFIRM_ROUTE (PDict p) sv = ((200, b), sv1)"
    and "map_of p ''confirmation_id'' = Some (PStr cid)"
    and "map_of p2 ''confirmation_id'' = Some (PStr cid)"
  shows "fst (fst (handle pf CONFIRM_ROUTE (PDict p2) (fold (guardrail_step pf) evs sv1))) \<in> {400, 409}"
proof -
  let ?rid = "request_id_of p" and ?sv0 = "begin_sv CONFIRM_ROUTE p sv"
  from assms(2) have r: "response_of ?rid (fst (dispatch pf CONFIRM_ROUTE p ?rid ?sv0)) = (200, b)"
    and sv1: "sv_confirmations sv1 = sv_confirmations (snd (dispatch pf CONFIRM_ROUTE p ?rid ?sv0))"
    by (auto simp: handle_PDict)
  from r have "fst (dispatch pf CONFIRM_ROUTE p ?rid ?sv0) = Inr (200, b)"
    by (auto simp: response_of_def split: sum.splits)
  with dispatch_confirm [of pf p ?rid ?sv0]
  have "dispatch pf CONFIRM_ROUTE p ?rid ?sv0 = confirm pf p ?rid ?sv0"
    "fst (confirm pf p ?rid ?sv0) = Inr (200, b)" by auto
  with sv1 have "cid \<in> set (cs_consumed (sv_confirmations sv1))"
    using confirm_200 [of pf p ?rid ?sv0 b cid] assms(3) by simp
  let ?sv = "fold (guardrail_step pf) evs sv1"
  have spent: "cid \<in> set (cs_consumed (sv_confirmations ?sv))"
    using \<open>cid \<in> _\<close> consumed_run by blast
  have "service_inv sv1"
    using service_inv_step [OF reachable_inv [OF assms(1)], of pf "Request CONFIRM_ROUTE (PDict p)"] assms(2) by simp
  then have "service_inv (begin_sv CONFIRM_ROUTE p2 ?sv)"
    using keeps_begin [of ?sv CONFIRM_ROUTE p2] service_inv_run by (simp add: keeps_def)
  from confirm_spent [OF this, of cid p2 pf "request_id_of p2"] spent assms(4)
    dispatch_confirm [of pf p2 "request_id_of p2" "begin_sv CONFIRM_ROUTE p2 ?sv"]
  have "\<exists>st b. fst (dispatch pf CONFIRM_ROUTE p2 (request_id_of p2) (begin_sv CONFIRM_ROUTE p2 ?sv)) =
      Inr (st, b) \<and> st \<in> {400, 409}" by auto
  then show ?thesis by (auto simp: handle_PDict response_of_def)
qed

theorem confirmation_redeemed_once_witness:
  "fst (fst (handle demo_platform CONFIRM_ROUTE
     (PDict [(''contract_version'', PStr ''1.0.0''), (''request_id'', PStr ''r3''),
             (''confirmation_id'', PStr ''confirm-''), (''session_id'', PStr ''s1'')])
     (snd (handle demo_platform CONFIRM_ROUTE
       (PDict [(''contract_version'', PStr ''1.0.0''), (''request_id'', PStr ''r2''),
               (''confirmation_id'', PStr ''confirm-''), (''session_id'', PStr ''s1'')])
       (snd (handle demo_platform ACTION_ROUTE
         (PDict (demo_proposal ''control_cabin'' ''open'' ''sunroof'')) demo_service)))))) \<in> {400, 409}"
proof -
  let ?p = "\<lambda>r. [(''contract_version'', PStr ''1.0.0''), (''request_id'', PStr r),
               (''confirmation_id'', PStr ''confirm-''), (''session_id'', PStr ''s1'')]"
  let ?sv = "guardrail_step demo_platform (Request ACTION_ROUTE
    (PDict (demo_proposal ''control_cabin'' ''open'' ''sunroof''))) demo_service"
  let ?r = "handle demo_platform CONFIRM_ROUTE (PDict (?p ''r2'')) ?sv"
  have "fst (fst ?r) = 200" by code_simp
  then have "?r = ((200, snd (fst ?r)), snd ?r)" by (simp add: prod_eq_iff)
  from confirmation_redeemed_once [where ?p2.0 = "?p ''r3''" and cid = "''confirm-''" and evs = "[]",
      OF reachable.step [OF demo_reachable] this]
  show ?thesis by simp
qed

section \<open>Monitoring\<close>

lemma sv_actions_frames [simp]:
  "sv_actions (trace_sv rid et st d sv) = sv_actions sv"
  "sv_actions (trace_evaluation rid dc ver sv) = sv_actions sv"
  "sv_actions (release_sv c i sv) = (if c then sv_actions sv else deregister i (sv_actions sv))"
  by (simp_all add: trace_sv_def trace_evaluation_def release_sv_def)

lemma map_of_monitor_outcome:
  "map_of (fst (monitor_decision_envelope pf rid aid it out rl ver chk rc rel dg w)) ''outcome'' =
     Some (PStr out)"
  by (simp add: monitor_decision_envelope_def Let_def case_prod_beta envelope_lookup)

lemma monitor_200:
  assumes "fst (monitor pf p rid sv) = Inr (200, b)"
    and "map_of p ''active_action_id'' = Some (PStr aid)" and "map_of b ''outcome'' = Some (PStr out)"
  shows "sv_actions (snd (monitor pf p rid sv)) =
    (if out = ''ALLOW'' then sv_actions sv else deregister aid (sv_actions sv))"
proof -
  from assms(1) obtain a it x where ids: "as_id (get_or_None p ''active_action_id'') = Some a"
    "as_id (get_or_None p ''intent'') = Some it" "as_id (get_or_None p ''request_id'') = Some x"
    by (auto simp: monitor_def split: option.splits)
  have a: "a = aid" using as_id_Some [OF ids(1)] assms(2) by simp
  note m = assms(1) [unfolded monitor_def ids option.case prod.case]
  from m obtain st where st: "monitor_state (get_or_None p ''vehicle_state'') (sv_store sv) = Inr st"
    by (auto split: sum.splits)
  from m obtain dg where dg: "monitor_request_digest pf p = Inr dg"
    by (cases "monitor_request_digest pf p") (simp_all add: st case_prod_beta Let_def)
  let ?d = "evaluate_closed (sv_rules sv) it (fst st) ''monitor'' []"
  from m have open_: "\<not> is_fail_closed ?d"
    by (auto simp: st dg Let_def case_prod_beta FAIL_CLOSED_STATUS_def)
  from m assms(3) have "out = (case dc_outcome ?d of None \<Rightarrow> ''ALLOW'' | Some out \<Rightarrow> out)"
    by (simp add: st dg open_ Let_def case_prod_beta) (metis map_of_monitor_outcome option.inject pyval.inject(4))
  then have "dc_outcome ?d \<in> {None, Some ''ALLOW''} \<longleftrightarrow> out = ''ALLOW''"
    by (auto split: option.splits)
  then show ?thesis
    unfolding monitor_def ids option.case prod.case
    by (simp add: st dg open_ a Let_def case_prod_beta)
qed

text \<open>A monitor answer and the registry agree: when the answer stops the action, that
  action and no other is deregistered, and the answer carries no permit; when it lets the action
  run, the registry is unchanged.\<close>

theorem monitor_answer_and_registry:
  assumes "handle pf MONITOR_ROUTE (PDict p) sv = ((200, b), sv')"
    and "map_of p ''active_action_id'' = Some (PStr aid)" and "map_of b ''outcome'' = Some (PStr out)"
  shows "sv_actions sv' = (if out = ''ALLOW'' then sv_actions sv else deregister aid (sv_actions sv)) \<and>
    (out \<noteq> ''ALLOW'' \<longrightarrow> map_of b ''permit'' = None)"
proof -
  let ?rid = "request_id_of p" and ?sv0 = "begin_sv MONITOR_ROUTE p sv"
  from assms(1) have r: "response_of ?rid (fst (dispatch pf MONITOR_ROUTE p ?rid ?sv0)) = (200, b)"
    and sv': "sv_actions sv' = sv_actions (snd (dispatch pf MONITOR_ROUTE p ?rid ?sv0))"
    by (auto simp: handle_PDict)
  from r have "fst (dispatch pf MONITOR_ROUTE p ?rid ?sv0) = Inr (200, b)"
    by (auto simp: response_of_def split: sum.splits)
  moreover then have "dispatch pf MONITOR_ROUTE p ?rid ?sv0 = monitor pf p ?rid ?sv0"
    by (auto simp: dispatch_def require_contract_version_def Let_def)
  ultimately have "sv_actions sv' = (if out = ''ALLOW'' then sv_actions sv else deregister aid (sv_actions sv))"
    using monitor_200 [of pf p ?rid ?sv0 b aid out] assms(2,3) sv' by simp
  moreover have "map_of b ''permit'' = None" if "out \<noteq> ''ALLOW''"
    using permit_authorised' [OF assms(1)] assms(3) that
    by (cases "map_of b ''permit''") (auto simp: answers_def)
  ultimately show ?thesis by blast
qed

definition demo_action :: "string \<Rightarrow> active_action" where
  "demo_action i = \<lparr>aa_active_action_id = i, aa_intent = ''activate_campmode'', aa_started_at = 0\<rparr>"

theorem monitor_answer_and_registry_witness:
  "sv_actions (snd (handle demo_platform MONITOR_ROUTE
     (PDict [(''contract_version'', PStr ''1.0.0''), (''request_id'', PStr ''m1''),
             (''active_action_id'', PStr ''a1''), (''intent'', PStr ''activate_campmode'')])
     (demo_service\<lparr>sv_actions := [(''a1'', demo_action ''a1''), (''a2'', demo_action ''a2'')]\<rparr>))) =
   [(''a2'', demo_action ''a2'')]"
proof -
  let ?p = "[(''contract_version'', PStr ''1.0.0''), (''request_id'', PStr ''m1''),
             (''active_action_id'', PStr ''a1''), (''intent'', PStr ''activate_campmode'')]"
  let ?r = "handle demo_platform MONITOR_ROUTE (PDict ?p)
    (demo_service\<lparr>sv_actions := [(''a1'', demo_action ''a1''), (''a2'', demo_action ''a2'')]\<rparr>)"
  have "fst (fst ?r) = 200" by code_simp
  then have r: "?r = ((200, snd (fst ?r)), snd ?r)" by (simp add: prod_eq_iff)
  have "map_of (snd (fst ?r)) ''outcome'' = Some (PStr ''BLOCK_UNSAFE'')" by code_simp
  from monitor_answer_and_registry [OF r _ this, of "''a1''"] show ?thesis
    by (simp add: deregister_def)
qed

section \<open>Tracing\<close>

text \<open>Every request with a JSON object leaves a complete trace: its events begin with
  \<open>guardrail_started\<close> and end with \<open>guardrail_completed\<close> or \<open>guardrail_error\<close>,
  whatever happened in between, exceptions included.\<close>

theorem request_traced:
  assumes "0 < tr_capacity (sv_trace sv)"
  shows "\<exists>mid last. last \<in> {''guardrail_completed'', ''guardrail_error''} \<and>
    types_of (request_id_of p) (sv_trace (snd (handle pf path (PDict p) sv))) =
      Some (Some (PStr ''guardrail_started'') # mid @ [Some (PStr last)])"
  using assms by (rule handle_logs)

theorem request_traced_witness:
  "\<exists>mid last. last \<in> {''guardrail_completed'', ''guardrail_error''} \<and>
    types_of ''r9'' (sv_trace (snd (handle demo_platform ''/nowhere''
        (PDict [(''request_id'', PStr ''r9'')]) demo_service))) =
      Some (Some (PStr ''guardrail_started'') # mid @ [Some (PStr last)])"
  using request_traced [of demo_service "[(''request_id'', PStr ''r9'')]" demo_platform "''/nowhere''"]
  by (simp add: demo_service_def GuardrailService_def TraceRecorder_def request_id_of_def
      get_or_None_def str_or_def)

section \<open>The service and the policy\<close>

lemma decided_allow:
  assumes "gate_decision sv it ps d" and "dc_outcome d = Some out"
  shows "verdict_of (evaluate (sv_rules sv) it (st_state (sv_store sv)) ''gate'' ps) = Verdict out"
  using assms by (simp add: gate_decision_def verdict_of_def is_fail_closed_def)

lemma decision_envelope_allow:
  assumes "rl \<noteq> []" and "is_digest chk" and "proposal_digest pf p = Inr dg"
  shows "\<exists>b w' v. decision_envelope pf rid p it ''ALLOW'' rl ver chk rc rel ans conf w = (Inr b, w') \<and>
    map_of b ''permit'' = Some v"
proof -
  have "''ALLOW'' \<in> set WIRE_OUTCOMES" by (simp add: WIRE_OUTCOMES_def)
  with assms show ?thesis
    by (simp add: decision_envelope_def permit_def Let_def case_prod_beta envelope_lookup
        flip: answer_field_def)
qed

lemma sv_world_frames [simp]:
  "sv_world (trace_sv rid et st d sv) = sv_world sv"
  "sv_world (trace_evaluation rid dc ver sv) = sv_world sv"
  "sv_table (trace_sv rid et st d sv) = sv_table sv"
  by (simp_all add: trace_sv_def trace_evaluation_def)

lemma evaluate_closed_Inr: "evaluate rs it s m ps = Inr d \<Longrightarrow> evaluate_closed rs it s m ps = d"
  by (simp add: evaluate_closed_def)

lemma action_permit_complete:
  assumes "validate_action_proposal pf p = None" and "map_of p ''arguments'' = Some (PDict args)"
    and "resolve (sv_table sv) (get_or_None p ''tool'') (PDict args) = Inr it"
    and "gate_decision sv it (request_params_for it args) d" and "dc_outcome d = Some ''ALLOW''"
    and "dc_rule_id d = Some rl" and "rl \<noteq> []" and "proposal_digest pf p = Inr dg"
    and "is_digest (rs_policy_checksum (sv_rules sv))"
  shows "\<exists>b v. fst (handle pf ACTION_ROUTE (PDict p) sv) = (200, b) \<and> map_of b ''permit'' = Some v"
proof -
  let ?rid = "request_id_of p" and ?sv = "begin_sv ACTION_ROUTE p sv"
  have d: "evaluate_closed (sv_rules sv) it (st_state (sv_store sv)) ''gate'' (request_params_for it args) = d"
    "\<not> is_fail_closed d" "dc_intent d = it"
    using assms(4) by (auto simp: gate_decision_def is_fail_closed_def evaluate_closed_Inr dest: evaluate_intent)
  have ga: "get_or_None p ''arguments'' = PDict args" by (simp add: get_or_None_def assms(2))
  have "require_contract_version pf p = None"
    using assms(1) by (simp add: validate_action_proposal_def split: option.splits)
  then have "dispatch pf ACTION_ROUTE p ?rid ?sv = evaluate_action pf p ?rid ?sv"
    by (simp add: dispatch_def)
  moreover have "\<exists>b v. fst (evaluate_action pf p ?rid ?sv) = Inr (200, b) \<and> map_of b ''permit'' = Some v"
  proof -
    let ?env = "\<lambda>w. decision_envelope pf [] p it ''ALLOW'' rl (st_version (sv_store sv))
      (rs_policy_checksum (sv_rules sv)) (dc_reason_code d) (dc_relevant_state d)
      (shape_answer it (Some ''ALLOW'') (st_state (sv_store sv)) args (dc_relevant_state d)) None w"
    obtain b v w where "?env (sv_world sv) = (Inr b, w)" "map_of b ''permit'' = Some v"
      using decision_envelope_allow [OF assms(7,9,8)] by blast
    then show ?thesis
      unfolding evaluate_action_def assms(1) option.case
      by (simp add: ga assms(3,5,6,7) d snapshot_def Let_def case_prod_beta decide_body_def str_or_def)
  qed
  ultimately show ?thesis by (auto simp: handle_PDict response_of_def)
qed

text \<open>C6. An allowed action is not withheld: when the proposal is valid, its call maps to an
  intent, the engine's gate decision on the current vehicle state is ALLOW, and the proposal can be
  digested, the answer is 200 with a permit, whatever confirmations are pending, whatever actions
  run and whatever the trace holds.\<close>

theorem allowed_action_gets_permit:
  assumes "validate_action_proposal pf p = None" and "map_of p ''arguments'' = Some (PDict args)"
    and "resolve (sv_table sv) (get_or_None p ''tool'') (PDict args) = Inr it"
    and "gate_decision sv it (request_params_for it args) d" and "dc_outcome d = Some ''ALLOW''"
    and "dc_rule_id d = Some rl" and "rl \<noteq> []" and "proposal_digest pf p = Inr dg"
    and "is_digest (rs_policy_checksum (sv_rules sv))"
  shows "\<exists>b v. fst (handle pf ACTION_ROUTE (PDict p) sv) = (200, b) \<and> map_of b ''permit'' = Some v"
  using assms by (rule action_permit_complete)

text \<open>The guardrail as deployed: the committed workbook and the reviewed table, here on a
  parked car.\<close>

definition workbook_service :: service where
  "workbook_service =
     demo_service\<lparr>sv_rules := workbook (\<lambda>_. replicate 64 CHR ''0''), sv_table := TABLE\<rparr>"

definition door_proposal :: payload where
  "door_proposal = demo_proposal ''control_access'' ''open'' ''driver_door''"

lemma open_door_parked:
  "evaluate (workbook H) ''open_door'' VehicleState_default ''gate'' [] =
     Inr (decide ''open_door'' ''gate'' (as_condition_values VehicleState_default) [R001] R001 [])"
proof -
  have "''open_door'' \<in> set workbook_intents" by code_simp
  then have "''open_door'' \<in> rs_intents (workbook H)" by (simp only: intents_workbook)
  then show ?thesis
    by (simp add: evaluate_def rule_eval_simps resolve_matches_def VehicleState_default_def)
qed

lemma door_proposal_facts:
  "validate_action_proposal demo_platform door_proposal = None"
  "map_of door_proposal ''arguments'' = Some (PDict [(''action'', PStr ''open''), (''target'', PStr ''driver_door'')])"
  "proposal_digest demo_platform door_proposal = Inr (''sha256:'' @ replicate 64 CHR ''0'')"
  "get_or_None door_proposal ''tool'' = PStr ''control_access''"
  "resolve TABLE (PStr ''control_access'')
     (PDict [(''action'', PStr ''open''), (''target'', PStr ''driver_door'')]) = Inr ''open_door''"
  by code_simp+

lemma workbook_service_sel [simp]:
  "sv_rules workbook_service = workbook (\<lambda>_. replicate 64 CHR ''0'')" "sv_table workbook_service = TABLE"
  "sv_store workbook_service = \<lparr>st_state = VehicleState_default, st_version = 1\<rparr>"
  by (simp_all add: workbook_service_def demo_service_def GuardrailService_def)

lemma workbook_checksum: "is_digest (rs_policy_checksum (workbook (\<lambda>_. replicate 64 CHR ''0'')))"
  by (simp add: workbook_def rules_checksum_def is_digest_def list_all_iff)

lemma door_gate:
  "gate_decision workbook_service ''open_door'' (request_params_for ''open_door'' args)
     (decide ''open_door'' ''gate'' (as_condition_values VehicleState_default) [R001] R001 [])"
proof -
  have "request_params_for ''open_door'' args = []" by (simp add: request_params_for_def)
  then show ?thesis by (simp add: gate_decision_def open_door_parked) (simp add: decide_def)
qed

lemma door_decision:
  "dc_outcome (decide ''open_door'' ''gate'' vals [R001] R001 []) = Some ''ALLOW''"
  "dc_rule_id (decide ''open_door'' ''gate'' vals [R001] R001 []) = Some ''R001''"
  by (simp_all add: decide_def rule_sels)

lemmas door_request = door_proposal_facts(1,2)
  door_proposal_facts(5) [folded workbook_service_sel(2) door_proposal_facts(4)]
  door_gate door_decision list.distinct(2) door_proposal_facts(3)
  workbook_checksum [folded workbook_service_sel(1)]

lemma door_permit:
  "\<exists>b v. fst (handle demo_platform ACTION_ROUTE (PDict door_proposal) workbook_service) = (200, b) \<and>
    map_of b ''permit'' = Some v"
  by (rule action_permit_complete [OF door_request])

theorem allowed_action_gets_permit_witness:
  "\<exists>b v. fst (handle demo_platform ACTION_ROUTE (PDict door_proposal) workbook_service) = (200, b) \<and>
    map_of b ''permit'' = Some v"
  by (rule allowed_action_gets_permit [OF door_request])

text \<open>C7. The service implements the policy end to end: when it runs the committed workbook and
  the reviewed table, a permit on the action route means that the call maps to an intent for
  which the policy specification says ALLOW on the car the guardrail's vehicle state represents.\<close>

theorem action_permit_meets_policy:
  assumes "handle pf ACTION_ROUTE (PDict p) sv = ((st, b), sv')" and "map_of b ''permit'' = Some v"
    and "sv_rules sv = workbook H" and "sv_table sv = TABLE"
    and "represents (st_state (sv_store sv)) c"
  shows "\<exists>it args. map_of p ''arguments'' = Some (PDict args) \<and>
    resolve TABLE (get_or_None p ''tool'') (PDict args) = Inr it \<and>
    policy_spec it c (if it = ''explain_feature'' then Some (kb_has_feature args) else None) None =
      Verdict ''ALLOW''"
proof -
  from permit_authorised' [OF assms(1,2)] have "authorised pf sv ACTION_ROUTE p v"
    by (simp add: answers_def)
  then obtain args it d where 1: "map_of p ''arguments'' = Some (PDict args)"
    "resolve (sv_table sv) (get_or_None p ''tool'') (PDict args) = Inr it"
    "gate_decision sv it (request_params_for it args) d" "dc_outcome d = Some ''ALLOW''"
    by (auto elim!: authorised_actionE)
  let ?kb = "if it = ''explain_feature'' then Some (kb_has_feature args) else None"
  have "request_params_for it args = request_params ?kb None"
    by (simp add: request_params_for_def request_params_def)
  with decided_allow [OF 1(3,4)] have "policy_spec it c ?kb None = Verdict ''ALLOW''"
    by (simp add: assms(3) engine_refines_policy_spec' [OF assms(5)])
  with 1 assms(4) show ?thesis by auto
qed

theorem action_permit_meets_policy_witness:
  "\<exists>it args. map_of door_proposal ''arguments'' = Some (PDict args) \<and>
    resolve TABLE (get_or_None door_proposal ''tool'') (PDict args) = Inr it \<and>
    policy_spec it parked_car (if it = ''explain_feature'' then Some (kb_has_feature args) else None) None =
      Verdict ''ALLOW''"
proof -
  obtain b v where "fst (handle demo_platform ACTION_ROUTE (PDict door_proposal) workbook_service) = (200, b)"
    and v: "map_of b ''permit'' = Some v"
    using door_permit by blast
  then have "handle demo_platform ACTION_ROUTE (PDict door_proposal) workbook_service =
      ((200, b), snd (handle demo_platform ACTION_ROUTE (PDict door_proposal) workbook_service))"
    by (simp add: prod_eq_iff)
  from action_permit_meets_policy [OF this v, where c = parked_car] represents_default show ?thesis
    by simp
qed

text \<open>The physical access intents.\<close>

definition access_intents :: "string list" where
  "access_intents = [''open_door'', ''open_trunk'', ''open_chargeport'', ''OPEN_BONNET'']"

lemma explain_no_access: "''explain_feature'' \<notin> set access_intents"
  by (simp add: access_intents_def)

lemma verdict_plain:
  assumes "for_intent (workbook H) it ''gate'' \<noteq> []"
  shows "verdict_of (evaluate (workbook H) it s ''gate'' []) =
    run_rules ''gate'' (for_intent (workbook H) it ''gate'') (as_condition_values s)"
  using assms by (rule verdict_workbook) simp

lemma access_verdicts:
  "verdict_of (evaluate (workbook H) ''open_door'' s ''gate'' []) \<in> {Verdict ''ALLOW'', Verdict ''CONFIRM''} \<Longrightarrow>
     py_eq (speed s) (PInt 0)"
  "verdict_of (evaluate (workbook H) ''open_trunk'' s ''gate'' []) \<in> {Verdict ''ALLOW'', Verdict ''CONFIRM''} \<Longrightarrow>
     py_eq (speed s) (PInt 0)"
  "verdict_of (evaluate (workbook H) ''open_chargeport'' s ''gate'' []) \<in> {Verdict ''ALLOW'', Verdict ''CONFIRM''} \<Longrightarrow>
     py_eq (speed s) (PInt 0)"
  "verdict_of (evaluate (workbook H) ''OPEN_BONNET'' s ''gate'' []) \<in> {Verdict ''ALLOW'', Verdict ''CONFIRM''} \<Longrightarrow>
     py_eq (speed s) (PInt 0)"
  by (simp_all add: verdict_plain rule_eval_simps split: if_split_asm option.split_asm)

lemma access_only_stationary:
  assumes "it \<in> set access_intents"
    and "verdict_of (evaluate (workbook H) it s ''gate'' []) \<in> {Verdict ''ALLOW'', Verdict ''CONFIRM''}"
  shows "py_eq (speed s) (PInt 0)"
proof -
  from assms(1) consider "it = ''open_door''" | "it = ''open_trunk''" | "it = ''open_chargeport''" | "it = ''OPEN_BONNET''"
    unfolding access_intents_def by (simp only: list.set insert_iff empty_iff) blast
  then show ?thesis
    by cases (use assms(2) access_verdicts in \<open>simp only:\<close>)+
qed

text \<open>C8. No permit ever opens a moving car: on the action route and after a confirmation,
  with the committed workbook, a permit for a door, the trunk, the charge port or the bonnet means
  that the speed in the guardrail's vehicle state is zero at that moment, whatever values the other
  fields hold, ill-typed ones included.\<close>

theorem access_permit_only_stationary:
  assumes "handle pf path (PDict p) sv = ((st, b), sv')" and "path \<noteq> MONITOR_ROUTE"
    and "map_of b ''permit'' = Some (PDict q)" and "map_of q ''intent'' = Some (PStr it)"
    and "it \<in> set access_intents" and "sv_rules sv = workbook H"
  shows "py_eq (speed (st_state (sv_store sv))) (PInt 0)"
proof -
  from permit_authorised' [OF assms(1,3)] have "authorised pf sv path p (PDict q)"
    by (simp add: answers_def)
  then have "verdict_of (evaluate (workbook H) it (st_state (sv_store sv)) ''gate'' []) \<in>
      {Verdict ''ALLOW'', Verdict ''CONFIRM''}"
  proof cases
    case (action args it' d rl dg pid t)
    from action(2) assms(4) have "it' = it" by (simp add: permit_fields_def)
    moreover have "request_params_for it args = []"
      using explain_no_access assms(5) by (auto simp: request_params_for_def)
    ultimately show ?thesis using decided_allow [OF action(6,7)] assms(6) by simp
  next
    case (confirmed cid sid r d dg pid t)
    from confirmed(2) assms(4) have "pc_intent r = it" by (simp add: permit_fields_def)
    then show ?thesis using decided_allow [OF confirmed(8)] confirmed(9) assms(6) by auto
  qed (use assms(2) in simp)
  with assms(5) show ?thesis by (rule access_only_stationary)
qed

theorem access_permit_only_stationary_witness:
  "py_eq (speed (st_state (sv_store workbook_service))) (PInt 0)"
proof -
  obtain b v where h: "fst (handle demo_platform ACTION_ROUTE (PDict door_proposal) workbook_service) = (200, b)"
    and v: "map_of b ''permit'' = Some v"
    using door_permit by blast
  then have h: "handle demo_platform ACTION_ROUTE (PDict door_proposal) workbook_service =
      ((200, b), snd (handle demo_platform ACTION_ROUTE (PDict door_proposal) workbook_service))"
    by (simp add: prod_eq_iff)
  have "authorised demo_platform workbook_service ACTION_ROUTE door_proposal v"
    using permit_authorised' [OF h v] by (simp add: answers_def)
  then obtain q where "v = PDict q" "map_of q ''intent'' = Some (PStr ''open_door'')"
    using door_proposal_facts by (auto elim!: authorised_actionE simp: permit_fields_def)
  from access_permit_only_stationary [OF h _ v [unfolded this(1)] this(2)]
  show ?thesis by (simp add: access_intents_def)
qed

end
