(* ===== verification/AgentState.thy ===== *)
theory AgentState
  imports Platform
begin

text \<open>
  \<open>vehicle_agent/vehicle/state/model.py\<close> and \<open>presets.py\<close>: the agent's own vehicle
  state.  Each dataclass is a record (its fields under a prefix, as HOL shares their names),
  each enumeration a datatype with its wire value.  What a \<open>__post_init__\<close> rejects is an
  \<open>..._error\<close> function that gives the exception of the first check that fails; an object
  of the class exists only where it is \<open>None\<close>.  The \<open>isinstance\<close> checks of
  enumerations, booleans and groups are the types of the record fields; a number may be any
  Python value and is checked by \<open>finite_range\<close>.  An exception carries its code and not
  its detail text.  The Vietnamese profile names are the bytes of their UTF-8 encoding.
\<close>

section \<open>Exceptions and instants\<close>

datatype state_exn =
    ValidationError string
  | OverflowErr
  | KeyErr string

text \<open>An instant in microseconds since the epoch, with its offset from UTC in seconds
  (\<open>None\<close> for a naive \<open>datetime\<close>).\<close>

record datetime =
  dt_instant :: int
  dt_offset :: "int option"

definition utc :: "int \<Rightarrow> datetime" where
  "utc i = \<lparr>dt_instant = i, dt_offset = Some 0\<rparr>"

text \<open>\<open>s.replace(old, new)\<close> for a non-empty \<open>old\<close>, and the ISO text with
  \<open>"Z"\<close> in place of \<open>"+00:00"\<close>.\<close>

fun replace_str :: "string \<Rightarrow> string \<Rightarrow> string \<Rightarrow> string" where
  "replace_str old new [] = []"
| "replace_str old new (c # cs) =
     (if old \<noteq> [] \<and> take (length old) (c # cs) = old
      then new @ replace_str old new (drop (length old - 1) cs)
      else c # replace_str old new cs)"

definition iso_z :: "platform \<Rightarrow> datetime \<Rightarrow> string" where
  "iso_z pf d = replace_str ''+00:00'' ''Z'' (pf_iso pf (dt_instant d))"

definition check :: "bool \<Rightarrow> string \<Rightarrow> state_exn option" where
  "check ok code = (if ok then None else Some (ValidationError code))"

definition require_aware_datetime :: "datetime \<Rightarrow> state_exn option" where
  "require_aware_datetime d = check (dt_offset d \<noteq> None) ''NAIVE_TIMESTAMP''"

text \<open>\<open>math.isfinite\<close> converts an integer to a float first and raises
  \<open>OverflowError\<close> where the nearest float would be infinite.\<close>

definition float_overflows :: "int \<Rightarrow> bool" where
  "float_overflows i = (2 ^ 1024 - 2 ^ 970 \<le> \<bar>i\<bar>)"

fun in_range :: "rat \<Rightarrow> rat option \<Rightarrow> rat \<Rightarrow> bool" where
  "in_range lo None r = (lo \<le> r)"
| "in_range lo (Some hi) r = (lo \<le> r \<and> r \<le> hi)"

fun finite_range :: "pyval \<Rightarrow> rat \<Rightarrow> rat option \<Rightarrow> state_exn option" where
  "finite_range (PInt i) lo hi =
     (if float_overflows i then Some OverflowErr
      else check (in_range lo hi (of_int i)) ''NUMERIC_FIELD_OUT_OF_RANGE'')"
| "finite_range (PFloat (Fin r)) lo hi = check (in_range lo hi r) ''NUMERIC_FIELD_OUT_OF_RANGE''"
| "finite_range _ _ _ = Some (ValidationError ''INVALID_NUMERIC_FIELD'')"

section \<open>Enumerations\<close>

definition VEHICLE_STATE_SCHEMA_VERSION :: string where
  "VEHICLE_STATE_SCHEMA_VERSION = ''1.0.0''"

definition REQUIRED_DOOR_IDS :: "string list" where
  "REQUIRED_DOOR_IDS =
     [''driver_door'', ''front_passenger_door'', ''rear_left_door'', ''rear_right_door'']"

definition PIP_FIELD_NAMES :: "string list" where
  "PIP_FIELD_NAMES =
     [''speed'', ''gear'', ''epb'', ''battery_pct'', ''acc_state'', ''hand_on_steeringwheel'',
      ''profile'', ''esc'', ''avh'', ''fog_light'', ''hazard_light'', ''highbeam_mode'',
      ''lowbeam_mode'', ''door_lock_state'', ''rain_sensor'', ''ambient_light'',
      ''camp_mode_active'', ''pet_mode_active'', ''valet_mode_active'', ''autopark_state'']"

definition POWER_DEPENDENT_ADAS_INTENTS :: "string list" where
  "POWER_DEPENDENT_ADAS_INTENTS = [''activate_aac'', ''activate_hda'', ''activate_autopark'']"

datatype gear_enum = PARK | REVERSE | NEUTRAL | DRIVE
datatype motion_phase = STOPPED | MOVING
datatype lock_state = LOCKED | UNLOCKED
datatype door_position = DOOR_CLOSED | DOOR_OPEN
datatype light_mode = LIGHT_OFF | LIGHT_ON
datatype acc_enum = ACC_OFF | ACC_STANDBY | ACC_ACTIVE | ACC_CANCELLED | ACC_FAULT
datatype autopark_enum = AUTOPARK_OFF | AUTOPARK_ACTIVE
datatype ambient_enum = DAY | NIGHT
datatype profile_enum = OWNER | GUEST | STRANGER
datatype drive_mode = ECO | NORMAL | SPORT
datatype action_phase = PH_STARTED | PH_PROGRESS | PH_STOPPED | PH_FAILED | PH_COMPLETED
datatype state_source = SRC_PRESET | SRC_SIMULATOR | SRC_OPERATOR | SRC_VEHICLE_HANDLER

fun gear_value :: "gear_enum \<Rightarrow> string" where
  "gear_value PARK = ''P''"
| "gear_value REVERSE = ''R''"
| "gear_value NEUTRAL = ''N''"
| "gear_value DRIVE = ''D''"

fun motion_value :: "motion_phase \<Rightarrow> string" where
  "motion_value STOPPED = ''STOPPED''"
| "motion_value MOVING = ''MOVING''"

fun lock_value :: "lock_state \<Rightarrow> string" where
  "lock_value LOCKED = ''Locked''"
| "lock_value UNLOCKED = ''Unlocked''"

fun light_value :: "light_mode \<Rightarrow> string" where
  "light_value LIGHT_OFF = ''Off''"
| "light_value LIGHT_ON = ''On''"

fun acc_value :: "acc_enum \<Rightarrow> string" where
  "acc_value ACC_OFF = ''OFF''"
| "acc_value ACC_STANDBY = ''STANDBY''"
| "acc_value ACC_ACTIVE = ''ACTIVE''"
| "acc_value ACC_CANCELLED = ''CANCELLED''"
| "acc_value ACC_FAULT = ''FAULT''"

fun autopark_value :: "autopark_enum \<Rightarrow> string" where
  "autopark_value AUTOPARK_OFF = ''OFF''"
| "autopark_value AUTOPARK_ACTIVE = ''ACTIVE''"

fun ambient_value :: "ambient_enum \<Rightarrow> string" where
  "ambient_value DAY = ''day''"
| "ambient_value NIGHT = ''night''"

fun profile_value :: "profile_enum \<Rightarrow> string" where
  "profile_value OWNER = ''Ch'' @ [CHR 0xE1, CHR 0xBB, CHR 0xA7] @ '' xe''"
| "profile_value GUEST = ''Kh'' @ [CHR 0xC3, CHR 0xA1] @ ''ch''"
| "profile_value STRANGER =
     ''Ng'' @ [CHR 0xC6, CHR 0xB0, CHR 0xE1, CHR 0xBB, CHR 0x9D] @ ''i l'' @
     [CHR 0xE1, CHR 0xBA, CHR 0xA1]"

fun phase_value :: "action_phase \<Rightarrow> string" where
  "phase_value PH_STARTED = ''started''"
| "phase_value PH_PROGRESS = ''progress''"
| "phase_value PH_STOPPED = ''stopped''"
| "phase_value PH_FAILED = ''failed''"
| "phase_value PH_COMPLETED = ''completed''"

section \<open>Groups\<close>

record provenance =
  pv_field_name :: string
  pv_source :: state_source
  pv_observed_at :: datetime
  pv_available :: bool

definition provenance_error :: "provenance \<Rightarrow> state_exn option" where
  "provenance_error p =
     first_error
       [check (pv_field_name p \<in> set PIP_FIELD_NAMES) ''INVALID_PROVENANCE_FIELD'',
        require_aware_datetime (pv_observed_at p)]"

text \<open>\<open>pip_provenance\<close>; \<open>unavailable\<close> is a set of names given as a list.\<close>

definition pip_provenance ::
  "state_source \<Rightarrow> datetime \<Rightarrow> string list \<Rightarrow> state_exn + provenance list" where
  "pip_provenance source observed_at unavailable =
     (case first_error
             [require_aware_datetime observed_at,
              check (set unavailable \<subseteq> set PIP_FIELD_NAMES) ''INVALID_PROVENANCE_FIELD''] of
        Some e \<Rightarrow> Inl e
      | None \<Rightarrow>
          Inr (map (\<lambda>f. \<lparr>pv_field_name = f, pv_source = source, pv_observed_at = observed_at,
                         pv_available = f \<notin> set unavailable\<rparr>)
                 (sort PIP_FIELD_NAMES)))"

record power_state =
  pw_powered_on :: bool
  pw_charging :: bool
  pw_battery_pct :: pyval

definition PowerState :: power_state where
  "PowerState = \<lparr>pw_powered_on = False, pw_charging = False, pw_battery_pct = PFloat (Fin 100)\<rparr>"

definition power_error :: "power_state \<Rightarrow> state_exn option" where
  "power_error p = finite_range (pw_battery_pct p) 0 (Some 100)"

record motion_state =
  mo_speed_kph :: pyval
  mo_phase :: motion_phase

definition MotionState :: motion_state where
  "MotionState = \<lparr>mo_speed_kph = PFloat (Fin 0), mo_phase = STOPPED\<rparr>"

text \<open>\<open>speed > 0\<close> and \<open>speed != 0\<close> of a checked number.\<close>

definition positive :: "pyval \<Rightarrow> bool" where
  "positive v = (case num_of v of Some f \<Rightarrow> num_lt (Fin 0) f | None \<Rightarrow> False)"

definition nonzero :: "pyval \<Rightarrow> bool" where
  "nonzero v = (\<not> py_eq v (PInt 0))"

definition expected_phase :: "pyval \<Rightarrow> motion_phase" where
  "expected_phase v = (if positive v then MOVING else STOPPED)"

definition motion_error :: "motion_state \<Rightarrow> state_exn option" where
  "motion_error m =
     first_error
       [finite_range (mo_speed_kph m) 0 None,
        check (mo_phase m = expected_phase (mo_speed_kph m)) ''MOTION_PHASE_MISMATCH'']"

record transmission_state =
  tm_gear :: gear_enum
  tm_epb_engaged :: bool

definition TransmissionState :: transmission_state where
  "TransmissionState = \<lparr>tm_gear = PARK, tm_epb_engaged = True\<rparr>"

record door_state =
  dr_door_id :: string
  dr_position :: door_position
  dr_lock :: lock_state

definition DoorState :: "string \<Rightarrow> door_state" where
  "DoorState i = \<lparr>dr_door_id = i, dr_position = DOOR_CLOSED, dr_lock = LOCKED\<rparr>"

definition door_error :: "door_state \<Rightarrow> state_exn option" where
  "door_error d =
     first_error
       [check (dr_door_id d \<noteq> []) ''INVALID_DOOR_ID'',
        check (\<not> (dr_position d = DOOR_OPEN \<and> dr_lock d = LOCKED)) ''OPEN_DOOR_LOCKED'']"

definition default_doors :: "door_state list" where
  "default_doors = map DoorState (sort REQUIRED_DOOR_IDS)"

record access_state =
  ac_doors :: "door_state list"
  ac_trunk_open :: bool
  ac_bonnet_open :: bool
  ac_charge_port_open :: bool

definition AccessState :: access_state where
  "AccessState = \<lparr>ac_doors = default_doors, ac_trunk_open = False, ac_bonnet_open = False,
     ac_charge_port_open = False\<rparr>"

definition access_error :: "access_state \<Rightarrow> state_exn option" where
  "access_error a =
     (let ids = map dr_door_id (ac_doors a) in
      first_error
        [check (distinct ids) ''DUPLICATE_DOOR'',
         check (set ids = set REQUIRED_DOOR_IDS) ''INVALID_DOOR_COVERAGE''])"

definition door_lock_of :: "access_state \<Rightarrow> lock_state" where
  "door_lock_of a = (if list_all (\<lambda>d. dr_lock d = LOCKED) (ac_doors a) then LOCKED else UNLOCKED)"

record lighting_state =
  li_lowbeam :: light_mode
  li_highbeam :: light_mode
  li_fog_light :: bool
  li_hazard_light :: bool
  li_left_turn_signal :: bool
  li_right_turn_signal :: bool
  li_cornering_light :: bool
  li_interior_light :: bool

definition LightingState :: lighting_state where
  "LightingState = \<lparr>li_lowbeam = LIGHT_OFF, li_highbeam = LIGHT_OFF, li_fog_light = False,
     li_hazard_light = False, li_left_turn_signal = False, li_right_turn_signal = False,
     li_cornering_light = False, li_interior_light = False\<rparr>"

record cabin_state =
  ca_profile :: profile_enum
  ca_driver_seat_position :: pyval
  ca_driver_seat_angle :: pyval
  ca_rear_seat_folded :: bool
  ca_windows_open :: bool
  ca_sunroof_open :: bool
  ca_mirrors_folded :: bool
  ca_hud_active :: bool

definition CabinState :: cabin_state where
  "CabinState = \<lparr>ca_profile = OWNER, ca_driver_seat_position = PFloat (Fin (1 / 2)),
     ca_driver_seat_angle = PFloat (Fin (1 / 2)), ca_rear_seat_folded = False,
     ca_windows_open = False, ca_sunroof_open = False, ca_mirrors_folded = False,
     ca_hud_active = True\<rparr>"

definition cabin_error :: "cabin_state \<Rightarrow> state_exn option" where
  "cabin_error c =
     first_error
       [finite_range (ca_driver_seat_position c) 0 (Some 1),
        finite_range (ca_driver_seat_angle c) 0 (Some 1)]"

record adas_state =
  ad_acc_state :: acc_enum
  ad_hda_active :: bool
  ad_autopark_state :: autopark_enum
  ad_lane_keep_assist_active :: bool
  ad_auto_highbeam_active :: bool
  ad_tcs_active :: bool
  ad_esc_active :: bool
  ad_avh_active :: bool
  ad_hand_on_steeringwheel :: bool

definition AdasState :: adas_state where
  "AdasState = \<lparr>ad_acc_state = ACC_OFF, ad_hda_active = False, ad_autopark_state = AUTOPARK_OFF,
     ad_lane_keep_assist_active = False, ad_auto_highbeam_active = False, ad_tcs_active = True,
     ad_esc_active = True, ad_avh_active = False, ad_hand_on_steeringwheel = True\<rparr>"

definition adas_error :: "adas_state \<Rightarrow> state_exn option" where
  "adas_error a =
     first_error
       [check (\<not> (ad_hda_active a \<and> ad_acc_state a \<noteq> ACC_ACTIVE)) ''HDA_REQUIRES_ACTIVE_ACC'',
        check (\<not> (ad_tcs_active a \<and> \<not> ad_esc_active a)) ''TCS_REQUIRES_ESC'']"

record mode_state =
  md_drive_mode :: drive_mode
  md_creep_mode_active :: bool
  md_camp_mode_active :: bool
  md_pet_mode_active :: bool
  md_valet_mode_active :: bool

definition ModeState :: mode_state where
  "ModeState = \<lparr>md_drive_mode = NORMAL, md_creep_mode_active = False, md_camp_mode_active = False,
     md_pet_mode_active = False, md_valet_mode_active = False\<rparr>"

definition mode_error :: "mode_state \<Rightarrow> state_exn option" where
  "mode_error m =
     (let special_modes = [md_camp_mode_active m, md_pet_mode_active m, md_valet_mode_active m] in
      check (\<not> 1 < sum_list (map of_bool special_modes :: nat list)) ''SPECIAL_MODE_CONFLICT'')"

record environment_state =
  en_rain_sensor :: "bool option"
  en_ambient_light :: ambient_enum
  en_obstacle_detected :: bool
  en_driver_present :: bool
  en_passenger_count :: int

definition EnvironmentState :: environment_state where
  "EnvironmentState = \<lparr>en_rain_sensor = Some False, en_ambient_light = DAY,
     en_obstacle_detected = False, en_driver_present = True, en_passenger_count = 0\<rparr>"

definition environment_error :: "environment_state \<Rightarrow> state_exn option" where
  "environment_error e = check (0 \<le> en_passenger_count e) ''INVALID_PASSENGER_COUNT''"

record ui_state =
  ui_notification_center_open :: bool

definition UiState :: ui_state where
  "UiState = \<lparr>ui_notification_center_open = False\<rparr>"

record vs_action =
  act_action_id :: string
  act_intent :: string
  act_phase :: action_phase
  act_progress :: pyval

definition action_error :: "vs_action \<Rightarrow> state_exn option" where
  "action_error a =
     first_error
       [check (act_action_id a \<noteq> [] \<and> act_intent a \<noteq> []) ''INVALID_ACTIVE_ACTION'',
        finite_range (act_progress a) 0 (Some 1)]"

section \<open>The vehicle state\<close>

record vehicle_state =
  vs_state_version :: int
  vs_timestamp :: datetime
  vs_provenance :: "provenance list"
  vs_power :: power_state
  vs_motion :: motion_state
  vs_transmission :: transmission_state
  vs_access :: access_state
  vs_lighting :: lighting_state
  vs_cabin :: cabin_state
  vs_adas :: adas_state
  vs_modes :: mode_state
  vs_environment :: environment_state
  vs_ui :: ui_state
  vs_active_actions :: "vs_action list"

definition running_adas :: "vehicle_state \<Rightarrow> bool" where
  "running_adas s =
     (ad_acc_state (vs_adas s) = ACC_ACTIVE \<or> ad_hda_active (vs_adas s) \<or>
      ad_autopark_state (vs_adas s) = AUTOPARK_ACTIVE)"

text \<open>\<open>VehicleState.__post_init__\<close>.\<close>

definition vehicle_error :: "vehicle_state \<Rightarrow> state_exn option" where
  "vehicle_error s =
     (let names = map pv_field_name (vs_provenance s);
          action_ids = map act_action_id (vs_active_actions s)
      in first_error
        [check (0 \<le> vs_state_version s) ''INVALID_STATE_VERSION'',
         require_aware_datetime (vs_timestamp s),
         check (distinct names \<and> set names = set PIP_FIELD_NAMES) ''INCOMPLETE_PIP_PROVENANCE'',
         check (\<not> list_ex (\<lambda>p. dt_instant (vs_timestamp s) < dt_instant (pv_observed_at p))
                    (vs_provenance s)) ''FUTURE_FIELD_OBSERVATION'',
         check (\<not> (tm_gear (vs_transmission s) = PARK \<and> nonzero (mo_speed_kph (vs_motion s))))
           ''PARK_REQUIRES_STOPPED'',
         check (\<not> (\<not> pw_powered_on (vs_power s) \<and>
                   (running_adas s \<or>
                    list_ex (\<lambda>a. act_intent a \<in> set POWER_DEPENDENT_ADAS_INTENTS)
                      (vs_active_actions s))))
           ''POWER_OFF_ACTIVE_ADAS'',
         check (distinct action_ids) ''DUPLICATE_ACTIVE_ACTION''])"

text \<open>The checks every object inside a state has passed when it was built.\<close>

definition groups_error :: "vehicle_state \<Rightarrow> state_exn option" where
  "groups_error s =
     first_error
       (map provenance_error (vs_provenance s) @
        [power_error (vs_power s), motion_error (vs_motion s)] @
        map door_error (ac_doors (vs_access s)) @
        [access_error (vs_access s), cabin_error (vs_cabin s), adas_error (vs_adas s),
         mode_error (vs_modes s), environment_error (vs_environment s)] @
        map action_error (vs_active_actions s))"

definition built :: "vehicle_state \<Rightarrow> bool" where
  "built s = (groups_error s = None)"

definition valid_state :: "vehicle_state \<Rightarrow> bool" where
  "valid_state s = (built s \<and> vehicle_error s = None)"

text \<open>\<open>VehicleState(...)\<close> and \<open>replace(state, ...)\<close> on objects that exist.\<close>

definition VehicleState :: "vehicle_state \<Rightarrow> state_exn + vehicle_state" where
  "VehicleState s = (case vehicle_error s of Some e \<Rightarrow> Inl e | None \<Rightarrow> Inr s)"

definition unavailable_fields :: "vehicle_state \<Rightarrow> string list" where
  "unavailable_fields s =
     sort (map pv_field_name (filter (\<lambda>p. \<not> pv_available p) (vs_provenance s)))"

definition pip_values :: "vehicle_state \<Rightarrow> payload" where
  "pip_values s =
     [(''speed'', mo_speed_kph (vs_motion s)),
      (''gear'', PStr (gear_value (tm_gear (vs_transmission s)))),
      (''epb'', PBool (tm_epb_engaged (vs_transmission s))),
      (''battery_pct'', pw_battery_pct (vs_power s)),
      (''acc_state'', PStr (acc_value (ad_acc_state (vs_adas s)))),
      (''hand_on_steeringwheel'', PBool (ad_hand_on_steeringwheel (vs_adas s))),
      (''profile'', PStr (profile_value (ca_profile (vs_cabin s)))),
      (''esc'', PBool (ad_esc_active (vs_adas s))),
      (''avh'', PBool (ad_avh_active (vs_adas s))),
      (''fog_light'', PBool (li_fog_light (vs_lighting s))),
      (''hazard_light'', PBool (li_hazard_light (vs_lighting s))),
      (''highbeam_mode'', PStr (light_value (li_highbeam (vs_lighting s)))),
      (''lowbeam_mode'', PStr (light_value (li_lowbeam (vs_lighting s)))),
      (''door_lock_state'', PStr (lock_value (door_lock_of (vs_access s)))),
      (''rain_sensor'',
        (case en_rain_sensor (vs_environment s) of None \<Rightarrow> PNone | Some b \<Rightarrow> PBool b)),
      (''ambient_light'', PStr (ambient_value (en_ambient_light (vs_environment s)))),
      (''camp_mode_active'', PBool (md_camp_mode_active (vs_modes s))),
      (''pet_mode_active'', PBool (md_pet_mode_active (vs_modes s))),
      (''valet_mode_active'', PBool (md_valet_mode_active (vs_modes s))),
      (''autopark_state'', PStr (autopark_value (ad_autopark_state (vs_adas s))))]"

definition to_authorization_snapshot :: "platform \<Rightarrow> vehicle_state \<Rightarrow> state_exn + payload" where
  "to_authorization_snapshot pf s =
     (if unavailable_fields s \<noteq> [] then Inl (ValidationError ''INCOMPLETE_GUARDRAIL_SNAPSHOT'')
      else Inr
        ([(''schema_version'', PStr VEHICLE_STATE_SCHEMA_VERSION),
          (''state_version'', PInt (vs_state_version s)),
          (''timestamp'', PStr (iso_z pf (vs_timestamp s)))] @ pip_values s))"

section \<open>Presets\<close>

definition preset_base :: vehicle_state where
  "preset_base =
     \<lparr>vs_state_version = 0, vs_timestamp = utc 0, vs_provenance = [], vs_power = PowerState,
      vs_motion = MotionState, vs_transmission = TransmissionState, vs_access = AccessState,
      vs_lighting = LightingState, vs_cabin = CabinState, vs_adas = AdasState,
      vs_modes = ModeState, vs_environment = EnvironmentState, vs_ui = UiState,
      vs_active_actions = []\<rparr>"

definition DEFAULT_VEHICLE_STATE :: vehicle_state where
  "DEFAULT_VEHICLE_STATE =
     preset_base\<lparr>vs_provenance :=
       (case pip_provenance SRC_PRESET (utc 0) [] of Inr ps \<Rightarrow> ps | Inl _ \<Rightarrow> [])\<rparr>"

definition VEHICLE_PRESETS :: "(string \<times> vehicle_state) list" where
  "VEHICLE_PRESETS =
     [(''parked_powered_off'', DEFAULT_VEHICLE_STATE),
      (''parked_ready'',
        DEFAULT_VEHICLE_STATE\<lparr>vs_power := PowerState\<lparr>pw_powered_on := True\<rparr>\<rparr>),
      (''charging'',
        DEFAULT_VEHICLE_STATE\<lparr>vs_power := PowerState\<lparr>pw_powered_on := True, pw_charging := True\<rparr>\<rparr>),
      (''moving_drive'',
        DEFAULT_VEHICLE_STATE
          \<lparr>vs_power := PowerState\<lparr>pw_powered_on := True\<rparr>,
           vs_motion := \<lparr>mo_speed_kph = PFloat (Fin 30), mo_phase = MOVING\<rparr>,
           vs_transmission := \<lparr>tm_gear = DRIVE, tm_epb_engaged = False\<rparr>,
           vs_adas := AdasState\<rparr>)]"

definition get_preset :: "string \<Rightarrow> int \<Rightarrow> datetime \<Rightarrow> state_exn + vehicle_state" where
  "get_preset preset_id state_version timestamp =
     (case map_of VEHICLE_PRESETS preset_id of
        None \<Rightarrow> Inl (KeyErr preset_id)
      | Some preset \<Rightarrow>
          (case pip_provenance SRC_PRESET timestamp [] of
             Inl e \<Rightarrow> Inl e
           | Inr ps \<Rightarrow>
               VehicleState (preset\<lparr>vs_state_version := state_version, vs_timestamp := timestamp,
                                    vs_provenance := ps\<rparr>)))"

section \<open>Facts\<close>

lemma check_simps [simp]: "check True code = None" "check False code = Some (ValidationError code)"
  by (simp_all add: check_def)

lemma check_None_iff [simp]: "check ok code = None \<longleftrightarrow> ok"
  by (simp add: check_def)

lemma aware_None_iff [simp]: "require_aware_datetime d = None \<longleftrightarrow> dt_offset d \<noteq> None"
  by (simp add: require_aware_datetime_def)

lemma VehicleState_Inr [simp]: "VehicleState s = Inr t \<longleftrightarrow> vehicle_error s = None \<and> t = s"
  by (auto simp: VehicleState_def split: option.splits)

lemma set_sorted_fields [simp]: "set (sort PIP_FIELD_NAMES) = set PIP_FIELD_NAMES"
  by simp

lemma distinct_fields: "distinct PIP_FIELD_NAMES"
  by (simp add: PIP_FIELD_NAMES_def)

lemma pip_provenance_Inr:
  "pip_provenance src d un = Inr ps \<longleftrightarrow>
     dt_offset d \<noteq> None \<and> set un \<subseteq> set PIP_FIELD_NAMES \<and>
     ps = map (\<lambda>f. \<lparr>pv_field_name = f, pv_source = src, pv_observed_at = d,
                     pv_available = f \<notin> set un\<rparr>) (sort PIP_FIELD_NAMES)"
  by (auto simp: pip_provenance_def require_aware_datetime_def check_def)

lemma pip_provenance_names:
  "pip_provenance src d un = Inr ps \<Longrightarrow> map pv_field_name ps = sort PIP_FIELD_NAMES"
  by (simp add: pip_provenance_Inr o_def)

lemma pip_provenance_built:
  "pip_provenance src d un = Inr ps \<Longrightarrow> p \<in> set ps \<Longrightarrow> provenance_error p = None"
  by (auto simp: pip_provenance_Inr provenance_error_def)

text \<open>What \<open>replace\<close> of provenance, version and timestamp does to the checks.\<close>

definition stamp :: "int \<Rightarrow> datetime \<Rightarrow> vehicle_state \<Rightarrow> vehicle_state" where
  "stamp n d s =
     s\<lparr>vs_state_version := n, vs_timestamp := d,
       vs_provenance := map (\<lambda>p. p\<lparr>pv_observed_at := d\<rparr>) (vs_provenance s)\<rparr>"

lemma stamp_fields [simp]:
  "vs_state_version (stamp n d s) = n" "vs_timestamp (stamp n d s) = d"
  "vs_power (stamp n d s) = vs_power s" "vs_motion (stamp n d s) = vs_motion s"
  "vs_transmission (stamp n d s) = vs_transmission s" "vs_access (stamp n d s) = vs_access s"
  "vs_lighting (stamp n d s) = vs_lighting s" "vs_cabin (stamp n d s) = vs_cabin s"
  "vs_adas (stamp n d s) = vs_adas s" "vs_modes (stamp n d s) = vs_modes s"
  "vs_environment (stamp n d s) = vs_environment s" "vs_ui (stamp n d s) = vs_ui s"
  "vs_active_actions (stamp n d s) = vs_active_actions s"
  by (simp_all add: stamp_def)

lemma stamp_names [simp]: "map pv_field_name (vs_provenance (stamp n d s)) = map pv_field_name (vs_provenance s)"
  by (simp add: stamp_def)

lemma built_iff:
  "built s \<longleftrightarrow>
     (\<forall>p \<in> set (vs_provenance s). provenance_error p = None) \<and>
     power_error (vs_power s) = None \<and> motion_error (vs_motion s) = None \<and>
     (\<forall>d \<in> set (ac_doors (vs_access s)). door_error d = None) \<and>
     access_error (vs_access s) = None \<and> cabin_error (vs_cabin s) = None \<and>
     adas_error (vs_adas s) = None \<and> mode_error (vs_modes s) = None \<and>
     environment_error (vs_environment s) = None \<and>
     (\<forall>a \<in> set (vs_active_actions s). action_error a = None)"
  unfolding built_def groups_error_def by (simp add: ball_Un) (rule iffI; elim conjE; intro conjI; assumption)

lemma stamp_built: "built s \<Longrightarrow> dt_offset d \<noteq> None \<Longrightarrow> built (stamp n d s)"
  by (simp add: built_iff) (simp add: stamp_def provenance_error_def)

lemma valid_stateD:
  assumes "valid_state s"
  shows "built s" "0 \<le> vs_state_version s" "dt_offset (vs_timestamp s) \<noteq> None"
    "distinct (map pv_field_name (vs_provenance s))"
    "set (map pv_field_name (vs_provenance s)) = set PIP_FIELD_NAMES"
    "distinct (map act_action_id (vs_active_actions s))"
    "tm_gear (vs_transmission s) = PARK \<Longrightarrow> \<not> nonzero (mo_speed_kph (vs_motion s))"
    "running_adas s \<Longrightarrow> pw_powered_on (vs_power s)"
  using assms by (auto simp: valid_state_def vehicle_error_def Let_def)

lemma finite_range_None:
  "finite_range v lo hi = None \<Longrightarrow> \<exists>r. num_of v = Some (Fin r) \<and> in_range lo hi r"
  by (induction v lo hi rule: finite_range.induct) (auto split: if_splits)

lemma built_groups:
  assumes "built s"
  shows "power_error (vs_power s) = None" "motion_error (vs_motion s) = None"
    "\<And>d. d \<in> set (ac_doors (vs_access s)) \<Longrightarrow> door_error d = None"
    "access_error (vs_access s) = None" "cabin_error (vs_cabin s) = None"
    "adas_error (vs_adas s) = None" "mode_error (vs_modes s) = None"
    "environment_error (vs_environment s) = None"
    "\<And>a. a \<in> set (vs_active_actions s) \<Longrightarrow> action_error a = None"
    "\<And>p. p \<in> set (vs_provenance s) \<Longrightarrow> provenance_error p = None"
  using assms by (simp_all add: built_iff)

lemma default_state_valid: "valid_state DEFAULT_VEHICLE_STATE"
  by code_simp

lemma preset_names: "map_of VEHICLE_PRESETS i \<noteq> None \<longleftrightarrow> i \<in> fst ` set VEHICLE_PRESETS"
  by (simp add: map_of_eq_None_iff)

text \<open>Every preset, re-stamped with any version, aware instant and full provenance.\<close>

lemma sorted_fields_distinct: "distinct (sort PIP_FIELD_NAMES)"
  using distinct_fields by simp

definition preset_groups_ok :: "vehicle_state \<Rightarrow> bool" where
  "preset_groups_ok s \<longleftrightarrow> groups_error (s\<lparr>vs_provenance := []\<rparr>) = None \<and>
     \<not> (tm_gear (vs_transmission s) = PARK \<and> nonzero (mo_speed_kph (vs_motion s))) \<and>
     \<not> running_adas s \<and> vs_active_actions s = []"

lemma presets_groups_ok: "list_all (preset_groups_ok \<circ> snd) VEHICLE_PRESETS"
  by code_simp

lemma preset_checks:
  assumes s: "map_of VEHICLE_PRESETS i = Some s" and ps: "pip_provenance SRC_PRESET d [] = Inr ps"
    and n: "0 \<le> n"
  defines "t \<equiv> s\<lparr>vs_state_version := n, vs_timestamp := d, vs_provenance := ps\<rparr>"
  shows "built t" and "vehicle_error t = None"
proof -
  have ok: "preset_groups_ok s"
    using presets_groups_ok map_of_SomeD [OF s] by (auto simp: list_all_iff)
  have names: "map pv_field_name ps = sort PIP_FIELD_NAMES" by (rule pip_provenance_names [OF ps])
  have obs: "pv_observed_at p = d" if "p \<in> set ps" for p
    using that ps by (auto simp: pip_provenance_Inr)
  show "built t"
    using ok pip_provenance_built [OF ps]
    unfolding preset_groups_ok_def built_def [symmetric] by (simp add: built_iff t_def)
  have "set (map pv_field_name ps) = set PIP_FIELD_NAMES" "distinct (map pv_field_name ps)"
    using names sorted_fields_distinct by simp_all
  with ok n obs ps show "vehicle_error t = None"
    by (auto simp: vehicle_error_def Let_def t_def preset_groups_ok_def running_adas_def
        list_ex_iff pip_provenance_Inr)
qed

lemma get_preset_valid:
  "get_preset i n d = Inr s \<Longrightarrow> valid_state s \<and> vs_state_version s = n \<and> vs_timestamp s = d"
  using preset_checks
  by (fastforce simp: get_preset_def valid_state_def vehicle_error_def Let_def
      split: option.splits sum.splits)

lemma get_preset_total:
  assumes "i \<in> fst ` set VEHICLE_PRESETS" "0 \<le> n" "dt_offset d \<noteq> None"
  shows "\<exists>s. get_preset i n d = Inr s"
proof -
  obtain s where s: "map_of VEHICLE_PRESETS i = Some s" using assms(1) preset_names by blast
  obtain ps where ps: "pip_provenance SRC_PRESET d [] = Inr ps"
    using assms(3) by (simp add: pip_provenance_Inr)
  show ?thesis using preset_checks(2) [OF s ps assms(2)] s ps by (auto simp: get_preset_def)
qed

section \<open>Properties\<close>

lemma unavailable_empty: "unavailable_fields s = [] \<longleftrightarrow> (\<forall>p \<in> set (vs_provenance s). pv_available p)"
  unfolding unavailable_fields_def
  by (metis (no_types, lifting) filter_empty_conv length_0_conv length_map length_sort)

lemma open_door_unlocked:
  assumes "door_lock_of (vs_access s) = LOCKED" "built s" "d \<in> set (ac_doors (vs_access s))"
  shows "dr_lock d = LOCKED \<and> dr_position d = DOOR_CLOSED"
proof -
  have "dr_lock d = LOCKED" using assms by (auto simp: door_lock_of_def list_all_iff split: if_splits)
  moreover have "door_error d = None" using built_groups(3) [OF assms(2,3)] .
  ultimately show ?thesis by (cases "dr_position d") (auto simp: door_error_def)
qed

lemma pip_values_keys: "map fst (pip_values s) = PIP_FIELD_NAMES"
  by (simp add: pip_values_def PIP_FIELD_NAMES_def)

lemma lock_value_eq [simp]: "lock_value l = ''Locked'' \<longleftrightarrow> l = LOCKED"
  by (cases l) simp_all

lemma gear_value_eq [simp]: "gear_value g = ''P'' \<longleftrightarrow> g = PARK"
  by (cases g) simp_all

lemma one_special_mode:
  "mode_error m = None \<Longrightarrow>
     \<not> (md_camp_mode_active m \<and> md_pet_mode_active m) \<and>
     \<not> (md_camp_mode_active m \<and> md_valet_mode_active m) \<and>
     \<not> (md_pet_mode_active m \<and> md_valet_mode_active m)"
  by (auto simp: mode_error_def)

text \<open>What the agent sends to an authorizer.  The projection of a valid state fails
  exactly when some policy field is marked unavailable; otherwise it is closed (the schema
  version, the state version, the timestamp and each policy field exactly once) and
  coherent: the speed is a finite number that is not negative, a vehicle in gear P has speed
  0, "Locked" is reported only when every door is closed and locked, and at most one of camp,
  pet and valet mode is on.\<close>

theorem snapshot_coherent:
  assumes "valid_state s"
  shows "case to_authorization_snapshot pf s of
      Inl e \<Rightarrow> e = ValidationError ''INCOMPLETE_GUARDRAIL_SNAPSHOT'' \<and>
               (\<exists>p \<in> set (vs_provenance s). \<not> pv_available p)
    | Inr snap \<Rightarrow>
        (\<forall>p \<in> set (vs_provenance s). pv_available p) \<and>
        distinct (map fst snap) \<and>
        set (map fst snap) = {''schema_version'', ''state_version'', ''timestamp''} \<union> set PIP_FIELD_NAMES \<and>
        (\<exists>v r. map_of snap ''speed'' = Some v \<and> num_of v = Some (Fin r) \<and> 0 \<le> r \<and>
           (map_of snap ''gear'' = Some (PStr ''P'') \<longrightarrow> r = 0)) \<and>
        (map_of snap ''door_lock_state'' = Some (PStr ''Locked'') \<longrightarrow>
           (\<forall>d \<in> set (ac_doors (vs_access s)). dr_lock d = LOCKED \<and> dr_position d = DOOR_CLOSED)) \<and>
        (\<forall>m n. m \<noteq> n \<and> {m, n} \<subseteq> {''camp_mode_active'', ''pet_mode_active'', ''valet_mode_active''} \<longrightarrow>
           \<not> (map_of snap m = Some (PBool True) \<and> map_of snap n = Some (PBool True)))"
proof (cases "unavailable_fields s = []")
  case False
  then show ?thesis by (auto simp: to_authorization_snapshot_def unavailable_empty)
next
  case True
  define snap where "snap = [(''schema_version'', PStr VEHICLE_STATE_SCHEMA_VERSION),
          (''state_version'', PInt (vs_state_version s)),
          (''timestamp'', PStr (iso_z pf (vs_timestamp s)))] @ pip_values s"
  have snap: "to_authorization_snapshot pf s = Inr snap"
    using True by (simp add: to_authorization_snapshot_def snap_def)
  have b: "built s" using valid_stateD(1) [OF assms] .
  have keys: "map fst snap = [''schema_version'', ''state_version'', ''timestamp''] @ PIP_FIELD_NAMES"
    by (simp add: snap_def pip_values_keys)
  have "finite_range (mo_speed_kph (vs_motion s)) 0 None = None"
    using built_groups(2) [OF b] by (auto simp: motion_error_def)
  then obtain r where r: "num_of (mo_speed_kph (vs_motion s)) = Some (Fin r)" "0 \<le> r"
    using finite_range_None [of "mo_speed_kph (vs_motion s)" 0 None] by auto
  have "r = 0" if "tm_gear (vs_transmission s) = PARK"
    using valid_stateD(7) [OF assms that] r(1)
    by (cases "mo_speed_kph (vs_motion s)") (auto simp: nonzero_def split: if_splits)
  moreover have "distinct (map fst snap)"
    unfolding keys by (simp add: PIP_FIELD_NAMES_def)
  moreover have "set (map fst snap) = {''schema_version'', ''state_version'', ''timestamp''} \<union> set PIP_FIELD_NAMES"
    unfolding keys by auto
  moreover note open_door_unlocked [OF _ b] one_special_mode [OF built_groups(7) [OF b]]
  ultimately show ?thesis
    using r True unfolding snap by (auto simp: snap_def pip_values_def unavailable_empty)
qed

theorem snapshot_coherent_witness:
  "map_of (projr (to_authorization_snapshot \<lparr>pf_sha256 = id, pf_float = (\<lambda>_. ''0.0''),
      pf_iso = (\<lambda>_. ''1970-01-01T00:00:00+00:00'')\<rparr> DEFAULT_VEHICLE_STATE)) ''timestamp''
     = Some (PStr ''1970-01-01T00:00:00Z'') \<and>
   (case to_authorization_snapshot \<lparr>pf_sha256 = id, pf_float = (\<lambda>_. ''0.0''),
      pf_iso = (\<lambda>_. ''1970-01-01T00:00:00+00:00'')\<rparr> DEFAULT_VEHICLE_STATE of
      Inl e \<Rightarrow> False | Inr snap \<Rightarrow> distinct (map fst snap))"
proof
  let ?pf = "\<lparr>pf_sha256 = id, pf_float = (\<lambda>_. ''0.0''), pf_iso = (\<lambda>_. ''1970-01-01T00:00:00+00:00'')\<rparr>"
  show "map_of (projr (to_authorization_snapshot ?pf DEFAULT_VEHICLE_STATE)) ''timestamp''
     = Some (PStr ''1970-01-01T00:00:00Z'')"
    by code_simp
  have "list_all pv_available (vs_provenance DEFAULT_VEHICLE_STATE)" by code_simp
  then show "case to_authorization_snapshot ?pf DEFAULT_VEHICLE_STATE of
      Inl e \<Rightarrow> False | Inr snap \<Rightarrow> distinct (map fst snap)"
    using snapshot_coherent [OF default_state_valid, of ?pf]
    by (auto simp: list_all_iff split: sum.splits)
qed

text \<open>The presets.  Naming a known preset with a version that is not negative and an
  aware instant always gives a state, and every state a preset gives is valid and carries
  that version and instant; an unknown name is the \<open>KeyError\<close>.\<close>

theorem presets_valid:
  "case get_preset i n d of
     Inr s \<Rightarrow> valid_state s \<and> vs_state_version s = n \<and> vs_timestamp s = d
   | Inl e \<Rightarrow> i \<notin> fst ` set VEHICLE_PRESETS \<and> e = KeyErr i \<or> n < 0 \<or> dt_offset d = None"
proof (cases "get_preset i n d")
  case (Inr s)
  then show ?thesis using get_preset_valid by simp
next
  case (Inl e)
  show ?thesis
  proof (cases "i \<in> fst ` set VEHICLE_PRESETS")
    case True
    with Inl get_preset_total [of i n d] show ?thesis by force
  next
    case False
    with Inl show ?thesis by (auto simp: get_preset_def map_of_eq_None_iff [THEN iffD2])
  qed
qed

end
