(* ===== verification/AgentMachine.thy ===== *)
theory AgentMachine
  imports AgentState VersionedStore
begin

text \<open>
  \<open>vehicle/state/machine.py\<close> and \<open>vehicle/state/events.py\<close>: the single mutable vehicle
  state of the agent, its transitions and the append-only log of their events.  The lock
  makes each operation atomic, so an operation is a function from machine and world to its
  result (or the exception it raises), the machine and the world it leaves.

  The world holds the injected clock and \<open>uuid4\<close> as streams of readings.  A patch is the
  caller's function: it may draw identifiers, raise, or return something that is no
  \<open>VehicleState\<close> (\<open>None\<close> here).
\<close>

section \<open>World and exceptions\<close>

record agent_world =
  aw_clock :: "nat \<Rightarrow> datetime"
  aw_ticks :: nat
  aw_uuids :: "nat \<Rightarrow> string"
  aw_drawn :: nat

definition read_clock :: "agent_world \<Rightarrow> datetime \<times> agent_world" where
  "read_clock w = (aw_clock w (aw_ticks w), w\<lparr>aw_ticks := Suc (aw_ticks w)\<rparr>)"

definition draw_uuid :: "agent_world \<Rightarrow> string \<times> agent_world" where
  "draw_uuid w = (aw_uuids w (aw_drawn w), w\<lparr>aw_drawn := Suc (aw_drawn w)\<rparr>)"

text \<open>\<open>ExecErr code retryable\<close> stands for \<open>ExecutionError\<close> and its
  subclasses, which their codes tell apart.\<close>

datatype agent_exn =
    StateErr state_exn
  | ValueErr string
  | ExecErr string bool
  | OtherErr string
  | TransitionErr agent_exn
  | VersionConflictErr int int

type_synonym patch =
  "vehicle_state \<Rightarrow> agent_world \<Rightarrow> (agent_exn + vehicle_state option) \<times> agent_world"

section \<open>Events\<close>

datatype actor_kind = AGENT | OPERATOR | SIMULATOR | SYSTEM

fun actor_value :: "actor_kind \<Rightarrow> string" where
  "actor_value AGENT = ''AGENT''"
| "actor_value OPERATOR = ''OPERATOR''"
| "actor_value SIMULATOR = ''SIMULATOR''"
| "actor_value SYSTEM = ''SYSTEM''"

record state_event =
  sev_event_id :: string
  sev_correlation_id :: string
  sev_sequence :: int
  sev_previous_version :: int
  sev_next_version :: int
  sev_actor_kind :: actor_kind
  sev_actor_id :: string
  sev_occurred_at :: datetime
  sev_snapshot :: vehicle_state

definition value_check :: "bool \<Rightarrow> string \<Rightarrow> agent_exn option" where
  "value_check ok msg = (if ok then None else Some (ValueErr msg))"

text \<open>\<open>StateChangedEvent.__post_init__\<close>.\<close>

definition event_error :: "state_event \<Rightarrow> agent_exn option" where
  "event_error e =
     first_error
       [value_check (sev_event_id e \<noteq> []) ''event_id must be non-empty'',
        value_check (sev_correlation_id e \<noteq> []) ''correlation_id must be non-empty'',
        value_check (1 \<le> sev_sequence e) ''sequence must be >= 1'',
        value_check (0 \<le> sev_previous_version e) ''previous_version must be >= 0'',
        value_check (sev_next_version e = sev_previous_version e + 1)
          ''next_version must be previous_version + 1'',
        value_check (sev_actor_id e \<noteq> []) ''actor_id must be non-empty'',
        value_check (dt_offset (sev_occurred_at e) \<noteq> None)
          ''occurred_at must be a timezone-aware datetime'',
        value_check (dt_offset (sev_occurred_at e) = Some 0)
          ''occurred_at must be in UTC (utcoffset must be zero)'']"

definition event_to_dict :: "platform \<Rightarrow> state_event \<Rightarrow> state_exn + payload" where
  "event_to_dict pf e =
     (case to_authorization_snapshot pf (sev_snapshot e) of
        Inl x \<Rightarrow> Inl x
      | Inr snap \<Rightarrow> Inr
          [(''event_id'', PStr (sev_event_id e)),
           (''correlation_id'', PStr (sev_correlation_id e)),
           (''sequence'', PInt (sev_sequence e)),
           (''previous_version'', PInt (sev_previous_version e)),
           (''next_version'', PInt (sev_next_version e)),
           (''actor_kind'', PStr (actor_value (sev_actor_kind e))),
           (''actor_id'', PStr (sev_actor_id e)),
           (''occurred_at'', PStr (iso_z pf (sev_occurred_at e))),
           (''snapshot'', PDict snap)])"

record state_machine =
  sm_state :: vehicle_state
  sm_events :: "state_event list"

definition build_and_append ::
  "string \<Rightarrow> int \<Rightarrow> int \<Rightarrow> actor_kind \<Rightarrow> string \<Rightarrow> vehicle_state \<Rightarrow> datetime \<Rightarrow>
   state_machine \<Rightarrow> agent_world \<Rightarrow> (agent_exn + state_event) \<times> state_machine \<times> agent_world" where
  "build_and_append correlation_id previous_version next_version kind actor_id snap occurred_at m w =
     (let (event_id, w1) = draw_uuid w;
          event = \<lparr>sev_event_id = event_id, sev_correlation_id = correlation_id,
                   sev_sequence = int (length (sm_events m)) + 1,
                   sev_previous_version = previous_version, sev_next_version = next_version,
                   sev_actor_kind = kind, sev_actor_id = actor_id,
                   sev_occurred_at = occurred_at, sev_snapshot = snap\<rparr>
      in case event_error event of
           Some e \<Rightarrow> (Inl e, m, w1)
         | None \<Rightarrow> (Inr event, m\<lparr>sm_events := sm_events m @ [event]\<rparr>, w1))"

definition latest :: "state_machine \<Rightarrow> state_event option" where
  "latest m = (if sm_events m = [] then None else Some (last (sm_events m)))"

definition get_event :: "int \<Rightarrow> state_machine \<Rightarrow> state_event option" where
  "get_event sequence m =
     (let idx = sequence - 1 in
      if idx < 0 \<or> int (length (sm_events m)) \<le> idx then None else Some (sm_events m ! nat idx))"

definition list_since :: "int \<Rightarrow> state_machine \<Rightarrow> state_event list" where
  "list_since sequence m = drop (nat (max 0 (sequence - 1))) (sm_events m)"

section \<open>Transitions\<close>

definition VehicleStateMachine :: "vehicle_state option \<Rightarrow> state_machine" where
  "VehicleStateMachine initial =
     \<lparr>sm_state = (case initial of None \<Rightarrow> DEFAULT_VEHICLE_STATE | Some s \<Rightarrow> s), sm_events = []\<rparr>"

definition metadata_error :: "string \<Rightarrow> string \<Rightarrow> agent_exn option" where
  "metadata_error actor_id correlation_id =
     first_error
       [value_check (actor_id \<noteq> []) ''actor_id must be non-empty'',
        value_check (correlation_id \<noteq> []) ''correlation_id must be non-empty'']"

text \<open>The body of the \<open>try\<close>: the patch, the provenance and version stamp, and which
  exceptions are wrapped.\<close>

fun wrap_exn :: "agent_exn \<Rightarrow> agent_exn" where
  "wrap_exn (StateErr (ValidationError c)) = StateErr (ValidationError c)"
| "wrap_exn (TransitionErr e) = TransitionErr e"
| "wrap_exn e = TransitionErr e"

definition next_state ::
  "patch \<Rightarrow> vehicle_state \<Rightarrow> datetime \<Rightarrow> agent_world \<Rightarrow> (agent_exn + vehicle_state) \<times> agent_world" where
  "next_state patch current instant w =
     (case patch current w of
        (Inl e, w1) \<Rightarrow> (Inl (wrap_exn e), w1)
      | (Inr None, w1) \<Rightarrow> (Inl (TransitionErr (OtherErr ''TypeError'')), w1)
      | (Inr (Some candidate), w1) \<Rightarrow>
          (let next = stamp (vs_state_version current + 1) instant candidate in
           case first_error (map provenance_error (vs_provenance next)) of
             Some e \<Rightarrow> (Inl (wrap_exn (StateErr e)), w1)
           | None \<Rightarrow> (case VehicleState next of
                        Inl e \<Rightarrow> (Inl (wrap_exn (StateErr e)), w1)
                      | Inr s \<Rightarrow> (Inr s, w1))))"

definition apply_transition ::
  "patch \<Rightarrow> actor_kind \<Rightarrow> string \<Rightarrow> string \<Rightarrow> int option \<Rightarrow> state_machine \<Rightarrow> agent_world \<Rightarrow>
   (agent_exn + state_event) \<times> state_machine \<times> agent_world" where
  "apply_transition patch kind actor_id correlation_id expected_version m w =
     (case metadata_error actor_id correlation_id of
        Some e \<Rightarrow> (Inl e, m, w)
      | None \<Rightarrow>
          (let current = vs_state_version (sm_state m) in
           if expected_version \<noteq> None \<and> expected_version \<noteq> Some current
           then (Inl (VersionConflictErr (the expected_version) current), m, w)
           else
             (let (instant, w1) = read_clock w in
              case next_state patch (sm_state m) instant w1 of
                (Inl e, w2) \<Rightarrow> (Inl e, m, w2)
              | (Inr next, w2) \<Rightarrow>
                  build_and_append correlation_id current (current + 1) kind actor_id next instant
                    (m\<lparr>sm_state := next\<rparr>) w2)))"

definition reset_machine ::
  "string \<Rightarrow> string \<Rightarrow> string \<Rightarrow> state_machine \<Rightarrow> agent_world \<Rightarrow>
   (agent_exn + state_event) \<times> state_machine \<times> agent_world" where
  "reset_machine preset_id actor_id correlation_id m w =
     (case metadata_error actor_id correlation_id of
        Some e \<Rightarrow> (Inl e, m, w)
      | None \<Rightarrow>
          (let current = vs_state_version (sm_state m); (instant, w1) = read_clock w in
           case get_preset preset_id (current + 1) instant of
             Inl e \<Rightarrow> (Inl (StateErr e), m, w1)
           | Inr next \<Rightarrow>
               build_and_append correlation_id current (current + 1) SYSTEM actor_id next instant
                 (m\<lparr>sm_state := next\<rparr>) w1))"

datatype machine_op =
    Apply patch actor_kind string string "int option"
  | Reset string string string

fun machine_step ::
  "machine_op \<Rightarrow> state_machine \<times> agent_world \<Rightarrow> (agent_exn + state_event) \<times> state_machine \<times> agent_world"
where
  "machine_step (Apply p k a c v) (m, w) = apply_transition p k a c v m w"
| "machine_step (Reset i a c) (m, w) = reset_machine i a c m w"

text \<open>A patch builds its result from existing objects with the classes' constructors, which
  check every group; and it leaves the clock and identifier streams alone.\<close>

definition builds :: "patch \<Rightarrow> bool" where
  "builds p \<longleftrightarrow>
     (\<forall>s w r w'. p s w = (r, w') \<longrightarrow>
        aw_clock w' = aw_clock w \<and> aw_ticks w' = aw_ticks w \<and> aw_uuids w' = aw_uuids w \<and>
        aw_drawn w \<le> aw_drawn w' \<and>
        (\<forall>t. r = Inr (Some t) \<longrightarrow> built s \<longrightarrow> built t))"

fun op_builds :: "machine_op \<Rightarrow> bool" where
  "op_builds (Apply p _ _ _ _) = builds p"
| "op_builds (Reset _ _ _) = True"

definition utc_world :: "agent_world \<Rightarrow> bool" where
  "utc_world w \<longleftrightarrow> (\<forall>n. dt_offset (aw_clock w n) = Some 0) \<and> (\<forall>n. aw_uuids w n \<noteq> [])"

section \<open>Facts\<close>

lemma value_check_None_iff [simp]: "value_check ok msg = None \<longleftrightarrow> ok"
  by (simp add: value_check_def)

lemma event_error_None:
  "event_error e = None \<longleftrightarrow>
     sev_event_id e \<noteq> [] \<and> sev_correlation_id e \<noteq> [] \<and> 1 \<le> sev_sequence e \<and>
     0 \<le> sev_previous_version e \<and> sev_next_version e = sev_previous_version e + 1 \<and>
     sev_actor_id e \<noteq> [] \<and> dt_offset (sev_occurred_at e) = Some 0"
  by (auto simp: event_error_def)

lemma metadata_error_None:
  "metadata_error a c = None \<longleftrightarrow> a \<noteq> [] \<and> c \<noteq> []"
  by (simp add: metadata_error_def)

text \<open>One step, whatever the clock: either the machine is as before and an exception was
  raised, or a valid state with the next version is in place; then the event is appended,
  unless building it failed.\<close>

definition commits :: "vehicle_state \<Rightarrow> state_machine \<Rightarrow> (agent_exn + state_event) \<Rightarrow> state_machine \<Rightarrow> bool"
where
  "commits next m r m' \<longleftrightarrow>
     vs_state_version next = vs_state_version (sm_state m) + 1 \<and> sm_state m' = next \<and>
     ((\<exists>e. r = Inl e) \<and> sm_events m' = sm_events m \<or>
      (\<exists>ev. r = Inr ev \<and> event_error ev = None \<and> sm_events m' = sm_events m @ [ev] \<and>
            sev_sequence ev = int (length (sm_events m)) + 1 \<and>
            sev_previous_version ev = vs_state_version (sm_state m) \<and>
            sev_snapshot ev = next \<and> sev_occurred_at ev = vs_timestamp next))"

lemma build_and_append_commits:
  assumes "build_and_append c v (v + 1) k a next instant (m\<lparr>sm_state := next\<rparr>) w = (r, m', w')"
    and "v = vs_state_version (sm_state m)" "vs_state_version next = v + 1" "vs_timestamp next = instant"
  shows "commits next m r m'"
  using assms by (auto simp: build_and_append_def draw_uuid_def Let_def commits_def split: option.splits)

lemma next_state_stamp:
  assumes "next_state p s instant w = (Inr t, w')"
  shows "vs_state_version t = vs_state_version s + 1 \<and> vs_timestamp t = instant"
    and "valid_state s \<Longrightarrow> builds p \<Longrightarrow> valid_state t"
proof -
  from assms obtain c where c: "p s w = (Inr (Some c), w')"
    and t: "t = stamp (vs_state_version s + 1) instant c" "vehicle_error t = None"
    by (auto simp: next_state_def Let_def split: prod.splits sum.splits option.splits)
  then show "vs_state_version t = vs_state_version s + 1 \<and> vs_timestamp t = instant" by simp
  assume "valid_state s" "builds p"
  then have "built s" by (simp add: valid_state_def)
  with \<open>builds p\<close> c have "built c" unfolding builds_def by blast
  moreover have "dt_offset instant \<noteq> None"
    using t by (auto simp: vehicle_error_def Let_def)
  ultimately show "valid_state t" using t stamp_built by (simp add: valid_state_def)
qed

lemma step_cases:
  assumes "machine_step x (m, w) = (r, m', w')"
  obtains (unchanged) "\<exists>e. r = Inl e" "m' = m"
  | (committed) t where "commits t m r m'"
      "valid_state (sm_state m) \<Longrightarrow> op_builds x \<Longrightarrow> valid_state t"
proof (cases x)
  case (Apply p k a c v)
  show ?thesis
  proof (cases "metadata_error a c = None \<and> (v = None \<or> v = Some (vs_state_version (sm_state m)))")
    case False
    with assms Apply show ?thesis
      by (intro unchanged) (auto simp: apply_transition_def Let_def split: option.splits if_splits)
  next
    case True
    obtain r1 w2 where n: "next_state p (sm_state m) (fst (read_clock w)) (snd (read_clock w)) = (r1, w2)"
      by fastforce
    show ?thesis
    proof (cases r1)
      case (Inl e)
      with assms Apply True n show ?thesis
        by (intro unchanged) (auto simp: apply_transition_def Let_def split: prod.splits)
    next
      case (Inr t)
      with n have n': "next_state p (sm_state m) (fst (read_clock w)) (snd (read_clock w)) = (Inr t, w2)"
        by simp
      have b: "build_and_append c (vs_state_version (sm_state m)) (vs_state_version (sm_state m) + 1)
          k a t (fst (read_clock w)) (m\<lparr>sm_state := t\<rparr>) w2 = (r, m', w')"
        using assms Apply True n' by (auto simp: apply_transition_def Let_def split: prod.splits)
      show ?thesis
        using next_state_stamp [OF n'] Apply
        by (intro committed) (auto intro!: build_and_append_commits [OF b])
    qed
  qed
next
  case (Reset i a c)
  show ?thesis
  proof (cases "get_preset i (vs_state_version (sm_state m) + 1) (fst (read_clock w))")
    case (Inl e)
    with assms Reset show ?thesis
      by (intro unchanged) (auto simp: reset_machine_def Let_def split: option.splits prod.splits)
  next
    case (Inr t)
    show ?thesis
    proof (cases "metadata_error a c")
      case (Some e)
      with assms Reset show ?thesis by (intro unchanged) (auto simp: reset_machine_def)
    next
      case None
      have "build_and_append c (vs_state_version (sm_state m)) (vs_state_version (sm_state m) + 1)
          SYSTEM a t (fst (read_clock w)) (m\<lparr>sm_state := t\<rparr>) (snd (read_clock w)) = (r, m', w')"
        using assms Reset None Inr by (auto simp: reset_machine_def Let_def split: prod.splits)
      with get_preset_valid [OF Inr] show ?thesis
        by (intro committed [of t]) (auto intro: build_and_append_commits)
    qed
  qed
qed

section \<open>The versioned store\<close>

definition machine_next :: "machine_op \<Rightarrow> state_machine \<times> agent_world \<Rightarrow> state_machine \<times> agent_world" where
  "machine_next x s = snd (machine_step x s)"

interpretation vmachine: versioned_store
  "\<lambda>s. vs_state_version (sm_state (fst s))" "\<lambda>s. sm_state (fst s)" machine_next
proof
  fix x and s :: "state_machine \<times> agent_world"
  obtain m w r m' w' where s: "s = (m, w)" and x: "machine_step x (m, w) = (r, m', w')"
    by (metis prod.collapse)
  from x show "(sm_state (fst (machine_next x s)) = sm_state (fst s) \<and>
      vs_state_version (sm_state (fst (machine_next x s))) = vs_state_version (sm_state (fst s))) \<or>
      vs_state_version (sm_state (fst (machine_next x s))) = vs_state_version (sm_state (fst s)) + 1"
    by (cases rule: step_cases) (auto simp: s x machine_next_def commits_def)
qed

definition machine_run :: "machine_op list \<Rightarrow> state_machine \<times> agent_world \<Rightarrow> state_machine \<times> agent_world"
where
  "machine_run xs s = fold machine_next xs s"

lemma machine_run_eq: "machine_run xs s = vmachine.run xs s"
  by (simp add: machine_run_def vmachine.run_def)

section \<open>With a UTC clock\<close>

lemma read_clock_keeps [simp]:
  "aw_clock (snd (read_clock w)) = aw_clock w" "aw_uuids (snd (read_clock w)) = aw_uuids w"
  by (simp_all add: read_clock_def)

lemma draw_uuid_keeps [simp]:
  "aw_clock (snd (draw_uuid w)) = aw_clock w" "aw_uuids (snd (draw_uuid w)) = aw_uuids w"
  by (simp_all add: draw_uuid_def)

lemma utc_world_cong: "aw_clock w' = aw_clock w \<Longrightarrow> aw_uuids w' = aw_uuids w \<Longrightarrow> utc_world w' = utc_world w"
  by (simp add: utc_world_def)

lemma next_state_world:
  "next_state p s d w = (r, w') \<Longrightarrow> builds p \<Longrightarrow> aw_clock w' = aw_clock w \<and> aw_uuids w' = aw_uuids w"
  by (cases "p s w") (auto simp: next_state_def Let_def builds_def split: sum.splits option.splits)

lemma build_and_append_ok:
  assumes "build_and_append c v (v + 1) k a t d m w = (r, m', w')"
    and "utc_world w" "c \<noteq> []" "a \<noteq> []" "0 \<le> v" "dt_offset d = Some 0"
  shows "\<exists>ev. r = Inr ev" and "utc_world w'"
proof -
  let ?ev = "\<lparr>sev_event_id = aw_uuids w (aw_drawn w), sev_correlation_id = c,
      sev_sequence = int (length (sm_events m)) + 1, sev_previous_version = v,
      sev_next_version = v + 1, sev_actor_kind = k, sev_actor_id = a, sev_occurred_at = d,
      sev_snapshot = t\<rparr>"
  have "event_error ?ev = None" using assms by (simp add: event_error_None utc_world_def)
  then show "\<exists>ev. r = Inr ev" "utc_world w'"
    using assms(1,2) by (auto simp: build_and_append_def draw_uuid_def Let_def utc_world_def)
qed

lemma utc_step:
  assumes "machine_step x (m, w) = (r, m', w')" "utc_world w" "op_builds x"
    and "valid_state (sm_state m)"
  shows "utc_world w' \<and> (m' = m \<or> (\<exists>ev. r = Inr ev))"
proof -
  have v: "0 \<le> vs_state_version (sm_state m)" using valid_stateD(2) [OF assms(4)] .
  have d: "dt_offset (fst (read_clock w)) = Some 0" and w1: "utc_world (snd (read_clock w))"
    using assms(2) by (auto simp: read_clock_def utc_world_def)
  show ?thesis
  proof (cases x)
    case (Apply p k a c e)
    obtain r1 w2 where n: "next_state p (sm_state m) (fst (read_clock w)) (snd (read_clock w)) = (r1, w2)"
      by fastforce
    with Apply assms(3) w1 have w2: "utc_world w2" by (auto dest: next_state_world simp: utc_world_def)
    note ok = build_and_append_ok [OF _ w2 _ _ v d]
    show ?thesis using assms(1,2) Apply n w2 ok
      by (auto simp: apply_transition_def Let_def metadata_error_None
          split: option.splits if_splits prod.splits sum.splits)
  next
    case (Reset i a c)
    note ok = build_and_append_ok [OF _ w1 _ _ v d]
    show ?thesis using assms(1,2) Reset w1 ok
      by (auto simp: reset_machine_def Let_def metadata_error_None
          split: option.splits if_splits prod.splits sum.splits)
  qed
qed

section \<open>The log\<close>

definition log_ok :: "int \<Rightarrow> state_machine \<Rightarrow> bool" where
  "log_ok v0 m \<longleftrightarrow>
     vs_state_version (sm_state m) = v0 + int (length (sm_events m)) \<and>
     (sm_events m \<noteq> [] \<longrightarrow> sev_snapshot (last (sm_events m)) = sm_state m) \<and>
     (\<forall>i < length (sm_events m).
        event_error (sm_events m ! i) = None \<and>
        sev_sequence (sm_events m ! i) = int i + 1 \<and>
        sev_previous_version (sm_events m ! i) = v0 + int i \<and>
        vs_state_version (sev_snapshot (sm_events m ! i)) = sev_next_version (sm_events m ! i))"

lemma log_ok_commit:
  assumes "log_ok v0 m" "commits t m r m'" "r = Inr ev"
  shows "log_ok v0 m'"
  using assms unfolding log_ok_def commits_def
  by (auto simp: nth_append less_Suc_eq event_error_None)

lemma machine_next_inv:
  assumes "valid_state (sm_state m)" "utc_world w" "op_builds x" "log_ok v0 m"
    and "machine_next x (m, w) = (m', w')"
  shows "valid_state (sm_state m') \<and> utc_world w' \<and> log_ok v0 m'"
proof -
  obtain r where r: "machine_step x (m, w) = (r, m', w')"
    using assms(5) by (cases "machine_step x (m, w)") (simp add: machine_next_def)
  have u: "utc_world w' \<and> (m' = m \<or> (\<exists>ev. r = Inr ev))"
    by (rule utc_step [OF r assms(2,3,1)])
  from r show ?thesis
  proof (cases rule: step_cases)
    case unchanged
    then show ?thesis using assms u by simp
  next
    case (committed t)
    then have s: "sm_state m' = t" by (simp add: commits_def)
    have "m' \<noteq> m" using committed(1) by (auto simp: commits_def)
    with u obtain ev where "r = Inr ev" by auto
    then show ?thesis
      using committed s assms u log_ok_commit [OF assms(4) committed(1)] by simp
  qed
qed

lemma machine_run_inv:
  assumes "valid_state (sm_state m)" "utc_world w" "\<forall>x \<in> set xs. op_builds x" "log_ok v0 m"
  shows "valid_state (sm_state (fst (machine_run xs (m, w)))) \<and>
         log_ok v0 (fst (machine_run xs (m, w)))"
  using assms
proof (induction xs arbitrary: m w)
  case (Cons x xs)
  obtain m' w' where n: "machine_next x (m, w) = (m', w')" by fastforce
  with Cons.prems machine_next_inv [OF _ _ _ _ n] Cons.IH [of m' w'] show ?case
    by (simp add: machine_run_def)
qed (simp add: machine_run_def)

lemma machine_run_valid_any:
  assumes "valid_state (sm_state (fst s))" "\<forall>x \<in> set xs. op_builds x"
  shows "valid_state (sm_state (fst (machine_run xs s)))"
  using assms
proof (induction xs arbitrary: s)
  case (Cons x xs)
  obtain m w r m' w' where s: "s = (m, w)" and r: "machine_step x (m, w) = (r, m', w')"
    by (metis prod.collapse)
  have "valid_state (sm_state m')"
    using r Cons.prems s by (cases rule: step_cases) (auto simp: commits_def)
  with Cons s r show ?case by (simp add: machine_run_def machine_next_def)
qed (simp add: machine_run_def)

section \<open>Properties\<close>

text \<open>A patch, a clock and identifiers for the concrete runs.\<close>

definition power_on :: patch where
  "power_on s w = (Inr (Some (s\<lparr>vs_power := (vs_power s)\<lparr>pw_powered_on := True\<rparr>\<rparr>)), w)"

definition fixed_world :: "int \<Rightarrow> agent_world" where
  "fixed_world off =
     \<lparr>aw_clock = (\<lambda>n. \<lparr>dt_instant = int n, dt_offset = Some off\<rparr>), aw_ticks = 0,
      aw_uuids = (\<lambda>_. ''11111111-2222-4333-8444-555555555555''), aw_drawn = 0\<rparr>"

lemma power_on_builds: "builds power_on"
  by (auto simp: builds_def power_on_def built_iff power_error_def)

lemma utc_world_fixed: "utc_world (fixed_world 0)"
  by (simp add: utc_world_def fixed_world_def)

text \<open>C9.  No partially coherent snapshot.  Whatever sequence of transitions and resets the
  actors ask for, with whatever clock, the machine's state passes every check of every group
  and of the whole, if the state it started from did.\<close>

theorem machine_state_always_valid:
  assumes "valid_state (sm_state m)" and "\<forall>x \<in> set xs. op_builds x"
  shows "valid_state (sm_state (fst (machine_run xs (m, w))))"
  using machine_run_valid_any [of "(m, w)"] assms by simp

theorem machine_state_always_valid_witness:
  "pw_powered_on (vs_power (sm_state (fst (machine_run
      [Apply power_on AGENT ''a'' ''c'' None] (VehicleStateMachine None, fixed_world 0))))) \<and>
   valid_state (sm_state (fst (machine_run
      [Apply power_on AGENT ''a'' ''c'' None] (VehicleStateMachine None, fixed_world 0))))"
proof
  show "pw_powered_on (vs_power (sm_state (fst (machine_run
      [Apply power_on AGENT ''a'' ''c'' None] (VehicleStateMachine None, fixed_world 0)))))"
    by code_simp
qed (use machine_state_always_valid [of "VehicleStateMachine None"] default_state_valid
       power_on_builds in \<open>simp add: VehicleStateMachine_def\<close>)

text \<open>C10.  All or nothing.  With a UTC clock an operation that raises leaves the machine
  exactly as it was; one that returns an event has raised the version by one, put a valid
  state in place and appended that one event, which carries the new state.  A stale expected
  version is the conflict error, before the clock is read or the patch called.\<close>

theorem machine_step_atomic:
  assumes "valid_state (sm_state m)" "utc_world w" "op_builds x"
    and "machine_step x (m, w) = (r, m', w')"
  shows "(case r of
      Inl _ \<Rightarrow> m' = m
    | Inr ev \<Rightarrow>
        vs_state_version (sm_state m') = vs_state_version (sm_state m) + 1 \<and>
        valid_state (sm_state m') \<and> sm_events m' = sm_events m @ [ev] \<and>
        sev_snapshot ev = sm_state m' \<and> latest m' = Some ev \<and>
        sev_next_version ev = vs_state_version (sm_state m'))
    \<and> (\<forall>p k a c v. x = Apply p k a c (Some v) \<and> a \<noteq> [] \<and> c \<noteq> [] \<and>
          v \<noteq> vs_state_version (sm_state m) \<longrightarrow>
        r = Inl (VersionConflictErr v (vs_state_version (sm_state m))) \<and> w' = w)"
proof
  have u: "m' = m \<or> (\<exists>ev. r = Inr ev)" using utc_step [OF assms(4,2,3,1)] by simp
  show "case r of
      Inl _ \<Rightarrow> m' = m
    | Inr ev \<Rightarrow>
        vs_state_version (sm_state m') = vs_state_version (sm_state m) + 1 \<and>
        valid_state (sm_state m') \<and> sm_events m' = sm_events m @ [ev] \<and>
        sev_snapshot ev = sm_state m' \<and> latest m' = Some ev \<and>
        sev_next_version ev = vs_state_version (sm_state m')"
    using assms(4)
  proof (cases rule: step_cases)
    case unchanged
    then show ?thesis by auto
  next
    case (committed t)
    then have "m' \<noteq> m" by (auto simp: commits_def)
    with u obtain ev where "r = Inr ev" by auto
    with committed assms(1,3) show ?thesis
      by (auto simp: commits_def latest_def event_error_None)
  qed
  show "\<forall>p k a c v. x = Apply p k a c (Some v) \<and> a \<noteq> [] \<and> c \<noteq> [] \<and>
      v \<noteq> vs_state_version (sm_state m) \<longrightarrow>
      r = Inl (VersionConflictErr v (vs_state_version (sm_state m))) \<and> w' = w"
    using assms(4) by (auto simp: apply_transition_def metadata_error_None [THEN iffD2, OF conjI] Let_def)
qed

theorem machine_step_atomic_witness:
  "\<exists>ev m' w'. machine_step (Apply power_on AGENT ''a'' ''c'' None) (VehicleStateMachine None, fixed_world 0)
      = (Inr ev, m', w') \<and> latest m' = Some ev \<and> vs_state_version (sm_state m') = 1"
proof -
  obtain r m' w' where r: "machine_step (Apply power_on AGENT ''a'' ''c'' None)
      (VehicleStateMachine None, fixed_world 0) = (r, m', w')"
    by (metis prod.collapse)
  have i: "\<not> isl (fst (machine_step (Apply power_on AGENT ''a'' ''c'' None)
      (VehicleStateMachine None, fixed_world 0)))"
    by code_simp
  have v: "vs_state_version (sm_state (VehicleStateMachine None)) = 0" by code_simp
  show ?thesis
    using machine_step_atomic [OF _ utc_world_fixed _ r] i r v default_state_valid power_on_builds
    by (auto simp: VehicleStateMachine_def isl_def split: sum.splits)
qed

text \<open>C11.  The event log is the history of the state.  From a fresh machine with a UTC
  clock, after any operations the number of events is the number of version increments, the
  events are numbered 1, 2, ... and chain the versions without a gap from the initial one,
  each event's snapshot carries the version the event announces, the latest event's snapshot
  is the current state, and \<open>get_event\<close> finds every event under its sequence number.\<close>

theorem machine_log_is_history:
  assumes "valid_state s0" "utc_world w" "\<forall>x \<in> set xs. op_builds x"
  defines "m \<equiv> fst (machine_run xs (VehicleStateMachine (Some s0), w))"
  shows "vs_state_version (sm_state m) = vs_state_version s0 + int (length (sm_events m)) \<and>
    length (sm_events m) \<le> length xs \<and>
    (\<forall>ev. latest m = Some ev \<longrightarrow> sev_snapshot ev = sm_state m) \<and>
    (\<forall>i < length (sm_events m). \<exists>ev. get_event (int i + 1) m = Some ev \<and>
        sev_sequence ev = int i + 1 \<and>
        sev_previous_version ev = vs_state_version s0 + int i \<and>
        sev_next_version ev = vs_state_version s0 + int i + 1 \<and>
        vs_state_version (sev_snapshot ev) = sev_next_version ev)"
proof -
  let ?m0 = "VehicleStateMachine (Some s0)"
  have "log_ok (vs_state_version s0) m"
    unfolding m_def using assms(1-3)
    by (intro conjunct2 [OF machine_run_inv]) (auto simp: VehicleStateMachine_def log_ok_def)
  then have log: "log_ok (vs_state_version s0) m" .
  have "vs_state_version (sm_state m) \<le> vs_state_version s0 + int (length xs)"
    using vmachine.version_bound [of xs "(?m0, w)"]
    by (simp add: m_def machine_run_eq VehicleStateMachine_def)
  with log have "length (sm_events m) \<le> length xs" by (simp add: log_ok_def)
  with log show ?thesis
    by (auto simp: log_ok_def latest_def get_event_def Let_def event_error_None)
qed

theorem machine_log_is_history_witness:
  "\<exists>ev. get_event 1 (fst (machine_run [Apply power_on AGENT ''a'' ''c'' None, Reset ''charging'' ''op'' ''r'']
      (VehicleStateMachine (Some DEFAULT_VEHICLE_STATE), fixed_world 0))) = Some ev \<and>
     sev_next_version ev = 1"
proof -
  let ?xs = "[Apply power_on AGENT ''a'' ''c'' None, Reset ''charging'' ''op'' ''r'']"
  let ?m = "fst (machine_run ?xs (VehicleStateMachine (Some DEFAULT_VEHICLE_STATE), fixed_world 0))"
  have "length (sm_events ?m) = 2" "vs_state_version DEFAULT_VEHICLE_STATE = 0" by code_simp+
  with machine_log_is_history [OF default_state_valid utc_world_fixed, of ?xs] power_on_builds
  have "\<exists>ev. get_event (int 0 + 1) ?m = Some ev \<and> sev_next_version ev = 0 + int 0 + 1"
    by (auto dest: spec [of _ 0])
  then show ?thesis by simp
qed

text \<open>Where the guarantee ends.  The machine accepts an injected clock and commits the
  state before it builds the event, which insists on UTC: with a clock one hour ahead of UTC
  the same transition raises \<open>ValueError\<close> and has changed state and version, with no
  event to show for it.\<close>

theorem offset_clock_commits_without_event:
  "\<exists>m' w'. apply_transition power_on AGENT ''a'' ''c'' None (VehicleStateMachine None) (fixed_world 3600)
      = (Inl (ValueErr ''occurred_at must be in UTC (utcoffset must be zero)''), m', w') \<and>
     vs_state_version (sm_state m') = 1 \<and> sm_events m' = []"
proof -
  let ?r = "apply_transition power_on AGENT ''a'' ''c'' None (VehicleStateMachine None) (fixed_world 3600)"
  have "fst ?r = Inl (ValueErr ''occurred_at must be in UTC (utcoffset must be zero)'')"
    and "vs_state_version (sm_state (fst (snd ?r))) = 1" and "sm_events (fst (snd ?r)) = []"
    by code_simp+
  then show ?thesis by (metis prod.collapse)
qed

end
