(* ===== verification/AgentText.thy ===== *)
theory AgentText
  imports Platform
begin

text \<open>
  The string methods and float conversions the agent's modules use.  An agent string is the
  bytes of its UTF-8 encoding: \<open>lower\<close> maps the ASCII letters and \<open>strip_ws\<close> removes the
  ASCII white space, which decides every comparison with the ASCII vocabularies of the code.

  \<open>float(i)\<close> and \<open>float(s)\<close> are parameters of the numeric platform: the double nearest to
  a rational (an overflow of an addition gives an infinity, as in IEEE arithmetic) and the
  value of a numeral (\<open>None\<close> is \<open>ValueError\<close>).
\<close>

record agent_platform = platform +
  ap_round :: "rat \<Rightarrow> pyfloat"
  ap_parse :: "string \<Rightarrow> pyfloat option"

definition lower_char :: "char \<Rightarrow> char" where
  "lower_char c =
     (let n = of_char c :: nat in if 65 \<le> n \<and> n \<le> 90 then char_of (n + 32) else c)"

definition lower :: "string \<Rightarrow> string" where
  "lower s = map lower_char s"

definition is_ws :: "char \<Rightarrow> bool" where
  "is_ws c = (let n = of_char c :: nat in n = 32 \<or> 9 \<le> n \<and> n \<le> 13 \<or> 28 \<le> n \<and> n \<le> 31)"

definition strip_ws :: "string \<Rightarrow> string" where
  "strip_ws s = rev (dropWhile is_ws (rev (dropWhile is_ws s)))"

text \<open>\<open>sub in s\<close> and \<open>s.startswith(p)\<close>.\<close>

definition prefix_of :: "string \<Rightarrow> string \<Rightarrow> bool" where
  "prefix_of p s = (take (length p) s = p)"

fun contains :: "string \<Rightarrow> string \<Rightarrow> bool" where
  "contains sub [] = (sub = [])"
| "contains sub (c # cs) = (prefix_of sub (c # cs) \<or> contains sub cs)"

text \<open>\<open>xs.get(k)\<close> with the value \<open>None\<close> for a missing key, and \<open>a or b\<close>.\<close>

definition get_key :: "payload \<Rightarrow> string \<Rightarrow> pyval" where
  "get_key d k = (case map_of d k of None \<Rightarrow> PNone | Some v \<Rightarrow> v)"

definition get_or :: "payload \<Rightarrow> string \<Rightarrow> pyval \<Rightarrow> pyval" where
  "get_or d k otherwise = (case map_of d k of None \<Rightarrow> otherwise | Some v \<Rightarrow> v)"

definition py_or :: "pyval \<Rightarrow> pyval \<Rightarrow> pyval" where
  "py_or a b = (if py_truth a then a else b)"

text \<open>The first of the keys that the dictionary maps to a value other than \<open>None\<close>.\<close>

fun first_param :: "string list \<Rightarrow> payload \<Rightarrow> pyval option" where
  "first_param [] d = None"
| "first_param (k # ks) d =
     (if k \<noteq> [] \<and> get_key d k \<noteq> PNone then Some (get_key d k) else first_param ks d)"

lemma first_param_Some:
  "first_param ks d = Some v \<Longrightarrow> v \<noteq> PNone \<and> (\<exists>k \<in> set ks. map_of d k = Some v)"
  by (induction ks) (auto simp: get_key_def split: if_splits option.splits)

text \<open>\<open>round(x)\<close> of a finite float: the nearest integer, a tie to the even one.\<close>

definition py_round :: "rat \<Rightarrow> int" where
  "py_round r =
     (let f = \<lfloor>r\<rfloor>; d = r - of_int f in
      if d < 1 / 2 then f else if 1 / 2 < d then f + 1 else if even f then f else f + 1)"

end
