(* ===== verification/Handlers.thy ===== *)
theory Handlers
  imports AgentMachine AgentText
begin

text \<open>
  \<open>vehicle/execution/generic.py\<close> and \<open>open_door.py\<close>: the declarative behaviour
  configurations, their validation, and the eight generic handlers that turn an authorised
  proposal into a transition of the state machine.

  A handler reads and replaces fields by name (\<open>getattr\<close>, \<open>replace(**{field: v})\<close>).
  The table \<open>FIELDS\<close> gives each field of each group a getter and a setter; the setter
  makes the group's \<open>isinstance\<close> check on the value and then the checks of the group and of
  the vehicle state, as the two nested \<open>replace\<close> calls do.  A value is a JSON value or a
  member of an enumeration; the field \<open>doors\<close>, which no configuration names, is left out.  The text of an \<open>ExecutionError\<close> is not modelled, its code is.
\<close>

section \<open>Enumeration members and dynamic values\<close>

datatype enum_member =
    EGear gear_enum | EMotion motion_phase | ELight light_mode | EAcc acc_enum
  | EAutopark autopark_enum | EAmbient ambient_enum | EProfile profile_enum | EDrive drive_mode

datatype enum_class = GearC | MotionPhaseC | LightModeC | AccStateC | AutoparkStateC
  | AmbientLightC | ProfileC | DriveModeC

fun members :: "enum_class \<Rightarrow> (string \<times> enum_member) list" where
  "members GearC = [(''PARK'', EGear PARK), (''REVERSE'', EGear REVERSE),
     (''NEUTRAL'', EGear NEUTRAL), (''DRIVE'', EGear DRIVE)]"
| "members MotionPhaseC = [(''STOPPED'', EMotion STOPPED), (''MOVING'', EMotion MOVING)]"
| "members LightModeC = [(''OFF'', ELight LIGHT_OFF), (''ON'', ELight LIGHT_ON)]"
| "members AccStateC = [(''OFF'', EAcc ACC_OFF), (''STANDBY'', EAcc ACC_STANDBY),
     (''ACTIVE'', EAcc ACC_ACTIVE), (''CANCELLED'', EAcc ACC_CANCELLED), (''FAULT'', EAcc ACC_FAULT)]"
| "members AutoparkStateC = [(''OFF'', EAutopark AUTOPARK_OFF), (''ACTIVE'', EAutopark AUTOPARK_ACTIVE)]"
| "members AmbientLightC = [(''DAY'', EAmbient DAY), (''NIGHT'', EAmbient NIGHT)]"
| "members ProfileC = [(''OWNER'', EProfile OWNER), (''GUEST'', EProfile GUEST),
     (''STRANGER'', EProfile STRANGER)]"
| "members DriveModeC = [(''ECO'', EDrive ECO), (''NORMAL'', EDrive NORMAL), (''SPORT'', EDrive SPORT)]"

fun drive_value :: "drive_mode \<Rightarrow> string" where
  "drive_value ECO = ''ECO''"
| "drive_value NORMAL = ''NORMAL''"
| "drive_value SPORT = ''SPORT''"

fun member_value :: "enum_member \<Rightarrow> string" where
  "member_value (EGear g) = gear_value g"
| "member_value (EMotion p) = motion_value p"
| "member_value (ELight l) = light_value l"
| "member_value (EAcc a) = acc_value a"
| "member_value (EAutopark a) = autopark_value a"
| "member_value (EAmbient a) = ambient_value a"
| "member_value (EProfile p) = profile_value p"
| "member_value (EDrive d) = drive_value d"

datatype fval = VPy pyval | VEnum enum_member

fun fval_json :: "fval \<Rightarrow> pyval" where
  "fval_json (VPy v) = v"
| "fval_json (VEnum m) = PStr (member_value m)"

fun fval_truth :: "fval \<Rightarrow> bool" where
  "fval_truth (VPy v) = py_truth v"
| "fval_truth (VEnum m) = True"

section \<open>Fields by name\<close>

record field_ops =
  fo_get :: "vehicle_state \<Rightarrow> fval"
  fo_set :: "fval \<Rightarrow> vehicle_state \<Rightarrow> state_exn + vehicle_state"

text \<open>\<open>replace(state, group=replace(group, field=value))\<close>: the group's own checks, then those
  of the vehicle state.\<close>

definition rebuilt ::
  "(vehicle_state \<Rightarrow> state_exn option) \<Rightarrow> vehicle_state \<Rightarrow> state_exn + vehicle_state" where
  "rebuilt group_error s = (case group_error s of Some e \<Rightarrow> Inl e | None \<Rightarrow> VehicleState s)"

definition bool_field ::
  "(vehicle_state \<Rightarrow> bool) \<Rightarrow> (bool \<Rightarrow> vehicle_state \<Rightarrow> vehicle_state) \<Rightarrow>
   (vehicle_state \<Rightarrow> state_exn option) \<Rightarrow> field_ops" where
  "bool_field get put group_error =
     \<lparr>fo_get = (\<lambda>s. VPy (PBool (get s))),
      fo_set = (\<lambda>v s. case v of
                  VPy (PBool b) \<Rightarrow> rebuilt group_error (put b s)
                | _ \<Rightarrow> Inl (ValidationError ''INVALID_BOOLEAN_FIELD''))\<rparr>"

definition num_field ::
  "(vehicle_state \<Rightarrow> pyval) \<Rightarrow> (pyval \<Rightarrow> vehicle_state \<Rightarrow> vehicle_state) \<Rightarrow>
   (vehicle_state \<Rightarrow> state_exn option) \<Rightarrow> field_ops" where
  "num_field get put group_error =
     \<lparr>fo_get = (\<lambda>s. VPy (get s)),
      fo_set = (\<lambda>v s. case v of
                  VPy x \<Rightarrow> rebuilt group_error (put x s)
                | VEnum _ \<Rightarrow> Inl (ValidationError ''INVALID_NUMERIC_FIELD''))\<rparr>"

definition enum_field ::
  "(enum_member \<Rightarrow> 'a option) \<Rightarrow> ('a \<Rightarrow> enum_member) \<Rightarrow> (vehicle_state \<Rightarrow> 'a) \<Rightarrow>
   ('a \<Rightarrow> vehicle_state \<Rightarrow> vehicle_state) \<Rightarrow> (vehicle_state \<Rightarrow> state_exn option) \<Rightarrow> field_ops" where
  "enum_field of_member to_member get put group_error =
     \<lparr>fo_get = (\<lambda>s. VEnum (to_member (get s))),
      fo_set = (\<lambda>v s. case v of
                  VEnum m \<Rightarrow> (case of_member m of
                      Some a \<Rightarrow> rebuilt group_error (put a s)
                    | None \<Rightarrow> Inl (ValidationError ''INVALID_ENUM_FIELD''))
                | VPy _ \<Rightarrow> Inl (ValidationError ''INVALID_ENUM_FIELD''))\<rparr>"

fun as_gear where "as_gear (EGear g) = Some g" | "as_gear _ = None"
fun as_motion where "as_motion (EMotion g) = Some g" | "as_motion _ = None"
fun as_light where "as_light (ELight g) = Some g" | "as_light _ = None"
fun as_acc where "as_acc (EAcc g) = Some g" | "as_acc _ = None"
fun as_autopark where "as_autopark (EAutopark g) = Some g" | "as_autopark _ = None"
fun as_ambient where "as_ambient (EAmbient g) = Some g" | "as_ambient _ = None"
fun as_profile where "as_profile (EProfile g) = Some g" | "as_profile _ = None"
fun as_drive where "as_drive (EDrive g) = Some g" | "as_drive _ = None"

text \<open>The two fields with checks of their own: \<open>rain_sensor\<close> may be \<open>None\<close>, and
  \<open>passenger_count\<close> must be an integer that is no boolean.\<close>

definition rain_field :: field_ops where
  "rain_field =
     \<lparr>fo_get = (\<lambda>s. VPy (case en_rain_sensor (vs_environment s) of None \<Rightarrow> PNone | Some b \<Rightarrow> PBool b)),
      fo_set = (\<lambda>v s.
        let put = (\<lambda>r. rebuilt (environment_error \<circ> vs_environment)
                         (s\<lparr>vs_environment := (vs_environment s)\<lparr>en_rain_sensor := r\<rparr>\<rparr>))
        in case v of
             VPy PNone \<Rightarrow> put None
           | VPy (PBool b) \<Rightarrow> put (Some b)
           | _ \<Rightarrow> Inl (ValidationError ''INVALID_BOOLEAN_FIELD''))\<rparr>"

definition passenger_field :: field_ops where
  "passenger_field =
     \<lparr>fo_get = (\<lambda>s. VPy (PInt (en_passenger_count (vs_environment s)))),
      fo_set = (\<lambda>v s. case v of
          VPy (PInt i) \<Rightarrow> rebuilt (environment_error \<circ> vs_environment)
                          (s\<lparr>vs_environment := (vs_environment s)\<lparr>en_passenger_count := i\<rparr>\<rparr>)
        | _ \<Rightarrow> Inl (ValidationError ''INVALID_PASSENGER_COUNT''))\<rparr>"

definition FIELDS :: "((string \<times> string) \<times> field_ops) list" where
  "FIELDS =
     [((''power'', ''powered_on''),
        bool_field (pw_powered_on \<circ> vs_power) (\<lambda>x s. s\<lparr>vs_power := (vs_power s)\<lparr>pw_powered_on := x\<rparr>\<rparr>) (power_error \<circ> vs_power)),
      ((''power'', ''charging''),
        bool_field (pw_charging \<circ> vs_power) (\<lambda>x s. s\<lparr>vs_power := (vs_power s)\<lparr>pw_charging := x\<rparr>\<rparr>) (power_error \<circ> vs_power)),
      ((''power'', ''battery_pct''),
        num_field (pw_battery_pct \<circ> vs_power) (\<lambda>x s. s\<lparr>vs_power := (vs_power s)\<lparr>pw_battery_pct := x\<rparr>\<rparr>) (power_error \<circ> vs_power)),
      ((''motion'', ''speed_kph''),
        num_field (mo_speed_kph \<circ> vs_motion) (\<lambda>x s. s\<lparr>vs_motion := (vs_motion s)\<lparr>mo_speed_kph := x\<rparr>\<rparr>) (motion_error \<circ> vs_motion)),
      ((''motion'', ''phase''),
        enum_field as_motion EMotion (mo_phase \<circ> vs_motion)
        (\<lambda>x s. s\<lparr>vs_motion := (vs_motion s)\<lparr>mo_phase := x\<rparr>\<rparr>) (motion_error \<circ> vs_motion)),
      ((''transmission'', ''gear''),
        enum_field as_gear EGear (tm_gear \<circ> vs_transmission)
        (\<lambda>x s. s\<lparr>vs_transmission := (vs_transmission s)\<lparr>tm_gear := x\<rparr>\<rparr>) (\<lambda>_. None)),
      ((''transmission'', ''epb_engaged''),
        bool_field (tm_epb_engaged \<circ> vs_transmission) (\<lambda>x s. s\<lparr>vs_transmission := (vs_transmission s)\<lparr>tm_epb_engaged := x\<rparr>\<rparr>) (\<lambda>_. None)),
      ((''access'', ''trunk_open''),
        bool_field (ac_trunk_open \<circ> vs_access) (\<lambda>x s. s\<lparr>vs_access := (vs_access s)\<lparr>ac_trunk_open := x\<rparr>\<rparr>) (access_error \<circ> vs_access)),
      ((''access'', ''bonnet_open''),
        bool_field (ac_bonnet_open \<circ> vs_access) (\<lambda>x s. s\<lparr>vs_access := (vs_access s)\<lparr>ac_bonnet_open := x\<rparr>\<rparr>) (access_error \<circ> vs_access)),
      ((''access'', ''charge_port_open''),
        bool_field (ac_charge_port_open \<circ> vs_access) (\<lambda>x s. s\<lparr>vs_access := (vs_access s)\<lparr>ac_charge_port_open := x\<rparr>\<rparr>) (access_error \<circ> vs_access)),
      ((''lighting'', ''lowbeam''),
        enum_field as_light ELight (li_lowbeam \<circ> vs_lighting)
        (\<lambda>x s. s\<lparr>vs_lighting := (vs_lighting s)\<lparr>li_lowbeam := x\<rparr>\<rparr>) (\<lambda>_. None)),
      ((''lighting'', ''highbeam''),
        enum_field as_light ELight (li_highbeam \<circ> vs_lighting)
        (\<lambda>x s. s\<lparr>vs_lighting := (vs_lighting s)\<lparr>li_highbeam := x\<rparr>\<rparr>) (\<lambda>_. None)),
      ((''lighting'', ''fog_light''),
        bool_field (li_fog_light \<circ> vs_lighting) (\<lambda>x s. s\<lparr>vs_lighting := (vs_lighting s)\<lparr>li_fog_light := x\<rparr>\<rparr>) (\<lambda>_. None)),
      ((''lighting'', ''hazard_light''),
        bool_field (li_hazard_light \<circ> vs_lighting) (\<lambda>x s. s\<lparr>vs_lighting := (vs_lighting s)\<lparr>li_hazard_light := x\<rparr>\<rparr>) (\<lambda>_. None)),
      ((''lighting'', ''left_turn_signal''),
        bool_field (li_left_turn_signal \<circ> vs_lighting) (\<lambda>x s. s\<lparr>vs_lighting := (vs_lighting s)\<lparr>li_left_turn_signal := x\<rparr>\<rparr>) (\<lambda>_. None)),
      ((''lighting'', ''right_turn_signal''),
        bool_field (li_right_turn_signal \<circ> vs_lighting) (\<lambda>x s. s\<lparr>vs_lighting := (vs_lighting s)\<lparr>li_right_turn_signal := x\<rparr>\<rparr>) (\<lambda>_. None)),
      ((''lighting'', ''cornering_light''),
        bool_field (li_cornering_light \<circ> vs_lighting) (\<lambda>x s. s\<lparr>vs_lighting := (vs_lighting s)\<lparr>li_cornering_light := x\<rparr>\<rparr>) (\<lambda>_. None)),
      ((''lighting'', ''interior_light''),
        bool_field (li_interior_light \<circ> vs_lighting) (\<lambda>x s. s\<lparr>vs_lighting := (vs_lighting s)\<lparr>li_interior_light := x\<rparr>\<rparr>) (\<lambda>_. None)),
      ((''cabin'', ''profile''),
        enum_field as_profile EProfile (ca_profile \<circ> vs_cabin)
        (\<lambda>x s. s\<lparr>vs_cabin := (vs_cabin s)\<lparr>ca_profile := x\<rparr>\<rparr>) (cabin_error \<circ> vs_cabin)),
      ((''cabin'', ''driver_seat_position''),
        num_field (ca_driver_seat_position \<circ> vs_cabin) (\<lambda>x s. s\<lparr>vs_cabin := (vs_cabin s)\<lparr>ca_driver_seat_position := x\<rparr>\<rparr>) (cabin_error \<circ> vs_cabin)),
      ((''cabin'', ''driver_seat_angle''),
        num_field (ca_driver_seat_angle \<circ> vs_cabin) (\<lambda>x s. s\<lparr>vs_cabin := (vs_cabin s)\<lparr>ca_driver_seat_angle := x\<rparr>\<rparr>) (cabin_error \<circ> vs_cabin)),
      ((''cabin'', ''rear_seat_folded''),
        bool_field (ca_rear_seat_folded \<circ> vs_cabin) (\<lambda>x s. s\<lparr>vs_cabin := (vs_cabin s)\<lparr>ca_rear_seat_folded := x\<rparr>\<rparr>) (cabin_error \<circ> vs_cabin)),
      ((''cabin'', ''windows_open''),
        bool_field (ca_windows_open \<circ> vs_cabin) (\<lambda>x s. s\<lparr>vs_cabin := (vs_cabin s)\<lparr>ca_windows_open := x\<rparr>\<rparr>) (cabin_error \<circ> vs_cabin)),
      ((''cabin'', ''sunroof_open''),
        bool_field (ca_sunroof_open \<circ> vs_cabin) (\<lambda>x s. s\<lparr>vs_cabin := (vs_cabin s)\<lparr>ca_sunroof_open := x\<rparr>\<rparr>) (cabin_error \<circ> vs_cabin)),
      ((''cabin'', ''mirrors_folded''),
        bool_field (ca_mirrors_folded \<circ> vs_cabin) (\<lambda>x s. s\<lparr>vs_cabin := (vs_cabin s)\<lparr>ca_mirrors_folded := x\<rparr>\<rparr>) (cabin_error \<circ> vs_cabin)),
      ((''cabin'', ''hud_active''),
        bool_field (ca_hud_active \<circ> vs_cabin) (\<lambda>x s. s\<lparr>vs_cabin := (vs_cabin s)\<lparr>ca_hud_active := x\<rparr>\<rparr>) (cabin_error \<circ> vs_cabin)),
      ((''adas'', ''acc_state''),
        enum_field as_acc EAcc (ad_acc_state \<circ> vs_adas)
        (\<lambda>x s. s\<lparr>vs_adas := (vs_adas s)\<lparr>ad_acc_state := x\<rparr>\<rparr>) (adas_error \<circ> vs_adas)),
      ((''adas'', ''hda_active''),
        bool_field (ad_hda_active \<circ> vs_adas) (\<lambda>x s. s\<lparr>vs_adas := (vs_adas s)\<lparr>ad_hda_active := x\<rparr>\<rparr>) (adas_error \<circ> vs_adas)),
      ((''adas'', ''autopark_state''),
        enum_field as_autopark EAutopark (ad_autopark_state \<circ> vs_adas)
        (\<lambda>x s. s\<lparr>vs_adas := (vs_adas s)\<lparr>ad_autopark_state := x\<rparr>\<rparr>) (adas_error \<circ> vs_adas)),
      ((''adas'', ''lane_keep_assist_active''),
        bool_field (ad_lane_keep_assist_active \<circ> vs_adas) (\<lambda>x s. s\<lparr>vs_adas := (vs_adas s)\<lparr>ad_lane_keep_assist_active := x\<rparr>\<rparr>) (adas_error \<circ> vs_adas)),
      ((''adas'', ''auto_highbeam_active''),
        bool_field (ad_auto_highbeam_active \<circ> vs_adas) (\<lambda>x s. s\<lparr>vs_adas := (vs_adas s)\<lparr>ad_auto_highbeam_active := x\<rparr>\<rparr>) (adas_error \<circ> vs_adas)),
      ((''adas'', ''tcs_active''),
        bool_field (ad_tcs_active \<circ> vs_adas) (\<lambda>x s. s\<lparr>vs_adas := (vs_adas s)\<lparr>ad_tcs_active := x\<rparr>\<rparr>) (adas_error \<circ> vs_adas)),
      ((''adas'', ''esc_active''),
        bool_field (ad_esc_active \<circ> vs_adas) (\<lambda>x s. s\<lparr>vs_adas := (vs_adas s)\<lparr>ad_esc_active := x\<rparr>\<rparr>) (adas_error \<circ> vs_adas)),
      ((''adas'', ''avh_active''),
        bool_field (ad_avh_active \<circ> vs_adas) (\<lambda>x s. s\<lparr>vs_adas := (vs_adas s)\<lparr>ad_avh_active := x\<rparr>\<rparr>) (adas_error \<circ> vs_adas)),
      ((''adas'', ''hand_on_steeringwheel''),
        bool_field (ad_hand_on_steeringwheel \<circ> vs_adas) (\<lambda>x s. s\<lparr>vs_adas := (vs_adas s)\<lparr>ad_hand_on_steeringwheel := x\<rparr>\<rparr>) (adas_error \<circ> vs_adas)),
      ((''modes'', ''drive_mode''),
        enum_field as_drive EDrive (md_drive_mode \<circ> vs_modes)
        (\<lambda>x s. s\<lparr>vs_modes := (vs_modes s)\<lparr>md_drive_mode := x\<rparr>\<rparr>) (mode_error \<circ> vs_modes)),
      ((''modes'', ''creep_mode_active''),
        bool_field (md_creep_mode_active \<circ> vs_modes) (\<lambda>x s. s\<lparr>vs_modes := (vs_modes s)\<lparr>md_creep_mode_active := x\<rparr>\<rparr>) (mode_error \<circ> vs_modes)),
      ((''modes'', ''camp_mode_active''),
        bool_field (md_camp_mode_active \<circ> vs_modes) (\<lambda>x s. s\<lparr>vs_modes := (vs_modes s)\<lparr>md_camp_mode_active := x\<rparr>\<rparr>) (mode_error \<circ> vs_modes)),
      ((''modes'', ''pet_mode_active''),
        bool_field (md_pet_mode_active \<circ> vs_modes) (\<lambda>x s. s\<lparr>vs_modes := (vs_modes s)\<lparr>md_pet_mode_active := x\<rparr>\<rparr>) (mode_error \<circ> vs_modes)),
      ((''modes'', ''valet_mode_active''),
        bool_field (md_valet_mode_active \<circ> vs_modes) (\<lambda>x s. s\<lparr>vs_modes := (vs_modes s)\<lparr>md_valet_mode_active := x\<rparr>\<rparr>) (mode_error \<circ> vs_modes)),
      ((''environment'', ''rain_sensor''),
        rain_field),
      ((''environment'', ''ambient_light''),
        enum_field as_ambient EAmbient (en_ambient_light \<circ> vs_environment)
        (\<lambda>x s. s\<lparr>vs_environment := (vs_environment s)\<lparr>en_ambient_light := x\<rparr>\<rparr>) (environment_error \<circ> vs_environment)),
      ((''environment'', ''obstacle_detected''),
        bool_field (en_obstacle_detected \<circ> vs_environment) (\<lambda>x s. s\<lparr>vs_environment := (vs_environment s)\<lparr>en_obstacle_detected := x\<rparr>\<rparr>) (environment_error \<circ> vs_environment)),
      ((''environment'', ''driver_present''),
        bool_field (en_driver_present \<circ> vs_environment) (\<lambda>x s. s\<lparr>vs_environment := (vs_environment s)\<lparr>en_driver_present := x\<rparr>\<rparr>) (environment_error \<circ> vs_environment)),
      ((''environment'', ''passenger_count''),
        passenger_field),
      ((''ui'', ''notification_center_open''),
        bool_field (ui_notification_center_open \<circ> vs_ui) (\<lambda>x s. s\<lparr>vs_ui := (vs_ui s)\<lparr>ui_notification_center_open := x\<rparr>\<rparr>) (\<lambda>_. None))]"

definition SUBSTATES :: "string list" where
  "SUBSTATES = [''power'', ''motion'', ''transmission'', ''access'', ''lighting'', ''cabin'',
     ''adas'', ''modes'', ''environment'', ''ui'']"

text \<open>An unknown field is an \<open>AttributeError\<close> of \<open>getattr\<close> or a \<open>TypeError\<close> of
  \<open>replace\<close>; \<open>doors\<close> takes no value of these kinds.\<close>

definition get_field :: "string \<Rightarrow> string \<Rightarrow> vehicle_state \<Rightarrow> agent_exn + fval" where
  "get_field sub f s =
     (case map_of FIELDS (sub, f) of
        None \<Rightarrow> Inl (OtherErr ''AttributeError'')
      | Some ops \<Rightarrow> Inr (fo_get ops s))"

definition put_field :: "string \<Rightarrow> string \<Rightarrow> fval \<Rightarrow> vehicle_state \<Rightarrow> agent_exn + vehicle_state" where
  "put_field sub f v s =
     (case map_of FIELDS (sub, f) of
        None \<Rightarrow> Inl (OtherErr ''TypeError'')
      | Some ops \<Rightarrow> (case fo_set ops v s of Inl e \<Rightarrow> Inl (StateErr e) | Inr t \<Rightarrow> Inr t))"

section \<open>Configurations\<close>

datatype handler_type = TOGGLE | ENUM_SETTER | ACCESS | POSITION | TIMED | ONE_SHOT
  | ACTIVE_ACTION | COMPOUND

text \<open>A handler type is a member of the enumeration or a string, which is matched with the
  members' values in lower case.\<close>

datatype handler_spec = HType handler_type | HName string

definition HANDLER_TYPES :: "(string \<times> handler_type) list" where
  "HANDLER_TYPES =
     [(''toggle'', TOGGLE), (''enum_setter'', ENUM_SETTER), (''access'', ACCESS),
      (''position'', POSITION), (''timed'', TIMED), (''one_shot'', ONE_SHOT),
      (''active_action'', ACTIVE_ACTION), (''compound'', COMPOUND)]"

fun normalize_type :: "handler_spec \<Rightarrow> handler_type option" where
  "normalize_type (HType h) = Some h"
| "normalize_type (HName s) = map_of HANDLER_TYPES (lower s)"

text \<open>\<open>BehaviorConfig\<close> without the two fields no code reads (\<open>step_range\<close>,
  \<open>allowed_values\<close>); the recursive \<open>sub_configs\<close> stand beside the record.\<close>

record config_fields =
  bc_intent_id :: string
  bc_handler_type :: handler_spec
  bc_target_substate :: "string option"
  bc_target_field :: "string option"
  bc_param_name :: "string option"
  bc_enum_cls :: "enum_class option"
  bc_value_range :: "rat list option"
  bc_default_value :: "fval option"
  bc_duration_seconds :: "rat option"
  bc_event_name :: "string option"
  bc_active_action_name :: "string option"

datatype behavior_config = Config (cfg: config_fields) (sub_configs: "behavior_config list")

definition BehaviorConfig :: "string \<Rightarrow> handler_type \<Rightarrow> config_fields" where
  "BehaviorConfig intent h =
     \<lparr>bc_intent_id = intent, bc_handler_type = HType h, bc_target_substate = None,
      bc_target_field = None, bc_param_name = None, bc_enum_cls = None, bc_value_range = None,
      bc_default_value = None, bc_duration_seconds = None, bc_event_name = None,
      bc_active_action_name = None\<rparr>"

text \<open>\<open>not x\<close> and \<open>x or d\<close> of an optional string.\<close>

definition opt_str :: "string option \<Rightarrow> string" where
  "opt_str x = (case x of None \<Rightarrow> [] | Some s \<Rightarrow> s)"

definition str_or :: "string option \<Rightarrow> string \<Rightarrow> string" where
  "str_or x d = (if opt_str x = [] then d else opt_str x)"

definition config_check :: "bool \<Rightarrow> agent_exn option" where
  "config_check ok = (if ok then None else Some (ExecErr ''INVALID_BEHAVIOR_CONFIG'' False))"

definition has_target :: "config_fields \<Rightarrow> bool" where
  "has_target c = (opt_str (bc_target_substate c) \<noteq> [] \<and> opt_str (bc_target_field c) \<noteq> [])"

definition target_check :: "config_fields \<Rightarrow> agent_exn option" where
  "target_check c =
     first_error [config_check (has_target c),
                  config_check (opt_str (bc_target_substate c) \<in> set SUBSTATES)]"

definition range_ok :: "rat list \<Rightarrow> bool" where
  "range_ok r = (length r = 2 \<and> r ! 0 \<le> r ! 1)"

fun validate_behavior_config :: "behavior_config \<Rightarrow> agent_exn option" where
  "validate_behavior_config (Config c subs) =
     (if bc_intent_id c = [] then config_check False
      else case normalize_type (bc_handler_type c) of
        None \<Rightarrow> config_check False
      | Some TOGGLE \<Rightarrow> target_check c
      | Some ENUM_SETTER \<Rightarrow>
          first_error [config_check (has_target c \<and> bc_enum_cls c \<noteq> None), target_check c]
      | Some ACCESS \<Rightarrow> config_check (str_or (bc_target_substate c) ''access'' = ''access'')
      | Some POSITION \<Rightarrow>
          first_error [target_check c,
            config_check (case bc_value_range c of None \<Rightarrow> True | Some r \<Rightarrow> range_ok r)]
      | Some TIMED \<Rightarrow>
          first_error [target_check c,
            config_check (case bc_duration_seconds c of None \<Rightarrow> True | Some d \<Rightarrow> 0 < d)]
      | Some ONE_SHOT \<Rightarrow> None
      | Some ACTIVE_ACTION \<Rightarrow> None
      | Some COMPOUND \<Rightarrow>
          (if subs = [] then config_check False
           else first_error (map validate_behavior_config subs)))"

definition readiness_error :: agent_exn where
  "readiness_error = ExecErr ''BEHAVIOR_READINESS_FAILED'' False"

fun catalog_scan :: "behavior_config list \<Rightarrow> string list \<Rightarrow> agent_exn + string list" where
  "catalog_scan [] seen = Inr seen"
| "catalog_scan (c # cs) seen =
     (if validate_behavior_config c \<noteq> None then Inl readiness_error
      else if bc_intent_id (cfg c) \<in> set seen then Inl readiness_error
      else catalog_scan cs (bc_intent_id (cfg c) # seen))"

definition validate_behavior_catalog_readiness ::
  "behavior_config list \<Rightarrow> string list option \<Rightarrow> agent_exn option" where
  "validate_behavior_catalog_readiness configs required =
     (case catalog_scan configs [] of
        Inl e \<Rightarrow> Some e
      | Inr seen \<Rightarrow>
          (case required of
             None \<Rightarrow> None
           | Some rs \<Rightarrow> if set rs \<subseteq> set seen then None else Some readiness_error))"

section \<open>The base of the handlers\<close>

type_synonym handler =
  "payload \<Rightarrow> state_machine \<Rightarrow> agent_world \<Rightarrow> (agent_exn + payload) \<times> state_machine \<times> agent_world"

definition exec_error :: "string \<Rightarrow> agent_exn" where
  "exec_error code = ExecErr code False"

definition door_target_error :: agent_exn where
  "door_target_error = ExecErr ''INVALID_DOOR_TARGET'' False"

definition extract_parameters :: "payload \<Rightarrow> payload" where
  "extract_parameters proposal =
     (case py_or (get_key proposal ''parameters'') (get_key proposal ''arguments'') of
        PDict params \<Rightarrow> params
      | _ \<Rightarrow> proposal)"

definition correlation_of :: "platform \<Rightarrow> string \<Rightarrow> payload \<Rightarrow> string" where
  "correlation_of pf fallback proposal =
     py_str pf (py_or (py_or (get_key proposal ''proposal_id'') (get_key proposal ''correlation_id''))
                  (PStr fallback))"

definition pure_patch :: "(vehicle_state \<Rightarrow> agent_exn + vehicle_state) \<Rightarrow> patch" where
  "pure_patch f s w = (case f s of Inl e \<Rightarrow> (Inl e, w) | Inr t \<Rightarrow> (Inr (Some t), w))"

fun unwrap_exn :: "agent_exn \<Rightarrow> agent_exn" where
  "unwrap_exn (TransitionErr (ExecErr c r)) = ExecErr c r"
| "unwrap_exn e = e"

text \<open>\<open>_apply_transition\<close>, and what the handlers do with the event.\<close>

definition base_transition ::
  "platform \<Rightarrow> config_fields \<Rightarrow> patch \<Rightarrow> (state_event \<Rightarrow> agent_exn + payload) \<Rightarrow> handler" where
  "base_transition pf c patch result proposal m w =
     (case apply_transition patch AGENT (''handler_'' @ bc_intent_id c)
             (correlation_of pf (''exec_'' @ bc_intent_id c) proposal) None m w of
        (Inl e, m', w') \<Rightarrow> (Inl (unwrap_exn e), m', w')
      | (Inr event, m', w') \<Rightarrow> (result event, m', w'))"

definition result_dict :: "int \<Rightarrow> payload \<Rightarrow> string \<Rightarrow> payload" where
  "result_dict version facts message =
     [(''state_version'', PInt version), (''facts'', PDict facts), (''message'', PStr message)]"

definition sub_of :: "config_fields \<Rightarrow> string" where
  "sub_of c = opt_str (bc_target_substate c)"

definition field_of :: "config_fields \<Rightarrow> string" where
  "field_of c = opt_str (bc_target_field c)"

section \<open>Toggle\<close>

definition toggle_value :: "platform \<Rightarrow> pyval option \<Rightarrow> fval \<Rightarrow> bool" where
  "toggle_value pf raw current =
     (case raw of
        None \<Rightarrow> \<not> fval_truth current
      | Some v \<Rightarrow>
          (let text = lower (py_str pf v) in
           if text \<in> {''toggle'', ''switch''} then \<not> fval_truth current
           else case v of
             PBool b \<Rightarrow> b
           | _ \<Rightarrow>
               if text \<in> {''on'', ''true'', ''enable'', ''activate'', ''1''} then True
               else if text \<in> {''off'', ''false'', ''disable'', ''deactivate'', ''0''} then False
               else \<not> fval_truth current))"

definition toggle_patch :: "platform \<Rightarrow> config_fields \<Rightarrow> pyval option \<Rightarrow> vehicle_state \<Rightarrow> agent_exn + vehicle_state" where
  "toggle_patch pf c raw s =
     (case get_field (sub_of c) (field_of c) s of
        Inl e \<Rightarrow> Inl e
      | Inr current \<Rightarrow>
          put_field (sub_of c) (field_of c) (VPy (PBool (toggle_value pf raw current))) s)"

definition field_result :: "platform \<Rightarrow> config_fields \<Rightarrow> string \<Rightarrow> state_event \<Rightarrow> agent_exn + payload" where
  "field_result pf c verb event =
     (case get_field (sub_of c) (field_of c) (sev_snapshot event) of
        Inl e \<Rightarrow> Inl e
      | Inr v \<Rightarrow> Inr (result_dict (sev_next_version event)
          [(''intent'', PStr (bc_intent_id c)), (''field'', PStr (field_of c)), (''value'', fval_json v)]
          (''Successfully '' @ verb @ '' '' @ repr_str (field_of c) @ '' to '' @ py_str pf (fval_json v))))"

definition toggle_handler :: "platform \<Rightarrow> config_fields \<Rightarrow> handler" where
  "toggle_handler pf c proposal =
     base_transition pf c
       (pure_patch (toggle_patch pf c
          (first_param [opt_str (bc_param_name c), ''state'', ''value'', ''enable'', ''on'', ''action'']
             (extract_parameters proposal))))
       (field_result pf c ''updated'') proposal"

section \<open>Enumeration setter\<close>

definition find_member :: "enum_class \<Rightarrow> string \<Rightarrow> enum_member option" where
  "find_member cls raw_str =
     map_option snd (find (\<lambda>(name, m). member_value m = raw_str \<or> lower name = lower raw_str \<or>
                              lower (member_value m) = lower raw_str) (members cls))"

definition target_member :: "enum_class \<Rightarrow> fval \<Rightarrow> enum_member option" where
  "target_member cls raw =
     (case raw of
        VEnum m \<Rightarrow> if m \<in> snd ` set (members cls) then Some m
                   else find_member cls (strip_ws (member_value m))
      | VPy (PStr s) \<Rightarrow> find_member cls (strip_ws s)
      | VPy _ \<Rightarrow> None)"

definition enum_raw :: "config_fields \<Rightarrow> payload \<Rightarrow> fval option" where
  "enum_raw c params =
     (case first_param [opt_str (bc_param_name c), ''mode'', ''value'', ''setting'', ''state''] params of
        Some v \<Rightarrow> Some (VPy v)
      | None \<Rightarrow> bc_default_value c)"

definition enum_handler :: "platform \<Rightarrow> config_fields \<Rightarrow> handler" where
  "enum_handler pf c proposal m w =
     (case (enum_raw c (extract_parameters proposal), bc_enum_cls c) of
        (Some raw, Some cls) \<Rightarrow>
          (case target_member cls raw of
             None \<Rightarrow> (Inl (exec_error ''INVALID_ENUM_VALUE''), m, w)
           | Some e \<Rightarrow>
               base_transition pf c (pure_patch (put_field (sub_of c) (field_of c) (VEnum e)))
                 (\<lambda>event. Inr (result_dict (sev_next_version event)
                    [(''intent'', PStr (bc_intent_id c)), (''field'', PStr (field_of c)),
                     (''value'', PStr (member_value e))]
                    (''Successfully set '' @ repr_str (field_of c) @ '' to '' @ repr_str (member_value e))))
                 proposal m w)
      | (None, _) \<Rightarrow> (Inl (exec_error ''INVALID_ENUM_VALUE''), m, w)
      | (Some _, None) \<Rightarrow> (Inl (OtherErr ''AssertionError''), m, w))"

section \<open>Doors\<close>

definition SHORT_DOOR_ALIASES :: "(string \<times> string) list" where
  "SHORT_DOOR_ALIASES =
     [(''driver'', ''driver_door''), (''front_passenger'', ''front_passenger_door''),
      (''passenger_door'', ''front_passenger_door''), (''rear_left'', ''rear_left_door''),
      (''rear_right'', ''rear_right_door'')]"

definition DOOR_ALIAS_MAP :: "(string \<times> string) list" where
  "DOOR_ALIAS_MAP = map (\<lambda>i. (i, i)) REQUIRED_DOOR_IDS @ SHORT_DOOR_ALIASES"

definition resolve_alias :: "string \<Rightarrow> string option" where
  "resolve_alias raw =
     (case map_of DOOR_ALIAS_MAP (lower (strip_ws raw)) of
        None \<Rightarrow> None
      | Some d \<Rightarrow> if d \<in> set REQUIRED_DOOR_IDS then Some d else None)"

definition access_action :: "string \<Rightarrow> door_position \<times> lock_state" where
  "access_action action_str =
     (if action_str \<in> {''open'', ''unlock_and_open''} then (DOOR_OPEN, UNLOCKED)
      else if action_str \<in> {''close'', ''shut''} then (DOOR_CLOSED, UNLOCKED)
      else if action_str = ''lock'' then (DOOR_CLOSED, LOCKED)
      else if action_str = ''unlock'' then (DOOR_CLOSED, UNLOCKED)
      else if contains ''open'' action_str then (DOOR_OPEN, UNLOCKED)
      else if contains ''lock'' action_str then (DOOR_CLOSED, LOCKED)
      else (DOOR_CLOSED, UNLOCKED))"

definition set_door :: "string \<Rightarrow> door_position \<Rightarrow> lock_state \<Rightarrow> vehicle_state \<Rightarrow> agent_exn + vehicle_state" where
  "set_door door_id pos lock s =
     (let doors = map (\<lambda>d. if dr_door_id d = door_id then d\<lparr>dr_position := pos, dr_lock := lock\<rparr> else d)
                    (ac_doors (vs_access s));
          access = (vs_access s)\<lparr>ac_doors := doors\<rparr>
      in case first_error (map door_error doors @ [access_error access]) of
           Some e \<Rightarrow> Inl (StateErr e)
         | None \<Rightarrow> (case VehicleState (s\<lparr>vs_access := access\<rparr>) of
                      Inl e \<Rightarrow> Inl (StateErr e) | Inr t \<Rightarrow> Inr t))"

fun position_value :: "door_position \<Rightarrow> string" where
  "position_value DOOR_CLOSED = ''CLOSED''"
| "position_value DOOR_OPEN = ''OPEN''"

text \<open>The door a parameter names: a string that is not empty and is an alias of a door.\<close>

definition door_target :: "pyval \<Rightarrow> agent_exn + string" where
  "door_target raw =
     (case raw of
        PStr s \<Rightarrow> (if s = [] then Inl door_target_error
                   else case resolve_alias s of
                     None \<Rightarrow> Inl door_target_error
                   | Some door \<Rightarrow> Inr door)
      | _ \<Rightarrow> Inl door_target_error)"

definition access_target :: "payload \<Rightarrow> agent_exn + string" where
  "access_target params =
     (case first_param [''door'', ''door_id'', ''window'', ''target'', ''item''] params of
        None \<Rightarrow> Inl door_target_error
      | Some raw \<Rightarrow> door_target raw)"

definition access_command :: "platform \<Rightarrow> payload \<Rightarrow> door_position \<times> lock_state" where
  "access_command pf params =
     access_action
       (case first_param [''action'', ''position'', ''state''] params of
          None \<Rightarrow> ''open''
        | Some v \<Rightarrow> if py_truth v then lower (strip_ws (py_str pf v)) else ''open'')"

definition access_handler :: "platform \<Rightarrow> config_fields \<Rightarrow> handler" where
  "access_handler pf c proposal m w =
     (let params = extract_parameters proposal in
      case access_target params of
        Inl e \<Rightarrow> (Inl e, m, w)
      | Inr door \<Rightarrow>
          (let (pos, lock) = access_command pf params
           in base_transition pf c (pure_patch (set_door door pos lock))
                (\<lambda>event. Inr (result_dict (sev_next_version event)
                   [(''intent'', PStr (bc_intent_id c)), (''target'', PStr door),
                    (''position'', PStr (position_value pos)), (''lock'', PStr (lock_value lock))]
                   (''Access actuator applied for '' @ repr_str door)))
                proposal m w))"

text \<open>\<open>OpenDoorHandler\<close>, the dedicated handler of \<open>open_door.py\<close>.\<close>

definition resolve_door_target :: "payload \<Rightarrow> agent_exn + string" where
  "resolve_door_target params =
     (if params = [] then Inl door_target_error
      else door_target
        (py_or (py_or (py_or (get_key params ''door'') (get_key params ''door_id''))
                      (get_key params ''target_door'')) (get_key params ''target'')))"

definition open_door_handler :: "platform \<Rightarrow> string \<Rightarrow> handler" where
  "open_door_handler pf actor_id proposal m w =
     (case resolve_door_target (extract_parameters proposal) of
        Inl e \<Rightarrow> (Inl e, m, w)
      | Inr door \<Rightarrow>
          (case apply_transition (pure_patch (set_door door DOOR_OPEN UNLOCKED)) AGENT actor_id
                  (correlation_of pf ''open_door_exec'' proposal) None m w of
             (Inl e, m', w') \<Rightarrow> (Inl e, m', w')
           | (Inr event, m', w') \<Rightarrow>
               (Inr (result_dict (sev_next_version event)
                  [(''target_door'', PStr door), (''position'', PStr (position_value DOOR_OPEN)),
                   (''lock'', PStr (lock_value UNLOCKED))]
                  (''Successfully opened door '' @ repr_str door)), m', w')))"

section \<open>Position\<close>

text \<open>\<open>float(v)\<close>: \<open>ValueError\<close> and \<open>TypeError\<close> are \<open>None\<close>, an integer out of range is
  the \<open>OverflowError\<close>.\<close>

datatype float_result = FloatOk pyfloat | FloatBad | FloatOverflow

fun to_float :: "agent_platform \<Rightarrow> pyval \<Rightarrow> float_result" where
  "to_float pf (PBool b) = FloatOk (Fin (of_bool b))"
| "to_float pf (PInt i) = (if float_overflows i then FloatOverflow else FloatOk (ap_round pf (of_int i)))"
| "to_float pf (PFloat f) = FloatOk f"
| "to_float pf (PStr s) = (case ap_parse pf s of None \<Rightarrow> FloatBad | Some f \<Rightarrow> FloatOk f)"
| "to_float pf _ = FloatBad"

fun float_add :: "agent_platform \<Rightarrow> pyfloat \<Rightarrow> pyfloat \<Rightarrow> pyfloat" where
  "float_add pf (Fin a) (Fin b) = ap_round pf (a + b)"
| "float_add pf NaN _ = NaN"
| "float_add pf _ NaN = NaN"
| "float_add pf PosInf NegInf = NaN"
| "float_add pf NegInf PosInf = NaN"
| "float_add pf PosInf _ = PosInf"
| "float_add pf NegInf _ = NegInf"
| "float_add pf (Fin _) PosInf = PosInf"
| "float_add pf (Fin _) NegInf = NegInf"

definition float_or :: "string \<Rightarrow> float_result \<Rightarrow> agent_exn + pyfloat" where
  "float_or code r =
     (case r of FloatOk f \<Rightarrow> Inr f | FloatBad \<Rightarrow> Inl (exec_error code)
              | FloatOverflow \<Rightarrow> Inl (OtherErr ''OverflowError''))"

definition position_value_of ::
  "agent_platform \<Rightarrow> config_fields \<Rightarrow> pyval option \<Rightarrow> pyval option \<Rightarrow> fval \<Rightarrow> agent_exn + pyfloat" where
  "position_value_of pf c raw delta current =
     (case raw of
        Some v \<Rightarrow> float_or ''INVALID_NUMERIC_VALUE'' (to_float pf v)
      | None \<Rightarrow>
          (case delta of
             Some d \<Rightarrow>
               (case float_or ''INVALID_NUMERIC_VALUE'' (to_float pf (fval_json current)) of
                  Inl e \<Rightarrow> Inl e
                | Inr a \<Rightarrow> (case float_or ''INVALID_NUMERIC_VALUE'' (to_float pf d) of
                             Inl e \<Rightarrow> Inl e
                           | Inr b \<Rightarrow> Inr (float_add pf a b)))
           | None \<Rightarrow>
               (case bc_default_value c of
                  Some v \<Rightarrow> (case to_float pf (fval_json v) of
                      FloatOk f \<Rightarrow> Inr f | FloatBad \<Rightarrow> Inl (OtherErr ''ValueError'')
                    | FloatOverflow \<Rightarrow> Inl (OtherErr ''OverflowError''))
                | None \<Rightarrow> Inl (exec_error ''MISSING_POSITION_VALUE''))))"

definition out_of_range :: "rat list option \<Rightarrow> pyfloat \<Rightarrow> bool" where
  "out_of_range r f =
     (case r of Some [lo, hi] \<Rightarrow> num_lt f (Fin lo) \<or> num_lt (Fin hi) f | _ \<Rightarrow> False)"

text \<open>\<open>int(round(val)) if isinstance(current_val, int) else val\<close>; booleans are integers.\<close>

definition position_target :: "fval \<Rightarrow> pyfloat \<Rightarrow> agent_exn + pyval" where
  "position_target current f =
     (case current of
        VPy (PInt _) \<Rightarrow> (case f of Fin r \<Rightarrow> Inr (PInt (py_round r)) | _ \<Rightarrow> Inl (OtherErr ''round''))
      | VPy (PBool _) \<Rightarrow> (case f of Fin r \<Rightarrow> Inr (PInt (py_round r)) | _ \<Rightarrow> Inl (OtherErr ''round''))
      | _ \<Rightarrow> Inr (PFloat f))"

definition position_patch ::
  "agent_platform \<Rightarrow> config_fields \<Rightarrow> pyval option \<Rightarrow> pyval option \<Rightarrow> vehicle_state \<Rightarrow> agent_exn + vehicle_state" where
  "position_patch pf c raw delta s =
     (case get_field (sub_of c) (field_of c) s of
        Inl e \<Rightarrow> Inl e
      | Inr current \<Rightarrow>
          (case position_value_of pf c raw delta current of
             Inl e \<Rightarrow> Inl e
           | Inr f \<Rightarrow>
               if out_of_range (bc_value_range c) f then Inl (exec_error ''VALUE_OUT_OF_RANGE'')
               else (case position_target current f of
                       Inl e \<Rightarrow> Inl e
                     | Inr v \<Rightarrow> put_field (sub_of c) (field_of c) (VPy v) s)))"

definition position_handler :: "agent_platform \<Rightarrow> config_fields \<Rightarrow> handler" where
  "position_handler pf c proposal =
     (let params = extract_parameters proposal in
      base_transition (platform.truncate pf) c
        (pure_patch (position_patch pf c
           (first_param [opt_str (bc_param_name c), ''value'', ''position'', ''angle'', ''temperature'',
              ''level''] params)
           (first_param [''delta'', ''adjustment''] params)))
        (field_result (platform.truncate pf) c ''set position'') proposal)"

section \<open>Timed and one-shot\<close>

text \<open>A duration that is no number is the default of 300 seconds; only an integer too large
  for a float escapes.\<close>

definition duration_of :: "agent_platform \<Rightarrow> config_fields \<Rightarrow> payload \<Rightarrow> agent_exn + pyfloat" where
  "duration_of pf c params =
     (let given = first_param [''duration'', ''duration_seconds''] params;
          raw = (case given of Some v \<Rightarrow> v
                 | None \<Rightarrow> (case bc_duration_seconds c of
                              None \<Rightarrow> PFloat (Fin 300)
                            | Some d \<Rightarrow> if d = 0 then PFloat (Fin 300) else PFloat (Fin d)))
      in case to_float pf raw of
           FloatOk f \<Rightarrow> Inr f
         | FloatBad \<Rightarrow> Inr (Fin 300)
         | FloatOverflow \<Rightarrow> Inl (OtherErr ''OverflowError''))"

definition timed_handler :: "agent_platform \<Rightarrow> config_fields \<Rightarrow> handler" where
  "timed_handler pf c proposal m w =
     (case duration_of pf c (extract_parameters proposal) of
        Inl e \<Rightarrow> (Inl e, m, w)
      | Inr d \<Rightarrow>
          if num_le d (Fin 0) then (Inl (exec_error ''INVALID_DURATION''), m, w)
          else base_transition (platform.truncate pf) c
            (pure_patch (put_field (sub_of c) (field_of c) (VPy (PBool True))))
            (\<lambda>event. Inr (result_dict (sev_next_version event)
               [(''intent'', PStr (bc_intent_id c)), (''field'', PStr (field_of c)),
                (''duration_seconds'', PFloat d), (''status'', PStr ''initiated'')]
               (''Initiated timed transition for '' @ repr_str (field_of c) @ '' ('' @
                 float_text (platform.truncate pf) d @ ''s)'')))
            proposal m w)"

definition one_shot_result :: "config_fields \<Rightarrow> int \<Rightarrow> payload" where
  "one_shot_result c version =
     (let event_name = str_or (bc_event_name c) (bc_intent_id c) in
      result_dict version
        [(''intent'', PStr (bc_intent_id c)), (''one_shot_event'', PStr event_name),
         (''triggered'', PBool True)]
        (''Fired one-shot event '' @ repr_str event_name))"

definition one_shot_handler :: "platform \<Rightarrow> config_fields \<Rightarrow> handler" where
  "one_shot_handler pf c proposal m w =
     (if has_target c
      then base_transition pf c (pure_patch (put_field (sub_of c) (field_of c) (VPy (PBool True))))
             (\<lambda>event. Inr (one_shot_result c (sev_next_version event))) proposal m w
      else (Inr (one_shot_result c (vs_state_version (sm_state m))), m, w))"

section \<open>Active actions\<close>

definition new_action :: "string \<Rightarrow> string \<Rightarrow> action_phase \<Rightarrow> state_exn + vs_action" where
  "new_action action_id intent phase =
     (let a = \<lparr>act_action_id = action_id, act_intent = intent, act_phase = phase,
               act_progress = PFloat (Fin 0)\<rparr>
      in case action_error a of Some e \<Rightarrow> Inl e | None \<Rightarrow> Inr a)"

text \<open>Replace the action of this intent, and set the target field if there is one.\<close>

definition put_action ::
  "config_fields \<Rightarrow> string \<Rightarrow> bool \<Rightarrow> vehicle_state \<Rightarrow> agent_exn + vehicle_state" where
  "put_action c action_id active s =
     (let others = filter (\<lambda>a. act_intent a \<noteq> bc_intent_id c) (vs_active_actions s) in
      case (if active then map_sum id (\<lambda>a. [a]) (new_action action_id (bc_intent_id c) PH_STARTED)
            else Inr []) of
        Inl e \<Rightarrow> Inl (StateErr e)
      | Inr new \<Rightarrow>
          (case VehicleState (s\<lparr>vs_active_actions := others @ new\<rparr>) of
             Inl e \<Rightarrow> Inl (StateErr e)
           | Inr t \<Rightarrow>
               if has_target c then put_field (sub_of c) (field_of c) (VPy (PBool active)) t
               else Inr t))"

definition stops :: "string \<Rightarrow> bool" where
  "stops action_cmd = (contains ''stop'' action_cmd \<or> contains ''cancel'' action_cmd)"

definition active_handler :: "platform \<Rightarrow> config_fields \<Rightarrow> handler" where
  "active_handler pf c proposal m w =
     (let params = extract_parameters proposal;
          action_name = str_or (bc_active_action_name c) (bc_intent_id c);
          (u, w1) = draw_uuid w;
          action_id = ''act-'' @ take 8 u;
          action_cmd = lower (py_str pf (py_or (py_or (get_key params ''action'')
                                                 (get_key params ''command'')) (PStr ''start'')));
          active = (\<not> stops action_cmd);
          phase = phase_value (if active then PH_STARTED else PH_STOPPED)
      in base_transition pf c (pure_patch (put_action c action_id active))
           (\<lambda>event. Inr (result_dict (sev_next_version event)
              [(''intent'', PStr (bc_intent_id c)), (''action_name'', PStr action_name),
               (''action_id'', PStr action_id), (''phase'', PStr phase)]
              (''Active action '' @ repr_str action_name @ '' transition to phase '' @ repr_str phase)))
           proposal m w1)"

section \<open>Compound\<close>

text \<open>\<open>_apply_sub_config_state_mutation\<close>; every sub-configuration runs on the state the one
  before it built, and an exception ends the whole patch.\<close>

fun sub_mutation :: "behavior_config \<Rightarrow> vehicle_state \<Rightarrow> agent_world \<Rightarrow> (agent_exn + vehicle_state) \<times> agent_world"
  and sub_mutations :: "behavior_config list \<Rightarrow> vehicle_state \<Rightarrow> agent_world \<Rightarrow>
                        (agent_exn + vehicle_state) \<times> agent_world" where
  "sub_mutation (Config c subs) s w =
     (case normalize_type (bc_handler_type c) of
        None \<Rightarrow> (Inl (OtherErr ''ValueError''), w)
      | Some TOGGLE \<Rightarrow>
          (if \<not> has_target c then (Inr s, w)
           else case get_field (sub_of c) (field_of c) s of
             Inl e \<Rightarrow> (Inl e, w)
           | Inr current \<Rightarrow>
               (put_field (sub_of c) (field_of c)
                  (VPy (PBool (case bc_default_value c of
                                 None \<Rightarrow> \<not> fval_truth current | Some v \<Rightarrow> fval_truth v))) s, w))
      | Some ENUM_SETTER \<Rightarrow>
          (if \<not> has_target c then (Inr s, w)
           else case bc_default_value c of
             None \<Rightarrow> (Inr s, w)
           | Some v \<Rightarrow> (put_field (sub_of c) (field_of c) v s, w))
      | Some POSITION \<Rightarrow>
          (if \<not> has_target c then (Inr s, w)
           else case bc_default_value c of
             None \<Rightarrow> (Inr s, w)
           | Some v \<Rightarrow> (put_field (sub_of c) (field_of c) v s, w))
      | Some TIMED \<Rightarrow>
          (if \<not> has_target c then (Inr s, w)
           else (put_field (sub_of c) (field_of c) (VPy (PBool True)) s, w))
      | Some ONE_SHOT \<Rightarrow>
          (if \<not> has_target c then (Inr s, w)
           else (put_field (sub_of c) (field_of c) (VPy (PBool True)) s, w))
      | Some ACTIVE_ACTION \<Rightarrow>
          (let (u, w1) = draw_uuid w in (put_action c (''act-'' @ take 8 u) True s, w1))
      | Some COMPOUND \<Rightarrow> sub_mutations subs s w
      | Some ACCESS \<Rightarrow> (Inr s, w))"
| "sub_mutations [] s w = (Inr s, w)"
| "sub_mutations (c # cs) s w =
     (case sub_mutation c s w of
        (Inl e, w1) \<Rightarrow> (Inl e, w1)
      | (Inr t, w1) \<Rightarrow> sub_mutations cs t w1)"

definition compound_patch :: "behavior_config list \<Rightarrow> patch" where
  "compound_patch subs s w =
     (case sub_mutations subs s w of (Inl e, w1) \<Rightarrow> (Inl e, w1) | (Inr t, w1) \<Rightarrow> (Inr (Some t), w1))"

definition compound_handler :: "platform \<Rightarrow> config_fields \<Rightarrow> behavior_config list \<Rightarrow> handler" where
  "compound_handler pf c subs =
     base_transition pf c (compound_patch subs)
       (\<lambda>event. Inr (result_dict (sev_next_version event)
          [(''intent'', PStr (bc_intent_id c)), (''compound_steps'', PInt (int (length subs)))]
          (''Successfully executed compound action '' @ repr_str (bc_intent_id c))))"

section \<open>The factory\<close>

definition run_handler :: "agent_platform \<Rightarrow> handler_type \<Rightarrow> behavior_config \<Rightarrow> handler" where
  "run_handler pf h config =
     (let c = cfg config; pf0 = platform.truncate pf in
      case h of
        TOGGLE \<Rightarrow> toggle_handler pf0 c
      | ENUM_SETTER \<Rightarrow> enum_handler pf0 c
      | ACCESS \<Rightarrow> access_handler pf0 c
      | POSITION \<Rightarrow> position_handler pf c
      | TIMED \<Rightarrow> timed_handler pf c
      | ONE_SHOT \<Rightarrow> one_shot_handler pf0 c
      | ACTIVE_ACTION \<Rightarrow> active_handler pf0 c
      | COMPOUND \<Rightarrow> compound_handler pf0 c (sub_configs config))"

definition create_generic_handler :: "agent_platform \<Rightarrow> behavior_config \<Rightarrow> agent_exn + handler" where
  "create_generic_handler pf config =
     (case validate_behavior_config config of
        Some e \<Rightarrow> Inl e
      | None \<Rightarrow> (case normalize_type (bc_handler_type (cfg config)) of
                   None \<Rightarrow> Inl (OtherErr ''ValueError'')
                 | Some h \<Rightarrow> Inr (run_handler pf h config)))"

end
