(* ===== verification/Catalog.thy ===== *)
theory Catalog
  imports Handlers
begin

text \<open>
  \<open>behaviors/catalog.py\<close>, \<open>catalog/candidate.py\<close>, \<open>behaviors/refusal.py\<close> and the
  intent allowlists of \<open>catalog/manifest.py\<close>: which intents the agent can execute and with
  which handler.  The Vietnamese descriptions and response texts are not modelled; no decision
  depends on them.
\<close>

section \<open>Candidate capabilities\<close>

record candidate_capability =
  cc_intent :: string
  cc_operation :: string
  cc_requires_value :: bool
  cc_kind :: string

definition capability :: "string \<Rightarrow> string \<Rightarrow> bool \<Rightarrow> string \<Rightarrow> candidate_capability" where
  "capability intent operation requires_value kind =
     \<lparr>cc_intent = intent, cc_operation = operation, cc_requires_value = requires_value,
      cc_kind = kind\<rparr>"

definition CANDIDATE_CAPABILITIES :: "candidate_capability list" where
  "CANDIDATE_CAPABILITIES =
     [capability ''shift_gear_drive'' ''execute'' False ''action'',
      capability ''shift_gear_neutral'' ''execute'' False ''action'',
      capability ''set_regenlevel'' ''set'' True ''action'',
      capability ''poweroff_vehicle'' ''execute'' False ''action'',
      capability ''turnon_ac'' ''execute'' False ''action'',
      capability ''turnoff_ac'' ''execute'' False ''action'',
      capability ''set_temperature'' ''set'' True ''action'',
      capability ''turnon_defrost_front'' ''execute'' False ''action'',
      capability ''turnon_defrost_rear'' ''execute'' False ''action'',
      capability ''turnoff_defrost_front'' ''execute'' False ''action'',
      capability ''turnoff_defrost_rear'' ''execute'' False ''action'',
      capability ''turnon_seatheating'' ''execute'' False ''action'',
      capability ''turnoff_seatheating'' ''execute'' False ''action'',
      capability ''turnon_seatventilation'' ''execute'' False ''action'',
      capability ''turnoff_seatventilation'' ''execute'' False ''action'',
      capability ''turnon_steeringwheelheating'' ''execute'' False ''action'',
      capability ''turnoff_steeringwheelheating'' ''execute'' False ''action'',
      capability ''set_fanspeed'' ''set'' True ''action'',
      capability ''turnon_recirculation'' ''execute'' False ''action'',
      capability ''turnoff_recirculation'' ''execute'' False ''action'',
      capability ''set_wiperspeed'' ''set'' True ''action'',
      capability ''close_chargeport'' ''execute'' False ''action'',
      capability ''start_charging'' ''execute'' False ''action'',
      capability ''stop_charging'' ''execute'' False ''action'',
      capability ''set_chargelimit'' ''set'' True ''action'',
      capability ''schedule_charging'' ''set'' True ''action'',
      capability ''activate_cc'' ''execute'' False ''action'',
      capability ''deactivate_cc'' ''execute'' False ''action'',
      capability ''deactivate_aac'' ''execute'' False ''action'',
      capability ''deactivate_hda'' ''execute'' False ''action'',
      capability ''turnon_LKA'' ''execute'' False ''action'',
      capability ''activate_tja'' ''execute'' False ''action'',
      capability ''deactivate_tja'' ''execute'' False ''action'',
      capability ''set_cruise_speed'' ''set'' True ''action'',
      capability ''set_following_distance'' ''set'' True ''action'',
      capability ''turnon_rearcamera'' ''execute'' False ''action'',
      capability ''turnoff_rearcamera'' ''execute'' False ''action'',
      capability ''turnon_360camera'' ''execute'' False ''action'',
      capability ''turnoff_360camera'' ''execute'' False ''action'',
      capability ''close_window'' ''execute'' False ''action'',
      capability ''close_sunroof'' ''execute'' False ''action'',
      capability ''close_trunk'' ''execute'' False ''action'',
      capability ''pair_bluetooth'' ''set'' True ''action'',
      capability ''unpair_bluetooth'' ''set'' True ''action'',
      capability ''play_music'' ''execute'' False ''action'',
      capability ''pause_music'' ''execute'' False ''action'',
      capability ''resume_music'' ''execute'' False ''action'',
      capability ''next_track'' ''execute'' False ''action'',
      capability ''previous_track'' ''execute'' False ''action'',
      capability ''set_volume'' ''set'' True ''action'',
      capability ''mute_media'' ''execute'' False ''action'',
      capability ''unmute_media'' ''execute'' False ''action'',
      capability ''set_navigation_destination'' ''set'' True ''action'',
      capability ''add_navigation_stop'' ''set'' True ''action'',
      capability ''cancel_navigation'' ''execute'' False ''action'',
      capability ''get_eta'' ''query'' False ''query'',
      capability ''make_phonecall'' ''set'' True ''action'',
      capability ''accept_call'' ''execute'' False ''action'',
      capability ''decline_call'' ''execute'' False ''action'',
      capability ''end_call'' ''execute'' False ''action'',
      capability ''read_message'' ''execute'' False ''action'',
      capability ''turnon_foglight'' ''execute'' False ''action'',
      capability ''turnoff_foglight'' ''execute'' False ''action'',
      capability ''set_ambientlight_color'' ''set'' True ''action'',
      capability ''turnon_alarm'' ''execute'' False ''action'',
      capability ''turnoff_alarm'' ''execute'' False ''action'',
      capability ''find_my_car'' ''execute'' False ''action'',
      capability ''get_range_remaining'' ''query'' False ''query'',
      capability ''get_chargestatus'' ''query'' False ''query'',
      capability ''get_chargelimit'' ''query'' False ''query'']"

definition CANDIDATE_INTENTS :: "string list" where
  "CANDIDATE_INTENTS = map cc_intent CANDIDATE_CAPABILITIES"

definition CANDIDATE_QUERY_INTENTS :: "string list" where
  "CANDIDATE_QUERY_INTENTS =
     map cc_intent (filter (\<lambda>c. cc_kind c = ''query'') CANDIDATE_CAPABILITIES)"

definition CANDIDATE_ACTION_INTENTS :: "string list" where
  "CANDIDATE_ACTION_INTENTS = filter (\<lambda>i. i \<notin> set CANDIDATE_QUERY_INTENTS) CANDIDATE_INTENTS"

section \<open>Behaviours\<close>

definition LIGHTS_BEHAVIORS :: "behavior_config list" where
  "LIGHTS_BEHAVIORS =
     [Config (BehaviorConfig ''turnon_highbeam'' ENUM_SETTER
         \<lparr>bc_target_substate := Some ''lighting'', bc_target_field := Some ''highbeam'',
          bc_enum_cls := Some LightModeC,
          bc_default_value := Some (VEnum (ELight LIGHT_ON))\<rparr>) [],
      Config (BehaviorConfig ''turnoff_highbeam'' ENUM_SETTER
         \<lparr>bc_target_substate := Some ''lighting'', bc_target_field := Some ''highbeam'',
          bc_enum_cls := Some LightModeC,
          bc_default_value := Some (VEnum (ELight LIGHT_OFF))\<rparr>) [],
      Config (BehaviorConfig ''turnon_lowbeam'' ENUM_SETTER
         \<lparr>bc_target_substate := Some ''lighting'', bc_target_field := Some ''lowbeam'',
          bc_enum_cls := Some LightModeC,
          bc_default_value := Some (VEnum (ELight LIGHT_ON))\<rparr>) [],
      Config (BehaviorConfig ''turnoff_lowbeam'' ENUM_SETTER
         \<lparr>bc_target_substate := Some ''lighting'', bc_target_field := Some ''lowbeam'',
          bc_enum_cls := Some LightModeC,
          bc_default_value := Some (VEnum (ELight LIGHT_OFF))\<rparr>) [],
      Config (BehaviorConfig ''activate_ahb'' TOGGLE
         \<lparr>bc_target_substate := Some ''adas'',
          bc_target_field := Some ''auto_highbeam_active'',
          bc_param_name := Some ''state''\<rparr>) [],
      Config (BehaviorConfig ''turnon_turnsignal_right'' TOGGLE
         \<lparr>bc_target_substate := Some ''lighting'',
          bc_target_field := Some ''right_turn_signal'',
          bc_default_value := Some (VPy (PBool True))\<rparr>) [],
      Config (BehaviorConfig ''turnoff_turnsignal_right'' TOGGLE
         \<lparr>bc_target_substate := Some ''lighting'',
          bc_target_field := Some ''right_turn_signal'',
          bc_default_value := Some (VPy (PBool False))\<rparr>) [],
      Config (BehaviorConfig ''turnon_turnsignal_left'' TOGGLE
         \<lparr>bc_target_substate := Some ''lighting'',
          bc_target_field := Some ''left_turn_signal'',
          bc_default_value := Some (VPy (PBool True))\<rparr>) [],
      Config (BehaviorConfig ''turnoff_turnsignal_left'' TOGGLE
         \<lparr>bc_target_substate := Some ''lighting'',
          bc_target_field := Some ''left_turn_signal'',
          bc_default_value := Some (VPy (PBool False))\<rparr>) [],
      Config (BehaviorConfig ''turnon_hazardlight'' COMPOUND)
        [Config (BehaviorConfig ''turnon_hazardlight__left'' TOGGLE
            \<lparr>bc_target_substate := Some ''lighting'',
             bc_target_field := Some ''left_turn_signal'',
             bc_default_value := Some (VPy (PBool True))\<rparr>) [],
         Config (BehaviorConfig ''turnon_hazardlight__right'' TOGGLE
            \<lparr>bc_target_substate := Some ''lighting'',
             bc_target_field := Some ''right_turn_signal'',
             bc_default_value := Some (VPy (PBool True))\<rparr>) [],
         Config (BehaviorConfig ''turnon_hazardlight__flag'' TOGGLE
            \<lparr>bc_target_substate := Some ''lighting'',
             bc_target_field := Some ''hazard_light'',
             bc_default_value := Some (VPy (PBool True))\<rparr>) []],
      Config (BehaviorConfig ''turnoff_hazardlight'' COMPOUND)
        [Config (BehaviorConfig ''turnoff_hazardlight__left'' TOGGLE
            \<lparr>bc_target_substate := Some ''lighting'',
             bc_target_field := Some ''left_turn_signal'',
             bc_default_value := Some (VPy (PBool False))\<rparr>) [],
         Config (BehaviorConfig ''turnoff_hazardlight__right'' TOGGLE
            \<lparr>bc_target_substate := Some ''lighting'',
             bc_target_field := Some ''right_turn_signal'',
             bc_default_value := Some (VPy (PBool False))\<rparr>) [],
         Config (BehaviorConfig ''turnoff_hazardlight__flag'' TOGGLE
            \<lparr>bc_target_substate := Some ''lighting'',
             bc_target_field := Some ''hazard_light'',
             bc_default_value := Some (VPy (PBool False))\<rparr>) []],
      Config (BehaviorConfig ''turnon_corneringlight'' TOGGLE
         \<lparr>bc_target_substate := Some ''lighting'',
          bc_target_field := Some ''cornering_light'',
          bc_default_value := Some (VPy (PBool True))\<rparr>) [],
      Config (BehaviorConfig ''turnon_interiorlight'' TOGGLE
         \<lparr>bc_target_substate := Some ''lighting'',
          bc_target_field := Some ''interior_light'',
          bc_default_value := Some (VPy (PBool True))\<rparr>) []]"

definition ACCESS_BEHAVIORS :: "behavior_config list" where
  "ACCESS_BEHAVIORS =
     [Config (BehaviorConfig ''open_door'' ACCESS
         \<lparr>bc_event_name := Some ''door_opened''\<rparr>) [],
      Config (BehaviorConfig ''open_trunk'' TOGGLE
         \<lparr>bc_target_substate := Some ''access'', bc_target_field := Some ''trunk_open'',
          bc_default_value := Some (VPy (PBool True))\<rparr>) [],
      Config (BehaviorConfig ''open_chargeport'' TOGGLE
         \<lparr>bc_target_substate := Some ''access'',
          bc_target_field := Some ''charge_port_open'',
          bc_default_value := Some (VPy (PBool True))\<rparr>) [],
      Config (BehaviorConfig ''OPEN_BONNET'' TOGGLE
         \<lparr>bc_target_substate := Some ''access'', bc_target_field := Some ''bonnet_open'',
          bc_default_value := Some (VPy (PBool True))\<rparr>) [],
      Config (BehaviorConfig ''lock_doors'' ONE_SHOT
         \<lparr>bc_event_name := Some ''bulk_lock_all_doors_commanded''\<rparr>) [],
      Config (BehaviorConfig ''unlock_doors'' ONE_SHOT
         \<lparr>bc_event_name := Some ''bulk_unlock_all_doors_commanded''\<rparr>) []]"

definition CABIN_BEHAVIORS :: "behavior_config list" where
  "CABIN_BEHAVIORS =
     [Config (BehaviorConfig ''AD_WIPER_MAX'' ONE_SHOT
         \<lparr>bc_event_name := Some ''cabin_wiper_max_event''\<rparr>) [],
      Config (BehaviorConfig ''ad_steeringwheel'' ONE_SHOT
         \<lparr>bc_event_name := Some ''cabin_steeringwheel_adjust_event''\<rparr>) [],
      Config (BehaviorConfig ''ad_driverseat_pos'' POSITION
         \<lparr>bc_target_substate := Some ''cabin'',
          bc_target_field := Some ''driver_seat_position'',
          bc_param_name := Some ''position'', bc_value_range := Some [0, 1]\<rparr>) [],
      Config (BehaviorConfig ''ad_driverseat_angle'' POSITION
         \<lparr>bc_target_substate := Some ''cabin'',
          bc_target_field := Some ''driver_seat_angle'', bc_param_name := Some ''angle'',
          bc_value_range := Some [0, 1]\<rparr>) [],
      Config (BehaviorConfig ''restore_driverseat_pos'' COMPOUND)
        [Config (BehaviorConfig ''restore_driverseat_pos__position'' POSITION
            \<lparr>bc_target_substate := Some ''cabin'',
             bc_target_field := Some ''driver_seat_position'',
             bc_default_value := Some (VPy (PFloat (Fin (1 / 2)))),
             bc_value_range := Some [0, 1]\<rparr>) [],
         Config (BehaviorConfig ''restore_driverseat_pos__angle'' POSITION
            \<lparr>bc_target_substate := Some ''cabin'',
             bc_target_field := Some ''driver_seat_angle'',
             bc_default_value := Some (VPy (PFloat (Fin (1 / 2)))),
             bc_value_range := Some [0, 1]\<rparr>) []],
      Config (BehaviorConfig ''fold_backseat'' TIMED
         \<lparr>bc_target_substate := Some ''cabin'',
          bc_target_field := Some ''rear_seat_folded'', bc_duration_seconds := Some 5\<rparr>) [],
      Config (BehaviorConfig ''open_window'' TOGGLE
         \<lparr>bc_target_substate := Some ''cabin'', bc_target_field := Some ''windows_open'',
          bc_default_value := Some (VPy (PBool True))\<rparr>) [],
      Config (BehaviorConfig ''open_sunroof'' TOGGLE
         \<lparr>bc_target_substate := Some ''cabin'', bc_target_field := Some ''sunroof_open'',
          bc_default_value := Some (VPy (PBool True))\<rparr>) [],
      Config (BehaviorConfig ''fold_mirrors'' TIMED
         \<lparr>bc_target_substate := Some ''cabin'', bc_target_field := Some ''mirrors_folded'',
          bc_duration_seconds := Some 3\<rparr>) [],
      Config (BehaviorConfig ''deactivate_hud'' TOGGLE
         \<lparr>bc_target_substate := Some ''cabin'', bc_target_field := Some ''hud_active'',
          bc_default_value := Some (VPy (PBool False))\<rparr>) []]"

definition DRIVE_MODES_BEHAVIORS :: "behavior_config list" where
  "DRIVE_MODES_BEHAVIORS =
     [Config (BehaviorConfig ''switch_drivemode_sport'' ENUM_SETTER
         \<lparr>bc_target_substate := Some ''modes'', bc_target_field := Some ''drive_mode'',
          bc_enum_cls := Some DriveModeC, bc_default_value := Some (VEnum (EDrive SPORT))\<rparr>) [],
      Config (BehaviorConfig ''switch_drivemode_eco'' ENUM_SETTER
         \<lparr>bc_target_substate := Some ''modes'', bc_target_field := Some ''drive_mode'',
          bc_enum_cls := Some DriveModeC, bc_default_value := Some (VEnum (EDrive ECO))\<rparr>) [],
      Config (BehaviorConfig ''switch_drivemode_normal'' ENUM_SETTER
         \<lparr>bc_target_substate := Some ''modes'', bc_target_field := Some ''drive_mode'',
          bc_enum_cls := Some DriveModeC, bc_default_value := Some (VEnum (EDrive NORMAL))\<rparr>) []]"

definition SPECIAL_MODES_BEHAVIORS :: "behavior_config list" where
  "SPECIAL_MODES_BEHAVIORS =
     [Config (BehaviorConfig ''activate_campmode'' ACTIVE_ACTION
         \<lparr>bc_target_substate := Some ''modes'',
          bc_target_field := Some ''camp_mode_active'',
          bc_active_action_name := Some ''camp_mode''\<rparr>) [],
      Config (BehaviorConfig ''activate_petmode'' ACTIVE_ACTION
         \<lparr>bc_target_substate := Some ''modes'',
          bc_target_field := Some ''pet_mode_active'',
          bc_active_action_name := Some ''pet_mode''\<rparr>) [],
      Config (BehaviorConfig ''activate_valetmode'' ACTIVE_ACTION
         \<lparr>bc_target_substate := Some ''modes'',
          bc_target_field := Some ''valet_mode_active'',
          bc_active_action_name := Some ''valet_mode''\<rparr>) [],
      Config (BehaviorConfig ''activate_creepmode'' TOGGLE
         \<lparr>bc_target_substate := Some ''modes'',
          bc_target_field := Some ''creep_mode_active'', bc_param_name := Some ''state''\<rparr>) []]"

definition TRANSMISSION_BEHAVIORS :: "behavior_config list" where
  "TRANSMISSION_BEHAVIORS =
     [Config (BehaviorConfig ''SHIFT_GEAR_REVERSE'' ENUM_SETTER
         \<lparr>bc_target_substate := Some ''transmission'', bc_target_field := Some ''gear'',
          bc_enum_cls := Some GearC, bc_default_value := Some (VEnum (EGear REVERSE))\<rparr>) [],
      Config (BehaviorConfig ''shift_gear_park'' ENUM_SETTER
         \<lparr>bc_target_substate := Some ''transmission'', bc_target_field := Some ''gear'',
          bc_enum_cls := Some GearC, bc_default_value := Some (VEnum (EGear PARK))\<rparr>) [],
      Config (BehaviorConfig ''activate_epb'' TOGGLE
         \<lparr>bc_target_substate := Some ''transmission'',
          bc_target_field := Some ''epb_engaged'', bc_param_name := Some ''state''\<rparr>) []]"

definition ADAS_BEHAVIORS :: "behavior_config list" where
  "ADAS_BEHAVIORS =
     [Config (BehaviorConfig ''activate_autopark'' ACTIVE_ACTION
         \<lparr>bc_active_action_name := Some ''autopark''\<rparr>) [],
      Config (BehaviorConfig ''activate_aac'' ACTIVE_ACTION
         \<lparr>bc_active_action_name := Some ''aac''\<rparr>) [],
      Config (BehaviorConfig ''activate_hda'' ACTIVE_ACTION
         \<lparr>bc_active_action_name := Some ''hda''\<rparr>) [],
      Config (BehaviorConfig ''turnoff_LKA'' TOGGLE
         \<lparr>bc_target_substate := Some ''adas'',
          bc_target_field := Some ''lane_keep_assist_active'',
          bc_default_value := Some (VPy (PBool False))\<rparr>) [],
      Config (BehaviorConfig ''activate_tcs'' TOGGLE
         \<lparr>bc_target_substate := Some ''adas'', bc_target_field := Some ''tcs_active'',
          bc_default_value := Some (VPy (PBool True))\<rparr>) [],
      Config (BehaviorConfig ''activate_avh'' TOGGLE
         \<lparr>bc_target_substate := Some ''adas'', bc_target_field := Some ''avh_active'',
          bc_default_value := Some (VPy (PBool True))\<rparr>) []]"

definition UI_BEHAVIORS :: "behavior_config list" where
  "UI_BEHAVIORS =
     [Config (BehaviorConfig ''open_noti_center'' ONE_SHOT
         \<lparr>bc_target_substate := Some ''ui'',
          bc_target_field := Some ''notification_center_open'',
          bc_event_name := Some ''ui_notification_center_opened''\<rparr>) []]"

definition candidate_behavior :: "string \<Rightarrow> behavior_config" where
  "candidate_behavior intent_id =
     Config ((BehaviorConfig intent_id ONE_SHOT)
       \<lparr>bc_event_name := Some (''candidate_capability_'' @ intent_id @ ''_commanded'')\<rparr>) []"

definition CANDIDATE_BEHAVIORS :: "behavior_config list" where
  "CANDIDATE_BEHAVIORS = map candidate_behavior (sort CANDIDATE_ACTION_INTENTS)"

definition MANIFEST_BEHAVIORS :: "behavior_config list" where
  "MANIFEST_BEHAVIORS =
     LIGHTS_BEHAVIORS @ ACCESS_BEHAVIORS @ CABIN_BEHAVIORS @ DRIVE_MODES_BEHAVIORS @ SPECIAL_MODES_BEHAVIORS
      @ TRANSMISSION_BEHAVIORS @ ADAS_BEHAVIORS @ UI_BEHAVIORS"

definition BEHAVIOR_CATALOG :: "behavior_config list" where
  "BEHAVIOR_CATALOG = MANIFEST_BEHAVIORS @ CANDIDATE_BEHAVIORS"

text \<open>The sorted candidates, for evaluation.\<close>

lemma sorted_candidates:
  "sort CANDIDATE_ACTION_INTENTS =
     [''accept_call'', ''activate_cc'', ''activate_tja'', ''add_navigation_stop'',
      ''cancel_navigation'', ''close_chargeport'', ''close_sunroof'', ''close_trunk'',
      ''close_window'', ''deactivate_aac'', ''deactivate_cc'', ''deactivate_hda'',
      ''deactivate_tja'', ''decline_call'', ''end_call'', ''find_my_car'', ''make_phonecall'',
      ''mute_media'', ''next_track'', ''pair_bluetooth'', ''pause_music'', ''play_music'',
      ''poweroff_vehicle'', ''previous_track'', ''read_message'', ''resume_music'',
      ''schedule_charging'', ''set_ambientlight_color'', ''set_chargelimit'',
      ''set_cruise_speed'', ''set_fanspeed'', ''set_following_distance'',
      ''set_navigation_destination'', ''set_regenlevel'', ''set_temperature'', ''set_volume'',
      ''set_wiperspeed'', ''shift_gear_drive'', ''shift_gear_neutral'', ''start_charging'',
      ''stop_charging'', ''turnoff_360camera'', ''turnoff_ac'', ''turnoff_alarm'',
      ''turnoff_defrost_front'', ''turnoff_defrost_rear'', ''turnoff_foglight'',
      ''turnoff_rearcamera'', ''turnoff_recirculation'', ''turnoff_seatheating'',
      ''turnoff_seatventilation'', ''turnoff_steeringwheelheating'', ''turnon_360camera'',
      ''turnon_LKA'', ''turnon_ac'', ''turnon_alarm'', ''turnon_defrost_front'',
      ''turnon_defrost_rear'', ''turnon_foglight'', ''turnon_rearcamera'',
      ''turnon_recirculation'', ''turnon_seatheating'', ''turnon_seatventilation'',
      ''turnon_steeringwheelheating'', ''unmute_media'', ''unpair_bluetooth'']"
  by code_simp

lemmas CANDIDATE_BEHAVIORS_eq [code] =
  CANDIDATE_BEHAVIORS_def [unfolded sorted_candidates list.map]

definition get_behavior_config :: "string \<Rightarrow> behavior_config option" where
  "get_behavior_config intent_id =
     find (\<lambda>c. bc_intent_id (cfg c) = intent_id) BEHAVIOR_CATALOG"

definition REFUSAL_INTENT_IDS :: "string list" where
  "REFUSAL_INTENT_IDS = [''deactivate_esc'']"

section \<open>The allowlists of the manifest\<close>

definition BASE_APPROVED_INTENTS :: "string list" where
  "BASE_APPROVED_INTENTS =
     [''open_door'', ''open_trunk'', ''open_chargeport'', ''turnoff_highbeam'',
      ''turnon_highbeam'', ''turnoff_lowbeam'', ''turnon_lowbeam'', ''lock_doors'',
      ''unlock_doors'', ''OPEN_BONNET'', ''AD_WIPER_MAX'', ''switch_drivemode_sport'',
      ''switch_drivemode_eco'', ''switch_drivemode_normal'', ''activate_creepmode'',
      ''turnoff_LKA'', ''activate_campmode'', ''activate_petmode'', ''activate_valetmode'',
      ''SHIFT_GEAR_REVERSE'', ''ad_steeringwheel'', ''activate_autopark'', ''fold_backseat'',
      ''open_sunroof'', ''ad_driverseat_angle'', ''ad_driverseat_pos'', ''open_window'',
      ''restore_driverseat_pos'', ''activate_epb'', ''deactivate_hud'', ''activate_aac'',
      ''activate_hda'', ''shift_gear_park'', ''fold_mirrors'', ''activate_ahb'',
      ''turnon_turnsignal_right'', ''turnon_turnsignal_left'', ''turnoff_turnsignal_right'',
      ''turnoff_turnsignal_left'', ''turnon_hazardlight'', ''turnoff_hazardlight'',
      ''turnon_corneringlight'', ''turnon_interiorlight'', ''activate_tcs'', ''deactivate_esc'',
      ''activate_avh'', ''open_noti_center'', ''get_current_speed'', ''get_battery_pct'',
      ''get_gear'', ''get_door_lock_status'', ''get_avh_status'', ''explain_feature'']"

definition APPROVED_INTENTS :: "string list" where
  "APPROVED_INTENTS = BASE_APPROVED_INTENTS @ CANDIDATE_INTENTS"

definition FORBIDDEN_DYNAMICS_INTENTS :: "string list" where
  "FORBIDDEN_DYNAMICS_INTENTS =
     [''power_on'', ''start'', ''accelerate'', ''brake'', ''stop'', ''emergency_stop'', ''steer'']"

definition AGENT_QUERY_INTENTS :: "string list" where
  "AGENT_QUERY_INTENTS =
     [''get_current_speed'', ''get_battery_pct'', ''get_gear'', ''get_door_lock_status'',
      ''get_avh_status'', ''explain_feature''] @ CANDIDATE_QUERY_INTENTS"

definition AGENT_MONITORED_INTENTS :: "string list" where
  "AGENT_MONITORED_INTENTS =
     [''activate_campmode'', ''activate_petmode'', ''activate_autopark'', ''activate_aac'',
      ''activate_hda'']"

end
