(* ===== verification/HandlerSafety.thy ===== *)
theory HandlerSafety
  imports Catalog
begin

text \<open>
  What the handlers can and cannot do to the vehicle.  A handler touches the machine only
  through \<open>apply_transition\<close> with a patch that replaces fields by name, a door, or the list of
  active actions (\<open>via\<close>); so a part of the state that no named field belongs to stays as it
  was.  That argument is made once, in the locale \<open>untouched\<close>, and used for the vehicle's
  motion and power and for its stability control.
\<close>

section \<open>Fields keep objects well built\<close>

definition keeps_built :: "field_ops \<Rightarrow> bool" where
  "keeps_built ops \<longleftrightarrow>
     (\<forall>v s t. fo_set ops v s = Inr t \<longrightarrow> built s \<longrightarrow> built t \<and> vehicle_error t = None)"

lemma rebuilt_Inr [simp]: "rebuilt ge s = Inr t \<longleftrightarrow> ge s = None \<and> vehicle_error s = None \<and> t = s"
  by (auto simp: rebuilt_def split: option.splits)

lemma keeps_built_bool:
  "(\<And>b s. built s \<Longrightarrow> ge (put b s) = None \<Longrightarrow> built (put b s)) \<Longrightarrow> keeps_built (bool_field get put ge)"
  by (auto simp: keeps_built_def bool_field_def split: fval.splits pyval.splits)

lemma keeps_built_num:
  "(\<And>b s. built s \<Longrightarrow> ge (put b s) = None \<Longrightarrow> built (put b s)) \<Longrightarrow> keeps_built (num_field get put ge)"
  by (auto simp: keeps_built_def num_field_def split: fval.splits)

lemma keeps_built_enum:
  "(\<And>b s. built s \<Longrightarrow> ge (put b s) = None \<Longrightarrow> built (put b s)) \<Longrightarrow>
   keeps_built (enum_field am tm get put ge)"
  by (auto simp: keeps_built_def enum_field_def split: fval.splits option.splits)

lemma keeps_built_rain: "keeps_built rain_field"
  by (auto simp: keeps_built_def rain_field_def Let_def built_iff split: fval.splits pyval.splits)

lemma keeps_built_passenger: "keeps_built passenger_field"
  by (auto simp: keeps_built_def passenger_field_def built_iff split: fval.splits pyval.splits)

lemmas keeps_built_intros = keeps_built_bool keeps_built_num keeps_built_enum
  keeps_built_rain keeps_built_passenger

lemma FIELDS_keep_built: "x \<in> set FIELDS \<Longrightarrow> keeps_built (snd x)"
  unfolding FIELDS_def list.set
  by (elim insertE emptyE; simp only: snd_conv; rule keeps_built_intros; simp add: built_iff)

lemma put_field_built:
  "put_field sub f v s = Inr t \<Longrightarrow> built s \<Longrightarrow> built t"
  using FIELDS_keep_built
  by (fastforce simp: put_field_def keeps_built_def dest: map_of_SomeD split: option.splits sum.splits)

lemma set_door_built: "set_door i p l s = Inr t \<Longrightarrow> built s \<Longrightarrow> built t"
proof -
  assume a: "set_door i p l s = Inr t" and b: "built s"
  define doors where "doors = map (\<lambda>d. if dr_door_id d = i then d\<lparr>dr_position := p, dr_lock := l\<rparr> else d)
    (ac_doors (vs_access s))"
  have "first_error (map door_error doors @ [access_error ((vs_access s)\<lparr>ac_doors := doors\<rparr>)]) = None"
    and "t = s\<lparr>vs_access := (vs_access s)\<lparr>ac_doors := doors\<rparr>\<rparr>"
    using a unfolding set_door_def Let_def doors_def [symmetric]
    by (simp_all del: first_error_None_iff split: option.splits sum.splits)
  then show "built t" using b by (simp add: built_iff ball_Un)
qed

lemma put_action_cases:
  assumes "put_action c i active s = Inr t"
  obtains acts where "\<forall>a \<in> set acts. a \<in> set (vs_active_actions s) \<or> action_error a = None"
    "vehicle_error (s\<lparr>vs_active_actions := acts\<rparr>) = None"
    "t = s\<lparr>vs_active_actions := acts\<rparr> \<or>
     has_target c \<and>
     put_field (sub_of c) (field_of c) (VPy (PBool active)) (s\<lparr>vs_active_actions := acts\<rparr>) = Inr t"
proof -
  define new where "new = (if active then
      [\<lparr>act_action_id = i, act_intent = bc_intent_id c, act_phase = PH_STARTED,
        act_progress = PFloat (Fin 0)\<rparr>] else [])"
  define acts where "acts = filter (\<lambda>a. act_intent a \<noteq> bc_intent_id c) (vs_active_actions s) @ new"
  have "\<forall>a \<in> set new. action_error a = None"
    and "vehicle_error (s\<lparr>vs_active_actions := acts\<rparr>) = None"
    and "t = s\<lparr>vs_active_actions := acts\<rparr> \<or>
      has_target c \<and>
      put_field (sub_of c) (field_of c) (VPy (PBool active)) (s\<lparr>vs_active_actions := acts\<rparr>) = Inr t"
    using assms unfolding acts_def new_def
    by (cases active; auto simp: put_action_def Let_def new_action_def
        split: sum.splits if_splits option.splits)+
  then show ?thesis by (intro that [of acts]) (auto simp: acts_def)
qed

lemma put_action_built:
  assumes "put_action c i active s = Inr t" "built s"
  shows "built t"
  using assms(1)
proof (cases rule: put_action_cases)
  case (1 acts)
  then have "built (s\<lparr>vs_active_actions := acts\<rparr>)" using assms(2) by (auto simp: built_iff)
  with 1 put_field_built show ?thesis by auto
qed

lemma sub_mutation_built:
  "sub_mutation c s w = (Inr t, w') \<Longrightarrow> built s \<Longrightarrow> built t"
  "sub_mutations cs s w = (Inr t, w') \<Longrightarrow> built s \<Longrightarrow> built t"
proof (induction c s w and cs s w arbitrary: t w' and t w' rule: sub_mutation_sub_mutations.induct)
  case (1 c subs s w)
  then show ?case
    by (auto simp: put_field_built put_action_built draw_uuid_def
        split: option.splits handler_type.splits if_splits sum.splits)
next
  case (3 c cs s w)
  then show ?case by (auto split: prod.splits sum.splits)
qed auto

lemma sub_mutation_world:
  "sub_mutation c s w = (r, w') \<Longrightarrow> aw_clock w' = aw_clock w \<and> aw_ticks w' = aw_ticks w \<and>
     aw_uuids w' = aw_uuids w \<and> aw_drawn w \<le> aw_drawn w'"
  "sub_mutations cs s w = (r, w') \<Longrightarrow> aw_clock w' = aw_clock w \<and> aw_ticks w' = aw_ticks w \<and>
     aw_uuids w' = aw_uuids w \<and> aw_drawn w \<le> aw_drawn w'"
proof (induction c s w and cs s w arbitrary: r w' and r w' rule: sub_mutation_sub_mutations.induct)
  case (1 c subs s w)
  then show ?case
    by (auto simp: draw_uuid_def split: option.splits handler_type.splits if_splits sum.splits)
next
  case (3 c cs s w)
  obtain r1 w1 where r1: "sub_mutation c s w = (r1, w1)" by fastforce
  show ?case
  proof (cases r1)
    case (Inl e)
    with 3(3) r1 have "w' = w1" by simp
    with 3(1) [OF r1] show ?thesis by simp
  next
    case (Inr t)
    with 3(3) r1 have rest: "sub_mutations cs t w1 = (r, w')" by simp
    note first = 3(1) [OF r1] and second = 3(2) [OF r1 [unfolded Inr, symmetric] refl rest]
    from first second show ?thesis by (metis le_trans)
  qed
qed auto

section \<open>A handler is at most one transition\<close>

text \<open>\<open>one_step S m w r m'\<close>: the machine \<open>m'\<close> is \<open>m\<close>, or the one left by a transition
  with a patch of \<open>S\<close>; \<open>via S h\<close> says so of every run of \<open>h\<close>.\<close>

definition one_step ::
  "patch set \<Rightarrow> state_machine \<Rightarrow> agent_world \<Rightarrow> (agent_exn + payload) \<Rightarrow> state_machine \<Rightarrow> bool" where
  "one_step S m w r m' \<longleftrightarrow>
     m' = m \<or>
     (\<exists>p \<in> S. \<exists>k a c w1 r1 w2.
        (w1 = w \<or> w1 = snd (draw_uuid w)) \<and>
        machine_step (Apply p k a c None) (m, w1) = (r1, m', w2) \<and> (isl r1 \<longrightarrow> isl r))"

definition via :: "patch set \<Rightarrow> handler \<Rightarrow> bool" where
  "via S h \<longleftrightarrow>
     (\<forall>proposal m w r m' w'. h proposal m w = (r, m', w') \<longrightarrow> one_step S m w r m')"

lemma one_step_same: "one_step S m w r m"
  by (simp add: one_step_def)

lemma one_step_base:
  assumes "base_transition pf c p res proposal m w1 = (r, m', w')" "p \<in> S" "w1 = w \<or> w1 = snd (draw_uuid w)"
  shows "one_step S m w r m'"
proof -
  obtain r1 m1 w2 where s: "machine_step (Apply p AGENT (''handler_'' @ bc_intent_id c)
      (correlation_of pf (''exec_'' @ bc_intent_id c) proposal) None) (m, w1) = (r1, m1, w2)"
    by (metis prod.collapse)
  with assms(1) have "m1 = m'" "isl r1 \<longrightarrow> isl r"
    by (auto simp: base_transition_def split: sum.splits)
  with s assms(2,3) show ?thesis unfolding one_step_def by blast
qed

text \<open>The patches a configuration can run.\<close>

inductive_set config_patches :: "agent_platform \<Rightarrow> behavior_config \<Rightarrow> patch set"
  for pf :: agent_platform and config :: behavior_config where
  toggles: "has_target (cfg config) \<Longrightarrow>
    pure_patch (toggle_patch (platform.truncate pf) (cfg config) raw) \<in> config_patches pf config"
| puts: "has_target (cfg config) \<Longrightarrow>
    pure_patch (put_field (sub_of (cfg config)) (field_of (cfg config)) v) \<in> config_patches pf config"
| doors: "pure_patch (set_door i p l) \<in> config_patches pf config"
| positions: "has_target (cfg config) \<Longrightarrow>
    pure_patch (position_patch pf (cfg config) raw d) \<in> config_patches pf config"
| actions: "pure_patch (put_action (cfg config) i a) \<in> config_patches pf config"
| compounds: "compound_patch (sub_configs config) \<in> config_patches pf config"

lemma validated_target:
  assumes "validate_behavior_config config = None" "normalize_type (bc_handler_type (cfg config)) = Some h"
    and "h \<in> {TOGGLE, ENUM_SETTER, POSITION, TIMED}"
  shows "has_target (cfg config)"
  using assms by (cases config) (auto simp: target_check_def config_check_def split: if_splits option.splits)

lemma run_handler_via:
  assumes "h \<in> {TOGGLE, ENUM_SETTER, POSITION, TIMED} \<longrightarrow> has_target (cfg config)"
  shows "via (config_patches pf config) (run_handler pf h config)"
proof (cases h)
  case TOGGLE
  with assms show ?thesis
    unfolding via_def run_handler_def Let_def TOGGLE handler_type.case toggle_handler_def case_prod_beta
    by (auto split: option.splits pyval.splits sum.splits if_splits
        intro: one_step_same one_step_base config_patches.intros)
next
  case ENUM_SETTER
  with assms show ?thesis
    unfolding via_def run_handler_def Let_def ENUM_SETTER handler_type.case enum_handler_def case_prod_beta
    by (auto split: option.splits pyval.splits sum.splits if_splits
        intro: one_step_same one_step_base config_patches.intros)
next
  case ACCESS
  with assms show ?thesis
    unfolding via_def run_handler_def Let_def ACCESS handler_type.case access_handler_def case_prod_beta
    by (auto split: option.splits pyval.splits sum.splits if_splits
        intro: one_step_same one_step_base config_patches.intros)
next
  case POSITION
  with assms show ?thesis
    unfolding via_def run_handler_def Let_def POSITION handler_type.case position_handler_def case_prod_beta
    by (auto split: option.splits pyval.splits sum.splits if_splits
        intro: one_step_same one_step_base config_patches.intros)
next
  case TIMED
  with assms show ?thesis
    unfolding via_def run_handler_def Let_def TIMED handler_type.case timed_handler_def case_prod_beta
    by (auto split: option.splits pyval.splits sum.splits if_splits
        intro: one_step_same one_step_base config_patches.intros)
next
  case ONE_SHOT
  with assms show ?thesis
    unfolding via_def run_handler_def Let_def ONE_SHOT handler_type.case one_shot_handler_def case_prod_beta
    by (auto split: option.splits pyval.splits sum.splits if_splits
        intro: one_step_same one_step_base config_patches.intros)
next
  case ACTIVE_ACTION
  with assms show ?thesis
    unfolding via_def run_handler_def Let_def ACTIVE_ACTION handler_type.case active_handler_def case_prod_beta
    by (auto split: option.splits pyval.splits sum.splits if_splits
        intro: one_step_same one_step_base config_patches.intros)
next
  case COMPOUND
  with assms show ?thesis
    unfolding via_def run_handler_def Let_def COMPOUND handler_type.case compound_handler_def case_prod_beta
    by (auto split: option.splits pyval.splits sum.splits if_splits
        intro: one_step_same one_step_base config_patches.intros)
qed

lemma pure_patch_builds: "(\<And>s t. f s = Inr t \<Longrightarrow> built s \<Longrightarrow> built t) \<Longrightarrow> builds (pure_patch f)"
  by (auto simp: builds_def pure_patch_def split: sum.splits)

lemma config_patches_build: "p \<in> config_patches pf config \<Longrightarrow> builds p"
proof (induction rule: config_patches.induct)
  case (toggles raw)
  show ?case by (rule pure_patch_builds) (auto simp: toggle_patch_def intro: put_field_built split: sum.splits)
next
  case (puts v)
  show ?case by (rule pure_patch_builds) (rule put_field_built)
next
  case (doors i p l)
  show ?case by (rule pure_patch_builds) (rule set_door_built)
next
  case (positions raw d)
  show ?case
    by (rule pure_patch_builds) (auto simp: position_patch_def intro: put_field_built split: sum.splits if_splits)
next
  case (actions i a)
  show ?case by (rule pure_patch_builds) (rule put_action_built)
next
  case compounds
  show ?case
    unfolding builds_def compound_patch_def
    using sub_mutation_world(2) sub_mutation_built(2)
    by (fastforce split: prod.splits sum.splits)
qed

lemma created_via:
  assumes "create_generic_handler pf config = Inr h"
  shows "via (config_patches pf config) h"
  using assms run_handler_via validated_target
  by (fastforce simp: create_generic_handler_def split: option.splits)

section \<open>Parts of the state no field of the configuration belongs to\<close>

fun targets :: "behavior_config \<Rightarrow> (string \<times> string) list" where
  "targets (Config c subs) =
     (if has_target c then [(sub_of c, field_of c)] else []) @ concat (map targets subs)"

lemma target_in [simp]: "has_target (cfg c) \<Longrightarrow> (sub_of (cfg c), field_of (cfg c)) \<in> set (targets c)"
  by (cases c) simp

lemma sub_target_in: "x \<in> set (targets s) \<Longrightarrow> s \<in> set (sub_configs c) \<Longrightarrow> x \<in> set (targets c)"
  by (cases c) auto

definition keeps :: "(vehicle_state \<Rightarrow> 'a) \<Rightarrow> field_ops \<Rightarrow> bool" where
  "keeps g ops \<longleftrightarrow> (\<forall>v s t. fo_set ops v s = Inr t \<longrightarrow> g t = g s)"

lemma keeps_bool: "(\<And>b s. g (put b s) = g s) \<Longrightarrow> keeps g (bool_field get put ge)"
  by (auto simp: keeps_def bool_field_def split: fval.splits pyval.splits)

lemma keeps_num: "(\<And>b s. g (put b s) = g s) \<Longrightarrow> keeps g (num_field get put ge)"
  by (auto simp: keeps_def num_field_def split: fval.splits)

lemma keeps_enum: "(\<And>b s. g (put b s) = g s) \<Longrightarrow> keeps g (enum_field am tm get put ge)"
  by (auto simp: keeps_def enum_field_def split: fval.splits option.splits)

lemma keeps_rain:
  "(\<And>b s. g (s\<lparr>vs_environment := (vs_environment s)\<lparr>en_rain_sensor := b\<rparr>\<rparr>) = g s) \<Longrightarrow> keeps g rain_field"
  by (auto simp: keeps_def rain_field_def Let_def split: fval.splits pyval.splits)

lemma keeps_passenger:
  "(\<And>b s. g (s\<lparr>vs_environment := (vs_environment s)\<lparr>en_passenger_count := b\<rparr>\<rparr>) = g s) \<Longrightarrow>
   keeps g passenger_field"
  by (auto simp: keeps_def passenger_field_def split: fval.splits pyval.splits)

lemmas keeps_intros = keeps_bool keeps_num keeps_enum keeps_rain keeps_passenger

lemma put_field_keeps:
  assumes "\<And>x. x \<in> set FIELDS \<Longrightarrow> \<not> owns (fst (fst x)) (snd (fst x)) \<Longrightarrow> keeps g (snd x)"
    and "\<not> owns sub f" "put_field sub f v s = Inr t"
  shows "g t = g s"
proof -
  from assms(3) obtain ops where "map_of FIELDS (sub, f) = Some ops" "fo_set ops v s = Inr t"
    by (auto simp: put_field_def split: option.splits sum.splits)
  with assms(1) [of "((sub, f), ops)"] assms(2) show ?thesis
    by (auto simp: keeps_def dest: map_of_SomeD)
qed

locale untouched =
  fixes g :: "vehicle_state \<Rightarrow> 'a"
    and owns :: "string \<Rightarrow> string \<Rightarrow> bool"
  assumes put: "\<not> owns sub f \<Longrightarrow> put_field sub f v s = Inr t \<Longrightarrow> g t = g s"
    and door: "set_door i p l s = Inr t \<Longrightarrow> g t = g s"
    and acts: "g (s\<lparr>vs_active_actions := as\<rparr>) = g s"
    and stamped: "g (stamp n d s) = g s"
begin

definition avoids :: "behavior_config \<Rightarrow> bool" where
  "avoids c \<longleftrightarrow> (\<forall>x \<in> set (targets c). \<not> owns (fst x) (snd x))"

lemma avoids_target: "avoids c \<Longrightarrow> has_target (cfg c) \<Longrightarrow> \<not> owns (sub_of (cfg c)) (field_of (cfg c))"
  unfolding avoids_def by (drule bspec [OF _ target_in]) auto

lemma avoids_sub: "avoids c \<Longrightarrow> s \<in> set (sub_configs c) \<Longrightarrow> avoids s"
  using sub_target_in [of _ s c] by (auto simp: avoids_def)

lemma put_action_keeps:
  assumes "put_action c i a s = Inr t" "has_target c \<Longrightarrow> \<not> owns (sub_of c) (field_of c)"
  shows "g t = g s"
  using assms(1)
proof (cases rule: put_action_cases)
  case (1 as)
  then show ?thesis using put [OF assms(2)] acts by auto
qed

lemma sub_mutation_keeps:
  "sub_mutation c s w = (Inr t, w') \<Longrightarrow> avoids c \<Longrightarrow> g t = g s"
  "sub_mutations cs s w = (Inr t, w') \<Longrightarrow> (\<forall>c \<in> set cs. avoids c) \<Longrightarrow> g t = g s"
proof (induction c s w and cs s w arbitrary: t w' and t w' rule: sub_mutation_sub_mutations.induct)
  case (1 c subs s w)
  have "\<forall>x \<in> set subs. avoids x" using 1(3) avoids_sub by fastforce
  moreover have "has_target c \<Longrightarrow> \<not> owns (sub_of c) (field_of c)" using avoids_target [OF 1(3)] by simp
  ultimately show ?case using 1(1,2)
    by (auto simp: draw_uuid_def put put_action_keeps
        split: option.splits handler_type.splits if_splits sum.splits)
next
  case (3 c cs s w)
  obtain r1 w1 where r1: "sub_mutation c s w = (r1, w1)" by fastforce
  with 3(3) obtain u where u: "r1 = Inr u" "sub_mutations cs u w1 = (Inr t, w')"
    by (cases r1) auto
  have "g u = g s" using 3(1) [of u w1] r1 u 3(4) by simp
  moreover have "g t = g u" using 3(2) [OF r1 [unfolded u, symmetric] refl u(2)] 3(4) by simp
  ultimately show ?case by simp
qed auto

lemma patch_keeps:
  assumes "p \<in> config_patches pf config" "avoids config" "p s w = (Inr (Some t), w')"
  shows "g t = g s"
proof -
  have put': "put_field (sub_of (cfg config)) (field_of (cfg config)) v s = Inr t \<Longrightarrow> g t = g s"
    if "has_target (cfg config)" for v
    using put avoids_target [OF assms(2) that] by blast
  have subs: "\<forall>c \<in> set (sub_configs config). avoids c" using avoids_sub [OF assms(2)] by blast
  from assms(1,3) show ?thesis
  proof (cases rule: config_patches.cases)
    case (actions i a)
    with assms(3) put_action_keeps avoids_target [OF assms(2)] show ?thesis
      by (auto simp: pure_patch_def split: sum.splits)
  next
    case compounds
    with assms(3) sub_mutation_keeps(2) [OF _ subs] show ?thesis
      by (auto simp: compound_patch_def split: prod.splits sum.splits)
  qed (auto simp: pure_patch_def toggle_patch_def position_patch_def put' door split: sum.splits if_splits)
qed

lemma step_keeps:
  assumes "machine_step (Apply p k a c v) (m, w) = (r, m', w')"
    and "\<And>s w t w'. p s w = (Inr (Some t), w') \<Longrightarrow> g t = g s"
  shows "g (sm_state m') = g (sm_state m)"
proof -
  have "g t = g (sm_state m)" if "next_state p (sm_state m) d w1 = (Inr t, w2)" for d w1 t w2
  proof -
    from that obtain u where "p (sm_state m) w1 = (Inr (Some u), w2)"
      "t = stamp (vs_state_version (sm_state m) + 1) d u"
      by (auto simp: next_state_def Let_def split: prod.splits sum.splits option.splits)
    with assms(2) stamped show ?thesis by simp
  qed
  with assms(1) show ?thesis
    by (auto simp: apply_transition_def build_and_append_def Let_def
        split: option.splits if_splits prod.splits sum.splits)
qed

lemma handler_keeps:
  assumes "create_generic_handler pf config = Inr h" "avoids config" "h proposal m w = (r, m', w')"
  shows "g (sm_state m') = g (sm_state m)"
proof -
  have "one_step (config_patches pf config) m w r m'"
    using created_via [OF assms(1)] assms(3) unfolding via_def by blast
  then show ?thesis
    unfolding one_step_def using step_keeps patch_keeps [OF _ assms(2)] by blast
qed

end

definition dynamics_field :: "string \<Rightarrow> string \<Rightarrow> bool" where
  "dynamics_field sub f \<longleftrightarrow> sub \<in> {''power'', ''motion'', ''environment''}"

definition dynamics_of :: "vehicle_state \<Rightarrow> power_state \<times> motion_state \<times> environment_state" where
  "dynamics_of s = (vs_power s, vs_motion s, vs_environment s)"

definition stability_field :: "string \<Rightarrow> string \<Rightarrow> bool" where
  "stability_field sub f \<longleftrightarrow> sub = ''adas'' \<and> f \<in> {''esc_active'', ''hand_on_steeringwheel''}"

definition stability_of :: "vehicle_state \<Rightarrow> bool \<times> bool" where
  "stability_of s = (ad_esc_active (vs_adas s), ad_hand_on_steeringwheel (vs_adas s))"

lemma set_door_Inr:
  "set_door i p l s = Inr t \<Longrightarrow>
     t = s\<lparr>vs_access := (vs_access s)\<lparr>ac_doors :=
       map (\<lambda>d. if dr_door_id d = i then d\<lparr>dr_position := p, dr_lock := l\<rparr> else d) (ac_doors (vs_access s))\<rparr>\<rparr>"
  by (simp add: set_door_def Let_def del: first_error_None_iff split: option.splits sum.splits)

lemma FIELDS_dynamics:
  "x \<in> set FIELDS \<Longrightarrow> \<not> dynamics_field (fst (fst x)) (snd (fst x)) \<Longrightarrow> keeps dynamics_of (snd x)"
  unfolding FIELDS_def list.set
  by (elim insertE emptyE; simp only: fst_conv snd_conv;
      (rule keeps_intros; simp add: dynamics_of_def)?; simp add: dynamics_field_def)

lemma FIELDS_stability:
  "x \<in> set FIELDS \<Longrightarrow> \<not> stability_field (fst (fst x)) (snd (fst x)) \<Longrightarrow> keeps stability_of (snd x)"
  unfolding FIELDS_def list.set
  by (elim insertE emptyE; simp only: fst_conv snd_conv;
      (rule keeps_intros; simp add: stability_of_def; fail)?; simp add: stability_field_def)

interpretation dynamics: untouched dynamics_of dynamics_field
proof
  show "\<not> dynamics_field sub f \<Longrightarrow> put_field sub f v s = Inr t \<Longrightarrow> dynamics_of t = dynamics_of s" for sub f v s t
    by (rule put_field_keeps [where owns = dynamics_field, OF FIELDS_dynamics])
qed (auto simp: dynamics_of_def dest!: set_door_Inr)

interpretation stability: untouched stability_of stability_field
proof
  show "\<not> stability_field sub f \<Longrightarrow> put_field sub f v s = Inr t \<Longrightarrow> stability_of t = stability_of s" for sub f v s t
    by (rule put_field_keeps [where owns = stability_field, OF FIELDS_stability])
qed (auto simp: stability_of_def dest!: set_door_Inr)

lemma catalog_avoids:
  "c \<in> set BEHAVIOR_CATALOG \<Longrightarrow> dynamics.avoids c \<and> stability.avoids c"
proof -
  have "list_all (\<lambda>c. list_all (\<lambda>x. \<not> dynamics_field (fst x) (snd x) \<and> \<not> stability_field (fst x) (snd x))
      (targets c)) BEHAVIOR_CATALOG"
    by code_simp
  then show "c \<in> set BEHAVIOR_CATALOG \<Longrightarrow> dynamics.avoids c \<and> stability.avoids c"
    by (auto simp: list_all_iff dynamics.avoids_def stability.avoids_def)
qed

end
