(* ===== verification/HandlerRuns.thy ===== *)
theory HandlerRuns
  imports HandlerSafety
begin

text \<open>
  Properties of the agent's generic handlers and of its behaviour catalog, and what the
  handlers make of the arguments the reviewed tool mapping produces.
\<close>

lemma pure_patch_Inr: "pure_patch f s w = (Inr (Some t), w') \<longleftrightarrow> f s = Inr t \<and> w' = w"
  by (auto simp: pure_patch_def split: sum.splits)

text \<open>A handler built on one pure patch: a success has run that patch on the current state.\<close>

lemma base_transition_success:
  assumes "base_transition pf c (pure_patch f) res proposal m w = (Inr out, m', w')"
  shows "\<exists>t d. f (sm_state m) = Inr t \<and>
    sm_state m' = stamp (vs_state_version (sm_state m) + 1) d t \<and>
    sm_state m' \<noteq> sm_state m"
proof -
  from assms obtain ev where ev: "machine_step (Apply (pure_patch f) AGENT (''handler_'' @ bc_intent_id c)
      (correlation_of pf (''exec_'' @ bc_intent_id c) proposal) None) (m, w) = (Inr ev, m', w')"
    by (auto simp: base_transition_def split: prod.splits sum.splits)
  obtain t d where t: "f (sm_state m) = Inr t"
      "sm_state m' = stamp (vs_state_version (sm_state m) + 1) d t"
    using ev by (auto simp: apply_transition_def build_and_append_def next_state_def pure_patch_def Let_def
        split: option.splits if_splits prod.splits sum.splits)
  then have "vs_state_version (sm_state m') \<noteq> vs_state_version (sm_state m)" by simp
  then show ?thesis using t by metis
qed

lemma base_transition_fails:
  assumes "f (sm_state m) = Inl (ExecErr code b)"
    and "correlation_of pf (''exec_'' @ bc_intent_id c) proposal \<noteq> []"
  shows "\<exists>w'. base_transition pf c (pure_patch f) res proposal m w = (Inl (ExecErr code b), m, w')"
  using assms
  by (auto simp: base_transition_def apply_transition_def next_state_def pure_patch_def
      metadata_error_None [THEN iffD2, OF conjI] Let_def split: prod.splits)

section \<open>Properties\<close>

lemma catalog_valid:
  "list_all (\<lambda>c. validate_behavior_config c = None \<and> normalize_type (bc_handler_type (cfg c)) \<noteq> None)
     BEHAVIOR_CATALOG"
  by code_simp

lemma catalog_ready: "list_all (\<lambda>c. \<not> isl (create_generic_handler pf c)) BEHAVIOR_CATALOG"
  using catalog_valid
  by (auto simp: list_all_iff create_generic_handler_def split: option.splits)

lemma catalog_member: "get_behavior_config i = Some c \<Longrightarrow> c \<in> set BEHAVIOR_CATALOG"
  unfolding get_behavior_config_def by (auto simp: find_Some_iff)

lemma catalog_handler:
  "get_behavior_config i \<noteq> None \<Longrightarrow>
   \<exists>c h. get_behavior_config i = Some c \<and> c \<in> set BEHAVIOR_CATALOG \<and> create_generic_handler pf c = Inr h"
proof -
  assume "get_behavior_config i \<noteq> None"
  then obtain c where c: "get_behavior_config i = Some c" by blast
  then have "c \<in> set BEHAVIOR_CATALOG" by (rule catalog_member)
  moreover from this have "\<not> isl (create_generic_handler pf c)"
    using catalog_ready [of pf] by (simp add: list_all_iff)
  ultimately show ?thesis using c by (cases "create_generic_handler pf c") auto
qed

lemma catalog_scan_ok:
  assumes "\<forall>c \<in> set cs. validate_behavior_config c = None"
    and "distinct (map (\<lambda>c. bc_intent_id (cfg c)) cs)"
    and "set (map (\<lambda>c. bc_intent_id (cfg c)) cs) \<inter> set seen = {}"
  shows "\<exists>xs. catalog_scan cs seen = Inr xs \<and>
    set xs = set (map (\<lambda>c. bc_intent_id (cfg c)) cs) \<union> set seen"
  using assms
proof (induction cs arbitrary: seen)
  case (Cons c cs)
  then show ?case using Cons.IH [of "bc_intent_id (cfg c) # seen"] by auto
qed simp

definition intents_of :: "behavior_config list \<Rightarrow> string list" where
  "intents_of cs = map (\<lambda>c. bc_intent_id (cfg c)) cs"

lemma intents_of_candidates: "intents_of CANDIDATE_BEHAVIORS = sort CANDIDATE_ACTION_INTENTS"
  by (simp add: intents_of_def CANDIDATE_BEHAVIORS_def o_def candidate_behavior_def BehaviorConfig_def)

lemma handler_valid:
  assumes "create_generic_handler pf config = Inr h" "valid_state (sm_state m)"
    and "h proposal m w = (r, m', w')"
  shows "valid_state (sm_state m') \<and>
    (sm_state m' = sm_state m \<or> vs_state_version (sm_state m') = vs_state_version (sm_state m) + 1)"
proof -
  have "one_step (config_patches pf config) m w r m'"
    using created_via [OF assms(1)] assms(3) unfolding via_def by blast
  then show ?thesis
  proof (cases "m' = m")
    case False
    with \<open>one_step _ m w r m'\<close> obtain p k a c w1 r1 w2
      where p: "builds p" and s: "machine_step (Apply p k a c None) (m, w1) = (r1, m', w2)"
      unfolding one_step_def using config_patches_build by blast
    from s show ?thesis
    proof (cases rule: step_cases)
      case (committed t)
      with p assms(2) show ?thesis by (auto simp: commits_def)
    qed (use assms(2) in auto)
  qed (use assms(2) in simp)
qed

text \<open> Handlers preserve the vehicle-state contract.  Whatever a validated configuration
  says and whatever the proposal holds, a run of its handler leaves a valid state, and either
  the state it found or one with the next version.\<close>

theorem handler_keeps_valid:
  assumes "create_generic_handler pf config = Inr h" "valid_state (sm_state m)"
    and "h proposal m w = (r, m', w')"
  shows "valid_state (sm_state m') \<and>
    (sm_state m' = sm_state m \<or> vs_state_version (sm_state m') = vs_state_version (sm_state m) + 1)"
  using assms by (rule handler_valid)

text \<open>A concrete platform: floats print as their numerator, no text is a numeral.\<close>

definition demo_platform :: agent_platform where
  "demo_platform =
     \<lparr>pf_sha256 = id, pf_float = (\<lambda>r. dec_int (fst (quotient_of r))), pf_iso = dec_int,
      ap_round = Fin, ap_parse = (\<lambda>_. None)\<rparr>"

definition run_intent :: "string \<Rightarrow> handler" where
  "run_intent intent proposal m w =
     (case get_behavior_config intent of
        None \<Rightarrow> (Inl (OtherErr ''HANDLER_NOT_FOUND''), m, w)
      | Some c \<Rightarrow> (case create_generic_handler demo_platform c of
                     Inl e \<Rightarrow> (Inl e, m, w) | Inr h \<Rightarrow> h proposal m w))"

definition tool_call :: "string \<Rightarrow> string \<Rightarrow> payload" where
  "tool_call action target =
     [(''proposal_id'', PStr ''p-1''),
      (''arguments'', PDict [(''action'', PStr action), (''target'', PStr target)])]"

definition ready_machine :: state_machine where
  "ready_machine =
     VehicleStateMachine (Some (case get_preset ''parked_ready'' 0 (utc 0) of
                                  Inr s \<Rightarrow> s | Inl _ \<Rightarrow> DEFAULT_VEHICLE_STATE))"

lemma ready_machine_valid: "valid_state (sm_state ready_machine)"
  by code_simp

theorem handler_keeps_valid_witness:
  "\<exists>c h r m' w'. get_behavior_config ''activate_campmode'' = Some c \<and>
     create_generic_handler demo_platform c = Inr h \<and>
     h (tool_call ''activate'' ''camp_mode'') ready_machine (fixed_world 0) = (r, m', w') \<and>
     valid_state (sm_state m')"
proof -
  have "get_behavior_config ''activate_campmode'' \<noteq> None" by code_simp
  then obtain c h where c: "get_behavior_config ''activate_campmode'' = Some c"
    and h: "create_generic_handler demo_platform c = Inr h"
    using catalog_handler [of "''activate_campmode''" demo_platform] by blast
  obtain r m' w' where run: "h (tool_call ''activate'' ''camp_mode'') ready_machine (fixed_world 0) = (r, m', w')"
    by (metis prod.collapse)
  from handler_keeps_valid [OF h ready_machine_valid run] c h run show ?thesis by blast
qed

definition required_actions :: "string list" where
  "required_actions =
     filter (\<lambda>i. i \<notin> set AGENT_QUERY_INTENTS \<and> i \<notin> set REFUSAL_INTENT_IDS) APPROVED_INTENTS"

lemma manifest_intents:
  "set (intents_of MANIFEST_BEHAVIORS) =
     set (filter (\<lambda>i. i \<notin> set AGENT_QUERY_INTENTS \<and> i \<notin> set REFUSAL_INTENT_IDS) BASE_APPROVED_INTENTS)"
  by code_simp

lemma candidate_actions:
  "filter (\<lambda>i. i \<notin> set AGENT_QUERY_INTENTS \<and> i \<notin> set REFUSAL_INTENT_IDS) CANDIDATE_INTENTS =
   CANDIDATE_ACTION_INTENTS"
  by code_simp

lemma catalog_intents: "set (intents_of BEHAVIOR_CATALOG) = set required_actions"
proof -
  have "set (intents_of BEHAVIOR_CATALOG) = set (intents_of MANIFEST_BEHAVIORS) \<union> set CANDIDATE_ACTION_INTENTS"
    using intents_of_candidates by (simp add: BEHAVIOR_CATALOG_def intents_of_def)
  then show ?thesis
    unfolding manifest_intents required_actions_def APPROVED_INTENTS_def filter_append candidate_actions
    by simp
qed

lemma catalog_distinct: "distinct (intents_of BEHAVIOR_CATALOG)"
proof -
  have "distinct (intents_of MANIFEST_BEHAVIORS)" by code_simp
  moreover have "distinct (intents_of CANDIDATE_BEHAVIORS)" by code_simp
  moreover have "set (intents_of MANIFEST_BEHAVIORS) \<inter> set (intents_of CANDIDATE_BEHAVIORS) = {}" by code_simp
  ultimately show ?thesis by (simp add: BEHAVIOR_CATALOG_def intents_of_def)
qed

text \<open>The catalog covers exactly what was approved.  It passes its readiness check
  against the approved action intents, names each once, holds nothing else, none of the
  forbidden driving intents and not the refused one; each entry gives a handler, and every
  intent the guardrail monitors is an active action.\<close>

theorem catalog_covers_approved:
  "validate_behavior_catalog_readiness BEHAVIOR_CATALOG (Some required_actions) = None \<and>
   set (intents_of BEHAVIOR_CATALOG) = set required_actions \<and>
   distinct (intents_of BEHAVIOR_CATALOG) \<and>
   list_all (\<lambda>c. \<not> isl (create_generic_handler pf c)) BEHAVIOR_CATALOG \<and>
   set (intents_of BEHAVIOR_CATALOG) \<inter> (set FORBIDDEN_DYNAMICS_INTENTS \<union> set REFUSAL_INTENT_IDS) = {} \<and>
   list_all (\<lambda>i. case get_behavior_config i of
       Some c \<Rightarrow> normalize_type (bc_handler_type (cfg c)) = Some ACTIVE_ACTION | None \<Rightarrow> False)
     AGENT_MONITORED_INTENTS"
proof (intro conjI)
  have "\<forall>c \<in> set BEHAVIOR_CATALOG. validate_behavior_config c = None"
    using catalog_valid by (simp add: list_all_iff)
  from catalog_scan_ok [OF this, of "[]"] catalog_distinct obtain xs
    where xs: "catalog_scan BEHAVIOR_CATALOG [] = Inr xs" "set xs = set (intents_of BEHAVIOR_CATALOG)"
    by (auto simp: intents_of_def)
  with catalog_intents
  show "validate_behavior_catalog_readiness BEHAVIOR_CATALOG (Some required_actions) = None"
    by (simp add: validate_behavior_catalog_readiness_def)
  show "set (intents_of BEHAVIOR_CATALOG) \<inter> (set FORBIDDEN_DYNAMICS_INTENTS \<union> set REFUSAL_INTENT_IDS) = {}"
    by code_simp
  show "list_all (\<lambda>i. case get_behavior_config i of
       Some c \<Rightarrow> normalize_type (bc_handler_type (cfg c)) = Some ACTIVE_ACTION | None \<Rightarrow> False)
     AGENT_MONITORED_INTENTS"
    by code_simp
qed (rule catalog_intents catalog_distinct catalog_ready)+

lemma catalog_undriven:
  assumes "c \<in> set BEHAVIOR_CATALOG" "create_generic_handler pf c = Inr h"
    and "h proposal m w = (r, m', w')"
  shows "vs_power (sm_state m') = vs_power (sm_state m) \<and>
    vs_motion (sm_state m') = vs_motion (sm_state m) \<and>
    vs_environment (sm_state m') = vs_environment (sm_state m) \<and>
    ad_esc_active (vs_adas (sm_state m')) = ad_esc_active (vs_adas (sm_state m)) \<and>
    ad_hand_on_steeringwheel (vs_adas (sm_state m')) = ad_hand_on_steeringwheel (vs_adas (sm_state m))"
proof -
  from catalog_avoids [OF assms(1)] have a: "dynamics.avoids c" and b: "stability.avoids c" by auto
  show ?thesis
    using dynamics.handler_keeps [OF assms(2) a assms(3)] stability.handler_keeps [OF assms(2) b assms(3)]
    by (simp add: dynamics_of_def stability_of_def)
qed

text \<open> The agent cannot drive.  No entry of the catalog, with any proposal, changes the
  vehicle's power, its speed or motion phase, the environment it senses, the electronic
  stability control, or whether the driver's hands are on the wheel.\<close>

theorem catalog_never_drives:
  assumes "c \<in> set BEHAVIOR_CATALOG" "create_generic_handler pf c = Inr h"
    and "h proposal m w = (r, m', w')"
  shows "vs_power (sm_state m') = vs_power (sm_state m) \<and>
    vs_motion (sm_state m') = vs_motion (sm_state m) \<and>
    vs_environment (sm_state m') = vs_environment (sm_state m) \<and>
    ad_esc_active (vs_adas (sm_state m')) = ad_esc_active (vs_adas (sm_state m)) \<and>
    ad_hand_on_steeringwheel (vs_adas (sm_state m')) = ad_hand_on_steeringwheel (vs_adas (sm_state m))"
  using assms by (rule catalog_undriven)

theorem catalog_never_drives_witness:
  "\<exists>c h r m' w'. get_behavior_config ''activate_tcs'' = Some c \<and>
     create_generic_handler demo_platform c = Inr h \<and>
     h (tool_call ''activate'' ''traction_control'') ready_machine (fixed_world 0) = (r, m', w') \<and>
     vs_power (sm_state m') = vs_power (sm_state ready_machine)"
proof -
  have "get_behavior_config ''activate_tcs'' \<noteq> None" by code_simp
  then obtain c h where c: "get_behavior_config ''activate_tcs'' = Some c" "c \<in> set BEHAVIOR_CATALOG"
    and h: "create_generic_handler demo_platform c = Inr h"
    using catalog_handler [of "''activate_tcs''" demo_platform] by blast
  obtain r m' w' where run: "h (tool_call ''activate'' ''traction_control'') ready_machine (fixed_world 0) = (r, m', w')"
    by (metis prod.collapse)
  from catalog_never_drives [OF c(2) h run] c h run show ?thesis by blast
qed

text \<open>The door handler moves the named door only.  A success names a real door through
  the alias table; that door takes the position and lock of the command and every other door
  is as it was.  An open door is never reported locked, whatever word the command is.\<close>

theorem access_moves_named_door:
  assumes "access_handler pf c proposal m w = (Inr out, m', w')"
  shows "\<exists>door pos lock.
    access_target (extract_parameters proposal) = Inr door \<and> door \<in> set REQUIRED_DOOR_IDS \<and>
    access_command pf (extract_parameters proposal) = (pos, lock) \<and>
    \<not> (pos = DOOR_OPEN \<and> lock = LOCKED) \<and>
    ac_doors (vs_access (sm_state m')) =
      map (\<lambda>d. if dr_door_id d = door then d\<lparr>dr_position := pos, dr_lock := lock\<rparr> else d)
        (ac_doors (vs_access (sm_state m)))"
proof -
  obtain pos lock where cmd: "access_command pf (extract_parameters proposal) = (pos, lock)"
    by fastforce
  from assms obtain door where door: "access_target (extract_parameters proposal) = Inr door"
    by (auto simp: access_handler_def Let_def split: sum.splits)
  have known: "door \<in> set REQUIRED_DOOR_IDS"
    using door by (auto simp: access_target_def door_target_def resolve_alias_def
        split: option.splits pyval.splits if_splits)
  have "\<exists>t d. set_door door pos lock (sm_state m) = Inr t \<and>
      sm_state m' = stamp (vs_state_version (sm_state m) + 1) d t"
    using assms cmd door base_transition_success by (fastforce simp: access_handler_def Let_def)
  then have "ac_doors (vs_access (sm_state m')) =
      map (\<lambda>d. if dr_door_id d = door then d\<lparr>dr_position := pos, dr_lock := lock\<rparr> else d)
        (ac_doors (vs_access (sm_state m)))"
    by (auto dest!: set_door_Inr)
  moreover have "\<not> (pos = DOOR_OPEN \<and> lock = LOCKED)"
    using cmd by (auto simp: access_command_def access_action_def split: if_splits)
  ultimately show ?thesis using door known cmd by blast
qed

theorem access_moves_named_door_witness:
  "\<exists>out m' w'. access_handler (platform.truncate demo_platform) (BehaviorConfig ''open_door'' ACCESS)
      (tool_call ''open'' ''driver'') ready_machine (fixed_world 0) = (Inr out, m', w') \<and>
    (\<exists>pos lock. access_command (platform.truncate demo_platform)
       (extract_parameters (tool_call ''open'' ''driver'')) = (pos, lock) \<and> \<not> (pos = DOOR_OPEN \<and> lock = LOCKED))"
proof -
  let ?r = "access_handler (platform.truncate demo_platform) (BehaviorConfig ''open_door'' ACCESS)
      (tool_call ''open'' ''driver'') ready_machine (fixed_world 0)"
  have "\<not> isl (fst ?r)" by code_simp
  then obtain out m' w' where r: "?r = (Inr out, m', w')" by (metis prod.collapse sum.collapse(2))
  from access_moves_named_door [OF r] r show ?thesis by blast
qed

section \<open>What the handlers make of the mapped arguments\<close>

text \<open>The words a toggle understands, besides booleans.\<close>

definition toggle_words :: "string list" where
  "toggle_words = [''toggle'', ''switch'', ''on'', ''true'', ''enable'', ''activate'', ''1'',
     ''off'', ''false'', ''disable'', ''deactivate'', ''0'']"

lemma toggle_unknown_word:
  "lower s \<notin> set toggle_words \<Longrightarrow> toggle_value pf (Some (PStr s)) current = (\<not> fval_truth current)"
  by (auto simp: toggle_value_def toggle_words_def Let_def)

lemma toggle_known_word:
  "lower s \<in> {''on'', ''true'', ''enable'', ''activate'', ''1''} \<Longrightarrow> toggle_value pf (Some (PStr s)) current"
  "lower s \<in> {''off'', ''false'', ''disable'', ''deactivate'', ''0''} \<Longrightarrow> \<not> toggle_value pf (Some (PStr s)) current"
  by (auto simp: toggle_value_def Let_def)

lemma put_bool_field_reads_back:
  assumes "put_field sub f (VPy (PBool b)) s = Inr t" "get_field sub f s = Inr (VPy (PBool c))"
  shows "get_field sub f t = Inr (VPy (PBool b))"
proof -
  have "\<forall>x \<in> set FIELDS. \<forall>s t c. fo_set (snd x) (VPy (PBool b)) s = Inr t \<longrightarrow>
      fo_get (snd x) s = VPy (PBool c) \<longrightarrow> fo_get (snd x) t = VPy (PBool b)"
    unfolding FIELDS_def
    by (simp add: bool_field_def num_field_def enum_field_def rain_field_def passenger_field_def Let_def)
  with assms show ?thesis
    by (fastforce simp: put_field_def get_field_def dest: map_of_SomeD split: option.splits sum.splits)
qed

lemma get_field_stamp [simp]: "get_field sub f (stamp n d s) = get_field sub f s"
proof -
  have "\<forall>x \<in> set FIELDS. fo_get (snd x) (stamp n d s) = fo_get (snd x) s"
    unfolding FIELDS_def
    by (simp add: bool_field_def num_field_def enum_field_def rain_field_def passenger_field_def)
  then show ?thesis by (auto simp: get_field_def dest!: map_of_SomeD split: option.splits)
qed

text \<open>A toggle follows the first parameter it is given.  When the handler of a boolean
  field succeeds, the field holds what the parameter says: true for on, true, enable, activate
  and 1, false for their opposites; and the negation of its old value for a missing parameter
  and for every other word, whatever the configuration's default value is.\<close>

theorem toggle_outcome:
  assumes "toggle_handler pf c proposal m w = (Inr out, m', w')"
    and "get_field (sub_of c) (field_of c) (sm_state m) = Inr (VPy (PBool b))"
  defines "raw \<equiv> first_param [opt_str (bc_param_name c), ''state'', ''value'', ''enable'', ''on'', ''action'']
      (extract_parameters proposal)"
  shows "get_field (sub_of c) (field_of c) (sm_state m') = Inr (VPy (PBool (toggle_value pf raw (VPy (PBool b))))) \<and>
    (raw = None \<longrightarrow> toggle_value pf raw (VPy (PBool b)) = (\<not> b)) \<and>
    (\<forall>s. raw = Some (PStr s) \<longrightarrow> lower s \<notin> set toggle_words \<longrightarrow> toggle_value pf raw (VPy (PBool b)) = (\<not> b)) \<and>
    (\<forall>s. raw = Some (PStr s) \<longrightarrow> lower s \<in> {''on'', ''true'', ''enable'', ''activate'', ''1''} \<longrightarrow>
       toggle_value pf raw (VPy (PBool b))) \<and>
    (\<forall>s. raw = Some (PStr s) \<longrightarrow> lower s \<in> {''off'', ''false'', ''disable'', ''deactivate'', ''0''} \<longrightarrow>
       \<not> toggle_value pf raw (VPy (PBool b)))"
proof (intro conjI)
  obtain t d where t: "toggle_patch pf c raw (sm_state m) = Inr t"
    "sm_state m' = stamp (vs_state_version (sm_state m) + 1) d t"
    using base_transition_success assms(1) unfolding toggle_handler_def raw_def by blast
  then show "get_field (sub_of c) (field_of c) (sm_state m') =
      Inr (VPy (PBool (toggle_value pf raw (VPy (PBool b)))))"
    using assms(2) put_bool_field_reads_back by (auto simp: toggle_patch_def)
  show "raw = None \<longrightarrow> toggle_value pf raw (VPy (PBool b)) = (\<not> b)" by (simp add: toggle_value_def)
qed (use toggle_known_word toggle_unknown_word in auto)

text \<open>A machine whose right turn signal is on.\<close>

definition signalling_machine :: state_machine where
  "signalling_machine =
     ready_machine\<lparr>sm_state := (sm_state ready_machine)
       \<lparr>vs_lighting := LightingState\<lparr>li_right_turn_signal := True\<rparr>\<rparr>\<rparr>"

definition signal_config :: config_fields where
  "signal_config = cfg (the (get_behavior_config ''turnon_turnsignal_right''))"

theorem toggle_outcome_witness:
  "\<exists>out m' w'. toggle_handler (platform.truncate demo_platform) signal_config
      (tool_call ''activate'' ''right_turn_signal'') signalling_machine (fixed_world 0) = (Inr out, m', w') \<and>
    get_field ''lighting'' ''right_turn_signal'' (sm_state m') = Inr (VPy (PBool True))"
proof -
  let ?r = "toggle_handler (platform.truncate demo_platform) signal_config
      (tool_call ''activate'' ''right_turn_signal'') signalling_machine (fixed_world 0)"
  have "\<not> isl (fst ?r)" by code_simp
  then obtain out m' w' where r: "?r = (Inr out, m', w')" by (metis prod.collapse sum.collapse(2))
  have f: "sub_of signal_config = ''lighting''" "field_of signal_config = ''right_turn_signal''"
    and raw: "first_param [opt_str (bc_param_name signal_config), ''state'', ''value'', ''enable'', ''on'', ''action'']
      (extract_parameters (tool_call ''activate'' ''right_turn_signal'')) = Some (PStr ''activate'')"
    and l: "lower ''activate'' = ''activate''"
    by code_simp+
  have b: "get_field (sub_of signal_config) (field_of signal_config) (sm_state signalling_machine)
      = Inr (VPy (PBool True))"
    unfolding f by (simp add: get_field_def FIELDS_def bool_field_def signalling_machine_def)
  from toggle_outcome [OF r b] r show ?thesis unfolding f raw by (auto simp: l)
qed

text \<open> Asking to turn a light on can turn it off.  The reviewed mapping sends "turn on
  the right turn signal" as action \<open>turn_on\<close>, a word the toggle does not know, and the
  catalog's \<open>default_value=True\<close> is not read: with the signal already on, the handler of
  \<open>turnon_turnsignal_right\<close> succeeds and leaves it off.\<close>

theorem turn_on_turns_off:
  "get_field ''lighting'' ''right_turn_signal'' (sm_state signalling_machine) = Inr (VPy (PBool True)) \<and>
   valid_state (sm_state signalling_machine) \<and>
   (case run_intent ''turnon_turnsignal_right'' (tool_call ''turn_on'' ''right_turn_signal'')
           signalling_machine (fixed_world 0) of
      (Inl e, m', w') \<Rightarrow> False
    | (Inr out, m', w') \<Rightarrow> \<not> li_right_turn_signal (vs_lighting (sm_state m')))"
proof (intro conjI)
  show "get_field ''lighting'' ''right_turn_signal'' (sm_state signalling_machine) = Inr (VPy (PBool True))"
    by (simp add: get_field_def FIELDS_def bool_field_def signalling_machine_def)
  show "valid_state (sm_state signalling_machine)" by code_simp
qed code_simp

definition seat_call :: "string \<Rightarrow> string \<Rightarrow> string \<Rightarrow> payload" where
  "seat_call proposal_id target word =
     [(''proposal_id'', PStr proposal_id),
      (''arguments'', PDict [(''action'', PStr ''adjust''), (''target'', PStr target),
                             (''value'', PStr word)])]"

lemma seat_fields:
  "get_field ''cabin'' ''driver_seat_position'' s = Inr (VPy (ca_driver_seat_position (vs_cabin s)))"
  "get_field ''cabin'' ''driver_seat_angle'' s = Inr (VPy (ca_driver_seat_angle (vs_cabin s)))"
  by (simp_all add: get_field_def FIELDS_def num_field_def)

text \<open>No mapped seat command moves the seat.  The four words the mapping sends for the
  driver seat (forward, backward, up, down) are no numerals, and the position handler accepts
  only a numeral: for every such word and either seat intent the run is the
  \<open>INVALID_NUMERIC_VALUE\<close> error and the machine is untouched.\<close>

theorem seat_words_rejected:
  assumes "ap_parse pf word = None" and "i \<noteq> []"
    and "intent \<in> {''ad_driverseat_pos'', ''ad_driverseat_angle''}"
    and "get_behavior_config intent = Some c" and "create_generic_handler pf c = Inr h"
  shows "\<exists>w'. h (seat_call i target word) m w = (Inl (exec_error ''INVALID_NUMERIC_VALUE''), m, w')"
proof -
  let ?pos = "Config (BehaviorConfig ''ad_driverseat_pos'' POSITION
      \<lparr>bc_target_substate := Some ''cabin'', bc_target_field := Some ''driver_seat_position'',
       bc_param_name := Some ''position'', bc_value_range := Some [0, 1]\<rparr>) []"
  let ?ang = "Config (BehaviorConfig ''ad_driverseat_angle'' POSITION
      \<lparr>bc_target_substate := Some ''cabin'', bc_target_field := Some ''driver_seat_angle'',
       bc_param_name := Some ''angle'', bc_value_range := Some [0, 1]\<rparr>) []"
  have "get_behavior_config ''ad_driverseat_pos'' = Some ?pos" "get_behavior_config ''ad_driverseat_angle'' = Some ?ang"
    by (simp_all add: get_behavior_config_def BEHAVIOR_CATALOG_def MANIFEST_BEHAVIORS_def LIGHTS_BEHAVIORS_def
        ACCESS_BEHAVIORS_def CABIN_BEHAVIORS_def BehaviorConfig_def)
  with assms(3,4) have c: "c = ?pos \<or> c = ?ang" by auto
  then have h: "h = position_handler pf (cfg c)"
    using assms(5) by (auto simp: create_generic_handler_def run_handler_def BehaviorConfig_def
        target_check_def config_check_def has_target_def opt_str_def SUBSTATES_def range_ok_def)
  have "position_patch pf (cfg c)
      (first_param [opt_str (bc_param_name (cfg c)), ''value'', ''position'', ''angle'', ''temperature'', ''level'']
        (extract_parameters (seat_call i target word)))
      (first_param [''delta'', ''adjustment''] (extract_parameters (seat_call i target word))) (sm_state m)
    = Inl (exec_error ''INVALID_NUMERIC_VALUE'')"
    using c assms(1)
    by (elim disjE) (simp_all add: position_patch_def seat_fields sub_of_def field_of_def opt_str_def
        BehaviorConfig_def extract_parameters_def seat_call_def get_key_def py_or_def
        position_value_of_def float_or_def)
  moreover have "correlation_of (platform.truncate pf) (''exec_'' @ bc_intent_id (cfg c)) (seat_call i target word) \<noteq> []"
    using assms(2) by (simp add: correlation_of_def seat_call_def get_key_def py_or_def)
  ultimately show ?thesis
    unfolding h position_handler_def Let_def exec_error_def by (intro base_transition_fails)
qed

theorem seat_words_rejected_witness:
  "\<exists>c h w'. get_behavior_config ''ad_driverseat_pos'' = Some c \<and>
     create_generic_handler demo_platform c = Inr h \<and>
     h (seat_call ''p-1'' ''driver_seat_position'' ''forward'') ready_machine (fixed_world 0) =
       (Inl (exec_error ''INVALID_NUMERIC_VALUE''), ready_machine, w')"
proof -
  have "get_behavior_config ''ad_driverseat_pos'' \<noteq> None" by code_simp
  then obtain c h where c: "get_behavior_config ''ad_driverseat_pos'' = Some c"
    and h: "create_generic_handler demo_platform c = Inr h"
    using catalog_handler [of "''ad_driverseat_pos''" demo_platform] by blast
  have p: "ap_parse demo_platform ''forward'' = None" by (simp add: demo_platform_def)
  from seat_words_rejected [OF p _ _ c h, of "''p-1''" "''driver_seat_position''" ready_machine "fixed_world 0"] c h
  show ?thesis by auto
qed

end
