(* ===== verification/ActionRegistry.thy ===== *)
theory ActionRegistry
  imports Catalog
begin

text \<open>
  \<open>active_actions/models.py\<close> and \<open>registry.py\<close>: the records of the long-running actions and
  their registry, with the index from session and intent to the running record.  An operation
  returns its result or exception, the registry, the world, and in order what it does after
  the lock is released: stop handlers called and events published.  Whatever a handler or the
  pipeline raises is logged and dropped by the code, so neither has a result here.
\<close>

section \<open>Records\<close>

record action_record =
  rec_action_id :: string
  rec_intent :: string
  rec_name :: string
  rec_phase :: action_phase
  rec_progress :: pyval
  rec_proposal_id :: string
  rec_decision_id :: string
  rec_execution_id :: string
  rec_state_version :: int
  rec_session_id :: string
  rec_request_id :: string
  rec_turn_id :: string
  rec_stop_reason :: string
  rec_failure_reason :: string
  rec_created_at :: string
  rec_updated_at :: string
  rec_metadata :: payload

definition unit_progress :: "pyval \<Rightarrow> bool" where
  "unit_progress v =
     (case v of PBool _ \<Rightarrow> True | PInt i \<Rightarrow> 0 \<le> i \<and> i \<le> 1 | PFloat (Fin r) \<Rightarrow> 0 \<le> r \<and> r \<le> 1
              | _ \<Rightarrow> False)"

text \<open>\<open>ActiveActionRecord.__post_init__\<close>.\<close>

definition record_error :: "action_record \<Rightarrow> agent_exn option" where
  "record_error r =
     first_error
       [value_check (rec_action_id r \<noteq> []) ''action_id must be a non-empty string'',
        value_check (rec_intent r \<noteq> []) ''intent must be a non-empty string'',
        value_check (unit_progress (rec_progress r)) ''progress must be a float in range [0.0, 1.0]'',
        value_check (0 \<le> rec_state_version r) ''state_version must be a non-negative int'']"

definition record_to_dict :: "action_record \<Rightarrow> payload" where
  "record_to_dict r =
     [(''action_id'', PStr (rec_action_id r)), (''intent'', PStr (rec_intent r)),
      (''active_action_name'', PStr (rec_name r)), (''phase'', PStr (phase_value (rec_phase r))),
      (''progress'', rec_progress r), (''proposal_id'', PStr (rec_proposal_id r)),
      (''decision_id'', PStr (rec_decision_id r)), (''execution_id'', PStr (rec_execution_id r)),
      (''state_version'', PInt (rec_state_version r)), (''session_id'', PStr (rec_session_id r)),
      (''request_id'', PStr (rec_request_id r)), (''turn_id'', PStr (rec_turn_id r)),
      (''stop_reason'', PStr (rec_stop_reason r)), (''failure_reason'', PStr (rec_failure_reason r)),
      (''created_at'', PStr (rec_created_at r)), (''updated_at'', PStr (rec_updated_at r)),
      (''metadata'', PDict (rec_metadata r))]"

definition is_running :: "action_record \<Rightarrow> bool" where
  "is_running r = (rec_phase r \<in> {PH_STARTED, PH_PROGRESS})"

definition is_terminal :: "action_record \<Rightarrow> bool" where
  "is_terminal r = (rec_phase r \<in> {PH_STOPPED, PH_FAILED, PH_COMPLETED})"

definition key_of :: "action_record \<Rightarrow> string \<times> string" where
  "key_of r = (rec_session_id r, rec_intent r)"

section \<open>The registry\<close>

record registry =
  rg_catalog :: "(string \<times> behavior_config) list"
  rg_pipeline :: bool
  rg_records :: "(string \<times> action_record) list"
  rg_stop_handlers :: "string list"
  rg_index :: "((string \<times> string) \<times> string) list"

definition ActiveActionRegistry :: "(string \<times> behavior_config) list option \<Rightarrow> bool \<Rightarrow> registry" where
  "ActiveActionRegistry catalog pipeline =
     \<lparr>rg_catalog = (case catalog of
        Some c \<Rightarrow> c | None \<Rightarrow> map (\<lambda>c. (bc_intent_id (cfg c), c)) BEHAVIOR_CATALOG),
      rg_pipeline = pipeline, rg_records = [], rg_stop_handlers = [], rg_index = []\<rparr>"

definition register_stop_handler :: "string \<Rightarrow> registry \<Rightarrow> registry" where
  "register_stop_handler target rg = rg\<lparr>rg_stop_handlers := List.insert target (rg_stop_handlers rg)\<rparr>"

definition set_event_pipeline :: "bool \<Rightarrow> registry \<Rightarrow> registry" where
  "set_event_pipeline pipeline rg = rg\<lparr>rg_pipeline := pipeline\<rparr>"

definition is_monitored_behavior :: "string \<Rightarrow> registry \<Rightarrow> bool" where
  "is_monitored_behavior intent rg =
     (case map_of (rg_catalog rg) intent of
        None \<Rightarrow> False
      | Some c \<Rightarrow> bc_handler_type (cfg c) \<in> {HType ACTIVE_ACTION, HName ''active_action''})"

section \<open>Effects after the lock\<close>

record action_event =
  ae_session_id :: string
  ae_turn_id :: string
  ae_request_id :: string
  ae_proposal_id :: string
  ae_execution_id :: string
  ae_action_id :: string
  ae_intent :: string
  ae_phase :: string
  ae_progress :: "pyval option"

datatype effect = CallHandler string action_record string | Publish action_event

definition or_text :: "string \<Rightarrow> string \<Rightarrow> string" where
  "or_text s d = (if s = [] then d else s)"

text \<open>\<open>_invoke_stop_handler\<close>: the handler of the intent, else the one of the name.\<close>

definition invoke_stop_handler :: "registry \<Rightarrow> action_record \<Rightarrow> string \<Rightarrow> effect list" where
  "invoke_stop_handler rg r reason =
     (if rec_intent r \<in> set (rg_stop_handlers rg) then [CallHandler (rec_intent r) r reason]
      else if rec_name r \<in> set (rg_stop_handlers rg) then [CallHandler (rec_name r) r reason]
      else [])"

definition emit_event :: "registry \<Rightarrow> action_record \<Rightarrow> effect list" where
  "emit_event rg r =
     (if \<not> rg_pipeline rg then []
      else [Publish
        \<lparr>ae_session_id = or_text (rec_session_id r) ''unknown_session'',
         ae_turn_id = or_text (rec_turn_id r) ''unknown_turn'',
         ae_request_id = or_text (rec_request_id r) ''unknown_request'',
         ae_proposal_id = rec_proposal_id r, ae_execution_id = rec_execution_id r,
         ae_action_id = rec_action_id r, ae_intent = rec_intent r,
         ae_phase = phase_value (rec_phase r),
         ae_progress = (if rec_phase r \<in> {PH_PROGRESS, PH_COMPLETED} then Some (rec_progress r)
                        else None)\<rparr>])"

section \<open>Operations\<close>

type_synonym 'a reg_result = "(agent_exn + 'a) \<times> registry \<times> agent_world \<times> effect list"

definition now_text :: "platform \<Rightarrow> agent_world \<Rightarrow> string \<times> agent_world" where
  "now_text pf w = (let (d, w1) = read_clock w in (pf_iso pf (dt_instant d), w1))"

definition clear_running_index :: "action_record \<Rightarrow> registry \<Rightarrow> registry" where
  "clear_running_index r rg =
     (if map_of (rg_index rg) (key_of r) = Some (rec_action_id r)
      then rg\<lparr>rg_index := AList.delete (key_of r) (rg_index rg)\<rparr> else rg)"

definition put_record :: "string \<Rightarrow> action_record \<Rightarrow> registry \<Rightarrow> registry" where
  "put_record i r rg = rg\<lparr>rg_records := AList.update i r (rg_records rg)\<rparr>"

text \<open>The record \<open>_internal_stop\<close> writes.\<close>

definition stopped_record :: "string \<Rightarrow> string option \<Rightarrow> string \<Rightarrow> string \<Rightarrow> action_record \<Rightarrow> action_record" where
  "stopped_record reason execution_id turn_id time r =
     r\<lparr>rec_phase := PH_STOPPED, rec_execution_id := str_or execution_id (rec_execution_id r),
       rec_turn_id := or_text turn_id (rec_turn_id r), rec_stop_reason := reason,
       rec_updated_at := time\<rparr>"

definition internal_stop ::
  "platform \<Rightarrow> string \<Rightarrow> action_record \<Rightarrow> string \<Rightarrow> string option \<Rightarrow> string \<Rightarrow> registry \<Rightarrow> agent_world \<Rightarrow>
   action_record \<times> registry \<times> agent_world" where
  "internal_stop pf i r reason execution_id turn_id rg w =
     (let (time, w1) = now_text pf w; s = stopped_record reason execution_id turn_id time r
      in (s, clear_running_index s (put_record i s rg), w1))"

record start_request =
  sr_intent :: string
  sr_proposal_id :: string
  sr_execution_id :: string
  sr_decision_id :: string
  sr_state_version :: int
  sr_session_id :: string
  sr_request_id :: string
  sr_turn_id :: string
  sr_metadata :: payload
  sr_name :: "string option"
  sr_action_id :: "string option"

definition SUPERSEDED_BY_NEW_START_REASON :: string where
  "SUPERSEDED_BY_NEW_START_REASON = ''superseded_by_new_start''"

definition resolved_name :: "registry \<Rightarrow> start_request \<Rightarrow> string" where
  "resolved_name rg q =
     str_or (sr_name q)
       (str_or (case map_of (rg_catalog rg) (sr_intent q) of
                  None \<Rightarrow> None | Some c \<Rightarrow> bc_active_action_name (cfg c)) (sr_intent q))"

definition final_action_id :: "start_request \<Rightarrow> agent_world \<Rightarrow> string \<times> agent_world" where
  "final_action_id q w =
     (if opt_str (sr_action_id q) \<noteq> [] then (opt_str (sr_action_id q), w)
      else (let (u, w1) = draw_uuid w in (''act-'' @ take 8 u, w1)))"

definition new_record :: "registry \<Rightarrow> start_request \<Rightarrow> string \<Rightarrow> string \<Rightarrow> action_record" where
  "new_record rg q i time =
     \<lparr>rec_action_id = i, rec_intent = sr_intent q, rec_name = resolved_name rg q,
      rec_phase = PH_STARTED, rec_progress = PFloat (Fin 0), rec_proposal_id = sr_proposal_id q,
      rec_decision_id = sr_decision_id q, rec_execution_id = sr_execution_id q,
      rec_state_version = sr_state_version q, rec_session_id = sr_session_id q,
      rec_request_id = sr_request_id q, rec_turn_id = sr_turn_id q, rec_stop_reason = [],
      rec_failure_reason = [], rec_created_at = time, rec_updated_at = time,
      rec_metadata = sr_metadata q\<rparr>"

text \<open>The running record of the same session and intent that a start supersedes.\<close>

definition superseded :: "start_request \<Rightarrow> registry \<Rightarrow> (string \<times> action_record) option" where
  "superseded q rg =
     (case map_of (rg_index rg) (sr_session_id q, sr_intent q) of
        None \<Rightarrow> None
      | Some i \<Rightarrow> (case map_of (rg_records rg) i of
                    None \<Rightarrow> None
                  | Some r \<Rightarrow> if is_running r then Some (i, r) else None))"

definition start_action :: "platform \<Rightarrow> start_request \<Rightarrow> registry \<Rightarrow> agent_world \<Rightarrow> action_record reg_result" where
  "start_action pf q rg w =
     (if \<not> is_monitored_behavior (sr_intent q) rg then (Inl (ValueErr ''INTENT_NOT_MONITORED''), rg, w, [])
      else
        (let (i, w1) = final_action_id q w;
             (time, w2) = now_text pf w1;
             r = new_record rg q i time
         in case record_error r of
              Some e \<Rightarrow> (Inl e, rg, w2, [])
            | None \<Rightarrow>
                (let (effects, rg1, w3) =
                       (case superseded q rg of
                          None \<Rightarrow> ([], rg, w2)
                        | Some (j, old) \<Rightarrow>
                            (let (s, rg', w') = internal_stop pf j old SUPERSEDED_BY_NEW_START_REASON
                                                  None (sr_turn_id q) rg w2
                             in (invoke_stop_handler rg s SUPERSEDED_BY_NEW_START_REASON @ emit_event rg s,
                                 rg', w')));
                     rg2 = put_record i r rg1;
                     rg3 = rg2\<lparr>rg_index := AList.update (sr_session_id q, sr_intent q) i (rg_index rg2)\<rparr>
                 in (Inr r, rg3, w3, effects @ emit_event rg r))))"

definition float_exn :: "float_result \<Rightarrow> agent_exn + pyfloat" where
  "float_exn x = (case x of FloatOk f \<Rightarrow> Inr f | FloatBad \<Rightarrow> Inl (ValueErr ''float'')
                          | FloatOverflow \<Rightarrow> Inl (OtherErr ''OverflowError''))"

definition merge_meta :: "payload \<Rightarrow> payload \<Rightarrow> payload" where
  "merge_meta old new = foldl (\<lambda>d (k, v). AList.update k v d) old new"

definition update_progress ::
  "agent_platform \<Rightarrow> string \<Rightarrow> pyval \<Rightarrow> int \<Rightarrow> string option \<Rightarrow> string option \<Rightarrow> payload \<Rightarrow>
   registry \<Rightarrow> agent_world \<Rightarrow> action_record reg_result" where
  "update_progress pf i progress state_version execution_id turn_id metadata rg w =
     (case map_of (rg_records rg) i of
        None \<Rightarrow> (Inl (StateErr (KeyErr i)), rg, w, [])
      | Some r \<Rightarrow>
          if is_terminal r then (Inl (ValueErr ''Cannot update progress for terminal active action''), rg, w, [])
          else
            (let (time, w1) = now_text (platform.truncate pf) w in
             case float_exn (to_float pf progress) of
               Inl e \<Rightarrow> (Inl e, rg, w1, [])
             | Inr f \<Rightarrow>
                 (let u = r\<lparr>rec_phase := PH_PROGRESS, rec_progress := PFloat f,
                            rec_state_version := (if state_version = 0 then rec_state_version r else state_version),
                            rec_execution_id := str_or execution_id (rec_execution_id r),
                            rec_turn_id := str_or turn_id (rec_turn_id r), rec_updated_at := time,
                            rec_metadata := merge_meta (rec_metadata r) metadata\<rparr>
                  in case record_error u of
                       Some e \<Rightarrow> (Inl e, rg, w1, [])
                     | None \<Rightarrow> (Inr u, put_record i u rg, w1, emit_event rg u))))"

definition stop_action ::
  "platform \<Rightarrow> string \<Rightarrow> string \<Rightarrow> string option \<Rightarrow> string \<Rightarrow> registry \<Rightarrow> agent_world \<Rightarrow> action_record reg_result" where
  "stop_action pf i reason execution_id turn_id rg w =
     (case map_of (rg_records rg) i of
        None \<Rightarrow> (Inl (StateErr (KeyErr i)), rg, w, [])
      | Some r \<Rightarrow>
          if is_terminal r then (Inl (ValueErr ''Cannot stop terminal active action''), rg, w, [])
          else
            (let (s, rg1, w1) = internal_stop pf i r reason execution_id turn_id rg w
             in (Inr s, rg1, w1, invoke_stop_handler rg s reason @ emit_event rg s)))"

definition failed_record :: "string \<Rightarrow> string option \<Rightarrow> string \<Rightarrow> string \<Rightarrow> action_record \<Rightarrow> action_record" where
  "failed_record error execution_id turn_id time r =
     r\<lparr>rec_phase := PH_FAILED, rec_execution_id := str_or execution_id (rec_execution_id r),
       rec_turn_id := or_text turn_id (rec_turn_id r), rec_failure_reason := error,
       rec_updated_at := time\<rparr>"

definition completed_record :: "string option \<Rightarrow> string \<Rightarrow> string \<Rightarrow> action_record \<Rightarrow> action_record" where
  "completed_record execution_id turn_id time r =
     r\<lparr>rec_phase := PH_COMPLETED, rec_progress := PFloat (Fin 1),
       rec_execution_id := str_or execution_id (rec_execution_id r),
       rec_turn_id := or_text turn_id (rec_turn_id r), rec_updated_at := time\<rparr>"

definition fail_action ::
  "platform \<Rightarrow> string \<Rightarrow> string \<Rightarrow> string option \<Rightarrow> string \<Rightarrow> registry \<Rightarrow> agent_world \<Rightarrow> action_record reg_result" where
  "fail_action pf i error execution_id turn_id rg w =
     (case map_of (rg_records rg) i of
        None \<Rightarrow> (Inl (StateErr (KeyErr i)), rg, w, [])
      | Some r \<Rightarrow>
          if is_terminal r then (Inl (ValueErr ''Cannot fail terminal active action''), rg, w, [])
          else
            (let (time, w1) = now_text pf w;
                 f = failed_record error execution_id turn_id time r
             in (Inr f, clear_running_index f (put_record i f rg), w1,
                 invoke_stop_handler rg f (''failed: '' @ error) @ emit_event rg f)))"

definition complete_action ::
  "platform \<Rightarrow> string \<Rightarrow> string option \<Rightarrow> string \<Rightarrow> registry \<Rightarrow> agent_world \<Rightarrow> action_record reg_result" where
  "complete_action pf i execution_id turn_id rg w =
     (case map_of (rg_records rg) i of
        None \<Rightarrow> (Inl (StateErr (KeyErr i)), rg, w, [])
      | Some r \<Rightarrow>
          if is_terminal r then (Inl (ValueErr ''Cannot complete terminal active action''), rg, w, [])
          else
            (let (time, w1) = now_text pf w;
                 c = completed_record execution_id turn_id time r
             in (Inr c, clear_running_index c (put_record i c rg), w1, emit_event rg c)))"

fun stop_each ::
  "platform \<Rightarrow> string \<Rightarrow> string \<Rightarrow> string list \<Rightarrow> registry \<Rightarrow> agent_world \<Rightarrow>
   action_record list \<times> registry \<times> agent_world" where
  "stop_each pf reason turn_id [] rg w = ([], rg, w)"
| "stop_each pf reason turn_id (i # is) rg w =
     (case map_of (rg_records rg) i of
        None \<Rightarrow> stop_each pf reason turn_id is rg w
      | Some r \<Rightarrow>
          (let (s, rg1, w1) = internal_stop pf i r reason None turn_id rg w;
               (ss, rg2, w2) = stop_each pf reason turn_id is rg1 w1
           in (s # ss, rg2, w2)))"

definition in_session :: "string option \<Rightarrow> action_record \<Rightarrow> bool" where
  "in_session session_id r = (case session_id of None \<Rightarrow> True | Some s \<Rightarrow> rec_session_id r = s)"

definition reset_and_cleanup ::
  "platform \<Rightarrow> string \<Rightarrow> string \<Rightarrow> string option \<Rightarrow> registry \<Rightarrow> agent_world \<Rightarrow>
   action_record list \<times> registry \<times> agent_world \<times> effect list" where
  "reset_and_cleanup pf reason turn_id session_id rg w =
     (let running_ids = map rec_action_id
            (filter (\<lambda>r. is_running r \<and> in_session session_id r) (map snd (rg_records rg)));
          (cleaned_up, rg1, w1) = stop_each pf reason turn_id running_ids rg w
      in (cleaned_up, rg1, w1,
          concat (map (\<lambda>r. invoke_stop_handler rg r reason @ emit_event rg r) cleaned_up)))"

section \<open>Queries\<close>

definition get_action :: "string \<Rightarrow> registry \<Rightarrow> action_record option" where
  "get_action i rg = map_of (rg_records rg) i"

definition list_all_actions :: "registry \<Rightarrow> action_record list" where
  "list_all_actions rg = map snd (rg_records rg)"

definition get_running_action :: "string \<Rightarrow> string \<Rightarrow> registry \<Rightarrow> action_record option" where
  "get_running_action session_id intent rg =
     (case map_of (rg_index rg) (session_id, intent) of
        None \<Rightarrow> None
      | Some i \<Rightarrow> map_of (rg_records rg) i)"

definition query_actions ::
  "string option \<Rightarrow> string option \<Rightarrow> string option \<Rightarrow> bool \<Rightarrow> registry \<Rightarrow> action_record list" where
  "query_actions session_id intent phase active_only rg =
     filter (\<lambda>r. in_session session_id r \<and>
                 (case intent of None \<Rightarrow> True | Some i \<Rightarrow> rec_intent r = i) \<and>
                 (case phase of None \<Rightarrow> True | Some p \<Rightarrow> phase_value (rec_phase r) = p) \<and>
                 (active_only \<longrightarrow> is_running r))
       (map snd (rg_records rg))"

definition get_active_actions :: "string option \<Rightarrow> registry \<Rightarrow> action_record list" where
  "get_active_actions session_id rg = query_actions session_id None None True rg"

section \<open>Runs\<close>

datatype registry_op =
    Start start_request
  | Progress string pyval int "string option" "string option" payload
  | Stop string string "string option" string
  | FailOp string string "string option" string
  | Complete string "string option" string
  | Cleanup string string "string option"
  | SetHandler string
  | SetPipeline bool

fun registry_step :: "agent_platform \<Rightarrow> registry_op \<Rightarrow> registry \<times> agent_world \<Rightarrow> registry \<times> agent_world" where
  "registry_step pf (Start q) (rg, w) =
     (case start_action (platform.truncate pf) q rg w of (_, rg', w', _) \<Rightarrow> (rg', w'))"
| "registry_step pf (Progress i p v e t md) (rg, w) =
     (case update_progress pf i p v e t md rg w of (_, rg', w', _) \<Rightarrow> (rg', w'))"
| "registry_step pf (Stop i reason e t) (rg, w) =
     (case stop_action (platform.truncate pf) i reason e t rg w of (_, rg', w', _) \<Rightarrow> (rg', w'))"
| "registry_step pf (FailOp i err e t) (rg, w) =
     (case fail_action (platform.truncate pf) i err e t rg w of (_, rg', w', _) \<Rightarrow> (rg', w'))"
| "registry_step pf (Complete i e t) (rg, w) =
     (case complete_action (platform.truncate pf) i e t rg w of (_, rg', w', _) \<Rightarrow> (rg', w'))"
| "registry_step pf (Cleanup reason t s) (rg, w) =
     (case reset_and_cleanup (platform.truncate pf) reason t s rg w of (_, rg', w', _) \<Rightarrow> (rg', w'))"
| "registry_step pf (SetHandler target) (rg, w) = (register_stop_handler target rg, w)"
| "registry_step pf (SetPipeline pipeline) (rg, w) = (set_event_pipeline pipeline rg, w)"

definition registry_run :: "agent_platform \<Rightarrow> registry_op list \<Rightarrow> registry \<times> agent_world \<Rightarrow> registry \<times> agent_world"
where
  "registry_run pf xs s = fold (registry_step pf) xs s"

text \<open>A start whose identifier names no record yet, as generated identifiers do unless two
  of them collide.\<close>

fun fresh_op :: "registry_op \<Rightarrow> registry \<times> agent_world \<Rightarrow> bool" where
  "fresh_op (Start q) (rg, w) = (map_of (rg_records rg) (fst (final_action_id q w)) = None)"
| "fresh_op _ _ = True"

fun fresh_run :: "agent_platform \<Rightarrow> registry_op list \<Rightarrow> registry \<times> agent_world \<Rightarrow> bool" where
  "fresh_run pf [] s = True"
| "fresh_run pf (x # xs) s = (fresh_op x s \<and> fresh_run pf xs (registry_step pf x s))"

text \<open>A start that the registry accepts under an identifier, and the place of the first one in a run.
  The identifier may already name a record, which is then replaced.\<close>

fun restarts :: "agent_platform \<Rightarrow> string \<Rightarrow> registry_op \<Rightarrow> registry \<times> agent_world \<Rightarrow> bool" where
  "restarts pf i (Start q) (rg, w) =
     (fst (final_action_id q w) = i \<and> \<not> isl (fst (start_action (platform.truncate pf) q rg w)))"
| "restarts pf i _ _ = False"

fun first_restart ::
  "agent_platform \<Rightarrow> string \<Rightarrow> registry_op list \<Rightarrow> registry \<times> agent_world \<Rightarrow> nat option" where
  "first_restart pf i [] s = None"
| "first_restart pf i (x # xs) s =
     (if restarts pf i x s then Some 0 else map_option Suc (first_restart pf i xs (registry_step pf x s)))"

section \<open>Invariants\<close>

text \<open>Stated on the two maps a registry holds: every record is kept under its own
  identifier; every running record is in the index (so no two run under one key); and every
  index entry names a running record of its key.\<close>

type_synonym rec_map = "string \<Rightarrow> action_record option"
type_synonym idx_map = "string \<times> string \<Rightarrow> string option"

definition keyed :: "rec_map \<Rightarrow> bool" where
  "keyed recs \<longleftrightarrow> (\<forall>i r. recs i = Some r \<longrightarrow> rec_action_id r = i)"

definition running_indexed :: "rec_map \<Rightarrow> idx_map \<Rightarrow> bool" where
  "running_indexed recs idx \<longleftrightarrow>
     (\<forall>i r. recs i = Some r \<longrightarrow> is_running r \<longrightarrow> idx (key_of r) = Some i)"

definition index_live :: "rec_map \<Rightarrow> idx_map \<Rightarrow> bool" where
  "index_live recs idx \<longleftrightarrow>
     (\<forall>k i. idx k = Some i \<longrightarrow> (\<exists>r. recs i = Some r \<and> is_running r \<and> key_of r = k))"

definition recs_of :: "registry \<Rightarrow> rec_map" where
  "recs_of rg = map_of (rg_records rg)"

definition idx_of :: "registry \<Rightarrow> idx_map" where
  "idx_of rg = map_of (rg_index rg)"

definition reg_inv :: "registry \<Rightarrow> bool" where
  "reg_inv rg \<longleftrightarrow> distinct (map fst (rg_records rg)) \<and> keyed (recs_of rg) \<and>
     running_indexed (recs_of rg) (idx_of rg)"

definition reg_live :: "registry \<Rightarrow> bool" where
  "reg_live rg \<longleftrightarrow> index_live (recs_of rg) (idx_of rg)"

lemma keyed_put: "keyed recs \<Longrightarrow> rec_action_id s = i \<Longrightarrow> keyed (recs(i \<mapsto> s))"
  by (simp add: keyed_def)

lemma indexed_end:
  assumes "running_indexed recs idx" "recs i = Some r" "key_of s = key_of r" "\<not> is_running s"
  shows "running_indexed (recs(i \<mapsto> s)) (if idx (key_of s) = Some i then idx(key_of s := None) else idx)"
  unfolding running_indexed_def
proof (intro allI impI)
  fix j q
  assume q: "(recs(i \<mapsto> s)) j = Some q" "is_running q"
  with assms(4) have "j \<noteq> i" "recs j = Some q" by (auto split: if_splits)
  with assms(1) q(2) have "idx (key_of q) = Some j" unfolding running_indexed_def by blast
  with \<open>j \<noteq> i\<close> show "(if idx (key_of s) = Some i then idx(key_of s := None) else idx) (key_of q) = Some j"
    by auto
qed

lemma live_end:
  assumes "index_live recs idx" "running_indexed recs idx" "recs i = Some r" "is_running r"
    "key_of s = key_of r" "\<not> is_running s"
  shows "index_live (recs(i \<mapsto> s)) (if idx (key_of s) = Some i then idx(key_of s := None) else idx)"
proof -
  have "idx (key_of r) = Some i" using assms(2-4) unfolding running_indexed_def by blast
  moreover have "j \<noteq> i" if "idx k = Some j" "k \<noteq> key_of r" for k j
    using assms(1,3) that unfolding index_live_def by fastforce
  ultimately show ?thesis using assms(1,5) unfolding index_live_def by simp
qed

lemma indexed_progress:
  assumes "running_indexed recs idx" "recs i = Some r" "is_running r" "key_of u = key_of r"
  shows "running_indexed (recs(i \<mapsto> u)) idx"
  using assms unfolding running_indexed_def by auto

lemma live_progress:
  assumes "index_live recs idx" "recs i = Some r" "key_of u = key_of r" "is_running u"
  shows "index_live (recs(i \<mapsto> u)) idx"
  unfolding index_live_def
proof (intro allI impI)
  fix k j
  assume "idx k = Some j"
  with assms(1) obtain q where "recs j = Some q" "is_running q" "key_of q = k"
    unfolding index_live_def by blast
  with assms show "\<exists>r. (recs(i \<mapsto> u)) j = Some r \<and> is_running r \<and> key_of r = k" by auto
qed

lemma indexed_start:
  assumes "running_indexed recs idx"
    and "\<And>j q. recs j = Some q \<Longrightarrow> is_running q \<Longrightarrow> key_of q \<noteq> key_of r"
  shows "running_indexed (recs(i \<mapsto> r)) (idx(key_of r \<mapsto> i))"
  using assms unfolding running_indexed_def by auto

lemma live_start:
  assumes "index_live recs idx" "recs i = None" "is_running r"
  shows "index_live (recs(i \<mapsto> r)) (idx(key_of r \<mapsto> i))"
  unfolding index_live_def
proof (intro allI impI)
  fix k j
  assume k: "(idx(key_of r \<mapsto> i)) k = Some j"
  show "\<exists>q. (recs(i \<mapsto> r)) j = Some q \<and> is_running q \<and> key_of q = k"
  proof (cases "k = key_of r")
    case False
    with k have "idx k = Some j" by simp
    with assms(1) obtain q where "recs j = Some q" "is_running q" "key_of q = k"
      unfolding index_live_def by blast
    with assms(2) show ?thesis by auto
  qed (use k assms(3) in auto)
qed

lemma put_record_maps [simp]:
  "recs_of (put_record i r rg) = (recs_of rg)(i \<mapsto> r)" "idx_of (put_record i r rg) = idx_of rg"
  by (simp_all add: recs_of_def idx_of_def put_record_def update_conv')

lemma put_record_distinct [simp]:
  "distinct (map fst (rg_records rg)) \<Longrightarrow> distinct (map fst (rg_records (put_record i r rg)))"
  by (simp add: put_record_def distinct_update)

lemma clear_maps [simp]:
  "recs_of (clear_running_index s rg) = recs_of rg"
  "idx_of (clear_running_index s rg) =
     (if idx_of rg (key_of s) = Some (rec_action_id s) then (idx_of rg)(key_of s := None) else idx_of rg)"
  "rg_records (clear_running_index s rg) = rg_records rg"
  by (auto simp: recs_of_def idx_of_def clear_running_index_def delete_conv')

lemma running_not_terminal: "is_terminal r \<longleftrightarrow> \<not> is_running r"
  by (cases "rec_phase r") (simp_all add: is_running_def is_terminal_def)

lemma reg_invD:
  assumes "reg_inv rg" "recs_of rg i = Some r"
  shows "rec_action_id r = i" "is_running r \<Longrightarrow> idx_of rg (key_of r) = Some i"
  using assms unfolding reg_inv_def keyed_def running_indexed_def by blast+

text \<open>Ending a record: it stays under its key and identifier, but no longer runs.\<close>

lemma end_record_inv:
  assumes "reg_inv rg" "recs_of rg i = Some r"
    and s: "rec_action_id s = i" "key_of s = key_of r" "\<not> is_running s"
  shows "reg_inv (clear_running_index s (put_record i s rg))"
    and "reg_live rg \<Longrightarrow> is_running r \<Longrightarrow> reg_live (clear_running_index s (put_record i s rg))"
  using assms indexed_end [of "recs_of rg" "idx_of rg" i r s] live_end [of "recs_of rg" "idx_of rg" i r s]
  by (simp_all add: reg_inv_def reg_live_def keyed_put cong: if_cong del: fun_upd_apply split del: if_split)

lemma progress_record_inv:
  assumes "reg_inv rg" "recs_of rg i = Some r" "is_running r"
    and u: "rec_action_id u = rec_action_id r" "key_of u = key_of r" "is_running u"
  shows "reg_inv (put_record i u rg)" and "reg_live rg \<Longrightarrow> reg_live (put_record i u rg)"
  using assms reg_invD(1) [OF assms(1,2)] indexed_progress [of "recs_of rg" "idx_of rg" i r u]
    live_progress [of "recs_of rg" "idx_of rg" i r u]
  by (simp_all add: reg_inv_def reg_live_def keyed_put del: fun_upd_apply)

text \<open>Putting a new record in place and indexing it, where no record runs under its key.\<close>

definition index_record :: "action_record \<Rightarrow> registry \<Rightarrow> registry" where
  "index_record r rg =
     rg\<lparr>rg_index := AList.update (key_of r) (rec_action_id r) (rg_index rg)\<rparr>"

lemma index_record_maps [simp]:
  "recs_of (index_record r rg) = recs_of rg" "rg_records (index_record r rg) = rg_records rg"
  "idx_of (index_record r rg) = (idx_of rg)(key_of r \<mapsto> rec_action_id r)"
  by (simp_all add: recs_of_def idx_of_def index_record_def update_conv')

lemma start_record_inv:
  assumes "reg_inv rg"
    and "\<And>j q. recs_of rg j = Some q \<Longrightarrow> is_running q \<Longrightarrow> key_of q \<noteq> key_of r"
  shows "reg_inv (index_record r (put_record (rec_action_id r) r rg))"
    and "reg_live rg \<Longrightarrow> recs_of rg (rec_action_id r) = None \<Longrightarrow> is_running r \<Longrightarrow>
      reg_live (index_record r (put_record (rec_action_id r) r rg))"
  using assms indexed_start [of "recs_of rg" "idx_of rg" r "rec_action_id r"]
    live_start [of "recs_of rg" "idx_of rg" "rec_action_id r" r]
  by (simp_all add: reg_inv_def reg_live_def keyed_put del: fun_upd_apply)

lemma stopped_record_simps [simp]:
  "rec_action_id (stopped_record reason e t time r) = rec_action_id r"
  "key_of (stopped_record reason e t time r) = key_of r"
  "\<not> is_running (stopped_record reason e t time r)"
  "rec_phase (stopped_record reason e t time r) = PH_STOPPED"
  "rec_stop_reason (stopped_record reason e t time r) = reason"
  by (simp_all add: stopped_record_def key_of_def is_running_def)

lemma internal_stop_eq:
  assumes "internal_stop pf i r reason e t rg w = (s, rg', w')"
  shows "\<exists>time. s = stopped_record reason e t time r" and "rg' = clear_running_index s (put_record i s rg)"
  using assms by (auto simp: internal_stop_def Let_def split: prod.splits)

lemma internal_stop_inv:
  assumes "reg_inv rg" "recs_of rg i = Some r" "internal_stop pf i r reason e t rg w = (s, rg', w')"
  shows "reg_inv rg'" and "reg_live rg \<Longrightarrow> is_running r \<Longrightarrow> reg_live rg'"
    and "recs_of rg' = (recs_of rg)(i \<mapsto> s)" and "\<not> is_running s" "key_of s = key_of r" "rec_action_id s = i"
proof -
  obtain time where s: "s = stopped_record reason e t time r" using internal_stop_eq(1) [OF assms(3)] ..
  note rg' = internal_stop_eq(2) [OF assms(3)]
  show i: "rec_action_id s = i" using reg_invD(1) [OF assms(1,2)] s by simp
  show "reg_inv rg'" "reg_live rg \<Longrightarrow> is_running r \<Longrightarrow> reg_live rg'"
    using end_record_inv [OF assms(1,2) i] s rg' by simp_all
  show "recs_of rg' = (recs_of rg)(i \<mapsto> s)" "\<not> is_running s" "key_of s = key_of r"
    using s rg' by simp_all
qed

lemma supersededD:
  assumes "superseded q rg = Some (j, r)"
  shows "idx_of rg (sr_session_id q, sr_intent q) = Some j" "recs_of rg j = Some r" "is_running r"
  using assms by (auto simp: superseded_def idx_of_def recs_of_def split: option.splits if_splits)

lemma none_running:
  assumes "reg_inv rg" "superseded q rg = None" "recs_of rg j = Some p" "is_running p"
  shows "key_of p \<noteq> (sr_session_id q, sr_intent q)"
  using assms reg_invD(2) [OF assms(1,3,4)]
  by (auto simp: superseded_def idx_of_def recs_of_def split: option.splits)

text \<open>What a start does, branch by branch.\<close>

lemma start_action_cases:
  assumes "start_action pf q rg w = (res, rg', w', fx)"
  obtains (rejected) "isl res" "rg' = rg" "fx = []"
  | (fresh) r where "superseded q rg = None" "res = Inr r" "key_of r = (sr_session_id q, sr_intent q)"
      "is_running r" "rec_action_id r = fst (final_action_id q w)"
      "rg' = index_record r (put_record (rec_action_id r) r rg)" "fx = emit_event rg r"
  | (superseding) r j old s rg1 w2 w3 where "superseded q rg = Some (j, old)" "res = Inr r"
      "key_of r = (sr_session_id q, sr_intent q)" "is_running r"
      "rec_action_id r = fst (final_action_id q w)"
      "internal_stop pf j old SUPERSEDED_BY_NEW_START_REASON None (sr_turn_id q) rg w2 = (s, rg1, w3)"
      "rg' = index_record r (put_record (rec_action_id r) r rg1)"
      "fx = (invoke_stop_handler rg s SUPERSEDED_BY_NEW_START_REASON @ emit_event rg s) @ emit_event rg r"
proof -
  obtain i w1 where i: "final_action_id q w = (i, w1)" by fastforce
  obtain time w2 where time: "now_text pf w1 = (time, w2)" by fastforce
  define r where "r = new_record rg q i time"
  have r: "rec_action_id r = i" "key_of r = (sr_session_id q, sr_intent q)" "is_running r"
    by (simp_all add: r_def new_record_def key_of_def is_running_def)
  show ?thesis
  proof (cases "is_monitored_behavior (sr_intent q) rg \<and> record_error r = None")
    case False
    then show ?thesis using assms i time
      by (cases "record_error r") (auto simp: start_action_def Let_def r_def [symmetric] intro: rejected split: if_splits)
  next
    case True
    show ?thesis
    proof (cases "superseded q rg")
      case None
      show ?thesis
        by (rule fresh [of r]) (use None True assms i time r in
            \<open>auto simp: start_action_def Let_def r_def [symmetric] index_record_def\<close>)
    next
      case (Some jo)
      obtain j old where jo: "jo = (j, old)" by fastforce
      obtain s rg1 w3 where stop: "internal_stop pf j old SUPERSEDED_BY_NEW_START_REASON None (sr_turn_id q) rg w2
          = (s, rg1, w3)" by (metis prod.collapse)
      show ?thesis
        by (rule superseding [of j old r w2 s rg1 w3]) (use Some jo stop True assms i time r in
            \<open>auto simp: start_action_def Let_def r_def [symmetric] index_record_def\<close>)
    qed
  qed
qed

lemma start_action_inv:
  assumes "reg_inv rg" "start_action pf q rg w = (res, rg', w', fx)"
  shows "reg_inv rg' \<and> (reg_live rg \<longrightarrow> recs_of rg (fst (final_action_id q w)) = None \<longrightarrow> reg_live rg')"
  using assms(2)
proof (cases rule: start_action_cases)
  case rejected
  then show ?thesis using assms(1) by simp
next
  case (fresh r)
  have none: "key_of p \<noteq> key_of r" if "recs_of rg j = Some p" "is_running p" for j p
    using none_running [OF assms(1) fresh(1) that] fresh(3) by simp
  show ?thesis using start_record_inv [OF assms(1) none] fresh by auto
next
  case (superseding r j old s rg1 w2 w3)
  note sup = supersededD [OF superseding(1)]
  note inv1 = internal_stop_inv [OF assms(1) sup(2) superseding(6)]
  have none: "key_of p \<noteq> key_of r" if p: "recs_of rg1 k = Some p" "is_running p" for k p
  proof
    assume key: "key_of p = key_of r"
    from p inv1(3,4) have "recs_of rg k = Some p" "k \<noteq> j" by (auto split: if_splits)
    then have "idx_of rg (key_of p) = Some k" using reg_invD(2) [OF assms(1)] p(2) by blast
    with key superseding(3) sup(1) \<open>k \<noteq> j\<close> show False by simp
  qed
  have fresh: "recs_of rg1 (rec_action_id r) = None" if "recs_of rg (fst (final_action_id q w)) = None"
    using that inv1(3) superseding(5) sup(2) by auto
  show ?thesis using start_record_inv [OF inv1(1) none] inv1(2) sup(3) superseding(4,7) fresh by auto
qed

lemma update_progress_inv:
  assumes "reg_inv rg" "update_progress pf i p v e t md rg w = (res, rg', w', fx)"
  shows "reg_inv rg' \<and> (reg_live rg \<longrightarrow> reg_live rg')"
proof (cases "rg' = rg")
  case False
  with assms(2) obtain r u where r: "recs_of rg i = Some r" "is_running r" "rg' = put_record i u rg"
    and u: "rec_action_id u = rec_action_id r" "key_of u = key_of r" "is_running u"
    by (auto simp: update_progress_def Let_def recs_of_def running_not_terminal key_of_def is_running_def
        split: option.splits sum.splits if_splits prod.splits)
  show ?thesis using progress_record_inv [OF assms(1) r(1,2) u] r(3) by simp
qed (use assms(1) in simp)

text \<open>An operation that ends one record, or rejects the call.\<close>

definition ends_one :: "string \<Rightarrow> registry \<Rightarrow> (agent_exn + action_record) \<Rightarrow> registry \<Rightarrow> bool" where
  "ends_one i rg res rg' \<longleftrightarrow>
     isl res \<and> rg' = rg \<and> (\<forall>r. recs_of rg i = Some r \<longrightarrow> \<not> is_running r) \<or>
     (\<exists>r s. res = Inr s \<and> recs_of rg i = Some r \<and> is_running r \<and> rec_action_id s = rec_action_id r \<and>
        key_of s = key_of r \<and> \<not> is_running s \<and> rg' = clear_running_index s (put_record i s rg))"

lemma ends_one_inv:
  assumes "ends_one i rg res rg'" "reg_inv rg"
  shows "reg_inv rg' \<and> (reg_live rg \<longrightarrow> reg_live rg')"
  using assms end_record_inv [OF assms(2)] reg_invD(1) [OF assms(2)] by (fastforce simp: ends_one_def)

lemma ended_record_simps [simp]:
  "rec_action_id (failed_record err e t time r) = rec_action_id r"
  "key_of (failed_record err e t time r) = key_of r" "\<not> is_running (failed_record err e t time r)"
  "rec_action_id (completed_record e t time r) = rec_action_id r"
  "key_of (completed_record e t time r) = key_of r" "\<not> is_running (completed_record e t time r)"
  by (simp_all add: failed_record_def completed_record_def key_of_def is_running_def)

lemma stop_action_ends:
  assumes "stop_action pf i reason e t rg w = (res, rg', w', fx)"
  shows "ends_one i rg res rg'"
proof (cases "recs_of rg i")
  case (Some r)
  obtain s rg1 w1 where stop: "internal_stop pf i r reason e t rg w = (s, rg1, w1)"
    by (metis prod.collapse)
  from internal_stop_eq [OF this] Some assms stop show ?thesis
    by (auto simp: stop_action_def recs_of_def ends_one_def running_not_terminal split: if_splits)
qed (use assms in \<open>auto simp: stop_action_def recs_of_def ends_one_def\<close>)

lemma fail_action_ends:
  assumes "fail_action pf i err e t rg w = (res, rg', w', fx)"
  shows "ends_one i rg res rg'"
  using assms
  by (cases "recs_of rg i"; cases "now_text pf w")
     (auto simp: fail_action_def recs_of_def ends_one_def running_not_terminal Let_def split: if_splits)

lemma complete_action_ends:
  assumes "complete_action pf i e t rg w = (res, rg', w', fx)"
  shows "ends_one i rg res rg'"
  using assms
  by (cases "recs_of rg i"; cases "now_text pf w")
     (auto simp: complete_action_def recs_of_def ends_one_def running_not_terminal Let_def split: if_splits)

text \<open>Stopping a list of records one by one.\<close>

lemma stop_each_spec:
  assumes "reg_inv rg" "distinct is" "\<forall>i \<in> set is. \<exists>r. recs_of rg i = Some r \<and> is_running r"
    and "stop_each pf reason t is rg w = (ss, rg', w')"
  shows "reg_inv rg' \<and> (reg_live rg \<longrightarrow> reg_live rg') \<and> map rec_action_id ss = is \<and>
    (\<forall>s \<in> set ss. rec_phase s = PH_STOPPED \<and> rec_stop_reason s = reason \<and>
       recs_of rg' (rec_action_id s) = Some s) \<and>
    (\<forall>i. i \<notin> set is \<longrightarrow> recs_of rg' i = recs_of rg i)"
  using assms
proof (induction "is" arbitrary: rg w ss rg' w')
  case (Cons i "is")
  from Cons.prems(3) obtain r where r: "recs_of rg i = Some r" "is_running r" by auto
  obtain s rg1 w1 where stop: "internal_stop pf i r reason None t rg w = (s, rg1, w1)"
    by (metis prod.collapse)
  obtain ss1 rg2 w2 where rest: "stop_each pf reason t is rg1 w1 = (ss1, rg2, w2)"
    by (metis prod.collapse)
  note one = internal_stop_inv [OF Cons.prems(1) r(1) stop]
  have s: "rec_phase s = PH_STOPPED" "rec_stop_reason s = reason"
    using internal_stop_eq(1) [OF stop] by auto
  have "\<forall>j \<in> set is. \<exists>q. recs_of rg1 j = Some q \<and> is_running q"
    using Cons.prems(2,3) one(3) by auto
  note IH = Cons.IH [OF one(1) _ this rest]
  have "ss = s # ss1" "rg' = rg2" using Cons.prems(4) r(1) stop rest by (auto simp: recs_of_def)
  moreover have "recs_of rg2 i = Some s" using IH Cons.prems(2) one(3) by simp
  ultimately show ?case using IH Cons.prems(2) one r(2) s by auto
qed simp

lemma running_ids:
  fixes session :: "string option"
  assumes "reg_inv rg"
  defines "is \<equiv> map rec_action_id (filter (\<lambda>r. is_running r \<and> in_session session r) (map snd (rg_records rg)))"
  shows "distinct is" and "i \<in> set is \<longleftrightarrow> (\<exists>r. recs_of rg i = Some r \<and> is_running r \<and> in_session session r)"
proof -
  have d: "distinct (map fst (rg_records rg))" and k: "keyed (recs_of rg)"
    using assms(1) by (auto simp: reg_inv_def)
  have mem: "(j, r) \<in> set (rg_records rg) \<longleftrightarrow> recs_of rg j = Some r" for j r
    using d by (simp add: recs_of_def map_of_eq_Some_iff)
  then have id: "(j, r) \<in> set (rg_records rg) \<Longrightarrow> rec_action_id r = j" for j r
    using k unfolding keyed_def by blast
  then have "map rec_action_id (map snd (rg_records rg)) = map fst (rg_records rg)"
    unfolding map_map by (intro map_cong refl) auto
  then have "distinct (map rec_action_id (map snd (rg_records rg)))" using d by (simp only:)
  then show "distinct is" unfolding is_def by (rule distinct_map_filter)
  have "i \<in> set is \<longleftrightarrow> (\<exists>j r. (j, r) \<in> set (rg_records rg) \<and> is_running r \<and> in_session session r \<and>
      rec_action_id r = i)"
    unfolding is_def by force
  also have "\<dots> \<longleftrightarrow> (\<exists>r. recs_of rg i = Some r \<and> is_running r \<and> in_session session r)"
    using mem id by metis
  finally show "i \<in> set is \<longleftrightarrow> (\<exists>r. recs_of rg i = Some r \<and> is_running r \<and> in_session session r)" .
qed

lemma cleanup_inv:
  assumes "reg_inv rg" "reset_and_cleanup pf reason t session rg w = (ss, rg', w', fx)"
  shows "reg_inv rg' \<and> (reg_live rg \<longrightarrow> reg_live rg')"
proof -
  let ?is = "map rec_action_id (filter (\<lambda>r. is_running r \<and> in_session session r) (map snd (rg_records rg)))"
  have "stop_each pf reason t ?is rg w = (ss, rg', w')"
    using assms(2) by (auto simp: reset_and_cleanup_def Let_def split: prod.splits)
  from stop_each_spec [OF assms(1) running_ids(1) [OF assms(1)] _ this]
  show ?thesis using running_ids(2) [OF assms(1), of _ session] by auto
qed

lemma registry_step_inv:
  assumes inv: "reg_inv rg" and step: "registry_step pf x (rg, w) = (rg', w')"
  shows "reg_inv rg' \<and> (reg_live rg \<longrightarrow> fresh_op x (rg, w) \<longrightarrow> reg_live rg')"
proof (cases x)
  case (Start q)
  obtain res fx where "start_action (platform.truncate pf) q rg w = (res, rg', w', fx)"
    using step Start by (auto split: prod.splits)
  from start_action_inv [OF inv this] Start show ?thesis by (simp add: recs_of_def)
next
  case (Progress i p v e t md)
  obtain res fx where "update_progress pf i p v e t md rg w = (res, rg', w', fx)"
    using step Progress by (auto split: prod.splits)
  from update_progress_inv [OF inv this] show ?thesis by blast
next
  case (Stop i reason e t)
  obtain res fx where "stop_action (platform.truncate pf) i reason e t rg w = (res, rg', w', fx)"
    using step Stop by (auto split: prod.splits)
  from ends_one_inv [OF stop_action_ends [OF this] inv] show ?thesis by blast
next
  case (FailOp i err e t)
  obtain res fx where "fail_action (platform.truncate pf) i err e t rg w = (res, rg', w', fx)"
    using step FailOp by (auto split: prod.splits)
  from ends_one_inv [OF fail_action_ends [OF this] inv] show ?thesis by blast
next
  case (Complete i e t)
  obtain res fx where "complete_action (platform.truncate pf) i e t rg w = (res, rg', w', fx)"
    using step Complete by (auto split: prod.splits)
  from ends_one_inv [OF complete_action_ends [OF this] inv] show ?thesis by blast
next
  case (Cleanup reason t s)
  obtain ss fx where "reset_and_cleanup (platform.truncate pf) reason t s rg w = (ss, rg', w', fx)"
    using step Cleanup by (auto split: prod.splits)
  from cleanup_inv [OF inv this] show ?thesis by blast
next
  case (SetHandler target)
  then have "recs_of rg' = recs_of rg" "idx_of rg' = idx_of rg" "rg_records rg' = rg_records rg"
    using step by (auto simp: register_stop_handler_def recs_of_def idx_of_def)
  then show ?thesis using inv by (simp add: reg_inv_def reg_live_def)
next
  case (SetPipeline pipeline)
  then have "recs_of rg' = recs_of rg" "idx_of rg' = idx_of rg" "rg_records rg' = rg_records rg"
    using step by (auto simp: set_event_pipeline_def recs_of_def idx_of_def)
  then show ?thesis using inv by (simp add: reg_inv_def reg_live_def)
qed

lemma registry_run_Cons [simp]: "registry_run pf (x # xs) s = registry_run pf xs (registry_step pf x s)"
  by (simp add: registry_run_def)

lemma registry_run_inv:
  "reg_inv (fst s) \<Longrightarrow> reg_inv (fst (registry_run pf xs s)) \<and>
   (reg_live (fst s) \<longrightarrow> fresh_run pf xs s \<longrightarrow> reg_live (fst (registry_run pf xs s)))"
proof (induction xs arbitrary: s)
  case (Cons x xs)
  obtain rg w rg' w' where s: "s = (rg, w)" and n: "registry_step pf x (rg, w) = (rg', w')"
    by (metis prod.collapse)
  have "reg_inv rg' \<and> (reg_live rg \<longrightarrow> fresh_op x (rg, w) \<longrightarrow> reg_live rg')"
    using registry_step_inv [OF _ n] Cons.prems s by simp
  with Cons.IH [of "(rg', w')"] show ?case by (simp add: s n)
qed (simp add: registry_run_def)

lemma new_registry_inv: "reg_inv (ActiveActionRegistry cat p)" "reg_live (ActiveActionRegistry cat p)"
  by (simp_all add: reg_inv_def reg_live_def ActiveActionRegistry_def recs_of_def idx_of_def keyed_def
      running_indexed_def index_live_def)


lemma reachable_registry:
  assumes "registry_run pf xs (ActiveActionRegistry catalog pipeline, w) = (rg, w')"
  shows "reg_inv rg" and "fresh_run pf xs (ActiveActionRegistry catalog pipeline, w) \<Longrightarrow> reg_live rg"
  using assms registry_run_inv [of "(ActiveActionRegistry catalog pipeline, w)" pf xs]
    new_registry_inv [of catalog pipeline] by auto

text \<open>A terminal record is left as it is by every operation that does not reuse its identifier.\<close>

lemma superseded_running: "superseded q rg = Some (j, r) \<Longrightarrow> recs_of rg i = Some t \<Longrightarrow> \<not> is_running t \<Longrightarrow> i \<noteq> j"
  using supersededD(2,3) by fastforce

lemma start_keeps_other:
  assumes "reg_inv rg" "start_action pf q rg w = (res, rg', w', fx)" "recs_of rg i = Some t" "\<not> is_running t"
    and "isl res \<or> fst (final_action_id q w) \<noteq> i"
  shows "recs_of rg' i = Some t"
  using assms(2)
proof (cases rule: start_action_cases)
  case (fresh r)
  then show ?thesis using assms(3,5) by auto
next
  case (superseding r j old s rg1 w2 w3)
  have "recs_of rg1 = (recs_of rg)(j \<mapsto> s)"
    using internal_stop_inv(3) [OF assms(1) supersededD(2) [OF superseding(1)] superseding(6)] .
  moreover have "fst (final_action_id q w) \<noteq> i" using assms(5) superseding(2) by simp
  ultimately show ?thesis using superseding(5,7) assms(3,4) superseded_running [OF superseding(1) assms(3,4)]
    by auto
qed (use assms(3) in simp)

lemma ends_one_keeps_other:
  "ends_one j rg res rg' \<Longrightarrow> recs_of rg i = Some t \<Longrightarrow> \<not> is_running t \<Longrightarrow> recs_of rg' i = Some t"
  by (auto simp: ends_one_def)

lemma progress_keeps_other:
  "update_progress pf j p v e t md rg w = (res, rg', w', fx) \<Longrightarrow> recs_of rg i = Some s \<Longrightarrow>
   \<not> is_running s \<Longrightarrow> recs_of rg' i = Some s"
  by (auto simp: update_progress_def Let_def recs_of_def running_not_terminal put_record_def update_conv'
      split: option.splits sum.splits if_splits prod.splits)

lemma cleanup_spec:
  assumes "reg_inv rg" "reset_and_cleanup pf reason t session rg w = (ss, rg', w', fx)"
  shows "\<forall>s \<in> set ss. rec_phase s = PH_STOPPED \<and> rec_stop_reason s = reason \<and>
      recs_of rg' (rec_action_id s) = Some s"
    and "rec_action_id ` set ss = {i. \<exists>r. recs_of rg i = Some r \<and> is_running r \<and> in_session session r}"
    and "i \<notin> rec_action_id ` set ss \<Longrightarrow> recs_of rg' i = recs_of rg i"
proof -
  let ?is = "map rec_action_id (filter (\<lambda>r. is_running r \<and> in_session session r) (map snd (rg_records rg)))"
  have "stop_each pf reason t ?is rg w = (ss, rg', w')"
    using assms(2) by (auto simp: reset_and_cleanup_def Let_def split: prod.splits)
  note spec = stop_each_spec [OF assms(1) running_ids(1) [OF assms(1)] _ this]
  have ids: "set ?is = {i. \<exists>r. recs_of rg i = Some r \<and> is_running r \<and> in_session session r}"
    using running_ids(2) [OF assms(1), of _ session] by blast
  moreover have "\<forall>i \<in> set ?is. \<exists>r. recs_of rg i = Some r \<and> is_running r" unfolding ids by blast
  ultimately have all: "map rec_action_id ss = ?is"
    and rest: "\<forall>s \<in> set ss. rec_phase s = PH_STOPPED \<and> rec_stop_reason s = reason \<and>
        recs_of rg' (rec_action_id s) = Some s" "\<forall>i. i \<notin> set ?is \<longrightarrow> recs_of rg' i = recs_of rg i"
    using spec by blast+
  have "rec_action_id ` set ss = set ?is" using all by (metis list.set_map)
  with ids rest show "\<forall>s \<in> set ss. rec_phase s = PH_STOPPED \<and> rec_stop_reason s = reason \<and>
        recs_of rg' (rec_action_id s) = Some s"
    "rec_action_id ` set ss = {i. \<exists>r. recs_of rg i = Some r \<and> is_running r \<and> in_session session r}"
    "i \<notin> rec_action_id ` set ss \<Longrightarrow> recs_of rg' i = recs_of rg i" by simp_all
qed

lemma start_puts_running:
  assumes "start_action pf q rg w = (res, rg', w', fx)" "\<not> isl res"
  shows "\<exists>r. recs_of rg' (fst (final_action_id q w)) = Some r \<and> is_running r"
  using assms(1)
proof (cases rule: start_action_cases)
  case (fresh r)
  then show ?thesis by (intro exI [of _ r]) auto
next
  case (superseding r j old s rg1 w2 w3)
  then show ?thesis by (intro exI [of _ r]) auto
qed (use assms(2) in simp)

lemma step_keeps_terminal:
  assumes inv: "reg_inv rg" and step: "registry_step pf x (rg, w) = (rg', w')" and other: "\<not> restarts pf i x (rg, w)"
    and t: "recs_of rg i = Some t" "\<not> is_running t"
  shows "recs_of rg' i = Some t"
proof (cases x)
  case (Start q)
  obtain res fx where "start_action (platform.truncate pf) q rg w = (res, rg', w', fx)"
    using step Start by (auto split: prod.splits)
  from start_keeps_other [OF inv this t] Start other this show ?thesis by auto
next
  case (Cleanup reason tn s)
  obtain ss fx where "reset_and_cleanup (platform.truncate pf) reason tn s rg w = (ss, rg', w', fx)"
    using step Cleanup by (auto split: prod.splits)
  from cleanup_spec(2) [OF inv this] cleanup_spec(3) [OF inv this, of i] t show ?thesis by auto
qed (use step t in \<open>auto simp: register_stop_handler_def set_event_pipeline_def recs_of_def [of "rg_stop_handlers_update _ _"]
       recs_of_def [of "rg_pipeline_update _ _"] recs_of_def [symmetric] split: prod.splits dest!: stop_action_ends fail_action_ends complete_action_ends
       intro: ends_one_keeps_other progress_keeps_other\<close>)

lemma registry_run_simps:
  "registry_run pf [] s = s"
  "registry_run pf (xs @ ys) s = registry_run pf ys (registry_run pf xs s)"
  by (simp_all add: registry_run_def)

lemma run_keeps_terminal:
  "reg_inv (fst s) \<Longrightarrow> recs_of (fst s) i = Some t \<Longrightarrow> \<not> is_running t \<Longrightarrow>
   k \<le> (case first_restart pf i xs s of None \<Rightarrow> length xs | Some n \<Rightarrow> n) \<Longrightarrow>
   recs_of (fst (registry_run pf (take k xs) s)) i = Some t"
proof (induction xs arbitrary: s k)
  case (Cons x xs)
  obtain rg w rg' w' where s: "s = (rg, w)" and n: "registry_step pf x (rg, w) = (rg', w')"
    by (metis prod.collapse)
  show ?case
  proof (cases k)
    case (Suc m)
    then have other: "\<not> restarts pf i x (rg, w)" using Cons.prems(4) s by (auto split: if_splits)
    have "reg_inv rg'" using registry_step_inv [OF _ n] Cons.prems(1) s by simp
    moreover have "recs_of rg' i = Some t" using step_keeps_terminal [OF _ n other] Cons.prems s by simp
    moreover have "m \<le> (case first_restart pf i xs (rg', w') of None \<Rightarrow> length xs | Some n \<Rightarrow> n)"
      using Cons.prems(4) Suc other by (auto simp: s n split: option.splits)
    ultimately show ?thesis
      using Cons.IH [of "(rg', w')" m] Cons.prems(3) Suc by (simp add: s n registry_run_simps)
  qed (use Cons.prems in \<open>simp add: registry_run_simps\<close>)
qed (simp add: registry_run_simps)

lemma first_restart_at:
  "first_restart pf i xs s = Some k \<Longrightarrow> k < length xs \<and> restarts pf i (xs ! k) (registry_run pf (take k xs) s)"
proof (induction xs arbitrary: s k)
  case (Cons x xs)
  show ?case
  proof (cases "restarts pf i x s")
    case False
    with Cons.prems obtain m where "k = Suc m" "first_restart pf i xs (registry_step pf x s) = Some m" by auto
    with Cons.IH show ?thesis by (simp add: registry_run_simps)
  qed (use Cons.prems in \<open>simp add: registry_run_simps\<close>)
qed simp

lemma restart_replaces:
  assumes "restarts pf i x s"
  shows "\<exists>r. recs_of (fst (registry_step pf x s)) i = Some r \<and> is_running r"
proof -
  obtain rg w q where s: "s = (rg, w)" "x = Start q" using assms by (cases s; cases x) auto
  obtain res rg' w' fx where st: "start_action (platform.truncate pf) q rg w = (res, rg', w', fx)"
    by (metis prod_cases4)
  from start_puts_running [OF st] assms show ?thesis by (simp add: s st)
qed

lemma first_restart_replaces:
  assumes "first_restart pf i xs s = Some k"
  shows "\<exists>r. recs_of (fst (registry_run pf (take (Suc k) xs) s)) i = Some r \<and> is_running r"
  using first_restart_at [OF assms] restart_replaces
  by (simp add: take_Suc_conv_app_nth registry_run_simps)


section \<open>Properties\<close>

definition act_start :: "string \<Rightarrow> string \<Rightarrow> string \<Rightarrow> start_request" where
  "act_start session intent i =
     \<lparr>sr_intent = intent, sr_proposal_id = ''p'', sr_execution_id = ''x'', sr_decision_id = ''d'',
      sr_state_version = 1, sr_session_id = session, sr_request_id = ''r'', sr_turn_id = ''t'',
      sr_metadata = [], sr_name = None, sr_action_id = Some i\<rparr>"

definition one_platform :: agent_platform where
  "one_platform =
     \<lparr>pf_sha256 = id, pf_float = (\<lambda>_. []), pf_iso = (\<lambda>_. ''now''), ap_round = Fin, ap_parse = (\<lambda>_. None)\<rparr>"

text \<open>Two starts of one intent in one session, and one in another session.\<close>

definition three_starts :: "registry \<times> agent_world" where
  "three_starts = registry_run one_platform
     [Start (act_start ''s'' ''activate_aac'' ''a1''), Start (act_start ''s'' ''activate_aac'' ''a2''),
      Start (act_start ''z'' ''activate_aac'' ''a3'')] (ActiveActionRegistry None True, fixed_world 0)"

lemma three_starts_fresh:
  "fresh_run one_platform
     [Start (act_start ''s'' ''activate_aac'' ''a1''), Start (act_start ''s'' ''activate_aac'' ''a2''),
      Start (act_start ''z'' ''activate_aac'' ''a3'')] (ActiveActionRegistry None True, fixed_world 0)"
  by code_simp

lemma filter_key_single:
  "distinct (map fst xs) \<Longrightarrow> map_of xs a = Some r \<Longrightarrow> filter (\<lambda>(j, r). a = j) xs = [(a, r)]"
proof (induction xs)
  case (Cons x xs)
  obtain k v where x: "x = (k, v)" by fastforce
  show ?case
  proof (cases "k = a")
    case True
    with Cons.prems(1) x have "filter (\<lambda>(j, r). a = j) xs = []" by (force simp: filter_empty_conv)
    with True x Cons.prems(2) show ?thesis by simp
  qed (use Cons x in auto)
qed simp

text \<open>C12. After any sequence of registry operations, whatever identifiers the callers chose, at most one action runs per session and intent, and \<open>get_running_action\<close> returns it: two running records of the same session and intent are the same record.\<close>

theorem one_running_per_key:
  assumes "registry_run pf xs (ActiveActionRegistry catalog pipeline, w) = (rg, w')"
    and "get_action i rg = Some a" "is_running a" "get_action j rg = Some b" "is_running b"
    and "rec_session_id a = rec_session_id b" "rec_intent a = rec_intent b"
  shows "i = j \<and> a = b \<and> get_running_action (rec_session_id a) (rec_intent a) rg = Some a"
proof -
  have at: "idx_of rg (rec_session_id a, rec_intent a) = Some i" "idx_of rg (rec_session_id b, rec_intent b) = Some j"
    using reg_invD(2) [OF reachable_registry(1) [OF assms(1)]] assms(2-5)
    by (auto simp: get_action_def recs_of_def key_of_def)
  then have "i = j" using assms(6,7) by simp
  then show ?thesis using assms(2,4) at by (simp add: get_running_action_def get_action_def idx_of_def)
qed

theorem one_running_per_key_witness:
  "case three_starts of (rg, w) \<Rightarrow>
     get_action ''a2'' rg \<noteq> None \<and> get_running_action ''s'' ''activate_aac'' rg = get_action ''a2'' rg"
proof -
  obtain rg w where r: "three_starts = (rg, w)" by fastforce
  have "case three_starts of (rg, w) \<Rightarrow> (case get_action ''a2'' rg of None \<Rightarrow> False
      | Some a \<Rightarrow> is_running a \<and> rec_session_id a = ''s'' \<and> rec_intent a = ''activate_aac'')"
    by code_simp
  then obtain a where a: "get_action ''a2'' rg = Some a" "is_running a" "rec_session_id a = ''s''"
      "rec_intent a = ''activate_aac''"
    unfolding r prod.case by (auto split: option.splits)
  from one_running_per_key [OF r [unfolded three_starts_def] a(1,2,1,2) refl refl] a
  show ?thesis unfolding r prod.case by simp
qed


text \<open>When the identifiers of the starts are fresh, looking an action up in the running index gives what a scan of all the records gives: \<open>get_running_action\<close> is the single element of \<open>query_actions\<close> restricted to the session, the intent and the running records.\<close>

theorem lookup_equals_scan:
  assumes "registry_run pf xs (ActiveActionRegistry catalog pipeline, w) = (rg, w')"
    and "fresh_run pf xs (ActiveActionRegistry catalog pipeline, w)"
  shows "query_actions (Some s) (Some i) None True rg =
    (case get_running_action s i rg of None \<Rightarrow> [] | Some r \<Rightarrow> [r])"
proof -
  note inv = reachable_registry [OF assms(1)]
  have d: "distinct (map fst (rg_records rg))" using inv(1) by (simp add: reg_inv_def)
  have live: "\<exists>r. recs_of rg a = Some r \<and> is_running r \<and> key_of r = k" if "idx_of rg k = Some a" for k a
    using inv(2) [OF assms(2)] that unfolding reg_live_def index_live_def by blast
  have sel: "query_actions (Some s) (Some i) None True rg =
      map snd (filter (\<lambda>(j, r). idx_of rg (s, i) = Some j) (rg_records rg))"
  proof -
    have "(in_session (Some s) r \<and> rec_intent r = i \<and> is_running r) = (idx_of rg (s, i) = Some j)"
      if "(j, r) \<in> set (rg_records rg)" for j r
    proof -
      have r: "recs_of rg j = Some r" using that d by (simp add: recs_of_def)
      show ?thesis using reg_invD(2) [OF inv(1) r] live [of "(s, i)" j] r
        by (auto simp: in_session_def key_of_def)
    qed
    then show ?thesis unfolding query_actions_def filter_map
      by (auto intro!: arg_cong [of _ _ "map snd"] filter_cong)
  qed
  show ?thesis
  proof (cases "idx_of rg (s, i)")
    case (Some a)
    with live obtain r where r: "recs_of rg a = Some r" by blast
    from d r have "filter (\<lambda>(j, r). a = j) (rg_records rg) = [(a, r)]"
      unfolding recs_of_def by (rule filter_key_single)
    then show ?thesis using r Some unfolding sel
      by (simp add: get_running_action_def recs_of_def idx_of_def)
  qed (simp add: sel get_running_action_def idx_of_def)
qed

theorem lookup_equals_scan_witness:
  "case three_starts of (rg, w) \<Rightarrow>
     query_actions (Some ''s'') (Some ''activate_aac'') None True rg =
       (case get_running_action ''s'' ''activate_aac'' rg of None \<Rightarrow> [] | Some r \<Rightarrow> [r])"
proof -
  obtain rg w where r: "three_starts = (rg, w)" by fastforce
  from lookup_equals_scan [OF r [unfolded three_starts_def] three_starts_fresh] show ?thesis unfolding r prod.case .
qed

text \<open>C13. Once an action has stopped, failed or completed, stopping, failing or completing it again or reporting progress on it is refused without effect, and its record stays as it is whatever operations follow, up to the first start that is given its identifier and accepted; that start, which the code does not refuse, replaces the ended record by a running one.\<close>

theorem ended_until_restarted:
  assumes "registry_run pf xs (ActiveActionRegistry catalog pipeline, w) = (rg, w1)"
    and "get_action i rg = Some r" "is_terminal r"
    and "k \<le> (case first_restart pf i ys (rg, w1) of None \<Rightarrow> length ys | Some n \<Rightarrow> n)"
    and "registry_run pf (take k ys) (rg, w1) = (rg', w2)"
  shows "get_action i rg' = Some r \<and>
    isl (fst (stop_action p i reason e t rg' w)) \<and> fst (snd (stop_action p i reason e t rg' w)) = rg' \<and>
    isl (fst (fail_action p i reason e t rg' w)) \<and> fst (snd (fail_action p i reason e t rg' w)) = rg' \<and>
    isl (fst (complete_action p i e t rg' w)) \<and> fst (snd (complete_action p i e t rg' w)) = rg' \<and>
    isl (fst (update_progress pf i v n e u md rg' w)) \<and> fst (snd (update_progress pf i v n e u md rg' w)) = rg' \<and>
    (first_restart pf i ys (rg, w1) = Some k \<longrightarrow>
       (\<exists>r'. get_action i (fst (registry_run pf (take (Suc k) ys) (rg, w1))) = Some r' \<and> is_running r'))"
proof -
  have "get_action i rg' = Some r"
    using run_keeps_terminal [of "(rg, w1)" i r k ys pf] reachable_registry(1) [OF assms(1)] assms(2-5)
    by (simp add: get_action_def recs_of_def running_not_terminal)
  then show ?thesis using assms(3) first_restart_replaces [of pf i ys "(rg, w1)" k]
    by (simp add: get_action_def recs_of_def stop_action_def fail_action_def complete_action_def update_progress_def)
qed

text \<open>The action \<open>a1\<close>, stopped by the start of \<open>a2\<close>, is unchanged by the start of \<open>a4\<close> and runs again after a
  start with the identifier \<open>a1\<close>.\<close>

definition restart_demo :: "registry_op list" where
  "restart_demo = [Start (act_start ''s'' ''activate_aac'' ''a4''), Start (act_start ''z'' ''activate_aac'' ''a1'')]"

theorem ended_until_restarted_witness:
  "case three_starts of (rg, w) \<Rightarrow>
     get_action ''a1'' rg \<noteq> None \<and> map_option is_terminal (get_action ''a1'' rg) = Some True \<and>
     get_action ''a1'' (fst (registry_run one_platform (take 1 restart_demo) (rg, w))) = get_action ''a1'' rg \<and>
     map_option is_running (get_action ''a1'' (fst (registry_run one_platform (take (Suc 1) restart_demo) (rg, w)))) =
       Some True"
proof -
  obtain rg w where r: "three_starts = (rg, w)" by fastforce
  obtain rg' w' where r': "registry_run one_platform (take 1 restart_demo) (rg, w) = (rg', w')" by fastforce
  have "case three_starts of (rg, w) \<Rightarrow> (case get_action ''a1'' rg of None \<Rightarrow> False | Some a \<Rightarrow> is_terminal a) \<and>
      first_restart one_platform ''a1'' restart_demo (rg, w) = Some 1"
    by code_simp
  then obtain a where a: "get_action ''a1'' rg = Some a" "is_terminal a"
    and first: "first_restart one_platform ''a1'' restart_demo (rg, w) = Some 1"
    unfolding r prod.case by (auto simp del: first_restart.simps split: option.splits)
  have "1 \<le> (case first_restart one_platform ''a1'' restart_demo (rg, w) of
      None \<Rightarrow> length restart_demo | Some n \<Rightarrow> n)" unfolding first by simp
  from ended_until_restarted [OF r [unfolded three_starts_def] a this r'] a first
  show ?thesis unfolding r prod.case r' fst_conv by auto
qed

text \<open>Cleaning up a session (or, without one, the whole registry) stops exactly the actions that were running there, each with the reason given, leaves every other record as it was, and leaves nothing running there; the list it returns is the list of the stopped records.\<close>

theorem cleanup_stops_session:
  assumes "registry_run pf xs (ActiveActionRegistry catalog pipeline, w) = (rg, w1)"
    and "reset_and_cleanup p reason t session rg w1 = (stopped, rg', w2, fx)"
  shows "(s \<in> set stopped \<longrightarrow> rec_phase s = PH_STOPPED \<and> rec_stop_reason s = reason \<and>
        get_action (rec_action_id s) rg' = Some s) \<and>
     (i \<in> rec_action_id ` set stopped \<longleftrightarrow>
        (\<exists>r. get_action i rg = Some r \<and> is_running r \<and> in_session session r)) \<and>
     (i \<notin> rec_action_id ` set stopped \<longrightarrow> get_action i rg' = get_action i rg) \<and>
     (get_action i rg' = Some r \<longrightarrow> is_running r \<longrightarrow> \<not> in_session session r)"
proof -
  note spec = cleanup_spec [OF reachable_registry(1) [OF assms(1)] assms(2)]
  have "\<not> in_session session r" if "recs_of rg' i = Some r" "is_running r"
  proof (cases "i \<in> rec_action_id ` set stopped")
    case True
    with spec(1) that show ?thesis by (auto simp: is_running_def)
  next
    case False
    with spec(2,3) that show ?thesis by auto
  qed
  then show ?thesis using spec(1,3) spec(2) [THEN eqset_imp_iff, of i]
    by (simp add: get_action_def recs_of_def)
qed

theorem cleanup_stops_session_witness:
  "case three_starts of (rg, w) \<Rightarrow>
     (case reset_and_cleanup (platform.truncate one_platform) ''bye'' ''t'' (Some ''s'') rg w of
        (stopped, rg', w', fx) \<Rightarrow> ''a2'' \<in> rec_action_id ` set stopped \<and>
          get_action ''a3'' rg' = get_action ''a3'' rg)"
proof -
  obtain rg w where r: "three_starts = (rg, w)" by fastforce
  obtain ss rg' w' fx where c: "reset_and_cleanup (platform.truncate one_platform) ''bye'' ''t'' (Some ''s'') rg w
      = (ss, rg', w', fx)" by (metis prod.collapse)
  have "case three_starts of (rg, w) \<Rightarrow>
      (case get_action ''a2'' rg of None \<Rightarrow> False | Some a \<Rightarrow> is_running a \<and> in_session (Some ''s'') a) \<and>
      (case get_action ''a3'' rg of None \<Rightarrow> False | Some a \<Rightarrow> \<not> in_session (Some ''s'') a)"
    by code_simp
  then have "\<exists>a. get_action ''a2'' rg = Some a \<and> is_running a \<and> in_session (Some ''s'') a"
    "\<not> (\<exists>a. get_action ''a3'' rg = Some a \<and> is_running a \<and> in_session (Some ''s'') a)"
    unfolding r prod.case by (auto split: option.splits)
  with cleanup_stops_session [OF r [unfolded three_starts_def] c, of _ "''a2''"]
    cleanup_stops_session [OF r [unfolded three_starts_def] c, of _ "''a3''"]
  show ?thesis unfolding r prod.case unfolding c prod.case by auto
qed

end
