(* ===== verification/Contract.thy ===== *)
theory Contract
  imports AgentState AgentText
begin

text \<open>
  \<open>vehicle_agent/authorization/contract.py\<close>: how the agent checks what it sends to the
  guardrail and what it gets back, written independently of the guardrail's own
  \<open>envelope.py\<close>.  A check gives the first exception the code would raise: a
  \<open>ContractValidationError\<close> with its code (the detail text is dropped), or another Python
  exception.  \<open>datetime.fromisoformat\<close> is the parameter \<open>fromiso\<close>, \<open>None\<close> for its
  \<open>ValueError\<close>.
\<close>

type_synonym iso_reader = "string \<Rightarrow> datetime option"

datatype contract_exn = ContractError string | ContractCrash string

definition AGENT_CONTRACT_VERSION :: string where
  "AGENT_CONTRACT_VERSION = ''1.0.0''"

definition AGENT_OUTCOMES :: "string list" where
  "AGENT_OUTCOMES = [''ALLOW'', ''BLOCK_UNSAFE'', ''BLOCK_UNAVAILABLE'', ''CONFIRM'',
     ''NOT_VOICE_ACTIONABLE'', ''ANSWER'', ''UNKNOWN'']"

definition NON_EXECUTABLE_OUTCOMES :: "string list" where
  "NON_EXECUTABLE_OUTCOMES = filter (\<lambda>out. out \<noteq> ''ALLOW'') AGENT_OUTCOMES"

definition AGENT_PROPOSAL_FIELDS :: "string list" where
  "AGENT_PROPOSAL_FIELDS = [''contract_version'', ''proposal_id'', ''session_id'', ''source_turn_id'',
     ''tool'', ''arguments'', ''model_provider'', ''model_id'']"

definition DECISION_REQUIRED :: "string list" where
  "DECISION_REQUIRED = [''contract_version'', ''kind'', ''request_id'', ''proposal_id'', ''intent'',
     ''outcome'', ''rule_id'', ''state_version'', ''policy_checksum'', ''reason_code'', ''relevant_state'']"

definition PERMIT_REQUIRED :: "string list" where
  "PERMIT_REQUIRED = [''permit_id'', ''proposal_digest'', ''intent'', ''rule_id'', ''state_version'',
     ''policy_checksum'', ''issued_at'', ''expires_at'', ''single_use'']"

definition DECISION_OPTIONAL :: "string list" where
  "DECISION_OPTIONAL = [''answer'', ''confirmation'', ''permit'']"

definition ERROR_FIELDS :: "string list" where
  "ERROR_FIELDS = [''contract_version'', ''kind'', ''request_id'', ''error'']"

definition ERROR_DETAIL_FIELDS :: "string list" where
  "ERROR_DETAIL_FIELDS = [''code'', ''message'', ''retryable'', ''details'']"

section \<open>Single checks\<close>

definition contract_check :: "bool \<Rightarrow> string \<Rightarrow> contract_exn option" where
  "contract_check ok code = (if ok then None else Some (ContractError code))"

definition has_key :: "payload \<Rightarrow> string \<Rightarrow> bool" where
  "has_key d k = (map_of d k \<noteq> None)"

definition require_version :: "payload \<Rightarrow> contract_exn option" where
  "require_version p =
     contract_check (get_key p ''contract_version'' = PStr AGENT_CONTRACT_VERSION) ''CONTRACT_VERSION_MISMATCH''"

definition require_fields :: "payload \<Rightarrow> string list \<Rightarrow> contract_exn option" where
  "require_fields p fs = contract_check (list_all (has_key p) fs) ''MALFORMED_GUARDRAIL_RESPONSE''"

definition only_fields :: "payload \<Rightarrow> string list \<Rightarrow> bool" where
  "only_fields p fs = list_all (\<lambda>k. k \<in> set fs) (map fst p)"

definition reject_extra_fields :: "payload \<Rightarrow> string list \<Rightarrow> contract_exn option" where
  "reject_extra_fields p fs = contract_check (only_fields p fs) ''MALFORMED_GUARDRAIL_RESPONSE''"

fun agent_identifier :: "pyval \<Rightarrow> bool" where
  "agent_identifier (PStr s) = (1 \<le> length s \<and> length s \<le> 128)"
| "agent_identifier _ = False"

definition require_identifier :: "string \<Rightarrow> pyval \<Rightarrow> contract_exn option" where
  "require_identifier code v = contract_check (agent_identifier v) code"

text \<open>\<open>^sha256:[0-9a-f]{64}$\<close> with \<open>fullmatch\<close>.\<close>

fun digest_text :: "pyval \<Rightarrow> bool" where
  "digest_text (PStr s) =
     (prefix_of ''sha256:'' s \<and> length (drop 7 s) = 64 \<and>
      list_all (\<lambda>c. c \<in> set ''0123456789abcdef'') (drop 7 s))"
| "digest_text _ = False"

definition require_digest :: "pyval \<Rightarrow> contract_exn option" where
  "require_digest v = contract_check (digest_text v) ''INVALID_PERMIT''"

fun is_dict :: "pyval \<Rightarrow> bool" where
  "is_dict (PDict _) = True"
| "is_dict _ = False"

fun dict_of :: "pyval \<Rightarrow> payload" where
  "dict_of (PDict d) = d"
| "dict_of _ = []"

fun is_plain_int :: "pyval \<Rightarrow> bool" where
  "is_plain_int (PInt _) = True"
| "is_plain_int _ = False"

fun is_bool :: "pyval \<Rightarrow> bool" where
  "is_bool (PBool _) = True"
| "is_bool _ = False"

fun is_text :: "pyval \<Rightarrow> bool" where
  "is_text (PStr s) = (s \<noteq> [])"
| "is_text _ = False"

fun hashable :: "pyval \<Rightarrow> bool" where
  "hashable (PList _) = False"
| "hashable (PDict _) = False"
| "hashable _ = True"

definition parse_timestamp :: "iso_reader \<Rightarrow> pyval \<Rightarrow> contract_exn + datetime" where
  "parse_timestamp fromiso v =
     (case v of
        PStr s \<Rightarrow>
          (case fromiso (replace_str ''Z'' ''+00:00'' s) of
             None \<Rightarrow> Inl (ContractError ''INVALID_PERMIT'')
           | Some d \<Rightarrow> if dt_offset d = None then Inl (ContractError ''INVALID_PERMIT'') else Inr d)
      | _ \<Rightarrow> Inl (ContractError ''INVALID_PERMIT''))"

section \<open>Proposals\<close>

definition agent_proposal_error :: "payload \<Rightarrow> contract_exn option" where
  "agent_proposal_error p =
     first_error
       ([require_version p, require_fields p AGENT_PROPOSAL_FIELDS,
         contract_check (only_fields p AGENT_PROPOSAL_FIELDS) ''INVALID_ACTION_PROPOSAL'',
         contract_check (is_dict (get_key p ''arguments'')) ''INVALID_ACTION_PROPOSAL''] @
        map (\<lambda>f. require_identifier ''INVALID_ACTION_PROPOSAL'' (get_key p f))
          [''proposal_id'', ''session_id'', ''source_turn_id'', ''tool'', ''model_provider'', ''model_id''])"

definition agent_projection :: "payload \<Rightarrow> payload" where
  "agent_projection p =
     [(''arguments'', get_key p ''arguments''), (''contract_version'', get_key p ''contract_version''),
      (''proposal_id'', get_key p ''proposal_id''), (''session_id'', get_key p ''session_id''),
      (''source_turn_id'', get_key p ''source_turn_id''), (''tool'', get_key p ''tool'')]"

definition agent_digest :: "platform \<Rightarrow> payload \<Rightarrow> contract_exn + string" where
  "agent_digest pf p =
     (case agent_proposal_error p of
        Some e \<Rightarrow> Inl e
      | None \<Rightarrow>
          (case dumps pf (PDict (agent_projection p)) of
             None \<Rightarrow> Inl (ContractCrash ''ValueError'')
           | Some canonical \<Rightarrow> Inr (''sha256:'' @ pf_sha256 pf canonical)))"

section \<open>Results\<close>

definition error_result_error :: "payload \<Rightarrow> contract_exn option" where
  "error_result_error r =
     (let err = get_key r ''error''; e = dict_of err in
      first_error
        [require_fields r ERROR_FIELDS,
         contract_check (is_dict err \<and> list_all (has_key e) [''code'', ''message'', ''retryable''])
           ''MALFORMED_GUARDRAIL_RESPONSE'',
         contract_check (\<not> has_key r ''permit'') ''PERMIT_FORBIDDEN'',
         reject_extra_fields r ERROR_FIELDS,
         reject_extra_fields e ERROR_DETAIL_FIELDS,
         require_identifier ''MALFORMED_GUARDRAIL_RESPONSE'' (get_key r ''request_id''),
         require_identifier ''MALFORMED_GUARDRAIL_RESPONSE'' (get_key e ''code''),
         contract_check (is_text (get_key e ''message'')) ''MALFORMED_GUARDRAIL_RESPONSE'',
         contract_check (is_bool (get_key e ''retryable'')) ''MALFORMED_GUARDRAIL_RESPONSE''])"

definition BOUND_FIELDS :: "string list" where
  "BOUND_FIELDS = [''intent'', ''rule_id'', ''state_version'', ''policy_checksum'']"

definition window_error :: "iso_reader \<Rightarrow> payload \<Rightarrow> contract_exn option" where
  "window_error fromiso permit =
     (case parse_timestamp fromiso (get_key permit ''issued_at'') of
        Inl e \<Rightarrow> Some e
      | Inr start \<Rightarrow>
          (case parse_timestamp fromiso (get_key permit ''expires_at'') of
             Inl e \<Rightarrow> Some e
           | Inr expires \<Rightarrow> contract_check (dt_instant start < dt_instant expires) ''INVALID_PERMIT''))"

definition permit_error :: "iso_reader \<Rightarrow> payload \<Rightarrow> contract_exn option" where
  "permit_error fromiso r =
     (let permit = dict_of (get_key r ''permit'') in
      first_error
        ([contract_check (is_dict (get_key r ''permit'')) ''PERMIT_REQUIRED'',
          require_fields permit PERMIT_REQUIRED, reject_extra_fields permit PERMIT_REQUIRED] @
         map (\<lambda>f. require_identifier ''MALFORMED_GUARDRAIL_RESPONSE'' (get_key permit f))
           [''permit_id'', ''intent'', ''rule_id''] @
         [require_digest (get_key permit ''proposal_digest''),
          require_digest (get_key permit ''policy_checksum''),
          contract_check (is_plain_int (get_key permit ''state_version'')) ''INVALID_PERMIT'',
          contract_check (get_key permit ''single_use'' = PBool True) ''INVALID_PERMIT''] @
         map (\<lambda>f. contract_check (py_eq (get_key permit f) (get_key r f)) ''INVALID_PERMIT'') BOUND_FIELDS @
         [window_error fromiso permit]))"

definition outcome_error :: "pyval \<Rightarrow> contract_exn option" where
  "outcome_error outcome =
     (if \<not> hashable outcome then Some (ContractCrash ''TypeError'')
      else contract_check (outcome \<in> PStr ` set AGENT_OUTCOMES) ''UNKNOWN_OUTCOME'')"

definition decision_result_error :: "iso_reader \<Rightarrow> payload \<Rightarrow> contract_exn option" where
  "decision_result_error fromiso r =
     (let outcome = get_key r ''outcome'' in
      first_error
        ([require_fields r DECISION_REQUIRED,
          reject_extra_fields r (DECISION_REQUIRED @ DECISION_OPTIONAL)] @
         map (\<lambda>f. require_identifier ''MALFORMED_GUARDRAIL_RESPONSE'' (get_key r f))
           [''request_id'', ''proposal_id'', ''intent'', ''rule_id'', ''reason_code''] @
         [contract_check (is_plain_int (get_key r ''state_version'')) ''MALFORMED_GUARDRAIL_RESPONSE'',
          require_digest (get_key r ''policy_checksum''),
          contract_check (is_dict (get_key r ''relevant_state'')) ''MALFORMED_GUARDRAIL_RESPONSE'',
          outcome_error outcome,
          contract_check (\<not> (outcome \<in> PStr ` set NON_EXECUTABLE_OUTCOMES \<and> has_key r ''permit''))
            ''PERMIT_FORBIDDEN'',
          (if outcome = PStr ''ALLOW'' then permit_error fromiso r else None)]))"

definition validate_guardrail_result :: "iso_reader \<Rightarrow> payload \<Rightarrow> contract_exn option" where
  "validate_guardrail_result fromiso r =
     (case require_version r of
        Some e \<Rightarrow> Some e
      | None \<Rightarrow>
          if get_key r ''kind'' = PStr ''error'' then error_result_error r
          else if get_key r ''kind'' \<noteq> PStr ''decision''
          then Some (ContractError ''MALFORMED_GUARDRAIL_RESPONSE'')
          else decision_result_error fromiso r)"

section \<open>Facts\<close>

lemma contract_check_None [simp]: "contract_check ok code = None \<longleftrightarrow> ok"
  by (simp add: contract_check_def)

declare first_error_append [simp]

lemma has_key_iff: "has_key d k \<longleftrightarrow> k \<in> fst ` set d"
  by (simp add: has_key_def map_of_eq_None_iff)

lemma proposal_accepted_iff:
  "agent_proposal_error p = None \<longleftrightarrow>
     get_key p ''contract_version'' = PStr AGENT_CONTRACT_VERSION \<and>
     set AGENT_PROPOSAL_FIELDS = fst ` set p \<and> is_dict (get_key p ''arguments'') \<and>
     (\<forall>f \<in> {''proposal_id'', ''session_id'', ''source_turn_id'', ''tool'', ''model_provider'', ''model_id''}.
        agent_identifier (get_key p f))"
  by (auto simp: agent_proposal_error_def first_error_None_iff require_version_def require_fields_def
      require_identifier_def only_fields_def list_all_iff has_key_iff)

lemma agent_identifier_iff: "agent_identifier v \<longleftrightarrow> (\<exists>s. v = PStr s \<and> s \<noteq> [] \<and> length s \<le> 128)"
  by (cases v) (auto simp: Suc_le_eq)

lemma outcome_error_None: "outcome_error v = None \<longleftrightarrow> (\<exists>s \<in> set AGENT_OUTCOMES. v = PStr s)"
  by (cases v) (auto simp: outcome_error_def)

text \<open>What an accepted executable decision is.\<close>

lemma accepted_allow:
  assumes "validate_guardrail_result fromiso r = None" "get_key r ''outcome'' = PStr ''ALLOW''"
    and "get_key r ''kind'' \<noteq> PStr ''error''"
  shows "get_key r ''kind'' = PStr ''decision''" "permit_error fromiso r = None"
    and "is_dict (get_key r ''permit'')"
  using assms
  by (auto simp: validate_guardrail_result_def decision_result_error_def permit_error_def Let_def
      split: option.splits if_splits)

end
