(* ===== verification/Gateway.thy ===== *)
theory Gateway
  imports Contract Catalog
begin

text \<open>
  \<open>vehicle/execution/verifier.py\<close> and \<open>gateway.py\<close>: the store of used and revoked permits,
  the check of a permit against a proposal, and the gateway through which an authorised tool
  call reaches its handler.  An \<open>ExecErr\<close> raised by the check is a
  \<open>PermitVerificationError\<close>, which the gateway turns into a failed result; any other
  exception leaves \<open>execute\<close>.  The texts of failed results are dropped.

  \<open>PermitStore.clear\<close> is not an operation of the histories considered later: the code reserves
  it for isolated tests.
\<close>

section \<open>The permit store\<close>

record permit_store =
  ps_consumed :: "string list"
  ps_revoked_before :: "(string \<times> datetime) list"
  ps_global_revoked_before :: "datetime option"

definition PermitStore :: permit_store where
  "PermitStore = \<lparr>ps_consumed = [], ps_revoked_before = [], ps_global_revoked_before = None\<rparr>"

abbreviation InvalidPermit :: agent_exn where "InvalidPermit \<equiv> ExecErr ''INVALID_PERMIT'' False"
abbreviation ExpiredPermit :: agent_exn where "ExpiredPermit \<equiv> ExecErr ''PERMIT_EXPIRED'' False"
abbreviation SubstitutionAttack :: agent_exn where "SubstitutionAttack \<equiv> ExecErr ''PROPOSAL_MISMATCH'' False"
abbreviation ReplayAttack :: agent_exn where "ReplayAttack \<equiv> ExecErr ''PERMIT_REPLAYED'' False"

definition is_used :: "string \<Rightarrow> permit_store \<Rightarrow> bool" where
  "is_used i ps = (i \<in> set (ps_consumed ps))"

definition mark_used :: "string \<Rightarrow> permit_store \<Rightarrow> agent_exn + permit_store" where
  "mark_used i ps =
     (if i = [] then Inl InvalidPermit
      else if is_used i ps then Inl ReplayAttack
      else Inr (ps\<lparr>ps_consumed := i # ps_consumed ps\<rparr>))"

definition clear_consumed :: "permit_store \<Rightarrow> permit_store" where
  "clear_consumed ps = ps\<lparr>ps_consumed := []\<rparr>"

definition later_cutoff :: "datetime option \<Rightarrow> datetime \<Rightarrow> datetime" where
  "later_cutoff current t =
     (case current of None \<Rightarrow> t | Some c \<Rightarrow> if dt_instant c < dt_instant t then t else c)"

definition revoke_before :: "datetime \<Rightarrow> string option \<Rightarrow> permit_store \<Rightarrow> agent_exn + permit_store" where
  "revoke_before t session ps =
     (if dt_offset t = None then Inl (ValueErr ''revocation timestamp must be timezone-aware'')
      else Inr (case session of
        None \<Rightarrow> ps\<lparr>ps_global_revoked_before := Some (later_cutoff (ps_global_revoked_before ps) t)\<rparr>
      | Some s \<Rightarrow> ps\<lparr>ps_revoked_before :=
          AList.update s (later_cutoff (map_of (ps_revoked_before ps) s) t) (ps_revoked_before ps)\<rparr>))"

definition cutoffs :: "string \<Rightarrow> permit_store \<Rightarrow> datetime list" where
  "cutoffs session ps =
     List.map_filter id [ps_global_revoked_before ps, map_of (ps_revoked_before ps) session]"

definition is_revoked :: "string \<Rightarrow> datetime \<Rightarrow> permit_store \<Rightarrow> bool" where
  "is_revoked session start ps =
     (case cutoffs session ps of
        [] \<Rightarrow> False
      | c # cs \<Rightarrow> dt_instant start \<le> foldl max (dt_instant c) (map dt_instant cs))"

section \<open>The permit verifier\<close>

definition exec_check :: "bool \<Rightarrow> agent_exn \<Rightarrow> agent_exn option" where
  "exec_check ok e = (if ok then None else Some e)"

definition parse_iso_timestamp :: "iso_reader \<Rightarrow> pyval \<Rightarrow> agent_exn + datetime" where
  "parse_iso_timestamp fromiso v =
     (case v of
        PStr s \<Rightarrow>
          (case fromiso (replace_str ''Z'' ''+00:00'' s) of
             None \<Rightarrow> Inl InvalidPermit
           | Some d \<Rightarrow> if dt_offset d = None then Inl InvalidPermit else Inr d)
      | _ \<Rightarrow> Inl InvalidPermit)"

definition permit_shape_error :: "pyval \<Rightarrow> agent_exn option" where
  "permit_shape_error v =
     (let permit = dict_of v in
      first_error
        [exec_check (is_dict v) InvalidPermit,
         exec_check (list_all (has_key permit) PERMIT_REQUIRED) InvalidPermit,
         exec_check (get_key permit ''single_use'' = PBool True) InvalidPermit,
         exec_check (is_text (get_key permit ''permit_id'')) InvalidPermit])"

text \<open>The digest check: a proposal with a float that is not finite has no digest, and the
  encoder's \<open>ValueError\<close> is no \<open>PermitVerificationError\<close>.\<close>

definition digest_error :: "platform \<Rightarrow> payload \<Rightarrow> payload \<Rightarrow> agent_exn option" where
  "digest_error pf proposal permit =
     (case agent_digest pf proposal of
        Inl (ContractError _) \<Rightarrow> Some (OtherErr ''ContractValidationError'')
      | Inl (ContractCrash _) \<Rightarrow> Some (OtherErr ''ValueError'')
      | Inr expected \<Rightarrow> exec_check (get_key permit ''proposal_digest'' = PStr expected) SubstitutionAttack)"

definition decision_match_error :: "payload option \<Rightarrow> payload \<Rightarrow> agent_exn option" where
  "decision_match_error decision permit =
     (case decision of
        None \<Rightarrow> None
      | Some d \<Rightarrow>
          first_error
            (exec_check (get_key d ''outcome'' = PStr ''ALLOW'') InvalidPermit #
             map (\<lambda>f. exec_check (py_eq (get_key d f) (get_key permit f)) InvalidPermit) BOUND_FIELDS))"

definition aware :: "datetime \<Rightarrow> datetime" where
  "aware d = (if dt_offset d = None then d\<lparr>dt_offset := Some 0\<rparr> else d)"

definition permit_time_error ::
  "iso_reader \<Rightarrow> payload \<Rightarrow> payload \<Rightarrow> datetime \<Rightarrow> permit_store \<Rightarrow> agent_exn option" where
  "permit_time_error fromiso proposal permit time ps =
     (case parse_iso_timestamp fromiso (get_key permit ''issued_at'') of
        Inl e \<Rightarrow> Some e
      | Inr start \<Rightarrow>
     (case parse_iso_timestamp fromiso (get_key permit ''expires_at'') of
        Inl e \<Rightarrow> Some e
      | Inr expires \<Rightarrow>
     (case get_key proposal ''session_id'' of
        PStr session \<Rightarrow>
          first_error
            [exec_check (session \<noteq> []) InvalidPermit,
             exec_check (\<not> is_revoked session start ps) InvalidPermit,
             exec_check (dt_instant start < dt_instant expires) InvalidPermit,
             exec_check (dt_instant time \<le> dt_instant expires) ExpiredPermit,
             exec_check (dt_instant start \<le> dt_instant time) InvalidPermit]
      | _ \<Rightarrow> Some InvalidPermit)))"

definition verify ::
  "platform \<Rightarrow> iso_reader \<Rightarrow> payload \<Rightarrow> pyval \<Rightarrow> payload option \<Rightarrow> datetime option \<Rightarrow>
   permit_store \<Rightarrow> agent_world \<Rightarrow> agent_exn option \<times> agent_world" where
  "verify pf fromiso proposal v decision current_time ps w =
     (let permit = dict_of v;
          before = first_error
            [exec_check (agent_proposal_error proposal = None) InvalidPermit,
             permit_shape_error v,
             exec_check (case get_key permit ''permit_id'' of PStr i \<Rightarrow> \<not> is_used i ps | _ \<Rightarrow> True) ReplayAttack,
             digest_error pf proposal permit,
             decision_match_error decision permit]
      in case before of
           Some e \<Rightarrow> (Some e, w)
         | None \<Rightarrow>
             (let (time, w1) = (case current_time of Some t \<Rightarrow> (t, w) | None \<Rightarrow> read_clock w)
              in (permit_time_error fromiso proposal permit (aware time) ps, w1)))"

section \<open>The gateway\<close>

type_synonym tool_handler =
  "payload \<Rightarrow> state_machine \<Rightarrow> agent_world \<Rightarrow> (agent_exn + pyval) \<times> state_machine \<times> agent_world"

record gateway =
  gw_store :: permit_store
  gw_handlers :: "(string \<times> tool_handler) list"

definition VehicleToolGateway :: gateway where
  "VehicleToolGateway = \<lparr>gw_store = PermitStore, gw_handlers = []\<rparr>"

definition register_handler :: "string \<Rightarrow> tool_handler \<Rightarrow> gateway \<Rightarrow> agent_exn + gateway" where
  "register_handler name h gw =
     (if name = [] then Inl (ValueErr ''tool_or_intent must be a non-empty string'')
      else Inr (gw\<lparr>gw_handlers := AList.update name h (gw_handlers gw)\<rparr>))"

definition unregister_handler :: "string \<Rightarrow> gateway \<Rightarrow> gateway" where
  "unregister_handler name gw = gw\<lparr>gw_handlers := AList.delete name (gw_handlers gw)\<rparr>"

text \<open>A generic handler in the registry: its result is a dictionary.\<close>

definition dict_handler :: "handler \<Rightarrow> tool_handler" where
  "dict_handler h proposal m w =
     (case h proposal m w of (Inl e, m1, w1) \<Rightarrow> (Inl e, m1, w1) | (Inr d, m1, w1) \<Rightarrow> (Inr (PDict d), m1, w1))"

text \<open>\<open>register_behavior_configs\<close>: handlers are registered until a configuration fails.\<close>

fun register_behavior_configs ::
  "agent_platform \<Rightarrow> behavior_config list \<Rightarrow> gateway \<Rightarrow> agent_exn option \<times> gateway" where
  "register_behavior_configs pf [] gw = (None, gw)"
| "register_behavior_configs pf (c # cs) gw =
     (case create_generic_handler pf c of
        Inl e \<Rightarrow> (Some e, gw)
      | Inr h \<Rightarrow>
          (case register_handler (bc_intent_id (cfg c)) (dict_handler h) gw of
             Inl e \<Rightarrow> (Some e, gw)
           | Inr gw1 \<Rightarrow> register_behavior_configs pf cs gw1))"

record turn_error =
  te_code :: string
  te_retryable :: bool
  te_details :: payload

record execution_result =
  er_success :: bool
  er_execution_id :: string
  er_message :: string
  er_state_version :: pyval
  er_facts :: payload
  er_error :: "turn_error option"

definition failed_execution :: "string \<Rightarrow> string \<Rightarrow> bool \<Rightarrow> payload \<Rightarrow> execution_result" where
  "failed_execution eid code retryable details =
     \<lparr>er_success = False, er_execution_id = eid, er_message = [], er_state_version = PNone,
      er_facts = [], er_error = Some \<lparr>te_code = code, te_retryable = retryable, te_details = details\<rparr>\<rparr>"

text \<open>The decision and permit of the second argument, or the failure it gives.\<close>

definition extract_permit :: "string \<Rightarrow> pyval \<Rightarrow> execution_result + payload option \<times> pyval" where
  "extract_permit eid v =
     (case v of
        PDict d \<Rightarrow>
          if get_key d ''kind'' = PStr ''decision'' then
            (if get_key d ''outcome'' \<noteq> PStr ''ALLOW''
             then Inl (failed_execution eid ''EXECUTION_DENIED'' False
                    [(''rule_id'', get_key d ''rule_id''), (''reason_code'', get_key d ''reason_code'')])
             else if \<not> is_dict (get_key d ''permit'') then Inl (failed_execution eid ''INVALID_PERMIT'' False [])
             else Inr (Some d, get_key d ''permit''))
          else if has_key d ''permit_id'' then Inr (None, v)
          else Inl (failed_execution eid ''INVALID_PERMIT'' False [])
      | _ \<Rightarrow> Inl (failed_execution eid ''INVALID_PERMIT'' False []))"

text \<open>The handler of the tool, else of the permit's intent; the lookup of an intent that is no
  hashable value raises.\<close>

definition find_handler :: "gateway \<Rightarrow> payload \<Rightarrow> payload \<Rightarrow> agent_exn + tool_handler option" where
  "find_handler gw proposal permit =
     (case (case get_key proposal ''tool'' of PStr t \<Rightarrow> map_of (gw_handlers gw) t | _ \<Rightarrow> None) of
        Some h \<Rightarrow> Inr (Some h)
      | None \<Rightarrow>
          (let intent = get_key permit ''intent'' in
           if \<not> py_truth intent then Inr None
           else if \<not> hashable intent then Inl (OtherErr ''TypeError'')
           else Inr (case intent of PStr i \<Rightarrow> map_of (gw_handlers gw) i | _ \<Rightarrow> None)))"

datatype gate =
    Escaped agent_exn
  | Refused execution_result
  | Authorised string tool_handler

text \<open>Steps 0 to 3 of \<open>execute\<close>: everything before the handler is called.\<close>

definition authorize ::
  "platform \<Rightarrow> iso_reader \<Rightarrow> payload \<Rightarrow> pyval \<Rightarrow> bool \<Rightarrow> datetime option \<Rightarrow> string \<Rightarrow>
   gateway \<Rightarrow> agent_world \<Rightarrow> gate \<times> gateway \<times> agent_world" where
  "authorize pf fromiso proposal v cancelled current_time eid gw w =
     (if cancelled then (Refused (failed_execution eid ''EXECUTION_CANCELLED'' False []), gw, w)
      else case extract_permit eid v of
        Inl r \<Rightarrow> (Refused r, gw, w)
      | Inr (decision, pv) \<Rightarrow>
     (case verify pf fromiso proposal pv decision current_time (gw_store gw) w of
        (Some (ExecErr code r), w1) \<Rightarrow> (Refused (failed_execution eid code r []), gw, w1)
      | (Some e, w1) \<Rightarrow> (Escaped e, gw, w1)
      | (None, w1) \<Rightarrow>
     (let permit = dict_of pv; pid = (case get_key permit ''permit_id'' of PStr i \<Rightarrow> i | _ \<Rightarrow> []) in
      case mark_used pid (gw_store gw) of
        Inl (ExecErr ''PERMIT_REPLAYED'' r) \<Rightarrow> (Refused (failed_execution eid ''PERMIT_REPLAYED'' r []), gw, w1)
      | Inl e \<Rightarrow> (Escaped e, gw, w1)
      | Inr ps \<Rightarrow>
     (let gw1 = gw\<lparr>gw_store := ps\<rparr> in
      case find_handler gw1 proposal permit of
        Inl e \<Rightarrow> (Escaped e, gw1, w1)
      | Inr None \<Rightarrow> (Refused (failed_execution eid ''HANDLER_NOT_FOUND'' False []), gw1, w1)
      | Inr (Some h) \<Rightarrow> (Authorised pid h, gw1, w1)))))"

definition invoke ::
  "agent_platform \<Rightarrow> string \<Rightarrow> tool_handler \<Rightarrow> payload \<Rightarrow> state_machine \<Rightarrow> agent_world \<Rightarrow>
   execution_result \<times> state_machine \<times> agent_world" where
  "invoke pf eid h proposal m w =
     (case h proposal m w of
        (Inl (ExecErr code r), m1, w1) \<Rightarrow> (failed_execution eid code r [], m1, w1)
      | (Inl e, m1, w1) \<Rightarrow> (failed_execution eid ''EXECUTION_FAILED'' False [], m1, w1)
      | (Inr (PDict d), m1, w1) \<Rightarrow>
          (\<lparr>er_success = True, er_execution_id = eid,
            er_message = (if has_key d ''message'' then py_str (platform.truncate pf) (get_key d ''message'')
                          else ''Tool execution succeeded''),
            er_state_version = (case get_key d ''state_version'' of PInt i \<Rightarrow> PInt i | PBool b \<Rightarrow> PBool b | _ \<Rightarrow> PNone),
            er_facts = dict_of (get_key d ''facts''), er_error = None\<rparr>, m1, w1)
      | (Inr _, m1, w1) \<Rightarrow> (failed_execution eid ''INVALID_HANDLER_OUTPUT'' False [], m1, w1))"

definition uuid_hex :: "string \<Rightarrow> string" where
  "uuid_hex u = filter (\<lambda>c. c \<noteq> CHR ''-'') u"

definition execution_id :: "agent_world \<Rightarrow> string \<times> agent_world" where
  "execution_id w = (let (u, w1) = draw_uuid w in (''exec-'' @ take 12 (uuid_hex u), w1))"

definition gateway_execute ::
  "agent_platform \<Rightarrow> iso_reader \<Rightarrow> payload \<Rightarrow> pyval \<Rightarrow> bool \<Rightarrow> datetime option \<Rightarrow>
   gateway \<Rightarrow> state_machine \<Rightarrow> agent_world \<Rightarrow>
   (agent_exn + execution_result) \<times> gateway \<times> state_machine \<times> agent_world" where
  "gateway_execute pf fromiso proposal v cancelled current_time gw m w =
     (let (eid, w1) = execution_id w in
      case authorize (platform.truncate pf) fromiso proposal v cancelled current_time eid gw w1 of
        (Escaped e, gw1, w2) \<Rightarrow> (Inl e, gw1, m, w2)
      | (Refused r, gw1, w2) \<Rightarrow> (Inr r, gw1, m, w2)
      | (Authorised pid h, gw1, w2) \<Rightarrow>
          (case invoke pf eid h proposal m w2 of (r, m1, w3) \<Rightarrow> (Inr r, gw1, m1, w3)))"

end
