(* ===== verification/GatewaySafety.thy ===== *)
theory GatewaySafety
  imports Gateway HandlerRuns Tokens
begin

text \<open>
  What the gateway guarantees over whole histories of executions, resets and registrations:
  a handler runs only on a permit that fits the proposal, decision, clock and resets, a permit
  runs a handler at most once, and with the committed catalog no execution drives the vehicle.
\<close>

section \<open>What an authorised call has passed\<close>

definition read_instant :: "iso_reader \<Rightarrow> pyval \<Rightarrow> datetime option" where
  "read_instant fromiso v =
     (case parse_iso_timestamp fromiso v of Inl _ \<Rightarrow> None | Inr d \<Rightarrow> Some d)"

text \<open>The permit is good for the proposal at an instant, given what was used and revoked.\<close>

definition permit_good ::
  "platform \<Rightarrow> iso_reader \<Rightarrow> payload \<Rightarrow> payload \<Rightarrow> int \<Rightarrow> permit_store \<Rightarrow> bool" where
  "permit_good pf fromiso proposal permit instant ps \<longleftrightarrow>
     agent_proposal_error proposal = None \<and>
     list_all (has_key permit) PERMIT_REQUIRED \<and> get_key permit ''single_use'' = PBool True \<and>
     (case get_key permit ''permit_id'' of PStr i \<Rightarrow> i \<noteq> [] \<and> \<not> is_used i ps | _ \<Rightarrow> False) \<and>
     (case agent_digest pf proposal of Inl _ \<Rightarrow> False | Inr d \<Rightarrow> get_key permit ''proposal_digest'' = PStr d) \<and>
     (case (read_instant fromiso (get_key permit ''issued_at''), read_instant fromiso (get_key permit ''expires_at''),
            get_key proposal ''session_id'') of
        (Some start, Some expires, PStr session) \<Rightarrow>
          session \<noteq> [] \<and> \<not> is_revoked session start ps \<and> dt_instant start < dt_instant expires \<and>
          dt_instant start \<le> instant \<and> instant \<le> dt_instant expires
      | _ \<Rightarrow> False)"

text \<open>The decision that comes with it, if any, allows and names the same rule and state.\<close>

definition decision_good :: "payload option \<Rightarrow> payload \<Rightarrow> bool" where
  "decision_good decision permit \<longleftrightarrow>
     (case decision of
        None \<Rightarrow> True
      | Some d \<Rightarrow> get_key d ''outcome'' = PStr ''ALLOW'' \<and>
          (\<forall>f \<in> set BOUND_FIELDS. py_eq (get_key d f) (get_key permit f)))"

lemma exec_check_None [simp]: "exec_check ok e = None \<longleftrightarrow> ok"
  by (simp add: exec_check_def)

lemma is_text_iff: "is_text v \<longleftrightarrow> (\<exists>s. v = PStr s \<and> s \<noteq> [])"
  by (cases v) auto

lemma permit_shape_ok:
  "permit_shape_error v = None \<longleftrightarrow>
     is_dict v \<and> list_all (has_key (dict_of v)) PERMIT_REQUIRED \<and>
     get_key (dict_of v) ''single_use'' = PBool True \<and> is_text (get_key (dict_of v) ''permit_id'')"
  by (auto simp: permit_shape_error_def Let_def first_error_None_iff)

lemma digest_ok:
  "digest_error pf p permit = None \<longleftrightarrow>
     (case agent_digest pf p of Inl _ \<Rightarrow> False | Inr d \<Rightarrow> get_key permit ''proposal_digest'' = PStr d)"
  by (auto simp: digest_error_def split: sum.splits contract_exn.splits)

lemma decision_match_ok: "decision_match_error decision permit = None \<longleftrightarrow> decision_good decision permit"
  by (auto simp: decision_match_error_def decision_good_def first_error_None_iff split: option.splits)

lemma permit_time_ok:
  "permit_time_error fromiso proposal permit time ps = None \<longleftrightarrow>
     (case (read_instant fromiso (get_key permit ''issued_at''), read_instant fromiso (get_key permit ''expires_at''),
            get_key proposal ''session_id'') of
        (Some start, Some expires, PStr session) \<Rightarrow>
          session \<noteq> [] \<and> \<not> is_revoked session start ps \<and> dt_instant start < dt_instant expires \<and>
          dt_instant start \<le> dt_instant time \<and> dt_instant time \<le> dt_instant expires
      | _ \<Rightarrow> False)"
  by (auto simp: permit_time_error_def read_instant_def first_error_None_iff split: sum.splits pyval.splits)

definition clock_at :: "datetime option \<Rightarrow> agent_world \<Rightarrow> int" where
  "clock_at current_time w =
     (case current_time of Some t \<Rightarrow> dt_instant t | None \<Rightarrow> dt_instant (fst (read_clock w)))"

lemma aware_instant [simp]: "dt_instant (aware d) = dt_instant d"
  by (simp add: aware_def)

lemma clock_at_aware:
  "dt_instant (aware (case t of Some t \<Rightarrow> t | None \<Rightarrow> fst (read_clock w))) = clock_at t w"
  by (simp add: clock_at_def split: option.split)

lemma verify_ok:
  "fst (verify pf fromiso proposal v decision t ps w) = None \<longleftrightarrow>
     is_dict v \<and> permit_good pf fromiso proposal (dict_of v) (clock_at t w) ps \<and>
     decision_good decision (dict_of v)"
proof -
  have *: "fst (verify pf fromiso proposal v decision t ps w) = None \<longleftrightarrow>
      agent_proposal_error proposal = None \<and> permit_shape_error v = None \<and>
      (case get_key (dict_of v) ''permit_id'' of PStr i \<Rightarrow> \<not> is_used i ps | _ \<Rightarrow> True) \<and>
      digest_error pf proposal (dict_of v) = None \<and> decision_match_error decision (dict_of v) = None \<and>
      permit_time_error fromiso proposal (dict_of v)
        (aware (case t of Some t \<Rightarrow> t | None \<Rightarrow> fst (read_clock w))) ps = None"
  proof (cases "first_error [exec_check (agent_proposal_error proposal = None) InvalidPermit,
      permit_shape_error v,
      exec_check (case get_key (dict_of v) ''permit_id'' of PStr i \<Rightarrow> \<not> is_used i ps | _ \<Rightarrow> True) ReplayAttack,
      digest_error pf proposal (dict_of v), decision_match_error decision (dict_of v)]")
    case None
    note all = this [unfolded first_error_None_iff]
    show ?thesis
      unfolding verify_def Let_def None using all by (auto split: option.splits prod.splits)
  next
    case (Some e)
    then have "\<not> (\<forall>x \<in> set [exec_check (agent_proposal_error proposal = None) InvalidPermit,
      permit_shape_error v,
      exec_check (case get_key (dict_of v) ''permit_id'' of PStr i \<Rightarrow> \<not> is_used i ps | _ \<Rightarrow> True) ReplayAttack,
      digest_error pf proposal (dict_of v), decision_match_error decision (dict_of v)]. x = None)"
      unfolding first_error_None_iff [symmetric] by simp
    then show ?thesis unfolding verify_def Let_def Some by auto
  qed
  show ?thesis
    unfolding * permit_shape_ok digest_ok decision_match_ok permit_time_ok permit_good_def clock_at_aware
    by (cases "get_key (dict_of v) ''permit_id''") auto
qed


definition permit_of :: "pyval \<Rightarrow> payload option \<times> payload" where
  "permit_of v =
     (if get_key (dict_of v) ''kind'' = PStr ''decision''
      then (Some (dict_of v), dict_of (get_key (dict_of v) ''permit'')) else (None, dict_of v))"

lemma extract_permit_ok:
  "extract_permit eid v = Inr (decision, pv) \<Longrightarrow> permit_of v = (decision, dict_of pv)"
  by (auto simp: extract_permit_def permit_of_def split: pyval.splits if_splits)

lemma mark_used_Inr:
  "mark_used i ps = Inr ps' \<longleftrightarrow> i \<noteq> [] \<and> \<not> is_used i ps \<and> ps' = ps\<lparr>ps_consumed := i # ps_consumed ps\<rparr>"
  by (auto simp: mark_used_def)

lemma find_handler_registered:
  "find_handler gw proposal permit = Inr (Some h) \<Longrightarrow> h \<in> snd ` set (gw_handlers gw)"
  by (auto simp: find_handler_def Let_def image_iff split: option.splits if_splits pyval.splits
      dest!: map_of_SomeD) (metis snd_conv)+

text \<open>A call that reaches its handler, and any other call.\<close>

lemma authorize_cases:
  assumes "authorize pf fromiso proposal v cancelled t eid gw w = (g, gw', w')"
  obtains (authorised) pid h decision permit where "g = Authorised pid h" "\<not> cancelled"
      "permit_of v = (decision, permit)" "get_key permit ''permit_id'' = PStr pid"
      "permit_good pf fromiso proposal permit (clock_at t w) (gw_store gw)" "decision_good decision permit"
      "find_handler gw' proposal permit = Inr (Some h)"
      "gw' = gw\<lparr>gw_store := (gw_store gw)\<lparr>ps_consumed := pid # ps_consumed (gw_store gw)\<rparr>\<rparr>"
  | (stopped) "\<forall>pid h. g \<noteq> Authorised pid h" "gw_handlers gw' = gw_handlers gw"
      "set (ps_consumed (gw_store gw)) \<subseteq> set (ps_consumed (gw_store gw'))"
      "ps_revoked_before (gw_store gw') = ps_revoked_before (gw_store gw)"
      "ps_global_revoked_before (gw_store gw') = ps_global_revoked_before (gw_store gw)"
proof (cases "\<exists>decision pv w1. \<not> cancelled \<and> extract_permit eid v = Inr (decision, pv) \<and>
    verify pf fromiso proposal pv decision t (gw_store gw) w = (None, w1)")
  case False
  then have "gw' = gw \<and> (\<forall>pid h. g \<noteq> Authorised pid h)"
    using assms by (auto simp: authorize_def split: if_splits sum.splits prod.splits option.splits agent_exn.splits)
  then show thesis using stopped by simp
next
  case True
  then obtain decision pv w1 where c: "\<not> cancelled" and x: "extract_permit eid v = Inr (decision, pv)"
    and ver: "verify pf fromiso proposal pv decision t (gw_store gw) w = (None, w1)" by blast
  have good: "permit_good pf fromiso proposal (dict_of pv) (clock_at t w) (gw_store gw)"
      "decision_good decision (dict_of pv)"
    using ver verify_ok [of pf fromiso proposal pv decision t "gw_store gw" w] by simp_all
  then obtain pid where pid: "get_key (dict_of pv) ''permit_id'' = PStr pid" "pid \<noteq> []" "\<not> is_used pid (gw_store gw)"
    by (auto simp: permit_good_def split: pyval.splits)
  let ?ps = "(gw_store gw)\<lparr>ps_consumed := pid # ps_consumed (gw_store gw)\<rparr>"
  have "mark_used pid (gw_store gw) = Inr ?ps" using pid by (simp add: mark_used_Inr)
  with assms c x ver pid(1) have run: "(case find_handler (gw\<lparr>gw_store := ?ps\<rparr>) proposal (dict_of pv) of
      Inl e \<Rightarrow> (Escaped e, gw\<lparr>gw_store := ?ps\<rparr>, w1)
    | Inr None \<Rightarrow> (Refused (failed_execution eid ''HANDLER_NOT_FOUND'' False []), gw\<lparr>gw_store := ?ps\<rparr>, w1)
    | Inr (Some h) \<Rightarrow> (Authorised pid h, gw\<lparr>gw_store := ?ps\<rparr>, w1)) = (g, gw', w')"
    by (auto simp: authorize_def Let_def split: sum.splits option.splits)
  show thesis
  proof (cases "\<exists>h. find_handler (gw\<lparr>gw_store := ?ps\<rparr>) proposal (dict_of pv) = Inr (Some h)")
    case True
    with run obtain h where "g = Authorised pid h" "gw' = gw\<lparr>gw_store := ?ps\<rparr>"
        "find_handler (gw\<lparr>gw_store := ?ps\<rparr>) proposal (dict_of pv) = Inr (Some h)"
      by auto
    with authorised c extract_permit_ok [OF x] pid(1) good show thesis by blast
  next
    case False
    with run have "gw' = gw\<lparr>gw_store := ?ps\<rparr>" "\<forall>pid h. g \<noteq> Authorised pid h"
      by (auto split: sum.splits option.splits)
    then show thesis by (intro stopped) auto
  qed
qed

section \<open>Histories\<close>

datatype gateway_op =
    Execute payload pyval bool "datetime option"
  | RevokeBefore datetime "string option"
  | RegisterHandler string tool_handler
  | UnregisterHandler string

type_synonym gateway_run = "gateway \<times> state_machine \<times> agent_world"

fun gateway_step :: "agent_platform \<Rightarrow> iso_reader \<Rightarrow> gateway_op \<Rightarrow> gateway_run \<Rightarrow> gateway_run" where
  "gateway_step pf fromiso (Execute proposal v cancelled t) (gw, m, w) =
     snd (gateway_execute pf fromiso proposal v cancelled t gw m w)"
| "gateway_step pf fromiso (RevokeBefore t session) (gw, m, w) =
     (case revoke_before t session (gw_store gw) of
        Inl _ \<Rightarrow> (gw, m, w) | Inr ps \<Rightarrow> (gw\<lparr>gw_store := ps\<rparr>, m, w))"
| "gateway_step pf fromiso (RegisterHandler name h) (gw, m, w) =
     (case register_handler name h gw of Inl _ \<Rightarrow> (gw, m, w) | Inr gw1 \<Rightarrow> (gw1, m, w))"
| "gateway_step pf fromiso (UnregisterHandler name) (gw, m, w) = (unregister_handler name gw, m, w)"

definition gate_of ::
  "agent_platform \<Rightarrow> iso_reader \<Rightarrow> payload \<Rightarrow> pyval \<Rightarrow> bool \<Rightarrow> datetime option \<Rightarrow> gateway \<Rightarrow> agent_world \<Rightarrow> gate" where
  "gate_of pf fromiso proposal v cancelled t gw w =
     (case execution_id w of (eid, w1) \<Rightarrow>
        fst (authorize (platform.truncate pf) fromiso proposal v cancelled t eid gw w1))"

text \<open>The permit on which an operation runs a handler.\<close>

fun handler_permit :: "agent_platform \<Rightarrow> iso_reader \<Rightarrow> gateway_op \<Rightarrow> gateway_run \<Rightarrow> string option" where
  "handler_permit pf fromiso (Execute proposal v cancelled t) (gw, m, w) =
     (case gate_of pf fromiso proposal v cancelled t gw w of Authorised pid h \<Rightarrow> Some pid | _ \<Rightarrow> None)"
| "handler_permit pf fromiso _ _ = None"

fun handler_runs :: "agent_platform \<Rightarrow> iso_reader \<Rightarrow> gateway_op list \<Rightarrow> gateway_run \<Rightarrow> string list" where
  "handler_runs pf fromiso [] s = []"
| "handler_runs pf fromiso (x # xs) s =
     (case handler_permit pf fromiso x s of None \<Rightarrow> [] | Some i \<Rightarrow> [i]) @
     handler_runs pf fromiso xs (gateway_step pf fromiso x s)"

definition spent_permits :: "gateway_run \<Rightarrow> string set" where
  "spent_permits s = set (ps_consumed (gw_store (fst s)))"

text \<open>An execution takes its gateway from \<open>authorize\<close>, whatever the handler does.\<close>

lemma execute_gateway:
  assumes "execution_id w = (eid, w1)"
    and "authorize (platform.truncate pf) fromiso proposal v cancelled t eid gw w1 = (g, gw1, w2)"
  shows "fst (gateway_step pf fromiso (Execute proposal v cancelled t) (gw, m, w)) = gw1"
    and "gate_of pf fromiso proposal v cancelled t gw w = g"
  using assms by (auto simp: gateway_execute_def gate_of_def split: gate.splits prod.splits)

lemma execute_spends:
  "spent_permits s \<subseteq> spent_permits (gateway_step pf fromiso (Execute proposal v cancelled t) s)"
  "handler_permit pf fromiso (Execute proposal v cancelled t) s = Some i \<Longrightarrow>
     i \<notin> spent_permits s \<and> i \<in> spent_permits (gateway_step pf fromiso (Execute proposal v cancelled t) s)"
proof -
  obtain gw m w where s: "s = (gw, m, w)" using prod_cases3 by blast
  obtain eid w1 where e: "execution_id w = (eid, w1)" by fastforce
  obtain g gw1 w2 where a: "authorize (platform.truncate pf) fromiso proposal v cancelled t eid gw w1 = (g, gw1, w2)"
    by (metis prod.collapse)
  note ex = execute_gateway [OF e a]
  from a have "spent_permits s \<subseteq> set (ps_consumed (gw_store gw1)) \<and>
    (\<forall>i h. g = Authorised i h \<longrightarrow> i \<notin> spent_permits s \<and> i \<in> set (ps_consumed (gw_store gw1)))"
    by (cases rule: authorize_cases) (auto simp: spent_permits_def s permit_good_def is_used_def)
  with ex show "spent_permits s \<subseteq> spent_permits (gateway_step pf fromiso (Execute proposal v cancelled t) s)"
    "handler_permit pf fromiso (Execute proposal v cancelled t) s = Some i \<Longrightarrow>
      i \<notin> spent_permits s \<and> i \<in> spent_permits (gateway_step pf fromiso (Execute proposal v cancelled t) s)"
    by (auto simp: spent_permits_def s split: gate.splits)
qed

interpretation permits: single_use_tokens
  "\<lambda>_. True" spent_permits "gateway_step pf fromiso" "handler_permit pf fromiso" for pf fromiso
proof
  fix x :: gateway_op and s :: gateway_run and i
  obtain gw m w where s: "s = (gw, m, w)" using prod_cases3 by blast
  show "spent_permits s \<subseteq> spent_permits (gateway_step pf fromiso x s)"
  proof (cases x)
    case (Execute proposal v cancelled t)
    then show ?thesis using execute_spends(1) by blast
  next
    case (RevokeBefore t session)
    then show ?thesis by (auto simp: s spent_permits_def revoke_before_def split: option.splits sum.splits)
  qed (auto simp: s spent_permits_def register_handler_def unregister_handler_def)
  show "handler_permit pf fromiso x s = Some i \<Longrightarrow> i \<notin> spent_permits s"
    "handler_permit pf fromiso x s = Some i \<Longrightarrow> i \<in> spent_permits (gateway_step pf fromiso x s)"
    by (cases x; use execute_spends(2) s in fastforce)+
qed simp

lemma handler_runs_granted: "handler_runs pf fromiso xs s = permits.granted pf fromiso xs s"
  by (induction xs arbitrary: s) simp_all


section \<open>Revocation\<close>

definition cut_at :: "int \<Rightarrow> string \<Rightarrow> permit_store \<Rightarrow> bool" where
  "cut_at i session ps \<longleftrightarrow> (\<exists>c \<in> set (cutoffs session ps). i \<le> dt_instant c)"

lemma cutoffs_set:
  "set (cutoffs session ps) =
     {c. ps_global_revoked_before ps = Some c \<or> map_of (ps_revoked_before ps) session = Some c}"
  by (auto simp: cutoffs_def List.map_filter_def)

lemma foldl_max_ge: "(x :: int) \<le> foldl max a xs \<longleftrightarrow> x \<le> a \<or> (\<exists>y \<in> set xs. x \<le> y)"
  by (induction xs arbitrary: a) (auto simp: le_max_iff_disj)

lemma is_revoked_iff: "is_revoked session d ps \<longleftrightarrow> cut_at (dt_instant d) session ps"
  by (auto simp: is_revoked_def cut_at_def foldl_max_ge split: list.split)

lemma later_ge: "dt_instant t \<le> dt_instant (later_cutoff c t)" "c = Some d \<Longrightarrow> dt_instant d \<le> dt_instant (later_cutoff c t)"
  by (auto simp: later_cutoff_def split: option.splits)

lemma cut_at_iff:
  "cut_at i session ps \<longleftrightarrow>
     (\<exists>c. ps_global_revoked_before ps = Some c \<and> i \<le> dt_instant c) \<or>
     (\<exists>c. map_of (ps_revoked_before ps) session = Some c \<and> i \<le> dt_instant c)"
  by (auto simp: cut_at_def cutoffs_set)

lemma revoke_cuts:
  assumes "revoke_before t scope ps = Inr ps'"
  shows "scope = None \<or> scope = Some session \<Longrightarrow> cut_at (dt_instant t) session ps'"
    and "cut_at i session ps \<Longrightarrow> cut_at i session ps'"
proof -
  have t: "dt_instant t \<le> dt_instant (later_cutoff c t)" for c by (rule later_ge(1))
  have up: "i \<le> dt_instant d \<Longrightarrow> i \<le> dt_instant (later_cutoff (Some d) t)" for d i
    using later_ge(2) [of "Some d" d t] by simp
  consider (all) "scope = None" "ps' = ps\<lparr>ps_global_revoked_before := Some (later_cutoff (ps_global_revoked_before ps) t)\<rparr>"
    | (one) s where "scope = Some s" "ps' = ps\<lparr>ps_revoked_before :=
          AList.update s (later_cutoff (map_of (ps_revoked_before ps) s) t) (ps_revoked_before ps)\<rparr>"
    using assms by (auto simp: revoke_before_def split: if_splits option.splits)
  then have "(scope = None \<or> scope = Some session \<longrightarrow> cut_at (dt_instant t) session ps') \<and>
      (cut_at i session ps \<longrightarrow> cut_at i session ps')"
  proof cases
    case all
    with t up show ?thesis by (auto simp: cut_at_iff)
  next
    case one
    with t up show ?thesis by (auto simp: cut_at_iff update_conv')
  qed
  then show "scope = None \<or> scope = Some session \<Longrightarrow> cut_at (dt_instant t) session ps'"
    "cut_at i session ps \<Longrightarrow> cut_at i session ps'" by blast+
qed

lemma cut_at_eqI:
  "ps_revoked_before ps' = ps_revoked_before ps \<Longrightarrow>
   ps_global_revoked_before ps' = ps_global_revoked_before ps \<Longrightarrow> cut_at i session ps' = cut_at i session ps"
  by (simp add: cut_at_def cutoffs_set)

lemma step_keeps_cut:
  assumes "cut_at i session (gw_store (fst s))"
  shows "cut_at i session (gw_store (fst (gateway_step pf fromiso x s)))"
proof -
  obtain gw m w where s: "s = (gw, m, w)" using prod_cases3 by blast
  show ?thesis
  proof (cases x)
    case (Execute proposal v cancelled t)
    obtain eid w1 where e: "execution_id w = (eid, w1)" by fastforce
    obtain g gw1 w2 where a: "authorize (platform.truncate pf) fromiso proposal v cancelled t eid gw w1 = (g, gw1, w2)"
      by (metis prod.collapse)
    from a have "cut_at i session (gw_store gw1) = cut_at i session (gw_store gw)"
      by (cases rule: authorize_cases) (rule cut_at_eqI; simp)+
    with assms s execute_gateway(1) [OF e a] Execute show ?thesis by simp
  next
    case (RevokeBefore t scope)
    with assms s revoke_cuts(2) show ?thesis by (auto split: sum.splits)
  qed (use assms s in \<open>auto simp: register_handler_def unregister_handler_def\<close>)
qed

lemma run_keeps_cut:
  "cut_at i session (gw_store (fst s)) \<Longrightarrow>
   cut_at i session (gw_store (fst (fold (gateway_step pf fromiso) xs s)))"
  by (induction xs arbitrary: s) (simp_all add: step_keeps_cut)

section \<open>The gateway over the catalog\<close>

definition catalog_gateway :: "agent_platform \<Rightarrow> gateway" where
  "catalog_gateway pf = snd (register_behavior_configs pf BEHAVIOR_CATALOG VehicleToolGateway)"

definition catalog_handlers :: "agent_platform \<Rightarrow> gateway \<Rightarrow> bool" where
  "catalog_handlers pf gw \<longleftrightarrow>
     (\<forall>h \<in> snd ` set (gw_handlers gw).
        \<exists>c \<in> set BEHAVIOR_CATALOG. \<exists>g. create_generic_handler pf c = Inr g \<and> h = dict_handler g)"

lemma update_values: "snd ` set (AList.update k v xs) \<subseteq> insert v (snd ` set xs)"
  by (induction xs) auto

lemma register_catalog:
  "set cs \<subseteq> set BEHAVIOR_CATALOG \<Longrightarrow> catalog_handlers pf gw \<Longrightarrow>
   catalog_handlers pf (snd (register_behavior_configs pf cs gw))"
proof (induction cs arbitrary: gw)
  case (Cons c cs)
  have "catalog_handlers pf gw1"
    if "create_generic_handler pf c = Inr h" "register_handler (bc_intent_id (cfg c)) (dict_handler h) gw = Inr gw1" for h gw1
    unfolding catalog_handlers_def
  proof
    fix v
    assume "v \<in> snd ` set (gw_handlers gw1)"
    moreover have "gw_handlers gw1 = AList.update (bc_intent_id (cfg c)) (dict_handler h) (gw_handlers gw)"
      using that(2) by (auto simp: register_handler_def split: if_splits)
    ultimately have "v = dict_handler h \<or> v \<in> snd ` set (gw_handlers gw)"
      using update_values [of "bc_intent_id (cfg c)" "dict_handler h" "gw_handlers gw"] by auto
    then show "\<exists>c \<in> set BEHAVIOR_CATALOG. \<exists>g. create_generic_handler pf c = Inr g \<and> v = dict_handler g"
      using that(1) Cons.prems unfolding catalog_handlers_def by auto
  qed
  with Cons show ?case by (auto split: sum.splits)
qed simp

lemma catalog_gateway_handlers: "catalog_handlers pf (catalog_gateway pf)"
  unfolding catalog_gateway_def
  by (rule register_catalog) (simp_all add: catalog_handlers_def VehicleToolGateway_def)


fun registers :: "gateway_op \<Rightarrow> bool" where
  "registers (RegisterHandler name h) = True"
| "registers _ = False"

definition undriven :: "vehicle_state \<Rightarrow> vehicle_state \<Rightarrow> bool" where
  "undriven s t \<longleftrightarrow>
     vs_power t = vs_power s \<and> vs_motion t = vs_motion s \<and> vs_environment t = vs_environment s \<and>
     ad_esc_active (vs_adas t) = ad_esc_active (vs_adas s) \<and>
     ad_hand_on_steeringwheel (vs_adas t) = ad_hand_on_steeringwheel (vs_adas s)"

lemma undriven_refl [simp]: "undriven s s"
  by (simp add: undriven_def)

lemma undriven_trans: "undriven s t \<Longrightarrow> undriven t u \<Longrightarrow> undriven s u"
  by (simp add: undriven_def)

lemma invoke_catalog:
  assumes "\<exists>c \<in> set BEHAVIOR_CATALOG. \<exists>g. create_generic_handler pf c = Inr g \<and> h = dict_handler g"
    and "invoke pf eid h proposal m w = (r, m', w')" "valid_state (sm_state m)"
  shows "valid_state (sm_state m') \<and> undriven (sm_state m) (sm_state m')"
proof -
  obtain c g where c: "c \<in> set BEHAVIOR_CATALOG" "create_generic_handler pf c = Inr g" "h = dict_handler g"
    using assms(1) by blast
  obtain x m1 w1 where g: "g proposal m w = (x, m1, w1)" by (metis prod.collapse)
  have "m' = m1"
    using assms(2) g c(3)
    by (auto simp: invoke_def dict_handler_def split: sum.splits agent_exn.splits pyval.splits)
  then show ?thesis
    using handler_valid [OF c(2) assms(3) g] catalog_undriven [OF c(1,2) g] by (simp add: undriven_def)
qed

lemma step_keeps_catalog:
  assumes "catalog_handlers pf gw" "valid_state (sm_state m)" "\<not> registers x"
    and step: "gateway_step pf fromiso x (gw, m, w) = (gw', m', w')"
  shows "catalog_handlers pf gw' \<and> valid_state (sm_state m') \<and> undriven (sm_state m) (sm_state m')"
proof (cases x)
  case (Execute proposal v cancelled t)
  obtain eid w1 where e: "execution_id w = (eid, w1)" by fastforce
  obtain g gw1 w2 where a: "authorize (platform.truncate pf) fromiso proposal v cancelled t eid gw w1 = (g, gw1, w2)"
    by (metis prod.collapse)
  have gw': "gw' = gw1" using execute_gateway(1) [OF e a, of m] step Execute by simp
  from a show ?thesis
  proof (cases rule: authorize_cases)
    case (authorised pid h decision permit)
    obtain r m1 w3 where i: "invoke pf eid h proposal m w2 = (r, m1, w3)" by (metis prod.collapse)
    have "m' = m1" using step Execute e a authorised(1) i by (simp add: gateway_execute_def)
    moreover have "catalog_handlers pf gw1" using authorised(8) assms(1) by (simp add: catalog_handlers_def)
    moreover from this find_handler_registered [OF authorised(7)]
    have "\<exists>c \<in> set BEHAVIOR_CATALOG. \<exists>g. create_generic_handler pf c = Inr g \<and> h = dict_handler g"
      unfolding catalog_handlers_def by blast
    ultimately show ?thesis using invoke_catalog [OF _ i assms(2)] gw' by blast
  next
    case stopped
    then have "m' = m" using step Execute e a by (auto simp: gateway_execute_def split: gate.splits)
    then show ?thesis using stopped(2) assms gw' by (simp add: catalog_handlers_def)
  qed
next
  case (RevokeBefore t scope)
  then have "gw_handlers gw' = gw_handlers gw" "m' = m" using step by (auto split: sum.splits)
  then show ?thesis using assms(1,2) by (simp add: catalog_handlers_def)
next
  case (UnregisterHandler name)
  then have h: "gw_handlers gw' = AList.delete name (gw_handlers gw)" "m' = m"
    using step by (auto simp: unregister_handler_def)
  then have "snd ` set (gw_handlers gw') \<subseteq> snd ` set (gw_handlers gw)" by (auto simp: AList.delete_eq)
  then have "catalog_handlers pf gw'" using assms(1) unfolding catalog_handlers_def by blast
  then show ?thesis using assms(2) h(2) by simp
qed (use assms(3) in simp)

lemma run_keeps_catalog:
  "catalog_handlers pf gw \<Longrightarrow> valid_state (sm_state m) \<Longrightarrow> \<forall>x \<in> set xs. \<not> registers x \<Longrightarrow>
   fold (gateway_step pf fromiso) xs (gw, m, w) = (gw', m', w') \<Longrightarrow>
   valid_state (sm_state m') \<and> undriven (sm_state m) (sm_state m')"
proof (induction xs arbitrary: gw m w)
  case (Cons x xs)
  obtain gw1 m1 w1 where s: "gateway_step pf fromiso x (gw, m, w) = (gw1, m1, w1)"
    using prod_cases3 by blast
  have "catalog_handlers pf gw1 \<and> valid_state (sm_state m1) \<and> undriven (sm_state m) (sm_state m1)"
    using step_keeps_catalog [OF Cons.prems(1,2) _ s] Cons.prems(3) by simp
  with Cons.IH [of gw1 m1 w1] Cons.prems(3,4) s undriven_trans show ?case by auto
qed simp


section \<open>Properties\<close>

lemma gate_authorize:
  assumes "gate_of pf fromiso proposal v cancelled t gw w = Authorised pid h"
  obtains eid w1 gw1 w2 where "execution_id w = (eid, w1)"
    "authorize (platform.truncate pf) fromiso proposal v cancelled t eid gw w1 = (Authorised pid h, gw1, w2)"
    "clock_at t w1 = clock_at t w"
proof -
  obtain eid w1 where e: "execution_id w = (eid, w1)" by fastforce
  obtain g gw1 w2 where a: "authorize (platform.truncate pf) fromiso proposal v cancelled t eid gw w1 = (g, gw1, w2)"
    by (metis prod.collapse)
  have "clock_at t w1 = clock_at t w"
    using e by (auto simp: execution_id_def draw_uuid_def clock_at_def read_clock_def Let_def split: option.split)
  moreover have "g = Authorised pid h" using execute_gateway(2) [OF e a] assms by simp
  ultimately show thesis using that e a by blast
qed

text \<open>Concrete inputs: a text is read as the instant of its length, and a permit for one proposal.\<close>

definition length_reader :: iso_reader where
  "length_reader s = Some (utc (int (length s)))"

definition door_proposal :: payload where
  "door_proposal =
     [(''contract_version'', PStr ''1.0.0''), (''proposal_id'', PStr ''p1''), (''session_id'', PStr ''s1''),
      (''source_turn_id'', PStr ''t1''), (''tool'', PStr ''control_door''), (''arguments'', PDict []),
      (''model_provider'', PStr ''m''), (''model_id'', PStr ''m1'')]"

definition door_permit :: payload where
  "door_permit =
     [(''permit_id'', PStr ''k1''),
      (''proposal_digest'', (case agent_digest (platform.truncate demo_platform) door_proposal of
           Inl _ \<Rightarrow> PNone | Inr d \<Rightarrow> PStr d)),
      (''intent'', PStr ''open_door''), (''rule_id'', PStr ''R1''), (''state_version'', PInt 1),
      (''policy_checksum'', PStr ''c''), (''issued_at'', PStr ''aaa''), (''expires_at'', PStr ''aaaaaa''),
      (''single_use'', PBool True)]"

definition silent_handler :: tool_handler where
  "silent_handler proposal m w = (Inr (PDict []), m, w)"

definition door_gateway :: gateway where
  "door_gateway = VehicleToolGateway\<lparr>gw_handlers := [(''control_door'', silent_handler)]\<rparr>"

definition door_call :: "int \<Rightarrow> gateway_op" where
  "door_call i = Execute door_proposal (PDict door_permit) False (Some (utc i))"

text \<open>C14.  The gateway runs a handler only on a permit that is good for exactly this proposal.  The permit is single use and unused, carries the digest of the proposal executed, was issued and has not expired at the time of the call, and was not revoked by a reset of the session or of all sessions; a decision that comes with it is an ALLOW for the same intent, rule, state version and policy.  Calling the handler uses the permit up.\<close>

theorem handler_needs_permit:
  assumes "gate_of pf fromiso proposal v cancelled t gw w = Authorised pid h"
  shows "\<exists>decision permit. permit_of v = (decision, permit) \<and> get_key permit ''permit_id'' = PStr pid \<and>
    permit_good (platform.truncate pf) fromiso proposal permit (clock_at t w) (gw_store gw) \<and>
    decision_good decision permit \<and> \<not> cancelled \<and>
    is_used pid (gw_store (fst (gateway_step pf fromiso (Execute proposal v cancelled t) (gw, m, w))))"
proof -
  obtain eid w1 gw1 w2 where e: "execution_id w = (eid, w1)" and c: "clock_at t w1 = clock_at t w"
    and a: "authorize (platform.truncate pf) fromiso proposal v cancelled t eid gw w1 = (Authorised pid h, gw1, w2)"
    using assms by (rule gate_authorize)
  from a show ?thesis
  proof (cases rule: authorize_cases)
    case (authorised pid' h' decision permit)
    then show ?thesis
      using execute_gateway(1) [OF e a, of m] c by (simp add: is_used_def del: gateway_step.simps)
  qed simp
qed

theorem handler_needs_permit_witness:
  "\<exists>permit. permit_of (PDict door_permit) = (None, permit) \<and> get_key permit ''permit_id'' = PStr ''k1'' \<and>
     permit_good (platform.truncate demo_platform) length_reader door_proposal permit 4 (gw_store door_gateway)"
proof -
  have "case gate_of demo_platform length_reader door_proposal (PDict door_permit) False (Some (utc 4))
      door_gateway (fixed_world 0) of Authorised pid h \<Rightarrow> pid = ''k1'' | _ \<Rightarrow> False"
    by code_simp
  then obtain h where "gate_of demo_platform length_reader door_proposal (PDict door_permit) False
      (Some (utc 4)) door_gateway (fixed_world 0) = Authorised ''k1'' h"
    by (auto split: gate.splits)
  from handler_needs_permit [OF this, of undefined]
  show ?thesis by (auto simp: permit_of_def clock_at_def utc_def door_permit_def get_key_def)
qed

text \<open>C15.  A permit runs a handler at most once: over any history of executions, resets and registrations, with any payloads, no permit identifier occurs twice among the permits on which handlers ran.\<close>

theorem permit_runs_once: "distinct (handler_runs pf fromiso xs s)"
  unfolding handler_runs_granted by (rule permits.granted_once) simp

text \<open>C16.  A reset revokes what was issued before it.  After \<open>revoke_before\<close> for all sessions or for the session of a later_cutoff proposal, and after any further history, a handler runs only on a permit issued strictly after the reset.\<close>

theorem reset_revokes:
  assumes "revoke_before edge scope (gw_store gw0) = Inr ps"
    and "fold (gateway_step pf fromiso) xs (gw0\<lparr>gw_store := ps\<rparr>, m0, w0) = (gw, m, w)"
    and "gate_of pf fromiso proposal v cancelled t gw w = Authorised pid h"
    and "scope = None \<or> (\<exists>s. scope = Some s \<and> get_key proposal ''session_id'' = PStr s)"
  shows "\<exists>start. read_instant fromiso (get_key (snd (permit_of v)) ''issued_at'') = Some start \<and>
    dt_instant edge < dt_instant start"
proof -
  obtain eid w1 gw1 w2
    where a: "authorize (platform.truncate pf) fromiso proposal v cancelled t eid gw w1 = (Authorised pid h, gw1, w2)"
    using assms(3) by (rule gate_authorize)
  from a show ?thesis
  proof (cases rule: authorize_cases)
    case (authorised pid' h' decision permit)
    then obtain start session where start: "read_instant fromiso (get_key permit ''issued_at'') = Some start"
      and session: "get_key proposal ''session_id'' = PStr session" "\<not> is_revoked session start (gw_store gw)"
      by (auto simp: permit_good_def split: option.splits pyval.splits)
    have "cut_at (dt_instant edge) session ps"
      using revoke_cuts(1) [OF assms(1), of session] assms(4) session(1) by auto
    then have "cut_at (dt_instant edge) session (gw_store gw)"
      using run_keeps_cut [of "dt_instant edge" session "(gw0\<lparr>gw_store := ps\<rparr>, m0, w0)" pf fromiso xs] assms(2)
      by simp
    with session(2) have "dt_instant edge < dt_instant start"
      unfolding is_revoked_iff cut_at_def by force
    then show ?thesis using start authorised(3) by auto
  qed simp
qed

theorem reset_revokes_witness:
  "\<exists>start. read_instant length_reader (get_key (snd (permit_of (PDict door_permit))) ''issued_at'') = Some start \<and>
     2 < dt_instant start"
proof -
  let ?ps = "PermitStore\<lparr>ps_global_revoked_before := Some (utc 2)\<rparr>"
  have "case gate_of demo_platform length_reader door_proposal (PDict door_permit) False (Some (utc 4))
      (door_gateway\<lparr>gw_store := ?ps\<rparr>) (fixed_world 0) of Authorised pid h \<Rightarrow> True | _ \<Rightarrow> False"
    by code_simp
  then obtain pid h where "gate_of demo_platform length_reader door_proposal (PDict door_permit) False
      (Some (utc 4)) (door_gateway\<lparr>gw_store := ?ps\<rparr>) (fixed_world 0) = Authorised pid h"
    by (auto split: gate.splits)
  moreover have "revoke_before (utc 2) None (gw_store door_gateway) = Inr ?ps"
    by (simp add: revoke_before_def door_gateway_def VehicleToolGateway_def PermitStore_def later_cutoff_def utc_def)
  ultimately show ?thesis
    using reset_revokes [of "utc 2" None door_gateway ?ps demo_platform length_reader "[]" ready_machine
        "fixed_world 0" "door_gateway\<lparr>gw_store := ?ps\<rparr>" ready_machine "fixed_world 0" door_proposal]
    by (simp add: utc_def)
qed

text \<open>C17.  Authorised or not, the agent's tools do not drive.  Through a gateway that holds the committed catalog, any history of executions and resets, with whatever proposals, decisions and permits, leaves a valid vehicle state with the power, the speed, the motion phase, the sensed environment, the stability control and the hands-on-wheel reading it found.\<close>

theorem gateway_never_drives:
  assumes "valid_state (sm_state m)" "\<forall>x \<in> set xs. \<not> registers x"
    and "fold (gateway_step pf fromiso) xs (catalog_gateway pf, m, w) = (gw', m', w')"
  shows "valid_state (sm_state m') \<and> vs_power (sm_state m') = vs_power (sm_state m) \<and>
    vs_motion (sm_state m') = vs_motion (sm_state m) \<and>
    vs_environment (sm_state m') = vs_environment (sm_state m) \<and>
    ad_esc_active (vs_adas (sm_state m')) = ad_esc_active (vs_adas (sm_state m)) \<and>
    ad_hand_on_steeringwheel (vs_adas (sm_state m')) = ad_hand_on_steeringwheel (vs_adas (sm_state m))"
  using run_keeps_catalog [OF catalog_gateway_handlers assms] by (simp add: undriven_def)

theorem gateway_never_drives_witness:
  "case fold (gateway_step demo_platform length_reader) [door_call 4, RevokeBefore (utc 5) None]
       (catalog_gateway demo_platform, ready_machine, fixed_world 0) of
     (gw', m', w') \<Rightarrow> vs_motion (sm_state m') = vs_motion (sm_state ready_machine)"
proof -
  obtain gw' m' w' where r: "fold (gateway_step demo_platform length_reader) [door_call 4, RevokeBefore (utc 5) None]
      (catalog_gateway demo_platform, ready_machine, fixed_world 0) = (gw', m', w')"
    using prod_cases3 by blast
  have "\<forall>x \<in> set [door_call 4, RevokeBefore (utc 5) None]. \<not> registers x" by (simp add: door_call_def)
  from gateway_never_drives [OF ready_machine_valid this r] show ?thesis unfolding r prod.case by simp
qed

end
