(* ===== verification/AgentConfirm.thy ===== *)
theory AgentConfirm
  imports Contract AgentMachine Tokens
begin

text \<open>
  \<open>confirmation/models.py\<close> and \<open>manager.py\<close>: the agent's pending confirmations.  A pending
  record is an object that is updated in place while the dictionary may come to hold another
  object under the same identifier, so the manager is a heap of records and a map from
  identifiers to addresses.  \<open>confirm\<close> takes its lock twice, around the claim and after the
  authorizer has answered; its parts are \<open>confirm_begin\<close>, \<open>confirm_settle\<close> and
  \<open>confirm_finish\<close>, which other calls may come between.

  The authorizer and the executor are the caller's objects.  An authorizer answers with a
  decision or raises (with a \<open>code\<close> attribute or without); an executor returns a value whose
  dictionary view is a \<open>PDict\<close>, any other value being one that has none, or raises.  The request id
  and the cancellation token are only passed on to them and belong to the functions; the check that
  exactly one client is given is left out.  The texts of results are dropped.
\<close>

section \<open>Records\<close>

datatype confirmation_state = CN_PENDING | CN_CONFIRMED | CN_CANCELLED | CN_EXPIRED | CN_CONSUMED | CN_REJECTED

fun confirmation_value :: "confirmation_state \<Rightarrow> string" where
  "confirmation_value CN_PENDING = ''PENDING''"
| "confirmation_value CN_CONFIRMED = ''CONFIRMED''"
| "confirmation_value CN_CANCELLED = ''CANCELLED''"
| "confirmation_value CN_EXPIRED = ''EXPIRED''"
| "confirmation_value CN_CONSUMED = ''CONSUMED''"
| "confirmation_value CN_REJECTED = ''REJECTED''"

record agent_pending =
  cn_confirmation_id :: string
  cn_proposal_id :: string
  cn_session_id :: string
  cn_turn_id :: string
  cn_request_id :: string
  cn_prompt :: string
  cn_expires_at :: string
  cn_single_use :: bool
  cn_state :: confirmation_state
  cn_action_proposal :: payload
  cn_created_at :: string

definition pending_to_dict :: "agent_pending \<Rightarrow> payload" where
  "pending_to_dict p =
     [(''confirmation_id'', PStr (cn_confirmation_id p)), (''proposal_id'', PStr (cn_proposal_id p)),
      (''session_id'', PStr (cn_session_id p)), (''turn_id'', PStr (cn_turn_id p)),
      (''request_id'', PStr (cn_request_id p)), (''prompt'', PStr (cn_prompt p)),
      (''expires_at'', PStr (cn_expires_at p)), (''single_use'', PBool (cn_single_use p)),
      (''state'', PStr (confirmation_value (cn_state p))),
      (''action_proposal'', PDict (cn_action_proposal p)), (''created_at'', PStr (cn_created_at p))]"

record confirm_result =
  cr_status :: string
  cr_confirmation_id :: string
  cr_state :: confirmation_state
  cr_decision :: "payload option"
  cr_execution :: "payload option"
  cr_error :: "string option"

record confirm_manager =
  cm_heap :: "agent_pending list"
  cm_pending :: "(string \<times> nat) list"

definition ConfirmationManager :: confirm_manager where
  "ConfirmationManager = \<lparr>cm_heap = [], cm_pending = []\<rparr>"

definition set_conf_state :: "nat \<Rightarrow> confirmation_state \<Rightarrow> confirm_manager \<Rightarrow> confirm_manager" where
  "set_conf_state a st cm = cm\<lparr>cm_heap := (cm_heap cm)[a := (cm_heap cm ! a)\<lparr>cn_state := st\<rparr>]\<rparr>"

definition get_pending :: "string \<Rightarrow> confirm_manager \<Rightarrow> agent_pending option" where
  "get_pending cid cm = map_option (nth (cm_heap cm)) (map_of (cm_pending cm) cid)"

section \<open>Registration and reset\<close>

definition DEFAULT_PROMPT :: string where
  "DEFAULT_PROMPT = ''Y'' @ [CHR 0xC3, CHR 0xAA] @ ''u c'' @ [CHR 0xE1, CHR 0xBA, CHR 0xA7] @ ''u c'' @
     [CHR 0xE1, CHR 0xBA, CHR 0xA7] @ ''n x'' @ [CHR 0xC3, CHR 0xA1] @ ''c nh'' @
     [CHR 0xE1, CHR 0xBA, CHR 0xAD] @ ''n''"

definition register_pending ::
  "platform \<Rightarrow> payload \<Rightarrow> payload \<Rightarrow> string \<Rightarrow> confirm_manager \<Rightarrow> agent_world \<Rightarrow>
   (agent_exn + agent_pending) \<times> confirm_manager \<times> agent_world" where
  "register_pending pf decision proposal turn_id cm w =
     (case get_key decision ''confirmation'' of
        PDict info \<Rightarrow>
          (case map_of info ''confirmation_id'' of
             None \<Rightarrow> (Inl (StateErr (KeyErr ''confirmation_id'')), cm, w)
           | Some cid \<Rightarrow>
          (case map_of info ''proposal_id'' of
             None \<Rightarrow> (Inl (StateErr (KeyErr ''proposal_id'')), cm, w)
           | Some pid \<Rightarrow>
             (let (time, w1) = read_clock w;
                  p = \<lparr>cn_confirmation_id = py_str pf cid, cn_proposal_id = py_str pf pid,
                       cn_session_id = py_str pf (py_or (get_key decision ''session_id'')
                         (get_or proposal ''session_id'' (PStr ''unknown''))),
                       cn_turn_id = turn_id,
                       cn_request_id = py_str pf (py_or (get_key decision ''request_id'')
                         (get_or proposal ''request_id'' (PStr ''unknown''))),
                       cn_prompt = py_str pf (py_or (py_or (get_key info ''prompt'')
                         (get_key decision ''reason_code'')) (PStr DEFAULT_PROMPT)),
                       cn_expires_at = py_str pf (get_or info ''expires_at'' (PStr [])),
                       cn_single_use = py_truth (get_or info ''single_use'' (PBool True)),
                       cn_state = CN_PENDING, cn_action_proposal = proposal,
                       cn_created_at = pf_iso pf (dt_instant time)\<rparr>
              in (Inr p, cm\<lparr>cm_heap := cm_heap cm @ [p],
                            cm_pending := AList.update (py_str pf cid) (length (cm_heap cm)) (cm_pending cm)\<rparr>, w1))))
      | _ \<Rightarrow> (Inl (ValueErr ''Guardrail CONFIRM decision missing required confirmation payload''), cm, w))"

definition cancels_on_reset :: "string option \<Rightarrow> agent_pending \<Rightarrow> bool" where
  "cancels_on_reset session p \<longleftrightarrow>
     cn_state p = CN_PENDING \<and> (case session of None \<Rightarrow> True | Some s \<Rightarrow> cn_session_id p = s)"

definition cancel_pending_for_reset :: "string option \<Rightarrow> confirm_manager \<Rightarrow> int \<times> confirm_manager" where
  "cancel_pending_for_reset session cm =
     (let doomed = filter (\<lambda>a. cancels_on_reset session (cm_heap cm ! a)) (map snd (cm_pending cm))
      in (int (length doomed), foldl (\<lambda>c a. set_conf_state a CN_CANCELLED c) cm doomed))"

section \<open>Resolution\<close>

text \<open>\<open>is_expired\<close>: an absent, unreadable or naive expiry never expires.\<close>

definition is_expired ::
  "iso_reader \<Rightarrow> agent_pending \<Rightarrow> datetime option \<Rightarrow> agent_world \<Rightarrow> bool \<times> agent_world" where
  "is_expired fromiso p time w =
     (if cn_expires_at p = [] then (False, w)
      else case fromiso (replace_str ''Z'' ''+00:00'' (cn_expires_at p)) of
        None \<Rightarrow> (False, w)
      | Some e \<Rightarrow>
          (let (current, w1) = (case time of Some t \<Rightarrow> (t, w) | None \<Rightarrow> read_clock w)
           in (dt_offset e \<noteq> None \<and> dt_instant e < dt_instant current, w1)))"

definition refused :: "string \<Rightarrow> string \<Rightarrow> confirmation_state \<Rightarrow> string \<Rightarrow> confirm_result" where
  "refused status cid st code =
     \<lparr>cr_status = status, cr_confirmation_id = cid, cr_state = st, cr_decision = None,
      cr_execution = None, cr_error = Some code\<rparr>"

definition other_session :: "agent_pending \<Rightarrow> string \<Rightarrow> bool" where
  "other_session p session \<longleftrightarrow>
     cn_session_id p \<noteq> [] \<and> cn_session_id p \<noteq> ''unknown'' \<and> session \<noteq> cn_session_id p"

text \<open>The checks \<open>confirm\<close> and \<open>cancel\<close> share, up to the pending record's address.\<close>

definition claimable ::
  "iso_reader \<Rightarrow> string \<Rightarrow> string \<Rightarrow> datetime option \<Rightarrow> confirm_manager \<Rightarrow> agent_world \<Rightarrow>
   (confirm_result + nat) \<times> confirm_manager \<times> agent_world" where
  "claimable fromiso cid session time cm w =
     (case map_of (cm_pending cm) cid of
        None \<Rightarrow> (Inl (refused ''failed'' cid CN_REJECTED ''CONFIRMATION_NOT_FOUND''), cm, w)
      | Some a \<Rightarrow>
          (let p = cm_heap cm ! a in
           if other_session p session
           then (Inl (refused ''failed'' cid (cn_state p) ''SESSION_MISMATCH''), cm, w)
           else if cn_state p \<noteq> CN_PENDING
           then (Inl (refused ''failed'' cid (cn_state p) ''CONFIRMATION_ALREADY_CONSUMED''), cm, w)
           else (case is_expired fromiso p time w of
                   (True, w1) \<Rightarrow> (Inl (refused ''expired'' cid CN_EXPIRED ''CONFIRMATION_EXPIRED''),
                                    set_conf_state a CN_EXPIRED cm, w1)
                 | (False, w1) \<Rightarrow> (Inr a, cm, w1))))"

definition confirm_begin ::
  "iso_reader \<Rightarrow> string \<Rightarrow> string \<Rightarrow> bool \<Rightarrow> datetime option \<Rightarrow> confirm_manager \<Rightarrow> agent_world \<Rightarrow>
   (confirm_result + nat) \<times> confirm_manager \<times> agent_world" where
  "confirm_begin fromiso cid session cancelled time cm w =
     (case claimable fromiso cid session time cm w of
        (Inl r, cm1, w1) \<Rightarrow> (Inl r, cm1, w1)
      | (Inr a, cm1, w1) \<Rightarrow>
          if cancelled then (Inl (refused ''failed'' cid CN_PENDING ''EXECUTION_CANCELLED''), cm1, w1)
          else (Inr a, set_conf_state a CN_CONFIRMED cm1, w1))"

type_synonym auth_reply = "string option + payload"

definition confirm_settle ::
  "string \<Rightarrow> nat \<Rightarrow> auth_reply \<Rightarrow> confirm_manager \<Rightarrow> (confirm_result + payload) \<times> confirm_manager" where
  "confirm_settle cid a reply cm =
     (case reply of
        Inl code \<Rightarrow> (Inl (refused ''failed'' cid CN_PENDING
            (case code of None \<Rightarrow> ''GUARDRAIL_ERROR'' | Some c \<Rightarrow> c)), set_conf_state a CN_PENDING cm)
      | Inr d \<Rightarrow> (Inr d, set_conf_state a CN_CONSUMED cm))"

definition outcome_text :: "platform \<Rightarrow> payload \<Rightarrow> string" where
  "outcome_text pf d = (if get_key d ''outcome'' = PNone then [] else py_str pf (get_key d ''outcome''))"

definition consumed_result ::
  "string \<Rightarrow> string \<Rightarrow> payload \<Rightarrow> payload option \<Rightarrow> string option \<Rightarrow> confirm_result" where
  "consumed_result status cid d execution error =
     \<lparr>cr_status = status, cr_confirmation_id = cid, cr_state = CN_CONSUMED, cr_decision = Some d,
      cr_execution = execution, cr_error = error\<rparr>"

type_synonym 'e executor = "payload \<Rightarrow> payload \<Rightarrow> 'e \<Rightarrow> (agent_exn + pyval) \<times> 'e"

definition confirm_finish ::
  "platform \<Rightarrow> string \<Rightarrow> payload \<Rightarrow> payload \<Rightarrow> 'e executor option \<Rightarrow> 'e \<Rightarrow> confirm_result \<times> 'e" where
  "confirm_finish pf cid proposal d executor e =
     (if outcome_text pf d = ''ALLOW'' then
        (case executor of
           None \<Rightarrow> (consumed_result ''completed'' cid d None None, e)
         | Some ex \<Rightarrow>
             (case ex proposal d e of
                (Inr (PDict x), e1) \<Rightarrow>
                  (consumed_result (if py_truth (get_or x ''success'' (PBool False)) then ''completed'' else ''failed'')
                     cid d (Some x) None, e1)
              | (_, e1) \<Rightarrow> (consumed_result ''failed'' cid d None (Some ''EXECUTION_ERROR''), e1)))
      else (consumed_result (if prefix_of ''BLOCK'' (outcome_text pf d) then ''blocked'' else ''needs_confirmation'')
              cid d None None, e))"

definition confirm_pending ::
  "platform \<Rightarrow> iso_reader \<Rightarrow> string \<Rightarrow> string \<Rightarrow> (string \<Rightarrow> string \<Rightarrow> 'e \<Rightarrow> auth_reply \<times> 'e) \<Rightarrow>
   'e executor option \<Rightarrow> bool \<Rightarrow> datetime option \<Rightarrow> confirm_manager \<Rightarrow> 'e \<Rightarrow> agent_world \<Rightarrow>
   confirm_result \<times> confirm_manager \<times> 'e \<times> agent_world" where
  "confirm_pending pf fromiso cid session authorizer executor cancelled time cm e w =
     (case confirm_begin fromiso cid session cancelled time cm w of
        (Inl r, cm1, w1) \<Rightarrow> (r, cm1, e, w1)
      | (Inr a, cm1, w1) \<Rightarrow>
          (case authorizer cid session e of (reply, e1) \<Rightarrow>
             (case confirm_settle cid a reply cm1 of
                (Inl r, cm2) \<Rightarrow> (r, cm2, e1, w1)
              | (Inr d, cm2) \<Rightarrow>
                  (case confirm_finish pf cid (cn_action_proposal (cm_heap cm2 ! a)) d executor e1 of
                     (r, e2) \<Rightarrow> (r, cm2, e2, w1)))))"

definition cancel_pending ::
  "iso_reader \<Rightarrow> string \<Rightarrow> string \<Rightarrow> datetime option \<Rightarrow> confirm_manager \<Rightarrow> agent_world \<Rightarrow>
   confirm_result \<times> confirm_manager \<times> agent_world" where
  "cancel_pending fromiso cid session time cm w =
     (case claimable fromiso cid session time cm w of
        (Inl r, cm1, w1) \<Rightarrow> (r, cm1, w1)
      | (Inr a, cm1, w1) \<Rightarrow>
          (\<lparr>cr_status = ''cancelled'', cr_confirmation_id = cid, cr_state = CN_CANCELLED,
            cr_decision = None, cr_execution = None, cr_error = None\<rparr>,
           set_conf_state a CN_CANCELLED cm1, w1))"

section \<open>Interleaved calls\<close>

text \<open>Calls of several threads: a \<open>confirm\<close> that has claimed its record is in flight until the
  authorizer's answer is settled.  The executor is called when an ALLOW is settled.\<close>

datatype confirm_op =
    Register payload payload string
  | Begin nat string string bool "datetime option"
  | Settle nat auth_reply
  | CancelCall string string "datetime option"
  | ResetCancel "string option"

type_synonym confirm_run = "confirm_manager \<times> (nat \<times> string \<times> nat) list \<times> agent_world"

fun confirm_step :: "platform \<Rightarrow> iso_reader \<Rightarrow> confirm_op \<Rightarrow> confirm_run \<Rightarrow> confirm_run" where
  "confirm_step pf fromiso (Register d p t) (cm, fl, w) =
     (case register_pending pf d p t cm w of (_, cm1, w1) \<Rightarrow> (cm1, fl, w1))"
| "confirm_step pf fromiso (Begin thread cid session cancelled time) (cm, fl, w) =
     (if map_of fl thread \<noteq> None then (cm, fl, w)
      else case confirm_begin fromiso cid session cancelled time cm w of
        (Inl r, cm1, w1) \<Rightarrow> (cm1, fl, w1)
      | (Inr a, cm1, w1) \<Rightarrow> (cm1, (thread, cid, a) # fl, w1))"
| "confirm_step pf fromiso (Settle thread reply) (cm, fl, w) =
     (case map_of fl thread of
        None \<Rightarrow> (cm, fl, w)
      | Some (cid, a) \<Rightarrow> (snd (confirm_settle cid a reply cm), AList.delete thread fl, w))"
| "confirm_step pf fromiso (CancelCall cid session time) (cm, fl, w) =
     (case cancel_pending fromiso cid session time cm w of (_, cm1, w1) \<Rightarrow> (cm1, fl, w1))"
| "confirm_step pf fromiso (ResetCancel session) (cm, fl, w) =
     (snd (cancel_pending_for_reset session cm), fl, w)"

text \<open>The record for which the executor is called.\<close>

fun executes :: "platform \<Rightarrow> confirm_op \<Rightarrow> confirm_run \<Rightarrow> nat option" where
  "executes pf (Settle thread (Inr d)) (cm, fl, w) =
     (case map_of fl thread of
        Some (cid, a) \<Rightarrow> if outcome_text pf d = ''ALLOW'' then Some a else None
      | None \<Rightarrow> None)"
| "executes pf _ _ = None"

fun executions :: "platform \<Rightarrow> iso_reader \<Rightarrow> confirm_op list \<Rightarrow> confirm_run \<Rightarrow> nat list" where
  "executions pf fromiso [] s = []"
| "executions pf fromiso (x # xs) s =
     (case executes pf x s of None \<Rightarrow> [] | Some a \<Rightarrow> [a]) @ executions pf fromiso xs (confirm_step pf fromiso x s)"

section \<open>Invariant\<close>

definition conf_state :: "confirm_manager \<Rightarrow> nat \<Rightarrow> confirmation_state" where
  "conf_state cm a = cn_state (cm_heap cm ! a)"

definition flights_inv :: "confirm_run \<Rightarrow> bool" where
  "flights_inv s \<longleftrightarrow>
     (case s of (cm, fl, w) \<Rightarrow>
        (\<forall>a \<in> snd ` set (cm_pending cm). a < length (cm_heap cm)) \<and>
        (\<forall>(thread, cid, a) \<in> set fl. a < length (cm_heap cm) \<and> conf_state cm a = CN_CONFIRMED) \<and>
        distinct (map fst fl) \<and> distinct (map (snd \<circ> snd) fl))"

definition consumed_records :: "confirm_run \<Rightarrow> nat set" where
  "consumed_records s = (case s of (cm, fl, w) \<Rightarrow> {a. a < length (cm_heap cm) \<and> conf_state cm a = CN_CONSUMED})"

lemma set_conf_state_simps [simp]:
  "length (cm_heap (set_conf_state a st cm)) = length (cm_heap cm)"
  "cm_pending (set_conf_state a st cm) = cm_pending cm"
  "b < length (cm_heap cm) \<Longrightarrow> conf_state (set_conf_state a st cm) b = (if a = b then st else conf_state cm b)"
  by (auto simp: set_conf_state_def conf_state_def nth_list_update)

lemma set_conf_state_proposal [simp]:
  "cn_action_proposal (cm_heap (set_conf_state a st cm) ! b) = cn_action_proposal (cm_heap cm ! b)"
proof (cases "a = b \<and> a < length (cm_heap cm)")
  case False
  then show ?thesis
    by (cases "a < length (cm_heap cm)") (auto simp: set_conf_state_def list_update_beyond)
qed (simp add: set_conf_state_def)

text \<open>What every operation but the settling of an answer does: it adds pending records and moves
  pending ones on, and leaves every other record's state as it was.\<close>

definition touches :: "confirm_manager \<Rightarrow> confirm_manager \<Rightarrow> bool" where
  "touches cm cm' \<longleftrightarrow>
     length (cm_heap cm) \<le> length (cm_heap cm') \<and>
     (\<forall>b < length (cm_heap cm). conf_state cm b \<noteq> CN_PENDING \<longrightarrow> conf_state cm' b = conf_state cm b) \<and>
     (\<forall>b < length (cm_heap cm'). conf_state cm' b = CN_CONSUMED \<longrightarrow>
        b < length (cm_heap cm) \<and> conf_state cm b = CN_CONSUMED) \<and>
     (\<forall>a \<in> snd ` set (cm_pending cm'). a < length (cm_heap cm') \<or> a \<in> snd ` set (cm_pending cm))"

lemma touches_refl [simp]: "touches cm cm"
  by (auto simp: touches_def)

lemma touchesD:
  assumes "touches cm cm'"
  shows "length (cm_heap cm) \<le> length (cm_heap cm')"
    and "b < length (cm_heap cm) \<Longrightarrow> conf_state cm b \<noteq> CN_PENDING \<Longrightarrow> conf_state cm' b = conf_state cm b"
    and "b < length (cm_heap cm') \<Longrightarrow> conf_state cm' b = CN_CONSUMED \<Longrightarrow>
      b < length (cm_heap cm) \<and> conf_state cm b = CN_CONSUMED"
    and "b \<in> snd ` set (cm_pending cm') \<Longrightarrow> b < length (cm_heap cm') \<or> b \<in> snd ` set (cm_pending cm)"
  using assms unfolding touches_def by blast+

lemma touches_trans:
  assumes "touches cm cm1" "touches cm1 cm2"
  shows "touches cm cm2"
  unfolding touches_def
proof (intro conjI allI ballI impI)
  note one = touchesD [OF assms(1)] and two = touchesD [OF assms(2)]
  show "length (cm_heap cm) \<le> length (cm_heap cm2)" using one(1) two(1) by linarith
  fix b
  show "conf_state cm2 b = conf_state cm b" if "b < length (cm_heap cm)" "conf_state cm b \<noteq> CN_PENDING"
    using one(1) one(2) [of b] two(2) [of b] that by simp
  show "b < length (cm_heap cm)" if "b < length (cm_heap cm2)" "conf_state cm2 b = CN_CONSUMED"
    using two(3) [OF that] one(3) [of b] by simp
  show "conf_state cm b = CN_CONSUMED" if "b < length (cm_heap cm2)" "conf_state cm2 b = CN_CONSUMED"
    using two(3) [OF that] one(3) [of b] by simp
  show "b < length (cm_heap cm2) \<or> b \<in> snd ` set (cm_pending cm)" if "b \<in> snd ` set (cm_pending cm2)"
    using two(4) [OF that] one(4) [of b] two(1) by (meson order_less_le_trans)
qed

lemma touches_set:
  "conf_state cm a = CN_PENDING \<Longrightarrow> st \<noteq> CN_CONSUMED \<Longrightarrow> touches cm (set_conf_state a st cm)"
  by (auto simp: touches_def split: if_splits)

lemma register_touches:
  assumes "register_pending pf d p t cm w = (r, cm', w')"
  shows "touches cm cm'"
proof -
  have "touches cm (cm\<lparr>cm_heap := cm_heap cm @ [q], cm_pending := AList.update k (length (cm_heap cm)) (cm_pending cm)\<rparr>)"
    if "cn_state q = CN_PENDING" for q k
  proof -
    have "snd ` set (AList.update k v xs) \<subseteq> insert v (snd ` set xs)" for v :: nat and xs :: "(string \<times> nat) list"
      by (induction xs) auto
    then have "snd ` set (AList.update k (length (cm_heap cm)) (cm_pending cm)) \<subseteq>
        insert (length (cm_heap cm)) (snd ` set (cm_pending cm))" .
    then show ?thesis
      using that by (auto simp: touches_def conf_state_def nth_append less_Suc_eq split: if_splits)
  qed
  then show ?thesis
    using assms by (auto simp: register_pending_def Let_def split: pyval.splits option.splits prod.splits)
qed

lemma claimable_cases:
  assumes "claimable fromiso cid session time cm w = (x, cm', w')"
  obtains (refused) r where "x = Inl r" "cm' = cm"
  | (expired) r a where "x = Inl r" "map_of (cm_pending cm) cid = Some a" "conf_state cm a = CN_PENDING"
      "cm' = set_conf_state a CN_EXPIRED cm"
  | (claimed) a where "x = Inr a" "cm' = cm" "map_of (cm_pending cm) cid = Some a"
      "conf_state cm a = CN_PENDING" "\<not> other_session (cm_heap cm ! a) session"
      "\<not> fst (is_expired fromiso (cm_heap cm ! a) time w)"
proof (cases "map_of (cm_pending cm) cid")
  case None
  then have "x = Inl (AgentConfirm.refused ''failed'' cid CN_REJECTED ''CONFIRMATION_NOT_FOUND'')" "cm' = cm"
    using assms by (auto simp: claimable_def)
  then show thesis using refused by blast
next
  case (Some a)
  let ?p = "cm_heap cm ! a"
  show thesis
  proof (cases "other_session ?p session \<or> cn_state ?p \<noteq> CN_PENDING")
    case True
    then show thesis using assms Some refused by (auto simp: claimable_def Let_def split: if_splits)
  next
    case False
    obtain late w1 where e: "is_expired fromiso ?p time w = (late, w1)" by fastforce
    with False Some assms have "x = (if late then Inl (refused ''expired'' cid CN_EXPIRED ''CONFIRMATION_EXPIRED'') else Inr a)"
      "cm' = (if late then set_conf_state a CN_EXPIRED cm else cm)"
      by (auto simp: claimable_def Let_def split: bool.splits)
    with False Some e show thesis
      using expired [of _ a] claimed [of a] by (cases late) (auto simp: conf_state_def)
  qed
qed

lemma begin_cases:
  assumes "confirm_begin fromiso cid session cancelled time cm w = (x, cm', w')"
  obtains (refused) r where "x = Inl r" "touches cm cm'"
  | (claimed) a where "x = Inr a" "\<not> cancelled" "map_of (cm_pending cm) cid = Some a"
      "conf_state cm a = CN_PENDING" "\<not> other_session (cm_heap cm ! a) session"
      "\<not> fst (is_expired fromiso (cm_heap cm ! a) time w)" "cm' = set_conf_state a CN_CONFIRMED cm"
proof -
  obtain y cm1 w1 where c: "claimable fromiso cid session time cm w = (y, cm1, w1)" by (metis prod.collapse)
  from c show thesis
  proof (cases rule: claimable_cases)
    case (expired r a)
    with touches_set [OF expired(3), of CN_EXPIRED] assms c refused show thesis
      by (auto simp: confirm_begin_def)
  next
    case (claimed a)
    with assms c refused that(2) show thesis by (auto simp: confirm_begin_def split: if_splits)
  qed (use assms c refused in \<open>auto simp: confirm_begin_def\<close>)
qed

lemma cancel_touches:
  assumes "cancel_pending fromiso cid session time cm w = (r, cm', w')"
  shows "touches cm cm'"
proof -
  obtain y cm1 w1 where c: "claimable fromiso cid session time cm w = (y, cm1, w1)" by (metis prod.collapse)
  from c show ?thesis
    by (cases rule: claimable_cases)
       (use assms c touches_set [where st = CN_EXPIRED] touches_set [where st = CN_CANCELLED] in
          \<open>auto simp: cancel_pending_def\<close>)
qed

lemma foldl_cancel_touches:
  "\<forall>a \<in> set as. conf_state cm a \<in> {CN_PENDING, CN_CANCELLED} \<and> a < length (cm_heap cm) \<Longrightarrow>
   touches cm (foldl (\<lambda>c a. set_conf_state a CN_CANCELLED c) cm as)"
proof (induction as arbitrary: cm)
  case (Cons a as)
  have "touches cm (set_conf_state a CN_CANCELLED cm)"
    using Cons.prems by (auto simp: touches_def split: if_splits)
  moreover have "touches (set_conf_state a CN_CANCELLED cm) (foldl (\<lambda>c a. set_conf_state a CN_CANCELLED c) cm (a # as))"
    using Cons.IH [of "set_conf_state a CN_CANCELLED cm"] Cons.prems by auto
  ultimately show ?case by (rule touches_trans)
qed simp

lemma reset_touches:
  assumes "\<forall>a \<in> snd ` set (cm_pending cm). a < length (cm_heap cm)"
  shows "touches cm (snd (cancel_pending_for_reset session cm))"
  using assms
  by (auto simp: cancel_pending_for_reset_def Let_def conf_state_def cancels_on_reset_def
      intro!: foldl_cancel_touches)

lemma touches_inv:
  assumes "flights_inv (cm, fl, w)" "touches cm cm'"
  shows "flights_inv (cm', fl, w')" and "consumed_records (cm', fl, w') = consumed_records (cm, fl, w)"
proof -
  have "a < length (cm_heap cm') \<and> conf_state cm' a = CN_CONFIRMED" if "(thread, cid, a) \<in> set fl" for thread cid a
  proof -
    have "a < length (cm_heap cm)" "conf_state cm a = CN_CONFIRMED" using assms(1) that by (auto simp: flights_inv_def)
    then show ?thesis using assms(2) unfolding touches_def by auto
  qed
  then show "flights_inv (cm', fl, w')"
    using assms unfolding flights_inv_def touches_def by fastforce
  have "a < length (cm_heap cm') \<and> conf_state cm' a = CN_CONSUMED"
    if "a < length (cm_heap cm)" "conf_state cm a = CN_CONSUMED" for a
    using that assms(2) unfolding touches_def by auto
  then show "consumed_records (cm', fl, w') = consumed_records (cm, fl, w)"
    using assms(2) unfolding consumed_records_def touches_def by auto
qed

text \<open>The two steps that touch a claimed record.\<close>

lemma claim_inv:
  assumes "flights_inv (cm, fl, w)" "a < length (cm_heap cm)" "conf_state cm a = CN_PENDING" "map_of fl thread = None"
  shows "flights_inv (set_conf_state a CN_CONFIRMED cm, (thread, cid, a) # fl, w')"
    and "consumed_records (set_conf_state a CN_CONFIRMED cm, fl', w') = consumed_records (cm, fl, w)"
proof -
  have "b \<noteq> a" if "(i, c, b) \<in> set fl" for i c b using assms(1,3) that by (fastforce simp: flights_inv_def)
  then show "flights_inv (set_conf_state a CN_CONFIRMED cm, (thread, cid, a) # fl, w')"
    using assms by (auto simp: flights_inv_def map_of_eq_None_iff image_iff split: if_splits)
  show "consumed_records (set_conf_state a CN_CONFIRMED cm, fl', w') = consumed_records (cm, fl, w)"
    using assms(3) by (auto simp: consumed_records_def split: if_splits)
qed

lemma settle_inv:
  assumes "flights_inv (cm, fl, w)" "map_of fl thread = Some (cid, a)"
  shows "flights_inv (set_conf_state a st cm, AList.delete thread fl, w')"
    and "a < length (cm_heap cm)" "conf_state cm a = CN_CONFIRMED"
proof -
  have mem: "(thread, cid, a) \<in> set fl" using assms(2) by (rule map_of_SomeD)
  with assms(1) show a: "a < length (cm_heap cm)" "conf_state cm a = CN_CONFIRMED"
    by (auto simp: flights_inv_def)
  have sub: "set (AList.delete thread fl) = {x \<in> set fl. fst x \<noteq> thread}"
    by (auto simp: AList.delete_eq)
  have "b \<noteq> a" if "(i, c, b) \<in> set fl" "i \<noteq> thread" for i c b
  proof
    assume "b = a"
    have "inj_on (snd \<circ> snd) (set fl)" using assms(1) by (auto simp: flights_inv_def distinct_map)
    from inj_onD [OF this _ that(1) mem] \<open>b = a\<close> have "(i, c, b) = (thread, cid, a)" by simp
    with that(2) show False by simp
  qed
  then have "\<forall>(i, c, b) \<in> set (AList.delete thread fl).
      b < length (cm_heap cm) \<and> conf_state (set_conf_state a st cm) b = CN_CONFIRMED"
    using assms(1) unfolding sub by (fastforce simp: flights_inv_def)
  moreover have "distinct (map fst (AList.delete thread fl))" "distinct (map (snd \<circ> snd) (AList.delete thread fl))"
    using assms(1) by (auto simp: flights_inv_def AList.delete_eq distinct_map_filter)
  ultimately show "flights_inv (set_conf_state a st cm, AList.delete thread fl, w')"
    using assms(1) by (simp add: flights_inv_def)
qed


lemma pending_in_range:
  "flights_inv (cm, fl, w) \<Longrightarrow> map_of (cm_pending cm) cid = Some a \<Longrightarrow> a < length (cm_heap cm)"
  by (force simp: flights_inv_def dest: map_of_SomeD)

lemma step_confirm_inv:
  assumes "flights_inv s"
  shows "flights_inv (confirm_step pf fromiso x s)"
    and "consumed_records s \<subseteq> consumed_records (confirm_step pf fromiso x s)"
proof -
  obtain cm fl w where s: "s = (cm, fl, w)" using prod_cases3 by blast
  note inv = assms [unfolded s]
  have kept: "flights_inv (cm', fl, w') \<and> consumed_records s \<subseteq> consumed_records (cm', fl, w')"
    if "touches cm cm'" for cm' w'
    using touches_inv [OF inv that] s by simp
  have "flights_inv (confirm_step pf fromiso x s) \<and> consumed_records s \<subseteq> consumed_records (confirm_step pf fromiso x s)"
  proof (cases x)
    case (Register d p t)
    then show ?thesis using kept register_touches by (auto simp: s split: prod.splits)
  next
    case (Begin thread cid session cancelled time)
    show ?thesis
    proof (cases "map_of fl thread")
      case None
      obtain y cm1 w1 where b: "confirm_begin fromiso cid session cancelled time cm w = (y, cm1, w1)"
        by (metis prod.collapse)
      from b show ?thesis
      proof (cases rule: begin_cases)
        case (refused r)
        then show ?thesis using kept [of cm1 w1] Begin None b by (auto simp: s)
      next
        case (claimed a)
        from claim_inv [OF inv pending_in_range [OF inv claimed(3)] claimed(4) None] claimed Begin None b
        show ?thesis by (simp add: s)
      qed
    qed (use Begin kept [of cm w] in \<open>simp add: s\<close>)
  next
    case (Settle thread reply)
    show ?thesis
    proof (cases "map_of fl thread")
      case (Some ca)
      obtain cid a where ca: "ca = (cid, a)" by fastforce
      note settled = settle_inv [OF inv Some [unfolded ca]]
      have "consumed_records s \<subseteq> consumed_records (set_conf_state a st cm, fl', w')" for st fl' w'
        using settled(2,3) by (auto simp: s consumed_records_def)
      with settled(1) Settle Some ca show ?thesis
        by (auto simp: s confirm_settle_def split: sum.splits)
    qed (use Settle kept [of cm w] in \<open>simp add: s\<close>)
  next
    case (CancelCall cid session time)
    then show ?thesis using kept cancel_touches by (auto simp: s split: prod.splits)
  next
    case (ResetCancel session)
    have "\<forall>a \<in> snd ` set (cm_pending cm). a < length (cm_heap cm)" using inv by (simp add: flights_inv_def)
    from kept [OF reset_touches [OF this]] ResetCancel show ?thesis by (simp add: s)
  qed
  then show "flights_inv (confirm_step pf fromiso x s)"
    "consumed_records s \<subseteq> consumed_records (confirm_step pf fromiso x s)" by blast+
qed

lemma executes_consumes:
  assumes "flights_inv s" "executes pf x s = Some a"
  shows "a \<notin> consumed_records s" and "a \<in> consumed_records (confirm_step pf fromiso x s)"
proof -
  obtain cm fl w where s: "s = (cm, fl, w)" using prod_cases3 by blast
  obtain thread d cid where x: "x = Settle thread (Inr d)" and m: "map_of fl thread = Some (cid, a)"
    using assms(2) by (cases "(pf, x, s)" rule: executes.cases) (auto simp: s split: option.splits if_splits)
  note settled = settle_inv [OF assms(1) [unfolded s] m]
  then show "a \<notin> consumed_records s" by (simp add: s consumed_records_def)
  show "a \<in> consumed_records (confirm_step pf fromiso x s)"
    using settled(2) by (simp add: s x m confirm_settle_def consumed_records_def)
qed

interpretation confirmed: single_use_tokens
  flights_inv consumed_records "confirm_step pf fromiso" "executes pf" for pf fromiso
proof
  fix x :: confirm_op and s :: confirm_run and i :: nat
  show "flights_inv (confirm_step pf fromiso x s)" if "flights_inv s" using step_confirm_inv(1) [OF that] .
  show "i \<notin> consumed_records s" if "flights_inv s" "executes pf x s = Some i"
    using executes_consumes(1) [OF that] .
  show "consumed_records s \<subseteq> consumed_records (confirm_step pf fromiso x s)" if "flights_inv s"
    using step_confirm_inv(2) [OF that] .
  show "i \<in> consumed_records (confirm_step pf fromiso x s)" if "flights_inv s" "executes pf x s = Some i"
    using executes_consumes(2) [OF that] .
qed


section \<open>Properties\<close>

lemma executions_granted: "executions pf fromiso xs s = confirmed.granted pf fromiso xs s"
  by (induction xs arbitrary: s) simp_all

lemma new_manager_inv: "flights_inv (ConfirmationManager, [], w)"
  by (simp add: flights_inv_def ConfirmationManager_def)

text \<open>A typed error answer of the guardrail is no exception to the client: it has no outcome, so
  the record is consumed and the driver is told to confirm again.\<close>

lemma error_reply_consumes:
  assumes "confirm_begin fromiso cid session False time cm w = (Inr a, cm1, w1)"
    and "authorizer cid session e = (Inr d, e1)" "get_key d ''outcome'' = PNone"
  shows "confirm_pending pf fromiso cid session authorizer executor False time cm e w =
    (consumed_result ''needs_confirmation'' cid d None None, set_conf_state a CN_CONSUMED cm1, e1, w1)"
  using assms
  by (simp add: confirm_pending_def confirm_settle_def confirm_finish_def outcome_text_def prefix_of_def)

text \<open>An expiry that cannot be read, or that has no time zone, never expires.\<close>

lemma unreadable_never_expires:
  "(case fromiso (replace_str ''Z'' ''+00:00'' (cn_expires_at p)) of None \<Rightarrow> True | Some d \<Rightarrow> dt_offset d = None) \<Longrightarrow>
   \<not> fst (is_expired fromiso p time w)"
  by (auto simp: is_expired_def split: option.splits prod.splits)

definition lock_decision :: payload where
  "lock_decision =
     [(''session_id'', PStr ''s1''),
      (''confirmation'', PDict [(''confirmation_id'', PStr ''c1''), (''proposal_id'', PStr ''p1''),
        (''expires_at'', PStr ''aaaa'')])]"

text \<open>A manager with one pending confirmation of session \<open>s1\<close>.\<close>

definition one_pending :: confirm_manager where
  "one_pending = fst (snd (register_pending \<lparr>pf_sha256 = id, pf_float = (\<lambda>_. []), pf_iso = (\<lambda>_. [])\<rparr>
     lock_decision [(''tool'', PStr ''control_door'')] ''t1'' ConfirmationManager (fixed_world 0)))"

definition allow_reply :: "string \<Rightarrow> string \<Rightarrow> nat \<Rightarrow> auth_reply \<times> nat" where
  "allow_reply cid session e = (Inr [(''outcome'', PStr ''ALLOW'')], e)"

definition count_executor :: "nat executor" where
  "count_executor proposal d e = (Inr (PDict [(''success'', PBool True)]), Suc e)"

text \<open>C18.  A confirmed action is executed at most once.  However the calls of any number of threads interleave (registrations, claims, answers of the authorizer, cancellations, resets), and whatever the authorizer answers, the executor is called at most once for each registered confirmation.\<close>

theorem confirmation_executes_once:
  "distinct (executions pf fromiso xs (ConfirmationManager, [], w))"
  unfolding executions_granted by (rule confirmed.granted_once [OF new_manager_inv])

text \<open>C19.  The executor is called only on a fresh ALLOW.  Either the record is pending, belongs to the caller's session (or to none: its session is empty or the word unknown, which any session may confirm), has not expired, the call is not cancelled and the authorizer has just answered ALLOW, and then the executor gets the registered proposal with that answer; or the executor is not called at all, so the outcome is the same with any other executor and without one.\<close>

theorem executor_needs_fresh_allow:
  fixes executor :: "'e executor"
  assumes "confirm_pending pf fromiso cid session authorizer (Some executor) cancelled time cm e w = (r, cm', e', w')"
  shows "(\<exists>a p d e1. map_of (cm_pending cm) cid = Some a \<and> p = cm_heap cm ! a \<and> cn_state p = CN_PENDING \<and>
      \<not> other_session p session \<and> \<not> fst (is_expired fromiso p time w) \<and> \<not> cancelled \<and>
      authorizer cid session e = (Inr d, e1) \<and> outcome_text pf d = ''ALLOW'' \<and>
      e' = snd (executor (cn_action_proposal p) d e1)) \<or>
    (\<forall>other. confirm_pending pf fromiso cid session authorizer other cancelled time cm e w = (r, cm', e', w'))"
proof -
  obtain x cm1 w1 where b: "confirm_begin fromiso cid session cancelled time cm w = (x, cm1, w1)"
    by (metis prod.collapse)
  from b show ?thesis
  proof (cases rule: begin_cases)
    case (refused rr)
    then have "confirm_pending pf fromiso cid session authorizer other cancelled time cm e w = (r, cm', e', w')" for other
      using assms b by (simp add: confirm_pending_def)
    then show ?thesis by blast
  next
    case (claimed a)
    obtain reply e1 where au: "authorizer cid session e = (reply, e1)" by fastforce
    show ?thesis
    proof (cases "\<exists>d. reply = Inr d \<and> outcome_text pf d = ''ALLOW''")
      case True
      then obtain d where d: "reply = Inr d" "outcome_text pf d = ''ALLOW''" by blast
      have "cn_action_proposal (cm_heap (set_conf_state a CN_CONSUMED cm1) ! a) = cn_action_proposal (cm_heap cm ! a)"
        by (simp add: claimed(7))
      then have "e' = snd (executor (cn_action_proposal (cm_heap cm ! a)) d e1)"
        using assms b claimed(1) au d
        by (auto simp: confirm_pending_def confirm_settle_def confirm_finish_def split: prod.splits sum.splits pyval.splits)
      then show ?thesis using claimed(2-6) au d unfolding conf_state_def by blast
    next
      case False
      then have "confirm_pending pf fromiso cid session authorizer other cancelled time cm e w = (r, cm', e', w')" for other
        using assms b claimed(1) au
        by (cases reply) (auto simp: confirm_pending_def confirm_settle_def confirm_finish_def)
      then show ?thesis by blast
    qed
  qed
qed


theorem executor_needs_fresh_allow_witness:
  "\<exists>a. map_of (cm_pending one_pending) ''c1'' = Some a \<and> cn_session_id (cm_heap one_pending ! a) = ''s1'' \<and>
     fst (snd (snd (confirm_pending \<lparr>pf_sha256 = id, pf_float = (\<lambda>_. []), pf_iso = (\<lambda>_. [])\<rparr> (\<lambda>_. None) ''c1'' ''s1''
       allow_reply (Some count_executor) False None one_pending 0 (fixed_world 0)))) = 1"
proof -
  let ?pf = "\<lparr>pf_sha256 = id, pf_float = (\<lambda>_. []), pf_iso = (\<lambda>_. [])\<rparr> :: platform"
  let ?run = "\<lambda>ex. confirm_pending ?pf (\<lambda>_. None) ''c1'' ''s1'' allow_reply ex False None one_pending 0 (fixed_world 0)"
  obtain r cm' e' w' where run: "?run (Some count_executor) = (r, cm', e', w')" by (metis prod.collapse)
  have one: "fst (snd (snd (?run (Some count_executor)))) = 1" and none: "fst (snd (snd (?run None))) = 0"
    by code_simp+
  have p: "cn_session_id (the (get_pending ''c1'' one_pending)) = ''s1''" by code_simp
  from executor_needs_fresh_allow [OF run] have "\<exists>a. map_of (cm_pending one_pending) ''c1'' = Some a"
  proof
    assume "\<forall>other. ?run other = (r, cm', e', w')"
    then have "?run None = ?run (Some count_executor)" using run by simp
    with one none show ?thesis by simp
  qed blast
  with one p show ?thesis by (auto simp: get_pending_def)
qed

end
