(* ===== verification/CrossService.thy ===== *)
theory CrossService
  imports GatewaySafety ServiceRuns
begin

text \<open>
  The guardrail and the agent together.  What the one sends is what the other checks: the
  validation and the digest of a proposal agree, an answer of the guardrail that carries a permit
  passes the agent's contract and runs its handler within the lifetime of the permit, and the
  state snapshot the agent sends for monitoring is one the guardrail refuses.
\<close>

section \<open>Proposals\<close>

lemma identifier_agree: "is_identifier v = agent_identifier v"
  by (cases v) simp_all

lemma get_key_map_of: "get_key p k = (case map_of p k of None \<Rightarrow> PNone | Some v \<Rightarrow> v)"
  by (simp add: get_key_def split: option.split)

lemma get_or_None_get_key: "get_or_None p k = get_key p k"
  by (simp add: get_or_None_def get_key_map_of)

lemma sort_filter_empty: "sort (filter P xs) = [] \<longleftrightarrow> (\<forall>x \<in> set xs. \<not> P x)"
  by (metis filter_empty_conv set_empty set_sort)

lemma guardrail_accepts_iff:
  "validate_action_proposal pf p = None \<longleftrightarrow>
     map_of p ''contract_version'' = Some (PStr CONTRACT_VERSION) \<and>
     set PROPOSAL_FIELDS = fst ` set p \<and> (\<exists>a. map_of p ''arguments'' = Some (PDict a)) \<and>
     (\<forall>f \<in> {''proposal_id'', ''session_id'', ''source_turn_id'', ''tool'', ''model_provider'', ''model_id''}.
        is_identifier (the (map_of p f)))"
proof -
  have 1: "require_contract_version pf p = None \<longleftrightarrow> map_of p ''contract_version'' = Some (PStr CONTRACT_VERSION)"
    by (auto simp: require_contract_version_def Let_def split: option.splits)
  have 2: "sort (filter (\<lambda>f. f \<notin> fst ` set p) PROPOSAL_FIELDS) = [] \<and>
      sort (remdups (filter (\<lambda>f. f \<notin> set PROPOSAL_FIELDS) (map fst p))) = [] \<longleftrightarrow>
      set PROPOSAL_FIELDS = fst ` set p"
    by (simp add: sort_filter_empty remdups_filter) auto
  show ?thesis
    unfolding validate_action_proposal_def Let_def 1 [symmetric] 2 [symmetric]
    by (auto simp: check_identifier_def split: option.splits pyval.splits if_splits)
qed

lemma required_fields: "set PROPOSAL_FIELDS = set AGENT_PROPOSAL_FIELDS"
  by code_simp

lemma key_present: "set AGENT_PROPOSAL_FIELDS = fst ` set p \<Longrightarrow> f \<in> set AGENT_PROPOSAL_FIELDS \<Longrightarrow>
    map_of p f = Some (get_key p f)"
  by (auto simp: get_key_map_of map_of_eq_None_iff split: option.split)

lemma identifier_fields:
  "{''proposal_id'', ''session_id'', ''source_turn_id'', ''tool'', ''model_provider'', ''model_id''}
     \<subseteq> set AGENT_PROPOSAL_FIELDS"
  by code_simp

lemma conj_agree: "(A \<longleftrightarrow> A') \<Longrightarrow> (B \<longleftrightarrow> B') \<Longrightarrow> (K \<Longrightarrow> C \<longleftrightarrow> C') \<Longrightarrow> A \<and> K \<and> B \<and> C \<longleftrightarrow> A' \<and> K \<and> B' \<and> C'"
  by blast

lemma validation_agrees: "validate_action_proposal pf p = None \<longleftrightarrow> agent_proposal_error p = None"
proof -
  have args: "(\<exists>a. map_of p ''arguments'' = Some (PDict a)) \<longleftrightarrow> is_dict (get_key p ''arguments'')"
    by (auto simp: get_key_map_of split: option.split pyval.split elim: is_dict.elims)
  have version: "map_of p ''contract_version'' = Some (PStr CONTRACT_VERSION) \<longleftrightarrow>
      get_key p ''contract_version'' = PStr AGENT_CONTRACT_VERSION"
    by (auto simp: get_key_map_of CONTRACT_VERSION_def AGENT_CONTRACT_VERSION_def split: option.split)
  have ids: "set AGENT_PROPOSAL_FIELDS = fst ` set p \<Longrightarrow>
    (\<forall>f \<in> {''proposal_id'', ''session_id'', ''source_turn_id'', ''tool'', ''model_provider'', ''model_id''}.
      is_identifier (the (map_of p f))) \<longleftrightarrow>
    (\<forall>f \<in> {''proposal_id'', ''session_id'', ''source_turn_id'', ''tool'', ''model_provider'', ''model_id''}.
      agent_identifier (get_key p f))"
  proof (rule ball_cong [OF refl])
    fix f
    assume k: "set AGENT_PROPOSAL_FIELDS = fst ` set p"
      and "f \<in> {''proposal_id'', ''session_id'', ''source_turn_id'', ''tool'', ''model_provider'', ''model_id''}"
    from subsetD [OF identifier_fields this(2)] have "f \<in> set AGENT_PROPOSAL_FIELDS" .
    from key_present [OF k this] show "is_identifier (the (map_of p f)) = agent_identifier (get_key p f)"
      by (simp add: identifier_agree)
  qed
  show ?thesis
    unfolding guardrail_accepts_iff proposal_accepted_iff required_fields
    by (rule conj_agree [OF version args ids])
qed

definition projected_fields :: "string list" where
  "projected_fields =
     [''arguments'', ''contract_version'', ''proposal_id'', ''session_id'', ''source_turn_id'', ''tool'']"

lemma projections_agree:
  assumes "agent_proposal_error p = None"
  shows "proposal_projection p = agent_projection p"
proof -
  have k: "set AGENT_PROPOSAL_FIELDS = fst ` set p" using assms by (simp add: proposal_accepted_iff)
  have sub: "set projected_fields \<subseteq> set AGENT_PROPOSAL_FIELDS" by code_simp
  have "proposal_projection p = map (\<lambda>f. (f, the (map_of p f))) projected_fields"
    by (simp add: proposal_projection_def projected_fields_def)
  also have "\<dots> = map (\<lambda>f. (f, get_key p f)) projected_fields"
    using key_present [OF k] sub by (intro map_cong refl) force
  also have "\<dots> = agent_projection p"
    by (simp add: agent_projection_def projected_fields_def)
  finally show ?thesis .
qed

text \<open>C20. Both services accept the same proposals and bind them by the same digest: a proposal
  passes the guardrail's validation exactly when it passes the agent's, and the digest the guardrail
  writes into a permit is exactly the digest the agent's verifier recomputes.\<close>

theorem services_agree_on_proposals:
  "(validate_action_proposal pf p = None \<longleftrightarrow> agent_proposal_error p = None) \<and>
   (\<forall>d. proposal_digest pf p = Inr d \<longleftrightarrow> agent_digest pf p = Inr d)"
proof (cases "agent_proposal_error p")
  case None
  then have "validate_action_proposal pf p = None" by (simp add: validation_agrees)
  with None show ?thesis
    by (simp add: proposal_digest_def agent_digest_def sha256_projection_def projections_agree split: option.split)
next
  case (Some e)
  then have "validate_action_proposal pf p \<noteq> None" by (simp add: validation_agrees)
  with Some show ?thesis by (auto simp: proposal_digest_def agent_digest_def)
qed

section \<open>Permits\<close>

text \<open>An answer with a permit as the guardrail writes it.\<close>

definition wire_allow :: "platform \<Rightarrow> payload \<Rightarrow> int \<Rightarrow> payload \<Rightarrow> pyval \<Rightarrow> bool" where
  "wire_allow pf p st b v \<longleftrightarrow>
     (\<exists>rid it rl ver chk rc rel pid dg t.
        proposal_digest pf p = Inr dg \<and> is_digest chk \<and>
        v = PDict (permit_fields pf pid dg it rl ver chk t) \<and>
        b = decision_fields rid (proposal_id_of p) it ''ALLOW'' rl ver chk rc rel @ [(''permit'', v)])"

lemma wire_allow_decided:
  assumes "fst (decide_body pf rid p it out rl ver rc rel ans conf sv) = Inr b"
  shows "holds (wire_allow pf p) (Inr (st, b))"
proof (cases out)
  case None
  with assms show ?thesis by (simp add: decide_body_def)
next
  case (Some x)
  with assms obtain w where
    e: "decision_envelope pf rid p it x rl ver (rs_policy_checksum (sv_rules sv)) rc rel ans conf
         (sv_world sv) = (Inr b, w)"
    by (auto simp: decide_body_def Let_def case_prod_beta prod_eq_iff)
  note chk = decision_envelope_ok(3) [OF e]
  from e show ?thesis
  proof (cases rule: decision_envelope_cases)
    case (allow rid' permit_id digest issued_at)
    then show ?thesis
      using chk by (fastforce simp: holds_def wire_allow_def envelope_lookup answer_field_def split: option.split)
  qed (simp_all add: holds_def envelope_lookup)
qed

lemma holds_wire_allow: "holds (wire_allow pf p) (fst (evaluate_action pf p rid sv))"
  unfolding evaluate_action_def Let_def case_prod_beta
  by (intro holds_intros; (erule wire_allow_decided)?)

lemma holds_wire_dispatch: "holds (wire_allow pf p) (fst (dispatch pf ACTION_ROUTE p rid sv))"
  using holds_wire_allow by (auto simp: dispatch_def holds_error holds_exn split: option.split wire_exn.split)

lemma permit_wire_allow:
  assumes "handle pf ACTION_ROUTE (PDict p) sv = ((st, b), sv')" and "map_of b ''permit'' = Some v"
  shows "wire_allow pf p st b v"
proof -
  have "(st, b) = response_of (request_id_of p)
      (fst (dispatch pf ACTION_ROUTE p (request_id_of p) (begin_sv ACTION_ROUTE p sv)))"
    using assms(1) by (simp add: handle_PDict)
  with assms(2) have "fst (dispatch pf ACTION_ROUTE p (request_id_of p) (begin_sv ACTION_ROUTE p sv)) = Inr (st, b)"
    by (auto simp: response_of_def map_of_error_envelope split: sum.splits)
  with assms(2) holds_wire_dispatch [of pf p "request_id_of p" "begin_sv ACTION_ROUTE p sv"] show ?thesis
    by (simp add: holds_def)
qed

text \<open>The texts the platform gives: a digest is 64 lower-case hexadecimal digits, and
  \<open>fromisoformat\<close> reads what \<open>isoformat\<close> writes of an instant in UTC.\<close>

definition wire_platform :: "platform \<Rightarrow> iso_reader \<Rightarrow> bool" where
  "wire_platform pf fromiso \<longleftrightarrow>
     (\<forall>s. digest_text (PStr (''sha256:'' @ pf_sha256 pf s))) \<and>
     (\<forall>i. pf_iso pf i \<noteq> [] \<and> fromiso (replace_str ''Z'' ''+00:00'' (pf_iso pf i)) = Some (utc i))"

lemma digest_agree: "is_digest s = digest_text (PStr s)"
proof -
  have 1: "length ''sha256:'' = (7::nat)" by simp
  have 2: "length s = 71 \<longleftrightarrow> length s - 7 = 64" by arith
  show ?thesis unfolding is_digest_def digest_text.simps prefix_of_def 1 length_drop 2 ..
qed

lemma reason_identifier: "agent_identifier (PStr (reason_token rc))"
  by (auto simp: reason_token_def Let_def Suc_le_eq)

lemma map_of_permit_fields:
  "map_of (permit_fields pf pid dg it rl ver chk t) k =
     (if k = ''permit_id'' then Some (PStr pid)
      else if k = ''proposal_digest'' then Some (PStr dg)
      else if k = ''intent'' then Some (PStr it)
      else if k = ''rule_id'' then Some (PStr rl)
      else if k = ''state_version'' then Some (PInt ver)
      else if k = ''policy_checksum'' then Some (PStr chk)
      else if k = ''issued_at'' then Some (PStr (pf_iso pf t))
      else if k = ''expires_at'' then Some (PStr (pf_iso pf (t + PERMIT_TTL)))
      else if k = ''single_use'' then Some (PBool True) else None)"
  by (simp add: permit_fields_def)

lemma digest_of_platform:
  "wire_platform pf fromiso \<Longrightarrow> proposal_digest pf p = Inr dg \<Longrightarrow> digest_text (PStr dg)"
  by (auto simp: wire_platform_def proposal_digest_def sha256_projection_def split: option.splits)

lemmas wire_lookup = envelope_lookup map_of_permit_fields get_key_map_of

lemma permit_keys: "map fst (permit_fields pf pid dg it rl ver chk t) = PERMIT_REQUIRED"
  by (simp add: permit_fields_def PERMIT_REQUIRED_def)

lemma permit_shape:
  "require_fields (permit_fields pf pid dg it rl ver chk t) PERMIT_REQUIRED = None"
  "reject_extra_fields (permit_fields pf pid dg it rl ver chk t) PERMIT_REQUIRED = None"
proof -
  have "set (map fst (permit_fields pf pid dg it rl ver chk t)) = set PERMIT_REQUIRED"
    unfolding permit_keys ..
  then show "require_fields (permit_fields pf pid dg it rl ver chk t) PERMIT_REQUIRED = None"
    by (simp add: require_fields_def list_all_iff has_key_iff)
  show "reject_extra_fields (permit_fields pf pid dg it rl ver chk t) PERMIT_REQUIRED = None"
    by (simp add: reject_extra_fields_def only_fields_def permit_keys list_all_iff)
qed

lemma decision_shape:
  assumes "b = decision_fields rid ppid it out rl ver chk rc rel @ [(''permit'', v)]"
  shows "require_fields b DECISION_REQUIRED = None"
    and "reject_extra_fields b (DECISION_REQUIRED @ DECISION_OPTIONAL) = None"
proof -
  have keys: "map fst b = DECISION_REQUIRED @ [''permit'']"
    by (simp add: assms decision_fields_def DECISION_REQUIRED_def)
  then have "fst ` set b = set (DECISION_REQUIRED @ [''permit''])" by (metis list.set_map)
  then show "require_fields b DECISION_REQUIRED = None"
    by (simp add: require_fields_def list_all_iff has_key_iff)
  show "reject_extra_fields b (DECISION_REQUIRED @ DECISION_OPTIONAL) = None"
    by (simp add: reject_extra_fields_def only_fields_def keys list_all_iff DECISION_OPTIONAL_def)
qed

lemma window_ok:
  assumes "wire_platform pf fromiso"
  shows "window_error fromiso (permit_fields pf pid dg it rl ver chk t) = None"
  using assms
  by (simp add: window_error_def parse_timestamp_def wire_lookup wire_platform_def PERMIT_TTL_def utc_def)

lemma permit_accepted:
  assumes "wire_platform pf fromiso" "digest_text (PStr dg)" "digest_text (PStr chk)"
    and "agent_identifier (PStr it)" "agent_identifier (PStr rl)" "agent_identifier (PStr pid)"
    and "b = decision_fields rid ppid it out rl ver chk rc rel @
      [(''permit'', PDict (permit_fields pf pid dg it rl ver chk t))]"
  shows "permit_error fromiso b = None"
  using assms(2-6) permit_shape [of pf pid dg it rl ver chk t] window_ok [OF assms(1), of pid dg it rl ver chk t]
  by (simp add: permit_error_def assms(7) wire_lookup BOUND_FIELDS_def require_identifier_def require_digest_def
      del: agent_identifier.simps digest_text.simps)

lemma decision_accepted:
  assumes "digest_text (PStr chk)" "agent_identifier (PStr rid)" "agent_identifier (PStr ppid)"
    and "agent_identifier (PStr it)" "agent_identifier (PStr rl)"
    and b: "b = decision_fields rid ppid it ''ALLOW'' rl ver chk rc rel @ [(''permit'', v)]"
    and "permit_error fromiso b = None"
  shows "validate_guardrail_result fromiso b = None"
proof -
  have out: "outcome_error (PStr ''ALLOW'') = None" "PStr ''ALLOW'' \<notin> PStr ` set NON_EXECUTABLE_OUTCOMES"
    by code_simp+
  have get: "get_key b ''contract_version'' = PStr CONTRACT_VERSION" "get_key b ''kind'' = PStr ''decision''"
    "get_key b ''request_id'' = PStr rid" "get_key b ''proposal_id'' = PStr ppid" "get_key b ''intent'' = PStr it"
    "get_key b ''outcome'' = PStr ''ALLOW''" "get_key b ''rule_id'' = PStr rl" "get_key b ''state_version'' = PInt ver"
    "get_key b ''policy_checksum'' = PStr chk" "get_key b ''reason_code'' = PStr (reason_token rc)"
    "get_key b ''relevant_state'' = PDict rel"
    by (simp_all add: b wire_lookup)
  have "require_version b = None"
    by (simp add: require_version_def get CONTRACT_VERSION_def AGENT_CONTRACT_VERSION_def)
  moreover have "decision_result_error fromiso b = None"
    using assms(1-5,7) decision_shape [OF b] reason_identifier [of rc]
    by (simp add: decision_result_error_def get out require_identifier_def require_digest_def
        del: agent_identifier.simps digest_text.simps)
  ultimately show ?thesis by (simp add: validate_guardrail_result_def get)
qed

text \<open>What passes the checks reaches its handler.\<close>

lemma authorize_complete:
  assumes "extract_permit eid v = Inr (decision, PDict perm)"
    and "permit_good pf fromiso proposal perm (clock_at t w) (gw_store gw)" "decision_good decision perm"
    and "get_key perm ''permit_id'' = PStr pid" "find_handler gw proposal perm = Inr (Some h)"
  shows "fst (authorize pf fromiso proposal v False t eid gw w) = Authorised pid h"
proof -
  obtain w1 where ver: "verify pf fromiso proposal (PDict perm) decision t (gw_store gw) w = (None, w1)"
    using verify_ok [of pf fromiso proposal "PDict perm" decision t "gw_store gw" w] assms(2,3)
    by (metis dict_of.simps(1) is_dict.simps(1) prod.collapse)
  have pid: "pid \<noteq> []" "\<not> is_used pid (gw_store gw)"
    using assms(2,4) by (auto simp: permit_good_def)
  then have used: "mark_used pid (gw_store gw) =
      Inr ((gw_store gw)\<lparr>ps_consumed := pid # ps_consumed (gw_store gw)\<rparr>)"
    by (simp add: mark_used_Inr)
  have "find_handler (gw\<lparr>gw_store := ps\<rparr>) proposal perm = find_handler gw proposal perm" for ps
  proof -
    have g: "gw_handlers (gw\<lparr>gw_store := ps\<rparr>) = gw_handlers gw" by simp
    show ?thesis unfolding find_handler_def g ..
  qed
  then show ?thesis by (simp add: authorize_def assms(1,4,5) ver used)
qed

lemma permit_good_wire:
  assumes "wire_platform pf fromiso" "agent_proposal_error p = None" "agent_digest pf p = Inr dg"
    and "pid \<noteq> []" "\<not> is_used pid ps" "get_key p ''session_id'' = PStr s" "\<not> is_revoked s (utc t) ps"
    and "t \<le> i" "i \<le> t + PERMIT_TTL"
  shows "permit_good pf fromiso p (permit_fields pf pid dg it rl ver chk t) i ps"
proof -
  have "read_instant fromiso (PStr (pf_iso pf u)) = Some (utc u)" for u
    using assms(1) by (simp add: read_instant_def parse_iso_timestamp_def wire_platform_def utc_def)
  moreover have "list_all (has_key (permit_fields pf pid dg it rl ver chk t)) PERMIT_REQUIRED"
    using permit_shape(1) [of pf pid dg it rl ver chk t] by (simp add: require_fields_def)
  moreover have "s \<noteq> []"
  proof -
    have "agent_identifier (get_key p ''session_id'')" using assms(2) unfolding proposal_accepted_iff by blast
    then show ?thesis by (simp add: assms(6) Suc_le_eq)
  qed
  ultimately show ?thesis
    using assms by (simp add: permit_good_def wire_lookup utc_def PERMIT_TTL_def)
qed

lemma accepted_ids:
  assumes "proposal_digest pf p = Inr dg"
  shows "agent_proposal_error p = None" "agent_digest pf p = Inr dg" "agent_identifier (PStr (proposal_id_of p))"
proof -
  have v: "validate_action_proposal pf p = None"
    using assms by (auto simp: proposal_digest_def split: option.splits)
  then show ok: "agent_proposal_error p = None" by (simp add: validation_agrees)
  from assms v ok show "agent_digest pf p = Inr dg"
    by (simp add: proposal_digest_def agent_digest_def sha256_projection_def projections_agree split: option.splits)
  have "agent_identifier (get_key p ''proposal_id'')" using ok unfolding proposal_accepted_iff by blast
  then show "agent_identifier (PStr (proposal_id_of p))"
    by (auto simp: agent_identifier_iff proposal_id_of_def get_key_map_of split: option.splits)
qed

lemma iso_inj:
  assumes "wire_platform pf fromiso" "pf_iso pf t = pf_iso pf u"
  shows "t = u"
proof -
  have "Some (utc t) = Some (utc u)" using assms by (metis wire_platform_def)
  then show ?thesis by (simp add: utc_def)
qed

text \<open>C21. What the guardrail allows, the agent can execute.  An answer of the guardrail that
  carries a permit passes the agent's contract, and from the instant the permit was issued until its
  lifetime ends the gateway runs the handler for the very proposal that was evaluated, provided the
  permit is unused and no reset has revoked it.  Identifiers are within the wire limit of 128
  characters, and the platform writes digests and instants the agent can read.\<close>

theorem guardrail_permit_executes:
  assumes "handle (platform.truncate pf) ACTION_ROUTE (PDict p) sv = ((st, b), sv')"
    and "get_key b ''permit'' = PDict perm" and "wire_platform (platform.truncate pf) fromiso"
    and "\<forall>f \<in> {''request_id'', ''intent'', ''rule_id''}. agent_identifier (get_key b f)"
    and "get_key perm ''permit_id'' = PStr pid" and "agent_identifier (PStr pid)"
    and "get_key perm ''issued_at'' = PStr (pf_iso pf t)" and "t \<le> i" and "i \<le> t + PERMIT_TTL"
    and "\<not> is_used pid (gw_store gw)" and "get_key p ''session_id'' = PStr s"
    and "\<not> is_revoked s (utc t) (gw_store gw)" and "find_handler gw p perm = Inr (Some h)"
  shows "validate_guardrail_result fromiso b = None \<and>
    gate_of pf fromiso p (PDict b) False (Some (utc i)) gw w = Authorised pid h"
proof -
  let ?pf = "platform.truncate pf"
  have "map_of b ''permit'' = Some (PDict perm)"
    using assms(2) by (simp add: get_key_map_of split: option.splits)
  from permit_wire_allow [OF assms(1) this] obtain rid it rl ver chk rc rel pid' dg t'
    where dg: "proposal_digest ?pf p = Inr dg" and chk: "digest_text (PStr chk)"
      and perm: "perm = permit_fields ?pf pid' dg it rl ver chk t'"
      and b: "b = decision_fields rid (proposal_id_of p) it ''ALLOW'' rl ver chk rc rel @ [(''permit'', PDict perm)]"
    by (auto simp: wire_allow_def digest_agree)
  have get: "get_key b ''kind'' = PStr ''decision''" "get_key b ''outcome'' = PStr ''ALLOW''"
    "get_key b ''request_id'' = PStr rid" "get_key b ''intent'' = PStr it" "get_key b ''rule_id'' = PStr rl"
    "get_key b ''state_version'' = PInt ver" "get_key b ''policy_checksum'' = PStr chk"
    by (simp_all add: b wire_lookup)
  have perm_get: "get_key perm ''intent'' = PStr it" "get_key perm ''rule_id'' = PStr rl"
    "get_key perm ''state_version'' = PInt ver" "get_key perm ''policy_checksum'' = PStr chk"
    by (simp_all add: perm wire_lookup)
  have ids: "agent_identifier (PStr rid)" "agent_identifier (PStr it)" "agent_identifier (PStr rl)"
    using assms(4) by (simp_all add: get del: agent_identifier.simps)
  have pid: "pid' = pid" and "pf_iso ?pf t' = pf_iso ?pf t"
    using assms(5,7) by (simp_all add: perm wire_lookup platform.defs)
  then have t: "t' = t" using iso_inj [OF assms(3)] by blast
  note p = accepted_ids [OF dg]
  have "permit_error fromiso b = None"
    by (rule permit_accepted [OF assms(3) digest_of_platform [OF assms(3) dg] chk ids(2,3) assms(6)
        b [unfolded perm pid]])
  with chk ids p(3) b have accepted: "validate_guardrail_result fromiso b = None" by (rule_tac decision_accepted)
  obtain eid w1 where e: "execution_id w = (eid, w1)" by fastforce
  have x: "extract_permit eid (PDict b) = Inr (Some b, PDict perm)"
    by (simp add: extract_permit_def get assms(2))
  have "permit_good ?pf fromiso p perm (clock_at (Some (utc i)) w1) (gw_store gw)"
    unfolding perm pid t using assms(6,8-12) p(1,2)
    by (intro permit_good_wire [OF assms(3)]) (simp_all add: clock_at_def utc_def Suc_le_eq)
  moreover have "decision_good (Some b) perm"
    by (simp add: decision_good_def get perm_get BOUND_FIELDS_def)
  ultimately have "fst (authorize ?pf fromiso p (PDict b) False (Some (utc i)) eid gw w1) = Authorised pid h"
    by (rule authorize_complete [OF x _ _ assms(5,13)])
  with accepted show ?thesis by (simp add: gate_of_def e)
qed

text \<open>A platform whose texts can be read back: digests of zeros, and instants as a sign and
  binary digits, the lowest first.\<close>

function bits :: "int \<Rightarrow> string" where
  "bits n = (if n \<le> 0 then [] else (if n mod 2 = 1 then CHR ''1'' else CHR ''0'') # bits (n div 2))"
  by pat_completeness auto
termination by (relation "measure nat") auto

declare bits.simps [simp del]

fun read_bits :: "string \<Rightarrow> int" where
  "read_bits [] = 0"
| "read_bits (c # cs) = (if c = CHR ''1'' then 1 else 0) + 2 * read_bits cs"

lemma read_bits_bits: "0 \<le> n \<Longrightarrow> read_bits (bits n) = n"
proof (induction n rule: bits.induct)
  case (1 n)
  then show ?case by (cases "n = 0") (subst bits.simps; simp; presburger)+
qed

lemma set_bits: "set (bits n) \<subseteq> {CHR ''0'', CHR ''1''}"
proof (induction n rule: bits.induct)
  case (1 n)
  then show ?case by (cases "n \<le> 0") (subst bits.simps; auto)+
qed

definition binary_iso :: "int \<Rightarrow> string" where
  "binary_iso i = (if i < 0 then CHR ''-'' # bits (- i) else CHR ''+'' # bits i)"

definition read_binary :: iso_reader where
  "read_binary s =
     (case s of [] \<Rightarrow> None
      | c # cs \<Rightarrow> Some (utc (if c = CHR ''-'' then - read_bits cs else read_bits cs)))"

definition wire_demo :: agent_platform where
  "wire_demo =
     \<lparr>pf_sha256 = (\<lambda>_. replicate 64 CHR ''0''), pf_float = (\<lambda>_. ''0.0''), pf_iso = binary_iso,
      ap_round = Fin, ap_parse = (\<lambda>_. None)\<rparr>"

lemma replace_absent: "c \<notin> set s \<Longrightarrow> replace_str [c] new s = s"
  by (induction s) auto

lemma wire_demo_wire: "wire_platform (platform.truncate wire_demo) read_binary"
proof -
  have "digest_text (PStr (''sha256:'' @ replicate 64 CHR ''0''))" by code_simp
  moreover have "read_binary (replace_str ''Z'' ''+00:00'' (binary_iso i)) = Some (utc i)" for i
  proof -
    have "replace_str ''Z'' ''+00:00'' (binary_iso i) = binary_iso i"
      using set_bits [of i] set_bits [of "- i"]
      by (intro replace_absent) (auto simp: binary_iso_def)
    then show ?thesis by (simp add: read_binary_def binary_iso_def read_bits_bits)
  qed
  ultimately show ?thesis
    by (simp add: wire_platform_def wire_demo_def platform.defs binary_iso_def)
qed

lemma wire_demo_answer:
  "case handle (platform.truncate wire_demo) ACTION_ROUTE
     (PDict (demo_proposal ''control_access'' ''open'' ''driver_door'')) demo_service of
   ((st, b), sv') \<Rightarrow>
     st = 200 \<and> (\<forall>f \<in> {''request_id'', ''intent'', ''rule_id''}. agent_identifier (get_key b f)) \<and>
     (case get_key b ''permit'' of
        PDict perm \<Rightarrow> get_key perm ''permit_id'' = PStr ''permit-0'' \<and>
          get_key perm ''issued_at'' = PStr (binary_iso 0) \<and> get_key perm ''intent'' = PStr ''open_door''
      | _ \<Rightarrow> False)"
  by code_simp

definition access_gateway :: gateway where
  "access_gateway = VehicleToolGateway\<lparr>gw_handlers := [(''control_access'', silent_handler)]\<rparr>"

theorem guardrail_permit_executes_witness:
  "\<exists>b. gate_of wire_demo read_binary (demo_proposal ''control_access'' ''open'' ''driver_door'') (PDict b) False
     (Some (utc 1500000)) access_gateway (fixed_world 0) = Authorised ''permit-0'' silent_handler"
proof -
  let ?p = "demo_proposal ''control_access'' ''open'' ''driver_door''"
  obtain st b sv' where h: "handle (platform.truncate wire_demo) ACTION_ROUTE (PDict ?p) demo_service = ((st, b), sv')"
    by (metis prod.collapse)
  with wire_demo_answer obtain perm where b: "get_key b ''permit'' = PDict perm"
    "\<forall>f \<in> {''request_id'', ''intent'', ''rule_id''}. agent_identifier (get_key b f)"
    "get_key perm ''permit_id'' = PStr ''permit-0''" "get_key perm ''issued_at'' = PStr (pf_iso wire_demo 0)"
    by (auto simp: wire_demo_def split: pyval.splits)
  have "agent_identifier (PStr ''permit-0'')" by code_simp
  moreover have "\<not> is_used ''permit-0'' (gw_store access_gateway)"
    "get_key ?p ''session_id'' = PStr ''s1''" "\<not> is_revoked ''s1'' (utc 0) (gw_store access_gateway)"
    by (simp_all add: access_gateway_def VehicleToolGateway_def PermitStore_def is_used_def is_revoked_def
        cutoffs_def demo_proposal_def get_key_def map_filter_def)
  moreover have "find_handler access_gateway ?p perm = Inr (Some silent_handler)"
    by (simp add: find_handler_def access_gateway_def VehicleToolGateway_def demo_proposal_def get_key_def)
  ultimately show ?thesis
    using guardrail_permit_executes [OF h b(1) wire_demo_wire b(2,3) _ b(4), of 1500000 access_gateway "''s1''"
        silent_handler "fixed_world 0"]
    by (auto simp: PERMIT_TTL_def)
qed

section \<open>Monitoring\<close>

lemma wire_check_keys:
  assumes "validate_wire_vehicle_state raw = Inr s"
  shows "fst ` set raw \<subseteq> set field_names \<union> set REQUEST_PARAMS"
proof -
  have "from_partial raw = Inr s"
    using assms by (auto simp: validate_wire_vehicle_state_def split: option.splits sum.splits)
  then have "filter (\<lambda>k. k \<notin> set field_names \<and> k \<notin> set REQUEST_PARAMS) (map fst raw) = []"
    by (auto simp: from_partial_def Let_def filter_empty_conv split: if_splits)
  then show ?thesis by (force simp: filter_empty_conv)
qed

lemma snapshot_refused:
  assumes "to_authorization_snapshot pf s = Inr snap"
  shows "\<exists>m. validate_wire_vehicle_state snap = Inl m"
proof (cases "validate_wire_vehicle_state snap")
  case (Inr v)
  have "''schema_version'' \<in> fst ` set snap"
    using assms by (auto simp: to_authorization_snapshot_def split: if_splits)
  moreover have "''schema_version'' \<notin> set field_names \<union> set REQUEST_PARAMS" by code_simp
  ultimately show ?thesis using wire_check_keys [OF Inr] by blast
qed simp

lemma error_kind: "get_key (error_envelope rid code msg) ''kind'' = PStr ''error''"
  by (simp add: error_envelope_def get_key_def)

text \<open>The agent cannot have its own state monitored.  Whatever the agent's vehicle state, a
  monitor request that carries its authorization snapshot is answered by the guardrail with an error
  envelope and status 400 (409 for another contract version), because the snapshot has the keys
  \<open>schema_version\<close>, \<open>state_version\<close> and \<open>timestamp\<close>, which the wire check does not know; the
  guardrail's registry of actions stays as it was.\<close>

lemma agent_snapshot_refused:
  assumes "to_authorization_snapshot apf s = Inr snap" and "map_of payload ''vehicle_state'' = Some (PDict snap)"
  shows "\<exists>st b. fst (handle pf MONITOR_ROUTE (PDict payload) sv) = (st, b) \<and> st \<in> {400, 409} \<and>
    get_key b ''kind'' = PStr ''error'' \<and>
    sv_actions (snd (handle pf MONITOR_ROUTE (PDict payload) sv)) = sv_actions sv"
proof -
  obtain m where m: "validate_wire_vehicle_state snap = Inl m" using snapshot_refused [OF assms(1)] by blast
  let ?rid = "request_id_of payload" and ?sv = "begin_sv MONITOR_ROUTE payload sv"
  have "\<exists>code msg. monitor pf payload ?rid ?sv = (Inr (400, error_envelope ?rid code msg), ?sv)"
    by (auto simp: monitor_def monitor_state_def get_or_None_def assms(2) m split: option.split)
  then obtain code msg where mon: "monitor pf payload ?rid ?sv = (Inr (400, error_envelope ?rid code msg), ?sv)"
    by blast
  have "\<exists>st code msg. dispatch pf MONITOR_ROUTE payload ?rid ?sv = (Inr (st, error_envelope ?rid code msg), ?sv) \<and>
      st \<in> {400, 409}"
  proof (cases "require_contract_version pf payload")
    case None
    then show ?thesis by (auto simp: dispatch_def mon)
  next
    case (Some e)
    then obtain c n where "e = WireError c n" by (auto simp: require_contract_version_def Let_def split: if_splits)
    with Some show ?thesis by (auto simp: dispatch_def)
  qed
  then show ?thesis by (auto simp: handle_PDict response_of_def error_kind)
qed

end
