(* ===== verification/AegisClient.thy ===== *)
theory AegisClient
  imports Gateway
begin

text \<open>
  \<open>integrations/aegis/client.py\<close>: the adapter through which the agent asks the guardrail.  The
  network (\<open>urlopen\<close> with the encoding and decoding of JSON) is the caller's function on a state
  of its own: it answers with a decoded body, with an HTTP error and its decoded body, not at all,
  or raises something the adapter does not catch.  \<open>None\<close> is a body that is no JSON.
\<close>

datatype guardrail_provider = MOCK | REAL

fun provider_value :: "guardrail_provider \<Rightarrow> string" where
  "provider_value MOCK = ''MOCK''"
| "provider_value REAL = ''REAL''"

record client_config =
  cc_base_url :: string
  cc_provider :: guardrail_provider
  cc_timeout_seconds :: rat
  cc_read_only_retries :: int
  cc_retry_backoff_seconds :: rat

definition GuardrailClientConfig :: "string \<Rightarrow> guardrail_provider \<Rightarrow> client_config" where
  "GuardrailClientConfig base_url provider =
     \<lparr>cc_base_url = base_url, cc_provider = provider, cc_timeout_seconds = 2,
      cc_read_only_retries = 1, cc_retry_backoff_seconds = 5 / 100\<rparr>"

text \<open>\<open>__post_init__\<close>.\<close>

definition config_error :: "client_config \<Rightarrow> agent_exn option" where
  "config_error c =
     first_error
       [exec_check (prefix_of ''http://'' (cc_base_url c) \<or> prefix_of ''https://'' (cc_base_url c))
          (ValueErr ''base_url must use http:// or https://''),
        exec_check (0 < cc_timeout_seconds c) (ValueErr ''timeout_seconds must be positive''),
        exec_check (0 \<le> cc_read_only_retries c) (ValueErr ''read_only_retries cannot be negative''),
        exec_check (0 \<le> cc_retry_backoff_seconds c) (ValueErr ''retry_backoff_seconds cannot be negative'')]"

definition event_metadata :: "client_config \<Rightarrow> payload" where
  "event_metadata c =
     [(''guardrail_provider'', PStr (provider_value (cc_provider c))),
      (''guardrail_contract_version'', PStr AGENT_CONTRACT_VERSION)]"

definition uses_mock :: "client_config \<Rightarrow> bool" where
  "uses_mock c = (cc_provider c = MOCK)"

datatype http_reply =
    Answered "pyval option"
  | HttpError "pyval option"
  | Unreachable
  | Raised agent_exn

text \<open>A \<open>GuardrailAdapterError\<close> with its code and whether it may be retried, or an exception the
  adapter lets through.\<close>

datatype adapter_exn = AdapterError string bool | Passed agent_exn

type_synonym 'e transport = "string \<Rightarrow> payload \<Rightarrow> 'e \<Rightarrow> http_reply \<times> 'e"
type_synonym 'e sleeper = "rat \<Rightarrow> 'e \<Rightarrow> 'e"
type_synonym 'e asked = "(adapter_exn + payload) \<times> 'e"

section \<open>One request\<close>

definition rstrip_slash :: "string \<Rightarrow> string" where
  "rstrip_slash s = rev (dropWhile (\<lambda>c. c = CHR ''/'') (rev s))"

definition endpoint :: "client_config \<Rightarrow> string \<Rightarrow> string" where
  "endpoint c path = rstrip_slash (cc_base_url c) @ ''/'' @ dropWhile (\<lambda>c. c = CHR ''/'') path"

text \<open>What an attempt ends with, unless the guardrail could not be reached.\<close>

fun reply_result :: "http_reply \<Rightarrow> (adapter_exn + payload) option" where
  "reply_result (Answered (Some (PDict d))) = Some (Inr d)"
| "reply_result (Answered _) = Some (Inl (AdapterError ''MALFORMED_GUARDRAIL_RESPONSE'' False))"
| "reply_result (HttpError (Some (PDict d))) =
     Some (if get_key d ''kind'' = PStr ''error'' then Inr d
           else Inl (AdapterError ''MALFORMED_GUARDRAIL_RESPONSE'' False))"
| "reply_result (HttpError _) = Some (Inl (AdapterError ''MALFORMED_GUARDRAIL_RESPONSE'' False))"
| "reply_result Unreachable = None"
| "reply_result (Raised x) = Some (Inl (Passed x))"

text \<open>The attempts of \<open>_post\<close>: \<open>left\<close> more may follow the one numbered \<open>attempt\<close> (from 0).\<close>

fun post_attempts ::
  "'e transport \<Rightarrow> 'e sleeper \<Rightarrow> client_config \<Rightarrow> bool \<Rightarrow> string \<Rightarrow> payload \<Rightarrow> nat \<Rightarrow> nat \<Rightarrow> 'e \<Rightarrow> 'e asked" where
  "post_attempts send sleep c read_only url body left attempt e =
     (case send url body e of (reply, e1) \<Rightarrow>
        (case reply_result reply of
           Some r \<Rightarrow> (r, e1)
         | None \<Rightarrow>
             (case left of
                0 \<Rightarrow> (Inl (AdapterError ''GUARDRAIL_UNAVAILABLE'' read_only), e1)
              | Suc l \<Rightarrow>
                  post_attempts send sleep c read_only url body l (Suc attempt)
                    (sleep (cc_retry_backoff_seconds c * of_nat (Suc attempt)) e1))))"

declare post_attempts.simps [simp del]

definition retries :: "client_config \<Rightarrow> bool \<Rightarrow> nat" where
  "retries c read_only = (if read_only then nat (cc_read_only_retries c) else 0)"

definition post_request ::
  "'e transport \<Rightarrow> 'e sleeper \<Rightarrow> client_config \<Rightarrow> string \<Rightarrow> payload \<Rightarrow> bool \<Rightarrow> 'e \<Rightarrow> 'e asked" where
  "post_request send sleep c path body read_only e =
     post_attempts send sleep c read_only (endpoint c path) body (retries c read_only) 0 e"

section \<open>The four questions\<close>

definition with_contract_version :: "payload \<Rightarrow> payload" where
  "with_contract_version p =
     (if has_key p ''contract_version'' then p
      else p @ [(''contract_version'', PStr AGENT_CONTRACT_VERSION)])"

fun adapter_of :: "contract_exn \<Rightarrow> adapter_exn" where
  "adapter_of (ContractError code) = AdapterError code False"
| "adapter_of (ContractCrash name) = Passed (OtherErr name)"

text \<open>\<open>_validate_result\<close>, applied to what was posted.\<close>

definition validated :: "iso_reader \<Rightarrow> 'e asked \<Rightarrow> 'e asked" where
  "validated fromiso x =
     (case x of
        (Inl err, e) \<Rightarrow> (Inl err, e)
      | (Inr d, e) \<Rightarrow>
          (case validate_guardrail_result fromiso d of
             Some err \<Rightarrow> (Inl (adapter_of err), e) | None \<Rightarrow> (Inr d, e)))"

text \<open>The correlation checks of \<open>evaluate\<close>.\<close>

definition correlation_error :: "platform \<Rightarrow> payload \<Rightarrow> payload \<Rightarrow> adapter_exn option" where
  "correlation_error pf proposal d =
     (if get_key d ''kind'' \<noteq> PStr ''decision'' then None
      else if \<not> py_eq (get_key d ''proposal_id'') (get_key proposal ''proposal_id'')
      then Some (AdapterError ''PROPOSAL_MISMATCH'' False)
      else if get_key d ''outcome'' \<noteq> PStr ''ALLOW'' then None
      else if \<not> is_dict (get_key d ''permit'') then Some (AdapterError ''PROPOSAL_MISMATCH'' False)
      else (case agent_digest pf proposal of
              Inl (ContractError code) \<Rightarrow> Some (Passed (OtherErr ''ContractValidationError''))
            | Inl (ContractCrash name) \<Rightarrow> Some (Passed (OtherErr name))
            | Inr dg \<Rightarrow>
                if get_key (dict_of (get_key d ''permit'')) ''proposal_digest'' = PStr dg then None
                else Some (AdapterError ''PROPOSAL_MISMATCH'' False)))"

definition client_evaluate ::
  "platform \<Rightarrow> iso_reader \<Rightarrow> 'e transport \<Rightarrow> 'e sleeper \<Rightarrow> client_config \<Rightarrow> payload \<Rightarrow> 'e \<Rightarrow> 'e asked" where
  "client_evaluate pf fromiso send sleep c proposal e =
     (case agent_proposal_error proposal of
        Some err \<Rightarrow> (Inl (adapter_of err), e)
      | None \<Rightarrow>
          (case validated fromiso (post_request send sleep c ''/v1/evaluate/action'' proposal False e) of
             (Inl err, e1) \<Rightarrow> (Inl err, e1)
           | (Inr d, e1) \<Rightarrow>
               (case correlation_error pf proposal d of Some err \<Rightarrow> (Inl err, e1) | None \<Rightarrow> (Inr d, e1))))"

definition client_query ::
  "iso_reader \<Rightarrow> 'e transport \<Rightarrow> 'e sleeper \<Rightarrow> client_config \<Rightarrow> payload \<Rightarrow> 'e \<Rightarrow> 'e asked" where
  "client_query fromiso send sleep c p e =
     validated fromiso (post_request send sleep c ''/v1/evaluate/query'' (with_contract_version p) True e)"

definition confirm_request :: "string \<Rightarrow> string \<Rightarrow> string option \<Rightarrow> payload" where
  "confirm_request confirmation_id session_id request_id =
     [(''contract_version'', PStr AGENT_CONTRACT_VERSION),
      (''request_id'', PStr (str_or request_id (''req-'' @ confirmation_id))),
      (''confirmation_id'', PStr confirmation_id), (''session_id'', PStr session_id)]"

definition client_confirm ::
  "iso_reader \<Rightarrow> 'e transport \<Rightarrow> 'e sleeper \<Rightarrow> client_config \<Rightarrow> string \<Rightarrow> string \<Rightarrow> string option \<Rightarrow> 'e \<Rightarrow> 'e asked" where
  "client_confirm fromiso send sleep c confirmation_id session_id request_id e =
     validated fromiso (post_request send sleep c ''/v1/confirmations/confirm''
       (confirm_request confirmation_id session_id request_id) False e)"

definition client_monitor ::
  "iso_reader \<Rightarrow> 'e transport \<Rightarrow> 'e sleeper \<Rightarrow> client_config \<Rightarrow> payload \<Rightarrow> 'e \<Rightarrow> 'e asked" where
  "client_monitor fromiso send sleep c p e =
     validated fromiso (post_request send sleep c ''/v1/monitor/evaluate'' (with_contract_version p) False e)"

section \<open>What an answer is\<close>

lemma validated_Inr:
  "validated fromiso x = (Inr d, e) \<Longrightarrow> x = (Inr d, e) \<and> validate_guardrail_result fromiso d = None"
  by (auto simp: validated_def split: prod.splits sum.splits option.splits)

text \<open>C22. An answer the adapter hands to the agent is bound to the question.  \<open>evaluate\<close> returns
  only for a well-formed proposal, with a body that passes the contract; a decision names the
  proposal that was sent, and an ALLOW carries a permit over exactly this proposal.  Every other
  reply of the network is an exception.\<close>

theorem evaluate_answer_bound:
  assumes "client_evaluate pf fromiso send sleep c p e = (Inr d, e')"
  shows "agent_proposal_error p = None \<and> validate_guardrail_result fromiso d = None \<and>
    (get_key d ''kind'' = PStr ''error'' \<or>
     get_key d ''kind'' = PStr ''decision'' \<and> py_eq (get_key d ''proposal_id'') (get_key p ''proposal_id'') \<and>
     (get_key d ''outcome'' = PStr ''ALLOW'' \<longrightarrow>
        (\<exists>perm dg. get_key d ''permit'' = PDict perm \<and> agent_digest pf p = Inr dg \<and>
           get_key perm ''proposal_digest'' = PStr dg)))"
proof -
  have ok: "agent_proposal_error p = None"
    using assms by (auto simp: client_evaluate_def split: option.splits)
  obtain e1 where v: "validated fromiso (post_request send sleep c ''/v1/evaluate/action'' p False e) = (Inr d, e1)"
    and corr: "correlation_error pf p d = None"
    using assms by (auto simp: client_evaluate_def ok split: prod.splits sum.splits option.splits)
  have valid: "validate_guardrail_result fromiso d = None" using validated_Inr [OF v] by simp
  then have kind: "get_key d ''kind'' = PStr ''error'' \<or> get_key d ''kind'' = PStr ''decision''"
    by (auto simp: validate_guardrail_result_def split: option.splits if_splits)
  from corr ok valid kind show ?thesis
    by (cases "get_key d ''permit''")
      (auto simp: correlation_error_def split: if_splits sum.splits contract_exn.splits)
qed

text \<open>A guardrail that allows one proposal.\<close>

definition zero_platform :: platform where
  "zero_platform =
     \<lparr>pf_sha256 = (\<lambda>_. replicate 64 CHR ''0''), pf_float = (\<lambda>_. ''0.0''), pf_iso = (\<lambda>_. ''a'')\<rparr>"

definition trunk_proposal :: payload where
  "trunk_proposal =
     [(''contract_version'', PStr ''1.0.0''), (''proposal_id'', PStr ''p1''), (''session_id'', PStr ''s1''),
      (''source_turn_id'', PStr ''t1''), (''tool'', PStr ''control_access''),
      (''arguments'', PDict [(''action'', PStr ''open''), (''target'', PStr ''trunk'')]),
      (''model_provider'', PStr ''m''), (''model_id'', PStr ''m1'')]"

definition trunk_allow :: payload where
  "trunk_allow =
     (let zeros = PStr (''sha256:'' @ replicate 64 CHR ''0'') in
      [(''contract_version'', PStr ''1.0.0''), (''kind'', PStr ''decision''), (''request_id'', PStr ''r1''),
       (''proposal_id'', PStr ''p1''), (''intent'', PStr ''open_trunk''), (''outcome'', PStr ''ALLOW''),
       (''rule_id'', PStr ''R004''), (''state_version'', PInt 1), (''policy_checksum'', zeros),
       (''reason_code'', PStr ''POLICY_ALLOW''), (''relevant_state'', PDict []),
       (''permit'', PDict
         [(''permit_id'', PStr ''k1''), (''proposal_digest'', zeros), (''intent'', PStr ''open_trunk''),
          (''rule_id'', PStr ''R004''), (''state_version'', PInt 1), (''policy_checksum'', zeros),
          (''issued_at'', PStr ''a''), (''expires_at'', PStr ''aaa''), (''single_use'', PBool True)])])"

theorem evaluate_answer_bound_witness:
  "\<exists>perm. get_key trunk_allow ''permit'' = PDict perm \<and>
     agent_digest zero_platform trunk_proposal = Inr (''sha256:'' @ replicate 64 CHR ''0'')"
proof -
  have "client_evaluate zero_platform (\<lambda>s. Some (utc (int (length s)))) (\<lambda>url body e. (Answered (Some (PDict trunk_allow)), e))
      (\<lambda>t e. e) (GuardrailClientConfig ''http://localhost'' REAL) trunk_proposal () = (Inr trunk_allow, ())"
    by code_simp
  note bound = evaluate_answer_bound [OF this]
  have "get_key trunk_allow ''kind'' \<noteq> PStr ''error''" "get_key trunk_allow ''outcome'' = PStr ''ALLOW''"
    "agent_digest zero_platform trunk_proposal = Inr (''sha256:'' @ replicate 64 CHR ''0'')"
    by code_simp+
  with bound show ?thesis by blast
qed

section \<open>How often the network is used\<close>

definition counted :: "'e transport \<Rightarrow> (nat \<times> 'e) transport" where
  "counted send url body s = (case send url body (snd s) of (r, e) \<Rightarrow> (r, (Suc (fst s), e)))"

definition counted_sleep :: "'e sleeper \<Rightarrow> (nat \<times> 'e) sleeper" where
  "counted_sleep sleep t s = (fst s, sleep t (snd s))"

lemma attempts_counted:
  "post_attempts (counted send) (counted_sleep sleep) c ro url body left k (n, e) = (r, (m, e')) \<Longrightarrow>
     Suc n \<le> m \<and> m \<le> Suc (n + left)"
proof (induction left arbitrary: k n e)
  case 0
  then show ?case
    by (subst (asm) post_attempts.simps) (auto simp: counted_def split: prod.splits option.splits)
next
  case (Suc l)
  obtain rep e1 where s: "send url body e = (rep, e1)" by fastforce
  show ?case
  proof (cases "reply_result rep")
    case None
    with Suc.prems s have "post_attempts (counted send) (counted_sleep sleep) c ro url body l (Suc k)
        (Suc n, sleep (cc_retry_backoff_seconds c * of_nat (Suc k)) e1) = (r, (m, e'))"
      by (subst (asm) post_attempts.simps) (simp add: counted_def counted_sleep_def)
    from Suc.IH [OF this] show ?thesis by simp
  next
    case (Some x)
    with Suc.prems s show ?thesis by (subst (asm) post_attempts.simps) (simp add: counted_def)
  qed
qed

lemma validated_state: "snd (validated fromiso x) = snd x"
  by (auto simp: validated_def split: prod.split sum.split option.split)

lemma request_counted:
  fixes n c ro
  assumes "snd (validated fromiso (post_request (counted send) (counted_sleep sleep) c path body ro (n, e))) = s"
  shows "Suc n \<le> fst s" "fst s \<le> Suc (n + retries c ro)"
proof -
  obtain r m e' where p: "post_attempts (counted send) (counted_sleep sleep) c ro (endpoint c path) body (retries c ro) 0 (n, e)
      = (r, (m, e'))"
    by (metis prod.collapse)
  with assms have "s = (m, e')" by (simp add: validated_state post_request_def)
  with attempts_counted [OF p] show "Suc n \<le> fst s" "fst s \<le> Suc (n + retries c ro)" by simp_all
qed

lemmas asked_once = request_counted [where ro = False and n = 0, unfolded retries_def if_False add_0, OF refl]
lemmas asked_often = request_counted [where ro = True and n = 0, unfolded retries_def if_True add_0, OF refl]

text \<open>C23. A question that may change state is asked once.  Evaluating a proposal, confirming and
  monitoring use the network at most once, so no lost answer leads to a second evaluation; only a
  query is repeated, at most \<open>read_only_retries\<close> times.\<close>

theorem actions_asked_once:
  "fst (snd (client_evaluate pf fromiso (counted send) (counted_sleep sleep) c p (0, e))) \<le> 1 \<and>
   fst (snd (client_confirm fromiso (counted send) (counted_sleep sleep) c i s q (0, e))) = 1 \<and>
   fst (snd (client_monitor fromiso (counted send) (counted_sleep sleep) c p (0, e))) = 1 \<and>
   fst (snd (client_query fromiso (counted send) (counted_sleep sleep) c p (0, e))) \<in> {1 .. 1 + nat (cc_read_only_retries c)}"
proof (intro conjI)
  show "fst (snd (client_confirm fromiso (counted send) (counted_sleep sleep) c i s q (0, e))) = 1"
    unfolding client_confirm_def using asked_once le_antisym by (metis One_nat_def)
  show "fst (snd (client_monitor fromiso (counted send) (counted_sleep sleep) c p (0, e))) = 1"
    unfolding client_monitor_def using asked_once le_antisym by (metis One_nat_def)
  show "fst (snd (client_query fromiso (counted send) (counted_sleep sleep) c p (0, e))) \<in> {1 .. 1 + nat (cc_read_only_retries c)}"
    unfolding client_query_def by (simp add: asked_often)
  show "fst (snd (client_evaluate pf fromiso (counted send) (counted_sleep sleep) c p (0, e))) \<le> 1"
    using asked_once(2) [of fromiso send sleep c "''/v1/evaluate/action''" p e]
    by (auto simp: client_evaluate_def split: option.splits prod.splits sum.splits)
qed

end
