(* ===== verification/AgentMonitor.thy ===== *)
theory AgentMonitor
  imports AegisClient ActionRegistry CrossService
begin

text \<open>
  \<open>integrations/aegis/monitor.py\<close>: every running action of a monitored intent is put to the
  guardrail again, on each change of the vehicle state and on each tick, and is stopped unless the
  answer is ALLOW.  The adapter's own events are effects like those of the registry; the pipeline
  they go to is the caller's, and what it raises is dropped by the code.  An adapter error's text
  is its code here.
\<close>

datatype monitor_effect = FromRegistry effect | DecisionPublished payload | ExecutionPublished payload

record monitor_adapter =
  mn_registry :: registry
  mn_pipeline :: bool
  mn_evaluations :: int
  mn_allows :: int
  mn_stops :: int
  mn_errors :: int
  mn_failsafe_stops :: int

definition GuardrailMonitorAdapter :: "registry option \<Rightarrow> bool \<Rightarrow> monitor_adapter" where
  "GuardrailMonitorAdapter rg pipeline =
     \<lparr>mn_registry = (case rg of Some r \<Rightarrow> r | None \<Rightarrow> ActiveActionRegistry None False),
      mn_pipeline = pipeline, mn_evaluations = 0, mn_allows = 0, mn_stops = 0, mn_errors = 0,
      mn_failsafe_stops = 0\<rparr>"

definition monitor_metrics :: "monitor_adapter \<Rightarrow> payload" where
  "monitor_metrics mn =
     [(''evaluations_count'', PInt (mn_evaluations mn)), (''allow_count'', PInt (mn_allows mn)),
      (''stop_count'', PInt (mn_stops mn)), (''error_count'', PInt (mn_errors mn)),
      (''failsafe_stop_count'', PInt (mn_failsafe_stops mn))]"

definition is_monitored_intent :: "string \<Rightarrow> bool" where
  "is_monitored_intent intent = (intent \<in> set AGENT_MONITORED_INTENTS)"

text \<open>The state a caller passes: an agent state, a mapping, nothing, or anything else.\<close>

datatype current_state = NoState | StateObject vehicle_state | StateMapping payload | OtherState

definition monitor_payload ::
  "platform \<Rightarrow> string \<Rightarrow> action_record \<Rightarrow> current_state \<Rightarrow> agent_exn + payload" where
  "monitor_payload pf request_id r current =
     (let base = [(''contract_version'', PStr AGENT_CONTRACT_VERSION), (''request_id'', PStr request_id),
                  (''active_action_id'', PStr (rec_action_id r)), (''intent'', PStr (rec_intent r))] in
      case current of
        StateObject s \<Rightarrow>
          (case to_authorization_snapshot pf s of
             Inl e \<Rightarrow> Inl (StateErr e) | Inr snap \<Rightarrow> Inr (base @ [(''vehicle_state'', PDict snap)]))
      | StateMapping d \<Rightarrow> Inr (base @ [(''vehicle_state'', PDict d)])
      | _ \<Rightarrow> Inr base)"

section \<open>Stopping\<close>

text \<open>\<open>_execute_stop\<close>: the registry raises only \<open>ValueError\<close> and \<open>KeyError\<close>, which are logged.\<close>

definition execute_stop ::
  "platform \<Rightarrow> action_record \<Rightarrow> string \<Rightarrow> bool \<Rightarrow> string \<Rightarrow> registry \<Rightarrow> agent_world \<Rightarrow>
   action_record \<times> registry \<times> agent_world \<times> effect list" where
  "execute_stop pf r reason failure error rg w =
     (case (if failure then fail_action pf (rec_action_id r) (or_text error reason) None (rec_turn_id r) rg w
            else stop_action pf (rec_action_id r) reason None (rec_turn_id r) rg w) of
        (Inr s, rg1, w1, eff) \<Rightarrow> (s, rg1, w1, eff)
      | (Inl _, rg1, w1, eff) \<Rightarrow>
          (case get_action (rec_action_id r) rg1 of Some s \<Rightarrow> (s, rg1, w1, eff) | None \<Rightarrow> (r, rg1, w1, eff)))"

text \<open>A new event takes an identifier and a reading of the clock.\<close>

definition stamp_event :: "agent_world \<Rightarrow> agent_world" where
  "stamp_event w = snd (read_clock (snd (draw_uuid w)))"

definition decision_event :: "platform \<Rightarrow> action_record \<Rightarrow> payload \<Rightarrow> payload" where
  "decision_event pf r d =
     [(''session_id'', PStr (or_text (rec_session_id r) ''default'')),
      (''turn_id'', PStr (or_text (rec_turn_id r) ''default'')),
      (''request_id'', PStr (py_str pf (get_or d ''request_id'' (PStr (or_text (rec_request_id r) ''req-mon''))))),
      (''proposal_id'', PStr (rec_proposal_id r)),
      (''outcome'', PStr (py_str pf (get_or d ''outcome'' (PStr ''BLOCK_UNSAFE'')))),
      (''reason_code'', PStr (py_str pf (get_or d ''reason_code'' (PStr ''MONITOR_STOP'')))),
      (''rule_id'', PStr (py_str pf (get_or d ''rule_id'' (PStr ''MONITOR_RULE'')))),
      (''state_version'', (case get_key d ''state_version'' of
          PInt i \<Rightarrow> PInt i | PBool b \<Rightarrow> PBool b | _ \<Rightarrow> PInt (rec_state_version r)))]"

definition emit_decision_event ::
  "platform \<Rightarrow> bool \<Rightarrow> action_record \<Rightarrow> payload \<Rightarrow> agent_world \<Rightarrow> agent_world \<times> monitor_effect list" where
  "emit_decision_event pf pipeline r d w =
     (if \<not> pipeline \<or> rec_proposal_id r = [] then (w, [])
      else (stamp_event w, [DecisionPublished (decision_event pf r d)]))"

definition emit_execution_event ::
  "bool \<Rightarrow> action_record \<Rightarrow> string \<Rightarrow> string \<Rightarrow> agent_world \<Rightarrow> agent_world \<times> monitor_effect list" where
  "emit_execution_event pipeline r phase reason w =
     (if \<not> pipeline \<or> rec_proposal_id r = [] then (w, [])
      else (stamp_event w, [ExecutionPublished
        [(''session_id'', PStr (or_text (rec_session_id r) ''default'')),
         (''turn_id'', PStr (or_text (rec_turn_id r) ''default'')),
         (''request_id'', PStr (or_text (rec_request_id r) ''req-mon'')),
         (''proposal_id'', PStr (rec_proposal_id r)),
         (''execution_id'', PStr (or_text (rec_execution_id r) (''exec-'' @ rec_action_id r))),
         (''intent'', PStr (rec_intent r)), (''phase'', PStr phase),
         (''detail'', PDict [(''reason'', PStr reason)])]]))"

section \<open>Evaluation\<close>

type_synonym monitored = "payload \<times> monitor_adapter \<times> agent_world \<times> monitor_effect list"

definition handle_monitor_error ::
  "platform \<Rightarrow> action_record \<Rightarrow> string \<Rightarrow> string \<Rightarrow> monitor_adapter \<Rightarrow> agent_world \<Rightarrow> monitored" where
  "handle_monitor_error pf r request_id msg mn w =
     (let mn1 = mn\<lparr>mn_errors := mn_errors mn + 1, mn_failsafe_stops := mn_failsafe_stops mn + 1,
                   mn_stops := mn_stops mn + 1\<rparr>;
          reason = ''failsafe_monitor_error:'' @ msg;
          (s, rg1, w1, eff) = execute_stop pf r reason True msg (mn_registry mn1) w;
          (w2, ev) = emit_execution_event (mn_pipeline mn1) s ''failed'' reason w1
      in ([(''action_id'', PStr (rec_action_id r)), (''intent'', PStr (rec_intent r)),
           (''outcome'', PStr ''ERROR''), (''stopped'', PBool True), (''error'', PStr msg),
           (''request_id'', PStr request_id)],
          mn1\<lparr>mn_registry := rg1\<rparr>, w2, map FromRegistry eff @ ev))"

definition error_message :: "platform \<Rightarrow> payload \<Rightarrow> string" where
  "error_message pf d =
     (let detail = dict_of (get_key d ''error'') in
      py_str pf (py_or (py_or (get_key detail ''message'') (get_key detail ''code''))
        (PStr ''Guardrail returned a typed error envelope'')))"

text \<open>From the guardrail's decision on.\<close>

definition handle_monitor_decision ::
  "platform \<Rightarrow> action_record \<Rightarrow> string \<Rightarrow> payload \<Rightarrow> monitor_adapter \<Rightarrow> agent_world \<Rightarrow> monitored" where
  "handle_monitor_decision pf r request_id d mn w =
     (if get_key d ''kind'' = PStr ''error'' then handle_monitor_error pf r request_id (error_message pf d) mn w
      else
        (let outcome = py_or (get_key d ''outcome'') (PStr ''UNKNOWN'');
             head = [(''action_id'', PStr (rec_action_id r)), (''intent'', PStr (rec_intent r))]
         in if outcome = PStr ''ALLOW'' then
              (head @ [(''outcome'', PStr ''ALLOW''), (''stopped'', PBool False), (''request_id'', PStr request_id)],
               mn\<lparr>mn_allows := mn_allows mn + 1\<rparr>, w, [])
            else
              (let mn1 = mn\<lparr>mn_stops := mn_stops mn + 1\<rparr>;
                   reason_code = py_str pf (get_or d ''reason_code'' (PStr ''MONITOR_STOP''));
                   rule_id = py_str pf (get_or d ''rule_id'' (PStr ''MONITOR_RULE''));
                   (s, rg1, w1, eff) = execute_stop pf r (''monitor_stop:'' @ reason_code) False [] (mn_registry mn1) w;
                   (w2, ev1) = emit_decision_event pf (mn_pipeline mn1) s d w1;
                   (w3, ev2) = emit_execution_event (mn_pipeline mn1) s ''stopped'' reason_code w2
               in (head @ [(''outcome'', outcome), (''stopped'', PBool True), (''reason_code'', PStr reason_code),
                     (''rule_id'', PStr rule_id), (''request_id'', PStr request_id)],
                   mn1\<lparr>mn_registry := rg1\<rparr>, w3, map FromRegistry eff @ ev1 @ ev2))))"

text \<open>The guardrail client of a caller.\<close>

type_synonym 'e monitor_client = "payload \<Rightarrow> 'e \<Rightarrow> 'e asked"

definition evaluate_single_action ::
  "platform \<Rightarrow> 'e monitor_client \<Rightarrow> current_state \<Rightarrow> action_record \<Rightarrow> monitor_adapter \<Rightarrow> 'e \<Rightarrow> agent_world \<Rightarrow>
   (agent_exn + payload) \<times> monitor_adapter \<times> 'e \<times> agent_world \<times> monitor_effect list" where
  "evaluate_single_action pf ask current r mn e w =
     (let (u, w1) = draw_uuid w; request_id = ''req-mon-'' @ take 8 (uuid_hex u) in
      case monitor_payload pf request_id r current of
        Inl x \<Rightarrow> (Inl x, mn, e, w1, [])
      | Inr body \<Rightarrow>
          (let mn1 = mn\<lparr>mn_evaluations := mn_evaluations mn + 1\<rparr> in
           case ask body e of
             (Inl (Passed x), e1) \<Rightarrow> (Inl x, mn1, e1, w1, [])
           | (Inl (AdapterError code retryable), e1) \<Rightarrow>
               (case handle_monitor_error pf r request_id code mn1 w1 of
                  (d, mn2, w2, eff) \<Rightarrow> (Inr d, mn2, e1, w2, eff))
           | (Inr dec, e1) \<Rightarrow>
               (case handle_monitor_decision pf r request_id dec mn1 w1 of
                  (d, mn2, w2, eff) \<Rightarrow> (Inr d, mn2, e1, w2, eff))))"

text \<open>The loop over the records that were active when it began; an exception ends it.\<close>

fun evaluate_records ::
  "platform \<Rightarrow> 'e monitor_client \<Rightarrow> current_state \<Rightarrow> action_record list \<Rightarrow> monitor_adapter \<Rightarrow> 'e \<Rightarrow> agent_world \<Rightarrow>
   (agent_exn + payload list) \<times> monitor_adapter \<times> 'e \<times> agent_world \<times> monitor_effect list" where
  "evaluate_records pf ask current [] mn e w = (Inr [], mn, e, w, [])"
| "evaluate_records pf ask current (r # rs) mn e w =
     (if \<not> is_monitored_intent (rec_intent r) then evaluate_records pf ask current rs mn e w
      else case evaluate_single_action pf ask current r mn e w of
        (Inl x, mn1, e1, w1, eff) \<Rightarrow> (Inl x, mn1, e1, w1, eff)
      | (Inr d, mn1, e1, w1, eff) \<Rightarrow>
          (case evaluate_records pf ask current rs mn1 e1 w1 of
             (Inl x, mn2, e2, w2, eff2) \<Rightarrow> (Inl x, mn2, e2, w2, eff @ eff2)
           | (Inr ds, mn2, e2, w2, eff2) \<Rightarrow> (Inr (d # ds), mn2, e2, w2, eff @ eff2)))"

definition evaluate_active_actions ::
  "platform \<Rightarrow> 'e monitor_client \<Rightarrow> current_state \<Rightarrow> string option \<Rightarrow> monitor_adapter \<Rightarrow> 'e \<Rightarrow> agent_world \<Rightarrow>
   (agent_exn + payload list) \<times> monitor_adapter \<times> 'e \<times> agent_world \<times> monitor_effect list" where
  "evaluate_active_actions pf ask current session mn e w =
     evaluate_records pf ask current (get_active_actions session (mn_registry mn)) mn e w"

definition monitor_tick ::
  "platform \<Rightarrow> 'e monitor_client \<Rightarrow> string option \<Rightarrow> monitor_adapter \<Rightarrow> 'e \<Rightarrow> agent_world \<Rightarrow>
   (agent_exn + payload list) \<times> monitor_adapter \<times> 'e \<times> agent_world \<times> monitor_effect list" where
  "monitor_tick pf ask session mn e w = evaluate_active_actions pf ask NoState session mn e w"

section \<open>What an evaluation does to the registry\<close>

definition not_running :: "registry \<Rightarrow> string \<Rightarrow> bool" where
  "not_running rg i \<longleftrightarrow> (\<forall>r. map_of (rg_records rg) i = Some r \<longrightarrow> \<not> is_running r)"

text \<open>Records only end.\<close>

definition only_ends :: "registry \<Rightarrow> registry \<Rightarrow> bool" where
  "only_ends rg rg' \<longleftrightarrow>
     (\<forall>i. map_of (rg_records rg') i = map_of (rg_records rg) i \<or> not_running rg' i)"

lemma only_ends_refl [simp]: "only_ends rg rg"
  by (simp add: only_ends_def)

lemma only_ends_trans: "only_ends rg rg1 \<Longrightarrow> only_ends rg1 rg2 \<Longrightarrow> only_ends rg rg2"
  unfolding only_ends_def not_running_def by metis

lemma only_ends_keeps: "only_ends rg rg' \<Longrightarrow> not_running rg i \<Longrightarrow> not_running rg' i"
  unfolding only_ends_def not_running_def by metis

lemma put_record_records [simp]: "rg_records (put_record i r rg) = AList.update i r (rg_records rg)"
  by (simp add: put_record_def)

lemma clear_running_records [simp]: "rg_records (clear_running_index r rg) = rg_records rg"
  by (simp add: clear_running_index_def)

lemma ended_phases [simp]:
  "\<not> is_running (failed_record er ex t time r)" "\<not> is_running (stopped_record re ex t time r)"
  by (simp_all add: is_running_def failed_record_def stopped_record_def)

lemma terminal_not_running: "is_terminal r \<Longrightarrow> \<not> is_running r"
  by (auto simp: is_terminal_def is_running_def)

lemma put_ends:
  assumes "\<not> is_running s" and "rg_records rg' = AList.update i s (rg_records rg)"
  shows "only_ends rg rg'" "not_running rg' i"
  using assms by (auto simp: only_ends_def not_running_def update_conv' split: if_splits)

lemma fail_ends:
  assumes "fail_action pf i er ex t rg w = (x, rg', w', eff)"
  shows "only_ends rg rg'" "not_running rg' i"
  using assms terminal_not_running
  by (auto simp: fail_action_def Let_def not_running_def update_conv'
      split: option.splits if_splits prod.splits intro!: put_ends(1) [where i = i])

lemma stop_ends:
  assumes "stop_action pf i re ex t rg w = (x, rg', w', eff)"
  shows "only_ends rg rg'" "not_running rg' i"
  using assms terminal_not_running
  by (auto simp: stop_action_def internal_stop_def Let_def not_running_def update_conv'
      split: option.splits if_splits prod.splits intro!: put_ends(1) [where i = i])

lemma execute_stop_ends:
  assumes "execute_stop pf r reason failure er rg w = (s, rg', w', eff)"
  shows "only_ends rg rg'" "not_running rg' (rec_action_id r)"
proof -
  obtain x w1 eff1 where "(if failure then fail_action pf (rec_action_id r) (or_text er reason) None (rec_turn_id r) rg w
      else stop_action pf (rec_action_id r) reason None (rec_turn_id r) rg w) = (x, rg', w1, eff1)"
    using assms by (auto simp: execute_stop_def split: prod.splits sum.splits option.splits)
  then show "only_ends rg rg'" "not_running rg' (rec_action_id r)"
    by (auto intro: fail_ends stop_ends split: if_splits)
qed

lemma error_ends:
  assumes "handle_monitor_error pf r q msg mn w = (d, mn', w', eff)"
  shows "only_ends (mn_registry mn) (mn_registry mn')" "not_running (mn_registry mn') (rec_action_id r)"
    and "get_key d ''outcome'' = PStr ''ERROR''"
proof -
  obtain s rg1 w1 eff1 where
    x: "execute_stop pf r (''failsafe_monitor_error:'' @ msg) True msg (mn_registry mn) w = (s, rg1, w1, eff1)"
    by (metis prod.collapse)
  with assms have "mn_registry mn' = rg1" "get_key d ''outcome'' = PStr ''ERROR''"
    by (auto simp: handle_monitor_error_def Let_def get_key_def split: prod.splits)
  with execute_stop_ends [OF x] show "only_ends (mn_registry mn) (mn_registry mn')"
    "not_running (mn_registry mn') (rec_action_id r)" "get_key d ''outcome'' = PStr ''ERROR''" by simp_all
qed

text \<open>The guardrail kept the action: its answer is an ALLOW and no error.\<close>

definition says_allow :: "payload \<Rightarrow> bool" where
  "says_allow dec \<longleftrightarrow> get_key dec ''kind'' \<noteq> PStr ''error'' \<and> get_key dec ''outcome'' = PStr ''ALLOW''"

lemma allow_outcome: "py_or v (PStr ''UNKNOWN'') = PStr ''ALLOW'' \<longleftrightarrow> v = PStr ''ALLOW''"
  by (auto simp: py_or_def)

lemma decision_ends:
  assumes "handle_monitor_decision pf r q dec mn w = (d, mn', w', eff)"
  shows "only_ends (mn_registry mn) (mn_registry mn') \<and>
    (not_running (mn_registry mn') (rec_action_id r) \<or> says_allow dec)"
proof (cases "get_key dec ''kind'' = PStr ''error'' \<or> get_key dec ''outcome'' = PStr ''ALLOW''")
  case True
  with assms error_ends show ?thesis
    by (auto simp: handle_monitor_decision_def says_allow_def allow_outcome Let_def split: if_splits)
next
  case False
  obtain s rg1 w1 eff1 where
    x: "execute_stop pf r (''monitor_stop:'' @ py_str pf (get_or dec ''reason_code'' (PStr ''MONITOR_STOP''))) False []
      (mn_registry mn) w = (s, rg1, w1, eff1)"
    by (metis prod.collapse)
  with assms False have "mn_registry mn' = rg1"
    by (auto simp: handle_monitor_decision_def allow_outcome Let_def split: prod.splits)
  with execute_stop_ends [OF x] show ?thesis by simp
qed

text \<open>The guardrail was asked about this action and allowed it.\<close>

definition kept_alive :: "platform \<Rightarrow> 'e monitor_client \<Rightarrow> current_state \<Rightarrow> action_record \<Rightarrow> bool" where
  "kept_alive pf ask current r \<longleftrightarrow>
     (\<exists>q body e dec e'. monitor_payload pf q r current = Inr body \<and> ask body e = (Inr dec, e') \<and> says_allow dec)"

lemma single_ends:
  assumes "evaluate_single_action pf ask current r mn e w = (x, mn', e', w', eff)"
  shows "only_ends (mn_registry mn) (mn_registry mn') \<and>
    (\<forall>d. x = Inr d \<longrightarrow> not_running (mn_registry mn') (rec_action_id r) \<or> kept_alive pf ask current r)"
proof -
  obtain u w1 where u: "draw_uuid w = (u, w1)" by fastforce
  let ?q = "''req-mon-'' @ take 8 (uuid_hex u)"
  show ?thesis
  proof (cases "monitor_payload pf ?q r current")
    case (Inl exn)
    with assms u show ?thesis by (auto simp: evaluate_single_action_def)
  next
    case (Inr body)
    obtain reply e1 where a: "ask body e = (reply, e1)" by fastforce
    show ?thesis
    proof (cases reply)
      case (Inr dec)
      with assms u a \<open>monitor_payload pf ?q r current = Inr body\<close> obtain d where
        "handle_monitor_decision pf r ?q dec (mn\<lparr>mn_evaluations := mn_evaluations mn + 1\<rparr>) w1 = (d, mn', w', eff)"
        by (auto simp: evaluate_single_action_def split: prod.splits)
      from decision_ends [OF this] have "only_ends (mn_registry mn) (mn_registry mn')"
        "not_running (mn_registry mn') (rec_action_id r) \<or> says_allow dec" by simp_all
      moreover have "kept_alive pf ask current r" if "says_allow dec"
        unfolding kept_alive_def using \<open>monitor_payload pf ?q r current = Inr body\<close> a Inr that by blast
      ultimately show ?thesis by blast
    next
      case (Inl err)
      with assms u a \<open>monitor_payload pf ?q r current = Inr body\<close> show ?thesis
        by (cases err) (auto simp: evaluate_single_action_def dest: error_ends split: prod.splits)
    qed
  qed
qed

lemma records_end:
  "evaluate_records pf ask current rs mn e w = (x, mn', e', w', eff) \<Longrightarrow>
   only_ends (mn_registry mn) (mn_registry mn') \<and>
   (\<forall>ds r. x = Inr ds \<longrightarrow> r \<in> set rs \<longrightarrow> is_monitored_intent (rec_intent r) \<longrightarrow>
      not_running (mn_registry mn') (rec_action_id r) \<or> kept_alive pf ask current r)"
proof (induction rs arbitrary: x mn e w mn' e' w' eff)
  case (Cons r rs)
  show ?case
  proof (cases "is_monitored_intent (rec_intent r)")
    case False
    with Cons.IH [of mn e w x mn' e' w' eff] Cons.prems show ?thesis by auto
  next
    case True
    obtain y mn1 e1 w1 eff1 where y: "evaluate_single_action pf ask current r mn e w = (y, mn1, e1, w1, eff1)"
      by (metis prod.collapse)
    note one = single_ends [OF y]
    show ?thesis
    proof (cases y)
      case (Inl exn)
      with Cons.prems True y one show ?thesis by auto
    next
      case (Inr d)
      obtain z mn2 e2 w2 eff2 where z: "evaluate_records pf ask current rs mn1 e1 w1 = (z, mn2, e2, w2, eff2)"
        by (metis prod.collapse)
      from Cons.prems True y Inr z have "mn' = mn2" "\<forall>ds. x = Inr ds \<longrightarrow> (\<exists>ds'. z = Inr ds')"
        by (auto split: sum.splits)
      with Cons.IH [OF z] one Inr show ?thesis
        using only_ends_trans only_ends_keeps by (metis set_ConsD)
    qed
  qed
qed simp

lemma running_kept:
  assumes "registry_run apf xs (ActiveActionRegistry catalog pipeline, w0) = (mn_registry mn, w1)"
    and "evaluate_active_actions pf ask current session mn e w = (Inr ds, mn', e', w', eff)"
    and "get_action i (mn_registry mn') = Some r" "is_running r"
    and "is_monitored_intent (rec_intent r)" "in_session session r"
  shows "kept_alive pf ask current r"
proof -
  note fin = records_end [OF assms(2) [unfolded evaluate_active_actions_def]]
  from assms(3,4) fin have r: "map_of (rg_records (mn_registry mn)) i = Some r"
    by (auto simp: get_action_def only_ends_def not_running_def) metis
  then have "(i, r) \<in> set (rg_records (mn_registry mn))" by (rule map_of_SomeD)
  then have "r \<in> set (get_active_actions session (mn_registry mn))"
    using assms(4,6) by (force simp: get_active_actions_def query_actions_def)
  moreover have "rec_action_id r = i"
    using reg_invD(1) [OF reachable_registry(1) [OF assms(1)]] r by (simp add: recs_of_def)
  ultimately show ?thesis
    using fin assms(3-5) by (auto simp: get_action_def not_running_def)
qed

text \<open>C24. No monitored action survives its evaluation unless the guardrail allows it.  After a batch
  that ran to its end, every running action of a monitored intent in the session is one for which the
  guardrail was asked with this action's identifier and the caller's state, and answered ALLOW; an
  adapter error, an error envelope or any other outcome has stopped it.\<close>

theorem monitor_stops_unless_allowed:
  assumes "registry_run apf xs (ActiveActionRegistry catalog pipeline, w0) = (mn_registry mn, w1)"
    and "evaluate_active_actions pf ask current session mn e w = (Inr ds, mn', e', w', eff)"
    and "get_action i (mn_registry mn') = Some r" "is_running r"
    and "is_monitored_intent (rec_intent r)" "in_session session r"
  shows "kept_alive pf ask current r"
  using assms by (rule running_kept)

text \<open>A registry with one running action.\<close>

definition aac_catalog :: "(string \<times> behavior_config) list" where
  "aac_catalog = [(''activate_aac'', Config (BehaviorConfig ''activate_aac'' ACTIVE_ACTION) [])]"

definition aac_run :: "registry \<times> agent_world" where
  "aac_run = registry_run one_platform [Start (act_start ''s'' ''activate_aac'' ''a1'')]
     (ActiveActionRegistry (Some aac_catalog) True, fixed_world 0)"

definition aac_monitor :: monitor_adapter where
  "aac_monitor = GuardrailMonitorAdapter (Some (fst aac_run)) True"

lemma aac_run_eq: "aac_run = (mn_registry aac_monitor, snd aac_run)"
  by (simp add: aac_monitor_def GuardrailMonitorAdapter_def)

definition always_allow :: "unit monitor_client" where
  "always_allow body e = (Inr [(''outcome'', PStr ''ALLOW'')], e)"

theorem monitor_stops_unless_allowed_witness:
  "\<exists>r. is_running r \<and> kept_alive (platform.truncate one_platform) always_allow NoState r"
proof -
  let ?x = "evaluate_active_actions (platform.truncate one_platform) always_allow NoState None aac_monitor () (fixed_world 1)"
  have "case ?x of (Inr ds, mn', e', w', eff) \<Rightarrow>
      (case get_action ''a1'' (mn_registry mn') of
         None \<Rightarrow> False | Some r \<Rightarrow> is_running r \<and> is_monitored_intent (rec_intent r))
    | _ \<Rightarrow> False"
    by code_simp
  then obtain ds mn' e' w' eff r where x: "?x = (Inr ds, mn', e', w', eff)"
    and r: "get_action ''a1'' (mn_registry mn') = Some r" "is_running r" "is_monitored_intent (rec_intent r)"
    by (auto split: prod.splits sum.splits option.splits)
  have "in_session None r" by (simp add: in_session_def)
  from monitor_stops_unless_allowed [OF aac_run_eq [unfolded aac_run_def] x r this] r(2) show ?thesis by blast
qed

section \<open>Against the guardrail itself\<close>

text \<open>The network between the two services: the adapter's request reaches the guardrail as it was
  sent, and its answer comes back with its status and body.\<close>

definition guardrail_http :: "platform \<Rightarrow> client_config \<Rightarrow> service transport" where
  "guardrail_http pf c url body sv =
     (case handle pf (drop (length (rstrip_slash (cc_base_url c))) url) (PDict body) sv of
        ((st, b), sv') \<Rightarrow> (if st < 400 then Answered (Some (PDict b)) else HttpError (Some (PDict b)), sv'))"

lemma drop_endpoint: "drop (length (rstrip_slash (cc_base_url c))) (endpoint c ''/v1/monitor/evaluate'') = MONITOR_ROUTE"
  by (simp add: endpoint_def MONITOR_ROUTE_def)

lemma payload_has_version: "monitor_payload pf q r current = Inr body \<Longrightarrow> with_contract_version body = body"
  by (auto simp: monitor_payload_def Let_def with_contract_version_def has_key_def
      split: current_state.splits sum.splits)

lemma monitor_payload_state:
  "monitor_payload pf q r (StateObject s) = Inr body \<Longrightarrow>
   \<exists>snap. to_authorization_snapshot pf s = Inr snap \<and> map_of body ''vehicle_state'' = Some (PDict snap)"
  by (auto simp: monitor_payload_def Let_def split: sum.splits)

lemma guardrail_never_keeps:
  "\<not> kept_alive apf (client_monitor fromiso (guardrail_http gpf c) sleep c) (StateObject s) r"
proof
  assume "kept_alive apf (client_monitor fromiso (guardrail_http gpf c) sleep c) (StateObject s) r"
  then obtain q body sv dec sv1 where body: "monitor_payload apf q r (StateObject s) = Inr body"
    and ask: "client_monitor fromiso (guardrail_http gpf c) sleep c body sv = (Inr dec, sv1)"
    and allow: "says_allow dec"
    unfolding kept_alive_def by blast
  from monitor_payload_state [OF body] obtain snap where snap: "to_authorization_snapshot apf s = Inr snap"
    "map_of body ''vehicle_state'' = Some (PDict snap)" by blast
  from agent_snapshot_refused [OF snap, of gpf sv] obtain st b where
    h: "fst (handle gpf MONITOR_ROUTE (PDict body) sv) = (st, b)" "400 \<le> st" "get_key b ''kind'' = PStr ''error''"
    by auto
  from h have "reply_result (fst (guardrail_http gpf c (endpoint c ''/v1/monitor/evaluate'') body sv)) = Some (Inr b)"
    by (auto simp: guardrail_http_def drop_endpoint split: prod.splits)
  then have "fst (post_request (guardrail_http gpf c) sleep c ''/v1/monitor/evaluate'' body False sv) = Inr b"
    unfolding post_request_def by (subst post_attempts.simps) (simp add: case_prod_beta)
  with validated_Inr [OF ask [unfolded client_monitor_def payload_has_version [OF body]]] have "dec = b" by simp
  with allow h(3) show False by (simp add: says_allow_def)
qed

text \<open>With its own state attached, the agent's monitor stops everything.  When the agent
  evaluates its monitored actions on a state change, the guardrail refuses the snapshot every time, so
  after a batch that ran to its end no monitored action of the session is running, whatever the
  policy says of the state.\<close>

theorem own_state_stops_all:
  assumes "registry_run apf xs (ActiveActionRegistry catalog pipeline, w0) = (mn_registry mn, w1)"
    and "evaluate_active_actions pf (client_monitor fromiso (guardrail_http gpf c) sleep c) (StateObject s) session mn sv w =
      (Inr ds, mn', sv', w', eff)"
    and "is_monitored_intent (rec_intent r)" "in_session session r"
  shows "\<not> (get_action i (mn_registry mn') = Some r \<and> is_running r)"
  using running_kept [OF assms(1,2) _ _ assms(3,4)] guardrail_never_keeps by blast

theorem own_state_stops_all_witness:
  "\<exists>ds mn' sv' w' eff r. evaluate_active_actions (platform.truncate wire_demo)
       (client_monitor read_binary (guardrail_http (platform.truncate wire_demo) (GuardrailClientConfig ''http://g'' REAL))
          (\<lambda>t e. e) (GuardrailClientConfig ''http://g'' REAL))
       (StateObject DEFAULT_VEHICLE_STATE) None aac_monitor demo_service (fixed_world 1) = (Inr ds, mn', sv', w', eff) \<and>
     get_action ''a1'' (mn_registry mn') = Some r \<and> \<not> is_running r"
proof -
  let ?x = "evaluate_active_actions (platform.truncate wire_demo)
       (client_monitor read_binary (guardrail_http (platform.truncate wire_demo) (GuardrailClientConfig ''http://g'' REAL))
          (\<lambda>t e. e) (GuardrailClientConfig ''http://g'' REAL))
       (StateObject DEFAULT_VEHICLE_STATE) None aac_monitor demo_service (fixed_world 1)"
  have "case ?x of (Inr ds, mn', sv', w', eff) \<Rightarrow>
      (case get_action ''a1'' (mn_registry mn') of None \<Rightarrow> False | Some r \<Rightarrow> is_monitored_intent (rec_intent r))
    | _ \<Rightarrow> False"
    by code_simp
  then obtain ds mn' sv' w' eff r where x: "?x = (Inr ds, mn', sv', w', eff)"
    and r: "get_action ''a1'' (mn_registry mn') = Some r" "is_monitored_intent (rec_intent r)"
    by (auto split: prod.splits sum.splits option.splits)
  have "in_session None r" by (simp add: in_session_def)
  from own_state_stops_all [OF aac_run_eq [unfolded aac_run_def] x r(2) this, of "''a1''"] x r(1) show ?thesis by blast
qed

text \<open>C25. With an incomplete state the monitor stops nothing.  When a field of the agent's state is
  unavailable, building the request raises, the exception leaves the adapter before the guardrail is
  asked, and every record of the registry stays as it was: the fail-safe stop is not reached.\<close>

theorem incomplete_state_escapes:
  assumes "unavailable_fields s \<noteq> []" and "r \<in> set (get_active_actions session (mn_registry mn))"
    and "is_monitored_intent (rec_intent r)"
  shows "\<exists>w' eff. evaluate_active_actions pf ask (StateObject s) session mn e w =
    (Inl (StateErr (ValidationError ''INCOMPLETE_GUARDRAIL_SNAPSHOT'')), mn, e, w', eff)"
proof -
  have one: "\<exists>w'. evaluate_single_action pf ask (StateObject s) t mn e w =
      (Inl (StateErr (ValidationError ''INCOMPLETE_GUARDRAIL_SNAPSHOT'')), mn, e, w', [])" for t w
    by (simp add: evaluate_single_action_def monitor_payload_def Let_def to_authorization_snapshot_def assms(1)
        split: prod.split)
  have "\<exists>w'. evaluate_records pf ask (StateObject s) rs mn e w =
      (Inl (StateErr (ValidationError ''INCOMPLETE_GUARDRAIL_SNAPSHOT'')), mn, e, w', [])"
    if "r \<in> set rs" for rs w
    using that
  proof (induction rs)
    case (Cons t rs)
    show ?case
    proof (cases "is_monitored_intent (rec_intent t)")
      case True
      then show ?thesis using one [of t w] by auto
    next
      case False
      then show ?thesis using Cons assms(3) by auto
    qed
  qed simp
  from this [OF assms(2)] show ?thesis unfolding evaluate_active_actions_def by blast
qed

definition no_battery :: vehicle_state where
  "no_battery = DEFAULT_VEHICLE_STATE\<lparr>vs_provenance :=
     (case pip_provenance SRC_PRESET (utc 0) [''battery_pct''] of Inr ps \<Rightarrow> ps | Inl _ \<Rightarrow> [])\<rparr>"

theorem incomplete_state_escapes_witness:
  "\<exists>w' eff. evaluate_active_actions (platform.truncate one_platform) always_allow (StateObject no_battery) None
     aac_monitor () (fixed_world 1) =
   (Inl (StateErr (ValidationError ''INCOMPLETE_GUARDRAIL_SNAPSHOT'')), aac_monitor, (), w', eff)"
proof -
  have "unavailable_fields no_battery \<noteq> []" by code_simp
  moreover have "list_ex (\<lambda>r. is_monitored_intent (rec_intent r)) (get_active_actions None (mn_registry aac_monitor))"
    by code_simp
  then obtain r where "r \<in> set (get_active_actions None (mn_registry aac_monitor))" "is_monitored_intent (rec_intent r)"
    by (auto simp: list_ex_iff)
  ultimately show ?thesis by (rule incomplete_state_escapes)
qed

end
