(* ===== verification/CondParser.thy ===== *)
theory CondParser
  imports Conditions Platform
begin

text \<open>
  The parser of the condition language, which stands for \<open>ast.parse\<close> on the grammar the workbook
  uses.  The turns of the loops over operators are never used up, and the depth of the expression
  parser is only felt where Python's own limit of nested parentheses is: the parser is a fixed point
  of the grammar, so \<open>None\<close> is always a syntax error.  Every parser consumes tokens, which is the
  measure.
\<close>

section \<open>Parsers consume tokens\<close>

definition consumes :: "'a parser \<Rightarrow> bool" where
  "consumes p \<longleftrightarrow> (\<forall>ts e us. p ts = Some (e, us) \<longrightarrow> length us < length ts)"

lemma consumesD: "consumes p \<Longrightarrow> p ts = Some (e, us) \<Longrightarrow> length us < length ts"
  by (auto simp: consumes_def)

lemma cmp_token_consumes: "cmp_token ts = Some (c, us) \<Longrightarrow> length us < length ts"
  by (induction ts rule: cmp_token.induct) (auto split: if_splits list.splits token.splits)

lemma p_atom_consumes: "consumes p \<Longrightarrow> consumes (p_atom p)"
  unfolding consumes_def [of "p_atom p"] p_atom_def
  by (fastforce dest: consumesD split: list.splits token.splits if_splits option.splits)

lemma p_cmp_tail_length: "consumes p \<Longrightarrow> p_cmp_tail p n ts = Some (cs, us) \<Longrightarrow> length us \<le> length ts"
proof (induction n arbitrary: ts cs us)
  case (Suc n)
  then show ?case
    by (fastforce dest: cmp_token_consumes consumesD [OF p_atom_consumes] split: option.splits)
qed simp

lemma p_cmp_consumes: "consumes p \<Longrightarrow> consumes (p_cmp p)"
  unfolding consumes_def [of "p_cmp p"]
proof (intro allI impI)
  fix ts e us assume p: "consumes p" and "p_cmp p ts = Some (e, us)"
  then obtain e0 us0 cs where "p_atom p ts = Some (e0, us0)" "p_cmp_tail p (length us0) us0 = Some (cs, us)"
    by (auto simp: p_cmp_def split: option.splits)
  with consumesD [OF p_atom_consumes [OF p]] p_cmp_tail_length [OF p] show "length us < length ts"
    by (meson order.strict_trans1)
qed

lemma p_not_consumes: "consumes p \<Longrightarrow> consumes (p_not p)"
  unfolding consumes_def [of "p_not p"]
proof (intro allI impI)
  fix ts e us assume p: "consumes p" and "p_not p ts = Some (e, us)"
  then show "length us < length ts"
  proof (induction p ts arbitrary: e us rule: p_not.induct)
    case (1 p s ts)
    show ?case
    proof (cases "s = ''not''")
      case True
      with 1(3) obtain e' where "p_not p ts = Some (e', us)" by auto
      from 1(1) [OF True 1(2) this] show ?thesis by simp
    next
      case False
      with 1(3) have "p_cmp p (TName s # ts) = Some (e, us)" by simp
      then show ?thesis by (rule consumesD [OF p_cmp_consumes [OF 1(2)]])
    qed
  qed (simp_all only: p_not.simps, (erule (1) consumesD [OF p_cmp_consumes])+)
qed

lemma p_tail_length: "consumes q \<Longrightarrow> p_tail sep q n ts = Some (es, us) \<Longrightarrow> length us \<le> length ts"
proof (induction n arbitrary: ts es us)
  case (Suc n)
  then show ?case
    by (fastforce dest: consumesD split: list.splits token.splits if_splits option.splits)
qed simp

lemma p_chain_consumes: "consumes q \<Longrightarrow> consumes (p_chain sep b q)"
  unfolding consumes_def [of "p_chain sep b q"]
proof (intro allI impI)
  fix ts e us assume q: "consumes q" and "p_chain sep b q ts = Some (e, us)"
  then obtain e0 us0 es where "q ts = Some (e0, us0)" "p_tail sep q (length us0) us0 = Some (es, us)"
    by (auto simp: p_chain_def split: option.splits)
  with consumesD [OF q] p_tail_length [OF q] show "length us < length ts"
    by (meson order.strict_trans1)
qed

lemma p_or_consumes: "consumes p \<Longrightarrow> consumes (p_or p)"
  unfolding p_or_def p_and_def by (intro p_chain_consumes p_not_consumes)

lemma p_expr_consumes: "consumes (p_expr n)"
proof (induction n)
  case 0
  show ?case by (simp add: consumes_def)
qed (simp add: p_or_consumes)

section \<open>The loops end before their bound\<close>

lemma p_cmp_tail_bound: "consumes p \<Longrightarrow> length ts \<le> n \<Longrightarrow> p_cmp_tail p n ts = p_cmp_tail p (length ts) ts"
proof (induction "length ts" arbitrary: n ts rule: less_induct)
  case less
  show ?case
  proof (cases "cmp_token ts")
    case None
    then show ?thesis by (cases n; cases "length ts") auto
  next
    case (Some cu)
    obtain c us where cu: "cu = (c, us)" by (cases cu)
    note us = cmp_token_consumes [OF Some [unfolded cu]]
    then obtain m k where mk: "length ts = Suc m" "n = Suc k" using less.prems(2) by (cases "length ts"; cases n) auto
    have "p_cmp_tail p k vs = p_cmp_tail p m vs" if "p_atom p us = Some (e, vs)" for e vs
    proof -
      have "length vs < length us" using that by (rule consumesD [OF p_atom_consumes [OF less.prems(1)]])
      then have "length vs < length ts" "length vs \<le> k" "length vs \<le> m" using us mk less.prems(2) by linarith+
      with less.hyps [OF _ less.prems(1)] show ?thesis by metis
    qed
    then have "p_cmp_tail p (Suc k) ts = p_cmp_tail p (Suc m) ts"
      by (cases "p_atom p us") (auto simp: Some cu)
    then show ?thesis by (simp only: mk)
  qed
qed

lemma p_tail_bound: "consumes q \<Longrightarrow> length ts \<le> n \<Longrightarrow> p_tail sep q n ts = p_tail sep q (length ts) ts"
proof (induction "length ts" arbitrary: n ts rule: less_induct)
  case less
  show ?case
  proof (cases ts)
    case Nil
    then show ?thesis by (cases n) auto
  next
    case (Cons t us)
    then obtain k where k: "n = Suc k" using less.prems(2) by (cases n) auto
    have "p_tail sep q k vs = p_tail sep q (length us) vs" if "q us = Some (e, vs)" for e vs
    proof -
      have "length vs < length us" using that by (rule consumesD [OF less.prems(1)])
      then have "length vs < length ts" "length vs \<le> k" "length vs \<le> length us"
        using Cons k less.prems(2) by auto
      with less.hyps [OF _ less.prems(1)] show ?thesis by metis
    qed
    then show ?thesis unfolding k Cons by (auto split: token.split option.split)
  qed
qed

section \<open>A parser reads only what is left of its tokens\<close>

definition agree :: "nat \<Rightarrow> 'a parser \<Rightarrow> 'a parser \<Rightarrow> bool" where
  "agree n p q \<longleftrightarrow> (\<forall>us. length us < n \<longrightarrow> p us = q us)"

lemma agreeD: "agree n p q \<Longrightarrow> length us < n \<Longrightarrow> p us = q us"
  by (simp add: agree_def)

lemma agree_mono: "agree n p q \<Longrightarrow> m \<le> n \<Longrightarrow> agree m p q"
  by (auto simp: agree_def)

lemma p_atom_agree: "agree (length ts) p q \<Longrightarrow> p_atom p ts = p_atom q ts"
  by (cases ts) (auto simp: p_atom_def agreeD split: token.split)

lemma p_cmp_tail_agree: "consumes p \<Longrightarrow> agree (length ts) p q \<Longrightarrow> p_cmp_tail p n ts = p_cmp_tail q n ts"
proof (induction n arbitrary: ts)
  case (Suc n)
  show ?case
  proof (cases "cmp_token ts")
    case (Some cu)
    obtain c us where cu: "cu = (c, us)" by (cases cu)
    note us = cmp_token_consumes [OF Some [unfolded cu]]
    have atom: "p_atom p us = p_atom q us"
      by (rule p_atom_agree [OF agree_mono [OF Suc.prems(2)]]) (use us in simp)
    have "p_cmp_tail p n vs = p_cmp_tail q n vs" if "p_atom p us = Some (e, vs)" for e vs
    proof -
      have "length vs < length us" using that by (rule consumesD [OF p_atom_consumes [OF Suc.prems(1)]])
      with us Suc.prems show ?thesis by (intro Suc.IH agree_mono [OF Suc.prems(2)]) auto
    qed
    then show ?thesis by (auto simp: Some cu atom split: option.split)
  qed simp
qed simp

lemma p_cmp_agree:
  assumes "consumes p" "agree (length ts) p q"
  shows "p_cmp p ts = p_cmp q ts"
proof (cases "p_atom p ts")
  case (Some eu)
  obtain e us where eu: "eu = (e, us)" by (cases eu)
  have "length us < length ts" using Some unfolding eu by (rule consumesD [OF p_atom_consumes [OF assms(1)]])
  then have "p_cmp_tail p (length us) us = p_cmp_tail q (length us) us"
    by (intro p_cmp_tail_agree assms(1) agree_mono [OF assms(2)]) simp
  then show ?thesis by (simp add: p_cmp_def p_atom_agree [OF assms(2), symmetric] Some eu)
qed (simp add: p_cmp_def p_atom_agree [OF assms(2), symmetric])

lemma p_not_agree: "consumes p \<Longrightarrow> agree (length ts) p q \<Longrightarrow> p_not p ts = p_not q ts"
proof (induction p ts rule: p_not.induct)
  case (1 p s us)
  have "p_not p us = p_not q us" if "s = ''not''"
    by (rule 1(1) [OF that 1(2) agree_mono [OF 1(3)]]) simp
  then show ?case using p_cmp_agree [OF 1(2,3)] by simp
qed (simp_all only: p_not.simps, (erule (1) p_cmp_agree)+)

lemma p_tail_agree: "consumes f \<Longrightarrow> agree (length ts) f g \<Longrightarrow> p_tail sep f n ts = p_tail sep g n ts"
proof (induction n arbitrary: ts)
  case (Suc n)
  show ?case
  proof (cases ts)
    case (Cons t us)
    have same: "f us = g us" using Suc.prems(2) Cons by (auto intro: agreeD)
    have "p_tail sep f n vs = p_tail sep g n vs" if "f us = Some (e, vs)" for e vs
    proof -
      have "length vs < length us" using that by (rule consumesD [OF Suc.prems(1)])
      with Cons Suc.prems show ?thesis by (intro Suc.IH agree_mono [OF Suc.prems(2)]) auto
    qed
    then show ?thesis by (auto simp: Cons same [symmetric] split: token.split option.split)
  qed simp
qed simp

lemma p_chain_agree:
  assumes "consumes f" "agree (Suc (length ts)) f g"
  shows "p_chain sep b f ts = p_chain sep b g ts"
proof -
  have "f ts = g ts" using assms(2) by (auto intro: agreeD)
  moreover have "p_tail sep f (length us) us = p_tail sep g (length us) us" if "f ts = Some (e, us)" for e us
    using consumesD [OF assms(1) that] by (intro p_tail_agree assms(1) agree_mono [OF assms(2)]) auto
  ultimately show ?thesis by (auto simp: p_chain_def split: option.split)
qed

lemma p_or_agree:
  assumes "consumes p" "agree (length ts) p q"
  shows "p_or p ts = p_or q ts"
  unfolding p_or_def
proof (rule p_chain_agree)
  show "consumes (p_and p)" unfolding p_and_def by (intro p_chain_consumes p_not_consumes assms(1))
  have same: "p_not p us = p_not q us" if "length us \<le> length ts" for us
    using that by (intro p_not_agree assms(1) agree_mono [OF assms(2)])
  show "agree (Suc (length ts)) (p_and p) (p_and q)"
    unfolding agree_def p_and_def
  proof (intro allI impI)
    fix us :: "token list" assume "length us < Suc (length ts)"
    then have "agree (Suc (length us)) (p_not p) (p_not q)" by (auto simp: agree_def intro: same)
    then show "p_chain ''and'' True (p_not p) us = p_chain ''and'' True (p_not q) us"
      by (rule p_chain_agree [OF p_not_consumes [OF assms(1)]])
  qed
qed

section \<open>The expression parser without fuel\<close>

lemma p_expr_depth: "length ts < n \<Longrightarrow> length ts < m \<Longrightarrow> p_expr n ts = p_expr m ts"
proof (induction "length ts" arbitrary: n m ts rule: less_induct)
  case less
  obtain n' where n: "n = Suc n'" using less.prems(1) by (cases n) auto
  obtain m' where m: "m = Suc m'" using less.prems(2) by (cases m) auto
  have "p_expr n' us = p_expr m' us" if "length us < length ts" for us
    by (rule less.hyps [OF that]) (use less.prems that n m in simp_all)
  then have "agree (length ts) (p_expr n') (p_expr m')" by (simp add: agree_def)
  then show ?case unfolding n m p_expr.simps by (rule p_or_agree [OF p_expr_consumes])
qed

definition parse_tokens :: "expr parser" where
  "parse_tokens ts = p_expr (Suc (length ts)) ts"

lemma parse_tokens_fixpoint: "parse_tokens ts = p_or parse_tokens ts"
proof -
  have "p_expr (length ts) us = parse_tokens us" if "length us < length ts" for us
    unfolding parse_tokens_def using that by (intro p_expr_depth) auto
  then have "agree (length ts) (p_expr (length ts)) parse_tokens" by (simp add: agree_def)
  then have "p_or (p_expr (length ts)) ts = p_or parse_tokens ts" by (rule p_or_agree [OF p_expr_consumes])
  then show ?thesis by (simp add: parse_tokens_def)
qed

text \<open>The parser of conditions always returns, and no answer of it is due to a bound of the model: on
  at most 200 tokens the limit of nested parentheses cannot be reached and the result satisfies the
  grammar's own recursive equation, and the loops over operators stop on their own whatever number
  of turns above the number of tokens they are given.\<close>

lemma parse_tokens_consumes: "consumes parse_tokens"
  unfolding consumes_def parse_tokens_def using consumesD [OF p_expr_consumes] by blast

lemma parser_bound_invisible:
  "source_line s \<Longrightarrow> lex s = Some ts \<Longrightarrow> length ts \<le> MAX_NESTING \<Longrightarrow>
     ast_parse s = (case p_or parse_tokens ts of Some (e, []) \<Rightarrow> Some e | _ \<Rightarrow> None)"
  by (simp add: ast_parse_def parse_tokens_fixpoint [symmetric]) (simp add: parse_tokens_def)

lemma parser_loops_end:
  "p_cmp_tail parse_tokens (length ts + k) ts = p_cmp_tail parse_tokens (length ts) ts"
  "p_tail sep (p_not parse_tokens) (length ts + k) ts = p_tail sep (p_not parse_tokens) (length ts) ts"
  "p_tail sep (p_and parse_tokens) (length ts + k) ts = p_tail sep (p_and parse_tokens) (length ts) ts"
proof -
  note c = parse_tokens_consumes
  then have "consumes (p_not parse_tokens)" "consumes (p_and parse_tokens)"
    by (auto simp: p_and_def intro: p_not_consumes p_chain_consumes)
  then show "p_tail sep (p_not parse_tokens) (length ts + k) ts = p_tail sep (p_not parse_tokens) (length ts) ts"
    "p_tail sep (p_and parse_tokens) (length ts + k) ts = p_tail sep (p_and parse_tokens) (length ts) ts"
    by (intro p_tail_bound; simp)+
  show "p_cmp_tail parse_tokens (length ts + k) ts = p_cmp_tail parse_tokens (length ts) ts"
    by (rule p_cmp_tail_bound [OF c]) simp
qed

end
