(* ===== verification/IntentManifest.thy ===== *)
theory IntentManifest
  imports Catalog Contract Conditions
begin

text \<open>
  \<open>catalog/manifest.py\<close> and \<open>intent_manifest.v1.json\<close>: the intents of the agent, with the kind,
  the domain tool and the behaviour of each.  \<open>validate_manifest\<close> takes the decoded JSON; reading
  the file is left out.  An exception is a readiness error with its code, or one the code does not
  catch.  The sample utterances are checked like the code checks them and then dropped; their
  texts are the bytes of their UTF-8 encoding.
\<close>

datatype readiness_exn = ReadinessError string | ReadinessCrash string

abbreviation InvalidManifest :: readiness_exn where "InvalidManifest \<equiv> ReadinessError ''INVALID_MANIFEST''"

definition MANIFEST_VERSION :: string where
  "MANIFEST_VERSION = ''1.0.0''"

definition ALLOWED_KINDS :: "string list" where
  "ALLOWED_KINDS = [''action'', ''query'', ''refusal'']"

definition ALLOWED_DOMAIN_TOOLS :: "string list" where
  "ALLOWED_DOMAIN_TOOLS =
     [''control_access'', ''control_light'', ''control_cabin'', ''set_drive_mode'', ''control_transmission'',
      ''control_driver_assistance'', ''control_special_mode'', ''control_ui'', ''query_vehicle_state'',
      ''explain_vehicle_feature'', ''control_vehicle_capability'']"

definition ALLOWED_BEHAVIORS :: "string list" where
  "ALLOWED_BEHAVIORS =
     [''access_mutation'', ''toggle'', ''enum_mutation'', ''active_mode'', ''position_mutation'',
      ''active_action'', ''timed_mutation'', ''compound_mutation'', ''compound_toggle'', ''ui_event'',
      ''state_query'', ''knowledge_query'', ''explicit_refusal'']"

definition BEHAVIORS_BY_KIND :: "string \<Rightarrow> string list" where
  "BEHAVIORS_BY_KIND kind =
     (if kind = ''action''
      then filter (\<lambda>b. b \<notin> {''state_query'', ''knowledge_query'', ''explicit_refusal''}) ALLOWED_BEHAVIORS
      else if kind = ''query'' then [''state_query'', ''knowledge_query'']
      else if kind = ''refusal'' then [''explicit_refusal''] else [])"

record intent_definition =
  id_intent :: string
  id_kind :: string
  id_domain_tool :: string
  id_behavior :: string
  id_required :: "string list"
  id_monitor_rules :: "string list"

definition is_query_intent :: "intent_definition \<Rightarrow> bool" where
  "is_query_intent d = (id_kind d = ''query'')"

definition is_action_intent :: "intent_definition \<Rightarrow> bool" where
  "is_action_intent d = (id_kind d \<in> {''action'', ''refusal''})"

definition monitor_capable :: "intent_definition \<Rightarrow> bool" where
  "monitor_capable d = (id_monitor_rules d \<noteq> [])"

record intent_manifest =
  im_version :: string
  im_catalog_source :: string
  im_checksum :: string
  im_intents :: "intent_definition list"

definition by_intent :: "intent_manifest \<Rightarrow> string \<Rightarrow> intent_definition option" where
  "by_intent m intent = find (\<lambda>d. id_intent d = intent) (im_intents m)"

section \<open>Validation\<close>

definition canonical_payload :: "payload \<Rightarrow> payload" where
  "canonical_payload raw = filter (\<lambda>(k, v). k \<noteq> ''checksum'') raw"

definition document_checksum :: "platform \<Rightarrow> payload \<Rightarrow> readiness_exn + string" where
  "document_checksum pf raw =
     (case dumps pf (PDict (canonical_payload raw)) of
        None \<Rightarrow> Inl (ReadinessCrash ''ValueError'')
      | Some text \<Rightarrow> Inr (''sha256:'' @ pf_sha256 pf text))"

fun require_string :: "pyval \<Rightarrow> readiness_exn + string" where
  "require_string (PStr s) = (if strip s = [] then Inl InvalidManifest else Inr s)"
| "require_string _ = Inl InvalidManifest"

fun require_strings :: "pyval list \<Rightarrow> readiness_exn + string list" where
  "require_strings [] = Inr []"
| "require_strings (v # vs) =
     (case require_string v of
        Inl e \<Rightarrow> Inl e
      | Inr s \<Rightarrow> (case require_strings vs of Inl e \<Rightarrow> Inl e | Inr ss \<Rightarrow> Inr (s # ss)))"

definition string_tuple :: "bool \<Rightarrow> pyval \<Rightarrow> readiness_exn + string list" where
  "string_tuple non_empty v =
     (case v of
        PList vs \<Rightarrow>
          if non_empty \<and> vs = [] then Inl InvalidManifest
          else (case require_strings vs of
                  Inl e \<Rightarrow> Inl e
                | Inr ss \<Rightarrow> if distinct ss then Inr ss else Inl InvalidManifest)
      | _ \<Rightarrow> Inl InvalidManifest)"

definition same_keys :: "payload \<Rightarrow> string list \<Rightarrow> bool" where
  "same_keys d ks \<longleftrightarrow> set (map fst d) = set ks"

definition ENTRY_FIELDS :: "string list" where
  "ENTRY_FIELDS = [''intent'', ''kind'', ''domain_tool'', ''behavior_category'', ''required_parameters'',
     ''monitor_rule_ids'', ''sample_utterances'']"

definition intent_def ::
  "string \<Rightarrow> string \<Rightarrow> string \<Rightarrow> string \<Rightarrow> string list \<Rightarrow> string list \<Rightarrow> intent_definition" where
  "intent_def intent kind tool behavior required rules =
     \<lparr>id_intent = intent, id_kind = kind, id_domain_tool = tool, id_behavior = behavior,
      id_required = required, id_monitor_rules = rules\<rparr>"

text \<open>One entry of the document.\<close>

definition manifest_entry :: "pyval \<Rightarrow> readiness_exn + intent_definition" where
  "manifest_entry v =
     (if \<not> is_dict v \<or> \<not> same_keys (dict_of v) ENTRY_FIELDS then Inl InvalidManifest
      else
        (let get = get_key (dict_of v) in
         case require_string (get ''intent'') of Inl e \<Rightarrow> Inl e | Inr intent \<Rightarrow>
        (case require_string (get ''kind'') of Inl e \<Rightarrow> Inl e | Inr kind \<Rightarrow>
        (case require_string (get ''domain_tool'') of Inl e \<Rightarrow> Inl e | Inr tool \<Rightarrow>
        (case require_string (get ''behavior_category'') of Inl e \<Rightarrow> Inl e | Inr behavior \<Rightarrow>
           if kind \<notin> set ALLOWED_KINDS then Inl InvalidManifest
           else if tool \<notin> set ALLOWED_DOMAIN_TOOLS then Inl InvalidManifest
           else if behavior \<notin> set (BEHAVIORS_BY_KIND kind) then Inl InvalidManifest
           else
             (case string_tuple False (get ''required_parameters'') of Inl e \<Rightarrow> Inl e | Inr required \<Rightarrow>
             (case string_tuple False (get ''monitor_rule_ids'') of Inl e \<Rightarrow> Inl e | Inr rules \<Rightarrow>
             (case string_tuple True (get ''sample_utterances'') of Inl e \<Rightarrow> Inl e | Inr utterances \<Rightarrow>
                Inr (intent_def intent kind tool behavior required rules)))))))))"

fun manifest_entries :: "pyval list \<Rightarrow> readiness_exn + intent_definition list" where
  "manifest_entries [] = Inr []"
| "manifest_entries (v # vs) =
     (case manifest_entry v of
        Inl e \<Rightarrow> Inl e
      | Inr d \<Rightarrow> (case manifest_entries vs of Inl e \<Rightarrow> Inl e | Inr ds \<Rightarrow> Inr (d # ds)))"

definition candidate_definition :: "candidate_capability \<Rightarrow> intent_definition" where
  "candidate_definition c =
     intent_def (cc_intent c) (cc_kind c)
       (if cc_intent c = ''turnon_LKA'' then ''control_driver_assistance'' else ''control_vehicle_capability'')
       (if cc_kind c = ''query'' then ''state_query'' else ''ui_event'')
       (if cc_requires_value c then [''value''] else []) []"

definition CANDIDATE_DEFINITIONS :: "intent_definition list" where
  "CANDIDATE_DEFINITIONS = map candidate_definition CANDIDATE_CAPABILITIES"

text \<open>The checks of the whole inventory.\<close>

definition inventory_error :: "intent_definition list \<Rightarrow> readiness_exn option" where
  "inventory_error ds =
     (let names = map id_intent ds; fail = (\<lambda>ok code. if ok then None else Some (ReadinessError code)) in
      first_error
        [fail (distinct names) ''DUPLICATE_INTENT'',
         fail (set names = set APPROVED_INTENTS) ''INTENT_COVERAGE_MISMATCH'',
         fail (set names \<inter> set FORBIDDEN_DYNAMICS_INTENTS = {}) ''FORBIDDEN_DYNAMICS_INTENT'',
         fail (set (map id_intent (filter is_query_intent ds)) = set AGENT_QUERY_INTENTS)
           ''QUERY_COVERAGE_MISMATCH'',
         fail (case find (\<lambda>d. id_intent d = ''deactivate_esc'') ds of
                 None \<Rightarrow> False | Some d \<Rightarrow> id_kind d = ''refusal'' \<and> id_behavior d = ''explicit_refusal'')
           ''REFUSAL_BEHAVIOR_MISMATCH'',
         fail (set (map id_intent (filter monitor_capable ds)) = set AGENT_MONITORED_INTENTS)
           ''MONITOR_COVERAGE_MISMATCH''])"

definition validate_manifest :: "platform \<Rightarrow> pyval \<Rightarrow> readiness_exn + intent_manifest" where
  "validate_manifest pf v =
     (if \<not> is_dict v then Inl InvalidManifest
      else
        (let raw = dict_of v in
         if \<not> same_keys raw [''manifest_version'', ''catalog_source'', ''checksum'', ''intents'']
         then Inl InvalidManifest
         else
        (case require_string (get_key raw ''manifest_version'') of Inl e \<Rightarrow> Inl e | Inr version \<Rightarrow>
           if version \<noteq> MANIFEST_VERSION then Inl (ReadinessError ''MANIFEST_VERSION_MISMATCH'') else
        (case require_string (get_key raw ''catalog_source'') of Inl e \<Rightarrow> Inl e | Inr source \<Rightarrow>
        (case require_string (get_key raw ''checksum'') of Inl e \<Rightarrow> Inl e | Inr checksum \<Rightarrow>
        (case document_checksum pf raw of Inl e \<Rightarrow> Inl e | Inr expected \<Rightarrow>
           if checksum \<noteq> expected then Inl (ReadinessError ''MANIFEST_CHECKSUM_MISMATCH'')
           else
             (case get_key raw ''intents'' of
                PList entries \<Rightarrow>
                  (case manifest_entries entries of
                     Inl e \<Rightarrow> Inl e
                   | Inr base \<Rightarrow>
                       (let ds = base @ CANDIDATE_DEFINITIONS in
                        case inventory_error ds of
                          Some e \<Rightarrow> Inl e
                        | None \<Rightarrow>
                            Inr \<lparr>im_version = version,
                                 im_catalog_source = source @
                                   ''; Intents_Candidate.xlsx#Intents_Candidate (70 Agent capabilities, no policy conditions)'',
                                 im_checksum = checksum, im_intents = ds\<rparr>))
              | _ \<Rightarrow> Inl InvalidManifest)))))))"

section \<open>The committed document\<close>

type_synonym manifest_row =
  "string \<times> string \<times> string \<times> string \<times> string list \<times> string list \<times> string list"

text \<open>The intent, kind, domain tool, behaviour category, required parameters, monitor rules and
  sample utterances of each entry.\<close>

definition MANIFEST_ROWS :: "manifest_row list" where
  "MANIFEST_ROWS =
     [
      (''open_door'', ''action'', ''control_access'', ''access_mutation'', [''door''], [],
        [(''M'' @ [CHR 0xE1, CHR 0xBB, CHR 0x9F] @ '' c'' @ [CHR 0xE1, CHR 0xBB, CHR 0xAD] @ ''a gh'' @ [CHR 0xE1, CHR 0xBA, CHR 0xBF] @ '' l'' @ [CHR 0xC3, CHR 0xA1] @ ''i'')]),
      (''open_trunk'', ''action'', ''control_access'', ''access_mutation'', [], [],
        [(''M'' @ [CHR 0xE1, CHR 0xBB, CHR 0x9F] @ '' c'' @ [CHR 0xE1, CHR 0xBB, CHR 0x91] @ ''p xe'')]),
      (''open_chargeport'', ''action'', ''control_access'', ''access_mutation'', [], [],
        [(''M'' @ [CHR 0xE1, CHR 0xBB, CHR 0x9F] @ '' c'' @ [CHR 0xE1, CHR 0xBB, CHR 0x95] @ ''ng s'' @ [CHR 0xE1, CHR 0xBA, CHR 0xA1] @ ''c'')]),
      (''turnoff_highbeam'', ''action'', ''control_light'', ''toggle'', [], [],
        [(''T'' @ [CHR 0xE1, CHR 0xBA, CHR 0xAF] @ ''t '' @ [CHR 0xC4, CHR 0x91, CHR 0xC3, CHR 0xA8] @ ''n chi'' @ [CHR 0xE1, CHR 0xBA, CHR 0xBF] @ ''u xa'')]),
      (''turnon_highbeam'', ''action'', ''control_light'', ''toggle'', [], [],
        [(''B'' @ [CHR 0xE1, CHR 0xBA, CHR 0xAD] @ ''t '' @ [CHR 0xC4, CHR 0x91, CHR 0xC3, CHR 0xA8] @ ''n chi'' @ [CHR 0xE1, CHR 0xBA, CHR 0xBF] @ ''u xa'')]),
      (''turnoff_lowbeam'', ''action'', ''control_light'', ''toggle'', [], [],
        [(''T'' @ [CHR 0xE1, CHR 0xBA, CHR 0xAF] @ ''t '' @ [CHR 0xC4, CHR 0x91, CHR 0xC3, CHR 0xA8] @ ''n chi'' @ [CHR 0xE1, CHR 0xBA, CHR 0xBF] @ ''u g'' @ [CHR 0xE1, CHR 0xBA, CHR 0xA7] @ ''n'')]),
      (''turnon_lowbeam'', ''action'', ''control_light'', ''toggle'', [], [],
        [(''B'' @ [CHR 0xE1, CHR 0xBA, CHR 0xAD] @ ''t '' @ [CHR 0xC4, CHR 0x91, CHR 0xC3, CHR 0xA8] @ ''n chi'' @ [CHR 0xE1, CHR 0xBA, CHR 0xBF] @ ''u g'' @ [CHR 0xE1, CHR 0xBA, CHR 0xA7] @ ''n'')]),
      (''lock_doors'', ''action'', ''control_access'', ''access_mutation'', [], [],
        [(''Kh'' @ [CHR 0xC3, CHR 0xB3] @ ''a c'' @ [CHR 0xC3, CHR 0xA1] @ ''c c'' @ [CHR 0xE1, CHR 0xBB, CHR 0xAD] @ ''a xe'')]),
      (''unlock_doors'', ''action'', ''control_access'', ''access_mutation'', [], [],
        [(''M'' @ [CHR 0xE1, CHR 0xBB, CHR 0x9F] @ '' kh'' @ [CHR 0xC3, CHR 0xB3] @ ''a c'' @ [CHR 0xC3, CHR 0xA1] @ ''c c'' @ [CHR 0xE1, CHR 0xBB, CHR 0xAD] @ ''a xe'')]),
      (''OPEN_BONNET'', ''action'', ''control_access'', ''access_mutation'', [], [],
        [(''M'' @ [CHR 0xE1, CHR 0xBB, CHR 0x9F] @ '' n'' @ [CHR 0xE1, CHR 0xBA, CHR 0xAF] @ ''p ca-p'' @ [CHR 0xC3, CHR 0xB4])]),
      (''AD_WIPER_MAX'', ''action'', ''control_cabin'', ''enum_mutation'', [], [],
        [(''G'' @ [CHR 0xE1, CHR 0xBA, CHR 0xA1] @ ''t m'' @ [CHR 0xC6, CHR 0xB0] @ ''a m'' @ [CHR 0xE1, CHR 0xBB, CHR 0xA9] @ ''c t'' @ [CHR 0xE1, CHR 0xBB, CHR 0x91] @ ''i '' @ [CHR 0xC4, CHR 0x91] @ ''a'')]),
      (''switch_drivemode_sport'', ''action'', ''set_drive_mode'', ''enum_mutation'', [], [],
        [(''Chuy'' @ [CHR 0xE1, CHR 0xBB, CHR 0x83] @ ''n sang ch'' @ [CHR 0xE1, CHR 0xBA, CHR 0xBF] @ '' '' @ [CHR 0xC4, CHR 0x91, CHR 0xE1, CHR 0xBB, CHR 0x99] @ '' l'' @ [CHR 0xC3, CHR 0xA1] @ ''i th'' @ [CHR 0xE1, CHR 0xBB, CHR 0x83] @ '' thao'')]),
      (''switch_drivemode_eco'', ''action'', ''set_drive_mode'', ''enum_mutation'', [], [],
        [(''Chuy'' @ [CHR 0xE1, CHR 0xBB, CHR 0x83] @ ''n sang ch'' @ [CHR 0xE1, CHR 0xBA, CHR 0xBF] @ '' '' @ [CHR 0xC4, CHR 0x91, CHR 0xE1, CHR 0xBB, CHR 0x99] @ '' l'' @ [CHR 0xC3, CHR 0xA1] @ ''i ti'' @ [CHR 0xE1, CHR 0xBA, CHR 0xBF] @ ''t ki'' @ [CHR 0xE1, CHR 0xBB, CHR 0x87] @ ''m'')]),
      (''switch_drivemode_normal'', ''action'', ''set_drive_mode'', ''enum_mutation'', [], [],
        [(''Chuy'' @ [CHR 0xE1, CHR 0xBB, CHR 0x83] @ ''n sang ch'' @ [CHR 0xE1, CHR 0xBA, CHR 0xBF] @ '' '' @ [CHR 0xC4, CHR 0x91, CHR 0xE1, CHR 0xBB, CHR 0x99] @ '' l'' @ [CHR 0xC3, CHR 0xA1] @ ''i th'' @ [CHR 0xC6, CHR 0xB0, CHR 0xE1, CHR 0xBB, CHR 0x9D] @ ''ng'')]),
      (''activate_creepmode'', ''action'', ''control_special_mode'', ''toggle'', [], [],
        [(''B'' @ [CHR 0xE1, CHR 0xBA, CHR 0xAD] @ ''t ch'' @ [CHR 0xE1, CHR 0xBA, CHR 0xBF] @ '' '' @ [CHR 0xC4, CHR 0x91, CHR 0xE1, CHR 0xBB, CHR 0x99] @ '' b'' @ [CHR 0xC3, CHR 0xB2])]),
      (''turnoff_LKA'', ''action'', ''control_driver_assistance'', ''toggle'', [], [],
        [(''T'' @ [CHR 0xE1, CHR 0xBA, CHR 0xAF] @ ''t h'' @ [CHR 0xE1, CHR 0xBB, CHR 0x97] @ '' tr'' @ [CHR 0xE1, CHR 0xBB, CHR 0xA3] @ '' gi'' @ [CHR 0xE1, CHR 0xBB, CHR 0xAF] @ '' l'' @ [CHR 0xC3, CHR 0xA0] @ ''n'')]),
      (''activate_campmode'', ''action'', ''control_special_mode'', ''active_mode'', [], [''R033''],
        [(''B'' @ [CHR 0xE1, CHR 0xBA, CHR 0xAD] @ ''t ch'' @ [CHR 0xE1, CHR 0xBA, CHR 0xBF] @ '' '' @ [CHR 0xC4, CHR 0x91, CHR 0xE1, CHR 0xBB, CHR 0x99] @ '' c'' @ [CHR 0xE1, CHR 0xBA, CHR 0xAF] @ ''m tr'' @ [CHR 0xE1, CHR 0xBA, CHR 0xA1] @ ''i'')]),
      (''activate_petmode'', ''action'', ''control_special_mode'', ''active_mode'', [], [''R037''],
        [(''B'' @ [CHR 0xE1, CHR 0xBA, CHR 0xAD] @ ''t ch'' @ [CHR 0xE1, CHR 0xBA, CHR 0xBF] @ '' '' @ [CHR 0xC4, CHR 0x91, CHR 0xE1, CHR 0xBB, CHR 0x99] @ '' th'' @ [CHR 0xC3, CHR 0xBA] @ '' c'' @ [CHR 0xC6, CHR 0xB0] @ ''ng'')]),
      (''activate_valetmode'', ''action'', ''control_special_mode'', ''active_mode'', [], [],
        [(''B'' @ [CHR 0xE1, CHR 0xBA, CHR 0xAD] @ ''t ch'' @ [CHR 0xE1, CHR 0xBA, CHR 0xBF] @ '' '' @ [CHR 0xC4, CHR 0x91, CHR 0xE1, CHR 0xBB, CHR 0x99] @ '' valet'')]),
      (''SHIFT_GEAR_REVERSE'', ''action'', ''control_transmission'', ''enum_mutation'', [], [],
        [(''Chuy'' @ [CHR 0xE1, CHR 0xBB, CHR 0x83] @ ''n sang s'' @ [CHR 0xE1, CHR 0xBB, CHR 0x91] @ '' l'' @ [CHR 0xC3, CHR 0xB9] @ ''i'')]),
      (''ad_steeringwheel'', ''action'', ''control_cabin'', ''position_mutation'', [''direction''], [],
        [([CHR 0xC4, CHR 0x90] @ ''i'' @ [CHR 0xE1, CHR 0xBB, CHR 0x81] @ ''u ch'' @ [CHR 0xE1, CHR 0xBB, CHR 0x89] @ ''nh v'' @ [CHR 0xC3, CHR 0xB4] @ '' l'' @ [CHR 0xC4, CHR 0x83] @ ''ng l'' @ [CHR 0xC3, CHR 0xAA] @ ''n'')]),
      (''activate_autopark'', ''action'', ''control_driver_assistance'', ''active_action'', [], [''R048''],
        [(''B'' @ [CHR 0xE1, CHR 0xBA, CHR 0xAF] @ ''t '' @ [CHR 0xC4, CHR 0x91, CHR 0xE1, CHR 0xBA, CHR 0xA7] @ ''u t'' @ [CHR 0xE1, CHR 0xBB, CHR 0xB1] @ '' '' @ [CHR 0xC4, CHR 0x91, CHR 0xE1, CHR 0xBB, CHR 0x99] @ ''ng '' @ [CHR 0xC4, CHR 0x91, CHR 0xE1, CHR 0xBB, CHR 0x97] @ '' xe'')]),
      (''fold_backseat'', ''action'', ''control_cabin'', ''timed_mutation'', [], [],
        [(''G'' @ [CHR 0xE1, CHR 0xBA, CHR 0xAD] @ ''p h'' @ [CHR 0xC3, CHR 0xA0] @ ''ng gh'' @ [CHR 0xE1, CHR 0xBA, CHR 0xBF] @ '' sau'')]),
      (''open_sunroof'', ''action'', ''control_cabin'', ''position_mutation'', [], [],
        [(''M'' @ [CHR 0xE1, CHR 0xBB, CHR 0x9F] @ '' c'' @ [CHR 0xE1, CHR 0xBB, CHR 0xAD] @ ''a s'' @ [CHR 0xE1, CHR 0xBB, CHR 0x95] @ '' tr'' @ [CHR 0xE1, CHR 0xBB, CHR 0x9D] @ ''i'')]),
      (''ad_driverseat_angle'', ''action'', ''control_cabin'', ''position_mutation'', [''direction''], [],
        [([CHR 0xC4, CHR 0x90] @ ''i'' @ [CHR 0xE1, CHR 0xBB, CHR 0x81] @ ''u ch'' @ [CHR 0xE1, CHR 0xBB, CHR 0x89] @ ''nh g'' @ [CHR 0xC3, CHR 0xB3] @ ''c gh'' @ [CHR 0xE1, CHR 0xBA, CHR 0xBF] @ '' l'' @ [CHR 0xC3, CHR 0xA1] @ ''i'')]),
      (''ad_driverseat_pos'', ''action'', ''control_cabin'', ''position_mutation'', [''direction''], [],
        [(''D'' @ [CHR 0xE1, CHR 0xBB, CHR 0x8B] @ ''ch gh'' @ [CHR 0xE1, CHR 0xBA, CHR 0xBF] @ '' l'' @ [CHR 0xC3, CHR 0xA1] @ ''i v'' @ [CHR 0xE1, CHR 0xBB, CHR 0x81] @ '' ph'' @ [CHR 0xC3, CHR 0xAD] @ ''a tr'' @ [CHR 0xC6, CHR 0xB0, CHR 0xE1, CHR 0xBB, CHR 0x9B] @ ''c'')]),
      (''open_window'', ''action'', ''control_cabin'', ''position_mutation'', [''window''], [],
        [(''M'' @ [CHR 0xE1, CHR 0xBB, CHR 0x9F] @ '' c'' @ [CHR 0xE1, CHR 0xBB, CHR 0xAD] @ ''a s'' @ [CHR 0xE1, CHR 0xBB, CHR 0x95] @ '' gh'' @ [CHR 0xE1, CHR 0xBA, CHR 0xBF] @ '' l'' @ [CHR 0xC3, CHR 0xA1] @ ''i'')]),
      (''restore_driverseat_pos'', ''action'', ''control_cabin'', ''compound_mutation'', [], [],
        [(''Kh'' @ [CHR 0xC3, CHR 0xB4] @ ''i ph'' @ [CHR 0xE1, CHR 0xBB, CHR 0xA5] @ ''c v'' @ [CHR 0xE1, CHR 0xBB, CHR 0x8B] @ '' tr'' @ [CHR 0xC3, CHR 0xAD] @ '' gh'' @ [CHR 0xE1, CHR 0xBA, CHR 0xBF] @ '' l'' @ [CHR 0xC3, CHR 0xA1] @ ''i'')]),
      (''activate_epb'', ''action'', ''control_transmission'', ''toggle'', [], [],
        [(''B'' @ [CHR 0xE1, CHR 0xBA, CHR 0xAD] @ ''t phanh tay '' @ [CHR 0xC4, CHR 0x91] @ ''i'' @ [CHR 0xE1, CHR 0xBB, CHR 0x87] @ ''n t'' @ [CHR 0xE1, CHR 0xBB, CHR 0xAD])]),
      (''deactivate_hud'', ''action'', ''control_ui'', ''toggle'', [], [],
        [(''T'' @ [CHR 0xE1, CHR 0xBA, CHR 0xAF] @ ''t m'' @ [CHR 0xC3, CHR 0xA0] @ ''n h'' @ [CHR 0xC3, CHR 0xAC] @ ''nh HUD'')]),
      (''activate_aac'', ''action'', ''control_driver_assistance'', ''active_action'', [], [''R070''],
        [(''B'' @ [CHR 0xE1, CHR 0xBA, CHR 0xAD] @ ''t ki'' @ [CHR 0xE1, CHR 0xBB, CHR 0x83] @ ''m so'' @ [CHR 0xC3, CHR 0xA1] @ ''t h'' @ [CHR 0xC3, CHR 0xA0] @ ''nh tr'' @ [CHR 0xC3, CHR 0xAC] @ ''nh th'' @ [CHR 0xC3, CHR 0xAD] @ ''ch '' @ [CHR 0xE1, CHR 0xBB, CHR 0xA9] @ ''ng'')]),
      (''activate_hda'', ''action'', ''control_driver_assistance'', ''active_action'', [], [''R073''],
        [(''B'' @ [CHR 0xE1, CHR 0xBA, CHR 0xAD] @ ''t h'' @ [CHR 0xE1, CHR 0xBB, CHR 0x97] @ '' tr'' @ [CHR 0xE1, CHR 0xBB, CHR 0xA3] @ '' l'' @ [CHR 0xC3, CHR 0xA1] @ ''i tr'' @ [CHR 0xC3, CHR 0xAA] @ ''n cao t'' @ [CHR 0xE1, CHR 0xBB, CHR 0x91] @ ''c'')]),
      (''shift_gear_park'', ''action'', ''control_transmission'', ''enum_mutation'', [], [],
        [(''Chuy'' @ [CHR 0xE1, CHR 0xBB, CHR 0x83] @ ''n v'' @ [CHR 0xE1, CHR 0xBB, CHR 0x81] @ '' s'' @ [CHR 0xE1, CHR 0xBB, CHR 0x91] @ '' '' @ [CHR 0xC4, CHR 0x91, CHR 0xE1, CHR 0xBB, CHR 0x97])]),
      (''fold_mirrors'', ''action'', ''control_cabin'', ''timed_mutation'', [], [],
        [(''G'' @ [CHR 0xE1, CHR 0xBA, CHR 0xAD] @ ''p g'' @ [CHR 0xC6, CHR 0xB0, CHR 0xC6, CHR 0xA1] @ ''ng chi'' @ [CHR 0xE1, CHR 0xBA, CHR 0xBF] @ ''u h'' @ [CHR 0xE1, CHR 0xBA, CHR 0xAD] @ ''u'')]),
      (''activate_ahb'', ''action'', ''control_light'', ''toggle'', [], [],
        [(''B'' @ [CHR 0xE1, CHR 0xBA, CHR 0xAD] @ ''t '' @ [CHR 0xC4, CHR 0x91, CHR 0xC3, CHR 0xA8] @ ''n pha t'' @ [CHR 0xE1, CHR 0xBB, CHR 0xB1] @ '' '' @ [CHR 0xC4, CHR 0x91, CHR 0xE1, CHR 0xBB, CHR 0x99] @ ''ng'')]),
      (''turnon_turnsignal_right'', ''action'', ''control_light'', ''toggle'', [], [],
        [(''B'' @ [CHR 0xE1, CHR 0xBA, CHR 0xAD] @ ''t xi-nhan ph'' @ [CHR 0xE1, CHR 0xBA, CHR 0xA3] @ ''i'')]),
      (''turnon_turnsignal_left'', ''action'', ''control_light'', ''toggle'', [], [],
        [(''B'' @ [CHR 0xE1, CHR 0xBA, CHR 0xAD] @ ''t xi-nhan tr'' @ [CHR 0xC3, CHR 0xA1] @ ''i'')]),
      (''turnoff_turnsignal_right'', ''action'', ''control_light'', ''toggle'', [], [],
        [(''T'' @ [CHR 0xE1, CHR 0xBA, CHR 0xAF] @ ''t xi-nhan ph'' @ [CHR 0xE1, CHR 0xBA, CHR 0xA3] @ ''i'')]),
      (''turnoff_turnsignal_left'', ''action'', ''control_light'', ''toggle'', [], [],
        [(''T'' @ [CHR 0xE1, CHR 0xBA, CHR 0xAF] @ ''t xi-nhan tr'' @ [CHR 0xC3, CHR 0xA1] @ ''i'')]),
      (''turnon_hazardlight'', ''action'', ''control_light'', ''compound_toggle'', [], [],
        [(''B'' @ [CHR 0xE1, CHR 0xBA, CHR 0xAD] @ ''t '' @ [CHR 0xC4, CHR 0x91, CHR 0xC3, CHR 0xA8] @ ''n c'' @ [CHR 0xE1, CHR 0xBA, CHR 0xA3] @ ''nh b'' @ [CHR 0xC3, CHR 0xA1] @ ''o nguy hi'' @ [CHR 0xE1, CHR 0xBB, CHR 0x83] @ ''m'')]),
      (''turnoff_hazardlight'', ''action'', ''control_light'', ''compound_toggle'', [], [],
        [(''T'' @ [CHR 0xE1, CHR 0xBA, CHR 0xAF] @ ''t '' @ [CHR 0xC4, CHR 0x91, CHR 0xC3, CHR 0xA8] @ ''n c'' @ [CHR 0xE1, CHR 0xBA, CHR 0xA3] @ ''nh b'' @ [CHR 0xC3, CHR 0xA1] @ ''o nguy hi'' @ [CHR 0xE1, CHR 0xBB, CHR 0x83] @ ''m'')]),
      (''turnon_corneringlight'', ''action'', ''control_light'', ''toggle'', [], [],
        [(''B'' @ [CHR 0xE1, CHR 0xBA, CHR 0xAD] @ ''t '' @ [CHR 0xC4, CHR 0x91, CHR 0xC3, CHR 0xA8] @ ''n h'' @ [CHR 0xE1, CHR 0xBB, CHR 0x97] @ '' tr'' @ [CHR 0xE1, CHR 0xBB, CHR 0xA3] @ '' v'' @ [CHR 0xC3, CHR 0xA0] @ ''o cua'')]),
      (''turnon_interiorlight'', ''action'', ''control_light'', ''toggle'', [], [],
        [(''B'' @ [CHR 0xE1, CHR 0xBA, CHR 0xAD] @ ''t '' @ [CHR 0xC4, CHR 0x91, CHR 0xC3, CHR 0xA8] @ ''n n'' @ [CHR 0xE1, CHR 0xBB, CHR 0x99] @ ''i th'' @ [CHR 0xE1, CHR 0xBA, CHR 0xA5] @ ''t'')]),
      (''activate_tcs'', ''action'', ''control_driver_assistance'', ''toggle'', [], [],
        [(''B'' @ [CHR 0xE1, CHR 0xBA, CHR 0xAD] @ ''t ki'' @ [CHR 0xE1, CHR 0xBB, CHR 0x83] @ ''m so'' @ [CHR 0xC3, CHR 0xA1] @ ''t l'' @ [CHR 0xE1, CHR 0xBB, CHR 0xB1] @ ''c k'' @ [CHR 0xC3, CHR 0xA9] @ ''o'')]),
      (''deactivate_esc'', ''refusal'', ''control_driver_assistance'', ''explicit_refusal'', [], [],
        [(''T'' @ [CHR 0xE1, CHR 0xBA, CHR 0xAF] @ ''t c'' @ [CHR 0xC3, CHR 0xA2] @ ''n b'' @ [CHR 0xE1, CHR 0xBA, CHR 0xB1] @ ''ng '' @ [CHR 0xC4, CHR 0x91] @ ''i'' @ [CHR 0xE1, CHR 0xBB, CHR 0x87] @ ''n t'' @ [CHR 0xE1, CHR 0xBB, CHR 0xAD])]),
      (''activate_avh'', ''action'', ''control_driver_assistance'', ''toggle'', [], [],
        [(''B'' @ [CHR 0xE1, CHR 0xBA, CHR 0xAD] @ ''t gi'' @ [CHR 0xE1, CHR 0xBB, CHR 0xAF] @ '' phanh t'' @ [CHR 0xE1, CHR 0xBB, CHR 0xB1] @ '' '' @ [CHR 0xC4, CHR 0x91, CHR 0xE1, CHR 0xBB, CHR 0x99] @ ''ng'')]),
      (''open_noti_center'', ''action'', ''control_ui'', ''ui_event'', [], [],
        [(''M'' @ [CHR 0xE1, CHR 0xBB, CHR 0x9F] @ '' trung t'' @ [CHR 0xC3, CHR 0xA2] @ ''m th'' @ [CHR 0xC3, CHR 0xB4] @ ''ng b'' @ [CHR 0xC3, CHR 0xA1] @ ''o'')]),
      (''get_current_speed'', ''query'', ''query_vehicle_state'', ''state_query'', [], [],
        [(''Xe '' @ [CHR 0xC4, CHR 0x91] @ ''ang ch'' @ [CHR 0xE1, CHR 0xBA, CHR 0xA1] @ ''y bao nhi'' @ [CHR 0xC3, CHR 0xAA] @ ''u km/h?'')]),
      (''get_battery_pct'', ''query'', ''query_vehicle_state'', ''state_query'', [], [],
        [(''Pin xe c'' @ [CHR 0xC3, CHR 0xB2] @ ''n bao nhi'' @ [CHR 0xC3, CHR 0xAA] @ ''u ph'' @ [CHR 0xE1, CHR 0xBA, CHR 0xA7] @ ''n tr'' @ [CHR 0xC4, CHR 0x83] @ ''m?'')]),
      (''get_gear'', ''query'', ''query_vehicle_state'', ''state_query'', [], [],
        [(''Xe '' @ [CHR 0xC4, CHR 0x91] @ ''ang '' @ [CHR 0xE1, CHR 0xBB, CHR 0x9F] @ '' s'' @ [CHR 0xE1, CHR 0xBB, CHR 0x91] @ '' n'' @ [CHR 0xC3, CHR 0xA0] @ ''o?'')]),
      (''get_door_lock_status'', ''query'', ''query_vehicle_state'', ''state_query'', [], [],
        [(''C'' @ [CHR 0xC3, CHR 0xA1] @ ''c c'' @ [CHR 0xE1, CHR 0xBB, CHR 0xAD] @ ''a '' @ [CHR 0xC4, CHR 0x91, CHR 0xC3, CHR 0xA3] @ '' kh'' @ [CHR 0xC3, CHR 0xB3] @ ''a ch'' @ [CHR 0xC6, CHR 0xB0] @ ''a?'')]),
      (''get_avh_status'', ''query'', ''query_vehicle_state'', ''state_query'', [], [],
        [(''AVH '' @ [CHR 0xC4, CHR 0x91] @ ''ang b'' @ [CHR 0xE1, CHR 0xBA, CHR 0xAD] @ ''t hay t'' @ [CHR 0xE1, CHR 0xBA, CHR 0xAF] @ ''t?'')]),
      (''explain_feature'', ''query'', ''explain_vehicle_feature'', ''knowledge_query'', [''feature''], [],
        [(''HDA ho'' @ [CHR 0xE1, CHR 0xBA, CHR 0xA1] @ ''t '' @ [CHR 0xC4, CHR 0x91, CHR 0xE1, CHR 0xBB, CHR 0x99] @ ''ng nh'' @ [CHR 0xC6, CHR 0xB0] @ '' th'' @ [CHR 0xE1, CHR 0xBA, CHR 0xBF] @ '' n'' @ [CHR 0xC3, CHR 0xA0] @ ''o?'')])]"

fun row_entry :: "manifest_row \<Rightarrow> pyval" where
  "row_entry (intent, kind, tool, behavior, required, rules, utterances) =
     PDict [(''intent'', PStr intent), (''kind'', PStr kind), (''domain_tool'', PStr tool),
            (''behavior_category'', PStr behavior), (''required_parameters'', PList (map PStr required)),
            (''monitor_rule_ids'', PList (map PStr rules)), (''sample_utterances'', PList (map PStr utterances))]"

fun row_definition :: "manifest_row \<Rightarrow> intent_definition" where
  "row_definition (intent, kind, tool, behavior, required, rules, utterances) =
     intent_def intent kind tool behavior required rules"

definition MANIFEST_CHECKSUM :: string where
  "MANIFEST_CHECKSUM = ''sha256:f3ea52b8c184a4ea8bc07f3dbf7a4e29ab967e0d25509959104b67b3703bbf73''"

definition INTENT_MANIFEST_DOCUMENT :: payload where
  "INTENT_MANIFEST_DOCUMENT =
     [(''manifest_version'', PStr ''1.0.0''),
      (''catalog_source'', PStr ''Driver_constraints.xlsx#Constraints (approved 53-intent baseline)''),
      (''checksum'', PStr MANIFEST_CHECKSUM), (''intents'', PList (map row_entry MANIFEST_ROWS))]"

text \<open>What the entries describe.\<close>

definition BASE_DEFINITIONS :: "intent_definition list" where
  "BASE_DEFINITIONS = map row_definition MANIFEST_ROWS"

definition AGENT_MANIFEST :: intent_manifest where
  "AGENT_MANIFEST =
     \<lparr>im_version = ''1.0.0'',
      im_catalog_source = ''Driver_constraints.xlsx#Constraints (approved 53-intent baseline)'' @
        ''; Intents_Candidate.xlsx#Intents_Candidate (70 Agent capabilities, no policy conditions)'',
      im_checksum = MANIFEST_CHECKSUM, im_intents = BASE_DEFINITIONS @ CANDIDATE_DEFINITIONS\<rparr>"

section \<open>Facts\<close>

fun row_ok :: "manifest_row \<Rightarrow> bool" where
  "row_ok (intent, kind, tool, behavior, required, rules, utterances) =
     (list_all (\<lambda>s. strip s \<noteq> []) ([intent, kind, tool, behavior] @ required @ rules @ utterances) \<and>
      kind \<in> set ALLOWED_KINDS \<and> tool \<in> set ALLOWED_DOMAIN_TOOLS \<and> behavior \<in> set (BEHAVIORS_BY_KIND kind) \<and>
      distinct required \<and> distinct rules \<and> distinct utterances \<and> utterances \<noteq> [])"

lemma require_strings_ok: "list_all (\<lambda>s. strip s \<noteq> []) ss \<Longrightarrow> require_strings (map PStr ss) = Inr ss"
  by (induction ss) auto

lemma row_entry_ok:
  assumes "row_ok row"
  shows "manifest_entry (row_entry row) = Inr (row_definition row)"
proof -
  obtain intent kind tool behavior required rules utterances
    where row: "row = (intent, kind, tool, behavior, required, rules, utterances)" by (cases row)
  have "same_keys (dict_of (row_entry row)) ENTRY_FIELDS"
    by (simp add: row same_keys_def ENTRY_FIELDS_def)
  with assms show ?thesis
    by (simp add: row manifest_entry_def get_key_def string_tuple_def require_strings_ok)
qed

lemma rows_entries: "list_all row_ok rows \<Longrightarrow> manifest_entries (map row_entry rows) = Inr (map row_definition rows)"
  by (induction rows) (auto simp: row_entry_ok simp del: row_entry.simps row_definition.simps row_ok.simps)

lemma rows_ok: "list_all row_ok MANIFEST_ROWS"
  by code_simp

text \<open>The inventory of the committed document, part by part.\<close>

lemma committed_inventory:
  "distinct (map id_intent BASE_DEFINITIONS)"
  "set (map id_intent BASE_DEFINITIONS) = set BASE_APPROVED_INTENTS"
  "set (map id_intent BASE_DEFINITIONS) \<inter> set CANDIDATE_INTENTS = {}"
  "distinct CANDIDATE_INTENTS"
  "set (map id_intent (filter is_query_intent (BASE_DEFINITIONS @ CANDIDATE_DEFINITIONS))) = set AGENT_QUERY_INTENTS"
  "set (map id_intent (filter monitor_capable (BASE_DEFINITIONS @ CANDIDATE_DEFINITIONS))) = set AGENT_MONITORED_INTENTS"
  "set APPROVED_INTENTS \<inter> set FORBIDDEN_DYNAMICS_INTENTS = {}"
  "case find (\<lambda>d. id_intent d = ''deactivate_esc'') (BASE_DEFINITIONS @ CANDIDATE_DEFINITIONS) of
     None \<Rightarrow> False | Some d \<Rightarrow> id_kind d = ''refusal'' \<and> id_behavior d = ''explicit_refusal''"
  by code_simp+

lemma candidate_names: "map id_intent CANDIDATE_DEFINITIONS = CANDIDATE_INTENTS"
  by (simp add: CANDIDATE_DEFINITIONS_def CANDIDATE_INTENTS_def candidate_definition_def intent_def_def comp_def)

lemma inventory_committed: "inventory_error (BASE_DEFINITIONS @ CANDIDATE_DEFINITIONS) = None"
proof -
  have names: "set (map id_intent (BASE_DEFINITIONS @ CANDIDATE_DEFINITIONS)) = set APPROVED_INTENTS"
    unfolding map_append set_append candidate_names committed_inventory(2) APPROVED_INTENTS_def ..
  have "distinct (map id_intent (BASE_DEFINITIONS @ CANDIDATE_DEFINITIONS))"
    unfolding map_append distinct_append candidate_names using committed_inventory(1,3,4) by blast
  then show ?thesis
    unfolding inventory_error_def Let_def first_error_None_iff names
    using committed_inventory(5-8) by simp
qed

text \<open>Values without a float have a JSON text.\<close>

fun no_float :: "pyval \<Rightarrow> bool" where
  "no_float (PFloat _) = False"
| "no_float (PList vs) = list_all no_float vs"
| "no_float (PDict d) = list_all (\<lambda>(k, v). no_float v) d"
| "no_float _ = True"

lemma all_some_list: "(\<forall>v \<in> set vs. \<exists>t. f v = Some t) \<Longrightarrow> \<exists>ts. all_some (map f vs) = Some ts"
  by (induction vs) (auto split: option.splits)

lemma dumps_total: "no_float v \<Longrightarrow> \<exists>t. dumps pf v = Some t"
proof (induction v rule: no_float.induct)
  case (2 vs)
  then have "\<exists>ts. all_some (map (dumps pf) vs) = Some ts" by (intro all_some_list) (auto simp: list_all_iff)
  then show ?case by auto
next
  case (3 d)
  then have "\<exists>ts. all_some (map (\<lambda>(k, v). map_option (Pair k) (dumps pf v)) d) = Some ts"
    by (intro all_some_list) (force simp: list_all_iff)
  then show ?case by auto
qed auto

lemma manifest_committed:
  assumes "document_checksum pf INTENT_MANIFEST_DOCUMENT = Inr MANIFEST_CHECKSUM"
  shows "validate_manifest pf (PDict INTENT_MANIFEST_DOCUMENT) = Inr AGENT_MANIFEST"
proof -
  have texts: "strip ''1.0.0'' \<noteq> []" "strip MANIFEST_CHECKSUM \<noteq> []"
    "strip ''Driver_constraints.xlsx#Constraints (approved 53-intent baseline)'' \<noteq> []"
    "same_keys INTENT_MANIFEST_DOCUMENT [''manifest_version'', ''catalog_source'', ''checksum'', ''intents'']"
    by (code_simp, code_simp, code_simp, simp add: same_keys_def INTENT_MANIFEST_DOCUMENT_def)
  have get: "get_key INTENT_MANIFEST_DOCUMENT ''manifest_version'' = PStr ''1.0.0''"
    "get_key INTENT_MANIFEST_DOCUMENT ''catalog_source'' =
       PStr ''Driver_constraints.xlsx#Constraints (approved 53-intent baseline)''"
    "get_key INTENT_MANIFEST_DOCUMENT ''checksum'' = PStr MANIFEST_CHECKSUM"
    "get_key INTENT_MANIFEST_DOCUMENT ''intents'' = PList (map row_entry MANIFEST_ROWS)"
    by (simp_all add: INTENT_MANIFEST_DOCUMENT_def get_key_def)
  show ?thesis
    unfolding validate_manifest_def Let_def dict_of.simps is_dict.simps get assms
    by (simp only: texts require_string.simps if_False if_True not_True_eq_False sum.case pyval.case
        MANIFEST_VERSION_def not_False_eq_True simp_thms rows_entries [OF rows_ok, folded BASE_DEFINITIONS_def]
        inventory_committed option.case AGENT_MANIFEST_def)
qed


section \<open>What an accepted manifest promises\<close>

definition well_kinded :: "intent_definition \<Rightarrow> bool" where
  "well_kinded d \<longleftrightarrow> id_kind d \<in> set ALLOWED_KINDS \<and> id_domain_tool d \<in> set ALLOWED_DOMAIN_TOOLS \<and>
     id_behavior d \<in> set (BEHAVIORS_BY_KIND (id_kind d))"

lemma manifest_entry_kinded: "manifest_entry v = Inr d \<Longrightarrow> well_kinded d"
  by (auto simp: manifest_entry_def well_kinded_def intent_def_def Let_def split: if_splits sum.splits)

lemma manifest_entries_kinded: "manifest_entries vs = Inr ds \<Longrightarrow> list_all well_kinded ds"
  by (induction vs arbitrary: ds) (auto simp: manifest_entry_kinded split: sum.splits)

lemma candidates_kinded: "list_all well_kinded CANDIDATE_DEFINITIONS"
  by code_simp

lemma validate_manifest_cases:
  assumes "validate_manifest pf v = Inr m"
  obtains base where "im_intents m = base @ CANDIDATE_DEFINITIONS" "list_all well_kinded base"
    "inventory_error (im_intents m) = None" "im_version m = MANIFEST_VERSION"
    "document_checksum pf (dict_of v) = Inr (im_checksum m)"
  using assms
  by (auto simp: validate_manifest_def Let_def dest: manifest_entries_kinded
      split: if_splits sum.splits option.splits pyval.splits)

text \<open>A filtered inventory with distinct names has exactly the definitions of the filter's names.\<close>

lemma filter_names_exact:
  assumes "distinct (map id_intent ds)" "set (map id_intent (filter P ds)) = S" "d \<in> set ds"
  shows "P d \<longleftrightarrow> id_intent d \<in> S"
proof
  assume "id_intent d \<in> S"
  then obtain e where e: "e \<in> set ds" "P e" "id_intent e = id_intent d" using assms(2) by force
  moreover have "e = d"
    using inj_onD [OF assms(1) [unfolded distinct_map, THEN conjunct2] e(3) e(1) assms(3)] .
  ultimately show "P d" by simp
qed (use assms(2,3) in auto)

lemma by_intent_exact:
  assumes "distinct (map id_intent (im_intents m))" "d \<in> set (im_intents m)"
  shows "by_intent m (id_intent d) = Some d"
proof -
  obtain e where e: "by_intent m (id_intent d) = Some e"
    using assms(2) by (cases "by_intent m (id_intent d)") (auto simp: by_intent_def find_None_iff)
  then have "e \<in> set (im_intents m)" "id_intent e = id_intent d"
    by (auto simp: by_intent_def find_Some_iff)
  then have "e = d"
    using inj_onD [OF assms(1) [unfolded distinct_map, THEN conjunct2] _ _ assms(2)] by blast
  with e show ?thesis by simp
qed

lemma inventory_names:
  assumes "inventory_error ds = None"
  shows "distinct (map id_intent ds)" "set (map id_intent ds) = set APPROVED_INTENTS"
    "set (map id_intent ds) \<inter> set FORBIDDEN_DYNAMICS_INTENTS = {}"
  using assms unfolding inventory_error_def Let_def first_error_None_iff by (simp_all split: if_splits)

lemma inventory_kinds:
  assumes "inventory_error ds = None"
  shows "set (map id_intent (filter is_query_intent ds)) = set AGENT_QUERY_INTENTS"
    "set (map id_intent (filter monitor_capable ds)) = set AGENT_MONITORED_INTENTS"
    "\<exists>d. find (\<lambda>d. id_intent d = ''deactivate_esc'') ds = Some d \<and> id_kind d = ''refusal'' \<and>
       id_behavior d = ''explicit_refusal''"
  using assms unfolding inventory_error_def Let_def first_error_None_iff
  by (simp_all split: if_splits option.splits)

lemma accepted_manifest:
  assumes "validate_manifest pf v = Inr m"
  shows "distinct (map id_intent (im_intents m))" "set (map id_intent (im_intents m)) = set APPROVED_INTENTS"
    "d \<in> set (im_intents m) \<Longrightarrow> well_kinded d"
    "d \<in> set (im_intents m) \<Longrightarrow> is_query_intent d \<longleftrightarrow> id_intent d \<in> set AGENT_QUERY_INTENTS"
    "d \<in> set (im_intents m) \<Longrightarrow> monitor_capable d \<longleftrightarrow> id_intent d \<in> set AGENT_MONITORED_INTENTS"
    "intent \<in> set APPROVED_INTENTS \<Longrightarrow> \<exists>d \<in> set (im_intents m). by_intent m intent = Some d"
proof -
  from assms obtain base where base: "im_intents m = base @ CANDIDATE_DEFINITIONS" "list_all well_kinded base"
    and inv: "inventory_error (im_intents m) = None" by (rule validate_manifest_cases)
  note names = inventory_names [OF inv] and kinds = inventory_kinds [OF inv]
  show "distinct (map id_intent (im_intents m))" "set (map id_intent (im_intents m)) = set APPROVED_INTENTS"
    using names by blast+
  show "d \<in> set (im_intents m) \<Longrightarrow> well_kinded d"
    using base candidates_kinded by (auto simp: list_all_iff)
  show "d \<in> set (im_intents m) \<Longrightarrow> is_query_intent d \<longleftrightarrow> id_intent d \<in> set AGENT_QUERY_INTENTS"
    by (rule filter_names_exact [OF names(1) kinds(1)])
  show "d \<in> set (im_intents m) \<Longrightarrow> monitor_capable d \<longleftrightarrow> id_intent d \<in> set AGENT_MONITORED_INTENTS"
    by (rule filter_names_exact [OF names(1) kinds(2)])
  show "\<exists>d \<in> set (im_intents m). by_intent m intent = Some d" if "intent \<in> set APPROVED_INTENTS"
  proof -
    from that names(2) have "intent \<in> id_intent ` set (im_intents m)" by simp
    then obtain d where "d \<in> set (im_intents m)" "id_intent d = intent" by blast
    then show ?thesis using by_intent_exact [OF names(1)] by blast
  qed
qed

text \<open>C26. A manifest that passes the startup check is pinned by its checksum, names every approved
  intent exactly once and no driving-dynamics intent, gives every intent an allowed kind, tool and
  behaviour of that kind, is a query or monitored exactly where the lists say so, and refuses to
  switch the stability control off.\<close>

theorem manifest_check_sound:
  assumes "validate_manifest pf v = Inr m"
  shows "document_checksum pf (dict_of v) = Inr (im_checksum m) \<and>
    distinct (map id_intent (im_intents m)) \<and>
    set (map id_intent (im_intents m)) = set APPROVED_INTENTS \<and>
    set (map id_intent (im_intents m)) \<inter> set FORBIDDEN_DYNAMICS_INTENTS = {} \<and>
    (\<forall>d \<in> set (im_intents m). by_intent m (id_intent d) = Some d \<and> well_kinded d \<and>
       (is_query_intent d \<longleftrightarrow> id_intent d \<in> set AGENT_QUERY_INTENTS) \<and>
       (monitor_capable d \<longleftrightarrow> id_intent d \<in> set AGENT_MONITORED_INTENTS)) \<and>
    (\<exists>d. by_intent m ''deactivate_esc'' = Some d \<and> id_kind d = ''refusal'' \<and> id_behavior d = ''explicit_refusal'')"
proof -
  from assms have sum: "document_checksum pf (dict_of v) = Inr (im_checksum m)"
    and inv: "inventory_error (im_intents m) = None" by (auto elim: validate_manifest_cases)
  have "(\<exists>d. by_intent m ''deactivate_esc'' = Some d \<and> id_kind d = ''refusal'' \<and> id_behavior d = ''explicit_refusal'')"
    using inventory_kinds(3) [OF inv] by (simp add: by_intent_def)
  moreover have "\<forall>d \<in> set (im_intents m). by_intent m (id_intent d) = Some d \<and> well_kinded d \<and>
       (is_query_intent d \<longleftrightarrow> id_intent d \<in> set AGENT_QUERY_INTENTS) \<and>
       (monitor_capable d \<longleftrightarrow> id_intent d \<in> set AGENT_MONITORED_INTENTS)"
    using accepted_manifest [OF assms] by_intent_exact by blast
  ultimately show ?thesis using sum inventory_names [OF inv] by blast
qed

text \<open>A platform whose SHA-256 sends every text to the digest of the committed document.\<close>

definition manifest_demo_pf :: platform where
  "manifest_demo_pf = \<lparr>pf_sha256 = (\<lambda>_. drop 7 MANIFEST_CHECKSUM), pf_float = (\<lambda>_. []), pf_iso = (\<lambda>_. [])\<rparr>"

lemma rows_no_float: "list_all no_float (map row_entry rows)"
  by (induction rows) (auto simp: list_all_iff)

lemma demo_checksum: "document_checksum manifest_demo_pf INTENT_MANIFEST_DOCUMENT = Inr MANIFEST_CHECKSUM"
proof -
  have "no_float (PDict (canonical_payload INTENT_MANIFEST_DOCUMENT))"
    by (simp add: canonical_payload_def INTENT_MANIFEST_DOCUMENT_def rows_no_float)
  from dumps_total [OF this, of manifest_demo_pf] show ?thesis
    by (auto simp: document_checksum_def manifest_demo_pf_def MANIFEST_CHECKSUM_def)
qed

lemma manifest_check_sound_witness:
  "set (map id_intent (im_intents AGENT_MANIFEST)) = set APPROVED_INTENTS \<and>
   (\<exists>d. by_intent AGENT_MANIFEST ''deactivate_esc'' = Some d \<and> id_kind d = ''refusal'')"
  using manifest_check_sound [OF manifest_committed [OF demo_checksum]] by blast

end
