(* ===== verification/ToolRegistry.thy ===== *)
theory ToolRegistry
  imports IntentManifest
begin

text \<open>
  \<open>tools/registry/registry.py\<close> and \<open>domain_tools.v1.json\<close>: the closed registry of the domain
  tools the language model may call, and the check of a model call before it can become a
  proposal.  \<open>parse_registry\<close> takes the decoded JSON; reading the file is left out.  The
  descriptions of the tools are checked and not kept, so the schemas made from them for the model
  provider are not modelled.  A call that misses a parameter is a clarification, not an error.
\<close>

datatype tool_exn = ToolCallError string | ToolCrash string

definition REGISTRY_VERSION :: string where
  "REGISTRY_VERSION = ''1.0.0''"

definition ARGUMENT_FIELDS :: "string list" where
  "ARGUMENT_FIELDS = [''action'', ''target'', ''value'']"

definition FORBIDDEN_MODEL_FIELDS :: "string list" where
  "FORBIDDEN_MODEL_FIELDS = [''state'', ''outcome'', ''rule'', ''rule_id'', ''permit'']"

definition APPROVED_TOOL_NAMES :: "string list" where
  "APPROVED_TOOL_NAMES =
     [''control_access'', ''control_light'', ''control_cabin'', ''set_drive_mode'', ''control_transmission'',
      ''control_driver_assistance'', ''control_special_mode'', ''control_ui'', ''query_vehicle_state'',
      ''explain_vehicle_feature'', ''control_vehicle_capability'']"

record clarification_request =
  cl_tool_name :: string
  cl_action :: "string option"
  cl_missing :: "string list"
  cl_allowed :: "string list dict"

definition clarification_to_dict :: "clarification_request \<Rightarrow> payload" where
  "clarification_to_dict c =
     [(''kind'', PStr ''clarification''), (''code'', PStr ''MISSING_TOOL_PARAMETER''),
      (''tool_name'', PStr (cl_tool_name c)),
      (''action'', case cl_action c of None \<Rightarrow> PNone | Some a \<Rightarrow> PStr a),
      (''missing_parameters'', PList (map PStr (cl_missing c))),
      (''allowed_values'', PDict (map (\<lambda>(k, vs). (k, PList (map PStr vs))) (cl_allowed c)))]"

record validated_call =
  vc_tool_name :: string
  vc_arguments :: "string dict"

datatype call_result = ValidCall validated_call | Clarify clarification_request

record tool_signature =
  sg_action :: string
  sg_targets :: "string list"
  sg_values :: "string list"

definition required_fields :: "tool_signature \<Rightarrow> string list" where
  "required_fields s = (if sg_values s \<noteq> [] then [''action'', ''target'', ''value''] else [''action'', ''target''])"

record tool_definition =
  td_name :: string
  td_signatures :: "tool_signature list"

record tool_registry =
  tr_version :: string
  tr_checksum :: string
  tr_tools :: "tool_definition list"

definition tool_names :: "tool_registry \<Rightarrow> string list" where
  "tool_names rg = map td_name (tr_tools rg)"

definition by_name :: "tool_registry \<Rightarrow> string \<Rightarrow> tool_exn + tool_definition" where
  "by_name rg name =
     (case find (\<lambda>t. td_name t = name) (tr_tools rg) of
        None \<Rightarrow> Inl (ToolCallError ''UNKNOWN_TOOL'')
      | Some t \<Rightarrow> Inr t)"

section \<open>The check of a call\<close>

text \<open>\<open>len(s)\<close>: the characters of a text in UTF-8 are its bytes other than continuation bytes.\<close>

definition char_count :: "string \<Rightarrow> nat" where
  "char_count s = length (filter (\<lambda>c. (of_char c :: nat) div 64 \<noteq> 2) s)"

definition sorted_unique :: "string list \<Rightarrow> string list" where
  "sorted_unique xs = sort (remdups xs)"

definition argument_error :: "string \<times> pyval \<Rightarrow> tool_exn option" where
  "argument_error kv =
     (case snd kv of
        PStr s \<Rightarrow>
          if s = [] then Some (ToolCallError ''INVALID_ARGUMENTS'')
          else if fst kv = ''value'' \<and> 512 < char_count s then Some (ToolCallError ''INVALID_VALUE'')
          else None
      | _ \<Rightarrow> Some (ToolCallError ''INVALID_ARGUMENTS''))"

text \<open>\<open>arguments.get(k)\<close> once every value is known to be a string.\<close>

definition str_arg :: "payload \<Rightarrow> string \<Rightarrow> string option" where
  "str_arg d k = (case map_of d k of Some (PStr s) \<Rightarrow> Some s | _ \<Rightarrow> None)"

definition normalized_arguments :: "payload \<Rightarrow> string dict" where
  "normalized_arguments d =
     concat (map (\<lambda>k. case str_arg d k of None \<Rightarrow> [] | Some s \<Rightarrow> [(k, s)]) ARGUMENT_FIELDS)"

definition validate_value ::
  "string \<Rightarrow> string \<Rightarrow> tool_signature list \<Rightarrow> payload \<Rightarrow> tool_exn + call_result" where
  "validate_value name action signatures d =
     (let allowed = sorted_unique (concat (map sg_values signatures)); v = str_arg d ''value'' in
      if allowed \<noteq> [] \<and> v = None
      then Inr (Clarify \<lparr>cl_tool_name = name, cl_action = Some action, cl_missing = [''value''],
                         cl_allowed = [(''value'', allowed)]\<rparr>)
      else if allowed \<noteq> [] \<and> allowed \<noteq> [''*''] \<and> the v \<notin> set allowed then Inl (ToolCallError ''INVALID_VALUE'')
      else if allowed = [] \<and> v \<noteq> None then Inl (ToolCallError ''UNEXPECTED_VALUE'')
      else Inr (ValidCall \<lparr>vc_tool_name = name, vc_arguments = normalized_arguments d\<rparr>))"

definition validate_target ::
  "string \<Rightarrow> string \<Rightarrow> tool_signature list \<Rightarrow> payload \<Rightarrow> tool_exn + call_result" where
  "validate_target name action signatures d =
     (case str_arg d ''target'' of
        None \<Rightarrow>
          Inr (Clarify \<lparr>cl_tool_name = name, cl_action = Some action, cl_missing = [''target''],
                        cl_allowed = [(''target'', sorted_unique (concat (map sg_targets signatures)))]\<rparr>)
      | Some target \<Rightarrow>
          (let matching = filter (\<lambda>s. target \<in> set (sg_targets s)) signatures in
           if matching = [] then Inl (ToolCallError ''INVALID_TARGET'')
           else validate_value name action matching d))"

definition validate_call :: "tool_registry \<Rightarrow> string \<Rightarrow> pyval \<Rightarrow> tool_exn + call_result" where
  "validate_call rg name arguments =
     (case by_name rg name of
        Inl e \<Rightarrow> Inl e
      | Inr tool \<Rightarrow>
          if \<not> is_dict arguments then Inl (ToolCallError ''INVALID_ARGUMENTS'')
          else
            (let d = dict_of arguments; fields = map fst d in
             if set fields \<inter> set FORBIDDEN_MODEL_FIELDS \<noteq> {} then Inl (ToolCallError ''FORBIDDEN_ARGUMENT'')
             else if \<not> set fields \<subseteq> set ARGUMENT_FIELDS then Inl (ToolCallError ''ADDITIONAL_PROPERTY'')
             else
               (case first_error (map argument_error d) of
                  Some e \<Rightarrow> Inl e
                | None \<Rightarrow>
                    (case str_arg d ''action'' of
                       None \<Rightarrow>
                         Inr (Clarify \<lparr>cl_tool_name = name, cl_action = None, cl_missing = [''action''],
                                       cl_allowed = [(''action'', sorted_unique (map sg_action (td_signatures tool)))]\<rparr>)
                     | Some action \<Rightarrow>
                         (let matching = filter (\<lambda>s. sg_action s = action) (td_signatures tool) in
                          if matching = [] then Inl (ToolCallError ''INVALID_ACTION'')
                          else validate_target name action matching d)))))"

section \<open>Parsing the registry\<close>

definition registry_checksum :: "platform \<Rightarrow> payload \<Rightarrow> tool_exn + string" where
  "registry_checksum pf raw =
     (case dumps pf (PDict (canonical_payload raw)) of
        None \<Rightarrow> Inl (ToolCrash ''ValueError'')
      | Some text \<Rightarrow> Inr (''sha256:'' @ pf_sha256 pf text))"

fun text_of :: "pyval \<Rightarrow> string" where
  "text_of (PStr s) = s"
| "text_of _ = []"

fun items_of :: "pyval \<Rightarrow> pyval list" where
  "items_of (PList vs) = vs"
| "items_of _ = []"

fun is_list :: "pyval \<Rightarrow> bool" where
  "is_list (PList _) = True"
| "is_list _ = False"

definition valid_enum :: "bool \<Rightarrow> pyval \<Rightarrow> bool" where
  "valid_enum may_be_empty v \<longleftrightarrow>
     is_list v \<and> (may_be_empty \<or> items_of v \<noteq> []) \<and> list_all (\<lambda>x. text_of x \<noteq> []) (items_of v) \<and>
     distinct (map text_of (items_of v))"

definition parse_signature :: "pyval \<Rightarrow> tool_exn + tool_signature" where
  "parse_signature v =
     (let s = dict_of v; values = get_or s ''value'' (PList []) in
      if \<not> is_dict v \<or> \<not> set (map fst s) \<subseteq> {''action'', ''target'', ''value''} then
        Inl (ToolCallError ''INVALID_REGISTRY'')
      else if \<not> same_keys s [''action'', ''target''] \<and> \<not> same_keys s [''action'', ''target'', ''value''] then
        Inl (ToolCallError ''INVALID_REGISTRY'')
      else if text_of (get_key s ''action'') = [] \<or> \<not> valid_enum False (get_key s ''target'') \<or> \<not> valid_enum True values
      then Inl (ToolCallError ''INVALID_REGISTRY'')
      else Inr \<lparr>sg_action = text_of (get_key s ''action''),
                sg_targets = map text_of (items_of (get_key s ''target'')),
                sg_values = map text_of (items_of values)\<rparr>)"

fun parse_signatures :: "pyval list \<Rightarrow> tool_exn + tool_signature list" where
  "parse_signatures [] = Inr []"
| "parse_signatures (v # vs) =
     (case parse_signature v of
        Inl e \<Rightarrow> Inl e
      | Inr s \<Rightarrow> (case parse_signatures vs of Inl e \<Rightarrow> Inl e | Inr ss \<Rightarrow> Inr (s # ss)))"

definition parse_tool :: "pyval \<Rightarrow> tool_exn + tool_definition" where
  "parse_tool v =
     (let entry = dict_of v; signatures = get_key entry ''signatures'' in
      if \<not> is_dict v \<or> \<not> same_keys entry [''name'', ''description'', ''signatures''] then
        Inl (ToolCallError ''INVALID_REGISTRY'')
      else if text_of (get_key entry ''name'') = [] \<or> text_of (get_key entry ''description'') = [] then
        Inl (ToolCallError ''INVALID_REGISTRY'')
      else if items_of signatures = [] then Inl (ToolCallError ''INVALID_REGISTRY'')
      else (case parse_signatures (items_of signatures) of
              Inl e \<Rightarrow> Inl e
            | Inr ss \<Rightarrow> Inr \<lparr>td_name = text_of (get_key entry ''name''), td_signatures = ss\<rparr>))"

fun parse_tools :: "pyval list \<Rightarrow> tool_exn + tool_definition list" where
  "parse_tools [] = Inr []"
| "parse_tools (v # vs) =
     (case parse_tool v of
        Inl e \<Rightarrow> Inl e
      | Inr t \<Rightarrow> (case parse_tools vs of Inl e \<Rightarrow> Inl e | Inr ts \<Rightarrow> Inr (t # ts)))"

definition tool_sig :: "string \<Rightarrow> string list \<Rightarrow> string list \<Rightarrow> tool_signature" where
  "tool_sig action targets values = \<lparr>sg_action = action, sg_targets = targets, sg_values = values\<rparr>"

definition tool_of :: "string \<Rightarrow> tool_signature list \<Rightarrow> tool_definition" where
  "tool_of name signatures = \<lparr>td_name = name, td_signatures = signatures\<rparr>"

text \<open>The lane keeping signature, added to the first tool of the name.\<close>

fun extend_assistance :: "tool_definition list \<Rightarrow> tool_definition list" where
  "extend_assistance [] = []"
| "extend_assistance (t # ts) =
     (if td_name t = ''control_driver_assistance''
      then t\<lparr>td_signatures := td_signatures t @ [tool_sig ''activate'' [''lane_keeping_assist''] []]\<rparr> # ts
      else t # extend_assistance ts)"

definition candidate_targets :: "string \<Rightarrow> string list" where
  "candidate_targets operation = map cc_intent (filter (\<lambda>c. cc_operation c = operation) CANDIDATE_CAPABILITIES)"

definition capability_tool :: tool_definition where
  "capability_tool =
     tool_of ''control_vehicle_capability''
       [tool_sig ''execute'' (filter (\<lambda>i. i \<noteq> ''turnon_LKA'') (candidate_targets ''execute'')) [],
        tool_sig ''set'' (candidate_targets ''set'') [''*''],
        tool_sig ''query'' (candidate_targets ''query'') []]"

definition parse_registry :: "platform \<Rightarrow> pyval \<Rightarrow> tool_exn + tool_registry" where
  "parse_registry pf v =
     (if \<not> is_dict v then Inl (ToolCallError ''INVALID_REGISTRY'')
      else
        (let raw = dict_of v in
         if \<not> same_keys raw [''registry_version'', ''checksum'', ''tools''] then Inl (ToolCallError ''INVALID_REGISTRY'')
         else if get_key raw ''registry_version'' \<noteq> PStr REGISTRY_VERSION then
           Inl (ToolCallError ''REGISTRY_VERSION_MISMATCH'')
         else
           (case registry_checksum pf raw of
              Inl e \<Rightarrow> Inl e
            | Inr expected \<Rightarrow>
                if get_key raw ''checksum'' \<noteq> PStr expected then Inl (ToolCallError ''REGISTRY_CHECKSUM_MISMATCH'')
                else if \<not> is_list (get_key raw ''tools'') then Inl (ToolCallError ''INVALID_REGISTRY'')
                else
                  (case parse_tools (items_of (get_key raw ''tools'')) of
                     Inl e \<Rightarrow> Inl e
                   | Inr parsed \<Rightarrow>
                       (let tools = extend_assistance parsed @ [capability_tool]; names = map td_name tools in
                        if \<not> distinct names then Inl (ToolCallError ''INVALID_REGISTRY'')
                        else if set names \<noteq> set APPROVED_TOOL_NAMES then Inl (ToolCallError ''TOOL_COVERAGE_MISMATCH'')
                        else Inr \<lparr>tr_version = REGISTRY_VERSION, tr_checksum = expected, tr_tools = tools\<rparr>)))))"

section \<open>The committed document\<close>

type_synonym signature_row = "string \<times> string list \<times> string list option"
type_synonym tool_row = "string \<times> string \<times> signature_row list"

definition TOOL_ROWS :: "tool_row list" where
  "TOOL_ROWS =
     [
      (''control_access'', ''Control vehicle doors and access panels.'',
        [(''open'', [''driver_door'', ''trunk'', ''charge_port'', ''bonnet''], None),
         (''lock'', [''all_doors''], None),
         (''unlock'', [''all_doors''], None)]),
      (''control_light'', ''Control exterior and interior vehicle lights.'',
        [(''turn_on'', [''high_beam'', ''low_beam'', ''left_turn_signal'', ''right_turn_signal'',
           ''hazard_light'', ''cornering_light'', ''interior_light''], None),
         (''turn_off'', [''high_beam'', ''low_beam'', ''left_turn_signal'', ''right_turn_signal'',
           ''hazard_light''], None),
         (''activate'', [''automatic_high_beam''], None)]),
      (''control_cabin'', ''Control cabin comfort and movable cabin components.'',
        [(''set'', [''wiper''], Some [''max'']),
         (''adjust'', [''steering_wheel'', ''driver_seat_angle'', ''driver_seat_position''], Some [''forward'', ''backward'', ''up'', ''down'']),
         (''fold'', [''back_seat'', ''mirrors''], None),
         (''open'', [''sunroof'', ''driver_window'', ''front_passenger_window'',
           ''rear_left_window'', ''rear_right_window''], None),
         (''restore'', [''driver_seat_position''], None)]),
      (''set_drive_mode'', ''Select one supported drive mode.'',
        [(''set'', [''drive_mode''], Some [''eco'', ''normal'', ''sport''])]),
      (''control_transmission'', ''Control supported transmission and parking brake functions.'',
        [(''shift'', [''gear''], Some [''park'', ''reverse'']),
         (''activate'', [''electronic_parking_brake''], None)]),
      (''control_driver_assistance'', ''Control supported driver-assistance features.'',
        [(''activate'', [''auto_park'', ''adaptive_cruise_control'', ''highway_drive_assist'',
           ''traction_control'', ''auto_vehicle_hold''], None),
         (''deactivate'', [''lane_keeping_assist'', ''electronic_stability_control''], None)]),
      (''control_special_mode'', ''Activate a supported special vehicle mode.'',
        [(''activate'', [''creep_mode'', ''camp_mode'', ''pet_mode'', ''valet_mode''], None)]),
      (''control_ui'', ''Control supported in-vehicle UI surfaces.'',
        [(''open'', [''notification_center''], None),
         (''deactivate'', [''head_up_display''], None)]),
      (''query_vehicle_state'', ''Read one approved field from trusted vehicle state.'',
        [(''get'', [''current_speed'', ''battery_percentage'', ''gear'', ''door_lock_status'',
           ''auto_vehicle_hold_status''], None)]),
      (''explain_vehicle_feature'', ''Explain one supported vehicle feature.'',
        [(''explain'', [''adaptive_cruise_control'', ''auto_park'', ''auto_vehicle_hold'',
           ''automatic_high_beam'', ''camp_mode'', ''creep_mode'',
           ''electronic_parking_brake'', ''electronic_stability_control'',
           ''head_up_display'', ''highway_drive_assist'', ''lane_keeping_assist'',
           ''pet_mode'', ''traction_control'', ''valet_mode''], None)])]"

fun signature_entry :: "signature_row \<Rightarrow> pyval" where
  "signature_entry (action, targets, values) =
     PDict ([(''action'', PStr action), (''target'', PList (map PStr targets))] @
            (case values of None \<Rightarrow> [] | Some vs \<Rightarrow> [(''value'', PList (map PStr vs))]))"

fun tool_entry :: "tool_row \<Rightarrow> pyval" where
  "tool_entry (name, description, signatures) =
     PDict [(''name'', PStr name), (''description'', PStr description),
            (''signatures'', PList (map signature_entry signatures))]"

definition REGISTRY_CHECKSUM :: string where
  "REGISTRY_CHECKSUM = ''sha256:3687072cf932ab5c8c41fbcb0ffab2576130f9c5848f2cf69e95acece412ede0''"

definition DOMAIN_TOOLS_DOCUMENT :: payload where
  "DOMAIN_TOOLS_DOCUMENT =
     [(''registry_version'', PStr ''1.0.0''), (''checksum'', PStr REGISTRY_CHECKSUM),
      (''tools'', PList (map tool_entry TOOL_ROWS))]"

fun row_signature :: "signature_row \<Rightarrow> tool_signature" where
  "row_signature (action, targets, values) = tool_sig action targets (case values of None \<Rightarrow> [] | Some vs \<Rightarrow> vs)"

fun row_tool :: "tool_row \<Rightarrow> tool_definition" where
  "row_tool (name, description, signatures) = tool_of name (map row_signature signatures)"

definition AGENT_REGISTRY :: tool_registry where
  "AGENT_REGISTRY =
     \<lparr>tr_version = REGISTRY_VERSION, tr_checksum = REGISTRY_CHECKSUM,
      tr_tools = extend_assistance (map row_tool TOOL_ROWS) @ [capability_tool]\<rparr>"

section \<open>The committed document is accepted\<close>

fun signature_row_ok :: "signature_row \<Rightarrow> bool" where
  "signature_row_ok (action, targets, values) \<longleftrightarrow>
     action \<noteq> [] \<and> targets \<noteq> [] \<and> [] \<notin> set targets \<and> distinct targets \<and>
     (case values of None \<Rightarrow> True | Some vs \<Rightarrow> [] \<notin> set vs \<and> distinct vs)"

fun tool_row_ok :: "tool_row \<Rightarrow> bool" where
  "tool_row_ok (name, description, signatures) \<longleftrightarrow>
     name \<noteq> [] \<and> description \<noteq> [] \<and> signatures \<noteq> [] \<and> list_all signature_row_ok signatures"

lemma valid_enum_texts: "valid_enum b (PList (map PStr ss)) \<longleftrightarrow> (b \<or> ss \<noteq> []) \<and> [] \<notin> set ss \<and> distinct ss"
  by (auto simp: valid_enum_def list_all_iff comp_def)

lemma map_text_of: "map text_of (map PStr ss) = ss"
  by (induction ss) auto

lemma parse_signature_row:
  "signature_row_ok row \<Longrightarrow> parse_signature (signature_entry row) = Inr (row_signature row)"
proof (induction row rule: signature_row_ok.induct)
  case (1 action targets vals)
  have keys: "same_keys (dict_of (signature_entry (action, targets, None))) [''action'', ''target'']"
    "\<And>vs. same_keys (dict_of (signature_entry (action, targets, Some vs))) [''action'', ''target'', ''value'']"
    by (simp_all add: same_keys_def)
  have none: "valid_enum True (PList [])" by (simp add: valid_enum_def)
  show ?case using 1 keys none
    by (cases vals)
      (auto simp: parse_signature_def Let_def get_key_def get_or_def valid_enum_texts tool_sig_def map_text_of
        simp del: map_map)
qed

lemma parse_signature_rows:
  "list_all signature_row_ok rows \<Longrightarrow> parse_signatures (map signature_entry rows) = Inr (map row_signature rows)"
  by (induction rows) (simp_all add: parse_signature_row del: signature_entry.simps row_signature.simps signature_row_ok.simps)

lemma parse_tool_row: "tool_row_ok row \<Longrightarrow> parse_tool (tool_entry row) = Inr (row_tool row)"
  by (induction row rule: tool_row_ok.induct)
    (auto simp: parse_tool_def Let_def same_keys_def get_key_def parse_signature_rows tool_of_def
      simp del: signature_entry.simps row_signature.simps)

lemma parse_tool_rows:
  "list_all tool_row_ok rows \<Longrightarrow> parse_tools (map tool_entry rows) = Inr (map row_tool rows)"
  by (induction rows) (simp_all add: parse_tool_row del: tool_entry.simps row_tool.simps tool_row_ok.simps)

lemma tool_rows_ok: "list_all tool_row_ok TOOL_ROWS"
  by code_simp

lemma extend_names: "map td_name (extend_assistance ts) = map td_name ts"
  by (induction ts) auto

lemma committed_tool_names: "map fst TOOL_ROWS @ [''control_vehicle_capability''] = APPROVED_TOOL_NAMES"
  by (simp add: TOOL_ROWS_def APPROVED_TOOL_NAMES_def)

lemma agent_tool_names: "map td_name (tr_tools AGENT_REGISTRY) = APPROVED_TOOL_NAMES"
proof -
  have "map td_name (map row_tool rows) = map fst rows" for rows
    by (induction rows) (auto simp: tool_of_def)
  then show ?thesis
    by (simp only: AGENT_REGISTRY_def tool_registry.simps map_append extend_names committed_tool_names [symmetric])
      (simp add: capability_tool_def tool_of_def)
qed

lemma distinct_tool_names: "distinct APPROVED_TOOL_NAMES"
  by code_simp

lemma registry_committed:
  assumes "registry_checksum pf DOMAIN_TOOLS_DOCUMENT = Inr REGISTRY_CHECKSUM"
  shows "parse_registry pf (PDict DOMAIN_TOOLS_DOCUMENT) = Inr AGENT_REGISTRY"
proof -
  have keys: "same_keys DOMAIN_TOOLS_DOCUMENT [''registry_version'', ''checksum'', ''tools'']"
    by (simp add: same_keys_def DOMAIN_TOOLS_DOCUMENT_def)
  have get: "get_key DOMAIN_TOOLS_DOCUMENT ''registry_version'' = PStr REGISTRY_VERSION"
    "get_key DOMAIN_TOOLS_DOCUMENT ''checksum'' = PStr REGISTRY_CHECKSUM"
    "get_key DOMAIN_TOOLS_DOCUMENT ''tools'' = PList (map tool_entry TOOL_ROWS)"
    by (simp_all add: DOMAIN_TOOLS_DOCUMENT_def get_key_def REGISTRY_VERSION_def)
  have names: "map td_name (extend_assistance (map row_tool TOOL_ROWS) @ [capability_tool]) = APPROVED_TOOL_NAMES"
    using agent_tool_names by (simp add: AGENT_REGISTRY_def)
  show ?thesis
    unfolding parse_registry_def Let_def dict_of.simps is_dict.simps get assms
    by (simp only: keys if_True if_False not_True_eq_False not_False_eq_True simp_thms sum.case is_list.simps
        items_of.simps parse_tool_rows [OF tool_rows_ok] names distinct_tool_names AGENT_REGISTRY_def)
qed

section \<open>Which calls are valid\<close>

lemma set_sorted_unique [simp]: "set (sorted_unique xs) = set xs"
  by (simp add: sorted_unique_def)

lemma sorted_unique_Nil [simp]: "sorted_unique xs = [] \<longleftrightarrow> xs = []"
  by (metis set_empty set_sorted_unique)

lemma sorted_unique_single [simp]: "sorted_unique xs = [x] \<longleftrightarrow> set xs = {x}"
proof
  assume "sorted_unique xs = [x]"
  then show "set xs = {x}" by (metis set_sorted_unique list.set(1) list.set(2))
next
  assume "set xs = {x}"
  then have "set (remdups xs) = set [x]" "distinct (remdups xs)" by simp_all
  then have "remdups xs = [x]"
    by (metis distinct.simps(2) distinct_length_2_or_more empty_iff insert_iff list.set(1) list.set(2)
        neq_Nil_conv)
  then show "sorted_unique xs = [x]" by (simp add: sorted_unique_def)
qed

text \<open>The call \<open>action target [value]\<close> is one the tool declares.\<close>

definition fits :: "tool_definition \<Rightarrow> string \<Rightarrow> string \<Rightarrow> string option \<Rightarrow> bool" where
  "fits t action target v \<longleftrightarrow>
     (let matching = filter (\<lambda>s. target \<in> set (sg_targets s)) (filter (\<lambda>s. sg_action s = action) (td_signatures t));
          vals = concat (map sg_values matching)
      in matching \<noteq> [] \<and>
         (case v of None \<Rightarrow> vals = [] | Some x \<Rightarrow> vals \<noteq> [] \<and> (set vals = {''*''} \<or> x \<in> set vals)))"

definition well_formed_arguments :: "payload \<Rightarrow> bool" where
  "well_formed_arguments d \<longleftrightarrow>
     set (map fst d) \<subseteq> set ARGUMENT_FIELDS \<and>
     (\<forall>(k, v) \<in> set d. \<exists>s. v = PStr s \<and> s \<noteq> [] \<and> (k = ''value'' \<longrightarrow> char_count s \<le> 512))"

lemma argument_errors_None:
  "(\<forall>kv \<in> set d. argument_error kv = None) \<longleftrightarrow>
     (\<forall>(k, v) \<in> set d. \<exists>s. v = PStr s \<and> s \<noteq> [] \<and> (k = ''value'' \<longrightarrow> char_count s \<le> 512))"
proof -
  have "argument_error (k, v) = None \<longleftrightarrow> (\<exists>s. v = PStr s \<and> s \<noteq> [] \<and> (k = ''value'' \<longrightarrow> char_count s \<le> 512))" for k v
    by (cases v) (auto simp: argument_error_def)
  then show ?thesis by auto
qed

lemma fields_disjoint: "set ARGUMENT_FIELDS \<inter> set FORBIDDEN_MODEL_FIELDS = {}"
  by code_simp

lemma validate_value_valid:
  "validate_value name action ss d = Inr (ValidCall c) \<longleftrightarrow>
     (case str_arg d ''value'' of None \<Rightarrow> concat (map sg_values ss) = []
      | Some x \<Rightarrow> concat (map sg_values ss) \<noteq> [] \<and>
                  (set (concat (map sg_values ss)) = {''*''} \<or> x \<in> set (concat (map sg_values ss)))) \<and>
     c = \<lparr>vc_tool_name = name, vc_arguments = normalized_arguments d\<rparr>"
  by (cases "str_arg d ''value''")
    (auto simp: validate_value_def Let_def simp del: set_concat concat_eq_Nil_conv split: if_splits)

lemma validate_target_valid:
  "validate_target name action ss d = Inr (ValidCall c) \<longleftrightarrow>
     (\<exists>target. str_arg d ''target'' = Some target \<and> filter (\<lambda>s. target \<in> set (sg_targets s)) ss \<noteq> [] \<and>
        validate_value name action (filter (\<lambda>s. target \<in> set (sg_targets s)) ss) d = Inr (ValidCall c))"
  by (cases "str_arg d ''target''") (auto simp: validate_target_def Let_def)

lemma valid_call_iff:
  "validate_call rg name (PDict d) = Inr (ValidCall c) \<longleftrightarrow>
     (\<exists>t action target. by_name rg name = Inr t \<and> well_formed_arguments d \<and>
        str_arg d ''action'' = Some action \<and> str_arg d ''target'' = Some target \<and>
        fits t action target (str_arg d ''value'') \<and>
        c = \<lparr>vc_tool_name = name, vc_arguments = normalized_arguments d\<rparr>)"
proof (cases "by_name rg name")
  case (Inr t)
  show ?thesis
  proof (cases "well_formed_arguments d")
    case True
    then have ok: "\<forall>kv \<in> set d. argument_error kv = None" "set (map fst d) \<subseteq> set ARGUMENT_FIELDS"
      "set (map fst d) \<inter> set FORBIDDEN_MODEL_FIELDS = {}"
      using fields_disjoint by (auto simp: well_formed_arguments_def argument_errors_None)
    then have none: "first_error (map argument_error d) = None" by simp
    have "validate_call rg name (PDict d) = Inr (ValidCall c) \<longleftrightarrow>
        (\<exists>action. str_arg d ''action'' = Some action \<and> filter (\<lambda>s. sg_action s = action) (td_signatures t) \<noteq> [] \<and>
           validate_target name action (filter (\<lambda>s. sg_action s = action) (td_signatures t)) d = Inr (ValidCall c))"
      unfolding validate_call_def Inr Let_def dict_of.simps is_dict.simps none
      using ok(2,3) by (cases "str_arg d ''action''") (auto simp del: set_map)
    also have "\<dots> \<longleftrightarrow> (\<exists>action target. str_arg d ''action'' = Some action \<and> str_arg d ''target'' = Some target \<and>
        fits t action target (str_arg d ''value'') \<and>
        c = \<lparr>vc_tool_name = name, vc_arguments = normalized_arguments d\<rparr>)"
      unfolding validate_target_valid validate_value_valid fits_def Let_def
      by (rule ex_cong1) (auto simp del: set_concat concat_eq_Nil_conv filter_filter)
    finally show ?thesis using Inr True by simp
  next
    case False
    then have "first_error (map argument_error d) \<noteq> None \<or> \<not> set (map fst d) \<subseteq> set ARGUMENT_FIELDS"
      unfolding well_formed_arguments_def by (simp add: argument_errors_None) blast
    then have "validate_call rg name (PDict d) \<noteq> Inr (ValidCall c)"
      unfolding validate_call_def Inr Let_def
      by (cases "first_error (map argument_error d)") (auto simp del: set_map first_error_None_iff)
    with False show ?thesis by blast
  qed
qed (simp add: validate_call_def)

text \<open>C27. A model call passes the registry exactly when its tool is registered, its fields are
  among action, target and value, every field is a non-empty text (the value at most 512
  characters), and the tool declares the action on the target with that value; the accepted call
  holds nothing but these fields.\<close>

theorem tool_call_exact:
  "validate_call rg name arguments = Inr (ValidCall c) \<longleftrightarrow>
     (\<exists>d t action target. arguments = PDict d \<and> by_name rg name = Inr t \<and> well_formed_arguments d \<and>
        str_arg d ''action'' = Some action \<and> str_arg d ''target'' = Some target \<and>
        fits t action target (str_arg d ''value'') \<and>
        c = \<lparr>vc_tool_name = name, vc_arguments = normalized_arguments d\<rparr>)"
proof (cases arguments)
  case (PDict d)
  then show ?thesis using valid_call_iff [of rg name d c] by simp
qed (auto simp: validate_call_def split: sum.splits)

end
