(* ===== verification/AgentMapper.thy ===== *)
theory AgentMapper
  imports ToolRegistry ToolMap "HOL-Library.Multiset"
begin

text \<open>
  \<open>tools/mapping/mapper.py\<close>: from a validated tool call to the intent the policy decides.  The
  rules are checked once against the registry and the intent manifest; at run time a call is
  looked up by its exact \<open>(tool, action, target, value)\<close>, and by the value \<open>*\<close> where the registry
  leaves the value open.  A rule is the record \<open>mapping_rule\<close>, which the guardrail's table uses too.
\<close>

definition call_key :: "string \<Rightarrow> string dict \<Rightarrow> mapping_key" where
  "call_key tool_name arguments =
     (tool_name, the (map_of arguments ''action''), the (map_of arguments ''target''), map_of arguments ''value'')"

datatype mapping_exn = UnsupportedMapping string | MappingCrash string

record canonical_action =
  ca_intent :: string
  ca_arguments :: "string dict"
  ca_behavior_id :: string
  ca_policy_required :: bool

record mapping_event =
  me_source_tool :: string
  me_intent :: string
  me_digest :: string

definition mapping_event_to_dict :: "mapping_event \<Rightarrow> payload" where
  "mapping_event_to_dict e =
     [(''kind'', PStr ''tool_mapped''), (''source_tool'', PStr (me_source_tool e)),
      (''canonical_intent'', PStr (me_intent e)), (''proposal_digest'', PStr (me_digest e))]"

record mapped_proposal =
  mp_action :: canonical_action
  mp_digest :: string
  mp_event :: mapping_event

section \<open>The coverage report\<close>

record mapping_coverage =
  mv_missing :: "string list"
  mv_duplicate :: "mapping_key list"
  mv_ambiguous :: "mapping_key list"

definition is_complete :: "mapping_coverage \<Rightarrow> bool" where
  "is_complete c \<longleftrightarrow> mv_missing c = [] \<and> mv_duplicate c = [] \<and> mv_ambiguous c = []"

definition sort_mapping_keys :: "mapping_key list \<Rightarrow> mapping_key list" where
  "sort_mapping_keys = sort_key (\<lambda>(tool_name, action, target, v).
     [tool_name, action, target, case v of None \<Rightarrow> [] | Some s \<Rightarrow> s])"

definition intents_by_key :: "mapping_rule list \<Rightarrow> (mapping_key \<times> string list) list" where
  "intents_by_key rules =
     foldl (\<lambda>d r. AList.update (mr_key r)
       ((case map_of d (mr_key r) of None \<Rightarrow> [] | Some intents \<Rightarrow> intents) @ [mr_intent r]) d) [] rules"

definition build_coverage_report :: "mapping_rule list \<Rightarrow> intent_manifest \<Rightarrow> mapping_coverage" where
  "build_coverage_report rules m =
     (let by_key = intents_by_key rules; distinct_intents = (\<lambda>intents. length (remdups intents)) in
      \<lparr>mv_missing = sorted_unique (filter (\<lambda>i. i \<notin> set (map mr_intent rules)) (map id_intent (im_intents m))),
       mv_duplicate = sort_mapping_keys (map fst
         (filter (\<lambda>(k, intents). 1 < length intents \<and> distinct_intents intents = 1) by_key)),
       mv_ambiguous = sort_mapping_keys (map fst
         (filter (\<lambda>(k, intents). 1 < distinct_intents intents) by_key))\<rparr>)"

section \<open>The reviewed rules\<close>

definition BASE_MAPPING_RULES :: "mapping_rule list" where
  "BASE_MAPPING_RULES =
    [M ''control_access'' ''open'' ''driver_door'' ''open_door'' None,
     M ''control_access'' ''open'' ''trunk'' ''open_trunk'' None,
     M ''control_access'' ''open'' ''charge_port'' ''open_chargeport'' None,
     M ''control_access'' ''open'' ''bonnet'' ''OPEN_BONNET'' None,
     M ''control_access'' ''lock'' ''all_doors'' ''lock_doors'' None,
     M ''control_access'' ''unlock'' ''all_doors'' ''unlock_doors'' None,
     M ''control_light'' ''turn_on'' ''high_beam'' ''turnon_highbeam'' None,
     M ''control_light'' ''turn_on'' ''low_beam'' ''turnon_lowbeam'' None,
     M ''control_light'' ''turn_on'' ''left_turn_signal'' ''turnon_turnsignal_left'' None,
     M ''control_light'' ''turn_on'' ''right_turn_signal'' ''turnon_turnsignal_right'' None,
     M ''control_light'' ''turn_on'' ''hazard_light'' ''turnon_hazardlight'' None,
     M ''control_light'' ''turn_on'' ''cornering_light'' ''turnon_corneringlight'' None,
     M ''control_light'' ''turn_on'' ''interior_light'' ''turnon_interiorlight'' None,
     M ''control_light'' ''turn_off'' ''high_beam'' ''turnoff_highbeam'' None,
     M ''control_light'' ''turn_off'' ''low_beam'' ''turnoff_lowbeam'' None,
     M ''control_light'' ''turn_off'' ''left_turn_signal'' ''turnoff_turnsignal_left'' None,
     M ''control_light'' ''turn_off'' ''right_turn_signal'' ''turnoff_turnsignal_right'' None,
     M ''control_light'' ''turn_off'' ''hazard_light'' ''turnoff_hazardlight'' None,
     M ''control_light'' ''activate'' ''automatic_high_beam'' ''activate_ahb'' None,
     M ''control_cabin'' ''set'' ''wiper'' ''AD_WIPER_MAX'' (Some ''max''),
     M ''control_cabin'' ''adjust'' ''steering_wheel'' ''ad_steeringwheel'' (Some ''forward''),
     M ''control_cabin'' ''adjust'' ''steering_wheel'' ''ad_steeringwheel'' (Some ''backward''),
     M ''control_cabin'' ''adjust'' ''steering_wheel'' ''ad_steeringwheel'' (Some ''up''),
     M ''control_cabin'' ''adjust'' ''steering_wheel'' ''ad_steeringwheel'' (Some ''down''),
     M ''control_cabin'' ''adjust'' ''driver_seat_angle'' ''ad_driverseat_angle'' (Some ''forward''),
     M ''control_cabin'' ''adjust'' ''driver_seat_angle'' ''ad_driverseat_angle'' (Some ''backward''),
     M ''control_cabin'' ''adjust'' ''driver_seat_angle'' ''ad_driverseat_angle'' (Some ''up''),
     M ''control_cabin'' ''adjust'' ''driver_seat_angle'' ''ad_driverseat_angle'' (Some ''down''),
     M ''control_cabin'' ''adjust'' ''driver_seat_position'' ''ad_driverseat_pos'' (Some ''forward''),
     M ''control_cabin'' ''adjust'' ''driver_seat_position'' ''ad_driverseat_pos'' (Some ''backward''),
     M ''control_cabin'' ''adjust'' ''driver_seat_position'' ''ad_driverseat_pos'' (Some ''up''),
     M ''control_cabin'' ''adjust'' ''driver_seat_position'' ''ad_driverseat_pos'' (Some ''down''),
     M ''control_cabin'' ''fold'' ''back_seat'' ''fold_backseat'' None,
     M ''control_cabin'' ''fold'' ''mirrors'' ''fold_mirrors'' None,
     M ''control_cabin'' ''open'' ''sunroof'' ''open_sunroof'' None,
     M ''control_cabin'' ''open'' ''driver_window'' ''open_window'' None,
     M ''control_cabin'' ''open'' ''front_passenger_window'' ''open_window'' None,
     M ''control_cabin'' ''open'' ''rear_left_window'' ''open_window'' None,
     M ''control_cabin'' ''open'' ''rear_right_window'' ''open_window'' None,
     M ''control_cabin'' ''restore'' ''driver_seat_position'' ''restore_driverseat_pos'' None,
     M ''set_drive_mode'' ''set'' ''drive_mode'' ''switch_drivemode_eco'' (Some ''eco''),
     M ''set_drive_mode'' ''set'' ''drive_mode'' ''switch_drivemode_normal'' (Some ''normal''),
     M ''set_drive_mode'' ''set'' ''drive_mode'' ''switch_drivemode_sport'' (Some ''sport''),
     M ''control_transmission'' ''shift'' ''gear'' ''shift_gear_park'' (Some ''park''),
     M ''control_transmission'' ''shift'' ''gear'' ''SHIFT_GEAR_REVERSE'' (Some ''reverse''),
     M ''control_transmission'' ''activate'' ''electronic_parking_brake'' ''activate_epb'' None,
     M ''control_driver_assistance'' ''activate'' ''auto_park'' ''activate_autopark'' None,
     M ''control_driver_assistance'' ''activate'' ''adaptive_cruise_control'' ''activate_aac'' None,
     M ''control_driver_assistance'' ''activate'' ''highway_drive_assist'' ''activate_hda'' None,
     M ''control_driver_assistance'' ''activate'' ''traction_control'' ''activate_tcs'' None,
     M ''control_driver_assistance'' ''activate'' ''auto_vehicle_hold'' ''activate_avh'' None,
     M ''control_driver_assistance'' ''deactivate'' ''lane_keeping_assist'' ''turnoff_LKA'' None,
     M ''control_driver_assistance'' ''activate'' ''lane_keeping_assist'' ''turnon_LKA'' None,
     M ''control_driver_assistance'' ''deactivate'' ''electronic_stability_control'' ''deactivate_esc'' None,
     M ''control_special_mode'' ''activate'' ''creep_mode'' ''activate_creepmode'' None,
     M ''control_special_mode'' ''activate'' ''camp_mode'' ''activate_campmode'' None,
     M ''control_special_mode'' ''activate'' ''pet_mode'' ''activate_petmode'' None,
     M ''control_special_mode'' ''activate'' ''valet_mode'' ''activate_valetmode'' None,
     M ''control_ui'' ''open'' ''notification_center'' ''open_noti_center'' None,
     M ''control_ui'' ''deactivate'' ''head_up_display'' ''deactivate_hud'' None,
     M ''query_vehicle_state'' ''get'' ''current_speed'' ''get_current_speed'' None,
     M ''query_vehicle_state'' ''get'' ''battery_percentage'' ''get_battery_pct'' None,
     M ''query_vehicle_state'' ''get'' ''gear'' ''get_gear'' None,
     M ''query_vehicle_state'' ''get'' ''door_lock_status'' ''get_door_lock_status'' None,
     M ''query_vehicle_state'' ''get'' ''auto_vehicle_hold_status'' ''get_avh_status'' None,
     M ''explain_vehicle_feature'' ''explain'' ''adaptive_cruise_control'' ''explain_feature'' None,
     M ''explain_vehicle_feature'' ''explain'' ''auto_park'' ''explain_feature'' None,
     M ''explain_vehicle_feature'' ''explain'' ''auto_vehicle_hold'' ''explain_feature'' None,
     M ''explain_vehicle_feature'' ''explain'' ''automatic_high_beam'' ''explain_feature'' None,
     M ''explain_vehicle_feature'' ''explain'' ''camp_mode'' ''explain_feature'' None,
     M ''explain_vehicle_feature'' ''explain'' ''creep_mode'' ''explain_feature'' None,
     M ''explain_vehicle_feature'' ''explain'' ''electronic_parking_brake'' ''explain_feature'' None,
     M ''explain_vehicle_feature'' ''explain'' ''electronic_stability_control'' ''explain_feature'' None,
     M ''explain_vehicle_feature'' ''explain'' ''head_up_display'' ''explain_feature'' None,
     M ''explain_vehicle_feature'' ''explain'' ''highway_drive_assist'' ''explain_feature'' None,
     M ''explain_vehicle_feature'' ''explain'' ''lane_keeping_assist'' ''explain_feature'' None,
     M ''explain_vehicle_feature'' ''explain'' ''pet_mode'' ''explain_feature'' None,
     M ''explain_vehicle_feature'' ''explain'' ''traction_control'' ''explain_feature'' None,
     M ''explain_vehicle_feature'' ''explain'' ''valet_mode'' ''explain_feature'' None]"

definition candidate_rule :: "candidate_capability \<Rightarrow> mapping_rule" where
  "candidate_rule c =
     M ''control_vehicle_capability'' (cc_operation c) (cc_intent c) (cc_intent c)
       (if cc_requires_value c then Some ''*'' else None)"

definition AGENT_MAPPING_RULES :: "mapping_rule list" where
  "AGENT_MAPPING_RULES =
     BASE_MAPPING_RULES @
     map candidate_rule (filter (\<lambda>c. cc_intent c \<noteq> ''turnon_LKA'') CANDIDATE_CAPABILITIES)"

section \<open>The mapper\<close>

type_synonym rule_table = "(mapping_key \<times> mapping_rule) list"

definition rule_arguments :: "mapping_rule \<Rightarrow> payload" where
  "rule_arguments r =
     [(''action'', PStr (mr_action r)), (''target'', PStr (mr_target r))] @
     (case mr_value r of None \<Rightarrow> [] | Some v \<Rightarrow> [(''value'', PStr v)])"

text \<open>What is wrong with one rule, given the rules before it.\<close>

definition rule_error :: "tool_registry \<Rightarrow> intent_manifest \<Rightarrow> rule_table \<Rightarrow> mapping_rule \<Rightarrow> string option" where
  "rule_error rg m validated r =
     (case map_of validated (mr_key r) of
        Some existing \<Rightarrow>
          Some (if mr_intent existing = mr_intent r then ''DUPLICATE_MAPPING'' else ''AMBIGUOUS_MAPPING'')
      | None \<Rightarrow>
          (case by_intent m (mr_intent r) of
             None \<Rightarrow> Some ''UNKNOWN_MAPPING_INTENT''
           | Some d \<Rightarrow>
               if id_domain_tool d \<noteq> mr_tool_name r then Some ''MAPPING_DOMAIN_MISMATCH''
               else
                 (case validate_call rg (mr_tool_name r) (PDict (rule_arguments r)) of
                    Inl e \<Rightarrow> Some ''INVALID_MAPPING_CALL''
                  | Inr (Clarify c) \<Rightarrow> Some ''INCOMPLETE_MAPPING_CALL''
                  | Inr (ValidCall c) \<Rightarrow> None)))"

fun validate_rules_from ::
  "tool_registry \<Rightarrow> intent_manifest \<Rightarrow> rule_table \<Rightarrow> mapping_rule list \<Rightarrow> string + rule_table" where
  "validate_rules_from rg m validated [] = Inr validated"
| "validate_rules_from rg m validated (r # rs) =
     (case rule_error rg m validated r of
        Some code \<Rightarrow> Inl code
      | None \<Rightarrow> validate_rules_from rg m (AList.update (mr_key r) r validated) rs)"

definition validate_rules ::
  "tool_registry \<Rightarrow> intent_manifest \<Rightarrow> mapping_rule list \<Rightarrow> string + rule_table" where
  "validate_rules rg m rules =
     (if rules = [] then Inl ''EMPTY_MAPPING''
      else
        (case validate_rules_from rg m [] rules of
           Inl code \<Rightarrow> Inl code
         | Inr validated \<Rightarrow>
             if mv_missing (build_coverage_report (map snd validated) m) \<noteq> []
             then Inl ''INCOMPLETE_MAPPING_COVERAGE'' else Inr validated))"

record tool_mapper =
  tm_registry :: tool_registry
  tm_manifest :: intent_manifest
  tm_rules :: rule_table

definition ToolMapper :: "tool_registry \<Rightarrow> intent_manifest \<Rightarrow> mapping_rule list \<Rightarrow> string + tool_mapper" where
  "ToolMapper rg m rules =
     (case validate_rules rg m rules of
        Inl code \<Rightarrow> Inl code
      | Inr validated \<Rightarrow> Inr \<lparr>tm_registry = rg, tm_manifest = m, tm_rules = validated\<rparr>)"

definition load_default_mapper :: "tool_registry \<Rightarrow> intent_manifest \<Rightarrow> string + tool_mapper" where
  "load_default_mapper rg m = ToolMapper rg m AGENT_MAPPING_RULES"

text \<open>The rule of a call: its exact key, or the open value.\<close>

definition find_rule :: "rule_table \<Rightarrow> mapping_key \<Rightarrow> mapping_rule option" where
  "find_rule rules key =
     (case map_of rules key of
        Some r \<Rightarrow> Some r
      | None \<Rightarrow>
          (case key of
             (tool_name, action, target, None) \<Rightarrow> None
           | (tool_name, action, target, Some v) \<Rightarrow> map_of rules (tool_name, action, target, Some ''*'')))"

definition canonical_proposal :: "payload \<Rightarrow> string dict \<Rightarrow> payload" where
  "canonical_proposal p arguments =
     AList.update ''arguments'' (PDict (map (\<lambda>(k, s). (k, PStr s)) arguments)) p"

definition mapped ::
  "validated_call \<Rightarrow> mapping_rule \<Rightarrow> intent_definition \<Rightarrow> string \<Rightarrow> mapped_proposal" where
  "mapped call r d digest =
     \<lparr>mp_action = \<lparr>ca_intent = mr_intent r, ca_arguments = vc_arguments call, ca_behavior_id = id_behavior d,
                   ca_policy_required = True\<rparr>,
      mp_digest = digest,
      mp_event = \<lparr>me_source_tool = vc_tool_name call, me_intent = mr_intent r, me_digest = digest\<rparr>\<rparr>"

definition map_call :: "platform \<Rightarrow> tool_mapper \<Rightarrow> payload \<Rightarrow> validated_call \<Rightarrow> mapping_exn + mapped_proposal" where
  "map_call pf tm p call =
     (case find_rule (tm_rules tm) (call_key (vc_tool_name call) (vc_arguments call)) of
        None \<Rightarrow> Inl (UnsupportedMapping ''UNSUPPORTED_TOOL_MAPPING'')
      | Some r \<Rightarrow>
          (case by_intent (tm_manifest tm) (mr_intent r) of
             None \<Rightarrow> Inl (MappingCrash ''KeyError'')
           | Some d \<Rightarrow>
               (case agent_digest pf (canonical_proposal p (vc_arguments call)) of
                  Inl (ContractError code) \<Rightarrow> Inl (MappingCrash code)
                | Inl (ContractCrash code) \<Rightarrow> Inl (MappingCrash code)
                | Inr digest \<Rightarrow> Inr (mapped call r d digest))))"

definition map_proposal :: "platform \<Rightarrow> tool_mapper \<Rightarrow> payload \<Rightarrow> mapping_exn + mapped_proposal" where
  "map_proposal pf tm p =
     (case agent_proposal_error p of
        Some (ContractError code) \<Rightarrow> Inl (UnsupportedMapping ''INVALID_ACTION_PROPOSAL'')
      | Some (ContractCrash code) \<Rightarrow> Inl (MappingCrash code)
      | None \<Rightarrow>
          (case validate_call (tm_registry tm) (text_of (get_key p ''tool'')) (get_key p ''arguments'') of
             Inl (ToolCallError code) \<Rightarrow> Inl (UnsupportedMapping code)
           | Inl (ToolCrash code) \<Rightarrow> Inl (MappingCrash code)
           | Inr (Clarify c) \<Rightarrow> Inl (UnsupportedMapping ''INCOMPLETE_TOOL_CALL'')
           | Inr (ValidCall call) \<Rightarrow> map_call pf tm p call))"

section \<open>What the startup check accepts\<close>

definition rule_ok :: "tool_registry \<Rightarrow> intent_manifest \<Rightarrow> mapping_rule \<Rightarrow> bool" where
  "rule_ok rg m r \<longleftrightarrow>
     (\<exists>d. by_intent m (mr_intent r) = Some d \<and> id_domain_tool d = mr_tool_name r) \<and>
     (\<exists>c. validate_call rg (mr_tool_name r) (PDict (rule_arguments r)) = Inr (ValidCall c))"

lemma rule_error_None: "rule_error rg m table r = None \<longleftrightarrow> mr_key r \<notin> fst ` set table \<and> rule_ok rg m r"
  by (auto simp: rule_error_def rule_ok_def map_of_eq_None_iff dest: map_of_key
      split: option.splits sum.splits call_result.splits)

lemma update_fresh: "k \<notin> fst ` set d \<Longrightarrow> AList.update k v d = d @ [(k, v)]"
  by (induction d) auto

lemma validate_rules_from_iff:
  "validate_rules_from rg m table rs = Inr t \<longleftrightarrow>
     distinct (map mr_key rs) \<and> set (map mr_key rs) \<inter> fst ` set table = {} \<and> list_all (rule_ok rg m) rs \<and>
     t = table @ map (\<lambda>r. (mr_key r, r)) rs"
proof (induction rs arbitrary: table)
  case (Cons r rs)
  show ?case
  proof (cases "rule_error rg m table r")
    case None
    then have new: "mr_key r \<notin> fst ` set table" and ok: "rule_ok rg m r" by (simp_all add: rule_error_None)
    have "validate_rules_from rg m table (r # rs) = validate_rules_from rg m (table @ [(mr_key r, r)]) rs"
      by (simp add: None update_fresh new)
    with new ok show ?thesis by (auto simp: Cons.IH)
  next
    case (Some code)
    then have "\<not> (mr_key r \<notin> fst ` set table \<and> rule_ok rg m r)" using rule_error_None by (metis option.distinct(1))
    with Some show ?thesis by auto
  qed
qed auto

lemma intents_by_key_distinct:
  assumes "distinct (map mr_key rs)"
  shows "intents_by_key rs = map (\<lambda>r. (mr_key r, [mr_intent r])) rs"
proof -
  have "foldl (\<lambda>d r. AList.update (mr_key r)
          ((case map_of d (mr_key r) of None \<Rightarrow> [] | Some intents \<Rightarrow> intents) @ [mr_intent r]) d) d rs =
        d @ map (\<lambda>r. (mr_key r, [mr_intent r])) rs"
    if "set (map mr_key rs) \<inter> fst ` set d = {}" for d
    using assms that
  proof (induction rs arbitrary: d)
    case (Cons r rs)
    then have new: "mr_key r \<notin> fst ` set d" by auto
    then have "map_of d (mr_key r) = None" by (simp add: map_of_eq_None_iff)
    with new Cons show ?case by (auto simp: update_fresh)
  qed simp
  from this [of "[]"] show ?thesis by (simp add: intents_by_key_def)
qed

lemma complete_iff_distinct:
  assumes "distinct (map mr_key rs)"
  shows "is_complete (build_coverage_report rs m) \<longleftrightarrow>
    set (map id_intent (im_intents m)) \<subseteq> set (map mr_intent rs)"
  by (auto simp: is_complete_def build_coverage_report_def Let_def intents_by_key_distinct [OF assms]
      sort_mapping_keys_def filter_empty_conv)

lemma validate_rules_iff:
  "validate_rules rg m rules = Inr t \<longleftrightarrow>
     rules \<noteq> [] \<and> distinct (map mr_key rules) \<and> list_all (rule_ok rg m) rules \<and>
     set (map id_intent (im_intents m)) \<subseteq> set (map mr_intent rules) \<and> t = map (\<lambda>r. (mr_key r, r)) rules"
proof -
  have missing: "mv_missing (build_coverage_report rs m) = [] \<longleftrightarrow>
      set (map id_intent (im_intents m)) \<subseteq> set (map mr_intent rs)" for rs
    by (auto simp: build_coverage_report_def Let_def filter_empty_conv)
  show ?thesis
  proof (cases "distinct (map mr_key rules) \<and> list_all (rule_ok rg m) rules")
    case True
    then have "validate_rules_from rg m [] rules = Inr (map (\<lambda>r. (mr_key r, r)) rules)"
      by (simp add: validate_rules_from_iff)
    with True show ?thesis by (auto simp: validate_rules_def missing comp_def simp del: set_map)
  next
    case False
    then have "validate_rules_from rg m [] rules \<noteq> Inr v" for v by (auto simp: validate_rules_from_iff)
    then obtain e where "validate_rules_from rg m [] rules = Inl e" by (cases "validate_rules_from rg m [] rules") auto
    with False show ?thesis by (auto simp: validate_rules_def)
  qed
qed

section \<open>The rules of the committed files\<close>

lemma base_rules_shared: "BASE_MAPPING_RULES = DEFAULT_MAPPING_RULES"
  by (simp only: BASE_MAPPING_RULES_def DEFAULT_MAPPING_RULES_def)

definition AGENT_MAPPER :: tool_mapper where
  "AGENT_MAPPER =
     \<lparr>tm_registry = AGENT_REGISTRY, tm_manifest = AGENT_MANIFEST,
      tm_rules = map (\<lambda>r. (mr_key r, r)) AGENT_MAPPING_RULES\<rparr>"

abbreviation candidate_rules :: "mapping_rule list" where
  "candidate_rules \<equiv> map candidate_rule (filter (\<lambda>c. cc_intent c \<noteq> ''turnon_LKA'') CANDIDATE_CAPABILITIES)"

lemma distinct_candidate_intents: "distinct (map cc_intent CANDIDATE_CAPABILITIES)"
  using committed_inventory(4) by (simp add: CANDIDATE_INTENTS_def)

lemma candidate_rule_keys:
  "distinct (map mr_key candidate_rules)" "k \<in> mr_key ` set candidate_rules \<Longrightarrow> fst k = ''control_vehicle_capability''"
proof -
  have "inj_on cc_intent (set CANDIDATE_CAPABILITIES)" "distinct CANDIDATE_CAPABILITIES"
    using distinct_candidate_intents by (auto simp: distinct_map)
  then show "distinct (map mr_key candidate_rules)"
    by (auto simp: distinct_map candidate_rule_def mr_key_def M_def inj_on_def intro!: inj_onI)
  show "k \<in> mr_key ` set candidate_rules \<Longrightarrow> fst k = ''control_vehicle_capability''"
    by (auto simp: candidate_rule_def mr_key_def M_def)
qed

lemma base_rule_tools: "list_all (\<lambda>r. mr_tool_name r \<noteq> ''control_vehicle_capability'') BASE_MAPPING_RULES"
  by code_simp

lemma distinct_rule_keys: "distinct (map mr_key AGENT_MAPPING_RULES)"
proof -
  have "mr_key ` set BASE_MAPPING_RULES \<inter> mr_key ` set candidate_rules = {}"
    using candidate_rule_keys(2) base_rule_tools by (fastforce simp: list_all_iff mr_key_def)
  then show ?thesis
    unfolding AGENT_MAPPING_RULES_def map_append distinct_append set_map
    using distinct_default_keys candidate_rule_keys(1) by (simp add: base_rules_shared)
qed

lemma agent_rule_lookup: "map_of (tm_rules AGENT_MAPPER) k = Some r \<longleftrightarrow> r \<in> set AGENT_MAPPING_RULES \<and> mr_key r = k"
proof -
  have "distinct (map fst (tm_rules AGENT_MAPPER))"
    using distinct_rule_keys by (simp add: AGENT_MAPPER_def comp_def)
  then show ?thesis by (auto simp: AGENT_MAPPER_def image_iff)
qed

section \<open>The committed registry declares what the rules name\<close>

lemma by_name_member: "t \<in> set (tr_tools AGENT_REGISTRY) \<Longrightarrow> by_name AGENT_REGISTRY (td_name t) = Inr t"
proof -
  assume t: "t \<in> set (tr_tools AGENT_REGISTRY)"
  then obtain u where u: "find (\<lambda>u. td_name u = td_name t) (tr_tools AGENT_REGISTRY) = Some u"
    by (cases "find (\<lambda>u. td_name u = td_name t) (tr_tools AGENT_REGISTRY)") (auto simp: find_None_iff)
  then have "u \<in> set (tr_tools AGENT_REGISTRY)" "td_name u = td_name t" by (auto simp: find_Some_iff)
  moreover have "inj_on td_name (set (tr_tools AGENT_REGISTRY))"
    using agent_tool_names distinct_tool_names by (metis distinct_map)
  ultimately have "u = t" using t by (auto dest: inj_onD)
  with u show ?thesis by (simp add: by_name_def)
qed

definition BASE_TOOLS :: "tool_definition list" where
  "BASE_TOOLS = extend_assistance (map row_tool TOOL_ROWS)"

lemma agent_tools: "tr_tools AGENT_REGISTRY = BASE_TOOLS @ [capability_tool]"
  by (simp add: AGENT_REGISTRY_def BASE_TOOLS_def)

text \<open>Every base rule names a call its tool declares, and every declared call has a rule.\<close>

lemma base_rules_fit:
  "list_all (\<lambda>r. list_ex (\<lambda>t. td_name t = mr_tool_name r \<and> fits t (mr_action r) (mr_target r) (mr_value r)) BASE_TOOLS)
     BASE_MAPPING_RULES"
  by code_simp

definition covered :: "mapping_key list \<Rightarrow> tool_definition \<Rightarrow> bool" where
  "covered ks t =
     list_all (\<lambda>s. list_all (\<lambda>target.
         if sg_values s = [] then (td_name t, sg_action s, target, None) \<in> set ks
         else list_all (\<lambda>v. (td_name t, sg_action s, target, Some v) \<in> set ks) (sg_values s))
       (sg_targets s)) (td_signatures t)"

lemma base_tools_covered: "list_all (covered (map mr_key BASE_MAPPING_RULES)) BASE_TOOLS"
  by code_simp

lemma candidate_operations:
  "list_all (\<lambda>c. cc_operation c \<in> {''execute'', ''set'', ''query''} \<and>
     cc_requires_value c = (cc_operation c = ''set'')) CANDIDATE_CAPABILITIES"
  by code_simp

lemma agent_manifest_names: "distinct (map id_intent (im_intents AGENT_MANIFEST))"
  using inventory_names(1) [OF inventory_committed] by (simp add: AGENT_MANIFEST_def)

lemma agent_manifest_member: "d \<in> set (im_intents AGENT_MANIFEST) \<Longrightarrow> by_intent AGENT_MANIFEST (id_intent d) = Some d"
  by (rule by_intent_exact [OF agent_manifest_names])

text \<open>Every pair of the second list is an entry of the first.\<close>

fun entries_of :: "string dict \<Rightarrow> string dict \<Rightarrow> bool" where
  "entries_of table [] = True"
| "entries_of table ((k, v) # kvs) = (if map_of table k = Some v then entries_of table kvs else False)"

lemma entries_of_member: "entries_of table kvs \<Longrightarrow> (k, v) \<in> set kvs \<Longrightarrow> (k, v) \<in> set table"
  by (induction table kvs rule: entries_of.induct) (auto dest: map_of_SomeD split: if_splits)

lemma base_rules_tools:
  "entries_of (map (\<lambda>d. (id_intent d, id_domain_tool d)) BASE_DEFINITIONS)
     (map (\<lambda>r. (mr_intent r, mr_tool_name r)) (filter (\<lambda>r. mr_intent r \<noteq> ''turnon_LKA'') BASE_MAPPING_RULES))"
  by code_simp

lemma lka_rule_tool:
  "list_all (\<lambda>r. mr_intent r = ''turnon_LKA'' \<longrightarrow> mr_tool_name r = ''control_driver_assistance'') BASE_MAPPING_RULES"
  "''turnon_LKA'' \<in> set CANDIDATE_INTENTS"
  by code_simp+

lemma base_rule_definition:
  assumes r: "r \<in> set BASE_MAPPING_RULES"
  shows "\<exists>d \<in> set (im_intents AGENT_MANIFEST). id_intent d = mr_intent r \<and> id_domain_tool d = mr_tool_name r"
proof (cases "mr_intent r = ''turnon_LKA''")
  case True
  from lka_rule_tool(2) obtain c where "c \<in> set CANDIDATE_CAPABILITIES" "cc_intent c = ''turnon_LKA''"
    by (auto simp: CANDIDATE_INTENTS_def)
  then have "candidate_definition c \<in> set (im_intents AGENT_MANIFEST)"
    by (simp add: AGENT_MANIFEST_def CANDIDATE_DEFINITIONS_def)
  moreover have "id_intent (candidate_definition c) = ''turnon_LKA''"
    "id_domain_tool (candidate_definition c) = ''control_driver_assistance''"
    using \<open>cc_intent c = ''turnon_LKA''\<close> by (simp_all add: candidate_definition_def intent_def_def)
  moreover have "mr_tool_name r = ''control_driver_assistance''"
    using r True lka_rule_tool(1) by (simp add: list_all_iff)
  ultimately show ?thesis using True by metis
next
  case False
  with r have "(mr_intent r, mr_tool_name r) \<in> set (map (\<lambda>r. (mr_intent r, mr_tool_name r))
      (filter (\<lambda>r. mr_intent r \<noteq> ''turnon_LKA'') BASE_MAPPING_RULES))" by force
  from entries_of_member [OF base_rules_tools this] show ?thesis by (auto simp: AGENT_MANIFEST_def)
qed

lemma base_rules_words:
  "list_all (\<lambda>r. mr_action r \<noteq> [] \<and> mr_target r \<noteq> [] \<and>
     (case mr_value r of None \<Rightarrow> True | Some v \<Rightarrow> v \<noteq> [] \<and> char_count v \<le> 512)) BASE_MAPPING_RULES"
  by code_simp

lemma base_rules_cover: "set BASE_APPROVED_INTENTS \<union> {''turnon_LKA''} \<subseteq> set (map mr_intent BASE_MAPPING_RULES)"
  by code_simp

lemma rule_arguments_ok:
  assumes "by_name rg (mr_tool_name r) = Inr t" "fits t (mr_action r) (mr_target r) (mr_value r)"
    and "mr_action r \<noteq> []" "mr_target r \<noteq> []"
    and "case mr_value r of None \<Rightarrow> True | Some v \<Rightarrow> v \<noteq> [] \<and> char_count v \<le> 512"
  shows "\<exists>c. validate_call rg (mr_tool_name r) (PDict (rule_arguments r)) = Inr (ValidCall c)"
proof -
  have "well_formed_arguments (rule_arguments r)" "str_arg (rule_arguments r) ''action'' = Some (mr_action r)"
    "str_arg (rule_arguments r) ''target'' = Some (mr_target r)"
    "str_arg (rule_arguments r) ''value'' = mr_value r"
    using assms(3-5)
    by (auto simp: well_formed_arguments_def rule_arguments_def str_arg_def ARGUMENT_FIELDS_def split: option.splits)
  with assms(1,2) show ?thesis by (simp add: valid_call_iff)
qed

lemma base_rules_ok: "list_all (rule_ok AGENT_REGISTRY AGENT_MANIFEST) BASE_MAPPING_RULES"
  unfolding list_all_iff
proof
  fix r assume r: "r \<in> set BASE_MAPPING_RULES"
  from base_rule_definition [OF this] obtain d where d: "d \<in> set (im_intents AGENT_MANIFEST)"
    "id_intent d = mr_intent r" "id_domain_tool d = mr_tool_name r" by blast
  from r base_rules_fit obtain t where t: "t \<in> set BASE_TOOLS" "td_name t = mr_tool_name r"
    "fits t (mr_action r) (mr_target r) (mr_value r)"
    by (auto simp: list_all_iff list_ex_iff)
  from t(1) have "t \<in> set (tr_tools AGENT_REGISTRY)" by (simp add: agent_tools)
  with t(2) have "by_name AGENT_REGISTRY (mr_tool_name r) = Inr t" by (metis by_name_member)
  moreover note words = base_rules_words [unfolded list_all_iff, rule_format, OF r]
  ultimately have "\<exists>c. validate_call AGENT_REGISTRY (mr_tool_name r) (PDict (rule_arguments r)) = Inr (ValidCall c)"
    using t(3) words by (intro rule_arguments_ok) auto
  with d agent_manifest_member [OF d(1)] show "rule_ok AGENT_REGISTRY AGENT_MANIFEST r"
    by (auto simp: rule_ok_def)
qed

lemma candidate_words: "list_all (\<lambda>c. cc_intent c \<noteq> [] \<and> cc_operation c \<noteq> []) CANDIDATE_CAPABILITIES"
  by code_simp

lemma candidate_fits:
  assumes "c \<in> set CANDIDATE_CAPABILITIES" "cc_intent c \<noteq> ''turnon_LKA''"
  shows "fits capability_tool (cc_operation c) (cc_intent c) (if cc_requires_value c then Some ''*'' else None)"
proof -
  have "cc_operation c \<in> {''execute'', ''set'', ''query''}" "cc_requires_value c = (cc_operation c = ''set'')"
    using assms(1) candidate_operations by (auto simp: list_all_iff)
  moreover have "cc_intent c \<in> set (candidate_targets (cc_operation c))"
    using assms(1) by (auto simp: candidate_targets_def)
  ultimately show ?thesis
    using assms(2) by (auto simp: fits_def capability_tool_def tool_of_def tool_sig_def Let_def)
qed

lemma candidate_rules_ok: "list_all (rule_ok AGENT_REGISTRY AGENT_MANIFEST) candidate_rules"
  unfolding list_all_iff
proof
  fix r assume "r \<in> set candidate_rules"
  then obtain c where c: "c \<in> set CANDIDATE_CAPABILITIES" "cc_intent c \<noteq> ''turnon_LKA''" "r = candidate_rule c"
    by auto
  have "candidate_definition c \<in> set (im_intents AGENT_MANIFEST)"
    using c(1) by (simp add: AGENT_MANIFEST_def CANDIDATE_DEFINITIONS_def)
  from agent_manifest_member [OF this] have "by_intent AGENT_MANIFEST (cc_intent c) = Some (candidate_definition c)"
    by (simp add: candidate_definition_def intent_def_def)
  moreover have "by_name AGENT_REGISTRY (td_name capability_tool) = Inr capability_tool"
    by (rule by_name_member) (simp add: agent_tools)
  ultimately show "rule_ok AGENT_REGISTRY AGENT_MANIFEST r"
    using candidate_fits [OF c(1,2)] candidate_words c
    unfolding rule_ok_def
    by (intro conjI rule_arguments_ok)
      (auto simp: candidate_rule_def M_def candidate_definition_def intent_def_def capability_tool_def tool_of_def
        list_all_iff char_count_def)
qed

lemma rules_cover_manifest: "set (map id_intent (im_intents AGENT_MANIFEST)) \<subseteq> set (map mr_intent AGENT_MAPPING_RULES)"
proof -
  have "cc_intent c \<in> set (map mr_intent AGENT_MAPPING_RULES)" if "c \<in> set CANDIDATE_CAPABILITIES" for c
  proof (cases "cc_intent c = ''turnon_LKA''")
    case True
    then show ?thesis using base_rules_cover by (auto simp: AGENT_MAPPING_RULES_def)
  next
    case False
    with that have "candidate_rule c \<in> set AGENT_MAPPING_RULES" by (simp add: AGENT_MAPPING_RULES_def)
    then have "mr_intent (candidate_rule c) \<in> set (map mr_intent AGENT_MAPPING_RULES)" by simp
    then show ?thesis by (simp add: candidate_rule_def M_def)
  qed
  then have "set CANDIDATE_INTENTS \<subseteq> set (map mr_intent AGENT_MAPPING_RULES)"
    by (auto simp: CANDIDATE_INTENTS_def)
  moreover have "set (map id_intent (im_intents AGENT_MANIFEST)) = set BASE_APPROVED_INTENTS \<union> set CANDIDATE_INTENTS"
    using committed_inventory(2) candidate_names by (simp add: AGENT_MANIFEST_def flip: set_map)
  moreover have "set BASE_APPROVED_INTENTS \<subseteq> set (map mr_intent AGENT_MAPPING_RULES)"
    using base_rules_cover by (auto simp: AGENT_MAPPING_RULES_def)
  ultimately show ?thesis by blast
qed

lemma default_rules_ok: "validate_rules AGENT_REGISTRY AGENT_MANIFEST AGENT_MAPPING_RULES = Inr (tm_rules AGENT_MAPPER)"
proof -
  have "list_all (rule_ok AGENT_REGISTRY AGENT_MANIFEST) AGENT_MAPPING_RULES"
    unfolding AGENT_MAPPING_RULES_def list_all_append using base_rules_ok candidate_rules_ok by blast
  moreover have "AGENT_MAPPING_RULES \<noteq> []"
    by (simp add: AGENT_MAPPING_RULES_def BASE_MAPPING_RULES_def)
  ultimately show ?thesis
    unfolding validate_rules_iff using distinct_rule_keys rules_cover_manifest by (simp add: AGENT_MAPPER_def)
qed

section \<open>Every valid call is mapped\<close>

lemma capability_covered: "covered (map mr_key AGENT_MAPPING_RULES) capability_tool"
proof -
  have key: "(''control_vehicle_capability'', cc_operation c, cc_intent c, if cc_requires_value c then Some ''*'' else None)
      \<in> set (map mr_key AGENT_MAPPING_RULES)" if "c \<in> set CANDIDATE_CAPABILITIES" "cc_intent c \<noteq> ''turnon_LKA''" for c
  proof -
    have "candidate_rule c \<in> set AGENT_MAPPING_RULES" using that by (simp add: AGENT_MAPPING_RULES_def)
    then have "mr_key (candidate_rule c) \<in> set (map mr_key AGENT_MAPPING_RULES)" by simp
    then show ?thesis by (simp add: candidate_rule_def mr_key_def M_def)
  qed
  have lka: "cc_operation c = ''execute''" if "c \<in> set CANDIDATE_CAPABILITIES" "cc_intent c = ''turnon_LKA''" for c
  proof -
    have "list_all (\<lambda>c. cc_intent c = ''turnon_LKA'' \<longrightarrow> cc_operation c = ''execute'') CANDIDATE_CAPABILITIES"
      by code_simp
    with that show ?thesis by (auto simp: list_all_iff)
  qed
  have ops: "cc_requires_value c = (cc_operation c = ''set'')" if "c \<in> set CANDIDATE_CAPABILITIES" for c
    using that candidate_operations by (simp add: list_all_iff)
  let ?K = "set (map mr_key AGENT_MAPPING_RULES)"
  have declared: "(''control_vehicle_capability'', op, i, if op = ''set'' then Some ''*'' else None) \<in> ?K"
    if i: "i \<in> set (candidate_targets op)" and nl: "i \<noteq> ''turnon_LKA'' \<or> op \<noteq> ''execute''" for i op
  proof -
    from i obtain c where c: "c \<in> set CANDIDATE_CAPABILITIES" "cc_operation c = op" "cc_intent c = i"
      by (auto simp: candidate_targets_def)
    with nl lka have "cc_intent c \<noteq> ''turnon_LKA''" by auto
    from key [OF c(1) this] ops [OF c(1)] c show ?thesis by simp
  qed
  from declared [of _ "''execute''"] declared [of _ "''set''"] declared [of _ "''query''"] show ?thesis
    by (simp add: covered_def capability_tool_def tool_of_def tool_sig_def list_all_iff del: set_map)
qed

lemma tools_covered: "t \<in> set (tr_tools AGENT_REGISTRY) \<Longrightarrow> covered (map mr_key AGENT_MAPPING_RULES) t"
proof -
  assume "t \<in> set (tr_tools AGENT_REGISTRY)"
  then consider "t \<in> set BASE_TOOLS" | "t = capability_tool" by (auto simp: agent_tools)
  then show ?thesis
  proof cases
    case 1
    then have "covered (map mr_key BASE_MAPPING_RULES) t" using base_tools_covered by (simp add: list_all_iff)
    then show ?thesis
      by (auto simp: covered_def list_all_iff AGENT_MAPPING_RULES_def split: if_splits)
  qed (simp add: capability_covered)
qed

lemma find_rule_exact: "map_of rules k = Some r \<Longrightarrow> find_rule rules k = Some r"
  by (simp add: find_rule_def)

lemma find_rule_open:
  "map_of rules (tool_name, action, target, Some ''*'') = Some r \<Longrightarrow>
     \<exists>r. find_rule rules (tool_name, action, target, Some x) = Some r"
  by (cases "map_of rules (tool_name, action, target, Some x)") (simp_all add: find_rule_def)

lemma fits_has_rule:
  assumes "covered (map mr_key AGENT_MAPPING_RULES) t" "fits t action target v"
  shows "\<exists>r. find_rule (tm_rules AGENT_MAPPER) (td_name t, action, target, v) = Some r"
proof -
  let ?ms = "filter (\<lambda>s. target \<in> set (sg_targets s)) (filter (\<lambda>s. sg_action s = action) (td_signatures t))"
  have keys: "\<exists>r. map_of (tm_rules AGENT_MAPPER) k = Some r" if "k \<in> set (map mr_key AGENT_MAPPING_RULES)" for k
    using that agent_rule_lookup by auto
  have sig: "(td_name t, action, target, None) \<in> set (map mr_key AGENT_MAPPING_RULES)"
    if "s \<in> set ?ms" "sg_values s = []" for s
    using assms(1) that by (force simp: covered_def list_all_iff simp del: set_map)
  have val: "(td_name t, action, target, Some x) \<in> set (map mr_key AGENT_MAPPING_RULES)"
    if "s \<in> set ?ms" "x \<in> set (sg_values s)" for s x
    using assms(1) that by (force simp: covered_def list_all_iff simp del: set_map split: if_splits)
  show ?thesis
  proof (cases v)
    case None
    with assms(2) obtain s where "s \<in> set ?ms" "sg_values s = []"
      by (auto simp: fits_def Let_def filter_empty_conv)
    then have "\<exists>r. map_of (tm_rules AGENT_MAPPER) (td_name t, action, target, None) = Some r" by (intro keys sig)
    then show ?thesis using None find_rule_exact by blast
  next
    case (Some x)
    let ?vs = "concat (map sg_values ?ms)"
    have open_or: "set ?vs = {''*''} \<or> x \<in> set ?vs"
      using assms(2) unfolding fits_def Let_def Some by (simp del: set_concat filter_filter)
    have rule: "\<exists>r. map_of (tm_rules AGENT_MAPPER) (td_name t, action, target, Some y) = Some r"
      if y: "y \<in> set ?vs" for y
    proof -
      from y obtain s where "s \<in> set ?ms" "y \<in> set (sg_values s)" unfolding set_concat set_map by blast
      then show ?thesis by (intro keys val)
    qed
    from open_or consider "x \<in> set ?vs" | "''*'' \<in> set ?vs" by blast
    then show ?thesis unfolding Some
      by cases (use rule find_rule_exact find_rule_open in blast)+
  qed
qed

lemma valid_call_has_rule:
  assumes "validate_call AGENT_REGISTRY name arguments = Inr (ValidCall c)"
  shows "\<exists>r. find_rule (tm_rules AGENT_MAPPER) (call_key (vc_tool_name c) (vc_arguments c)) = Some r"
proof -
  from assms obtain d where d: "arguments = PDict d"
    by (cases arguments) (auto simp: validate_call_def split: sum.splits)
  from assms [unfolded d valid_call_iff] obtain t action target where t: "by_name AGENT_REGISTRY name = Inr t"
    and words: "str_arg d ''action'' = Some action" "str_arg d ''target'' = Some target"
    and fits: "fits t action target (str_arg d ''value'')"
    and c: "c = \<lparr>vc_tool_name = name, vc_arguments = normalized_arguments d\<rparr>" by blast
  from t have member: "t \<in> set (tr_tools AGENT_REGISTRY)" "td_name t = name"
    by (auto simp: by_name_def find_Some_iff split: option.splits)
  have "call_key name (normalized_arguments d) = (name, action, target, str_arg d ''value'')"
    using words by (cases "str_arg d ''value''") (simp_all add: call_key_def normalized_arguments_def ARGUMENT_FIELDS_def)
  with fits_has_rule [OF tools_covered [OF member(1)] fits] member(2) c show ?thesis by simp
qed

section \<open>The digest\<close>

text \<open>The canonical text of a dictionary does not depend on the order of its members.\<close>

lemma sort_key_perm:
  assumes "mset xs = mset ys" "distinct (map fst ys)"
  shows "sort_key fst xs = sort_key fst ys"
proof (rule sort_key_inj_key_eq)
  show "mset xs = mset (sort_key fst ys)" using assms(1) by simp
  have "set xs = set ys" using assms(1) by (rule mset_eq_setD)
  then show "inj_on fst (set xs)" using assms(2) by (simp add: distinct_map)
qed simp

lemma all_some_perm:
  assumes "mset xs = mset ys" "all_some (map f ys) = Some ts"
  obtains us where "all_some (map f xs) = Some us" "mset us = mset ts"
proof
  from assms(2) have ys: "map f ys = map Some ts" by (simp add: all_some_eq_Some)
  then have "mset (map f xs) = mset (map Some ts)" using assms(1) by (metis mset_map)
  then have "set (map f xs) = Some ` set ts" by (metis mset_eq_setD set_map)
  then have "f x = Some (the (f x))" if "x \<in> set xs" for x using that by (force simp: set_eq_iff image_iff)
  then have "map f xs = map Some (map (the \<circ> f) xs)" by simp
  then show "all_some (map f xs) = Some (map (the \<circ> f) xs)" by (simp add: all_some_eq_Some)
  show "mset (map (the \<circ> f) xs) = mset ts"
    using \<open>mset (map f xs) = mset (map Some ts)\<close>
    by (metis (no_types, lifting) map_map mset_map option.sel map_idI comp_apply)
qed

lemma map_pair_keys: "map (\<lambda>(k, v). map_option (Pair k) (g v)) e = map Some ts \<Longrightarrow> map fst ts = map fst e"
  by (induction e arbitrary: ts) auto

lemma dumps_dict_perm:
  assumes "mset d = mset e" "distinct (map fst e)"
  shows "dumps pf (PDict d) = dumps pf (PDict e)"
proof -
  let ?f = "\<lambda>(k, v). map_option (Pair k) (dumps pf v)"
  show ?thesis
  proof (cases "all_some (map ?f e)")
    case None
    have "all_some (map ?f d) = None"
    proof (cases "all_some (map ?f d)")
      case (Some ts)
      from all_some_perm [OF assms(1) [symmetric] Some] None show ?thesis by auto
    qed
    with None show ?thesis by simp
  next
    case (Some ts)
    from all_some_perm [OF assms(1) Some] obtain us
      where us: "all_some (map ?f d) = Some us" "mset us = mset ts" by blast
    have "map fst ts = map fst e"
      using Some unfolding all_some_eq_Some by (rule map_pair_keys)
    then have "distinct (map fst ts)" using assms(2) by simp
    from sort_key_perm [OF us(2) this] us(1) Some show ?thesis by simp
  qed
qed

text \<open>The normalized arguments of a valid call are its arguments in the order of the fields.\<close>

lemma normalized_perm:
  assumes "well_formed_arguments d" "distinct (map fst d)"
  shows "mset (map (\<lambda>(k, s). (k, PStr s)) (normalized_arguments d)) = mset d"
proof -
  let ?n = "map (\<lambda>(k, s). (k, PStr s)) (normalized_arguments d)"
  have "map_of ?n k = map_of d k" for k
  proof (cases "k \<in> set ARGUMENT_FIELDS")
    case True
    have str: "map_of d k = map_option PStr (str_arg d k)" for k
      using assms(1) by (fastforce simp: str_arg_def well_formed_arguments_def dest: map_of_SomeD split: option.split)
    have "map_of ?n k = map_option PStr (str_arg d k)"
      using True by (cases "str_arg d ''action''"; cases "str_arg d ''target''"; cases "str_arg d ''value''")
        (auto simp: normalized_arguments_def ARGUMENT_FIELDS_def)
    with str show ?thesis by simp
  next
    case False
    then have "k \<notin> fst ` set d" using assms(1) by (auto simp: well_formed_arguments_def)
    moreover have "k \<notin> fst ` set ?n"
      using False by (auto simp: normalized_arguments_def split: option.splits)
    ultimately show ?thesis by (metis map_of_eq_None_iff)
  qed
  then have "map_of ?n = map_of d" by blast
  moreover have "distinct (map fst ?n)"
    by (cases "str_arg d ''action''"; cases "str_arg d ''target''"; cases "str_arg d ''value''")
      (auto simp: normalized_arguments_def ARGUMENT_FIELDS_def)
  ultimately have "set ?n = set d" using assms(2) by (metis map_of_inject_set)
  moreover have "distinct ?n" "distinct d"
    using \<open>distinct (map fst ?n)\<close> assms(2) by (metis distinct_map)+
  ultimately show ?thesis by (metis set_eq_iff_mset_eq_distinct)
qed

lemma update_same_key:
  "map_of p k = Some x \<Longrightarrow> map fst (AList.update k v p) = map fst p"
  "get_key (AList.update k v p) j = (if j = k then v else get_key p j)"
  by (induction p) (auto simp: get_key_def update_conv')

lemma dumps_head: "dumps pf v = dumps pf w \<Longrightarrow> dumps pf (PDict ((k, v) # r)) = dumps pf (PDict ((k, w) # r))"
  by simp

lemma canonical_digest:
  assumes "agent_proposal_error p = None" "get_key p ''arguments'' = PDict d"
    and "well_formed_arguments d" "distinct (map fst d)"
  shows "agent_digest pf (canonical_proposal p (normalized_arguments d)) = agent_digest pf p"
proof -
  let ?n = "map (\<lambda>(k, s). (k, PStr s)) (normalized_arguments d)"
  let ?c = "canonical_proposal p (normalized_arguments d)"
  have get: "get_key ?c k = (if k = ''arguments'' then PDict ?n else get_key p k)" for k
    by (simp add: canonical_proposal_def update_same_key)
  have "fst ` set p = set AGENT_PROPOSAL_FIELDS" using assms(1) unfolding proposal_accepted_iff by blast
  then have "''arguments'' \<in> fst ` set p" by (simp add: AGENT_PROPOSAL_FIELDS_def)
  then have keys: "fst ` set ?c = fst ` set p" by (auto simp: canonical_proposal_def)
  have "agent_proposal_error ?c = None"
    using assms(1) unfolding proposal_accepted_iff keys get by (simp del: set_map)
  moreover have "dumps pf (PDict (agent_projection ?c)) = dumps pf (PDict (agent_projection p))"
  proof -
    have same: "dumps pf (PDict ?n) = dumps pf (PDict d)"
      by (rule dumps_dict_perm [OF normalized_perm [OF assms(3,4)] assms(4)])
    have c: "agent_projection ?c = (''arguments'', PDict ?n) # tl (agent_projection p)"
      by (simp add: agent_projection_def get)
    have p: "agent_projection p = (''arguments'', PDict d) # tl (agent_projection p)"
      by (simp add: agent_projection_def assms(2))
    show ?thesis unfolding c dumps_head [OF same] by (simp only: p [symmetric])
  qed
  ultimately show ?thesis using assms(1) by (simp add: agent_digest_def)
qed

section \<open>Properties of the mapper\<close>

text \<open>Startup: with the committed registry, manifest and rules the mapper loads, and the coverage
  report of the rules is complete: no intent without a rule and no key with two rules.\<close>

theorem default_mapper_ready:
  "load_default_mapper AGENT_REGISTRY AGENT_MANIFEST = Inr AGENT_MAPPER \<and>
   is_complete (build_coverage_report AGENT_MAPPING_RULES AGENT_MANIFEST)"
  using rules_cover_manifest complete_iff_distinct [OF distinct_rule_keys]
  by (simp add: load_default_mapper_def ToolMapper_def default_rules_ok) (simp add: AGENT_MAPPER_def)

lemma valid_call_maps:
  assumes "agent_proposal_error p = None" "get_key p ''arguments'' = PDict d" "distinct (map fst d)"
    and "validate_call AGENT_REGISTRY (text_of (get_key p ''tool'')) (PDict d) = Inr (ValidCall c)"
    and "agent_digest pf p = Inr digest"
  shows "\<exists>r \<in> set AGENT_MAPPING_RULES. \<exists>def. by_intent AGENT_MANIFEST (mr_intent r) = Some def \<and>
     map_proposal pf AGENT_MAPPER p = Inr (mapped c r def digest) \<and>
     vc_tool_name c = text_of (get_key p ''tool'') \<and>
     mset (map (\<lambda>(k, s). (k, PStr s)) (vc_arguments c)) = mset d"
proof -
  from assms(4) have wf: "well_formed_arguments d"
    and c: "vc_tool_name c = text_of (get_key p ''tool'')" "vc_arguments c = normalized_arguments d"
    by (auto simp: valid_call_iff)
  from valid_call_has_rule [OF assms(4)] obtain r
    where r: "find_rule (tm_rules AGENT_MAPPER) (call_key (vc_tool_name c) (vc_arguments c)) = Some r" by blast
  then have member: "r \<in> set AGENT_MAPPING_RULES"
    using agent_rule_lookup by (auto simp: find_rule_def split: option.splits prod.splits)
  then have "rule_ok AGENT_REGISTRY AGENT_MANIFEST r"
    using default_rules_ok by (simp add: validate_rules_iff list_all_iff)
  then obtain def where def: "by_intent AGENT_MANIFEST (mr_intent r) = Some def" by (auto simp: rule_ok_def)
  have "map_proposal pf AGENT_MAPPER p = map_call pf AGENT_MAPPER p c"
    using assms(1,2,4) by (simp add: map_proposal_def AGENT_MAPPER_def)
  also have "\<dots> = Inr (mapped c r def digest)"
    using r def canonical_digest [OF assms(1,2) wf assms(3), of pf] assms(5)
    by (simp add: map_call_def c AGENT_MAPPER_def)
  finally show ?thesis using member def c normalized_perm [OF wf assms(3)] by auto
qed

text \<open>C28. No valid call is lost and none is mapped by guessing: an accepted proposal whose call passes
  the registry is mapped to an intent of the manifest, with the digest of the proposal itself
  whatever the order of its arguments, and the event names tool, intent and digest.\<close>

theorem valid_calls_mapped:
  assumes "agent_proposal_error p = None" "get_key p ''arguments'' = PDict d" "distinct (map fst d)"
    and "validate_call AGENT_REGISTRY (text_of (get_key p ''tool'')) (PDict d) = Inr (ValidCall c)"
    and "agent_digest pf p = Inr digest"
  shows "\<exists>r \<in> set AGENT_MAPPING_RULES. \<exists>def. by_intent AGENT_MANIFEST (mr_intent r) = Some def \<and>
     map_proposal pf AGENT_MAPPER p = Inr (mapped c r def digest) \<and>
     vc_tool_name c = text_of (get_key p ''tool'') \<and>
     mset (map (\<lambda>(k, s). (k, PStr s)) (vc_arguments c)) = mset d"
  using assms by (rule valid_call_maps)

text \<open>A call to open the trunk, its arguments in another order than the registry's.\<close>

definition mapper_demo_pf :: platform where
  "mapper_demo_pf = \<lparr>pf_sha256 = (\<lambda>_. replicate 64 CHR ''0''), pf_float = (\<lambda>_. []), pf_iso = (\<lambda>_. [])\<rparr>"

definition mapper_demo_arguments :: payload where
  "mapper_demo_arguments = [(''target'', PStr ''trunk''), (''action'', PStr ''open'')]"

definition mapper_demo_proposal :: payload where
  "mapper_demo_proposal =
     [(''contract_version'', PStr AGENT_CONTRACT_VERSION), (''proposal_id'', PStr ''p-1''),
      (''session_id'', PStr ''s-1''), (''source_turn_id'', PStr ''t-1''), (''tool'', PStr ''control_access''),
      (''arguments'', PDict mapper_demo_arguments), (''model_provider'', PStr ''openai''), (''model_id'', PStr ''m'')]"

definition mapper_demo_call :: validated_call where
  "mapper_demo_call = \<lparr>vc_tool_name = ''control_access'', vc_arguments = [(''action'', ''open''), (''target'', ''trunk'')]\<rparr>"

lemma mapper_demo_facts:
  "agent_proposal_error mapper_demo_proposal = None" "get_key mapper_demo_proposal ''arguments'' = PDict mapper_demo_arguments"
  "distinct (map fst mapper_demo_arguments)" "text_of (get_key mapper_demo_proposal ''tool'') = ''control_access''"
  "agent_digest mapper_demo_pf mapper_demo_proposal = Inr (''sha256:'' @ replicate 64 CHR ''0'')"
  by code_simp+

lemma mapper_demo_call_valid: "validate_call AGENT_REGISTRY ''control_access'' (PDict mapper_demo_arguments) = Inr (ValidCall mapper_demo_call)"
  by code_simp

lemma valid_calls_mapped_witness:
  "\<exists>r \<in> set AGENT_MAPPING_RULES. \<exists>def. by_intent AGENT_MANIFEST (mr_intent r) = Some def \<and>
     map_proposal mapper_demo_pf AGENT_MAPPER mapper_demo_proposal =
       Inr (mapped mapper_demo_call r def (''sha256:'' @ replicate 64 CHR ''0''))"
  using valid_calls_mapped [OF mapper_demo_facts(1-3) _ mapper_demo_facts(5), of mapper_demo_call] mapper_demo_call_valid
  by (auto simp: mapper_demo_facts(4))

lemma base_rules_closed: "list_all (\<lambda>r. mr_value r \<noteq> Some ''*'') BASE_MAPPING_RULES"
  by code_simp

lemma map_proposal_InrE:
  assumes "map_proposal pf tm p = Inr mp"
  obtains c r where "agent_proposal_error p = None"
    "validate_call (tm_registry tm) (text_of (get_key p ''tool'')) (get_key p ''arguments'') = Inr (ValidCall c)"
    "find_rule (tm_rules tm) (call_key (vc_tool_name c) (vc_arguments c)) = Some r"
    "ca_intent (mp_action mp) = mr_intent r"
  using assms
  by (auto simp: map_proposal_def map_call_def mapped_def
      split: option.splits contract_exn.splits sum.splits tool_exn.splits call_result.splits)

text \<open>The words of a valid call, as both services read them.\<close>

lemma valid_call_words:
  assumes "validate_call rg name arguments = Inr (ValidCall c)"
  obtains d action target where "arguments = PDict d"
    "map_of d ''action'' = Some (PStr action)" "action \<noteq> []"
    "map_of d ''target'' = Some (PStr target)" "target \<noteq> []"
    "map_of d ''value'' = map_option PStr (str_arg d ''value'')"
    "call_key (vc_tool_name c) (vc_arguments c) = (name, action, target, str_arg d ''value'')"
proof -
  from assms obtain d where d: "arguments = PDict d"
    by (cases arguments) (auto simp: validate_call_def split: sum.splits)
  from assms [unfolded d valid_call_iff] obtain action target where wf: "well_formed_arguments d"
    and words: "str_arg d ''action'' = Some action" "str_arg d ''target'' = Some target"
    and c: "c = \<lparr>vc_tool_name = name, vc_arguments = normalized_arguments d\<rparr>" by blast
  have str: "\<exists>s. v = PStr s \<and> s \<noteq> []" if "map_of d k = Some v" for k v
    using wf map_of_SomeD [OF that] by (fastforce simp: well_formed_arguments_def)
  have opt: "map_of d k = map_option PStr (str_arg d k)" for k
    using str [of k] by (auto simp: str_arg_def split: option.split pyval.split)
  have a: "map_of d ''action'' = Some (PStr action)" and g: "map_of d ''target'' = Some (PStr target)"
    using opt words by simp_all
  have "action \<noteq> []" "target \<noteq> []" using str [OF a] str [OF g] by simp_all
  moreover have "call_key name (normalized_arguments d) = (name, action, target, str_arg d ''value'')"
    using words by (cases "str_arg d ''value''") (simp_all add: call_key_def normalized_arguments_def ARGUMENT_FIELDS_def)
  ultimately show ?thesis using that [OF d a _ g _ opt] c by simp
qed

lemma capability_unresolved:
  assumes "map_of d ''action'' = Some (PStr action)" "action \<noteq> []"
    and "map_of d ''target'' = Some (PStr target)" "target \<noteq> []"
    and "map_of d ''value'' = map_option PStr v"
  shows "\<exists>detail. resolve TABLE (PStr ''control_vehicle_capability'') (PDict d) = Inl (''UNSUPPORTED_TOOL_MAPPING'', detail)"
proof -
  have "map_of TABLE (''control_vehicle_capability'', action, target, v) = None"
    using base_rule_tools TABLE_lookup
    by (cases "map_of TABLE (''control_vehicle_capability'', action, target, v)")
      (auto simp: base_rules_shared list_all_iff mr_key_def)
  with assms show ?thesis
    by (cases v) (auto simp: resolve_def tool_mapping_error_def Let_def)
qed

text \<open>C29. The agent and the guardrail read a call the same way: whatever the mapper maps, the
  guardrail resolves to the same intent, unless the tool is \<open>control_vehicle_capability\<close>, whose calls
  the guardrail's table does not know and refuses.\<close>

theorem mapper_agrees_with_guardrail:
  assumes "map_proposal pf AGENT_MAPPER p = Inr mp"
  shows "if get_key p ''tool'' = PStr ''control_vehicle_capability''
    then (\<exists>detail. resolve TABLE (get_key p ''tool'') (get_key p ''arguments'') = Inl (''UNSUPPORTED_TOOL_MAPPING'', detail))
    else resolve TABLE (get_key p ''tool'') (get_key p ''arguments'') = Inr (ca_intent (mp_action mp))"
proof -
  from map_proposal_InrE [OF assms] obtain c r where ok: "agent_proposal_error p = None"
    and call: "validate_call (tm_registry AGENT_MAPPER) (text_of (get_key p ''tool'')) (get_key p ''arguments'') = Inr (ValidCall c)"
    and rule: "find_rule (tm_rules AGENT_MAPPER) (call_key (vc_tool_name c) (vc_arguments c)) = Some r"
    and intent: "ca_intent (mp_action mp) = mr_intent r" .
  from ok have "agent_identifier (get_key p ''tool'')" unfolding proposal_accepted_iff by blast
  then obtain t where t: "get_key p ''tool'' = PStr t" by (auto simp: agent_identifier_iff)
  from call obtain d action target where d: "get_key p ''arguments'' = PDict d"
    and words: "map_of d ''action'' = Some (PStr action)" "action \<noteq> []"
      "map_of d ''target'' = Some (PStr target)" "target \<noteq> []"
      "map_of d ''value'' = map_option PStr (str_arg d ''value'')"
    and key: "call_key (vc_tool_name c) (vc_arguments c) = (t, action, target, str_arg d ''value'')"
    unfolding t text_of.simps by (rule valid_call_words)
  show ?thesis
  proof (cases "t = ''control_vehicle_capability''")
    case True
    with capability_unresolved [OF words] show ?thesis by (simp add: t d)
  next
    case False
    from rule [unfolded key] have r: "r \<in> set AGENT_MAPPING_RULES"
      "mr_key r = (t, action, target, str_arg d ''value'') \<or> mr_key r = (t, action, target, Some ''*'')"
      by (auto simp: find_rule_def agent_rule_lookup split: option.splits)
    then have "r \<notin> set candidate_rules"
      using False candidate_rule_keys(2) [OF imageI, of r] by auto
    with r(1) have "r \<in> set BASE_MAPPING_RULES" by (simp add: AGENT_MAPPING_RULES_def)
    moreover from this have "mr_value r \<noteq> Some ''*''" using base_rules_closed by (simp add: list_all_iff)
    ultimately have "r \<in> set DEFAULT_MAPPING_RULES" "mr_key r = (t, action, target, str_arg d ''value'')"
      using r(2) by (auto simp: base_rules_shared mr_key_def)
    moreover from this(2) words have "names_row d r"
      by (auto simp: names_row_def mr_key_def split: option.split)
    ultimately have "resolve TABLE (PStr t) (PDict d) = Inr (mr_intent r)"
      using resolve_complete [of r d] by (simp add: mr_key_def)
    with False show ?thesis by (simp add: t d intent)
  qed
qed

lemma mapper_agrees_with_guardrail_witness:
  "\<exists>mp. map_proposal mapper_demo_pf AGENT_MAPPER mapper_demo_proposal = Inr mp \<and>
     resolve TABLE (PStr ''control_access'') (PDict mapper_demo_arguments) = Inr (ca_intent (mp_action mp))"
proof -
  obtain mp where mp: "map_proposal mapper_demo_pf AGENT_MAPPER mapper_demo_proposal = Inr mp"
    using valid_call_maps [OF mapper_demo_facts(1-3) _ mapper_demo_facts(5), of mapper_demo_call] mapper_demo_call_valid
    by (auto simp: mapper_demo_facts(4))
  have "get_key mapper_demo_proposal ''tool'' = PStr ''control_access''" by code_simp
  with mapper_agrees_with_guardrail [OF mp] mp show ?thesis by (auto simp: mapper_demo_facts(2))
qed

end
