(* ===== verification/ModelRouter.thy ===== *)
theory ModelRouter
  imports AgentText
begin

text \<open>
  \<open>model_providers/contracts.py\<close> and \<open>model_providers/selection.py\<close>: the configuration of the
  language model providers, their readiness, and the router that asks at most two of them for one
  turn and keeps a turn on the provider that answered first.

  An adapter is made from a provider's name and its transport and kept in a cache; what it answers
  is a function of the caller on a state of its own, since the provider behind it is a remote
  service.  The adapters' coding of requests (\<open>adapters.py\<close>) is not modelled.
\<close>

section \<open>Contracts\<close>

datatype proposal_kind = ACTION | CLARIFICATION | RESPONSE

datatype model_error_code =
    NOT_READY | TIMEOUT | API_ERROR | MALFORMED_OUTPUT | INVALID_CONFIG | ALL_UNAVAILABLE | TURN_PINNED

fun model_code_value :: "model_error_code \<Rightarrow> string" where
  "model_code_value NOT_READY = ''MODEL_PROVIDER_NOT_READY''"
| "model_code_value TIMEOUT = ''MODEL_PROVIDER_TIMEOUT''"
| "model_code_value API_ERROR = ''MODEL_PROVIDER_API_ERROR''"
| "model_code_value MALFORMED_OUTPUT = ''MODEL_PROVIDER_MALFORMED_OUTPUT''"
| "model_code_value INVALID_CONFIG = ''MODEL_PROVIDER_INVALID_CONFIG''"
| "model_code_value ALL_UNAVAILABLE = ''MODEL_PROVIDERS_UNAVAILABLE''"
| "model_code_value TURN_PINNED = ''MODEL_PROVIDER_TURN_PINNED''"

text \<open>A \<open>ModelProviderError\<close> with its code and whether it may be retried, or another exception.\<close>

datatype model_exn = ModelError model_error_code bool | ModelCrash string

record provider_metadata =
  pm_provider :: string
  pm_model_id :: string
  pm_config_checksum :: string
  pm_latency_ms :: int

definition to_event_metadata :: "provider_metadata \<Rightarrow> payload" where
  "to_event_metadata m =
     [(''model_provider'', PStr (pm_provider m)), (''model_id'', PStr (pm_model_id m)),
      (''model_config_checksum'', PStr (pm_config_checksum m)), (''model_latency_ms'', PInt (pm_latency_ms m))]"

record model_proposal =
  mo_kind :: proposal_kind
  mo_metadata :: provider_metadata
  mo_tool_name :: "string option"
  mo_arguments :: "payload option"
  mo_text :: "string option"

definition action_proposal :: "string \<Rightarrow> payload \<Rightarrow> provider_metadata \<Rightarrow> model_proposal" where
  "action_proposal tool_name arguments m =
     \<lparr>mo_kind = ACTION, mo_metadata = m, mo_tool_name = Some tool_name, mo_arguments = Some arguments,
      mo_text = None\<rparr>"

definition clarification_proposal :: "string \<Rightarrow> provider_metadata \<Rightarrow> model_proposal" where
  "clarification_proposal text m =
     \<lparr>mo_kind = CLARIFICATION, mo_metadata = m, mo_tool_name = None, mo_arguments = None, mo_text = Some text\<rparr>"

definition response_proposal :: "string \<Rightarrow> provider_metadata \<Rightarrow> model_proposal" where
  "response_proposal text m =
     \<lparr>mo_kind = RESPONSE, mo_metadata = m, mo_tool_name = None, mo_arguments = None, mo_text = Some text\<rparr>"

section \<open>Configuration\<close>

definition SUPPORTED_PROVIDERS :: "string list" where
  "SUPPORTED_PROVIDERS = [''openai'', ''gemini'']"

record model_config =
  mf_provider :: string
  mf_priority :: "string list"
  mf_openai_model :: string
  mf_gemini_model :: string
  mf_timeout_seconds :: pyfloat
  mf_openai_api_key :: string
  mf_gemini_api_key :: string

definition ModelProviderConfig :: model_config where
  "ModelProviderConfig =
     \<lparr>mf_provider = ''auto'', mf_priority = SUPPORTED_PROVIDERS, mf_openai_model = ''gpt-5-mini'',
      mf_gemini_model = ''gemini-3.5-flash-lite'', mf_timeout_seconds = Fin 10, mf_openai_api_key = [],
      mf_gemini_api_key = []\<rparr>"

definition model_config_error :: "model_config \<Rightarrow> model_exn option" where
  "model_config_error c =
     (let fail = (\<lambda>ok. if ok then None else Some (ModelError INVALID_CONFIG False)) in
      first_error
        [fail (mf_provider c \<in> set (''auto'' # SUPPORTED_PROVIDERS)),
         fail (mf_priority c \<noteq> [] \<and> distinct (mf_priority c)),
         fail (list_all (\<lambda>p. p \<in> set SUPPORTED_PROVIDERS) (mf_priority c)),
         fail (mf_openai_model c \<noteq> [] \<and> mf_gemini_model c \<noteq> [] \<and> \<not> num_le (mf_timeout_seconds c) (Fin 0))])"

text \<open>\<open>s.split(',')\<close>.\<close>

fun split_commas :: "string \<Rightarrow> string list" where
  "split_commas [] = [[]]"
| "split_commas (c # cs) =
     (if c = CHR '','' then [] # split_commas cs
      else (case split_commas cs of [] \<Rightarrow> [[c]] | p # ps \<Rightarrow> (c # p) # ps))"

definition env_get :: "string dict \<Rightarrow> string \<Rightarrow> string \<Rightarrow> string" where
  "env_get env k otherwise = (case map_of env k of None \<Rightarrow> otherwise | Some s \<Rightarrow> s)"

definition from_env :: "'b agent_platform_scheme \<Rightarrow> string dict \<Rightarrow> model_exn + model_config" where
  "from_env pf env =
     (case ap_parse pf (env_get env ''AGENT_MODEL_TIMEOUT_SECONDS'' ''10'') of
        None \<Rightarrow> Inl (ModelError INVALID_CONFIG False)
      | Some timeout \<Rightarrow>
          (let c = \<lparr>mf_provider = lower (strip_ws (env_get env ''AGENT_MODEL_PROVIDER'' ''auto'')),
                    mf_priority = map (\<lambda>p. lower (strip_ws p))
                      (filter (\<lambda>p. strip_ws p \<noteq> [])
                        (split_commas (env_get env ''AGENT_MODEL_PROVIDER_PRIORITY'' ''openai,gemini''))),
                    mf_openai_model = strip_ws (env_get env ''OPENAI_MODEL_ID'' ''gpt-5-mini''),
                    mf_gemini_model = strip_ws (env_get env ''GEMINI_MODEL_ID'' ''gemini-3.5-flash-lite''),
                    mf_timeout_seconds = timeout,
                    mf_openai_api_key = env_get env ''OPENAI_API_KEY'' [],
                    mf_gemini_api_key = env_get env ''GEMINI_API_KEY'' []\<rparr>
           in case model_config_error c of Some e \<Rightarrow> Inl e | None \<Rightarrow> Inr c))"

definition key_for :: "model_config \<Rightarrow> string \<Rightarrow> string" where
  "key_for c provider = (if provider = ''openai'' then mf_openai_api_key c else mf_gemini_api_key c)"

definition model_for :: "model_config \<Rightarrow> string \<Rightarrow> string" where
  "model_for c provider = (if provider = ''openai'' then mf_openai_model c else mf_gemini_model c)"

record provider_readiness =
  pr_ready :: bool
  pr_selected :: "string option"
  pr_available :: "string list"

section \<open>The binding of a turn\<close>

record turn_binding =
  tb_provider :: "string option"
  tb_valid_proposal :: bool
  tb_side_effect :: bool

definition TurnBinding :: turn_binding where
  "TurnBinding = \<lparr>tb_provider = None, tb_valid_proposal = False, tb_side_effect = False\<rparr>"

definition pinned :: "turn_binding \<Rightarrow> bool" where
  "pinned b = (tb_valid_proposal b \<or> tb_side_effect b)"

definition record_proposal :: "model_proposal \<Rightarrow> turn_binding \<Rightarrow> turn_binding" where
  "record_proposal p b = b\<lparr>tb_provider := Some (pm_provider (mo_metadata p)), tb_valid_proposal := True\<rparr>"

text \<open>\<open>not self.provider\<close>: no provider, or an empty name.\<close>

definition no_provider :: "turn_binding \<Rightarrow> bool" where
  "no_provider b \<longleftrightarrow> tb_provider b = None \<or> tb_provider b = Some []"

definition start_side_effect :: "turn_binding \<Rightarrow> model_exn + turn_binding" where
  "start_side_effect b =
     (if no_provider b then Inl (ModelError TURN_PINNED False) else Inr (b\<lparr>tb_side_effect := True\<rparr>))"

section \<open>The router\<close>

text \<open>The transports and the cached adapters by provider; \<open>mr_build\<close> makes an adapter, \<open>mr_propose\<close>
  and \<open>mr_compose\<close> are its two requests.\<close>

type_synonym messages = "payload list"

record ('t, 'a, 'w) model_router =
  rt_config :: model_config
  rt_transports :: "'t dict"
  rt_cache :: "'a dict"
  rt_build :: "string \<Rightarrow> 't \<Rightarrow> 'a"
  rt_propose :: "'a \<Rightarrow> messages \<Rightarrow> 'w \<Rightarrow> (model_exn + model_proposal) \<times> 'w"
  rt_compose :: "'a \<Rightarrow> payload \<Rightarrow> 'w \<Rightarrow> (model_exn + model_proposal) \<times> 'w"

definition ModelProviderRouter ::
  "model_config \<Rightarrow> 't dict \<Rightarrow> (string \<Rightarrow> 't \<Rightarrow> 'a) \<Rightarrow>
   ('a \<Rightarrow> messages \<Rightarrow> 'w \<Rightarrow> (model_exn + model_proposal) \<times> 'w) \<Rightarrow>
   ('a \<Rightarrow> payload \<Rightarrow> 'w \<Rightarrow> (model_exn + model_proposal) \<times> 'w) \<Rightarrow> model_exn + ('t, 'a, 'w) model_router" where
  "ModelProviderRouter c transports build propose compose =
     (case model_config_error c of
        Some e \<Rightarrow> Inl e
      | None \<Rightarrow> Inr \<lparr>rt_config = c, rt_transports = transports, rt_cache = [], rt_build = build,
                    rt_propose = propose, rt_compose = compose\<rparr>)"

definition candidate_names :: "('t, 'a, 'w) model_router \<Rightarrow> string list" where
  "candidate_names rt =
     (if mf_provider (rt_config rt) \<noteq> ''auto'' then [mf_provider (rt_config rt)] else mf_priority (rt_config rt))"

definition readiness :: "('t, 'a, 'w) model_router \<Rightarrow> provider_readiness" where
  "readiness rt =
     (let available = filter (\<lambda>n. key_for (rt_config rt) n \<noteq> [] \<and> map_of (rt_transports rt) n \<noteq> None) (candidate_names rt) in
      case available of
        [] \<Rightarrow> \<lparr>pr_ready = False, pr_selected = None, pr_available = []\<rparr>
      | n # _ \<Rightarrow> \<lparr>pr_ready = True, pr_selected = Some n, pr_available = available\<rparr>)"

definition available_names :: "('t, 'a, 'w) model_router \<Rightarrow> model_exn + string list" where
  "available_names rt =
     (if \<not> pr_ready (readiness rt) then Inl (ModelError NOT_READY False) else Inr (pr_available (readiness rt)))"

definition cached_adapter ::
  "string \<Rightarrow> ('t, 'a, 'w) model_router \<Rightarrow> (model_exn + 'a) \<times> ('t, 'a, 'w) model_router" where
  "cached_adapter n rt =
     (case map_of (rt_cache rt) n of
        Some a \<Rightarrow> (Inr a, rt)
      | None \<Rightarrow>
          (case map_of (rt_transports rt) n of
             None \<Rightarrow> (Inl (ModelCrash ''KeyError''), rt)
           | Some t \<Rightarrow>
               (let a = rt_build rt n t in (Inr a, rt\<lparr>rt_cache := AList.update n a (rt_cache rt)\<rparr>))))"

definition replace_transport ::
  "string \<Rightarrow> 't \<Rightarrow> ('t, 'a, 'w) model_router \<Rightarrow> (model_exn option) \<times> ('t, 'a, 'w) model_router" where
  "replace_transport n t rt =
     (if n \<notin> set SUPPORTED_PROVIDERS then (Some (ModelError INVALID_CONFIG False), rt)
      else (None, rt\<lparr>rt_transports := AList.update n t (rt_transports rt), rt_cache := AList.delete n (rt_cache rt)\<rparr>))"

text \<open>The state of a turn with the router: the router, its binding, the outside, and the providers
  asked so far, in order.\<close>

record ('t, 'a, 'w) routed =
  ro_router :: "('t, 'a, 'w) model_router"
  ro_binding :: turn_binding
  ro_world :: 'w
  ro_asked :: "(string \<times> (model_exn + model_proposal)) list"

definition ask_provider ::
  "string \<Rightarrow> messages \<Rightarrow> ('t, 'a, 'w) routed \<Rightarrow> (model_exn + model_proposal) \<times> ('t, 'a, 'w) routed" where
  "ask_provider n msgs s =
     (case cached_adapter n (ro_router s) of
        (Inl e, rt) \<Rightarrow> (Inl e, s\<lparr>ro_router := rt, ro_asked := ro_asked s @ [(n, Inl e)]\<rparr>)
      | (Inr a, rt) \<Rightarrow>
          (case rt_propose rt a msgs (ro_world s) of
             (r, w) \<Rightarrow> (r, s\<lparr>ro_router := rt, ro_world := w, ro_asked := ro_asked s @ [(n, r)]\<rparr>)))"

fun try_providers ::
  "messages \<Rightarrow> string list \<Rightarrow> ('t, 'a, 'w) routed \<Rightarrow> (model_exn + model_proposal) \<times> ('t, 'a, 'w) routed" where
  "try_providers msgs [] s = (Inl (ModelError ALL_UNAVAILABLE False), s)"
| "try_providers msgs (n # ns) s =
     (if pinned (ro_binding s) \<and> tb_provider (ro_binding s) \<noteq> Some n
      then (Inl (ModelError ALL_UNAVAILABLE False), s)
      else
        (case ask_provider n msgs s of
           (Inr p, s1) \<Rightarrow> (Inr p, s1\<lparr>ro_binding := record_proposal p (ro_binding s1)\<rparr>)
         | (Inl (ModelError code retryable), s1) \<Rightarrow>
             if pinned (ro_binding s1) \<or> \<not> retryable then (Inl (ModelError code retryable), s1)
             else try_providers msgs ns s1
         | (Inl e, s1) \<Rightarrow> (Inl e, s1)))"

definition router_propose ::
  "messages \<Rightarrow> ('t, 'a, 'w) routed \<Rightarrow> (model_exn + model_proposal) \<times> ('t, 'a, 'w) routed" where
  "router_propose msgs s =
     (case available_names (ro_router s) of
        Inl e \<Rightarrow> (Inl e, s)
      | Inr names \<Rightarrow>
          if no_provider (ro_binding s) then try_providers msgs (take 2 names) s
          else
            (let p = the (tb_provider (ro_binding s)) in
             if p \<notin> set names then (Inl (ModelError TURN_PINNED False), s) else try_providers msgs [p] s))"

definition router_compose ::
  "payload \<Rightarrow> ('t, 'a, 'w) routed \<Rightarrow> (model_exn + model_proposal) \<times> ('t, 'a, 'w) routed" where
  "router_compose facts s =
     (if no_provider (ro_binding s) then (Inl (ModelError TURN_PINNED False), s)
      else
        (let n = the (tb_provider (ro_binding s)) in
         case cached_adapter n (ro_router s) of
           (Inl e, rt) \<Rightarrow> (Inl e, s\<lparr>ro_router := rt\<rparr>)
         | (Inr a, rt) \<Rightarrow>
             (case rt_compose rt a facts (ro_world s) of
                (Inl e, w) \<Rightarrow> (Inl e, s\<lparr>ro_router := rt, ro_world := w\<rparr>)
              | (Inr p, w) \<Rightarrow>
                  (if pm_provider (mo_metadata p) \<noteq> n then Inl (ModelError TURN_PINNED False) else Inr p,
                   s\<lparr>ro_router := rt, ro_world := w\<rparr>))))"

section \<open>Facts\<close>

lemma ask_provider_frame:
  assumes "ask_provider n msgs s = (r, s')"
  shows "ro_binding s' = ro_binding s" "ro_asked s' = ro_asked s @ [(n, r)]"
  using assms by (auto simp: ask_provider_def split: prod.splits sum.splits)

lemma try_providers_spec:
  assumes "try_providers msgs ns s = (r, s')" "\<not> pinned (ro_binding s)"
  shows "\<exists>xs. ro_asked s' = ro_asked s @ xs \<and> map fst xs = take (length xs) ns \<and>
    (\<forall>x \<in> set (butlast xs). \<exists>code. snd x = Inl (ModelError code True)) \<and>
    (case r of
       Inr p \<Rightarrow> xs \<noteq> [] \<and> snd (last xs) = Inr p \<and> ro_binding s' = record_proposal p (ro_binding s)
     | Inl e \<Rightarrow> ro_binding s' = ro_binding s \<and> (\<forall>x \<in> set xs. \<exists>e. snd x = Inl e))"
  using assms
proof (induction ns arbitrary: s)
  case Nil
  then show ?case by (intro exI [of _ "[]"]) auto
next
  case (Cons n ns)
  obtain r1 s1 where ask: "ask_provider n msgs s = (r1, s1)" by (cases "ask_provider n msgs s")
  note frame = ask_provider_frame [OF ask]
  consider p where "r1 = Inr p" | code where "r1 = Inl (ModelError code True)"
    | code where "r1 = Inl (ModelError code False)" | c where "r1 = Inl (ModelCrash c)"
    by (metis (full_types) model_exn.exhaust sum.exhaust)
  then show ?case
  proof cases
    case 2
    have "try_providers msgs ns s1 = (r, s')" using Cons.prems frame(1) by (simp add: ask 2)
    then obtain xs where "ro_asked s' = ro_asked s1 @ xs" "map fst xs = take (length xs) ns"
      "\<forall>x \<in> set (butlast xs). \<exists>code. snd x = Inl (ModelError code True)"
      "case r of Inr p \<Rightarrow> xs \<noteq> [] \<and> snd (last xs) = Inr p \<and> ro_binding s' = record_proposal p (ro_binding s1)
       | Inl e \<Rightarrow> ro_binding s' = ro_binding s1 \<and> (\<forall>x \<in> set xs. \<exists>e. snd x = Inl e)"
      using Cons.IH [of s1] Cons.prems(2) unfolding frame(1) by blast
    then show ?thesis
      using frame 2 by (intro exI [of _ "(n, r1) # xs"]) (auto split: sum.splits)
  qed (use Cons.prems frame in \<open>auto simp: ask intro!: exI [of _ "[(n, r1)]"]\<close>)
qed

lemma available_candidates: "pr_available (readiness rt) = filter (\<lambda>n. key_for (rt_config rt) n \<noteq> [] \<and> map_of (rt_transports rt) n \<noteq> None) (candidate_names rt)"
  by (simp add: readiness_def Let_def split: list.split)

lemma candidates_distinct: "model_config_error (rt_config rt) = None \<Longrightarrow> distinct (candidate_names rt)"
  by (auto simp: model_config_error_def candidate_names_def Let_def split: if_splits)

lemma router_propose_fresh:
  assumes "model_config_error (rt_config (ro_router s)) = None" "ro_binding s = TurnBinding" "ro_asked s = []"
    and "router_propose msgs s = (r, s')"
  shows "length (ro_asked s') \<le> 2 \<and> distinct (map fst (ro_asked s')) \<and>
    set (map fst (ro_asked s')) \<subseteq> set (pr_available (readiness (ro_router s))) \<and>
    (\<forall>x \<in> set (butlast (ro_asked s')). \<exists>code. snd x = Inl (ModelError code True)) \<and>
    (case r of
       Inr p \<Rightarrow> ro_asked s' \<noteq> [] \<and> snd (last (ro_asked s')) = Inr p \<and> ro_binding s' = record_proposal p TurnBinding
     | Inl e \<Rightarrow> ro_binding s' = TurnBinding \<and> (\<forall>x \<in> set (ro_asked s'). \<exists>e. snd x = Inl e))"
proof (cases "available_names (ro_router s)")
  case (Inl e)
  then show ?thesis using assms by (auto simp: router_propose_def)
next
  case (Inr names)
  then have names: "names = pr_available (readiness (ro_router s))"
    by (auto simp: available_names_def split: if_splits)
  have "try_providers msgs (take 2 names) s = (r, s')"
    using assms(2,4) Inr by (simp add: router_propose_def no_provider_def TurnBinding_def)
  from try_providers_spec [OF this, unfolded assms(2,3)] obtain xs where xs: "ro_asked s' = xs" "map fst xs = take (length xs) (take 2 names)"
    and rest: "\<forall>x \<in> set (butlast xs). \<exists>code. snd x = Inl (ModelError code True)"
      "case r of Inr p \<Rightarrow> xs \<noteq> [] \<and> snd (last xs) = Inr p \<and> ro_binding s' = record_proposal p TurnBinding
       | Inl e \<Rightarrow> ro_binding s' = TurnBinding \<and> (\<forall>x \<in> set xs. \<exists>e. snd x = Inl e)"
    by (auto simp: pinned_def TurnBinding_def)
  have "length (map fst xs) \<le> 2" unfolding xs(2) by simp
  moreover have "distinct (map fst xs)"
    unfolding xs(2) names available_candidates
    using candidates_distinct [OF assms(1)] by (intro distinct_take distinct_filter)
  moreover have "set (map fst xs) \<subseteq> set names" unfolding xs(2) by (meson order_trans set_take_subset)
  ultimately show ?thesis using rest xs(1) names by auto
qed

text \<open>C30. Bounded failover: a fresh turn asks at most two of the available providers, each once; it
  asks the second only after a retryable error of the first; the answer is the last provider's
  and binds the turn to it, and without an answer the turn stays unbound.\<close>

theorem failover_bounded:
  assumes "model_config_error (rt_config (ro_router s)) = None" "ro_binding s = TurnBinding" "ro_asked s = []"
    and "router_propose msgs s = (r, s')"
  shows "length (ro_asked s') \<le> 2 \<and> distinct (map fst (ro_asked s')) \<and>
    set (map fst (ro_asked s')) \<subseteq> set (pr_available (readiness (ro_router s))) \<and>
    (\<forall>x \<in> set (butlast (ro_asked s')). \<exists>code. snd x = Inl (ModelError code True)) \<and>
    (case r of
       Inr p \<Rightarrow> ro_asked s' \<noteq> [] \<and> snd (last (ro_asked s')) = Inr p \<and> ro_binding s' = record_proposal p TurnBinding
     | Inl e \<Rightarrow> ro_binding s' = TurnBinding \<and> (\<forall>x \<in> set (ro_asked s'). \<exists>e. snd x = Inl e))"
  using assms by (rule router_propose_fresh)

text \<open>A bound turn asks no other provider.\<close>

lemma bound_turn_asks_one:
  assumes "tb_provider (ro_binding s) = Some n" "n \<noteq> []" "router_propose msgs s = (r, s')"
  shows "\<exists>xs. ro_asked s' = ro_asked s @ xs \<and> set (map fst xs) \<subseteq> {n} \<and> length xs \<le> 1"
proof -
  have "try_providers msgs [] t = (r, s') \<Longrightarrow> ro_asked s' = ro_asked t" for t by auto
  with assms show ?thesis
    by (auto simp: router_propose_def no_provider_def Let_def dest!: ask_provider_frame
        split: sum.splits if_splits prod.splits model_exn.splits)
qed

text \<open>The cached adapters are those of the current transports.\<close>

definition cache_current :: "('t, 'a, 'w) model_router \<Rightarrow> bool" where
  "cache_current rt \<longleftrightarrow>
     (\<forall>n a. map_of (rt_cache rt) n = Some a \<longrightarrow> (\<exists>t. map_of (rt_transports rt) n = Some t \<and> a = rt_build rt n t))"

lemma cached_adapter_current:
  assumes "cache_current rt" "cached_adapter n rt = (r, rt')"
  shows "cache_current rt'" "r = Inr a \<Longrightarrow> \<exists>t. map_of (rt_transports rt) n = Some t \<and> a = rt_build rt n t"
  using assms by (auto simp: cache_current_def cached_adapter_def Let_def update_conv' split: option.splits if_splits)

lemma replace_transport_current:
  assumes "cache_current rt" "replace_transport n t rt = (e, rt')"
  shows "cache_current rt'"
  using assms by (auto simp: cache_current_def replace_transport_def update_conv' delete_conv' restrict_map_def split: if_splits)

text \<open>Two providers; the first times out.\<close>

definition demo_metadata :: "string \<Rightarrow> provider_metadata" where
  "demo_metadata n = \<lparr>pm_provider = n, pm_model_id = ''m'', pm_config_checksum = [], pm_latency_ms = 0\<rparr>"

definition demo_router :: "(unit, string, unit) model_router" where
  "demo_router =
     \<lparr>rt_config = ModelProviderConfig\<lparr>mf_openai_api_key := ''k'', mf_gemini_api_key := ''k''\<rparr>,
      rt_transports = [(''openai'', ()), (''gemini'', ())], rt_cache = [], rt_build = (\<lambda>n t. n),
      rt_propose = (\<lambda>n msgs w.
        (if n = ''openai'' then Inl (ModelError TIMEOUT True)
         else Inr (action_proposal ''control_access'' [] (demo_metadata n)), w)),
      rt_compose = (\<lambda>n facts w. (Inl (ModelCrash []), w))\<rparr>"

definition demo_routed :: "(unit, string, unit) routed" where
  "demo_routed = \<lparr>ro_router = demo_router, ro_binding = TurnBinding, ro_world = (), ro_asked = []\<rparr>"

lemma failover_bounded_witness:
  "length (ro_asked (snd (router_propose [] demo_routed))) \<le> 2 \<and>
   map fst (ro_asked (snd (router_propose [] demo_routed))) = [''openai'', ''gemini''] \<and>
   ro_binding (snd (router_propose [] demo_routed)) = record_proposal (action_proposal ''control_access'' [] (demo_metadata ''gemini'')) TurnBinding"
proof -
  have facts: "model_config_error (rt_config (ro_router demo_routed)) = None" "ro_binding demo_routed = TurnBinding"
    "ro_asked demo_routed = []"
    "fst (router_propose [] demo_routed) = Inr (action_proposal ''control_access'' [] (demo_metadata ''gemini''))"
    "map fst (ro_asked (snd (router_propose [] demo_routed))) = [''openai'', ''gemini'']"
    by (code_simp, simp add: demo_routed_def, simp add: demo_routed_def, code_simp, code_simp)
  obtain r s' where run: "router_propose [] demo_routed = (r, s')" by (cases "router_propose [] demo_routed")
  from failover_bounded [OF facts(1-3) run] facts(4,5) show ?thesis by (simp add: run)
qed

end
