(* ===== verification/Orchestrator.thy ===== *)
theory Orchestrator
  imports AgentMapper ModelRouter Gateway
begin

text \<open>
  \<open>orchestrator/orchestrator.py\<close>: one message turn of the agent, from the model's proposal through
  the authorizer to the executor.

  The turn owns the sequence only.  The authorizer, the executor, the registrar of confirmations,
  the cancellation token, the factory of identifiers and the wait for the session's lock are ports:
  functions on a state of the outside, which the language model's providers share.  Reading the
  token is such a step, so another thread may set it between any two reads.  A port may raise; an
  exception is one of those that the handlers of \<open>handle_message\<close> tell apart.  The lock table is
  in \<open>SessionLocks\<close>.

  The turn's state has, besides the code's variables, the calls made to the ports, in order.
  Texts of errors are dropped; the texts for the user are kept.
\<close>

section \<open>Data\<close>

datatype turn_state =
    TS_RECEIVED | TS_RESOLVING | TS_CLARIFICATION | TS_PROPOSED | TS_AUTHORIZING | TS_BLOCKED
  | TS_AWAITING_CONFIRMATION | TS_EXECUTING | TS_COMPLETED | TS_FAILED | TS_CANCELLED

fun turn_state_value :: "turn_state \<Rightarrow> string" where
  "turn_state_value TS_RECEIVED = ''received''"
| "turn_state_value TS_RESOLVING = ''resolving''"
| "turn_state_value TS_CLARIFICATION = ''clarification''"
| "turn_state_value TS_PROPOSED = ''proposed''"
| "turn_state_value TS_AUTHORIZING = ''authorizing''"
| "turn_state_value TS_BLOCKED = ''blocked''"
| "turn_state_value TS_AWAITING_CONFIRMATION = ''awaiting_confirmation''"
| "turn_state_value TS_EXECUTING = ''executing''"
| "turn_state_value TS_COMPLETED = ''completed''"
| "turn_state_value TS_FAILED = ''failed''"
| "turn_state_value TS_CANCELLED = ''cancelled''"

datatype turn_status = ST_COMPLETED | ST_BLOCKED | ST_NEEDS_CONFIRMATION | ST_FAILED | ST_DEGRADED

fun turn_status_value :: "turn_status \<Rightarrow> string" where
  "turn_status_value ST_COMPLETED = ''completed''"
| "turn_status_value ST_BLOCKED = ''blocked''"
| "turn_status_value ST_NEEDS_CONFIRMATION = ''needs_confirmation''"
| "turn_status_value ST_FAILED = ''failed''"
| "turn_status_value ST_DEGRADED = ''degraded''"

record turn_request =
  tq_session_id :: pyval
  tq_turn_id :: pyval
  tq_request_id :: pyval
  tq_message :: pyval
  tq_messages :: messages

record turn_result =
  ts_status :: turn_status
  ts_state :: turn_state
  ts_message :: string
  ts_proposal_id :: "string option"
  ts_execution_id :: "string option"
  ts_state_version :: pyval
  ts_rule_id :: pyval
  ts_reason :: pyval
  ts_confirmation_id :: pyval
  ts_expires_at :: pyval
  ts_error :: "turn_error option"
  ts_degraded_capability :: "string option"
  ts_retryable :: "bool option"
  ts_trace :: "turn_state list"

definition TurnResult :: "turn_status \<Rightarrow> turn_state \<Rightarrow> string \<Rightarrow> turn_state list \<Rightarrow> turn_result" where
  "TurnResult status state message trace =
     \<lparr>ts_status = status, ts_state = state, ts_message = message, ts_proposal_id = None,
      ts_execution_id = None, ts_state_version = PNone, ts_rule_id = PNone, ts_reason = PNone,
      ts_confirmation_id = PNone, ts_expires_at = PNone, ts_error = None,
      ts_degraded_capability = None, ts_retryable = None, ts_trace = trace\<rparr>"

definition TXT_CLARIFY :: string where
  "TXT_CLARIFY = ''Vui l'' @ [CHR 0xC3, CHR 0xB2] @ ''ng l'' @ [CHR 0xC3, CHR 0xA0] @ ''m r'' @
     [CHR 0xC3, CHR 0xB5] @ '' y'' @ [CHR 0xC3, CHR 0xAA] @ ''u c'' @ [CHR 0xE1, CHR 0xBA, CHR 0xA7] @ ''u.''"

definition TXT_CONFIRM :: string where
  "TXT_CONFIRM = ''Y'' @ [CHR 0xC3, CHR 0xAA] @ ''u c'' @ [CHR 0xE1, CHR 0xBA, CHR 0xA7] @ ''u c'' @
     [CHR 0xE1, CHR 0xBA, CHR 0xA7] @ ''n '' @ [CHR 0xC4, CHR 0x91, CHR 0xC6, CHR 0xB0, CHR 0xE1, CHR 0xBB, CHR 0xA3] @
     ''c x'' @ [CHR 0xC3, CHR 0xA1] @ ''c nh'' @ [CHR 0xE1, CHR 0xBA, CHR 0xAD] @ ''n.''"

definition TXT_BLOCKED :: string where
  "TXT_BLOCKED = ''Y'' @ [CHR 0xC3, CHR 0xAA] @ ''u c'' @ [CHR 0xE1, CHR 0xBA, CHR 0xA7] @ ''u kh'' @
     [CHR 0xC3, CHR 0xB4] @ ''ng '' @ [CHR 0xC4, CHR 0x91, CHR 0xC6, CHR 0xB0, CHR 0xE1, CHR 0xBB, CHR 0xA3] @ ''c ph'' @
     [CHR 0xC3, CHR 0xA9] @ ''p th'' @ [CHR 0xE1, CHR 0xBB, CHR 0xB1] @ ''c thi.''"

definition TXT_UNAVAILABLE :: string where
  "TXT_UNAVAILABLE = ''T'' @ [CHR 0xE1, CHR 0xBA, CHR 0xA1] @ ''m th'' @ [CHR 0xE1, CHR 0xBB, CHR 0x9D] @ ''i kh'' @
     [CHR 0xC3, CHR 0xB4] @ ''ng th'' @ [CHR 0xE1, CHR 0xBB, CHR 0x83] @ '' x'' @ [CHR 0xE1, CHR 0xBB, CHR 0xAD] @
     '' l'' @ [CHR 0xC3, CHR 0xBD] @ '' y'' @ [CHR 0xC3, CHR 0xAA] @ ''u c'' @ [CHR 0xE1, CHR 0xBA, CHR 0xA7] @ ''u.''"

definition TXT_FAILED :: string where
  "TXT_FAILED = ''Kh'' @ [CHR 0xC3, CHR 0xB4] @ ''ng th'' @ [CHR 0xE1, CHR 0xBB, CHR 0x83] @ '' ho'' @
     [CHR 0xC3, CHR 0xA0] @ ''n t'' @ [CHR 0xE1, CHR 0xBA, CHR 0xA5] @ ''t y'' @ [CHR 0xC3, CHR 0xAA] @ ''u c'' @
     [CHR 0xE1, CHR 0xBA, CHR 0xA7] @ ''u.''"

section \<open>Exceptions and sequencing\<close>

text \<open>\<open>TurnCancelled\<close>, \<open>ModelProviderError\<close>, \<open>AuthorizationContractError\<close> and
  \<open>UnsupportedToolMappingError\<close> with their codes, another \<open>ValueError\<close>, any other exception.\<close>

datatype turn_exn =
    Cancelled
  | ModelFailed model_error_code bool
  | ContractFailed string
  | MappingFailed string
  | ValueFailed
  | OtherFailed string

fun of_model :: "model_exn \<Rightarrow> turn_exn" where
  "of_model (ModelError code retryable) = ModelFailed code retryable"
| "of_model (ModelCrash name) = (if name = ''ValueError'' then ValueFailed else OtherFailed name)"

fun of_mapping :: "mapping_exn \<Rightarrow> turn_exn" where
  "of_mapping (UnsupportedMapping code) = MappingFailed code"
| "of_mapping (MappingCrash name) = (if name = ''ValueError'' then ValueFailed else OtherFailed name)"

fun of_contract :: "contract_exn \<Rightarrow> turn_exn" where
  "of_contract (ContractError code) = ContractFailed code"
| "of_contract (ContractCrash name) = OtherFailed name"

definition and_then ::
  "('s \<Rightarrow> ('e + 'a) \<times> 's) \<Rightarrow> ('a \<Rightarrow> 's \<Rightarrow> ('e + 'b) \<times> 's) \<Rightarrow> 's \<Rightarrow> ('e + 'b) \<times> 's" where
  "and_then f g s = (case f s of (Inl e, s1) \<Rightarrow> (Inl e, s1) | (Inr a, s1) \<Rightarrow> g a s1)"

definition give :: "'a \<Rightarrow> 's \<Rightarrow> ('e + 'a) \<times> 's" where
  "give a s = (Inr a, s)"

definition throw :: "'e \<Rightarrow> 's \<Rightarrow> ('e + 'a) \<times> 's" where
  "throw e s = (Inl e, s)"

definition give_sum :: "('e + 'a) \<Rightarrow> 's \<Rightarrow> ('e + 'a) \<times> 's" where
  "give_sum r s = (r, s)"

definition require :: "'e option \<Rightarrow> 's \<Rightarrow> ('e + unit) \<times> 's" where
  "require e = (case e of None \<Rightarrow> give () | Some x \<Rightarrow> throw x)"

section \<open>The ports and the state of a turn\<close>

record 'w core_ports =
  tp_cancelled :: "'w \<Rightarrow> bool \<times> 'w"
  tp_new_id :: "string \<Rightarrow> 'w \<Rightarrow> (turn_exn + string) \<times> 'w"
  tp_wait :: "string \<Rightarrow> 'w \<Rightarrow> 'w"

record 'w turn_ports = "'w core_ports" +
  tp_authorize :: "payload \<Rightarrow> 'w \<Rightarrow> (turn_exn + payload) \<times> 'w"
  tp_execute :: "payload \<Rightarrow> payload \<Rightarrow> 'w \<Rightarrow> (turn_exn + execution_result) \<times> 'w"
  tp_register :: "(payload \<Rightarrow> payload \<Rightarrow> pyval \<Rightarrow> 'w \<Rightarrow> turn_exn option \<times> 'w) option"

datatype turn_call =
    Authorized payload "turn_exn + payload"
  | Executed payload payload "turn_exn + execution_result"
  | Approved payload mapped_proposal "turn_exn + execution_result"
  | Registered payload payload "turn_exn option"

record ('t, 'a, 'w) turn =
  tn_routed :: "('t, 'a, 'w) routed"
  tn_trace :: "turn_state list"
  tn_proposal_id :: "string option"
  tn_calls :: "turn_call list"

type_synonym ('t, 'a, 'w, 'x) turn_step = "('t, 'a, 'w) turn \<Rightarrow> (turn_exn + 'x) \<times> ('t, 'a, 'w) turn"

definition outside :: "('w \<Rightarrow> 'x \<times> 'w) \<Rightarrow> ('t, 'a, 'w, 'x) turn_step" where
  "outside f s =
     (case f (ro_world (tn_routed s)) of (x, w) \<Rightarrow> (Inr x, s\<lparr>tn_routed := (tn_routed s)\<lparr>ro_world := w\<rparr>\<rparr>))"

definition with_router ::
  "(('t, 'a, 'w) routed \<Rightarrow> (model_exn + 'x) \<times> ('t, 'a, 'w) routed) \<Rightarrow> ('t, 'a, 'w, 'x) turn_step" where
  "with_router f s =
     (case f (tn_routed s) of
        (Inl e, ro) \<Rightarrow> (Inl (of_model e), s\<lparr>tn_routed := ro\<rparr>)
      | (Inr x, ro) \<Rightarrow> (Inr x, s\<lparr>tn_routed := ro\<rparr>))"

definition trace_on :: "turn_state \<Rightarrow> ('t, 'a, 'w, unit) turn_step" where
  "trace_on st s = (Inr (), s\<lparr>tn_trace := tn_trace s @ [st]\<rparr>)"

definition called :: "turn_call \<Rightarrow> ('t, 'a, 'w, unit) turn_step" where
  "called c s = (Inr (), s\<lparr>tn_calls := tn_calls s @ [c]\<rparr>)"

definition raise_if_cancelled :: "('w, 'z) core_ports_scheme \<Rightarrow> ('t, 'a, 'w, unit) turn_step" where
  "raise_if_cancelled pt =
     and_then (outside (tp_cancelled pt)) (\<lambda>c. if c then throw Cancelled else give ())"

definition bind_side_effect :: "('t, 'a, 'w, unit) turn_step" where
  "bind_side_effect =
     with_router (\<lambda>ro. case start_side_effect (ro_binding ro) of
       Inl e \<Rightarrow> (Inl e, ro) | Inr b \<Rightarrow> (Inr (), ro\<lparr>ro_binding := b\<rparr>))"

text \<open>The constructor takes exactly one authorizer, under its name or its old one.\<close>

definition choose_authorizer :: "'p option \<Rightarrow> 'p option \<Rightarrow> turn_exn + 'p" where
  "choose_authorizer authorizer guardrail =
     (case (authorizer, guardrail) of
        (Some p, None) \<Rightarrow> Inr p
      | (None, Some p) \<Rightarrow> Inr p
      | _ \<Rightarrow> Inl ValueFailed)"

section \<open>Checks\<close>

definition turn_identifier :: "pyval \<Rightarrow> bool" where
  "turn_identifier v = (case v of PStr s \<Rightarrow> s \<noteq> [] \<and> length s \<le> 128 | _ \<Rightarrow> False)"

definition visible_text :: "pyval \<Rightarrow> bool" where
  "visible_text v = (case v of PStr s \<Rightarrow> strip_ws s \<noteq> [] | _ \<Rightarrow> False)"

definition request_error :: "turn_request \<Rightarrow> turn_exn option" where
  "request_error req =
     (if turn_identifier (tq_session_id req) \<and> turn_identifier (tq_turn_id req) \<and>
         turn_identifier (tq_request_id req) \<and> visible_text (tq_message req)
      then None else Some ValueFailed)"

definition decision_correlation_error :: "payload \<Rightarrow> string \<Rightarrow> string \<Rightarrow> turn_exn option" where
  "decision_correlation_error d proposal_id mapped_intent =
     (if get_key d ''kind'' \<noteq> PStr ''decision'' then None
      else if get_key d ''proposal_id'' \<noteq> PStr proposal_id
      then Some (ContractFailed ''DECISION_CORRELATION_MISMATCH'')
      else if get_key d ''intent'' \<noteq> PStr mapped_intent
      then Some (ContractFailed ''DECISION_INTENT_MISMATCH'') else None)"

definition confirmation_expiry_ok :: "iso_reader \<Rightarrow> pyval \<Rightarrow> bool" where
  "confirmation_expiry_ok fromiso v =
     (case v of
        PStr s \<Rightarrow> (case fromiso (replace_str ''Z'' ''+00:00'' s) of None \<Rightarrow> False | Some t \<Rightarrow> dt_offset t \<noteq> None)
      | _ \<Rightarrow> False)"

definition confirmation_error :: "iso_reader \<Rightarrow> payload \<Rightarrow> string \<Rightarrow> turn_exn option" where
  "confirmation_error fromiso d proposal_id =
     (let c = dict_of (get_key d ''confirmation'');
          check = (\<lambda>ok code. if ok then None else Some (ContractFailed code)) in
      first_error
        [check (is_dict (get_key d ''confirmation'')) ''MALFORMED_GUARDRAIL_RESPONSE'',
         check (agent_identifier (get_key c ''confirmation_id'')) ''MALFORMED_GUARDRAIL_RESPONSE'',
         check (get_key c ''proposal_id'' = PStr proposal_id) ''CONFIRMATION_CORRELATION_MISMATCH'',
         check (get_key c ''single_use'' = PBool True) ''MALFORMED_GUARDRAIL_RESPONSE'',
         check (confirmation_expiry_ok fromiso (get_key c ''expires_at'')) ''MALFORMED_GUARDRAIL_RESPONSE'',
         check (get_key c ''prompt'' = PNone \<or> visible_text (get_key c ''prompt'')) ''MALFORMED_GUARDRAIL_RESPONSE''])"

definition permit_digest_error :: "payload \<Rightarrow> string \<Rightarrow> turn_exn option" where
  "permit_digest_error d digest =
     (if get_key (dict_of (get_key d ''permit'')) ''proposal_digest'' = PStr digest then None
      else Some (ContractFailed ''INVALID_PERMIT''))"

text \<open>\<open>dict(v)\<close> of a JSON value: a mapping, or a sequence of pairs (a text of two characters is such
  a pair).  A pair whose first element is no text counts as an error, the model's dictionaries
  having texts as keys.\<close>

fun as_pair :: "pyval \<Rightarrow> (string \<times> pyval) option" where
  "as_pair (PList [PStr k, v]) = Some (k, v)"
| "as_pair (PStr [a, b]) = Some ([a], PStr [b])"
| "as_pair (PDict [(a, _), (b, _)]) = Some (a, PStr b)"
| "as_pair _ = None"

fun dict_call :: "pyval \<Rightarrow> payload option" where
  "dict_call (PDict d) = Some d"
| "dict_call (PList vs) =
     map_option (foldl (\<lambda>d (k, v). AList.update k v d) []) (all_some (map as_pair vs))"
| "dict_call (PStr []) = Some []"
| "dict_call _ = None"

definition answer_error :: "payload \<Rightarrow> turn_exn option" where
  "answer_error d =
     (if is_dict (get_key d ''answer'') \<and> get_key (dict_of (get_key d ''answer'')) ''grounded'' = PBool True
      then None else Some (ContractFailed ''MALFORMED_GUARDRAIL_RESPONSE''))"

section \<open>Results\<close>

definition default_turn_error :: turn_error where
  "default_turn_error = \<lparr>te_code = ''EXECUTION_FAILED'', te_retryable = False, te_details = []\<rparr>"

definition error_with_code :: "string \<Rightarrow> turn_error" where
  "error_with_code code = \<lparr>te_code = code, te_retryable = False, te_details = []\<rparr>"

definition failed_result ::
  "turn_state list \<Rightarrow> string option \<Rightarrow> turn_error option \<Rightarrow> string option \<Rightarrow> turn_result" where
  "failed_result trace proposal_id error exec_id =
     (let tr = (if trace = [] \<or> last trace \<noteq> TS_FAILED then trace @ [TS_FAILED] else trace) in
      (TurnResult ST_FAILED TS_FAILED TXT_FAILED tr)
        \<lparr>ts_proposal_id := proposal_id, ts_execution_id := exec_id,
         ts_error := Some (case error of None \<Rightarrow> default_turn_error | Some e \<Rightarrow> e)\<rparr>)"

definition give_failed ::
  "string \<Rightarrow> turn_error option \<Rightarrow> string option \<Rightarrow> ('t, 'a, 'w, turn_result) turn_step" where
  "give_failed proposal_id error exec_id s =
     (Inr (failed_result (tn_trace s) (Some proposal_id) error exec_id), s)"

definition give_result :: "turn_status \<Rightarrow> turn_state \<Rightarrow> string \<Rightarrow> (turn_result \<Rightarrow> turn_result) \<Rightarrow>
    ('t, 'a, 'w, turn_result) turn_step" where
  "give_result status state message f s = (Inr (f (TurnResult status state message (tn_trace s))), s)"

section \<open>The turn\<close>

text \<open>Lines up to the model's proposal.\<close>

definition user_messages :: "turn_request \<Rightarrow> messages" where
  "user_messages req = tq_messages req @ [[(''role'', PStr ''user''), (''content'', tq_message req)]]"

definition resolve_turn :: "'w turn_ports \<Rightarrow> turn_request \<Rightarrow> ('t, 'a, 'w, model_proposal) turn_step" where
  "resolve_turn pt req =
     and_then (require (request_error req)) (\<lambda>_.
     and_then (raise_if_cancelled pt) (\<lambda>_.
     and_then (trace_on TS_RESOLVING) (\<lambda>_.
     and_then (with_router (router_propose (user_messages req))) (\<lambda>p.
     and_then (raise_if_cancelled pt) (\<lambda>_. give p)))))"

definition turn_proposal :: "string \<Rightarrow> turn_request \<Rightarrow> model_proposal \<Rightarrow> payload" where
  "turn_proposal proposal_id req p =
     [(''contract_version'', PStr AGENT_CONTRACT_VERSION), (''proposal_id'', PStr proposal_id),
      (''session_id'', tq_session_id req), (''source_turn_id'', tq_turn_id req),
      (''tool'', case mo_tool_name p of None \<Rightarrow> PNone | Some t \<Rightarrow> PStr t),
      (''arguments'', PDict (case mo_arguments p of None \<Rightarrow> [] | Some d \<Rightarrow> d)),
      (''model_provider'', PStr (pm_provider (mo_metadata p))), (''model_id'', PStr (pm_model_id (mo_metadata p)))]"

definition draw_proposal_id :: "('w, 'z) core_ports_scheme \<Rightarrow> ('t, 'a, 'w, string) turn_step" where
  "draw_proposal_id pt =
     and_then (and_then (outside (tp_new_id pt ''proposal'')) give_sum)
       (\<lambda>pid s. (Inr pid, s\<lparr>tn_proposal_id := Some pid\<rparr>))"

definition propose_turn ::
  "platform \<Rightarrow> tool_mapper \<Rightarrow> 'w turn_ports \<Rightarrow> turn_request \<Rightarrow> model_proposal \<Rightarrow>
   ('t, 'a, 'w, string \<times> payload \<times> mapped_proposal) turn_step" where
  "propose_turn pf tm pt req p =
     and_then (draw_proposal_id pt) (\<lambda>pid.
       let ap = turn_proposal pid req p in
     and_then (give_sum (case map_proposal pf tm ap of Inl e \<Rightarrow> Inl (of_mapping e) | Inr m \<Rightarrow> Inr m)) (\<lambda>m.
     and_then (trace_on TS_PROPOSED) (\<lambda>_.
     and_then (raise_if_cancelled pt) (\<lambda>_. give (pid, ap, m)))))"

text \<open>Under the session's lock, up to the checked decision.\<close>

definition authorize_turn ::
  "iso_reader \<Rightarrow> 'w turn_ports \<Rightarrow> turn_request \<Rightarrow> string \<Rightarrow> payload \<Rightarrow> mapped_proposal \<Rightarrow>
   ('t, 'a, 'w, payload) turn_step" where
  "authorize_turn fromiso pt req pid ap m =
     and_then (outside (\<lambda>w. ((), tp_wait pt (text_of (tq_session_id req)) w))) (\<lambda>_.
     and_then (raise_if_cancelled pt) (\<lambda>_.
     and_then (trace_on TS_AUTHORIZING) (\<lambda>_.
     and_then (outside (tp_authorize pt ap)) (\<lambda>reply.
     and_then (called (Authorized ap reply)) (\<lambda>_.
     and_then (give_sum reply) (\<lambda>d.
     and_then (require (map_option of_contract (validate_guardrail_result fromiso d))) (\<lambda>_.
     and_then (require (decision_correlation_error d pid (ca_intent (mp_action m)))) (\<lambda>_.
     and_then (raise_if_cancelled pt) (\<lambda>_. give d)))))))))"

definition allow_turn ::
  "'w turn_ports \<Rightarrow> string \<Rightarrow> payload \<Rightarrow> mapped_proposal \<Rightarrow> payload \<Rightarrow> ('t, 'a, 'w, turn_result) turn_step" where
  "allow_turn pt pid ap m d =
     and_then (require (permit_digest_error d (mp_digest m))) (\<lambda>_.
     and_then bind_side_effect (\<lambda>_.
     and_then (trace_on TS_EXECUTING) (\<lambda>_.
     and_then (outside (tp_execute pt ap d)) (\<lambda>reply.
     and_then (called (Executed ap d reply)) (\<lambda>_.
     and_then (give_sum reply) (\<lambda>x.
     and_then (raise_if_cancelled pt) (\<lambda>_.
       if \<not> er_success x then give_failed pid (er_error x) (Some (er_execution_id x))
       else
         and_then (trace_on TS_COMPLETED) (\<lambda>_.
           give_result ST_COMPLETED TS_COMPLETED (er_message x)
             (\<lambda>r. r\<lparr>ts_proposal_id := Some pid, ts_execution_id := Some (er_execution_id x),
                    ts_state_version := er_state_version x\<rparr>)))))))))"

definition confirm_turn ::
  "iso_reader \<Rightarrow> 'w turn_ports \<Rightarrow> turn_request \<Rightarrow> string \<Rightarrow> payload \<Rightarrow> payload \<Rightarrow>
   ('t, 'a, 'w, turn_result) turn_step" where
  "confirm_turn fromiso pt req pid ap d =
     (let c = dict_of (get_key d ''confirmation'') in
      and_then (require (confirmation_error fromiso d pid)) (\<lambda>_.
      and_then
        (case tp_register pt of
           None \<Rightarrow> give ()
         | Some register \<Rightarrow>
             and_then (outside (register d ap (tq_turn_id req))) (\<lambda>failure.
             and_then (called (Registered ap d failure)) (\<lambda>_. require failure))) (\<lambda>_.
      and_then (trace_on TS_AWAITING_CONFIRMATION) (\<lambda>_.
        give_result ST_NEEDS_CONFIRMATION TS_AWAITING_CONFIRMATION
          (case get_key c ''prompt'' of PStr t \<Rightarrow> t | _ \<Rightarrow> TXT_CONFIRM)
          (\<lambda>r. r\<lparr>ts_proposal_id := Some pid, ts_confirmation_id := get_key c ''confirmation_id'',
                 ts_expires_at := get_key c ''expires_at''\<rparr>)))))"

definition answer_turn :: "string \<Rightarrow> payload \<Rightarrow> ('t, 'a, 'w, turn_result) turn_step" where
  "answer_turn pid d =
     and_then (require (answer_error d)) (\<lambda>_.
     and_then (give_sum (case dict_call (get_or (dict_of (get_key d ''answer'')) ''facts'' (PDict [])) of
         None \<Rightarrow> Inl (OtherFailed ''TypeError'') | Some facts \<Rightarrow> Inr facts)) (\<lambda>facts.
     and_then (with_router (router_compose
         [(''outcome'', PStr ''ANSWER''), (''facts'', PDict facts), (''state_version'', get_key d ''state_version'')])) (\<lambda>p.
       case mo_text p of
         Some (t # ts) \<Rightarrow>
           if mo_kind p \<noteq> RESPONSE then throw (ContractFailed ''UNGROUNDED_RESPONSE'')
           else and_then (trace_on TS_COMPLETED) (\<lambda>_.
             give_result ST_COMPLETED TS_COMPLETED (t # ts)
               (\<lambda>r. r\<lparr>ts_proposal_id := Some pid, ts_state_version := get_key d ''state_version''\<rparr>))
       | _ \<Rightarrow> throw (ContractFailed ''UNGROUNDED_RESPONSE''))))"

definition block_turn :: "string \<Rightarrow> payload \<Rightarrow> ('t, 'a, 'w, turn_result) turn_step" where
  "block_turn pid d =
     and_then (trace_on TS_BLOCKED) (\<lambda>_.
       give_result ST_BLOCKED TS_BLOCKED TXT_BLOCKED
         (\<lambda>r. r\<lparr>ts_proposal_id := Some pid, ts_state_version := get_key d ''state_version'',
                ts_rule_id := get_key d ''rule_id'', ts_reason := get_key d ''reason_code''\<rparr>))"

definition decided_turn ::
  "iso_reader \<Rightarrow> 'w turn_ports \<Rightarrow> turn_request \<Rightarrow> string \<Rightarrow> payload \<Rightarrow> mapped_proposal \<Rightarrow> payload \<Rightarrow>
   ('t, 'a, 'w, turn_result) turn_step" where
  "decided_turn fromiso pt req pid ap m d =
     (if get_key d ''kind'' = PStr ''error'' then
        (let e = dict_of (get_key d ''error'') in
         give_failed pid (Some \<lparr>te_code = text_of (get_key e ''code''),
           te_retryable = py_truth (get_key e ''retryable''), te_details = []\<rparr>) None)
      else if get_key d ''outcome'' = PStr ''ALLOW'' then allow_turn pt pid ap m d
      else if get_key d ''outcome'' = PStr ''CONFIRM'' then confirm_turn fromiso pt req pid ap d
      else if get_key d ''outcome'' = PStr ''ANSWER'' then answer_turn pid d
      else block_turn pid d)"

definition turn_body ::
  "platform \<Rightarrow> iso_reader \<Rightarrow> tool_mapper \<Rightarrow> 'w turn_ports \<Rightarrow> turn_request \<Rightarrow>
   ('t, 'a, 'w, turn_result) turn_step" where
  "turn_body pf fromiso tm pt req =
     and_then (resolve_turn pt req) (\<lambda>p.
       if mo_kind p \<noteq> ACTION then
         and_then (trace_on TS_CLARIFICATION) (\<lambda>_.
           give_result ST_COMPLETED TS_CLARIFICATION (str_or (mo_text p) TXT_CLARIFY) (\<lambda>r. r))
       else
         and_then (propose_turn pf tm pt req p) (\<lambda>(pid, ap, m).
         and_then (authorize_turn fromiso pt req pid ap m) (\<lambda>d.
           decided_turn fromiso pt req pid ap m d)))"

text \<open>The handlers of the exceptions.\<close>

definition turn_failure :: "turn_exn \<Rightarrow> turn_state list \<Rightarrow> string option \<Rightarrow> turn_result" where
  "turn_failure e trace proposal_id =
     (case e of
        Cancelled \<Rightarrow>
          failed_result (trace @ [TS_CANCELLED]) proposal_id (Some (error_with_code ''TURN_CANCELLED'')) None
      | ModelFailed code retryable \<Rightarrow>
          (TurnResult ST_DEGRADED TS_FAILED TXT_UNAVAILABLE (trace @ [TS_FAILED]))
            \<lparr>ts_proposal_id := proposal_id, ts_reason := PStr (model_code_value code),
             ts_degraded_capability := Some ''intent_resolution'', ts_retryable := Some retryable\<rparr>
      | ContractFailed code \<Rightarrow> failed_result trace proposal_id (Some (error_with_code code)) None
      | MappingFailed code \<Rightarrow> failed_result trace proposal_id (Some (error_with_code code)) None
      | ValueFailed \<Rightarrow> failed_result trace proposal_id (Some (error_with_code ''ORCHESTRATION_DEPENDENCY_ERROR'')) None
      | OtherFailed name \<Rightarrow>
          failed_result trace proposal_id (Some (error_with_code ''ORCHESTRATION_DEPENDENCY_ERROR'')) None)"

definition turn_start :: "('t, 'a, 'w) model_router \<Rightarrow> 'w \<Rightarrow> ('t, 'a, 'w) turn" where
  "turn_start rt w =
     \<lparr>tn_routed = \<lparr>ro_router = rt, ro_binding = TurnBinding, ro_world = w, ro_asked = []\<rparr>,
      tn_trace = [TS_RECEIVED], tn_proposal_id = None, tn_calls = []\<rparr>"

definition handle_message ::
  "platform \<Rightarrow> iso_reader \<Rightarrow> tool_mapper \<Rightarrow> 'w turn_ports \<Rightarrow> turn_request \<Rightarrow>
   ('t, 'a, 'w) model_router \<Rightarrow> 'w \<Rightarrow> turn_result \<times> ('t, 'a, 'w) turn" where
  "handle_message pf fromiso tm pt req rt w =
     (case turn_body pf fromiso tm pt req (turn_start rt w) of
        (Inr r, s) \<Rightarrow> (r, s)
      | (Inl e, s) \<Rightarrow> (turn_failure e (tn_trace s) (tn_proposal_id s), s))"

section \<open>Facts of the steps\<close>

lemma and_then_cases:
  assumes "and_then f g s = (r, s')"
  obtains (raised) e where "f s = (Inl e, s')" "r = Inl e"
    | (went_on) x s1 where "f s = (Inr x, s1)" "g x s1 = (r, s')"
  using assms by (auto simp: and_then_def split: prod.splits sum.splits)

text \<open>The part of a turn the properties are about; most steps leave it alone.\<close>

definition turn_view :: "('t, 'a, 'w) turn \<Rightarrow> turn_state list \<times> string option \<times> turn_call list" where
  "turn_view s = (tn_trace s, tn_proposal_id s, tn_calls s)"

named_theorems turn_steps

lemma outside_step [turn_steps]: "outside f s = (r, s') \<Longrightarrow> (\<exists>x. r = Inr x) \<and> turn_view s' = turn_view s"
  by (auto simp: outside_def turn_view_def split: prod.splits)

lemma with_router_step [turn_steps]: "with_router f s = (r, s') \<Longrightarrow> turn_view s' = turn_view s"
  by (auto simp: with_router_def turn_view_def split: prod.splits sum.splits)

lemma give_step [turn_steps]: "give x s = (r, s') \<Longrightarrow> r = Inr x \<and> s' = s"
  by (auto simp: give_def)

lemma throw_step [turn_steps]: "throw e s = (r, s') \<Longrightarrow> r = Inl e \<and> s' = s"
  by (auto simp: throw_def)

lemma give_sum_step [turn_steps]: "give_sum x s = (r, s') \<Longrightarrow> r = x \<and> s' = s"
  by (auto simp: give_sum_def)

lemma require_step [turn_steps]:
  "require e s = (r, s') \<Longrightarrow> s' = s \<and> r = (case e of None \<Rightarrow> Inr () | Some x \<Rightarrow> Inl x)"
  by (auto simp: require_def give_def throw_def split: option.splits)

lemma trace_on_step [turn_steps]:
  "trace_on st s = (r, s') \<Longrightarrow> r = Inr () \<and> tn_trace s' = tn_trace s @ [st] \<and>
     tn_proposal_id s' = tn_proposal_id s \<and> tn_calls s' = tn_calls s"
  by (auto simp: trace_on_def)

lemma called_step [turn_steps]:
  "called c s = (r, s') \<Longrightarrow> r = Inr () \<and> tn_calls s' = tn_calls s @ [c] \<and>
     tn_proposal_id s' = tn_proposal_id s \<and> tn_trace s' = tn_trace s"
  by (auto simp: called_def)

text \<open>The last question a turn asked of its cancellation token was answered with a cancellation: that
  answer came with the world the turn was left in.\<close>

definition told_cancelled :: "('w, 'z) core_ports_scheme \<Rightarrow> ('t, 'a, 'w) turn \<Rightarrow> bool" where
  "told_cancelled pt s \<longleftrightarrow> (\<exists>v. tp_cancelled pt v = (True, ro_world (tn_routed s)))"

lemma cancel_step [turn_steps]: "raise_if_cancelled pt s = (r, s') \<Longrightarrow> turn_view s' = turn_view s"
  unfolding raise_if_cancelled_def
  by (erule and_then_cases) (auto dest!: turn_steps split: if_splits)

lemma cancel_raises:
  "raise_if_cancelled pt s = (Inl e, s') \<Longrightarrow> turn_view s' = turn_view s \<and> e = Cancelled \<and> told_cancelled pt s'"
  using cancel_step [of pt s "Inl e" s'] unfolding raise_if_cancelled_def
  by (auto simp: and_then_def outside_def throw_def give_def told_cancelled_def split: prod.splits if_splits
      intro!: exI [of _ "ro_world (tn_routed s)"])

lemma bind_step [turn_steps]: "bind_side_effect s = (r, s') \<Longrightarrow> turn_view s' = turn_view s"
  unfolding bind_side_effect_def by (rule with_router_step)

lemma give_failed_step [turn_steps]:
  "give_failed pid e x s = (r, s') \<Longrightarrow> s' = s \<and> r = Inr (failed_result (tn_trace s) (Some pid) e x)"
  by (auto simp: give_failed_def)

lemma give_result_step [turn_steps]:
  "give_result status st msg f s = (r, s') \<Longrightarrow> s' = s \<and> r = Inr (f (TurnResult status st msg (tn_trace s)))"
  by (auto simp: give_result_def)

lemma turn_view_iff:
  "turn_view s' = turn_view s \<longleftrightarrow>
     tn_trace s' = tn_trace s \<and> tn_proposal_id s' = tn_proposal_id s \<and> tn_calls s' = tn_calls s"
  by (auto simp: turn_view_def)

lemma resolve_turn_spec:
  assumes "resolve_turn pt req s = (r, s')"
  shows "tn_calls s' = tn_calls s \<and> tn_proposal_id s' = tn_proposal_id s \<and>
    tn_trace s' = tn_trace s @ [TS_RESOLVING] \<or>
    turn_view s' = turn_view s \<and> (\<exists>e. r = Inl e)"
  using assms unfolding resolve_turn_def
  by (auto elim!: and_then_cases dest!: turn_steps simp: turn_view_iff split: option.splits)

lemma draw_proposal_id_spec:
  assumes "draw_proposal_id pt s = (r, s')"
  shows "tn_calls s' = tn_calls s \<and> tn_trace s' = tn_trace s"
  using assms unfolding draw_proposal_id_def
  by (auto elim!: and_then_cases dest!: turn_steps simp: turn_view_iff)

lemma propose_turn_spec:
  assumes "propose_turn pf tm pt req p s = (r, s')"
  shows "tn_calls s' = tn_calls s \<and>
    (case r of
       Inl e \<Rightarrow> tn_trace s' = tn_trace s \<or> tn_trace s' = tn_trace s @ [TS_PROPOSED]
     | Inr (pid, ap, m) \<Rightarrow> tn_trace s' = tn_trace s @ [TS_PROPOSED] \<and>
         ap = turn_proposal pid req p \<and> map_proposal pf tm ap = Inr m)"
  using assms unfolding propose_turn_def Let_def
  by (auto elim!: and_then_cases dest!: turn_steps draw_proposal_id_spec simp: turn_view_iff split: sum.splits)

lemma authorize_turn_spec:
  assumes "authorize_turn fromiso pt req pid ap m s = (r, s')"
  shows "case r of
      Inl e \<Rightarrow> tn_calls s' = tn_calls s \<and> tn_trace s' \<in> {tn_trace s, tn_trace s @ [TS_AUTHORIZING]} \<or>
        (\<exists>reply. tn_calls s' = tn_calls s @ [Authorized ap reply]) \<and> tn_trace s' = tn_trace s @ [TS_AUTHORIZING]
    | Inr d \<Rightarrow> tn_calls s' = tn_calls s @ [Authorized ap (Inr d)] \<and> tn_trace s' = tn_trace s @ [TS_AUTHORIZING] \<and>
        validate_guardrail_result fromiso d = None \<and>
        decision_correlation_error d pid (ca_intent (mp_action m)) = None"
  using assms unfolding authorize_turn_def
  by (elim and_then_cases) (auto dest!: turn_steps simp: turn_view_iff split: option.splits sum.splits)

lemma allow_turn_spec:
  assumes "allow_turn pt pid ap m d s = (r, s')"
  shows "tn_calls s' = tn_calls s \<and> tn_trace s' = tn_trace s \<and> (\<exists>e. r = Inl e) \<or>
    permit_digest_error d (mp_digest m) = None \<and>
    (\<exists>reply. tn_calls s' = tn_calls s @ [Executed ap d reply] \<and>
      (case r of
         Inl e \<Rightarrow> tn_trace s' = tn_trace s @ [TS_EXECUTING] \<and>
           (reply = Inl e \<or> e = Cancelled \<and> told_cancelled pt s')
       | Inr result \<Rightarrow>
           (\<exists>x. reply = Inr x \<and>
              (if er_success x
               then result = (TurnResult ST_COMPLETED TS_COMPLETED (er_message x)
                      (tn_trace s @ [TS_EXECUTING, TS_COMPLETED]))
                    \<lparr>ts_proposal_id := Some pid, ts_execution_id := Some (er_execution_id x),
                     ts_state_version := er_state_version x\<rparr>
               else result = failed_result (tn_trace s @ [TS_EXECUTING]) (Some pid) (er_error x)
                      (Some (er_execution_id x))))))"
  using assms unfolding allow_turn_def
  by (elim and_then_cases)
     (auto dest!: turn_steps cancel_raises elim!: and_then_cases simp: turn_view_iff split: option.splits sum.splits if_splits)

lemma confirm_turn_spec:
  assumes "confirm_turn fromiso pt req pid ap d s = (r, s')"
  shows "tn_calls s' = tn_calls s \<and> tn_trace s' = tn_trace s \<and> (\<exists>e. r = Inl e) \<or>
    confirmation_error fromiso d pid = None \<and>
    (tp_register pt = None \<and> tn_calls s' = tn_calls s \<or>
     (\<exists>failure. tn_calls s' = tn_calls s @ [Registered ap d failure] \<and> ((\<exists>e. r = Inl e) \<longleftrightarrow> failure \<noteq> None))) \<and>
    (case r of
       Inl e \<Rightarrow> tn_trace s' = tn_trace s
     | Inr result \<Rightarrow> ts_status result = ST_NEEDS_CONFIRMATION \<and> ts_state result = TS_AWAITING_CONFIRMATION \<and>
         ts_trace result = tn_trace s @ [TS_AWAITING_CONFIRMATION] \<and> ts_execution_id result = None)"
  using assms unfolding confirm_turn_def Let_def
  by (elim and_then_cases)
     (auto dest!: turn_steps elim!: and_then_cases simp: turn_view_iff TurnResult_def split: option.splits sum.splits if_splits)

lemma answer_turn_spec:
  assumes "answer_turn pid d s = (r, s')"
  shows "tn_calls s' = tn_calls s \<and>
    (case r of
       Inl e \<Rightarrow> tn_trace s' = tn_trace s
     | Inr result \<Rightarrow> answer_error d = None \<and> ts_status result = ST_COMPLETED \<and> ts_state result = TS_COMPLETED \<and>
         ts_trace result = tn_trace s @ [TS_COMPLETED] \<and> ts_execution_id result = None)"
  using assms unfolding answer_turn_def
  by (elim and_then_cases)
     (auto dest!: turn_steps elim!: and_then_cases simp: turn_view_iff TurnResult_def
       split: option.splits sum.splits if_splits list.splits)

lemma block_turn_spec:
  assumes "block_turn pid d s = (r, s')"
  shows "tn_calls s' = tn_calls s \<and>
    (\<exists>result. r = Inr result \<and> ts_status result = ST_BLOCKED \<and> ts_state result = TS_BLOCKED \<and>
       ts_trace result = tn_trace s @ [TS_BLOCKED] \<and> ts_execution_id result = None)"
  using assms unfolding block_turn_def
  by (elim and_then_cases) (auto dest!: turn_steps simp: TurnResult_def)

lemma failed_result_fields:
  "ts_status (failed_result tr pid e x) = ST_FAILED" "ts_state (failed_result tr pid e x) = TS_FAILED"
  "ts_execution_id (failed_result tr pid e x) = x"
  "ts_error (failed_result tr pid e x) = Some (case e of None \<Rightarrow> default_turn_error | Some e \<Rightarrow> e)"
  "ts_trace (failed_result tr pid e x) = (if tr = [] \<or> last tr \<noteq> TS_FAILED then tr @ [TS_FAILED] else tr)"
  by (simp_all add: failed_result_def TurnResult_def)

section \<open>What a turn does\<close>

text \<open>A decision that lets the executor run: valid, an ALLOW for this proposal and for the intent it
  is mapped to, with a permit over the mapped proposal.\<close>

definition executable_decision ::
  "platform \<Rightarrow> iso_reader \<Rightarrow> tool_mapper \<Rightarrow> payload \<Rightarrow> payload \<Rightarrow> bool" where
  "executable_decision pf fromiso tm ap d =
     (case map_proposal pf tm ap of
        Inl e \<Rightarrow> False
      | Inr m \<Rightarrow>
          validate_guardrail_result fromiso d = None \<and> get_key d ''kind'' = PStr ''decision'' \<and>
          get_key d ''outcome'' = PStr ''ALLOW'' \<and> get_key d ''proposal_id'' = get_key ap ''proposal_id'' \<and>
          get_key d ''intent'' = PStr (ca_intent (mp_action m)) \<and>
          get_key (dict_of (get_key d ''permit'')) ''proposal_digest'' = PStr (mp_digest m))"

definition confirmable_decision :: "iso_reader \<Rightarrow> payload \<Rightarrow> payload \<Rightarrow> bool" where
  "confirmable_decision fromiso ap d \<longleftrightarrow>
     validate_guardrail_result fromiso d = None \<and> get_key d ''outcome'' = PStr ''CONFIRM'' \<and>
     get_key d ''proposal_id'' = get_key ap ''proposal_id'' \<and>
     confirmation_error fromiso d (text_of (get_key ap ''proposal_id'')) = None"

text \<open>The calls a turn may make, in this order.\<close>

fun calls_in_order :: "platform \<Rightarrow> iso_reader \<Rightarrow> tool_mapper \<Rightarrow> turn_call list \<Rightarrow> bool" where
  "calls_in_order pf fromiso tm [] = True"
| "calls_in_order pf fromiso tm [Authorized ap reply] = True"
| "calls_in_order pf fromiso tm [Authorized ap (Inr d), Executed ap1 d1 reply] =
     (ap1 = ap \<and> d1 = d \<and> executable_decision pf fromiso tm ap d)"
| "calls_in_order pf fromiso tm [Authorized ap (Inr d), Registered ap1 d1 failure] =
     (ap1 = ap \<and> d1 = d \<and> confirmable_decision fromiso ap d)"
| "calls_in_order pf fromiso tm _ = False"

text \<open>The states a turn may go through.\<close>

fun next_states :: "turn_state \<Rightarrow> turn_state list" where
  "next_states TS_RECEIVED = [TS_RESOLVING, TS_CANCELLED, TS_FAILED]"
| "next_states TS_RESOLVING = [TS_CLARIFICATION, TS_PROPOSED, TS_CANCELLED, TS_FAILED]"
| "next_states TS_PROPOSED = [TS_AUTHORIZING, TS_CANCELLED, TS_FAILED]"
| "next_states TS_AUTHORIZING =
     [TS_EXECUTING, TS_AWAITING_CONFIRMATION, TS_COMPLETED, TS_BLOCKED, TS_CANCELLED, TS_FAILED]"
| "next_states TS_EXECUTING = [TS_COMPLETED, TS_CANCELLED, TS_FAILED]"
| "next_states TS_CANCELLED = [TS_FAILED]"
| "next_states _ = []"

definition turn_path :: "turn_state list \<Rightarrow> bool" where
  "turn_path tr \<longleftrightarrow> tr \<noteq> [] \<and> hd tr = TS_RECEIVED \<and> successively (\<lambda>a b. b \<in> set (next_states a)) tr"

text \<open>What a result says of the calls.  A result with a cancelled trace needs the \<open>cancelled\<close> of its turn;
  if the executor had answered, only such a result may leave the execution out.\<close>

definition result_matches :: "bool \<Rightarrow> turn_result \<Rightarrow> turn_call list \<Rightarrow> bool" where
  "result_matches cancelled r calls =
     (case calls of
        [Authorized ap (Inr d), Executed _ _ (Inr x)] \<Rightarrow>
          (if TS_CANCELLED \<in> set (ts_trace r)
           then cancelled \<and> ts_execution_id r = None \<and> ts_status r = ST_FAILED \<and>
             map_option te_code (ts_error r) = Some ''TURN_CANCELLED''
           else ts_execution_id r = Some (er_execution_id x) \<and>
             (if er_success x then ts_status r = ST_COMPLETED \<and> ts_message r = er_message x \<and>
                ts_state_version r = er_state_version x
              else ts_status r = ST_FAILED \<and>
                ts_error r = Some (case er_error x of None \<Rightarrow> default_turn_error | Some e \<Rightarrow> e)))
      | [Authorized ap (Inr d), Executed _ _ (Inl e)] \<Rightarrow>
          ts_execution_id r = None \<and> ts_status r \<in> {ST_FAILED, ST_DEGRADED}
      | [Authorized ap (Inr d), Registered _ _ failure] \<Rightarrow>
          ts_execution_id r = None \<and>
          (if failure = None then ts_status r = ST_NEEDS_CONFIRMATION else ts_status r \<in> {ST_FAILED, ST_DEGRADED})
      | [Authorized ap (Inr d)] \<Rightarrow>
          ts_execution_id r = None \<and>
          (ts_status r = ST_COMPLETED \<longrightarrow> get_key d ''outcome'' = PStr ''ANSWER'') \<and>
          (ts_status r = ST_BLOCKED \<longrightarrow> get_key d ''outcome'' \<notin> PStr ` {''ALLOW'', ''CONFIRM'', ''ANSWER''}) \<and>
          (ts_status r = ST_NEEDS_CONFIRMATION \<longrightarrow> get_key d ''outcome'' = PStr ''CONFIRM'')
      | [Authorized ap (Inl e)] \<Rightarrow> ts_execution_id r = None \<and> ts_status r \<in> {ST_FAILED, ST_DEGRADED}
      | [] \<Rightarrow>
          ts_execution_id r = None \<and>
          (ts_status r \<in> {ST_FAILED, ST_DEGRADED} \<or> ts_status r = ST_COMPLETED \<and> ts_state r = TS_CLARIFICATION)
      | _ \<Rightarrow> False)"

lemma turn_failure_fields:
  "ts_status (turn_failure e tr pid) \<in> {ST_FAILED, ST_DEGRADED}"
  "ts_state (turn_failure e tr pid) = TS_FAILED" "ts_execution_id (turn_failure e tr pid) = None"
  by (simp_all add: turn_failure_def failed_result_def Let_def TurnResult_def split: turn_exn.split)

lemma turn_failure_trace:
  assumes "tr \<noteq> []" "last tr \<noteq> TS_FAILED"
  shows "ts_trace (turn_failure e tr pid) = tr @ (if e = Cancelled then [TS_CANCELLED, TS_FAILED] else [TS_FAILED])"
  using assms by (cases e) (simp_all add: turn_failure_def failed_result_fields TurnResult_def)

definition running_traces :: "turn_state list set" where
  "running_traces =
     {[TS_RECEIVED], [TS_RECEIVED, TS_RESOLVING], [TS_RECEIVED, TS_RESOLVING, TS_PROPOSED],
      [TS_RECEIVED, TS_RESOLVING, TS_PROPOSED, TS_AUTHORIZING],
      [TS_RECEIVED, TS_RESOLVING, TS_PROPOSED, TS_AUTHORIZING, TS_EXECUTING]}"

definition stopped_ok :: "('w, 'z) core_ports_scheme \<Rightarrow> turn_exn \<Rightarrow> ('t, 'a, 'w) turn \<Rightarrow> bool" where
  "stopped_ok pt e s \<longleftrightarrow> tn_trace s \<in> running_traces \<and>
     result_matches (told_cancelled pt s) (turn_failure e (tn_trace s) (tn_proposal_id s)) (tn_calls s)"

definition ended_ok :: "bool \<Rightarrow> turn_result \<Rightarrow> turn_call list \<Rightarrow> bool" where
  "ended_ok cancelled r calls \<longleftrightarrow>
     result_matches cancelled r calls \<and> turn_path (ts_trace r) \<and> last (ts_trace r) = ts_state r"

lemma running_last: "tr \<in> running_traces \<Longrightarrow> tr \<noteq> [] \<and> last tr \<noteq> TS_FAILED"
  by (auto simp: running_traces_def)

lemma cancelled_turn_failure:
  assumes "tr \<in> running_traces"
  shows "TS_CANCELLED \<in> set (ts_trace (turn_failure Cancelled tr pid))"
    "ts_status (turn_failure Cancelled tr pid) = ST_FAILED"
    "map_option te_code (ts_error (turn_failure Cancelled tr pid)) = Some ''TURN_CANCELLED''"
  using running_last [OF assms] turn_failure_trace [of tr Cancelled pid]
  by (simp_all add: turn_failure_def failed_result_def TurnResult_def error_with_code_def)

lemma stopped_result:
  assumes "tn_trace s \<in> running_traces" "tn_calls s = [] \<or> (\<exists>ap reply. tn_calls s = [Authorized ap reply]) \<or>
    (\<exists>ap d reply. tn_calls s = [Authorized ap (Inr d), Executed ap d reply] \<and>
       (reply = Inl e \<or> e = Cancelled \<and> told_cancelled pt s)) \<or>
    (\<exists>ap d failure. tn_calls s = [Authorized ap (Inr d), Registered ap d (Some failure)])"
  shows "stopped_ok pt e s"
  using assms turn_failure_fields [of e "tn_trace s" "tn_proposal_id s"]
    cancelled_turn_failure [OF assms(1), of "tn_proposal_id s"]
  by (auto simp: stopped_ok_def result_matches_def split: sum.splits)

lemma decided_turn_ok:
  assumes run: "decided_turn fromiso pt req pid ap m d s = (r, s')"
    and calls: "tn_calls s = [Authorized ap (Inr d)]"
    and trace: "tn_trace s = [TS_RECEIVED, TS_RESOLVING, TS_PROPOSED, TS_AUTHORIZING]"
    and valid: "validate_guardrail_result fromiso d = None"
    and same: "decision_correlation_error d pid (ca_intent (mp_action m)) = None"
    and ap: "ap = turn_proposal pid req p" and m: "map_proposal pf tm ap = Inr m"
  shows "calls_in_order pf fromiso tm (tn_calls s') \<and>
    (case r of Inl e \<Rightarrow> stopped_ok pt e s' | Inr result \<Rightarrow> ended_ok (told_cancelled pt s') result (tn_calls s'))"
proof -
  have pid: "get_key ap ''proposal_id'' = PStr pid" by (simp add: ap turn_proposal_def get_key_def)
  consider (error) "get_key d ''kind'' = PStr ''error''"
    | (allow) "get_key d ''kind'' \<noteq> PStr ''error''" "get_key d ''outcome'' = PStr ''ALLOW''"
    | (confirm) "get_key d ''kind'' \<noteq> PStr ''error''" "get_key d ''outcome'' = PStr ''CONFIRM''"
    | (answer) "get_key d ''kind'' \<noteq> PStr ''error''" "get_key d ''outcome'' = PStr ''ANSWER''"
    | (blocked) "get_key d ''kind'' \<noteq> PStr ''error''"
      "get_key d ''outcome'' \<notin> PStr ` {''ALLOW'', ''CONFIRM'', ''ANSWER''}"
    by auto
  then show ?thesis
  proof cases
    case error
    then show ?thesis
      using run calls trace
      by (auto simp: decided_turn_def Let_def ended_ok_def result_matches_def failed_result_fields turn_path_def
          dest!: give_failed_step)
  next
    case allow
    then have kind: "get_key d ''kind'' = PStr ''decision''" using accepted_allow [OF valid] by blast
    with same have intent: "get_key d ''proposal_id'' = PStr pid" "get_key d ''intent'' = PStr (ca_intent (mp_action m))"
      by (simp_all add: decision_correlation_error_def split: if_splits)
    have "allow_turn pt pid ap m d s = (r, s')" using run allow by (simp add: decided_turn_def)
    from allow_turn_spec [OF this] show ?thesis
    proof (elim disjE conjE exE)
      fix e assume "tn_calls s' = tn_calls s" "tn_trace s' = tn_trace s" "r = Inl e"
      then show ?thesis using calls trace by (auto simp: running_traces_def intro!: stopped_result)
    next
      fix reply assume digest: "permit_digest_error d (mp_digest m) = None"
        and calls': "tn_calls s' = tn_calls s @ [Executed ap d reply]"
        and r: "case r of
         Inl e \<Rightarrow> tn_trace s' = tn_trace s @ [TS_EXECUTING] \<and>
           (reply = Inl e \<or> e = Cancelled \<and> told_cancelled pt s')
       | Inr result \<Rightarrow>
           (\<exists>x. reply = Inr x \<and>
              (if er_success x
               then result = (TurnResult ST_COMPLETED TS_COMPLETED (er_message x)
                      (tn_trace s @ [TS_EXECUTING, TS_COMPLETED]))
                    \<lparr>ts_proposal_id := Some pid, ts_execution_id := Some (er_execution_id x),
                     ts_state_version := er_state_version x\<rparr>
               else result = failed_result (tn_trace s @ [TS_EXECUTING]) (Some pid) (er_error x)
                      (Some (er_execution_id x))))"
      have "executable_decision pf fromiso tm ap d"
        using digest valid kind allow(2) intent pid m
        by (simp add: executable_decision_def permit_digest_error_def split: if_splits)
      moreover have "case r of Inl e \<Rightarrow> stopped_ok pt e s' | Inr result \<Rightarrow> ended_ok (told_cancelled pt s') result (tn_calls s')"
      proof (cases r)
        case (Inl e)
        with r calls' calls trace show ?thesis by (auto simp: running_traces_def intro!: stopped_result)
      next
        case (Inr result)
        with r obtain x where x: "reply = Inr x"
          and result: "if er_success x
             then result = (TurnResult ST_COMPLETED TS_COMPLETED (er_message x)
                    (tn_trace s @ [TS_EXECUTING, TS_COMPLETED]))
                  \<lparr>ts_proposal_id := Some pid, ts_execution_id := Some (er_execution_id x),
                   ts_state_version := er_state_version x\<rparr>
             else result = failed_result (tn_trace s @ [TS_EXECUTING]) (Some pid) (er_error x)
                    (Some (er_execution_id x))" by auto
        show ?thesis
        proof (cases "er_success x")
          case True
          with result x Inr calls' calls trace show ?thesis
            by (simp add: ended_ok_def result_matches_def turn_path_def TurnResult_def)
        next
          case False
          with result x Inr calls' calls trace show ?thesis
            by (simp add: ended_ok_def result_matches_def turn_path_def failed_result_fields)
        qed
      qed
      ultimately show ?thesis using calls' calls by simp
    qed
  next
    case confirm
    then have "get_key d ''kind'' = PStr ''decision''"
      using valid by (auto simp: validate_guardrail_result_def split: option.splits if_splits)
    with same have id: "get_key d ''proposal_id'' = PStr pid"
      by (simp add: decision_correlation_error_def split: if_splits)
    have "confirm_turn fromiso pt req pid ap d s = (r, s')" using run confirm by (simp add: decided_turn_def)
    from confirm_turn_spec [OF this] show ?thesis
      using calls trace confirm id valid pid
      by (auto simp: confirmable_decision_def ended_ok_def result_matches_def turn_path_def running_traces_def
          intro!: stopped_result split: sum.splits if_splits)
  next
    case answer
    have "answer_turn pid d s = (r, s')" using run answer by (simp add: decided_turn_def)
    from answer_turn_spec [OF this] show ?thesis
      using calls trace answer
      by (auto simp: ended_ok_def result_matches_def turn_path_def running_traces_def
          intro!: stopped_result split: sum.splits)
  next
    case blocked
    then have "block_turn pid d s = (r, s')" using run by (auto simp: decided_turn_def)
    from block_turn_spec [OF this] show ?thesis
      using calls trace blocked
      by (auto simp: ended_ok_def result_matches_def turn_path_def)
  qed
qed

lemma turn_body_ok:
  assumes run: "turn_body pf fromiso tm pt req s = (r, s')"
    and calls: "tn_calls s = []" and trace: "tn_trace s = [TS_RECEIVED]"
  shows "calls_in_order pf fromiso tm (tn_calls s') \<and>
    (case r of Inl e \<Rightarrow> stopped_ok pt e s' | Inr result \<Rightarrow> ended_ok (told_cancelled pt s') result (tn_calls s'))"
proof -
  from run [unfolded turn_body_def] show ?thesis
  proof (cases rule: and_then_cases)
    case (raised e)
    with resolve_turn_spec [OF raised(1)] show ?thesis
      using calls trace by (auto simp: turn_view_iff running_traces_def intro!: stopped_result)
  next
    case (went_on p s1)
    have s1: "tn_calls s1 = []" "tn_trace s1 = [TS_RECEIVED, TS_RESOLVING]"
      using resolve_turn_spec [OF went_on(1)] calls trace by auto
    show ?thesis
    proof (cases "mo_kind p = ACTION")
      case False
      with went_on(2) s1 show ?thesis
        by (auto elim!: and_then_cases dest!: turn_steps
            simp: ended_ok_def result_matches_def turn_path_def TurnResult_def)
    next
      case True
      with went_on(2) have "and_then (propose_turn pf tm pt req p) (\<lambda>(pid, ap, m).
         and_then (authorize_turn fromiso pt req pid ap m) (\<lambda>d.
           decided_turn fromiso pt req pid ap m d)) s1 = (r, s')" by simp
      then show ?thesis
      proof (cases rule: and_then_cases)
        case (raised e)
        with propose_turn_spec [OF raised(1)] show ?thesis
          using s1 by (auto simp: running_traces_def intro!: stopped_result)
      next
        case (went_on x s2)
        obtain pid ap m where x: "x = (pid, ap, m)" by (cases x)
        have s2: "tn_calls s2 = []" "tn_trace s2 = [TS_RECEIVED, TS_RESOLVING, TS_PROPOSED]"
          "ap = turn_proposal pid req p" "map_proposal pf tm ap = Inr m"
          using propose_turn_spec [OF went_on(1)] s1 by (auto simp: x)
        from went_on(2) [unfolded x, simplified] show ?thesis
        proof (cases rule: and_then_cases)
          case (raised e)
          with authorize_turn_spec [OF raised(1)] show ?thesis
            using s2 by (auto simp: running_traces_def intro!: stopped_result)
        next
          case (went_on d s3)
          then show ?thesis
            using authorize_turn_spec [OF went_on(1)] s2 by (intro decided_turn_ok [OF went_on(2)]) auto
        qed
      qed
    qed
  qed
qed

lemma handle_message_ok:
  assumes "handle_message pf fromiso tm pt req rt w = (r, s)"
  shows "calls_in_order pf fromiso tm (tn_calls s) \<and> ended_ok (told_cancelled pt s) r (tn_calls s)"
proof -
  obtain r1 s1 where run: "turn_body pf fromiso tm pt req (turn_start rt w) = (r1, s1)"
    by (cases "turn_body pf fromiso tm pt req (turn_start rt w)")
  have ok: "calls_in_order pf fromiso tm (tn_calls s1) \<and>
    (case r1 of Inl e \<Rightarrow> stopped_ok pt e s1 | Inr result \<Rightarrow> ended_ok (told_cancelled pt s1) result (tn_calls s1))"
    by (rule turn_body_ok [OF run]) (simp_all add: turn_start_def)
  show ?thesis
  proof (cases r1)
    case (Inr result)
    with ok run assms show ?thesis by (simp add: handle_message_def)
  next
    case (Inl e)
    with run assms have rs: "r = turn_failure e (tn_trace s1) (tn_proposal_id s1)" "s = s1"
      by (auto simp: handle_message_def)
    have "turn_path (ts_trace r) \<and> last (ts_trace r) = ts_state r"
      using ok Inl turn_failure_fields(2) [of e "tn_trace s1" "tn_proposal_id s1"]
      by (auto simp: stopped_ok_def running_traces_def rs turn_failure_trace turn_path_def)
    with ok Inl rs show ?thesis by (simp add: stopped_ok_def ended_ok_def)
  qed
qed

text \<open>C32. A turn calls the authorizer at most once, then the executor or the registrar at most once and
  never both; the executor is called only with the proposal that was authorised and the decision
  given for it, which is a valid ALLOW for that proposal and for the intent it is mapped to, with
  a permit over the mapped proposal; and a confirmation is registered only for a valid CONFIRM
  with well-formed details.\<close>

theorem turn_executes_authorised:
  "calls_in_order pf fromiso tm (tn_calls (snd (handle_message pf fromiso tm pt req rt w)))"
  using handle_message_ok by (metis prod.collapse)

text \<open>C33. Every turn ends with a result that tells what the ports did.  Once the executor has answered,
  the result names its execution: completed with the message and state version it reports if it
  reports success, failed with its error if not; the one exception is a turn whose cancellation token
  then answers that the turn is cancelled, which fails as cancelled and, although the execution may
  have succeeded, names none.  A turn without an answer of the executor names no execution: it
  awaits a confirmation only if the registration did not fail, it is blocked only for a decision that
  does not allow.  The trace is a path of the turn's states that ends in the state of the result.\<close>

theorem turn_result_truthful:
  "result_matches (told_cancelled pt (snd (handle_message pf fromiso tm pt req rt w)))
     (fst (handle_message pf fromiso tm pt req rt w)) (tn_calls (snd (handle_message pf fromiso tm pt req rt w))) \<and>
   turn_path (ts_trace (fst (handle_message pf fromiso tm pt req rt w))) \<and>
   last (ts_trace (fst (handle_message pf fromiso tm pt req rt w))) =
     ts_state (fst (handle_message pf fromiso tm pt req rt w))"
  using handle_message_ok unfolding ended_ok_def by (metis prod.collapse)

text \<open>An authorised turn gets through.\<close>

lemma raise_never: "tp_cancelled pt = Pair False \<Longrightarrow> raise_if_cancelled pt s = (Inr (), s)"
  by (simp add: raise_if_cancelled_def and_then_def outside_def give_def)

lemma resolve_turn_runs:
  assumes "request_error req = None" "tp_cancelled pt = Pair False"
    and "router_propose (user_messages req) (tn_routed s) = (Inr p, ro)"
  shows "resolve_turn pt req s = (Inr p, s\<lparr>tn_routed := ro, tn_trace := tn_trace s @ [TS_RESOLVING]\<rparr>)"
  using assms
  by (simp add: resolve_turn_def and_then_def require_def give_def raise_never trace_on_def with_router_def)

lemma propose_turn_runs:
  assumes "tp_cancelled pt = Pair False" "tp_new_id pt ''proposal'' (ro_world (tn_routed s)) = (Inr pid, w1)"
    and "map_proposal pf tm (turn_proposal pid req p) = Inr m"
  shows "propose_turn pf tm pt req p s =
    (Inr (pid, turn_proposal pid req p, m),
     s\<lparr>tn_routed := (tn_routed s)\<lparr>ro_world := w1\<rparr>, tn_proposal_id := Some pid, tn_trace := tn_trace s @ [TS_PROPOSED]\<rparr>)"
  using assms
  by (simp add: propose_turn_def draw_proposal_id_def and_then_def outside_def give_sum_def give_def raise_never
      trace_on_def)

lemma authorize_turn_runs:
  assumes "tp_cancelled pt = Pair False"
    and "tp_authorize pt ap (tp_wait pt (text_of (tq_session_id req)) (ro_world (tn_routed s))) = (Inr d, w2)"
    and "validate_guardrail_result fromiso d = None" "decision_correlation_error d pid (ca_intent (mp_action m)) = None"
  shows "authorize_turn fromiso pt req pid ap m s =
    (Inr d, s\<lparr>tn_routed := (tn_routed s)\<lparr>ro_world := w2\<rparr>, tn_trace := tn_trace s @ [TS_AUTHORIZING],
              tn_calls := tn_calls s @ [Authorized ap (Inr d)]\<rparr>)"
  using assms
  by (simp add: authorize_turn_def and_then_def outside_def give_sum_def give_def raise_never trace_on_def
      called_def require_def)

lemma allow_turn_runs:
  assumes "tp_cancelled pt = Pair False" "permit_digest_error d (mp_digest m) = None"
    and "\<not> no_provider (ro_binding (tn_routed s))"
    and "tp_execute pt ap d (ro_world (tn_routed s)) = (Inr x, w3)" "er_success x"
  shows "\<exists>s'. allow_turn pt pid ap m d s =
    (Inr ((TurnResult ST_COMPLETED TS_COMPLETED (er_message x) (tn_trace s @ [TS_EXECUTING, TS_COMPLETED]))
        \<lparr>ts_proposal_id := Some pid, ts_execution_id := Some (er_execution_id x),
         ts_state_version := er_state_version x\<rparr>), s') \<and>
    tn_calls s' = tn_calls s @ [Executed ap d (Inr x)]"
  using assms
  by (simp add: allow_turn_def and_then_def outside_def give_sum_def give_def raise_never trace_on_def
      called_def require_def bind_side_effect_def with_router_def start_side_effect_def give_result_def)

text \<open>C34. Whatever the ports are: when the model proposes an action, the authorizer answers with a decision
  that lets it run and the executor succeeds, nothing being cancelled, the turn executes exactly that
  proposal under exactly that decision and reports the execution.\<close>

theorem authorised_turn_completes:
  assumes "request_error req = None" "tp_cancelled pt = Pair False"
    and "router_propose (user_messages req) (tn_routed (turn_start rt w)) = (Inr p, ro)" "mo_kind p = ACTION"
    and "\<not> no_provider (ro_binding ro)"
    and "tp_new_id pt ''proposal'' (ro_world ro) = (Inr pid, w1)" and ap: "ap = turn_proposal pid req p"
    and "tp_authorize pt ap (tp_wait pt (text_of (tq_session_id req)) w1) = (Inr d, w2)"
    and "executable_decision pf fromiso tm ap d"
    and "tp_execute pt ap d w2 = (Inr x, w3)" "er_success x"
  shows "\<exists>r s. handle_message pf fromiso tm pt req rt w = (r, s) \<and>
    tn_calls s = [Authorized ap (Inr d), Executed ap d (Inr x)] \<and> ts_status r = ST_COMPLETED \<and>
    ts_proposal_id r = Some pid \<and> ts_execution_id r = Some (er_execution_id x) \<and>
    ts_message r = er_message x \<and> ts_state_version r = er_state_version x \<and>
    ts_trace r = [TS_RECEIVED, TS_RESOLVING, TS_PROPOSED, TS_AUTHORIZING, TS_EXECUTING, TS_COMPLETED]"
proof -
  obtain m where m: "map_proposal pf tm ap = Inr m"
    and ok: "validate_guardrail_result fromiso d = None" "get_key d ''kind'' = PStr ''decision''"
      "get_key d ''outcome'' = PStr ''ALLOW''" "decision_correlation_error d pid (ca_intent (mp_action m)) = None"
      "permit_digest_error d (mp_digest m) = None"
    using assms(9) by (auto simp: executable_decision_def decision_correlation_error_def permit_digest_error_def
        ap turn_proposal_def get_key_def split: sum.splits)
  define s1 where "s1 = (turn_start rt w)\<lparr>tn_routed := ro, tn_trace := [TS_RECEIVED, TS_RESOLVING]\<rparr>"
  define s2 where "s2 = s1\<lparr>tn_routed := ro\<lparr>ro_world := w1\<rparr>, tn_proposal_id := Some pid,
    tn_trace := [TS_RECEIVED, TS_RESOLVING, TS_PROPOSED]\<rparr>"
  define s3 where "s3 = s2\<lparr>tn_routed := ro\<lparr>ro_world := w2\<rparr>,
    tn_trace := [TS_RECEIVED, TS_RESOLVING, TS_PROPOSED, TS_AUTHORIZING], tn_calls := [Authorized ap (Inr d)]\<rparr>"
  have r1: "resolve_turn pt req (turn_start rt w) = (Inr p, s1)"
    using resolve_turn_runs [OF assms(1-3)] by (simp add: s1_def turn_start_def)
  have r2: "propose_turn pf tm pt req p s1 = (Inr (pid, ap, m), s2)"
    using propose_turn_runs [OF assms(2), of s1 pid w1 pf tm req p m] assms(6) m
    by (simp add: s1_def s2_def ap)
  have r3: "authorize_turn fromiso pt req pid ap m s2 = (Inr d, s3)"
    using authorize_turn_runs [OF assms(2), of ap req s2 d w2 fromiso pid m] assms(8) ok(1,4)
    by (simp add: s1_def s2_def s3_def turn_start_def)
  obtain s4 where r4: "allow_turn pt pid ap m d s3 =
      (Inr ((TurnResult ST_COMPLETED TS_COMPLETED (er_message x) (tn_trace s3 @ [TS_EXECUTING, TS_COMPLETED]))
        \<lparr>ts_proposal_id := Some pid, ts_execution_id := Some (er_execution_id x),
         ts_state_version := er_state_version x\<rparr>), s4)"
    and s4: "tn_calls s4 = tn_calls s3 @ [Executed ap d (Inr x)]"
    using allow_turn_runs [OF assms(2) ok(5), of s3 ap x w3 pid] assms(5,10,11) by (auto simp: s3_def)
  have "decided_turn fromiso pt req pid ap m d s3 = allow_turn pt pid ap m d s3"
    using ok by (simp add: decided_turn_def)
  with r1 r2 r3 r4 assms(4) s4 show ?thesis
    by (simp add: handle_message_def turn_body_def and_then_def TurnResult_def s3_def)
qed

text \<open>A turn that opens the trunk.\<close>

definition turn_demo_decision :: payload where
  "turn_demo_decision =
    (let bound = [(''intent'', PStr ''open_trunk''), (''rule_id'', PStr ''R001''), (''state_version'', PInt 3),
                  (''policy_checksum'', PStr (''sha256:'' @ replicate 64 CHR ''0''))] in
     [(''contract_version'', PStr AGENT_CONTRACT_VERSION), (''kind'', PStr ''decision''), (''request_id'', PStr ''r-1''),
      (''proposal_id'', PStr ''p-1''), (''outcome'', PStr ''ALLOW''), (''reason_code'', PStr ''OK''),
      (''relevant_state'', PDict []),
      (''permit'', PDict (bound @ [(''permit_id'', PStr ''permit-1''),
        (''proposal_digest'', PStr (''sha256:'' @ replicate 64 CHR ''0'')), (''issued_at'', PStr ''a''),
        (''expires_at'', PStr ''b''), (''single_use'', PBool True)]))] @ bound)"

definition turn_demo_iso :: iso_reader where
  "turn_demo_iso s = (if s = ''a'' then Some \<lparr>dt_instant = 0, dt_offset = Some 0\<rparr>
     else if s = ''b'' then Some \<lparr>dt_instant = 5, dt_offset = Some 0\<rparr> else None)"

definition turn_demo_request :: turn_request where
  "turn_demo_request =
     \<lparr>tq_session_id = PStr ''s-1'', tq_turn_id = PStr ''t-1'', tq_request_id = PStr ''r-1'',
      tq_message = PStr ''open the trunk'', tq_messages = []\<rparr>"

definition turn_demo_router :: "(unit, string, unit) model_router" where
  "turn_demo_router = demo_router
     \<lparr>rt_propose := (\<lambda>n msgs w. (Inr (action_proposal ''control_access'' mapper_demo_arguments (demo_metadata n)), w))\<rparr>"

definition turn_demo_execution :: execution_result where
  "turn_demo_execution =
     \<lparr>er_success = True, er_execution_id = ''exec-1'', er_message = ''opened'', er_state_version = PInt 4,
      er_facts = [], er_error = None\<rparr>"

definition turn_demo_ports :: "unit turn_ports" where
  "turn_demo_ports =
     \<lparr>tp_cancelled = Pair False, tp_new_id = (\<lambda>prefix w. (Inr ''p-1'', w)), tp_wait = (\<lambda>session w. w),
      tp_authorize = (\<lambda>ap w. (Inr turn_demo_decision, w)),
      tp_execute = (\<lambda>ap d w. (Inr turn_demo_execution, w)), tp_register = None\<rparr>"

lemma turn_demo_facts:
  "request_error turn_demo_request = None"
  "turn_proposal ''p-1'' turn_demo_request (action_proposal ''control_access'' mapper_demo_arguments (demo_metadata ''openai'')) =
     mapper_demo_proposal"
  "validate_guardrail_result turn_demo_iso turn_demo_decision = None"
  by code_simp+

lemma turn_demo_resolved:
  "fst (router_propose (user_messages turn_demo_request) (tn_routed (turn_start turn_demo_router ()))) =
     Inr (action_proposal ''control_access'' mapper_demo_arguments (demo_metadata ''openai''))"
  "no_provider (ro_binding (snd (router_propose (user_messages turn_demo_request) (tn_routed (turn_start turn_demo_router ()))))) = False"
  by code_simp+

lemma turn_demo_mapped:
  "\<exists>m. map_proposal mapper_demo_pf AGENT_MAPPER mapper_demo_proposal = Inr m \<and>
     ca_intent (mp_action m) = ''open_trunk'' \<and> mp_digest m = ''sha256:'' @ replicate 64 CHR ''0''"
proof -
  let ?r = "M ''control_access'' ''open'' ''trunk'' ''open_trunk'' None"
  obtain r def where m: "map_proposal mapper_demo_pf AGENT_MAPPER mapper_demo_proposal =
      Inr (mapped mapper_demo_call r def (''sha256:'' @ replicate 64 CHR ''0''))"
    using valid_call_maps [OF mapper_demo_facts(1-3) _ mapper_demo_facts(5), of mapper_demo_call] mapper_demo_call_valid
    by (auto simp: mapper_demo_facts(4))
  obtain c r' where c: "validate_call (tm_registry AGENT_MAPPER) (text_of (get_key mapper_demo_proposal ''tool''))
      (get_key mapper_demo_proposal ''arguments'') = Inr (ValidCall c)"
    and r': "find_rule (tm_rules AGENT_MAPPER) (call_key (vc_tool_name c) (vc_arguments c)) = Some r'"
    and intent: "ca_intent (mp_action (mapped mapper_demo_call r def (''sha256:'' @ replicate 64 CHR ''0''))) = mr_intent r'"
    using map_proposal_InrE [OF m] by metis
  have "c = mapper_demo_call"
    using c mapper_demo_call_valid by (simp add: mapper_demo_facts(2,4) AGENT_MAPPER_def)
  then have key: "call_key (vc_tool_name c) (vc_arguments c) = (''control_access'', ''open'', ''trunk'', None)"
    by (simp add: mapper_demo_call_def call_key_def)
  have "?r \<in> set AGENT_MAPPING_RULES" by (simp add: AGENT_MAPPING_RULES_def BASE_MAPPING_RULES_def)
  then have "map_of (tm_rules AGENT_MAPPER) (''control_access'', ''open'', ''trunk'', None) = Some ?r"
    unfolding agent_rule_lookup by (simp add: mr_key_def M_def)
  with r' [unfolded key] have "r' = ?r" by (simp add: find_rule_def)
  with m intent show ?thesis by (simp add: M_def) (simp add: mapped_def)
qed

lemma authorised_turn_completes_witness:
  "\<exists>r s. handle_message mapper_demo_pf turn_demo_iso AGENT_MAPPER turn_demo_ports turn_demo_request turn_demo_router () = (r, s) \<and>
    tn_calls s = [Authorized mapper_demo_proposal (Inr turn_demo_decision),
      Executed mapper_demo_proposal turn_demo_decision (Inr turn_demo_execution)] \<and>
    ts_execution_id r = Some ''exec-1''"
proof -
  let ?p = "action_proposal ''control_access'' mapper_demo_arguments (demo_metadata ''openai'')"
  obtain ro where ro: "router_propose (user_messages turn_demo_request) (tn_routed (turn_start turn_demo_router ())) = (Inr ?p, ro)"
    "\<not> no_provider (ro_binding ro)"
    using turn_demo_resolved
    by (cases "router_propose (user_messages turn_demo_request) (tn_routed (turn_start turn_demo_router ()))") auto
  have "executable_decision mapper_demo_pf turn_demo_iso AGENT_MAPPER mapper_demo_proposal turn_demo_decision"
    using turn_demo_mapped turn_demo_facts(3)
    by (auto simp: executable_decision_def turn_demo_decision_def mapper_demo_proposal_def get_key_def Let_def)
  moreover have "mo_kind ?p = ACTION" by (simp add: action_proposal_def)
  moreover have "tp_cancelled turn_demo_ports = Pair False" "tp_new_id turn_demo_ports ''proposal'' (ro_world ro) = (Inr ''p-1'', ())"
    "tp_authorize turn_demo_ports ap w = (Inr turn_demo_decision, ())"
    "tp_execute turn_demo_ports ap turn_demo_decision w = (Inr turn_demo_execution, ())"
    "er_success turn_demo_execution" "er_execution_id turn_demo_execution = ''exec-1''" for ap w
    by (simp_all add: turn_demo_ports_def turn_demo_execution_def)
  ultimately show ?thesis
    using authorised_turn_completes [OF turn_demo_facts(1) _ ro(1) _ ro(2), of turn_demo_ports "''p-1''" "()" mapper_demo_proposal
        turn_demo_decision "()" mapper_demo_pf turn_demo_iso AGENT_MAPPER turn_demo_execution "()"] turn_demo_facts(2)
    by auto
qed

end
