(* ===== verification/SessionLocks.thy ===== *)
theory SessionLocks
  imports Prelude
begin

text \<open>
  The lock table of \<open>orchestrator/orchestrator.py\<close> and \<open>orchestrator/approved.py\<close>
  (\<open>_state_change_lock\<close>, the same code in both): a lock per session, made when its first turn
  arrives and dropped when its last turn leaves.  A lock is an object, here its number in the
  order of creation; the two sections under \<open>_session_locks_guard\<close> are single steps, and between
  them a turn waits for the lock, holds it and releases it.
\<close>

section \<open>The table\<close>

type_synonym lock_table = "(string \<times> nat \<times> nat) list"

text \<open>The section before \<open>lock.acquire()\<close>: the lock of the session, a fresh one if it has none,
  with one user more.\<close>

definition enter_session :: "string \<Rightarrow> nat \<Rightarrow> lock_table \<Rightarrow> nat \<times> lock_table" where
  "enter_session session fresh tb =
     (let (lock, users) = (case map_of tb session of Some entry \<Rightarrow> entry | None \<Rightarrow> (fresh, 0))
      in (lock, AList.update session (lock, users + 1) tb))"

text \<open>The section after \<open>lock.release()\<close>; \<open>None\<close> is its \<open>KeyError\<close>.\<close>

definition leave_session :: "string \<Rightarrow> lock_table \<Rightarrow> lock_table option" where
  "leave_session session tb =
     (case map_of tb session of
        None \<Rightarrow> None
      | Some (lock, users) \<Rightarrow>
          Some (if users = 1 then AList.delete session tb else AList.update session (lock, users - 1) tb))"

section \<open>Turns\<close>

datatype turn_phase = Waits | Holds | Released

record turn_thread =
  tt_session :: string
  tt_lock :: nat
  tt_phase :: turn_phase

record lock_system =
  ls_table :: lock_table
  ls_created :: nat
  ls_threads :: "(nat \<times> turn_thread) list"

definition no_turns :: lock_system where
  "no_turns = \<lparr>ls_table = [], ls_created = 0, ls_threads = []\<rparr>"

definition lock_held :: "nat \<Rightarrow> lock_system \<Rightarrow> bool" where
  "lock_held lock s \<longleftrightarrow> list_ex (\<lambda>(t, x). tt_lock x = lock \<and> tt_phase x = Holds) (ls_threads s)"

definition arrive :: "nat \<Rightarrow> string \<Rightarrow> lock_system \<Rightarrow> lock_system" where
  "arrive t session s =
     (let (lock, tb) = enter_session session (ls_created s) (ls_table s) in
      \<lparr>ls_table = tb,
       ls_created = (if map_of (ls_table s) session = None then ls_created s + 1 else ls_created s),
       ls_threads = AList.update t \<lparr>tt_session = session, tt_lock = lock, tt_phase = Waits\<rparr> (ls_threads s)\<rparr>)"

definition to_phase :: "nat \<Rightarrow> turn_thread \<Rightarrow> turn_phase \<Rightarrow> lock_system \<Rightarrow> lock_system" where
  "to_phase t x ph s = s\<lparr>ls_threads := AList.update t (x\<lparr>tt_phase := ph\<rparr>) (ls_threads s)\<rparr>"

inductive lock_step :: "lock_system \<Rightarrow> lock_system \<Rightarrow> bool" where
  arrives: "map_of (ls_threads s) t = None \<Longrightarrow> lock_step s (arrive t session s)"
| acquires: "map_of (ls_threads s) t = Some x \<Longrightarrow> tt_phase x = Waits \<Longrightarrow> \<not> lock_held (tt_lock x) s \<Longrightarrow>
    lock_step s (to_phase t x Holds s)"
| releases: "map_of (ls_threads s) t = Some x \<Longrightarrow> tt_phase x = Holds \<Longrightarrow> lock_step s (to_phase t x Released s)"
| leaves: "map_of (ls_threads s) t = Some x \<Longrightarrow> tt_phase x = Released \<Longrightarrow>
    leave_session (tt_session x) (ls_table s) = Some tb \<Longrightarrow>
    lock_step s (s\<lparr>ls_table := tb, ls_threads := AList.delete t (ls_threads s)\<rparr>)"

section \<open>Counting the turns of a session\<close>

definition present :: "string \<Rightarrow> (nat \<times> turn_thread) list \<Rightarrow> nat" where
  "present session xs = length (filter (\<lambda>(t, x). tt_session x = session) xs)"

lemma present_new:
  "map_of xs t = None \<Longrightarrow> present k (AList.update t x xs) = present k xs + (if tt_session x = k then 1 else 0)"
  by (induction xs) (auto simp: present_def)

lemma present_same:
  "map_of xs t = Some x \<Longrightarrow> tt_session y = tt_session x \<Longrightarrow> present k (AList.update t y xs) = present k xs"
  by (induction xs) (auto simp: present_def split: if_splits)

lemma delete_absent: "t \<notin> fst ` set xs \<Longrightarrow> AList.delete t xs = xs"
  by (induction xs) auto

lemma present_gone:
  "distinct (map fst xs) \<Longrightarrow> map_of xs t = Some x \<Longrightarrow>
   present k xs = present k (AList.delete t xs) + (if tt_session x = k then 1 else 0)"
  by (induction xs) (auto simp: present_def delete_absent split: if_splits)

lemma present_0: "present k xs = 0 \<longleftrightarrow> k \<notin> tt_session ` snd ` set xs"
  by (force simp: present_def filter_empty_conv)

lemma present_1: "distinct (map fst xs) \<Longrightarrow> map_of xs t = Some x \<Longrightarrow> 0 < present (tt_session x) xs"
  using present_gone [of xs t x "tt_session x"] by simp

section \<open>Invariant\<close>

text \<open>Over the table, the turns and the number of turns of each session, as functions.\<close>

definition users_counted :: "(string \<Rightarrow> (nat \<times> nat) option) \<Rightarrow> (string \<Rightarrow> nat) \<Rightarrow> nat \<Rightarrow> bool" where
  "users_counted tb count created \<longleftrightarrow>
     (\<forall>k. case tb k of None \<Rightarrow> count k = 0
                     | Some (lock, users) \<Rightarrow> users = count k \<and> 0 < users \<and> lock < created)"

definition own_locks :: "(string \<Rightarrow> (nat \<times> nat) option) \<Rightarrow> bool" where
  "own_locks tb \<longleftrightarrow> (\<forall>k1 k2 lock u1 u2. tb k1 = Some (lock, u1) \<and> tb k2 = Some (lock, u2) \<longrightarrow> k1 = k2)"

definition turns_recorded :: "(string \<Rightarrow> (nat \<times> nat) option) \<Rightarrow> (nat \<Rightarrow> turn_thread option) \<Rightarrow> bool" where
  "turns_recorded tb th \<longleftrightarrow> (\<forall>t x. th t = Some x \<longrightarrow> (\<exists>u. tb (tt_session x) = Some (tt_lock x, u)))"

definition exclusive :: "(nat \<Rightarrow> turn_thread option) \<Rightarrow> bool" where
  "exclusive th \<longleftrightarrow>
     (\<forall>t1 t2 x1 x2. th t1 = Some x1 \<and> th t2 = Some x2 \<and> tt_phase x1 = Holds \<and> tt_phase x2 = Holds \<and>
        tt_lock x1 = tt_lock x2 \<longrightarrow> t1 = t2)"

definition locks_ok :: "lock_system \<Rightarrow> bool" where
  "locks_ok s \<longleftrightarrow>
     distinct (map fst (ls_threads s)) \<and> distinct (map fst (ls_table s)) \<and>
     users_counted (map_of (ls_table s)) (\<lambda>k. present k (ls_threads s)) (ls_created s) \<and>
     own_locks (map_of (ls_table s)) \<and>
     turns_recorded (map_of (ls_table s)) (map_of (ls_threads s)) \<and>
     exclusive (map_of (ls_threads s))"

lemma lock_held_iff:
  "distinct (map fst (ls_threads s)) \<Longrightarrow>
   lock_held lock s \<longleftrightarrow> (\<exists>t x. map_of (ls_threads s) t = Some x \<and> tt_lock x = lock \<and> tt_phase x = Holds)"
  by (force simp: lock_held_def list_ex_iff)

lemma locks_ok_init: "locks_ok no_turns"
  by (simp add: locks_ok_def no_turns_def present_def users_counted_def own_locks_def turns_recorded_def exclusive_def)

lemma users_counted_at:
  "users_counted tb count created \<Longrightarrow> tb k = Some (lock, users) \<Longrightarrow> users = count k \<and> 0 < users \<and> lock < created"
  by (auto simp: users_counted_def dest: spec [of _ k])

lemma users_counted_none: "users_counted tb count created \<Longrightarrow> tb k = None \<Longrightarrow> count k = 0"
  by (auto simp: users_counted_def dest: spec [of _ k])

lemma arrive_ok:
  assumes ok: "locks_ok s" and new: "map_of (ls_threads s) t = None"
  shows "locks_ok (arrive t session s)"
proof -
  let ?tb = "map_of (ls_table s)" and ?th = "map_of (ls_threads s)"
  let ?count = "\<lambda>k. present k (ls_threads s)"
  define lock users where "lock = (case ?tb session of Some e \<Rightarrow> fst e | None \<Rightarrow> ls_created s)"
    and "users = (case ?tb session of Some e \<Rightarrow> snd e | None \<Rightarrow> 0)"
  define created where "created = (if ?tb session = None then ls_created s + 1 else ls_created s)"
  have s': "arrive t session s =
    \<lparr>ls_table = AList.update session (lock, users + 1) (ls_table s), ls_created = created,
     ls_threads = AList.update t \<lparr>tt_session = session, tt_lock = lock, tt_phase = Waits\<rparr> (ls_threads s)\<rparr>"
    by (simp add: arrive_def enter_session_def lock_def users_def created_def split: option.split prod.split)
  have counted: "users_counted ?tb ?count (ls_created s)" and own: "own_locks ?tb"
    and recorded: "turns_recorded ?tb ?th" and ex: "exclusive ?th"
    using ok by (simp_all add: locks_ok_def)
  have users: "users = ?count session"
    using users_counted_at [OF counted] users_counted_none [OF counted]
    by (auto simp: users_def split: option.split)
  have below: "lock < created" "\<And>k l u. ?tb k = Some (l, u) \<Longrightarrow> l < created"
    using users_counted_at [OF counted] by (force simp: lock_def created_def split: option.split)+
  have "users_counted (?tb(session \<mapsto> (lock, users + 1)))
      (\<lambda>k. ?count k + (if session = k then 1 else 0)) created"
    using users_counted_at [OF counted] users_counted_none [OF counted] users below
    by (auto simp: users_counted_def split: option.split)
  moreover have "own_locks (?tb(session \<mapsto> (lock, users + 1)))"
    using own users_counted_at [OF counted]
    by (auto simp: own_locks_def lock_def split: option.splits) (blast | fastforce)+
  moreover have "turns_recorded (?tb(session \<mapsto> (lock, users + 1)))
      (?th(t \<mapsto> \<lparr>tt_session = session, tt_lock = lock, tt_phase = Waits\<rparr>))"
  proof (unfold turns_recorded_def, intro allI impI)
    fix t1 x1 assume x1: "(?th(t \<mapsto> \<lparr>tt_session = session, tt_lock = lock, tt_phase = Waits\<rparr>)) t1 = Some x1"
    show "\<exists>u. (?tb(session \<mapsto> (lock, users + 1))) (tt_session x1) = Some (tt_lock x1, u)"
    proof (cases "t1 = t")
      case False
      with x1 recorded obtain u where "?tb (tt_session x1) = Some (tt_lock x1, u)"
        unfolding turns_recorded_def by (metis fun_upd_other)
      then show ?thesis by (auto simp: lock_def)
    qed (use x1 in auto)
  qed
  moreover have "exclusive (?th(t \<mapsto> \<lparr>tt_session = session, tt_lock = lock, tt_phase = Waits\<rparr>))"
    using ex by (auto simp: exclusive_def)
  ultimately show ?thesis
    using ok new by (simp add: locks_ok_def s' update_conv' present_new distinct_update del: map_of_eq_Some_iff)
qed

lemma phase_ok:
  assumes ok: "locks_ok s" and x: "map_of (ls_threads s) t = Some x"
    and free: "ph = Holds \<Longrightarrow> \<not> lock_held (tt_lock x) s"
  shows "locks_ok (to_phase t x ph s)"
proof -
  let ?tb = "map_of (ls_table s)" and ?th = "map_of (ls_threads s)"
  have dist: "distinct (map fst (ls_threads s))" and recorded: "turns_recorded ?tb ?th" and ex: "exclusive ?th"
    using ok by (simp_all add: locks_ok_def)
  have others: "tt_phase x' \<noteq> Holds" if "ph = Holds" "?th t' = Some x'" "tt_lock x' = tt_lock x" for t' x'
    using free [OF that(1)] that(2,3) lock_held_iff [OF dist] by blast
  have "turns_recorded ?tb (?th(t \<mapsto> x\<lparr>tt_phase := ph\<rparr>))"
    using recorded x unfolding turns_recorded_def by simp
  moreover have "exclusive (?th(t \<mapsto> x\<lparr>tt_phase := ph\<rparr>))"
  proof (unfold exclusive_def, intro allI impI, elim conjE)
    fix t1 t2 x1 x2
    assume "(?th(t \<mapsto> x\<lparr>tt_phase := ph\<rparr>)) t1 = Some x1" "(?th(t \<mapsto> x\<lparr>tt_phase := ph\<rparr>)) t2 = Some x2"
      "tt_phase x1 = Holds" "tt_phase x2 = Holds" "tt_lock x1 = tt_lock x2"
    then consider "t1 = t2" | "t1 = t" "t2 \<noteq> t" "ph = Holds" "?th t2 = Some x2" "tt_lock x2 = tt_lock x" "tt_phase x2 = Holds"
      | "t1 \<noteq> t" "t2 = t" "ph = Holds" "?th t1 = Some x1" "tt_lock x1 = tt_lock x" "tt_phase x1 = Holds"
      | "?th t1 = Some x1" "?th t2 = Some x2" "tt_phase x1 = Holds" "tt_phase x2 = Holds" "tt_lock x1 = tt_lock x2"
      by (cases "t1 = t"; cases "t2 = t") (simp_all split: if_splits, force+)
    then show "t1 = t2"
      by cases (use others ex in \<open>unfold exclusive_def, blast+\<close>)
  qed
  ultimately show ?thesis
    using ok x by (simp add: locks_ok_def to_phase_def update_conv' present_same distinct_update del: map_of_eq_Some_iff)
qed

lemma leave_ok:
  assumes ok: "locks_ok s" and x: "map_of (ls_threads s) t = Some x" and ph: "tt_phase x \<noteq> Holds"
    and tb: "leave_session (tt_session x) (ls_table s) = Some tb"
  shows "locks_ok (s\<lparr>ls_table := tb, ls_threads := AList.delete t (ls_threads s)\<rparr>)"
proof -
  let ?tb = "map_of (ls_table s)" and ?th = "map_of (ls_threads s)" and ?k = "tt_session x"
  let ?count = "\<lambda>k. present k (AList.delete t (ls_threads s))"
  have dist: "distinct (map fst (ls_threads s))" "distinct (map fst (ls_table s))"
    and counted: "users_counted ?tb (\<lambda>k. present k (ls_threads s)) (ls_created s)"
    and own: "own_locks ?tb" and recorded: "turns_recorded ?tb ?th" and ex: "exclusive ?th"
    using ok by (simp_all add: locks_ok_def)
  obtain users where entry: "?tb ?k = Some (tt_lock x, users)"
    using recorded x unfolding turns_recorded_def by blast
  note gone = present_gone [OF dist(1) x]
  have users: "users = ?count ?k + 1" "tt_lock x < ls_created s"
    using users_counted_at [OF counted entry] by (simp_all add: gone)
  have tb': "map_of tb = (if users = 1 then ?tb(?k := None) else ?tb(?k \<mapsto> (tt_lock x, users - 1)))"
    using tb entry by (auto simp: leave_session_def update_conv' delete_conv)
  have "users_counted (map_of tb) ?count (ls_created s)"
  proof (unfold users_counted_def, intro allI)
    fix k
    show "case map_of tb k of None \<Rightarrow> ?count k = 0
          | Some (lock, users) \<Rightarrow> users = ?count k \<and> 0 < users \<and> lock < ls_created s"
    proof (cases "k = ?k")
      case True
      with users show ?thesis by (simp add: tb')
    next
      case False
      then have "map_of tb k = ?tb k" "present k (ls_threads s) = ?count k" by (simp_all add: tb' gone)
      with counted show ?thesis unfolding users_counted_def by metis
    qed
  qed
  moreover have "own_locks (map_of tb)"
    using own entry by (auto simp: own_locks_def tb')
  moreover have "turns_recorded (map_of tb) (?th(t := None))"
  proof (unfold turns_recorded_def, intro allI impI)
    fix t1 x1 assume "(?th(t := None)) t1 = Some x1"
    then have x1: "?th t1 = Some x1" and t1: "t1 \<noteq> t" by (auto split: if_splits)
    then obtain u where "?tb (tt_session x1) = Some (tt_lock x1, u)"
      using recorded unfolding turns_recorded_def by blast
    moreover have "0 < ?count (tt_session x1)"
      using present_1 [of "AList.delete t (ls_threads s)" t1 x1] dist(1) x1 t1
      by (simp add: distinct_delete delete_conv del: map_of_eq_Some_iff)
    ultimately show "\<exists>u. map_of tb (tt_session x1) = Some (tt_lock x1, u)"
      using entry users by (auto simp: tb')
  qed
  moreover have "exclusive (?th(t := None))" using ex by (auto simp: exclusive_def)
  moreover have "distinct (map fst tb)"
    using tb entry dist(2) by (auto simp: leave_session_def distinct_update distinct_delete)
  ultimately show ?thesis
    using dist by (simp add: locks_ok_def delete_conv' distinct_delete del: map_of_eq_Some_iff)
qed

lemma lock_step_ok: "lock_step s s' \<Longrightarrow> locks_ok s \<Longrightarrow> locks_ok s'"
  by (induction rule: lock_step.induct) (auto intro: arrive_ok phase_ok leave_ok)

lemma lock_run_ok: "lock_step\<^sup>*\<^sup>* no_turns s \<Longrightarrow> locks_ok s"
  by (induction rule: rtranclp_induct) (auto intro: locks_ok_init lock_step_ok)

text \<open>The last section finds the session, and a turn waits only for a turn of its own session.\<close>

lemma leave_finds:
  "locks_ok s \<Longrightarrow> map_of (ls_threads s) t = Some x \<Longrightarrow> leave_session (tt_session x) (ls_table s) \<noteq> None"
  unfolding locks_ok_def turns_recorded_def leave_session_def by fastforce

lemma locks_own_session:
  assumes "locks_ok s" "map_of (ls_threads s) t1 = Some x1" "map_of (ls_threads s) t2 = Some x2"
  shows "tt_lock x1 = tt_lock x2 \<longleftrightarrow> tt_session x1 = tt_session x2"
  using assms unfolding locks_ok_def turns_recorded_def own_locks_def by (metis option.inject prod.inject)

lemma holders_unique:
  assumes "locks_ok s" "map_of (ls_threads s) t1 = Some x1" "map_of (ls_threads s) t2 = Some x2"
    and "tt_phase x1 = Holds" "tt_phase x2 = Holds" "tt_session x1 = tt_session x2"
  shows "t1 = t2"
  using assms locks_own_session [OF assms(1-3)] unfolding locks_ok_def exclusive_def by blast

lemma retained_sessions:
  assumes "locks_ok s"
  shows "fst ` set (ls_table s) = tt_session ` snd ` set (ls_threads s)"
proof -
  have "map_of (ls_table s) k \<noteq> None \<longleftrightarrow> present k (ls_threads s) \<noteq> 0" for k
    using assms users_counted_at [of "map_of (ls_table s)" _ _ k] users_counted_none [of "map_of (ls_table s)" _ _ k]
    unfolding locks_ok_def by (cases "map_of (ls_table s) k") auto
  then have "k \<in> fst ` set (ls_table s) \<longleftrightarrow> k \<in> tt_session ` snd ` set (ls_threads s)" for k
    unfolding present_0 map_of_eq_None_iff by blast
  then show ?thesis by blast
qed

lemma waiter_blocked_by_session:
  assumes "locks_ok s" "map_of (ls_threads s) t = Some x" "lock_held (tt_lock x) s"
  shows "\<exists>t2 x2. map_of (ls_threads s) t2 = Some x2 \<and> tt_phase x2 = Holds \<and> tt_session x2 = tt_session x"
proof -
  have "distinct (map fst (ls_threads s))" using assms(1) by (simp add: locks_ok_def)
  then obtain t2 x2 where "map_of (ls_threads s) t2 = Some x2" "tt_lock x2 = tt_lock x" "tt_phase x2 = Holds"
    using assms(3) lock_held_iff by blast
  then show ?thesis using locks_own_session [OF assms(1) _ assms(2)] by blast
qed

text \<open>The last turn of a session leaves nothing behind.\<close>

lemma idle_table:
  assumes "locks_ok s" "ls_threads s = []"
  shows "ls_table s = []"
  using retained_sessions [OF assms(1)] assms(2) by simp

text \<open>C31. The turns of one session exclude each other, however they come and go: of two turns that
  hold their locks neither is of the other's session, a turn that cannot take its lock waits for
  a turn of its own session, the code after a turn's release always finds its entry, and the table
  holds exactly the sessions that have a turn, so none when there is no turn.\<close>

theorem session_turns_exclude:
  assumes "lock_step\<^sup>*\<^sup>* no_turns s"
  shows "(map_of (ls_threads s) t1 = Some x1 \<and> tt_phase x1 = Holds \<and>
      map_of (ls_threads s) t2 = Some x2 \<and> tt_phase x2 = Holds \<and> t1 \<noteq> t2 \<longrightarrow> tt_session x1 \<noteq> tt_session x2) \<and>
    (map_of (ls_threads s) t2 = Some x2 \<and> lock_held (tt_lock x2) s \<longrightarrow>
       (\<exists>t x. map_of (ls_threads s) t = Some x \<and> tt_phase x = Holds \<and> tt_session x = tt_session x2)) \<and>
    (map_of (ls_threads s) t2 = Some x2 \<longrightarrow> leave_session (tt_session x2) (ls_table s) \<noteq> None) \<and>
    fst ` set (ls_table s) = tt_session ` snd ` set (ls_threads s)"
proof -
  have ok: "locks_ok s" using assms by (rule lock_run_ok)
  from holders_unique [OF ok] waiter_blocked_by_session [OF ok] leave_finds [OF ok] retained_sessions [OF ok]
  show ?thesis by blast
qed

text \<open>A turn holds its session's lock, a second one of the session waits, a third one of another
  session holds its own.\<close>

definition lock_demo :: lock_system where
  "lock_demo =
     (let s1 = arrive 2 ''s'' (arrive 1 ''s'' no_turns);
          s2 = to_phase 1 (the (map_of (ls_threads s1) 1)) Holds s1; s3 = arrive 3 ''t'' s2
      in to_phase 3 (the (map_of (ls_threads s3) 3)) Holds s3)"

lemma lock_demo_value:
  "lock_demo =
     \<lparr>ls_table = [(''s'', 0, 2), (''t'', 1, 1)], ls_created = 2,
      ls_threads = [(1, \<lparr>tt_session = ''s'', tt_lock = 0, tt_phase = Holds\<rparr>),
                    (2, \<lparr>tt_session = ''s'', tt_lock = 0, tt_phase = Waits\<rparr>),
                    (3, \<lparr>tt_session = ''t'', tt_lock = 1, tt_phase = Holds\<rparr>)]\<rparr>"
  by code_simp

lemma lock_demo_reached: "lock_step\<^sup>*\<^sup>* no_turns lock_demo"
proof -
  define s1 where "s1 = arrive 2 ''s'' (arrive 1 ''s'' no_turns)"
  define s2 where "s2 = to_phase 1 (the (map_of (ls_threads s1) 1)) Holds s1"
  define s3 where "s3 = arrive 3 ''t'' s2"
  have "lock_step no_turns (arrive 1 ''s'' no_turns)" by (rule arrives) (simp add: no_turns_def)
  moreover have "lock_step (arrive 1 ''s'' no_turns) s1"
    unfolding s1_def by (rule arrives) code_simp
  moreover have "lock_step s1 s2"
    unfolding s2_def by (rule acquires) (unfold s1_def, code_simp, code_simp, code_simp)
  moreover have "lock_step s2 s3"
    unfolding s3_def by (rule arrives) (unfold s2_def s1_def, code_simp)
  moreover have "lock_step s3 (to_phase 3 (the (map_of (ls_threads s3) 3)) Holds s3)"
    by (rule acquires) (unfold s3_def s2_def s1_def, code_simp, code_simp, code_simp)
  ultimately show ?thesis
    unfolding lock_demo_def Let_def s1_def [symmetric] s2_def [symmetric] s3_def [symmetric]
    by (meson r_into_rtranclp rtranclp.rtrancl_into_rtrancl)
qed

lemma session_turns_exclude_witness:
  "''s'' \<noteq> (''t'' :: string) \<and> leave_session ''t'' (ls_table lock_demo) \<noteq> None \<and>
   fst ` set (ls_table lock_demo) = tt_session ` snd ` set (ls_threads lock_demo)"
proof -
  define x1 x3 :: turn_thread where "x1 = \<lparr>tt_session = ''s'', tt_lock = 0, tt_phase = Holds\<rparr>"
    and "x3 = \<lparr>tt_session = ''t'', tt_lock = 1, tt_phase = Holds\<rparr>"
  then have "map_of (ls_threads lock_demo) 1 = Some x1" "map_of (ls_threads lock_demo) 3 = Some x3"
    "tt_phase x1 = Holds" "tt_phase x3 = Holds" "tt_session x1 = ''s''" "tt_session x3 = ''t''"
    by (simp_all add: lock_demo_value)
  with session_turns_exclude [OF lock_demo_reached, of 1 x1 3 x3] show ?thesis by auto
qed

end
