(* ===== verification/EventContract.thy ===== *)
theory EventContract
  imports Contract
begin

text \<open>
  \<open>contracts/agent_ui/v1/contract.py\<close> and \<open>events/redaction.py\<close>: what the agent may show to the
  user interface.  A payload is checked against closed field sets and must not have a private field;
  the events of a session form a stream whose state decides the next event, so that an execution
  follows an ALLOW for its proposal.  A check gives the error's code (an \<open>AgentUIContractError\<close>) or
  another exception; the lengths of texts are counted in bytes of their UTF-8 form.
\<close>

section \<open>Field sets\<close>

definition UI_CONTRACT_VERSION :: string where
  "UI_CONTRACT_VERSION = ''1.1.0''"

definition SUPPORTED_CONTRACT_VERSIONS :: "string list" where
  "SUPPORTED_CONTRACT_VERSIONS = [''1.0.0'', UI_CONTRACT_VERSION]"

definition MAX_RESPONSE_CHUNKS :: int where "MAX_RESPONSE_CHUNKS = 512"

definition MAX_CHUNK_CHARS :: int where "MAX_CHUNK_CHARS = 4096"

definition REQUEST_TYPES :: "string list" where
  "REQUEST_TYPES = [''message'', ''confirm'', ''cancel'', ''simulation_control'', ''reset'']"

definition RESPONSE_STATUSES :: "string list" where
  "RESPONSE_STATUSES = [''completed'', ''blocked'', ''needs_confirmation'', ''failed'', ''degraded'']"

definition UI_EVENT_TYPES :: "string list" where
  "UI_EVENT_TYPES = [''proposal'', ''decision'', ''execution'', ''state_changed'', ''active_action'',
     ''turn_progress'', ''response_chunk'']"

definition PRIVATE_MARKERS :: "string list" where
  "PRIVATE_MARKERS = [''authorization'', ''apikey'', ''xapikey'', ''accesstoken'', ''refreshtoken'', ''secret'',
     ''clientsecret'', ''password'', ''systemprompt'', ''developerprompt'', ''hiddenreasoning'',
     ''chainofthought'', ''providerthought'', ''permit'', ''permitid'']"

definition UI_COMMON :: "string list" where
  "UI_COMMON = [''contract_version'', ''kind'', ''session_id'', ''request_id'', ''occurred_at'']"

definition RESPONSE_BASE :: "string list" where
  "RESPONSE_BASE = UI_COMMON @ [''status'', ''turn_id'', ''message'']"

definition EVENT_BASE :: "string list" where
  "EVENT_BASE = UI_COMMON @ [''event_id'', ''sequence'', ''turn_id'', ''actor'']"

definition REQUEST_FIELDS :: "string list dict" where
  "REQUEST_FIELDS =
     [(''message'', UI_COMMON @ [''turn_id'', ''message'']),
      (''confirm'', UI_COMMON @ [''turn_id'', ''proposal_id'', ''confirmation_id'']),
      (''cancel'', UI_COMMON @ [''turn_id'', ''proposal_id'', ''confirmation_id'']),
      (''simulation_control'', UI_COMMON @ [''control'', ''parameters'']),
      (''reset'', UI_COMMON @ [''scope''])]"

definition RESPONSE_FIELDS :: "string list dict" where
  "RESPONSE_FIELDS =
     [(''completed'', RESPONSE_BASE @ [''proposal_id'', ''execution_id'', ''state_version'']),
      (''blocked'', RESPONSE_BASE @ [''reason'', ''proposal_id'', ''rule_id'', ''state_version'']),
      (''needs_confirmation'', RESPONSE_BASE @ [''proposal_id'', ''confirmation_id'', ''expires_at'']),
      (''failed'', RESPONSE_BASE @ [''proposal_id'', ''execution_id'', ''error'']),
      (''degraded'', RESPONSE_BASE @ [''reason'', ''proposal_id'', ''degraded_capability'', ''retryable''])]"

definition EVENT_FIELDS :: "string list dict" where
  "EVENT_FIELDS =
     [(''proposal'', EVENT_BASE @ [''proposal_id'', ''intent'', ''summary'']),
      (''decision'', EVENT_BASE @ [''proposal_id'', ''outcome'', ''reason_code'', ''rule_id'', ''state_version'']),
      (''execution'', EVENT_BASE @ [''proposal_id'', ''execution_id'', ''phase'', ''intent'', ''detail'']),
      (''state_changed'', EVENT_BASE @ [''state_version'', ''changes'', ''source_execution_id'']),
      (''active_action'', EVENT_BASE @ [''proposal_id'', ''execution_id'', ''active_action_id'', ''intent'', ''phase'', ''progress'']),
      (''turn_progress'', EVENT_BASE @ [''phase'', ''progress'', ''message'']),
      (''response_chunk'', EVENT_BASE @ [''stream_id'', ''chunk_index'', ''delta'', ''content_kind'', ''final''])]"

definition UI_REQUIRED :: "string list dict" where
  "UI_REQUIRED =
     [(''message'', UI_COMMON @ [''turn_id'', ''message'']),
      (''confirm'', UI_COMMON @ [''turn_id'', ''proposal_id'', ''confirmation_id'']),
      (''cancel'', UI_COMMON @ [''turn_id'', ''proposal_id'', ''confirmation_id'']),
      (''simulation_control'', UI_COMMON @ [''control'', ''parameters'']),
      (''reset'', UI_COMMON @ [''scope'']),
      (''completed'', UI_COMMON @ [''status'', ''turn_id'', ''message'']),
      (''blocked'', UI_COMMON @ [''status'', ''turn_id'', ''message'', ''reason'', ''rule_id'', ''state_version'']),
      (''needs_confirmation'', UI_COMMON @ [''status'', ''turn_id'', ''message'', ''proposal_id'', ''confirmation_id'', ''expires_at'']),
      (''failed'', UI_COMMON @ [''status'', ''turn_id'', ''message'', ''error'']),
      (''degraded'', UI_COMMON @ [''status'', ''turn_id'', ''message'', ''degraded_capability'', ''retryable'']),
      (''proposal'', EVENT_BASE @ [''proposal_id'', ''intent'', ''summary'']),
      (''decision'', EVENT_BASE @ [''proposal_id'', ''outcome'', ''reason_code'', ''rule_id'', ''state_version'']),
      (''execution'', EVENT_BASE @ [''proposal_id'', ''execution_id'', ''phase'', ''intent'']),
      (''state_changed'', EVENT_BASE @ [''state_version'', ''changes'']),
      (''active_action'', EVENT_BASE @ [''proposal_id'', ''execution_id'', ''active_action_id'', ''intent'', ''phase'']),
      (''turn_progress'', EVENT_BASE @ [''phase'', ''progress'']),
      (''response_chunk'', EVENT_BASE @ [''stream_id'', ''chunk_index'', ''delta'', ''content_kind'', ''final''])]"

definition EXECUTION_PHASES :: "string list" where
  "EXECUTION_PHASES = [''started'', ''succeeded'', ''failed'', ''stopped'']"

definition ACTIVE_PHASES :: "string list" where
  "ACTIVE_PHASES = [''started'', ''progress'', ''stopped'', ''failed'', ''completed'']"

definition TURN_PROGRESS_PHASES :: "string list" where
  "TURN_PROGRESS_PHASES = [''received'', ''resolving'', ''proposing'', ''authorizing'', ''executing'', ''responding'',
     ''completed'', ''failed'']"

definition TURN_TERMINAL_PHASES :: "string list" where
  "TURN_TERMINAL_PHASES = [''completed'', ''failed'']"

definition CHUNK_CONTENT_KINDS :: "string list" where
  "CHUNK_CONTENT_KINDS = [''answer'', ''clarification'', ''status'']"

section \<open>Private fields\<close>

definition lower_alnum :: "char \<Rightarrow> bool" where
  "lower_alnum c = (let n = of_char c :: nat in 97 \<le> n \<and> n \<le> 122 \<or> 48 \<le> n \<and> n \<le> 57)"

text \<open>\<open>re.sub(r"[^a-z0-9]", "", key.lower())\<close>.\<close>

definition squeezed :: "string \<Rightarrow> string" where
  "squeezed raw = filter lower_alnum (lower raw)"

definition private_key :: "string \<Rightarrow> bool" where
  "private_key raw = list_ex (\<lambda>marker. contains marker (squeezed raw)) PRIVATE_MARKERS"

fun exposes_private :: "pyval \<Rightarrow> bool" where
  "exposes_private (PDict d) = list_ex (\<lambda>(k, v). private_key k \<or> exposes_private v) d"
| "exposes_private (PList vs) = list_ex exposes_private vs"
| "exposes_private _ = False"

text \<open>The redaction of \<open>events/redaction.py\<close>: a key goes when it or one of its parts between
  separators is a marker.\<close>

definition REDACTION_MARKERS :: "string list" where
  "REDACTION_MARKERS = PRIVATE_MARKERS @ [''internaltrace'', ''guardrailtrace'', ''rawtrace'']"

definition key_separator :: "char \<Rightarrow> bool" where
  "key_separator c \<longleftrightarrow> c \<in> set ''._:-'' \<or> is_ws c"

lemma dropWhile_shorter [termination_simp]: "length (dropWhile P cs) < Suc (length cs)"
  by (rule le_imp_less_Suc [OF length_dropWhile_le])

text \<open>\<open>re.split(r"[._:\-\s]+", s)\<close>.\<close>

fun split_keys :: "string \<Rightarrow> string list" where
  "split_keys [] = [[]]"
| "split_keys (c # cs) =
     (if key_separator c then [] # split_keys (dropWhile key_separator cs)
      else (case split_keys cs of [] \<Rightarrow> [[c]] | p # ps \<Rightarrow> (c # p) # ps))"

definition is_forbidden_key :: "string \<Rightarrow> bool" where
  "is_forbidden_key raw \<longleftrightarrow>
     squeezed raw \<in> set REDACTION_MARKERS \<or>
     list_ex (\<lambda>token. filter lower_alnum token \<in> set REDACTION_MARKERS) (split_keys (lower raw))"

fun redact_value :: "pyval \<Rightarrow> pyval" where
  "redact_value (PDict d) = PDict (map (\<lambda>(k, v). (k, redact_value v)) (filter (\<lambda>(k, v). \<not> is_forbidden_key k) d))"
| "redact_value (PList vs) = PList (map redact_value vs)"
| "redact_value v = v"

definition redact_event :: "payload \<Rightarrow> payload" where
  "redact_event p = dict_of (redact_value (PDict p))"

section \<open>One payload\<close>

definition upper_lower_alnum :: "char \<Rightarrow> bool" where
  "upper_lower_alnum c = lower_alnum (lower_char c)"

definition public_identifier :: "pyval \<Rightarrow> bool" where
  "public_identifier v =
     (case v of
        PStr (c # cs) \<Rightarrow> upper_lower_alnum c \<and> length cs \<le> 127 \<and>
          list_all (\<lambda>c. upper_lower_alnum c \<or> c \<in> set ''._:-'') cs
      | _ \<Rightarrow> False)"

definition ui_identifier :: "payload \<Rightarrow> string \<Rightarrow> contract_exn option" where
  "ui_identifier p f = contract_check (public_identifier (get_key p f)) ''INVALID_IDENTIFIER''"

text \<open>\<open>v in frozenset\<close>: an unhashable value raises.\<close>

definition member_check :: "pyval \<Rightarrow> string list \<Rightarrow> string \<Rightarrow> contract_exn option" where
  "member_check v xs code =
     (if \<not> hashable v then Some (ContractCrash ''TypeError'') else contract_check (v \<in> PStr ` set xs) code)"

definition fields_of :: "string list dict \<Rightarrow> string \<Rightarrow> string list" where
  "fields_of table k = (case map_of table k of None \<Rightarrow> [] | Some fs \<Rightarrow> fs)"

definition shape_error :: "payload \<Rightarrow> string \<Rightarrow> string list \<Rightarrow> contract_exn option" where
  "shape_error p discriminator allowed =
     first_error
       [contract_check (list_all (has_key p) (fields_of UI_REQUIRED discriminator)) ''MISSING_FIELD'',
        contract_check (only_fields p allowed) ''UNEXPECTED_FIELD'',
        member_check (get_key p ''contract_version'') SUPPORTED_CONTRACT_VERSIONS ''CONTRACT_VERSION_MISMATCH'',
        ui_identifier p ''session_id'', ui_identifier p ''request_id'']"

definition int_at_least :: "int \<Rightarrow> pyval \<Rightarrow> bool" where
  "int_at_least lo v = (case v of PInt i \<Rightarrow> lo \<le> i | _ \<Rightarrow> False)"

text \<open>A number that is no boolean.\<close>

definition plain_number :: "pyval \<Rightarrow> pyfloat option" where
  "plain_number v = (case v of PBool b \<Rightarrow> None | _ \<Rightarrow> num_of v)"

definition request_payload_error :: "payload \<Rightarrow> contract_exn option" where
  "request_payload_error p =
     (case member_check (get_key p ''request_type'') REQUEST_TYPES ''UNKNOWN_REQUEST'' of
        Some e \<Rightarrow> Some e
      | None \<Rightarrow>
          (let t = (case get_key p ''request_type'' of PStr s \<Rightarrow> s | _ \<Rightarrow> []) in
           first_error
             [shape_error p t (fields_of REQUEST_FIELDS t @ [''request_type'']),
              contract_check (t \<noteq> ''message'' \<or>
                (case get_key p ''message'' of PStr s \<Rightarrow> strip_ws s \<noteq> [] | _ \<Rightarrow> False)) ''INVALID_MESSAGE'',
              contract_check (t \<noteq> ''simulation_control'' \<or> is_dict (get_key p ''parameters'')) ''INVALID_PARAMETERS'']))"

definition response_payload_error :: "payload \<Rightarrow> contract_exn option" where
  "response_payload_error p =
     (case member_check (get_key p ''status'') RESPONSE_STATUSES ''UNKNOWN_STATUS'' of
        Some e \<Rightarrow> Some e
      | None \<Rightarrow>
          (let t = (case get_key p ''status'' of PStr s \<Rightarrow> s | _ \<Rightarrow> []) in
           first_error
             [shape_error p t (fields_of RESPONSE_FIELDS t),
              contract_check (t \<noteq> ''degraded'' \<or> is_bool (get_key p ''retryable'')) ''INVALID_RESPONSE'']))"

definition progress_error :: "payload \<Rightarrow> contract_exn option" where
  "progress_error p =
     (let phase = get_key p ''phase''; progress = plain_number (get_key p ''progress'');
          message = get_key p ''message'' in
      first_error
        [contract_check (phase \<in> PStr ` set TURN_PROGRESS_PHASES) ''INVALID_PROGRESS_PHASE'',
         contract_check (case progress of None \<Rightarrow> False | Some r \<Rightarrow> num_le (Fin 0) r \<and> num_le r (Fin 1)) ''INVALID_PROGRESS'',
         contract_check (message = PNone \<or> (case message of PStr s \<Rightarrow> strip_ws s \<noteq> [] | _ \<Rightarrow> False)) ''INVALID_PROGRESS_MESSAGE'',
         contract_check (phase \<noteq> PStr ''completed'' \<or> (case progress of None \<Rightarrow> False | Some r \<Rightarrow> num_eq r (Fin 1)))
           ''INCOMPLETE_TERMINAL_PROGRESS''])"

definition chunk_error :: "payload \<Rightarrow> contract_exn option" where
  "chunk_error p =
     first_error
       [ui_identifier p ''stream_id'',
        contract_check (int_at_least 0 (get_key p ''chunk_index'')) ''INVALID_CHUNK_INDEX'',
        contract_check (case get_key p ''delta'' of PStr s \<Rightarrow> s \<noteq> [] \<and> int (length s) \<le> MAX_CHUNK_CHARS | _ \<Rightarrow> False)
          ''INVALID_CHUNK_DELTA'',
        contract_check (\<not> int_at_least MAX_RESPONSE_CHUNKS (get_key p ''chunk_index'')) ''RESPONSE_CHUNK_LIMIT'',
        member_check (get_key p ''content_kind'') CHUNK_CONTENT_KINDS ''INVALID_CONTENT_KIND'',
        contract_check (is_bool (get_key p ''final'')) ''INVALID_CHUNK_FINAL'']"

definition event_payload_error :: "payload \<Rightarrow> contract_exn option" where
  "event_payload_error p =
     (case member_check (get_key p ''event_type'') UI_EVENT_TYPES ''UNKNOWN_EVENT'' of
        Some e \<Rightarrow> Some e
      | None \<Rightarrow>
          (let t = (case get_key p ''event_type'' of PStr s \<Rightarrow> s | _ \<Rightarrow> []); unless = (\<lambda>c e. if c then None else e) in
           first_error
             [shape_error p t (fields_of EVENT_FIELDS t @ [''event_type'']),
              contract_check (t \<notin> {''turn_progress'', ''response_chunk''} \<or>
                get_key p ''contract_version'' = PStr UI_CONTRACT_VERSION) ''STREAMING_REQUIRES_V1_1'',
              ui_identifier p ''event_id'', ui_identifier p ''turn_id'',
              contract_check (int_at_least 1 (get_key p ''sequence'')) ''INVALID_SEQUENCE'',
              unless (t \<noteq> ''execution'') (member_check (get_key p ''phase'') EXECUTION_PHASES ''INVALID_PHASE''),
              unless (t \<noteq> ''active_action'') (member_check (get_key p ''phase'') ACTIVE_PHASES ''INVALID_PHASE''),
              unless (t \<noteq> ''decision'') (member_check (get_key p ''outcome'') AGENT_OUTCOMES ''INVALID_OUTCOME''),
              unless (t \<noteq> ''state_changed'')
                (contract_check (is_dict (get_key p ''changes'')) ''INVALID_STATE_CHANGE''),
              unless (t \<noteq> ''turn_progress'') (progress_error p),
              unless (t \<noteq> ''response_chunk'') (chunk_error p)]))"

definition public_payload_error :: "payload \<Rightarrow> contract_exn option" where
  "public_payload_error p =
     (if exposes_private (PDict p) then Some (ContractError ''PRIVATE_FIELD_EXPOSED'')
      else if get_key p ''kind'' = PStr ''request'' then request_payload_error p
      else if get_key p ''kind'' = PStr ''response'' then response_payload_error p
      else if get_key p ''kind'' = PStr ''event'' then event_payload_error p
      else Some (ContractError ''UNKNOWN_KIND''))"

section \<open>Streams\<close>

text \<open>A dictionary key: equal values are one key.  \<open>None\<close> is the \<open>TypeError\<close> of an unhashable value;
  all NaNs count as one key.\<close>

datatype dkey = KNone | KNum pyfloat | KStr string

fun dict_key :: "pyval \<Rightarrow> dkey option" where
  "dict_key PNone = Some KNone"
| "dict_key (PStr s) = Some (KStr s)"
| "dict_key (PList _) = None"
| "dict_key (PDict _) = None"
| "dict_key v = map_option KNum (num_of v)"

record stream_state =
  es_expected :: int
  es_session :: pyval
  es_proposals :: "(dkey \<times> string \<times> string \<times> pyval) list"
  es_decisions :: "(dkey \<times> pyval) list"
  es_executions :: "(dkey \<times> dkey \<times> string \<times> string \<times> pyval) list"
  es_progress :: "((string \<times> string) \<times> nat \<times> pyfloat \<times> bool) list"
  es_streams :: "((string \<times> string) \<times> pyval \<times> pyval \<times> int \<times> bool) list"

definition EventStreamState :: stream_state where
  "EventStreamState =
     \<lparr>es_expected = 1, es_session = PNone, es_proposals = [], es_decisions = [], es_executions = [],
      es_progress = [], es_streams = []\<rparr>"

type_synonym stream_step = "contract_exn + stream_state"

abbreviation stream_fail :: "string \<Rightarrow> stream_step" where "stream_fail code \<equiv> Inl (ContractError code)"

definition str_at :: "payload \<Rightarrow> string \<Rightarrow> string" where
  "str_at p f = (case get_key p f of PStr s \<Rightarrow> s | _ \<Rightarrow> [])"

definition turn_key :: "payload \<Rightarrow> string \<times> string" where
  "turn_key p = (str_at p ''turn_id'', str_at p ''request_id'')"

fun index_of :: "string \<Rightarrow> string list \<Rightarrow> nat" where
  "index_of x [] = 0"
| "index_of x (y # ys) = (if x = y then 0 else Suc (index_of x ys))"

definition number_at :: "payload \<Rightarrow> string \<Rightarrow> pyfloat" where
  "number_at p f = (case plain_number (get_key p f) of None \<Rightarrow> NaN | Some r \<Rightarrow> r)"

definition progress_step :: "payload \<Rightarrow> stream_state \<Rightarrow> stream_step" where
  "progress_step p s =
     (let phase = index_of (str_at p ''phase'') TURN_PROGRESS_PHASES; progress = number_at p ''progress'';
          s1 = s\<lparr>es_progress := AList.update (turn_key p)
            (phase, progress, str_at p ''phase'' \<in> set TURN_TERMINAL_PHASES) (es_progress s)\<rparr>
      in case map_of (es_progress s) (turn_key p) of
           None \<Rightarrow> Inr s1
         | Some (previous_phase, previous_progress, terminal) \<Rightarrow>
             if terminal then stream_fail ''TURN_PROGRESS_ALREADY_TERMINAL''
             else if phase < previous_phase \<or> num_lt progress previous_progress
             then stream_fail ''TURN_PROGRESS_REGRESSION'' else Inr s1)"

definition int_at :: "payload \<Rightarrow> string \<Rightarrow> int" where
  "int_at p f = (case get_key p f of PInt i \<Rightarrow> i | _ \<Rightarrow> 0)"

definition chunk_step :: "payload \<Rightarrow> stream_state \<Rightarrow> stream_step" where
  "chunk_step p s =
     (let index = int_at p ''chunk_index'';
          s1 = s\<lparr>es_streams := AList.update (turn_key p)
            (get_key p ''stream_id'', get_key p ''content_kind'', index, get_key p ''final'' = PBool True) (es_streams s)\<rparr>
      in case map_of (es_streams s) (turn_key p) of
           None \<Rightarrow> if index \<noteq> 0 then stream_fail ''RESPONSE_CHUNK_GAP'' else Inr s1
         | Some (stream_id, content_kind, previous_index, terminal) \<Rightarrow>
             if terminal then stream_fail ''RESPONSE_STREAM_ALREADY_TERMINAL''
             else if get_key p ''stream_id'' \<noteq> stream_id then stream_fail ''RESPONSE_STREAM_MISMATCH''
             else if get_key p ''content_kind'' \<noteq> content_kind then stream_fail ''RESPONSE_CONTENT_KIND_MISMATCH''
             else if index \<noteq> previous_index + 1 then stream_fail ''RESPONSE_CHUNK_GAP'' else Inr s1)"

text \<open>A lookup under an unhashable value raises before anything else of the step.\<close>

definition with_key :: "pyval \<Rightarrow> (dkey \<Rightarrow> stream_step) \<Rightarrow> stream_step" where
  "with_key v f = (case dict_key v of None \<Rightarrow> Inl (ContractCrash ''TypeError'') | Some k \<Rightarrow> f k)"

definition proposal_step :: "payload \<Rightarrow> stream_state \<Rightarrow> stream_step" where
  "proposal_step p s =
     with_key (get_key p ''proposal_id'') (\<lambda>pid.
       if map_of (es_proposals s) pid \<noteq> None then stream_fail ''DUPLICATE_PROPOSAL''
       else Inr (s\<lparr>es_proposals := AList.update pid
         (str_at p ''turn_id'', str_at p ''request_id'', get_key p ''intent'') (es_proposals s)\<rparr>))"

definition decision_step :: "payload \<Rightarrow> stream_state \<Rightarrow> stream_step" where
  "decision_step p s =
     with_key (get_key p ''proposal_id'') (\<lambda>pid.
       case map_of (es_proposals s) pid of
         None \<Rightarrow> stream_fail ''DECISION_BEFORE_PROPOSAL''
       | Some (turn, request, intent) \<Rightarrow>
           if (turn, request) \<noteq> turn_key p then stream_fail ''DECISION_BEFORE_PROPOSAL''
           else if map_of (es_decisions s) pid \<noteq> None then stream_fail ''DUPLICATE_DECISION''
           else Inr (s\<lparr>es_decisions := AList.update pid (get_key p ''outcome'') (es_decisions s)\<rparr>))"

definition execution_step :: "payload \<Rightarrow> stream_state \<Rightarrow> stream_step" where
  "execution_step p s =
     with_key (get_key p ''proposal_id'') (\<lambda>pid.
       if map_of (es_decisions s) pid \<noteq> Some (PStr ''ALLOW'') then stream_fail ''EXECUTION_WITHOUT_ALLOW''
       else (case map_of (es_proposals s) pid of
           None \<Rightarrow> stream_fail ''EXECUTION_CORRELATION_MISMATCH''
         | Some (turn, request, intent) \<Rightarrow>
             if (turn, request) \<noteq> turn_key p \<or> \<not> py_eq intent (get_key p ''intent'')
             then stream_fail ''EXECUTION_CORRELATION_MISMATCH''
             else with_key (get_key p ''execution_id'') (\<lambda>eid.
               let entry = (\<lambda>phase. AList.update eid (pid, str_at p ''turn_id'', str_at p ''request_id'', phase) (es_executions s)) in
               if get_key p ''phase'' = PStr ''started'' then
                 (if map_of (es_executions s) eid \<noteq> None then stream_fail ''DUPLICATE_EXECUTION''
                  else Inr (s\<lparr>es_executions := entry (PStr ''started'')\<rparr>))
               else (case map_of (es_executions s) eid of
                   None \<Rightarrow> stream_fail ''EXECUTION_NOT_STARTED''
                 | Some e \<Rightarrow>
                     if e \<noteq> (pid, str_at p ''turn_id'', str_at p ''request_id'', PStr ''started'')
                     then stream_fail ''EXECUTION_ALREADY_TERMINAL''
                     else Inr (s\<lparr>es_executions := entry (get_key p ''phase'')\<rparr>)))))"

definition active_step :: "payload \<Rightarrow> stream_state \<Rightarrow> stream_step" where
  "active_step p s =
     with_key (get_key p ''execution_id'') (\<lambda>eid.
       case map_of (es_executions s) eid of
         None \<Rightarrow> stream_fail ''ACTIVE_ACTION_BEFORE_EXECUTION''
       | Some (pid, turn, request, phase) \<Rightarrow>
           if dict_key (get_key p ''proposal_id'') \<noteq> Some pid \<or> (turn, request) \<noteq> turn_key p \<or> phase \<noteq> PStr ''started''
           then stream_fail ''ACTIVE_ACTION_BEFORE_EXECUTION'' else Inr s)"

definition change_step :: "payload \<Rightarrow> stream_state \<Rightarrow> stream_step" where
  "change_step p s =
     (if get_key p ''actor'' \<noteq> PStr ''AGENT'' then Inr s
      else with_key (get_key p ''source_execution_id'') (\<lambda>eid.
        case map_of (es_executions s) eid of
          None \<Rightarrow> stream_fail ''STATE_CHANGE_WITHOUT_EXECUTION''
        | Some (pid, turn, request, phase) \<Rightarrow>
            if phase \<noteq> PStr ''started'' then stream_fail ''STATE_CHANGE_WITHOUT_EXECUTION'' else Inr s))"

definition typed_step :: "payload \<Rightarrow> stream_state \<Rightarrow> stream_step" where
  "typed_step p s =
     (let t = get_key p ''event_type'' in
      if t = PStr ''turn_progress'' then progress_step p s
      else if t = PStr ''response_chunk'' then chunk_step p s
      else if t = PStr ''proposal'' then proposal_step p s
      else if t = PStr ''decision'' then decision_step p s
      else if t = PStr ''execution'' then execution_step p s
      else if t = PStr ''active_action'' then active_step p s
      else change_step p s)"

definition validate_next_event :: "payload \<Rightarrow> stream_state \<Rightarrow> stream_step" where
  "validate_next_event p s =
     (case public_payload_error p of
        Some e \<Rightarrow> Inl e
      | None \<Rightarrow>
          if get_key p ''kind'' \<noteq> PStr ''event'' then stream_fail ''NON_EVENT_IN_STREAM''
          else if es_session s \<noteq> PNone \<and> get_key p ''session_id'' \<noteq> es_session s then stream_fail ''SESSION_MISMATCH''
          else if get_key p ''sequence'' \<noteq> PInt (es_expected s) then stream_fail ''EVENT_ORDER_GAP''
          else (case typed_step p s of
              Inl e \<Rightarrow> Inl e
            | Inr s1 \<Rightarrow> Inr (s1\<lparr>es_session := (if es_session s = PNone then get_key p ''session_id'' else es_session s),
                                  es_expected := es_expected s + 1\<rparr>)))"

fun validate_events :: "payload list \<Rightarrow> stream_state \<Rightarrow> stream_step" where
  "validate_events [] s = Inr s"
| "validate_events (p # ps) s =
     (case validate_next_event p s of Inl e \<Rightarrow> Inl e | Inr s1 \<Rightarrow> validate_events ps s1)"

definition validate_event_stream :: "payload list \<Rightarrow> contract_exn option" where
  "validate_event_stream ps = (case validate_events ps EventStreamState of Inl e \<Rightarrow> Some e | Inr s \<Rightarrow> None)"

section \<open>What an accepted stream says\<close>

definition has_type :: "payload \<Rightarrow> string \<Rightarrow> bool" where
  "has_type p t \<longleftrightarrow> get_key p ''event_type'' = PStr t"

definition pid_of :: "payload \<Rightarrow> dkey option" where
  "pid_of p = dict_key (get_key p ''proposal_id'')"

definition eid_of :: "payload \<Rightarrow> dkey option" where
  "eid_of p = dict_key (get_key p ''execution_id'')"

definition proposal_of :: "dkey \<Rightarrow> payload list \<Rightarrow> payload option" where
  "proposal_of k es = List.find (\<lambda>e. has_type e ''proposal'' \<and> pid_of e = Some k) es"

definition decision_of :: "dkey \<Rightarrow> payload list \<Rightarrow> payload option" where
  "decision_of k es = List.find (\<lambda>e. has_type e ''decision'' \<and> pid_of e = Some k) es"

definition executions_of :: "dkey \<Rightarrow> payload list \<Rightarrow> payload list" where
  "executions_of k es = filter (\<lambda>e. has_type e ''execution'' \<and> eid_of e = Some k) es"

definition begins :: "payload \<Rightarrow> bool" where
  "begins p \<longleftrightarrow> get_key p ''phase'' = PStr ''started''"

text \<open>The events of one execution: a start, then at most one other phase, of the same proposal.\<close>

fun one_run :: "payload list \<Rightarrow> bool" where
  "one_run [] = True"
| "one_run [e] = begins e"
| "one_run [e, t] = (begins e \<and> \<not> begins t \<and> pid_of t = pid_of e \<and> turn_key t = turn_key e)"
| "one_run _ = False"

text \<open>The state of a stream is a digest of its events.\<close>

definition execution_entry :: "payload list \<Rightarrow> (dkey \<times> string \<times> string \<times> pyval) option" where
  "execution_entry es =
     (case es of [] \<Rightarrow> None
      | e # _ \<Rightarrow> Some (the (pid_of e), str_at e ''turn_id'', str_at e ''request_id'', get_key (last es) ''phase''))"

definition digests :: "payload list \<Rightarrow> stream_state \<Rightarrow> bool" where
  "digests es s \<longleftrightarrow>
     (\<forall>k. map_of (es_proposals s) k =
        map_option (\<lambda>e. (str_at e ''turn_id'', str_at e ''request_id'', get_key e ''intent'')) (proposal_of k es)) \<and>
     (\<forall>k. map_of (es_decisions s) k = map_option (\<lambda>e. get_key e ''outcome'') (decision_of k es)) \<and>
     (\<forall>k. map_of (es_executions s) k = execution_entry (executions_of k es)) \<and>
     (\<forall>k d. decision_of k es = Some d \<longrightarrow> (\<exists>p. proposal_of k es = Some p \<and> turn_key p = turn_key d)) \<and>
     (\<forall>k. one_run (executions_of k es)) \<and>
     (\<forall>e \<in> set es. has_type e ''execution'' \<longrightarrow> pid_of e \<noteq> None)"

lemma find_snoc:
  "List.find P (xs @ [x]) = (case List.find P xs of None \<Rightarrow> if P x then Some x else None | Some y \<Rightarrow> Some y)"
  by (induction xs) auto

lemma validate_events_append:
  "validate_events (ps @ qs) s =
     (case validate_events ps s of Inl e \<Rightarrow> Inl e | Inr s1 \<Rightarrow> validate_events qs s1)"
  by (induction ps arbitrary: s) (auto split: sum.splits)

lemma with_key_Inr: "with_key v f = Inr s \<longleftrightarrow> (\<exists>k. dict_key v = Some k \<and> f k = Inr s)"
  by (auto simp: with_key_def split: option.splits)

lemma types_apart:
  "has_type p ''proposal'' \<Longrightarrow> \<not> has_type p ''decision'' \<and> \<not> has_type p ''execution''"
  "has_type p ''decision'' \<Longrightarrow> \<not> has_type p ''proposal'' \<and> \<not> has_type p ''execution''"
  "has_type p ''execution'' \<Longrightarrow> \<not> has_type p ''proposal'' \<and> \<not> has_type p ''decision''"
  by (auto simp: has_type_def)

lemma snoc_of [simp]:
  "proposal_of k (es @ [p]) =
     (case proposal_of k es of None \<Rightarrow> if has_type p ''proposal'' \<and> pid_of p = Some k then Some p else None | r \<Rightarrow> r)"
  "decision_of k (es @ [p]) =
     (case decision_of k es of None \<Rightarrow> if has_type p ''decision'' \<and> pid_of p = Some k then Some p else None | r \<Rightarrow> r)"
  "executions_of k (es @ [p]) =
     executions_of k es @ (if has_type p ''execution'' \<and> eid_of p = Some k then [p] else [])"
  by (auto simp: proposal_of_def decision_of_def executions_of_def find_snoc split: option.splits)

lemma option_same [simp]: "(case x of None \<Rightarrow> None | Some y \<Rightarrow> Some y) = x"
  by (cases x) auto

lemma digests_other:
  assumes "digests es s" "\<not> has_type p ''proposal''" "\<not> has_type p ''decision''" "\<not> has_type p ''execution''"
    "es_proposals s1 = es_proposals s" "es_decisions s1 = es_decisions s" "es_executions s1 = es_executions s"
  shows "digests (es @ [p]) s1"
  using assms by (simp add: digests_def)

lemma digests_decided:
  "digests es s \<Longrightarrow> decision_of k es = Some d \<Longrightarrow> \<exists>p. proposal_of k es = Some p \<and> turn_key p = turn_key d"
  by (simp add: digests_def)

lemma proposal_digests:
  assumes "digests es s" "has_type p ''proposal''" "proposal_step p s = Inr s1"
  shows "digests (es @ [p]) s1"
proof -
  obtain k where k: "pid_of p = Some k" "map_of (es_proposals s) k = None"
    and s1: "s1 = s\<lparr>es_proposals := AList.update k
      (str_at p ''turn_id'', str_at p ''request_id'', get_key p ''intent'') (es_proposals s)\<rparr>"
    using assms(3) by (auto simp: proposal_step_def with_key_Inr pid_of_def simp del: not_None_eq split: if_splits)
  have new: "proposal_of k es = None" using assms(1) k(2) by (simp add: digests_def)
  then have "decision_of k es = None" using digests_decided [OF assms(1), of k] by (cases "decision_of k es") auto
  then show ?thesis
    using assms(1) types_apart(1) [OF assms(2)] assms(2) k new
    by (auto simp: digests_def s1 update_conv' split: option.splits)
qed

lemma decision_digests:
  assumes "digests es s" "has_type p ''decision''" "decision_step p s = Inr s1"
  shows "digests (es @ [p]) s1"
proof -
  obtain k intent where k: "pid_of p = Some k" "map_of (es_decisions s) k = None"
    and pr: "map_of (es_proposals s) k = Some (str_at p ''turn_id'', str_at p ''request_id'', intent)"
    and s1: "s1 = s\<lparr>es_decisions := AList.update k (get_key p ''outcome'') (es_decisions s)\<rparr>"
    using assms(3)
    by (auto simp: decision_step_def with_key_Inr pid_of_def turn_key_def split: if_splits option.splits)
  have new: "decision_of k es = None" using assms(1) k(2) by (simp add: digests_def)
  obtain q where q: "proposal_of k es = Some q" "turn_key q = turn_key p"
    using assms(1) pr by (auto simp: digests_def turn_key_def)
  show ?thesis
    using assms(1) types_apart(2) [OF assms(2)] assms(2) k new q
    by (auto simp: digests_def s1 update_conv' split: option.splits)
qed

lemma one_run_snoc:
  "one_run (xs @ [p]) \<longleftrightarrow>
     (case xs of [] \<Rightarrow> begins p
      | [e] \<Rightarrow> begins e \<and> \<not> begins p \<and> pid_of p = pid_of e \<and> turn_key p = turn_key e | _ \<Rightarrow> False)"
  by (cases xs rule: one_run.cases) auto

lemma execution_digests:
  assumes "digests es s" "has_type p ''execution''" "execution_step p s = Inr s1"
  shows "digests (es @ [p]) s1"
proof -
  obtain k n where k: "pid_of p = Some k" "eid_of p = Some n"
    and s1: "s1 = s\<lparr>es_executions := AList.update n
      (k, str_at p ''turn_id'', str_at p ''request_id'', get_key p ''phase'') (es_executions s)\<rparr>"
    and old: "begins p \<and> map_of (es_executions s) n = None \<or>
      \<not> begins p \<and> map_of (es_executions s) n =
        Some (k, str_at p ''turn_id'', str_at p ''request_id'', PStr ''started'')"
    using assms(3)
    by (auto simp: execution_step_def with_key_Inr pid_of_def eid_of_def turn_key_def begins_def Let_def
        split: if_splits option.splits)
  have D: "map_of (es_executions s) n = execution_entry (executions_of n es)" "one_run (executions_of n es)"
    "\<forall>e \<in> set es. has_type e ''execution'' \<longrightarrow> pid_of e \<noteq> None"
    using assms(1) by (auto simp: digests_def)
  have run: "one_run (executions_of n es @ [p]) \<and> execution_entry (executions_of n es @ [p]) =
      Some (k, str_at p ''turn_id'', str_at p ''request_id'', get_key p ''phase'')"
  proof (cases "executions_of n es" rule: one_run.cases)
    case 1
    then show ?thesis using old D k by (auto simp: execution_entry_def)
  next
    case (2 e)
    then have "e \<in> set es \<and> has_type e ''execution''" by (auto simp: executions_of_def filter_eq_Cons_iff)
    with D(3) obtain j where "pid_of e = Some j" by auto
    then show ?thesis using old D k 2 by (auto simp: execution_entry_def turn_key_def)
  next
    case (3 e t)
    then show ?thesis using old D by (auto simp: execution_entry_def begins_def)
  next
    case (4 a b c d)
    then show ?thesis using D by simp
  qed
  show ?thesis
    using assms(1) types_apart(3) [OF assms(2)] assms(2) k run
    by (auto simp: digests_def s1 update_conv' split: option.splits)
qed

lemma has_type_str: "get_key p ''event_type'' = PStr t \<longleftrightarrow> has_type p t"
  by (simp add: has_type_def)

lemma typed_steps:
  "has_type p ''proposal'' \<Longrightarrow> typed_step p s = proposal_step p s"
  "has_type p ''decision'' \<Longrightarrow> typed_step p s = decision_step p s"
  "has_type p ''execution'' \<Longrightarrow> typed_step p s = execution_step p s"
  by (simp_all add: typed_step_def has_type_def)

lemma steps_position:
  "proposal_step p s = Inr s1 \<Longrightarrow> es_session s1 = es_session s \<and> es_expected s1 = es_expected s"
  "decision_step p s = Inr s1 \<Longrightarrow> es_session s1 = es_session s \<and> es_expected s1 = es_expected s"
  "execution_step p s = Inr s1 \<Longrightarrow> es_session s1 = es_session s \<and> es_expected s1 = es_expected s"
  by (auto simp: proposal_step_def with_key_Inr split: if_splits)
    (auto simp: decision_step_def execution_step_def with_key_Inr Let_def split: if_splits option.splits)

definition same_actions :: "stream_state \<Rightarrow> stream_state \<Rightarrow> bool" where
  "same_actions s s1 \<longleftrightarrow>
     es_proposals s1 = es_proposals s \<and> es_decisions s1 = es_decisions s \<and> es_executions s1 = es_executions s \<and>
     es_session s1 = es_session s \<and> es_expected s1 = es_expected s"

lemma other_steps:
  "progress_step p s = Inr s1 \<Longrightarrow> same_actions s s1"
  "chunk_step p s = Inr s1 \<Longrightarrow> same_actions s s1"
  "active_step p s = Inr s1 \<Longrightarrow> same_actions s s1"
  "change_step p s = Inr s1 \<Longrightarrow> same_actions s s1"
     apply (auto simp: progress_step_def same_actions_def Let_def split: if_splits option.splits) [1]
    apply (auto simp: chunk_step_def same_actions_def Let_def split: if_splits option.splits) [1]
   apply (auto simp: active_step_def same_actions_def with_key_Inr split: if_splits option.splits) [1]
  apply (auto simp: change_step_def same_actions_def with_key_Inr split: if_splits option.splits) [1]
  done

lemma typed_digests:
  assumes "digests es s" "typed_step p s = Inr s1"
  shows "digests (es @ [p]) s1 \<and> es_session s1 = es_session s \<and> es_expected s1 = es_expected s"
proof -
  consider "has_type p ''proposal''" | "has_type p ''decision''" | "has_type p ''execution''"
    | "\<not> has_type p ''proposal''" "\<not> has_type p ''decision''" "\<not> has_type p ''execution''" by blast
  then show ?thesis
  proof cases
    case 1
    then have "proposal_step p s = Inr s1" using assms(2) typed_steps(1) by simp
    then show ?thesis using proposal_digests [OF assms(1) 1] steps_position(1) by simp
  next
    case 2
    then have "decision_step p s = Inr s1" using assms(2) typed_steps(2) by simp
    then show ?thesis using decision_digests [OF assms(1) 2] steps_position(2) by simp
  next
    case 3
    then have "execution_step p s = Inr s1" using assms(2) typed_steps(3) by simp
    then show ?thesis using execution_digests [OF assms(1) 3] steps_position(3) by simp
  next
    case 4
    then have "same_actions s s1"
      using assms(2) other_steps by (auto simp: typed_step_def Let_def has_type_def split: if_splits)
    then show ?thesis using digests_other [OF assms(1) 4] by (simp add: same_actions_def)
  qed
qed

definition stream_ok :: "payload list \<Rightarrow> stream_state \<Rightarrow> bool" where
  "stream_ok es s \<longleftrightarrow>
     digests es s \<and> es_expected s = int (length es) + 1 \<and>
     (\<forall>e \<in> set es. public_payload_error e = None \<and> get_key e ''kind'' = PStr ''event'' \<and>
        get_key e ''session_id'' = es_session s) \<and>
     (es_session s = PNone \<longleftrightarrow> es = []) \<and>
     map (\<lambda>e. get_key e ''sequence'') es = map PInt [1..int (length es)]"

lemma stream_ok_start: "stream_ok [] EventStreamState"
  by (simp add: stream_ok_def digests_def EventStreamState_def proposal_of_def decision_of_def executions_of_def
      execution_entry_def)

lemma event_session:
  "public_payload_error p = None \<Longrightarrow> get_key p ''kind'' = PStr ''event'' \<Longrightarrow> get_key p ''session_id'' \<noteq> PNone"
  by (auto simp: public_payload_error_def event_payload_error_def shape_error_def ui_identifier_def
      contract_check_def public_identifier_def Let_def split: if_splits option.splits)

lemma next_ok:
  assumes "stream_ok es s" "validate_next_event p s = Inr s1"
  shows "stream_ok (es @ [p]) s1"
proof -
  have p: "public_payload_error p = None" "get_key p ''kind'' = PStr ''event''"
    "get_key p ''sequence'' = PInt (es_expected s)" "es_session s = PNone \<or> get_key p ''session_id'' = es_session s"
    and "\<exists>s2. typed_step p s = Inr s2 \<and> s1 = s2\<lparr>es_session := (if es_session s = PNone then get_key p ''session_id'' else es_session s),
      es_expected := es_expected s + 1\<rparr>"
    using assms(2) by (auto simp: validate_next_event_def split: option.splits if_splits sum.splits)
  then obtain s2 where s2: "typed_step p s = Inr s2"
    and s1: "s1 = s2\<lparr>es_session := (if es_session s = PNone then get_key p ''session_id'' else es_session s),
      es_expected := es_expected s + 1\<rparr>" by blast
  have d: "digests (es @ [p]) s2" using typed_digests [OF _ s2] assms(1) by (simp add: stream_ok_def)
  have "[1..int (length es) + 1] = [1..int (length es)] @ [int (length es) + 1]"
    using upto_rec2 [of 1 "int (length es) + 1"] by simp
  then show ?thesis
    using assms(1) d p event_session [OF p(1,2)] by (auto simp: stream_ok_def s1 digests_def add.commute)
qed

lemma stream_prefix:
  assumes "validate_events es EventStreamState = Inr s"
  shows "stream_ok es s"
  using assms
proof (induction es arbitrary: s rule: rev_induct)
  case Nil
  then show ?case by (simp add: stream_ok_start)
next
  case (snoc p es)
  then show ?case by (auto simp: validate_events_append intro: next_ok split: sum.splits)
qed

lemma accepted_at:
  assumes "validate_events es EventStreamState = Inr s" "i < length es"
  obtains s1 s2 where "validate_events (take i es) EventStreamState = Inr s1" "stream_ok (take i es) s1"
    "validate_next_event (es ! i) s1 = Inr s2"
proof -
  have "es = take i es @ es ! i # drop (Suc i) es" using assms(2) by (rule id_take_nth_drop)
  then have "validate_events (take i es @ es ! i # drop (Suc i) es) EventStreamState = Inr s" using assms(1) by simp
  then show ?thesis
    using that stream_prefix by (auto simp: validate_events_append split: sum.splits)
qed

lemma stream_accepted: "validate_event_stream es = None \<longleftrightarrow> (\<exists>s. validate_events es EventStreamState = Inr s)"
  by (auto simp: validate_event_stream_def split: sum.splits)

lemma next_typed:
  "validate_next_event p s = Inr s1 \<Longrightarrow> \<exists>s2. typed_step p s = Inr s2"
  by (auto simp: validate_next_event_def split: option.splits if_splits sum.splits)

lemma execution_step_backed:
  assumes "digests es s" "execution_step p s = Inr s1"
  shows "\<exists>k q d. pid_of p = Some k \<and> proposal_of k es = Some q \<and> decision_of k es = Some d \<and>
    get_key d ''outcome'' = PStr ''ALLOW'' \<and> turn_key q = turn_key p \<and> turn_key d = turn_key p \<and>
    py_eq (get_key q ''intent'') (get_key p ''intent'') \<and> eid_of p \<noteq> None"
proof -
  obtain k n intent where k: "pid_of p = Some k" "eid_of p = Some n" "map_of (es_decisions s) k = Some (PStr ''ALLOW'')"
    "map_of (es_proposals s) k = Some (str_at p ''turn_id'', str_at p ''request_id'', intent)"
    "py_eq intent (get_key p ''intent'')"
    using assms(2)
    by (auto simp: execution_step_def with_key_Inr pid_of_def eid_of_def turn_key_def Let_def
        split: if_splits option.splits)
  have m: "map_of (es_decisions s) k = map_option (\<lambda>e. get_key e ''outcome'') (decision_of k es)"
    "map_of (es_proposals s) k =
      map_option (\<lambda>e. (str_at e ''turn_id'', str_at e ''request_id'', get_key e ''intent'')) (proposal_of k es)"
    using assms(1) by (simp_all add: digests_def)
  obtain d where d: "decision_of k es = Some d" "get_key d ''outcome'' = PStr ''ALLOW''"
    using m(1) k(3) by (cases "decision_of k es") auto
  obtain q where q: "proposal_of k es = Some q" "turn_key q = turn_key p" "get_key q ''intent'' = intent"
    using m(2) k(4) by (cases "proposal_of k es") (auto simp: turn_key_def)
  have "turn_key d = turn_key p" using digests_decided [OF assms(1) d(1)] q by auto
  with k d q show ?thesis by blast
qed

lemma stream_ok_runs: "stream_ok es s \<Longrightarrow> one_run (executions_of n es)"
  by (simp add: stream_ok_def digests_def)

lemma execution_backed:
  assumes "validate_event_stream es = None" "i < length es" "has_type (es ! i) ''execution''"
  shows "(\<exists>k q d. pid_of (es ! i) = Some k \<and> proposal_of k (take i es) = Some q \<and> decision_of k (take i es) = Some d \<and>
      get_key d ''outcome'' = PStr ''ALLOW'' \<and> turn_key q = turn_key (es ! i) \<and> turn_key d = turn_key (es ! i) \<and>
      py_eq (get_key q ''intent'') (get_key (es ! i) ''intent'')) \<and>
    (\<exists>n. eid_of (es ! i) = Some n \<and> one_run (executions_of n es))"
proof -
  obtain s where s: "validate_events es EventStreamState = Inr s" using assms(1) by (auto simp: stream_accepted)
  obtain s1 s2 where p: "stream_ok (take i es) s1" "validate_next_event (es ! i) s1 = Inr s2"
    using accepted_at [OF s assms(2)] by blast
  obtain s3 where "execution_step (es ! i) s1 = Inr s3"
    using next_typed [OF p(2)] assms(3) by (auto simp: typed_step_def Let_def has_type_def)
  moreover have "digests (take i es) s1" using p(1) by (simp add: stream_ok_def)
  ultimately show ?thesis
    using execution_step_backed stream_ok_runs [OF stream_prefix [OF s]] by blast
qed

lemma find_decided:
  "List.find P xs = Some y \<longleftrightarrow> (\<exists>i < length xs. P (xs ! i) \<and> xs ! i = y \<and> (\<forall>j < i. \<not> P (xs ! j)))"
  by (auto simp: find_Some_iff)

text \<open>A second decision for a proposal is refused, so a decision in an accepted stream is the proposal's.\<close>

lemma decision_unique:
  assumes "validate_event_stream es = None" "j < length es" "has_type (es ! j) ''decision''" "pid_of (es ! j) = Some k"
  shows "decision_of k (take j es) = None"
proof -
  obtain s where s: "validate_events es EventStreamState = Inr s" using assms(1) by (auto simp: stream_accepted)
  obtain s1 s2 where p: "stream_ok (take j es) s1" "validate_next_event (es ! j) s1 = Inr s2"
    using accepted_at [OF s assms(2)] by blast
  obtain s3 where "decision_step (es ! j) s1 = Inr s3"
    using next_typed [OF p(2)] assms(3) by (auto simp: typed_step_def Let_def has_type_def)
  then have "map_of (es_decisions s1) k = None"
    using assms(4) by (auto simp: decision_step_def with_key_Inr pid_of_def split: option.splits if_splits)
  then show ?thesis using p(1) by (simp add: stream_ok_def digests_def)
qed

lemma find_takes:
  assumes "List.find P (take i xs) = Some y" "j < length xs" "P (xs ! j)" "List.find P (take j xs) = None"
  shows "y = xs ! j"
proof -
  obtain m where m: "m < i" "m < length xs" "P (xs ! m)" "xs ! m = y" "\<forall>l < m. \<not> P (xs ! l)"
    using assms(1) by (auto simp: find_Some_iff)
  have "\<not> j < m" using m(5) assms(3) by blast
  moreover have "\<not> m < j"
  proof
    assume "m < j"
    then have "xs ! m \<in> set (take j xs)" using m(2) by (auto simp: in_set_conv_nth intro!: exI [of _ m])
    then show False using assms(4) m(3) by (simp add: find_None_iff)
  qed
  ultimately show ?thesis using m(4) by (metis linorder_neqE_nat)
qed

lemma unallowed_never_executes:
  assumes "validate_event_stream es = None" "d \<in> set es" "has_type d ''decision''"
    "get_key d ''outcome'' \<noteq> PStr ''ALLOW''" "e \<in> set es" "has_type e ''execution''"
  shows "pid_of e \<noteq> pid_of d"
proof
  assume same: "pid_of e = pid_of d"
  obtain i j where i: "i < length es" "es ! i = e" and j: "j < length es" "es ! j = d"
    using assms by (metis in_set_conv_nth)
  obtain k d2 where k: "pid_of e = Some k" "decision_of k (take i es) = Some d2" "get_key d2 ''outcome'' = PStr ''ALLOW''"
    using execution_backed [OF assms(1) i(1)] assms(6) i(2) by auto
  have "decision_of k (take j es) = None" using decision_unique [OF assms(1) j(1)] j(2) assms(3) k(1) same by simp
  then have "d2 = d"
    using find_takes [of _ i es d2 j] k(2) assms(3) j k(1) same by (auto simp: decision_of_def)
  then show False using k(3) assms(4) by simp
qed

lemma find_append_Some: "List.find P xs = Some y \<Longrightarrow> List.find P (xs @ ys) = Some y"
  by (induction xs) (auto split: if_splits)

lemma decision_of_append: "decision_of k es = Some d \<Longrightarrow> decision_of k (es @ ext) = Some d"
  by (simp add: decision_of_def find_append_Some)

lemma decision_is:
  assumes "validate_event_stream es = None" "d \<in> set es" "has_type d ''decision''" "pid_of d = Some k"
  shows "decision_of k es = Some d"
proof -
  obtain j where j: "j < length es" "es ! j = d" using assms(2) by (metis in_set_conv_nth)
  have "decision_of k (take j es @ [d]) = Some d"
    using decision_unique [OF assms(1) j(1)] assms(3,4) j(2) by simp
  moreover have "es = (take j es @ [d]) @ drop (Suc j) es" using id_take_nth_drop [OF j(1)] j(2) by simp
  ultimately show ?thesis using decision_of_append by metis
qed

lemma executed_decided:
  assumes "validate_event_stream es = None" "e \<in> set es" "has_type e ''execution''"
  shows "\<exists>k d. pid_of e = Some k \<and> decision_of k es = Some d \<and> get_key d ''outcome'' = PStr ''ALLOW''"
proof -
  obtain i where i: "i < length es" "es ! i = e" using assms(2) by (metis in_set_conv_nth)
  obtain k d where kd: "pid_of e = Some k" "decision_of k (take i es) = Some d" "get_key d ''outcome'' = PStr ''ALLOW''"
    using execution_backed [OF assms(1) i(1)] i(2) assms(3) by blast
  have "decision_of k (take i es @ drop i es) = Some d" by (rule decision_of_append [OF kd(2)])
  then show ?thesis using kd by auto
qed

end
