(* ===== verification/EventStore.thy ===== *)
theory EventStore
  imports EventContract
begin

text \<open>
  \<open>events/models.py\<close>, \<open>events/store.py\<close>, \<open>events/replay.py\<close> and the polling adapter of
  \<open>events/adapters.py\<close>: the typed events, the append-only store that redacts, numbers and validates
  them per session, the queries on it, and the replay of a stream.  The store's lock makes each
  operation one step; the operations of concurrent callers are a list of steps.  The generated event
  id and the time of an event are fields of its base.
\<close>

section \<open>Events\<close>

record ui_event_base =
  eb_session :: string
  eb_turn :: string
  eb_request :: string
  eb_event_id :: string
  eb_occurred_at :: string
  eb_actor :: string

datatype ui_event =
    ProposalEvent string string string
  | DecisionEvent string string string string int
  | ExecutionEvent string string string string "payload option"
  | StateChangedEvent int payload "string option"
  | ActiveActionEvent string string string string string "pyval option"
  | TurnProgressEvent string pyval "string option"
  | ResponseChunkEvent string int string string bool

fun event_type_of :: "ui_event \<Rightarrow> string" where
  "event_type_of (ProposalEvent _ _ _) = ''proposal''"
| "event_type_of (DecisionEvent _ _ _ _ _) = ''decision''"
| "event_type_of (ExecutionEvent _ _ _ _ _) = ''execution''"
| "event_type_of (StateChangedEvent _ _ _) = ''state_changed''"
| "event_type_of (ActiveActionEvent _ _ _ _ _ _) = ''active_action''"
| "event_type_of (TurnProgressEvent _ _ _) = ''turn_progress''"
| "event_type_of (ResponseChunkEvent _ _ _ _ _) = ''response_chunk''"

definition event_head :: "ui_event_base \<Rightarrow> string \<Rightarrow> payload" where
  "event_head b t =
     [(''contract_version'', PStr UI_CONTRACT_VERSION), (''kind'', PStr ''event''), (''event_type'', PStr t),
      (''event_id'', PStr (eb_event_id b)), (''session_id'', PStr (eb_session b)), (''turn_id'', PStr (eb_turn b)),
      (''request_id'', PStr (eb_request b)), (''occurred_at'', PStr (eb_occurred_at b)), (''actor'', PStr (eb_actor b))]"

definition optional :: "string \<Rightarrow> ('a \<Rightarrow> pyval) \<Rightarrow> 'a option \<Rightarrow> payload" where
  "optional f conv v = (case v of None \<Rightarrow> [] | Some x \<Rightarrow> [(f, conv x)])"

fun event_fields :: "ui_event \<Rightarrow> payload" where
  "event_fields (ProposalEvent pid intent summary) =
     [(''proposal_id'', PStr pid), (''intent'', PStr intent), (''summary'', PStr summary)]"
| "event_fields (DecisionEvent pid outcome reason rule v) =
     [(''proposal_id'', PStr pid), (''outcome'', PStr outcome), (''reason_code'', PStr reason), (''rule_id'', PStr rule),
      (''state_version'', PInt v)]"
| "event_fields (ExecutionEvent pid eid intent phase detail) =
     [(''proposal_id'', PStr pid), (''execution_id'', PStr eid), (''intent'', PStr intent), (''phase'', PStr phase)] @
     optional ''detail'' PDict detail"
| "event_fields (StateChangedEvent v changes source) =
     [(''state_version'', PInt v), (''changes'', PDict changes)] @ optional ''source_execution_id'' PStr source"
| "event_fields (ActiveActionEvent pid eid aid intent phase progress) =
     [(''proposal_id'', PStr pid), (''execution_id'', PStr eid), (''active_action_id'', PStr aid), (''intent'', PStr intent),
      (''phase'', PStr phase)] @ optional ''progress'' (\<lambda>v. v) progress"
| "event_fields (TurnProgressEvent phase progress message) =
     [(''phase'', PStr phase), (''progress'', progress)] @ optional ''message'' PStr message"
| "event_fields (ResponseChunkEvent stream index delta kind final) =
     [(''stream_id'', PStr stream), (''chunk_index'', PInt index), (''delta'', PStr delta), (''content_kind'', PStr kind),
      (''final'', PBool final)]"

definition event_dict :: "ui_event_base \<Rightarrow> ui_event \<Rightarrow> payload" where
  "event_dict b e = event_head b (event_type_of e) @ event_fields e"

section \<open>The store\<close>

record event_store =
  st_events :: "payload list dict"
  st_states :: "stream_state dict"

datatype event_exn = EventValueError string | EventInvalid contract_exn

definition new_event_store :: event_store where
  "new_event_store = \<lparr>st_events = [], st_states = []\<rparr>"

definition MAX_EVENTS_PER_SESSION :: int where "MAX_EVENTS_PER_SESSION = 4096"

definition stream_in :: "string \<Rightarrow> event_store \<Rightarrow> payload list" where
  "stream_in sid st = (case map_of (st_events st) sid of None \<Rightarrow> [] | Some es \<Rightarrow> es)"

definition state_in :: "string \<Rightarrow> event_store \<Rightarrow> stream_state" where
  "state_in sid st = (case map_of (st_states st) sid of None \<Rightarrow> EventStreamState | Some s \<Rightarrow> s)"

definition put_stream :: "string \<Rightarrow> payload list \<Rightarrow> event_store \<Rightarrow> event_store" where
  "put_stream sid es st = st\<lparr>st_events := AList.update sid es (st_events st)\<rparr>"

definition put_state :: "string \<Rightarrow> stream_state \<Rightarrow> event_store \<Rightarrow> event_store" where
  "put_state sid s st = st\<lparr>st_states := AList.update sid s (st_states st)\<rparr>"

text \<open>Looking at a session creates its empty stream, and \<open>setdefault\<close> its fresh state, also when the
  event is then refused.\<close>

definition validate_and_commit :: "string \<Rightarrow> payload \<Rightarrow> event_store \<Rightarrow> (event_exn + payload) \<times> event_store" where
  "validate_and_commit sid stored st =
     (case validate_next_event stored (state_in sid st) of
        Inl e \<Rightarrow> (Inl (EventInvalid e), put_state sid (state_in sid st) st)
      | Inr s1 \<Rightarrow> (Inr stored, put_state sid s1 (put_stream sid (stream_in sid st @ [stored]) (put_state sid (state_in sid st) st))))"

definition append_redacted :: "payload \<Rightarrow> event_store \<Rightarrow> (event_exn + payload) \<times> event_store" where
  "append_redacted redacted st =
     (case get_key redacted ''session_id'' of
        PStr (c # cs) \<Rightarrow>
          if MAX_EVENTS_PER_SESSION \<le> int (length (stream_in (c # cs) st))
          then (Inl (EventValueError ''EVENT_STORE_SESSION_LIMIT''), put_stream (c # cs) (stream_in (c # cs) st) st)
          else validate_and_commit (c # cs)
             (AList.update ''sequence'' (PInt (int (length (stream_in (c # cs) st)) + 1)) redacted)
             (put_stream (c # cs) (stream_in (c # cs) st) st)
      | _ \<Rightarrow> (Inl (EventValueError ''Event must contain a valid string session_id''), st))"

definition store_append :: "payload \<Rightarrow> event_store \<Rightarrow> (event_exn + payload) \<times> event_store" where
  "store_append p st = append_redacted (redact_event p) st"

definition get_events :: "string \<Rightarrow> int \<Rightarrow> event_store \<Rightarrow> payload list" where
  "get_events sid since st = filter (\<lambda>e. since < int_at e ''sequence'') (stream_in sid st)"

definition get_turn_events :: "string \<Rightarrow> string \<Rightarrow> event_store \<Rightarrow> payload list" where
  "get_turn_events sid turn st = filter (\<lambda>e. get_key e ''turn_id'' = PStr turn) (stream_in sid st)"

definition get_proposal_events :: "string \<Rightarrow> string \<Rightarrow> event_store \<Rightarrow> payload list" where
  "get_proposal_events sid pid st = filter (\<lambda>e. get_key e ''proposal_id'' = PStr pid) (stream_in sid st)"

text \<open>The outcome of a stored decision is a text.\<close>

definition blocked_outcome :: "string \<Rightarrow> bool" where
  "blocked_outcome outcome \<longleftrightarrow> prefix_of ''BLOCK'' outcome \<or> outcome \<in> {''NOT_VOICE_ACTIONABLE'', ''CONFIRM''}"

definition get_no_execution_evidence :: "string \<Rightarrow> string \<Rightarrow> event_store \<Rightarrow> payload option" where
  "get_no_execution_evidence sid pid st =
     (let events = get_proposal_events sid pid st;
          executions = filter (\<lambda>e. has_type e ''execution'') events in
      case List.find (\<lambda>e. has_type e ''decision'') events of
        None \<Rightarrow> None
      | Some d \<Rightarrow>
          if d \<noteq> [] \<and> length executions = 0 \<and> blocked_outcome (str_at d ''outcome'') then
            Some [(''session_id'', PStr sid), (''proposal_id'', PStr pid), (''decision_event'', PDict d),
                  (''outcome'', PStr (str_at d ''outcome'')), (''reason_code'', get_key d ''reason_code''),
                  (''execution_count'', PInt 0), (''has_no_execution_evidence'', PBool True)]
          else None)"

definition clear_events :: "string option \<Rightarrow> event_store \<Rightarrow> event_store" where
  "clear_events session st =
     (case session of
        Some (c # cs) \<Rightarrow> st\<lparr>st_events := AList.delete (c # cs) (st_events st), st_states := AList.delete (c # cs) (st_states st)\<rparr>
      | _ \<Rightarrow> new_event_store)"

definition poll_events :: "string \<Rightarrow> int \<Rightarrow> event_store \<Rightarrow> contract_exn + payload list" where
  "poll_events sid since st =
     (let events = get_events sid since st in
      if events = [] then Inr events
      else (case validate_event_stream (get_events sid 0 st) of Some e \<Rightarrow> Inl e | None \<Rightarrow> Inr events))"

datatype event_store_op = AppendEvent payload | ClearEvents "string option"

fun event_store_step :: "event_store_op \<Rightarrow> event_store \<Rightarrow> event_store" where
  "event_store_step (AppendEvent p) st = snd (store_append p st)"
| "event_store_step (ClearEvents session) st = clear_events session st"

definition store_run :: "event_store_op list \<Rightarrow> event_store \<Rightarrow> event_store" where
  "store_run ops st = fold event_store_step ops st"

section \<open>Replay\<close>

record replay_consumer =
  rc_timeline :: "(string \<times> pyval) list"
  rc_state :: payload
  rc_active :: "(string \<times> string) list"
  rc_proposals :: "payload list"
  rc_decisions :: "payload list"
  rc_executions :: "payload list"
  rc_calls :: int

definition EventReplayConsumer :: replay_consumer where
  "EventReplayConsumer =
     \<lparr>rc_timeline = [], rc_state = [], rc_active = [], rc_proposals = [], rc_decisions = [], rc_executions = [], rc_calls = 0\<rparr>"

text \<open>\<open>dict.update\<close>.\<close>

definition dict_update :: "payload \<Rightarrow> payload \<Rightarrow> payload" where
  "dict_update changes d = fold (\<lambda>(k, v). AList.update k v) changes d"

text \<open>\<open>to_text\<close> is \<open>str\<close> on a value.  A timeline entry is kept as its label and the value in its text.\<close>

definition consume_event :: "(pyval \<Rightarrow> string) \<Rightarrow> payload \<Rightarrow> replay_consumer \<Rightarrow> contract_exn + replay_consumer" where
  "consume_event to_text p c =
     (case public_payload_error p of
        Some e \<Rightarrow> Inl e
      | None \<Rightarrow>
          if \<not> has_key p ''event_type'' then Inl (ContractCrash ''KeyError'')
          else
            (let t = get_key p ''event_type''; line = (\<lambda>label v c. c\<lparr>rc_timeline := rc_timeline c @ [(label, v)]\<rparr>) in
             if t = PStr ''proposal'' then Inr (line ''proposal'' (get_key p ''intent'') (c\<lparr>rc_proposals := rc_proposals c @ [p]\<rparr>))
             else if t = PStr ''decision'' then Inr (line ''decision'' (get_key p ''outcome'') (c\<lparr>rc_decisions := rc_decisions c @ [p]\<rparr>))
             else if t = PStr ''execution'' then Inr (line ''execution'' (get_key p ''phase'') (c\<lparr>rc_executions := rc_executions c @ [p]\<rparr>))
             else if t = PStr ''state_changed'' then
               Inr (line ''state'' (get_or p ''actor'' (PStr ''UNKNOWN''))
                 (c\<lparr>rc_state := dict_update (dict_of (get_key p ''changes'')) (rc_state c)\<rparr>))
             else if t = PStr ''active_action'' then
               Inr (line ''active'' (get_key p ''phase'')
                 (c\<lparr>rc_active := AList.update (to_text (get_key p ''active_action_id'')) (to_text (get_key p ''phase'')) (rc_active c)\<rparr>))
             else Inr c))"

fun consume_events :: "(pyval \<Rightarrow> string) \<Rightarrow> payload list \<Rightarrow> replay_consumer \<Rightarrow> contract_exn + replay_consumer" where
  "consume_events to_text [] c = Inr c"
| "consume_events to_text (p # ps) c =
     (case consume_event to_text p c of Inl e \<Rightarrow> Inl e | Inr c1 \<Rightarrow> consume_events to_text ps c1)"

definition replay_events :: "(pyval \<Rightarrow> string) \<Rightarrow> payload list \<Rightarrow> contract_exn + replay_consumer" where
  "replay_events to_text ps =
     (case validate_event_stream ps of Some e \<Rightarrow> Inl e | None \<Rightarrow> consume_events to_text ps EventReplayConsumer)"

section \<open>What the store keeps\<close>

definition session_ok :: "string \<Rightarrow> event_store \<Rightarrow> bool" where
  "session_ok sid st \<longleftrightarrow>
     int (length (stream_in sid st)) \<le> MAX_EVENTS_PER_SESSION \<and>
     validate_events (stream_in sid st) EventStreamState = Inr (state_in sid st) \<and>
     (\<forall>e \<in> set (stream_in sid st). get_key e ''session_id'' = PStr sid)"

definition store_inv :: "event_store \<Rightarrow> bool" where
  "store_inv st \<longleftrightarrow> (\<forall>sid. session_ok sid st)"

lemma stream_put [simp]:
  "stream_in s (put_stream sid es st) = (if s = sid then es else stream_in s st)"
  "stream_in s (put_state sid x st) = stream_in s st"
  "state_in s (put_stream sid es st) = state_in s st"
  "state_in s (put_state sid x st) = (if s = sid then x else state_in s st)"
  by (simp_all add: stream_in_def state_in_def put_stream_def put_state_def update_conv')

lemma session_ok_put: "session_ok sid (put_stream s (stream_in s st) st) = session_ok sid st"
  "session_ok sid (put_state s (state_in s st) st) = session_ok sid st"
  by (simp_all add: session_ok_def)

lemma store_inv_put:
  "store_inv (put_stream s (stream_in s st) st) = store_inv st"
  "store_inv (put_state s (state_in s st) st) = store_inv st"
  by (simp_all add: store_inv_def session_ok_put)

lemma store_inv_new: "store_inv new_event_store"
  by (simp add: store_inv_def session_ok_def new_event_store_def stream_in_def state_in_def MAX_EVENTS_PER_SESSION_def)

lemma get_key_update [simp]: "get_key (AList.update f v p) g = (if g = f then v else get_key p g)"
  by (simp add: get_key_def update_conv')

text \<open>What an append does: it refuses and leaves every stream, or it adds the event it returns.\<close>

lemma append_cases:
  obtains (refused) e where "fst (store_append p st) = Inl e"
      "\<forall>s. stream_in s (snd (store_append p st)) = stream_in s st"
      "\<forall>s. state_in s (snd (store_append p st)) = state_in s st"
  | (stored) sid q s1 where "store_append p st =
        (Inr q, put_state sid s1 (put_stream sid (stream_in sid st @ [q])
          (put_state sid (state_in sid st) (put_stream sid (stream_in sid st) st))))"
      "get_key (redact_event p) ''session_id'' = PStr sid" "sid \<noteq> []"
      "q = AList.update ''sequence'' (PInt (int (length (stream_in sid st)) + 1)) (redact_event p)"
      "int (length (stream_in sid st)) < MAX_EVENTS_PER_SESSION"
      "validate_next_event q (state_in sid st) = Inr s1"
proof (cases "get_key (redact_event p) ''session_id''")
  case (PStr sid)
  then show ?thesis
  proof (cases sid)
    case Nil
    then show ?thesis using PStr by (intro refused) (auto simp: store_append_def append_redacted_def validate_and_commit_def)
  next
    case (Cons c cs)
    show ?thesis
    proof (cases "MAX_EVENTS_PER_SESSION \<le> int (length (stream_in sid st))")
      case True
      then show ?thesis using PStr Cons by (intro refused) (auto simp: store_append_def append_redacted_def validate_and_commit_def)
    next
      case False
      then show ?thesis using PStr Cons refused stored
        by (cases "validate_next_event (AList.update ''sequence'' (PInt (int (length (stream_in sid st)) + 1)) (redact_event p)) (state_in sid st)")
          (auto simp: store_append_def append_redacted_def validate_and_commit_def)
    qed
  qed
qed (auto intro!: refused simp: store_append_def append_redacted_def)

lemma append_inv: "store_inv st \<Longrightarrow> store_inv (snd (store_append p st))"
proof (cases p st rule: append_cases)
  case (refused e)
  assume "store_inv st"
  then show ?thesis using refused(2,3) by (simp add: store_inv_def session_ok_def)
next
  case (stored sid q s1)
  assume inv: "store_inv st"
  then have "session_ok sid st" by (simp add: store_inv_def)
  moreover have "get_key q ''session_id'' = PStr sid" using stored(2,4) by simp
  ultimately show ?thesis
    using inv stored(1,5,6) by (auto simp: store_inv_def session_ok_def validate_events_append)
qed

lemma cleared [simp]:
  "stream_in s (clear_events session st) = (if session \<in> {None, Some [], Some s} then [] else stream_in s st)"
  "state_in s (clear_events session st) = (if session \<in> {None, Some [], Some s} then EventStreamState else state_in s st)"
  by (auto simp: clear_events_def new_event_store_def stream_in_def state_in_def delete_conv' split: option.splits list.splits)

lemma clear_inv: "store_inv st \<Longrightarrow> store_inv (clear_events session st)"
  by (simp add: store_inv_def session_ok_def MAX_EVENTS_PER_SESSION_def)

lemma step_inv: "store_inv st \<Longrightarrow> store_inv (event_store_step op st)"
  by (cases op) (simp_all add: append_inv clear_inv)

lemma run_inv: "store_inv st \<Longrightarrow> store_inv (store_run ops st)"
  unfolding store_run_def by (induction ops arbitrary: st) (simp_all add: step_inv)

lemma reached_store: "session_ok sid (store_run ops new_event_store)"
  using run_inv [OF store_inv_new] by (simp add: store_inv_def)

lemma session_stream_ok: "session_ok sid st \<Longrightarrow> stream_ok (stream_in sid st) (state_in sid st)"
  by (simp add: session_ok_def stream_prefix)

lemma session_accepted: "session_ok sid st \<Longrightarrow> validate_event_stream (stream_in sid st) = None"
  by (auto simp: session_ok_def stream_accepted)

section \<open>Reading the store\<close>

lemma filter_above:
  assumes "\<forall>i < length es. f (es ! i) = int i + a"
  shows "filter (\<lambda>e. since < f e) es = drop (nat (since - a + 1)) es"
  using assms
proof (induction es arbitrary: a)
  case (Cons e es)
  have "f e = a" using Cons.prems by fastforce
  moreover have "\<forall>i < length es. f (es ! i) = int i + (a + 1)" using Cons.prems by (auto simp: nth_Cons')
  then have rest: "filter (\<lambda>e. since < f e) es = drop (nat (since - a)) es"
    using Cons.IH [of "a + 1"] by simp
  show ?case
  proof (cases "since < a")
    case True
    with rest \<open>f e = a\<close> show ?thesis by simp
  next
    case False
    then have "nat (since - a + 1) = Suc (nat (since - a))" by simp
    then show ?thesis using rest \<open>f e = a\<close> False by simp
  qed
qed simp

lemma stream_numbers:
  assumes "stream_ok es s" "i < length es"
  shows "int_at (es ! i) ''sequence'' = int i + 1"
proof -
  have "map (\<lambda>e. get_key e ''sequence'') es ! i = map PInt [1..int (length es)] ! i"
    using assms(1) by (simp add: stream_ok_def)
  then show ?thesis using assms(2) by (simp add: int_at_def)
qed

lemma get_events_drop: "session_ok sid st \<Longrightarrow> get_events sid since st = drop (nat since) (stream_in sid st)"
  using filter_above [of "stream_in sid st" "\<lambda>e. int_at e ''sequence''" 1 since]
    stream_numbers [OF session_stream_ok] by (simp add: get_events_def add.commute)

lemma consume_ok:
  "public_payload_error p = None \<Longrightarrow> get_key p ''kind'' = PStr ''event'' \<Longrightarrow> \<exists>c1. consume_event f p c = Inr c1"
  by (auto simp: consume_event_def public_payload_error_def event_payload_error_def member_check_def contract_check_def
      has_key_def get_key_def Let_def split: if_splits option.splits)

lemma consume_all_ok:
  "\<forall>p \<in> set ps. public_payload_error p = None \<and> get_key p ''kind'' = PStr ''event'' \<Longrightarrow>
   \<exists>c1. consume_events f ps c = Inr c1"
proof (induction ps arbitrary: c)
  case (Cons p ps)
  then obtain c1 where "consume_event f p c = Inr c1" using consume_ok by (meson list.set_intros(1))
  with Cons show ?case by simp
qed simp

lemma dict_key_str: "dict_key v = Some (KStr s) \<longleftrightarrow> v = PStr s"
  by (cases v) auto

lemma find_filter: "List.find P (filter Q xs) = List.find (\<lambda>x. Q x \<and> P x) xs"
  by (induction xs) auto

lemma proposal_decision:
  "List.find (\<lambda>e. has_type e ''decision'') (get_proposal_events sid pid st) = decision_of (KStr pid) (stream_in sid st)"
  by (simp add: get_proposal_events_def find_filter decision_of_def pid_of_def dict_key_str conj_commute)

lemma prefix_allow: "blocked_outcome outcome \<Longrightarrow> outcome \<noteq> ''ALLOW''"
  by (auto simp: blocked_outcome_def prefix_of_def)

lemma evidence_iff:
  assumes ok: "session_ok sid st" and d: "decision_of (KStr pid) (stream_in sid st) = Some d"
    and blocked: "blocked_outcome (str_at d ''outcome'')"
  shows "(\<forall>e \<in> set (get_proposal_events sid pid st). \<not> has_type e ''execution'') \<and>
    get_no_execution_evidence sid pid st =
      Some [(''session_id'', PStr sid), (''proposal_id'', PStr pid), (''decision_event'', PDict d),
            (''outcome'', PStr (str_at d ''outcome'')), (''reason_code'', get_key d ''reason_code''),
            (''execution_count'', PInt 0), (''has_no_execution_evidence'', PBool True)]"
proof -
  have "get_key d ''outcome'' \<noteq> PStr ''ALLOW''" using prefix_allow [OF blocked] by (auto simp: str_at_def)
  moreover have "d \<in> set (stream_in sid st) \<and> has_type d ''decision'' \<and> pid_of d = Some (KStr pid)"
    using d by (auto simp: decision_of_def find_Some_iff)
  ultimately have none: "\<forall>e \<in> set (get_proposal_events sid pid st). \<not> has_type e ''execution''"
    using unallowed_never_executes [OF session_accepted [OF ok], of d]
    by (auto simp: get_proposal_events_def pid_of_def dict_key_str)
  moreover have "d \<noteq> []" using d by (auto simp: decision_of_def find_Some_iff has_type_def get_key_def)
  ultimately show ?thesis
    using d blocked by (simp add: get_no_execution_evidence_def proposal_decision Let_def filter_empty_conv)
qed

lemma evidence_decided:
  "get_no_execution_evidence sid pid st = Some r \<Longrightarrow>
   \<exists>d. decision_of (KStr pid) (stream_in sid st) = Some d \<and> blocked_outcome (str_at d ''outcome'')"
  by (auto simp: get_no_execution_evidence_def proposal_decision Let_def split: option.splits if_splits)

lemma stored_decision:
  assumes "session_ok sid st"
  shows "d \<in> set (get_proposal_events sid pid st) \<and> has_type d ''decision'' \<longleftrightarrow>
    decision_of (KStr pid) (stream_in sid st) = Some d"
proof
  assume "d \<in> set (get_proposal_events sid pid st) \<and> has_type d ''decision''"
  then show "decision_of (KStr pid) (stream_in sid st) = Some d"
    using decision_is [OF session_accepted [OF assms], of d "KStr pid"]
    by (simp add: get_proposal_events_def pid_of_def)
next
  assume "decision_of (KStr pid) (stream_in sid st) = Some d"
  then show "d \<in> set (get_proposal_events sid pid st) \<and> has_type d ''decision''"
    by (auto simp: get_proposal_events_def decision_of_def find_Some_iff pid_of_def dict_key_str)
qed

lemma append_grows: "\<exists>ext. stream_in s (snd (store_append p st)) = stream_in s st @ ext"
  by (cases p st rule: append_cases) auto

lemma appends_grow:
  "\<forall>op \<in> set later. \<exists>p. op = AppendEvent p \<Longrightarrow> \<exists>ext. stream_in s (store_run later st) = stream_in s st @ ext"
proof (induction later arbitrary: st)
  case (Cons op later)
  then obtain p where p: "op = AppendEvent p" by auto
  obtain e1 where e1: "stream_in s (snd (store_append p st)) = stream_in s st @ e1" using append_grows by blast
  obtain e2 where "stream_in s (store_run later (snd (store_append p st))) = stream_in s (snd (store_append p st)) @ e2"
    using Cons by (meson list.set_intros(2))
  then show ?case using e1 p by (simp add: store_run_def)
qed (simp add: store_run_def)

lemma map_of_redacted:
  "map_of (map (\<lambda>(k, v). (k, g v)) (filter (\<lambda>(k, v). P k) d)) k = (if P k then map_option g (map_of d k) else None)"
  by (induction d) auto

lemma get_key_redact: "\<not> is_forbidden_key f \<Longrightarrow> get_key (redact_event p) f = redact_value (get_key p f)"
  by (simp add: redact_event_def get_key_def map_of_redacted split: option.splits)

lemma public_keys:
  "\<not> is_forbidden_key ''event_type''" "\<not> is_forbidden_key ''proposal_id''" "\<not> is_forbidden_key ''session_id''"
  by code_simp+

section \<open>Properties\<close>

text \<open>C36. Whatever is appended and cleared, by whomever and in whatever order, the events the store holds
  for a session are a stream the contract accepts, numbered from one without gaps and within the limit, of
  that session, without a private field.  So a poll never fails and gives exactly the events after the
  number it names, and the stream replays.\<close>

theorem stored_streams_valid:
  "let st = store_run ops new_event_store; es = stream_in sid st in
     validate_event_stream es = None \<and>
     map (\<lambda>e. get_key e ''sequence'') es = map PInt [1..int (length es)] \<and> int (length es) \<le> MAX_EVENTS_PER_SESSION \<and>
     (\<forall>e \<in> set es. get_key e ''session_id'' = PStr sid \<and> \<not> exposes_private (PDict e)) \<and>
     poll_events sid since st = Inr (drop (nat since) es) \<and> (\<exists>c. replay_events f es = Inr c)"
proof -
  define st where "st = store_run ops new_event_store"
  have ok: "session_ok sid st" unfolding st_def by (rule reached_store)
  note S = session_stream_ok [OF ok] session_accepted [OF ok]
  have shown: "\<forall>e \<in> set (stream_in sid st). public_payload_error e = None \<and> get_key e ''kind'' = PStr ''event''"
    using S(1) by (simp add: stream_ok_def)
  then have "\<forall>e \<in> set (stream_in sid st). \<not> exposes_private (PDict e)"
    by (auto simp: public_payload_error_def split: if_splits)
  moreover have "poll_events sid since st = Inr (drop (nat since) (stream_in sid st))"
    using S(2) get_events_drop [OF ok] by (simp add: poll_events_def Let_def)
  moreover have "\<exists>c. replay_events f (stream_in sid st) = Inr c"
    using S(2) consume_all_ok [OF shown] by (simp add: replay_events_def)
  ultimately show ?thesis
    using S ok by (simp add: Let_def st_def [symmetric] session_ok_def stream_ok_def)
qed

text \<open>What the contract accepts is stored.\<close>

fun numbered :: "int \<Rightarrow> payload list \<Rightarrow> payload list" where
  "numbered n [] = []"
| "numbered n (p # ps) = AList.update ''sequence'' (PInt n) p # numbered (n + 1) ps"

lemma accepted_appends_stored:
  assumes "\<forall>p \<in> set ps. redact_event p = p \<and> get_key p ''session_id'' = PStr sid" "sid \<noteq> []"
    "int (length (stream_in sid st) + length ps) \<le> MAX_EVENTS_PER_SESSION"
    "validate_events (numbered (int (length (stream_in sid st)) + 1) ps) (state_in sid st) = Inr s"
  shows "stream_in sid (store_run (map AppendEvent ps) st) =
    stream_in sid st @ numbered (int (length (stream_in sid st)) + 1) ps"
  using assms
proof (induction ps arbitrary: st)
  case (Cons p ps)
  define q where "q = AList.update ''sequence'' (PInt (int (length (stream_in sid st)) + 1)) p"
  obtain s1 where s1: "validate_next_event q (state_in sid st) = Inr s1"
    "validate_events (numbered (int (length (stream_in sid st)) + 2) ps) s1 = Inr s"
    using Cons.prems(4) by (auto simp: q_def add.assoc split: sum.splits)
  obtain c cs where sid: "sid = c # cs" using Cons.prems(2) by (cases sid) auto
  have eq: "store_append p st = validate_and_commit sid q (put_stream sid (stream_in sid st) st)"
    using Cons.prems(1,3) sid by (simp add: store_append_def append_redacted_def q_def)
  define st1 where "st1 = snd (store_append p st)"
  have st1: "stream_in sid st1 = stream_in sid st @ [q]" "state_in sid st1 = s1"
    using s1(1) by (simp_all add: st1_def eq validate_and_commit_def)
  have "stream_in sid (store_run (map AppendEvent ps) st1) =
      stream_in sid st1 @ numbered (int (length (stream_in sid st1)) + 1) ps"
    using Cons.prems(1-3) s1(2) by (intro Cons.IH) (simp_all add: st1 add.commute [of 2])
  then show ?case by (simp add: st1 store_run_def st1_def [symmetric] q_def add.commute [of _ 2])
qed (simp add: store_run_def)

text \<open>A stream of one allowed and one blocked proposal.\<close>

definition demo_base :: "string \<Rightarrow> ui_event_base" where
  "demo_base event = \<lparr>eb_session = ''s'', eb_turn = ''t1'', eb_request = ''r1'', eb_event_id = event,
     eb_occurred_at = ''2026-01-01T00:00:00Z'', eb_actor = ''AGENT''\<rparr>"

definition demo_events :: "payload list" where
  "demo_events = map (\<lambda>(event, e). event_dict (demo_base event) e)
     [(''e1'', ProposalEvent ''p1'' ''open_door'' []), (''e2'', DecisionEvent ''p1'' ''ALLOW'' ''PERMITTED'' ''R001'' 1),
      (''e3'', ExecutionEvent ''p1'' ''x1'' ''open_door'' ''started'' None), (''e4'', ProposalEvent ''p2'' ''open_trunk'' []),
      (''e5'', DecisionEvent ''p2'' ''BLOCK_UNSAFE'' ''MOVING'' ''R002'' 1)]"

definition demo_stream :: "payload list" where
  "demo_stream = numbered 1 demo_events"

definition PUBLIC_NAMES :: "string list" where
  "PUBLIC_NAMES =
    [''contract_version'', ''kind'', ''event_type'', ''event_id'', ''session_id'', ''turn_id'', ''request_id'', ''occurred_at'', ''actor'',
     ''sequence'', ''proposal_id'', ''intent'', ''summary'', ''outcome'', ''reason_code'', ''rule_id'', ''state_version'',
     ''execution_id'', ''phase'']"

lemma prefix_rules [simp]:
  "prefix_of [] s" "\<not> prefix_of (a # p) []" "prefix_of (a # p) (c # s) \<longleftrightarrow> a = c \<and> prefix_of p s"
  by (auto simp: prefix_of_def)

lemma public_names: "list_all (\<lambda>k. private_key k = False) PUBLIC_NAMES"
  by (simp add: PUBLIC_NAMES_def private_key_def squeezed_def lower_alnum_def lower_def lower_char_def PRIVATE_MARKERS_def Let_def)

lemma kept_names: "list_all (\<lambda>k. is_forbidden_key k = False) PUBLIC_NAMES"
  by (simp add: PUBLIC_NAMES_def is_forbidden_key_def squeezed_def lower_alnum_def lower_def lower_char_def PRIVATE_MARKERS_def
      REDACTION_MARKERS_def key_separator_def is_ws_def Let_def)

lemmas public_name_rules =
  public_names [unfolded list.pred_inject PUBLIC_NAMES_def] kept_names [unfolded list.pred_inject PUBLIC_NAMES_def]

lemmas payload_evaluation =
  event_payload_error_def public_payload_error_def member_check_def contract_check_def get_key_def shape_error_def
  first_error_Cons has_key_def only_fields_def UI_EVENT_TYPES_def fields_of_def UI_REQUIRED_def EVENT_FIELDS_def EVENT_BASE_def UI_COMMON_def
  SUPPORTED_CONTRACT_VERSIONS_def UI_CONTRACT_VERSION_def ui_identifier_def public_identifier_def int_at_least_def
  upper_lower_alnum_def lower_alnum_def lower_char_def Let_def AGENT_OUTCOMES_def EXECUTION_PHASES_def

lemmas step_evaluation =
  validate_next_event_def typed_step_def proposal_step_def decision_step_def execution_step_def with_key_def str_at_def turn_key_def
  EventStreamState_def get_key_def Let_def

lemma demo_events_eq:
  "demo_events = map (\<lambda>(t, e, fields).
     [(''contract_version'', PStr ''1.1.0''), (''kind'', PStr ''event''), (''event_type'', PStr t), (''event_id'', PStr e),
      (''session_id'', PStr ''s''), (''turn_id'', PStr ''t1''), (''request_id'', PStr ''r1''),
      (''occurred_at'', PStr ''2026-01-01T00:00:00Z''), (''actor'', PStr ''AGENT'')] @ map (\<lambda>(k, v). (k, PStr v)) fields @
      (if t = ''decision'' then [(''state_version'', PInt 1)] else []))
     [(''proposal'', ''e1'', [(''proposal_id'', ''p1''), (''intent'', ''open_door''), (''summary'', [])]),
      (''decision'', ''e2'', [(''proposal_id'', ''p1''), (''outcome'', ''ALLOW''), (''reason_code'', ''PERMITTED''), (''rule_id'', ''R001'')]),
      (''execution'', ''e3'', [(''proposal_id'', ''p1''), (''execution_id'', ''x1''), (''intent'', ''open_door''), (''phase'', ''started'')]),
      (''proposal'', ''e4'', [(''proposal_id'', ''p2''), (''intent'', ''open_trunk''), (''summary'', [])]),
      (''decision'', ''e5'', [(''proposal_id'', ''p2''), (''outcome'', ''BLOCK_UNSAFE''), (''reason_code'', ''MOVING''), (''rule_id'', ''R002'')])]"
  by (simp add: demo_events_def demo_base_def event_dict_def event_head_def optional_def UI_CONTRACT_VERSION_def)

lemma demo_shown: "list_all (\<lambda>p. public_payload_error p = None) demo_stream"
  by (simp add: demo_stream_def demo_events_eq payload_evaluation public_name_rules)

lemma demo_accepted: "\<exists>s. validate_events demo_stream EventStreamState = Inr s"
  using demo_shown by (simp add: demo_stream_def demo_events_eq step_evaluation)

lemma demo_stored: "stream_in ''s'' (store_run (map AppendEvent demo_events) new_event_store) = demo_stream"
proof -
  obtain s where "validate_events demo_stream EventStreamState = Inr s" using demo_accepted by blast
  moreover have "\<forall>p \<in> set demo_events. redact_event p = p \<and> get_key p ''session_id'' = PStr ''s''"
    by (simp add: demo_events_eq redact_event_def get_key_def public_name_rules)
  moreover have "length demo_events = 5" by (simp add: demo_events_def)
  ultimately show ?thesis
    using accepted_appends_stored [of demo_events "''s''" new_event_store s]
    by (simp add: demo_stream_def new_event_store_def stream_in_def state_in_def MAX_EVENTS_PER_SESSION_def)
qed

lemma stored_streams_valid_witness:
  "poll_events ''s'' 2 (store_run (map AppendEvent demo_events) new_event_store) = Inr (drop 2 demo_stream) \<and>
   validate_event_stream demo_stream = None \<and>
   map (\<lambda>e. get_key e ''sequence'') demo_stream = [PInt 1, PInt 2, PInt 3, PInt 4, PInt 5]"
proof -
  have "length demo_stream = 5" by (simp add: demo_stream_def demo_events_eq)
  moreover have "[1..5] = [1, 2, 3, 4, 5 :: int]" by (simp add: upto.simps)
  ultimately show ?thesis
    using stored_streams_valid [of "map AppendEvent demo_events" "''s''" 2 "\<lambda>_. []"] by (simp add: Let_def demo_stored)
qed

text \<open>C37. An execution event of an accepted stream comes after the proposal it names, of the same turn,
  request and intent, and after that proposal's decision, which is ALLOW; and the events of one
  execution are a start and at most one end.\<close>

theorem executions_follow_allow:
  assumes "validate_event_stream es = None" "i < length es" "has_type (es ! i) ''execution''"
  shows "(\<exists>k q d. pid_of (es ! i) = Some k \<and> proposal_of k (take i es) = Some q \<and> decision_of k (take i es) = Some d \<and>
      get_key d ''outcome'' = PStr ''ALLOW'' \<and> turn_key q = turn_key (es ! i) \<and> turn_key d = turn_key (es ! i) \<and>
      py_eq (get_key q ''intent'') (get_key (es ! i) ''intent'')) \<and>
    (\<exists>n. eid_of (es ! i) = Some n \<and> one_run (executions_of n es))"
  using assms by (rule execution_backed)

lemma executions_follow_allow_witness:
  "\<exists>q d. proposal_of (KStr ''p1'') (take 2 demo_stream) = Some q \<and> decision_of (KStr ''p1'') (take 2 demo_stream) = Some d \<and>
   get_key d ''outcome'' = PStr ''ALLOW'' \<and> one_run (executions_of (KStr ''x1'') demo_stream)"
proof -
  have ok: "validate_event_stream demo_stream = None" using demo_accepted by (simp add: stream_accepted)
  have e: "2 < length demo_stream" "has_type (demo_stream ! 2) ''execution''"
    "pid_of (demo_stream ! 2) = Some (KStr ''p1'')" "eid_of (demo_stream ! 2) = Some (KStr ''x1'')"
    by (simp_all add: demo_stream_def demo_events_eq has_type_def pid_of_def eid_of_def get_key_def)
  from executions_follow_allow [OF ok e(1,2)] e(3,4) show ?thesis by auto
qed

text \<open>C38. The evidence that a proposal was not executed exists exactly when its decision is stored and
  blocks it, and it lasts: no later event, from any caller, makes the proposal executed in that session.\<close>

theorem no_execution_evidence_lasts:
  assumes "\<forall>op \<in> set later. \<exists>p. op = AppendEvent p"
  shows "let st = store_run ops new_event_store; st2 = store_run later st in
     (get_no_execution_evidence sid pid st \<noteq> None \<longleftrightarrow>
        (\<exists>d \<in> set (get_proposal_events sid pid st). has_type d ''decision'' \<and> blocked_outcome (str_at d ''outcome''))) \<and>
     (get_no_execution_evidence sid pid st \<noteq> None \<longrightarrow>
        get_no_execution_evidence sid pid st2 = get_no_execution_evidence sid pid st \<and>
        (\<forall>e \<in> set (get_proposal_events sid pid st2). \<not> has_type e ''execution''))"
proof -
  define st where "st = store_run ops new_event_store"
  define st2 where "st2 = store_run later st"
  have ok: "session_ok sid st" unfolding st_def by (rule reached_store)
  have ok2: "session_ok sid st2"
    using reached_store [of sid "ops @ later"] by (simp add: st2_def st_def store_run_def)
  have some: "get_no_execution_evidence sid pid st \<noteq> None \<longleftrightarrow>
      (\<exists>d. decision_of (KStr pid) (stream_in sid st) = Some d \<and> blocked_outcome (str_at d ''outcome''))"
    using evidence_iff [OF ok] evidence_decided by fastforce
  have "d \<in> set (get_proposal_events sid pid st) \<and> has_type d ''decision'' \<longleftrightarrow>
      decision_of (KStr pid) (stream_in sid st) = Some d" for d
    by (rule stored_decision [OF ok])
  then have stored: "(\<exists>d. decision_of (KStr pid) (stream_in sid st) = Some d \<and> blocked_outcome (str_at d ''outcome'')) \<longleftrightarrow>
      (\<exists>d \<in> set (get_proposal_events sid pid st). has_type d ''decision'' \<and> blocked_outcome (str_at d ''outcome''))"
    by blast
  obtain ext where ext: "stream_in sid st2 = stream_in sid st @ ext" using appends_grow [OF assms] st2_def by blast
  have lasts: "get_no_execution_evidence sid pid st2 = get_no_execution_evidence sid pid st \<and>
      (\<forall>e \<in> set (get_proposal_events sid pid st2). \<not> has_type e ''execution'')"
    if has: "get_no_execution_evidence sid pid st \<noteq> None"
  proof -
    obtain d where d: "decision_of (KStr pid) (stream_in sid st) = Some d" "blocked_outcome (str_at d ''outcome'')"
      using has some by blast
    have "decision_of (KStr pid) (stream_in sid st2) = Some d" using decision_of_append [OF d(1)] ext by simp
    from evidence_iff [OF ok2 this d(2)] evidence_iff [OF ok d] show ?thesis by simp
  qed
  from some stored lasts show ?thesis unfolding Let_def st_def [symmetric] st2_def [symmetric] by simp
qed

lemma no_execution_evidence_lasts_witness:
  "let st = store_run (map AppendEvent demo_events) new_event_store;
       late = event_dict (demo_base ''e6'') (ExecutionEvent ''p2'' ''x2'' ''open_trunk'' ''started'' None) in
   get_no_execution_evidence ''s'' ''p2'' (store_run [AppendEvent late] st) \<noteq> None \<and>
   (\<forall>e \<in> set (get_proposal_events ''s'' ''p2'' (store_run [AppendEvent late] st)). \<not> has_type e ''execution'')"
proof -
  define st where "st = store_run (map AppendEvent demo_events) new_event_store"
  define late where "late = event_dict (demo_base ''e6'') (ExecutionEvent ''p2'' ''x2'' ''open_trunk'' ''started'' None)"
  have "\<exists>d \<in> set (get_proposal_events ''s'' ''p2'' st). has_type d ''decision'' \<and> blocked_outcome (str_at d ''outcome'')"
    unfolding get_proposal_events_def st_def demo_stored
    by (rule bexI [of _ "demo_stream ! 4"])
      (simp_all add: demo_stream_def demo_events_eq has_type_def blocked_outcome_def str_at_def get_key_def)
  moreover have "\<forall>op \<in> set [AppendEvent late]. \<exists>p. op = AppendEvent p" by simp
  from no_execution_evidence_lasts [OF this, where ops = "map AppendEvent demo_events" and sid = "''s''" and pid = "''p2''"]
  have "(get_no_execution_evidence ''s'' ''p2'' st \<noteq> None \<longleftrightarrow>
      (\<exists>d \<in> set (get_proposal_events ''s'' ''p2'' st). has_type d ''decision'' \<and> blocked_outcome (str_at d ''outcome''))) \<and>
     (get_no_execution_evidence ''s'' ''p2'' st \<noteq> None \<longrightarrow>
        get_no_execution_evidence ''s'' ''p2'' (store_run [AppendEvent late] st) = get_no_execution_evidence ''s'' ''p2'' st \<and>
        (\<forall>e \<in> set (get_proposal_events ''s'' ''p2'' (store_run [AppendEvent late] st)). \<not> has_type e ''execution''))"
    by (simp add: Let_def st_def)
  ultimately show ?thesis unfolding Let_def st_def [symmetric] late_def [symmetric] by presburger
qed

text \<open>Once an execution of a proposal is stored, a further decision event for the proposal is
  refused, whatever its outcome and correlation: the decision by which the monitor stops a running
  action never reaches the stream.\<close>

lemma stop_decision_refused:
  assumes "e \<in> set (stream_in sid (store_run ops new_event_store))" "has_type e ''execution''"
    "get_key e ''proposal_id'' = PStr pid" "eb_session b = sid"
  shows "let st = store_run ops new_event_store;
             r = store_append (event_dict b (DecisionEvent pid outcome reason rule v)) st in
     (\<exists>x. fst r = Inl x) \<and> (\<forall>s. stream_in s (snd r) = stream_in s st)"
proof -
  define st where "st = store_run ops new_event_store"
  define p where "p = event_dict b (DecisionEvent pid outcome reason rule v)"
  have ok: "session_ok sid st" unfolding st_def by (rule reached_store)
  have keys: "get_key p ''session_id'' = PStr sid" "get_key p ''proposal_id'' = PStr pid" "get_key p ''event_type'' = PStr ''decision''"
    using assms(4) by (simp_all add: p_def event_dict_def event_head_def get_key_def)
  obtain d where d: "decision_of (KStr pid) (stream_in sid st) = Some d"
    using executed_decided [OF session_accepted [OF ok]] assms(1-3) unfolding st_def [symmetric]
    by (fastforce simp: pid_of_def)
  show ?thesis
  proof (cases p st rule: append_cases)
    case (refused x)
    then show ?thesis by (simp add: Let_def st_def [symmetric] p_def [symmetric])
  next
    case (stored sid2 q s1)
    then have sid2: "sid2 = sid" using keys(1) get_key_redact [OF public_keys(3)] by simp
    have q: "has_type q ''decision''" "pid_of q = Some (KStr pid)"
      using stored(4) keys get_key_redact [OF public_keys(1)] get_key_redact [OF public_keys(2)]
      by (simp_all add: has_type_def pid_of_def)
    have "validate_event_stream (stream_in sid st @ [q]) = None"
      using ok stored(6) sid2 by (simp add: session_ok_def stream_accepted validate_events_append)
    from decision_unique [OF this, of "length (stream_in sid st)"] q d show ?thesis by simp
  qed
qed

text \<open>The docstring of \<open>redact_event\<close> promises a payload without a private field.  It removes a key whose
  parts are markers; the contract refuses a key that only contains one.\<close>

lemma redaction_leaves_private_field:
  "exposes_private (PDict (redact_event [(''changes'', PDict [(''api_key_id'', PInt 1)])]))"
  by code_simp

end
