(* ===== verification/EventPipeline.thy ===== *)
theory EventPipeline
  imports EventStore
begin

text \<open>
  \<open>events/pipeline.py\<close> and the streaming adapter of \<open>events/adapters.py\<close>: an emission stores an event
  and then notifies the subscribers of its session, each of which has a queue that one thread at a time
  drains.  The store and the adapter have a lock each, so a step here is one stretch under a lock or one
  call of a callback; a state holds the events that are stored and not yet notified and the drains
  that are under way, and any thread may take the next step.  What a callback does is its answer:
  it returns or it raises.  The callback's own use of the pipeline is a step like any other; the
  error handlers that a subscriber may give are reported to and have no effect here.
\<close>

section \<open>Subscriptions\<close>

record subscriber =
  sb_session :: string
  sb_last :: int
  sb_pending :: "payload list"
  sb_delivering :: bool
  sb_high :: int

definition MAX_PENDING_EVENTS :: int where "MAX_PENDING_EVENTS = 256"

definition SessionSubscriber :: "string \<Rightarrow> int \<Rightarrow> subscriber" where
  "SessionSubscriber session since =
     \<lparr>sb_session = session, sb_last = since, sb_pending = [], sb_delivering = False, sb_high = since\<rparr>"

text \<open>What the notification does with one subscriber: nothing, drop it for its full queue, or queue the
  event, in which case it also starts a drain when none is running.\<close>

datatype notified = Passed | Overflowed | Queued subscriber bool

definition notify_one :: "payload \<Rightarrow> subscriber \<Rightarrow> notified" where
  "notify_one e x =
     (if get_key e ''session_id'' \<noteq> PStr (sb_session x) then Passed
      else if int_at e ''sequence'' \<le> sb_high x then Passed
      else if MAX_PENDING_EVENTS \<le> int (length (sb_pending x)) then Overflowed
      else Queued (x\<lparr>sb_pending := sb_pending x @ [e], sb_high := int_at e ''sequence'', sb_delivering := True\<rparr>)
             (\<not> sb_delivering x))"

fun notify_subs :: "payload \<Rightarrow> (string \<times> subscriber) list \<Rightarrow> (string \<times> subscriber) list \<times> string list \<times> string list" where
  "notify_subs e [] = ([], [], [])"
| "notify_subs e ((token, x) # subs) =
     (let (subs1, ready, overflow) = notify_subs e subs in
      case notify_one e x of
        Passed \<Rightarrow> ((token, x) # subs1, ready, overflow)
      | Overflowed \<Rightarrow> (subs1, ready, token # overflow)
      | Queued x1 starts \<Rightarrow> ((token, x1) # subs1, (if starts then token # ready else ready), overflow))"

text \<open>\<open>subscribe_session\<close> under the lock: the new subscriber, with the session's history in its queue.\<close>

definition new_subscriber :: "string \<Rightarrow> int \<Rightarrow> event_store \<Rightarrow> event_exn + subscriber" where
  "new_subscriber session since st =
     (let history = get_events session since st in
      if session = [] then Inl (EventValueError ''session_id must be non-empty'')
      else if since < 0 then Inl (EventValueError ''since_sequence must be a non-negative integer'')
      else if MAX_PENDING_EVENTS < int (length history)
      then Inl (EventValueError ''Replay exceeds bounded subscription window; use polling to catch up'')
      else Inr ((SessionSubscriber session since)\<lparr>
             sb_pending := history,
             sb_high := (if history = [] then since else int_at (last history) ''sequence''),
             sb_delivering := (history \<noteq> [])\<rparr>))"

section \<open>The pipeline and its threads\<close>

text \<open>\<open>pl_called\<close> lists the calls of the callbacks, \<open>pl_since\<close> what each token subscribed to; they only
  record what happened.  \<open>pl_drains\<close> has the token of each running drain, with the event while its
  callback runs.\<close>

record pipeline =
  pl_store :: event_store
  pl_subs :: "(string \<times> subscriber) list"
  pl_emitting :: "payload list"
  pl_drains :: "(string \<times> payload option) list"
  pl_called :: "(string \<times> payload) list"
  pl_since :: "(string \<times> string \<times> int) list"

definition AgentEventPipeline :: pipeline where
  "AgentEventPipeline =
     \<lparr>pl_store = new_event_store, pl_subs = [], pl_emitting = [], pl_drains = [], pl_called = [], pl_since = []\<rparr>"

text \<open>\<open>emit_raw\<close> up to the notification.\<close>

definition emit_store :: "payload \<Rightarrow> pipeline \<Rightarrow> pipeline" where
  "emit_store p s =
     (case store_append p (pl_store s) of
        (Inl e, st) \<Rightarrow> s\<lparr>pl_store := st\<rparr>
      | (Inr stored, st) \<Rightarrow> s\<lparr>pl_store := st, pl_emitting := pl_emitting s @ [stored]\<rparr>)"

definition emit_typed :: "ui_event_base \<Rightarrow> ui_event \<Rightarrow> pipeline \<Rightarrow> pipeline" where
  "emit_typed b e s = emit_store (event_dict b e) s"

text \<open>\<open>proposal_id or generate_id("prop")\<close>.\<close>

definition emit_proposal :: "ui_event_base \<Rightarrow> string \<Rightarrow> string option \<Rightarrow> string \<Rightarrow> string \<Rightarrow> pipeline \<Rightarrow> pipeline" where
  "emit_proposal b fresh pid intent summary s =
     emit_typed b (ProposalEvent (case pid of Some (c # cs) \<Rightarrow> c # cs | _ \<Rightarrow> fresh) intent summary) s"

definition emit_decision :: "ui_event_base \<Rightarrow> string \<Rightarrow> string \<Rightarrow> string \<Rightarrow> string \<Rightarrow> int \<Rightarrow> pipeline \<Rightarrow> pipeline" where
  "emit_decision b pid outcome reason rule v s = emit_typed b (DecisionEvent pid outcome reason rule v) s"

definition emit_execution ::
  "ui_event_base \<Rightarrow> string \<Rightarrow> string \<Rightarrow> string \<Rightarrow> string \<Rightarrow> payload option \<Rightarrow> pipeline \<Rightarrow> pipeline" where
  "emit_execution b pid eid intent phase detail s = emit_typed b (ExecutionEvent pid eid intent phase detail) s"

definition emit_state_changed :: "ui_event_base \<Rightarrow> int \<Rightarrow> payload \<Rightarrow> string option \<Rightarrow> pipeline \<Rightarrow> pipeline" where
  "emit_state_changed b v changes source s = emit_typed b (StateChangedEvent v changes source) s"

definition emit_active_action ::
  "ui_event_base \<Rightarrow> string \<Rightarrow> string \<Rightarrow> string \<Rightarrow> string \<Rightarrow> string \<Rightarrow> pyval option \<Rightarrow> pipeline \<Rightarrow> pipeline" where
  "emit_active_action b pid eid aid intent phase progress s =
     emit_typed b (ActiveActionEvent pid eid aid intent phase progress) s"

text \<open>The last two take no actor.\<close>

definition emit_turn_progress :: "ui_event_base \<Rightarrow> string \<Rightarrow> pyval \<Rightarrow> string option \<Rightarrow> pipeline \<Rightarrow> pipeline" where
  "emit_turn_progress b phase progress message s =
     emit_typed (b\<lparr>eb_actor := ''AGENT''\<rparr>) (TurnProgressEvent phase progress message) s"

definition emit_response_chunk ::
  "ui_event_base \<Rightarrow> string \<Rightarrow> int \<Rightarrow> string \<Rightarrow> string \<Rightarrow> bool \<Rightarrow> pipeline \<Rightarrow> pipeline" where
  "emit_response_chunk b stream index delta kind final s =
     emit_typed (b\<lparr>eb_actor := ''AGENT''\<rparr>) (ResponseChunkEvent stream index delta kind final) s"

text \<open>\<open>emit_raw\<close> from the notification on, for the event at one place of those under way.\<close>

definition emit_notify :: "nat \<Rightarrow> pipeline \<Rightarrow> pipeline" where
  "emit_notify i s =
     (let (subs, ready, overflow) = notify_subs (pl_emitting s ! i) (pl_subs s) in
      s\<lparr>pl_subs := subs, pl_emitting := take i (pl_emitting s) @ drop (Suc i) (pl_emitting s),
         pl_drains := pl_drains s @ map (\<lambda>token. (token, None)) ready\<rparr>)"

text \<open>One round of \<open>_drain\<close>: take the next event and call; the callback returns; the callback raises.\<close>

definition drain_take :: "string \<Rightarrow> pipeline \<Rightarrow> pipeline" where
  "drain_take token s =
     (case map_of (pl_subs s) token of
        None \<Rightarrow> s\<lparr>pl_drains := AList.delete token (pl_drains s)\<rparr>
      | Some x \<Rightarrow>
          (case sb_pending x of
             [] \<Rightarrow> s\<lparr>pl_subs := AList.update token (x\<lparr>sb_delivering := False\<rparr>) (pl_subs s),
                     pl_drains := AList.delete token (pl_drains s)\<rparr>
           | e # pending \<Rightarrow>
               s\<lparr>pl_subs := AList.update token (x\<lparr>sb_pending := pending\<rparr>) (pl_subs s),
                  pl_drains := AList.update token (Some e) (pl_drains s), pl_called := pl_called s @ [(token, e)]\<rparr>))"

definition drain_returned :: "string \<Rightarrow> payload \<Rightarrow> pipeline \<Rightarrow> pipeline" where
  "drain_returned token e s =
     (case map_of (pl_subs s) token of
        None \<Rightarrow> s\<lparr>pl_drains := AList.delete token (pl_drains s)\<rparr>
      | Some x \<Rightarrow>
          s\<lparr>pl_subs := AList.update token (x\<lparr>sb_last := int_at e ''sequence''\<rparr>) (pl_subs s),
             pl_drains := AList.update token None (pl_drains s)\<rparr>)"

definition drain_raised :: "string \<Rightarrow> pipeline \<Rightarrow> pipeline" where
  "drain_raised token s =
     s\<lparr>pl_subs := AList.delete token (pl_subs s), pl_drains := AList.delete token (pl_drains s)\<rparr>"

definition subscribe_session :: "string \<Rightarrow> string \<Rightarrow> int \<Rightarrow> pipeline \<Rightarrow> pipeline" where
  "subscribe_session token session since s =
     (case new_subscriber session since (pl_store s) of
        Inl e \<Rightarrow> s
      | Inr x \<Rightarrow>
          s\<lparr>pl_subs := AList.update token x (pl_subs s), pl_since := (token, session, since) # pl_since s,
             pl_drains := pl_drains s @ (if sb_delivering x then [(token, None)] else [])\<rparr>)"

definition unsubscribe_session :: "string \<Rightarrow> pipeline \<Rightarrow> pipeline" where
  "unsubscribe_session token s = s\<lparr>pl_subs := AList.delete token (pl_subs s)\<rparr>"

text \<open>The steps.  In an \<open>orderly\<close> run events are notified in the order they were stored and the store
  is never cleared.  A token is a \<open>uuid4\<close>: it was not given before.\<close>

inductive pipe_step :: "bool \<Rightarrow> pipeline \<Rightarrow> pipeline \<Rightarrow> bool" for orderly where
  stores: "pipe_step orderly s (emit_store p s)"
| notifies: "i < length (pl_emitting s) \<Longrightarrow> orderly \<longrightarrow> i = 0 \<Longrightarrow> pipe_step orderly s (emit_notify i s)"
| takes: "(token, None) \<in> set (pl_drains s) \<Longrightarrow> pipe_step orderly s (drain_take token s)"
| returns: "(token, Some e) \<in> set (pl_drains s) \<Longrightarrow> pipe_step orderly s (drain_returned token e s)"
| raises: "(token, Some e) \<in> set (pl_drains s) \<Longrightarrow> pipe_step orderly s (drain_raised token s)"
| subscribes: "token \<notin> fst ` set (pl_since s) \<Longrightarrow> pipe_step orderly s (subscribe_session token session since s)"
| unsubscribes: "pipe_step orderly s (unsubscribe_session token s)"
| clears: "\<not> orderly \<Longrightarrow> pipe_step orderly s (s\<lparr>pl_store := clear_events session (pl_store s)\<rparr>)"

section \<open>Order of delivery\<close>

definition calls_of :: "string \<Rightarrow> pipeline \<Rightarrow> payload list" where
  "calls_of token s = map snd (filter (\<lambda>(t, e). t = token) (pl_called s))"

definition queue_of :: "string \<Rightarrow> pipeline \<Rightarrow> payload list" where
  "queue_of token s = (case map_of (pl_subs s) token of None \<Rightarrow> [] | Some x \<Rightarrow> sb_pending x)"

abbreviation seq_of :: "payload \<Rightarrow> int" where "seq_of e \<equiv> int_at e ''sequence''"

text \<open>For one token: what was called and what is queued is of the session it asked for and increases, from
  above the number it asked for and up to the mark; and a drain runs exactly while it delivers.\<close>

definition subscription_ok :: "string \<Rightarrow> pipeline \<Rightarrow> bool" where
  "subscription_ok token s \<longleftrightarrow>
     (case map_of (pl_since s) token of
        None \<Rightarrow> map_of (pl_subs s) token = None \<and> calls_of token s = [] \<and> token \<notin> fst ` set (pl_drains s)
      | Some (session, since) \<Rightarrow>
          sorted_wrt (<) (since # map seq_of (calls_of token s @ queue_of token s)) \<and>
          (\<forall>e \<in> set (calls_of token s @ queue_of token s). get_key e ''session_id'' = PStr session) \<and>
          (case map_of (pl_subs s) token of
             None \<Rightarrow> True
           | Some x \<Rightarrow> sb_session x = session \<and> since \<le> sb_high x \<and>
               (\<forall>e \<in> set (calls_of token s @ queue_of token s). seq_of e \<le> sb_high x) \<and>
               (sb_pending x \<noteq> [] \<longrightarrow> sb_delivering x) \<and>
               (sb_delivering x \<longleftrightarrow> token \<in> fst ` set (pl_drains s))))"

definition pipe_ok :: "pipeline \<Rightarrow> bool" where
  "pipe_ok s \<longleftrightarrow>
     (\<forall>token. subscription_ok token s) \<and> distinct (map fst (pl_drains s)) \<and> distinct (map fst (pl_subs s)) \<and>
     store_inv (pl_store s)"

definition starts_drain :: "payload \<Rightarrow> subscriber \<Rightarrow> bool" where
  "starts_drain e x = (case notify_one e x of Queued x1 b \<Rightarrow> b | _ \<Rightarrow> False)"

definition kept_subs :: "payload \<Rightarrow> (string \<times> subscriber) list \<Rightarrow> (string \<times> subscriber) list" where
  "kept_subs e subs =
     concat (map (\<lambda>(t, x). case notify_one e x of Passed \<Rightarrow> [(t, x)] | Overflowed \<Rightarrow> [] | Queued x1 b \<Rightarrow> [(t, x1)]) subs)"

lemma kept_simps [simp]:
  "kept_subs e [] = []"
  "kept_subs e ((t, x) # subs) =
     (case notify_one e x of Passed \<Rightarrow> (t, x) # kept_subs e subs | Overflowed \<Rightarrow> kept_subs e subs
      | Queued x1 b \<Rightarrow> (t, x1) # kept_subs e subs)"
  by (simp_all add: kept_subs_def split: notified.splits)

lemma notify_subs_eq:
  "\<exists>overflow. notify_subs e subs = (kept_subs e subs, map fst (filter (\<lambda>(t, x). starts_drain e x) subs), overflow)"
  by (induction e subs rule: notify_subs.induct) (auto simp: starts_drain_def split: notified.splits)

lemma kept_keys: "fst ` set (kept_subs e subs) \<subseteq> fst ` set subs"
  by (induction e subs rule: notify_subs.induct) (auto split: notified.splits)

lemma kept_distinct: "distinct (map fst subs) \<Longrightarrow> distinct (map fst (kept_subs e subs))"
proof (induction e subs rule: notify_subs.induct)
  case (2 e t x subs)
  have "t \<notin> fst ` set (kept_subs e subs)" using kept_keys [of e subs] 2(2) by auto
  with 2 show ?case by (cases "notify_one e x") auto
qed simp

lemma kept_lookup:
  "distinct (map fst subs) \<Longrightarrow>
   map_of (kept_subs e subs) token =
      (case map_of subs token of None \<Rightarrow> None
       | Some x \<Rightarrow> (case notify_one e x of Passed \<Rightarrow> Some x | Overflowed \<Rightarrow> None | Queued x1 b \<Rightarrow> Some x1))"
proof (induction e subs rule: notify_subs.induct)
  case (2 e t x subs)
  have "map_of (kept_subs e subs) t = None"
    using kept_keys [of e subs] 2 by (auto simp: map_of_eq_None_iff)
  moreover have "map_of subs t = None" using 2 by (simp add: map_of_eq_None_iff)
  ultimately show ?case using 2 by (cases "notify_one e x") auto
qed simp

lemma ready_iff:
  "distinct (map fst subs) \<Longrightarrow>
   token \<in> fst ` set (filter (\<lambda>(t, x). starts_drain e x) subs) \<longleftrightarrow>
     (\<exists>x. map_of subs token = Some x \<and> starts_drain e x)"
  by (auto simp: image_iff dest: map_of_SomeD)

lemma queue_update:
  "map_of (pl_subs s) token = r \<Longrightarrow> queue_of token s = (case r of None \<Rightarrow> [] | Some x \<Rightarrow> sb_pending x)"
  by (simp add: queue_of_def)

lemma calls_snoc:
  "calls_of token (s\<lparr>pl_called := pl_called s @ [(t, e)]\<rparr>) = calls_of token s @ (if t = token then [e] else [])"
  by (simp add: calls_of_def)

lemma same_token_ok:
  assumes "subscription_ok token s" "map_of (pl_since s1) token = map_of (pl_since s) token" "calls_of token s1 = calls_of token s"
    "map_of (pl_subs s1) token = map_of (pl_subs s) token"
    "token \<in> fst ` set (pl_drains s1) \<longleftrightarrow> token \<in> fst ` set (pl_drains s)"
  shows "subscription_ok token s1"
  using assms by (simp add: subscription_ok_def queue_of_def cong: option.case_cong)

text \<open>A token may lose its subscription; what was called stays in order.\<close>

lemma gone_token_ok:
  assumes "subscription_ok token s" "pl_since s1 = pl_since s" "calls_of token s1 = calls_of token s"
    "map_of (pl_subs s1) token = None" "map_of (pl_since s) token \<noteq> None"
  shows "subscription_ok token s1"
  using assms by (auto simp: subscription_ok_def queue_of_def sorted_wrt_append split: option.splits)

lemma known_token: "subscription_ok token s \<Longrightarrow> token \<in> fst ` set (pl_drains s) \<or> map_of (pl_subs s) token \<noteq> None \<Longrightarrow>
   map_of (pl_since s) token \<noteq> None"
  by (auto simp: subscription_ok_def split: option.splits)

lemma queued_iff:
  "notify_one e x = Queued x1 b \<longleftrightarrow>
     get_key e ''session_id'' = PStr (sb_session x) \<and> sb_high x < seq_of e \<and> int (length (sb_pending x)) < MAX_PENDING_EVENTS \<and>
     x1 = x\<lparr>sb_pending := sb_pending x @ [e], sb_high := seq_of e, sb_delivering := True\<rparr> \<and> b = (\<not> sb_delivering x)"
  by (auto simp: notify_one_def)

lemma queued_token_ok:
  assumes ok: "subscription_ok token s" and x: "map_of (pl_subs s) token = Some x" "notify_one e x = Queued x1 b"
    and s1: "pl_since s1 = pl_since s" "calls_of token s1 = calls_of token s" "map_of (pl_subs s1) token = Some x1"
      "token \<in> fst ` set (pl_drains s1)"
  shows "subscription_ok token s1"
proof -
  obtain session since where k: "map_of (pl_since s) token = Some (session, since)"
    using known_token [OF ok] x by auto
  have x1: "x1 = x\<lparr>sb_pending := sb_pending x @ [e], sb_high := seq_of e, sb_delivering := True\<rparr>"
    "get_key e ''session_id'' = PStr (sb_session x)" "sb_high x < seq_of e"
    using x(2) by (simp_all add: queued_iff)
  have old: "sorted_wrt (<) (since # map seq_of (calls_of token s @ sb_pending x))"
    "\<forall>e \<in> set (calls_of token s @ sb_pending x). get_key e ''session_id'' = PStr session"
    "sb_session x = session" "since \<le> sb_high x" "\<forall>e \<in> set (calls_of token s @ sb_pending x). seq_of e \<le> sb_high x"
    using ok k x(1) by (simp_all add: subscription_ok_def queue_of_def)
  have below: "\<forall>e' \<in> set (calls_of token s @ sb_pending x). seq_of e' < seq_of e" using old(5) x1(3) by force
  then have "sorted_wrt (<) (since # map seq_of (calls_of token s @ sb_pending x @ [e]))"
    using old(1,4) x1(3) by (auto simp: sorted_wrt_append)
  moreover have "\<forall>e' \<in> set (calls_of token s @ sb_pending x @ [e]). seq_of e' \<le> seq_of e \<and> get_key e' ''session_id'' = PStr session"
    using old(2,3) x1(2) below by (auto intro: less_imp_le)
  moreover have eq: "calls_of token s1 @ queue_of token s1 = calls_of token s @ sb_pending x @ [e]"
    using s1 x1(1) by (simp add: queue_of_def)
  moreover have "sb_session x1 = session" "since \<le> seq_of e" "sb_delivering x1" and high: "sb_high x1 = seq_of e"
    using old(3,4) x1 by simp_all
  ultimately show ?thesis unfolding subscription_ok_def s1(1) k s1(3) option.case prod.case eq high using s1(4) by blast
qed

lemma key_update [simp]: "t \<in> fst ` set (AList.update k v d) \<longleftrightarrow> t = k \<or> t \<in> fst ` set d"
  by (induction d) auto

lemma key_delete [simp]: "t \<in> fst ` set (AList.delete k d) \<longleftrightarrow> t \<noteq> k \<and> t \<in> fst ` set d"
  by (induction d) auto

lemma notify_ok:
  assumes "pipe_ok s"
  shows "pipe_ok (emit_notify i s)"
proof -
  define e where "e = pl_emitting s ! i"
  define ready where "ready = map fst (filter (\<lambda>(t, x). starts_drain e x) (pl_subs s))"
  define s1 where "s1 = emit_notify i s"
  obtain over where n: "notify_subs e (pl_subs s) = (kept_subs e (pl_subs s), ready, over)"
    using notify_subs_eq [of e "pl_subs s"] by (auto simp: ready_def)
  have s1: "pl_subs s1 = kept_subs e (pl_subs s)" "pl_drains s1 = pl_drains s @ map (\<lambda>token. (token, None)) ready"
    "pl_since s1 = pl_since s" "pl_store s1 = pl_store s" "calls_of token s1 = calls_of token s" for token
    using n by (simp_all add: s1_def emit_notify_def e_def calls_of_def)
  have d: "distinct (map fst (pl_subs s))" using assms by (simp add: pipe_ok_def)
  have in_ready: "token \<in> set ready \<longleftrightarrow> (\<exists>x. map_of (pl_subs s) token = Some x \<and> starts_drain e x)" for token
    using ready_iff [OF d] by (simp add: ready_def)
  have keys: "fst ` set (pl_drains s1) = fst ` set (pl_drains s) \<union> set ready" by (simp add: s1 image_Un image_image)
  have T: "subscription_ok token s1" for token
  proof -
    have ok: "subscription_ok token s" using assms by (simp add: pipe_ok_def)
    show ?thesis
    proof (cases "map_of (pl_subs s) token")
      case None
      then show ?thesis
        using same_token_ok [OF ok, of s1] in_ready keys kept_lookup [OF d] by (simp add: s1)
    next
      case (Some x)
      then have known: "map_of (pl_since s) token \<noteq> None" using known_token [OF ok] by simp
      show ?thesis
      proof (cases "notify_one e x")
        case Passed
        then show ?thesis
          using same_token_ok [OF ok, of s1] in_ready keys kept_lookup [OF d] Some by (simp add: s1 starts_drain_def)
      next
        case Overflowed
        then show ?thesis using gone_token_ok [OF ok, of s1] kept_lookup [OF d] Some known by (simp add: s1)
      next
        case (Queued x1 b)
        have "sb_delivering x \<Longrightarrow> token \<in> fst ` set (pl_drains s)"
          using ok Some known by (auto simp: subscription_ok_def)
        moreover have "starts_drain e x \<longleftrightarrow> \<not> sb_delivering x"
          using Queued by (simp add: starts_drain_def) (simp add: queued_iff)
        ultimately have "token \<in> fst ` set (pl_drains s1)" using Some keys in_ready by blast
        then show ?thesis
          using queued_token_ok [OF ok Some Queued, of s1] kept_lookup [OF d] Some Queued by (simp add: s1)
      qed
    qed
  qed
  have "token \<notin> fst ` set (pl_drains s)" if r: "token \<in> set ready" for token
  proof -
    obtain x where x: "map_of (pl_subs s) token = Some x" "starts_drain e x" using in_ready r by blast
    then have "\<not> sb_delivering x" by (auto simp: starts_drain_def queued_iff split: notified.splits)
    moreover have "subscription_ok token s" using assms by (simp add: pipe_ok_def)
    ultimately show ?thesis using x(1) known_token [of token s] by (auto simp: subscription_ok_def split: option.splits)
  qed
  moreover have "distinct ready" using d by (simp add: ready_def distinct_map_filter)
  ultimately have "distinct (map fst (pl_drains s1))"
    using assms by (auto simp: s1 pipe_ok_def comp_def)
  then show ?thesis
    using assms T kept_distinct [OF d] unfolding s1_def [symmetric] pipe_ok_def by (simp add: s1)
qed

lemma token_ok_of: "pipe_ok s \<Longrightarrow> subscription_ok token s"
  by (simp add: pipe_ok_def)

lemma running_delivers:
  assumes "subscription_ok token s" "map_of (pl_subs s) token = Some x"
  shows "sb_delivering x \<longleftrightarrow> token \<in> fst ` set (pl_drains s)"
proof -
  obtain k where "map_of (pl_since s) token = Some k" using known_token [OF assms(1)] assms(2) by blast
  then show ?thesis using assms by (cases k) (simp add: subscription_ok_def)
qed

lemma other_store_ok:
  assumes "pipe_ok s" "store_inv (pl_store s1)" "pl_subs s1 = pl_subs s" "pl_drains s1 = pl_drains s"
    "pl_since s1 = pl_since s" "pl_called s1 = pl_called s"
  shows "pipe_ok s1"
proof -
  have "subscription_ok token s1" for token
    using same_token_ok [OF token_ok_of [OF assms(1), of token], of s1] assms(3-6) by (simp add: calls_of_def)
  then show ?thesis using assms(1-4) by (simp add: pipe_ok_def)
qed

lemma store_ok:
  assumes "pipe_ok s"
  shows "pipe_ok (emit_store p s)"
proof -
  obtain r st where r: "store_append p (pl_store s) = (r, st)" by fastforce
  have "store_inv st" using append_inv [of "pl_store s" p] assms r by (simp add: pipe_ok_def)
  then show ?thesis by (intro other_store_ok [OF assms]) (cases r; simp add: emit_store_def r)+
qed

lemma clear_ok:
  assumes "pipe_ok s"
  shows "pipe_ok (s\<lparr>pl_store := clear_events session (pl_store s)\<rparr>)"
  using assms by (intro other_store_ok [OF assms]) (simp_all add: pipe_ok_def clear_inv)

lemma unsubscribe_ok:
  assumes "pipe_ok s"
  shows "pipe_ok (unsubscribe_session t s)"
proof -
  define s1 where "s1 = unsubscribe_session t s"
  have s1: "pl_subs s1 = AList.delete t (pl_subs s)" "pl_drains s1 = pl_drains s" "pl_since s1 = pl_since s"
    "pl_store s1 = pl_store s" "calls_of token s1 = calls_of token s" for token
    by (simp_all add: s1_def unsubscribe_session_def calls_of_def)
  have "subscription_ok token s1" for token
  proof (cases "token = t \<and> map_of (pl_since s) token \<noteq> None")
    case True
    then show ?thesis
      by (intro gone_token_ok [OF token_ok_of [OF assms, of token], of s1]) (auto simp: s1 delete_conv')
  next
    case False
    then have "map_of (pl_subs s1) token = map_of (pl_subs s) token"
      using known_token [OF token_ok_of [OF assms, of token]]
      by (cases "token = t"; cases "map_of (pl_subs s) t") (auto simp: s1 delete_conv')
    then show ?thesis using same_token_ok [OF token_ok_of [OF assms, of token], of s1] by (simp add: s1)
  qed
  then show ?thesis using assms unfolding s1_def [symmetric] by (simp add: pipe_ok_def s1 distinct_delete)
qed

lemma raised_ok:
  assumes "pipe_ok s"
  shows "pipe_ok (drain_raised t s)"
proof -
  define s1 where "s1 = drain_raised t s"
  have s1: "pl_subs s1 = AList.delete t (pl_subs s)" "pl_drains s1 = AList.delete t (pl_drains s)" "pl_since s1 = pl_since s"
    "pl_store s1 = pl_store s" "calls_of token s1 = calls_of token s" for token
    by (simp_all add: s1_def drain_raised_def calls_of_def)
  have "subscription_ok token s1" for token
  proof (cases "token = t")
    case True
    show ?thesis
    proof (cases "map_of (pl_since s) token")
      case None
      then show ?thesis using token_ok_of [OF assms, of token] True by (simp add: subscription_ok_def s1 delete_conv')
    next
      case (Some k)
      then show ?thesis
        using gone_token_ok [OF token_ok_of [OF assms, of token], of s1] True by (simp add: s1 delete_conv')
    qed
  next
    case False
    then show ?thesis using same_token_ok [OF token_ok_of [OF assms, of token], of s1] by (simp add: s1 delete_conv')
  qed
  then show ?thesis using assms unfolding s1_def [symmetric] by (simp add: pipe_ok_def s1 distinct_delete)
qed

text \<open>A drain's own subscriber: calls and queue together stay what they were.\<close>

lemma moved_token_ok:
  assumes ok: "subscription_ok token s" and x: "map_of (pl_subs s) token = Some x" "map_of (pl_subs s1) token = Some x1"
    and s1: "pl_since s1 = pl_since s" "calls_of token s1 @ sb_pending x1 = calls_of token s @ sb_pending x"
    and x1: "sb_session x1 = sb_session x" "sb_high x1 = sb_high x"
      "sb_delivering x1 \<longleftrightarrow> token \<in> fst ` set (pl_drains s1)" "sb_pending x1 \<noteq> [] \<longrightarrow> sb_delivering x1"
  shows "subscription_ok token s1"
proof -
  obtain session since where k: "map_of (pl_since s) token = Some (session, since)"
    using known_token [OF ok] x by auto
  have q: "calls_of token s1 @ queue_of token s1 = calls_of token s @ queue_of token s"
    using s1(2) x by (simp add: queue_of_def)
  show ?thesis
    using ok unfolding subscription_ok_def s1(1) k option.case prod.case q x x1(1,2) using x1(3,4) by blast
qed

lemma take_ok:
  assumes "pipe_ok s" "(t, None) \<in> set (pl_drains s)"
  shows "pipe_ok (drain_take t s)"
proof -
  define s1 where "s1 = drain_take t s"
  have t: "t \<in> fst ` set (pl_drains s)" using assms(2) by force
  have d: "distinct (map fst (pl_drains s1))" "distinct (map fst (pl_subs s1))" "pl_since s1 = pl_since s" "pl_store s1 = pl_store s"
    using assms(1)
    by (auto simp: s1_def drain_take_def pipe_ok_def distinct_delete distinct_update split: option.splits list.splits)
  have "subscription_ok token s1" for token
  proof (cases "token = t")
    case False
    then have "calls_of token s1 = calls_of token s" "map_of (pl_subs s1) token = map_of (pl_subs s) token"
      "token \<in> fst ` set (pl_drains s1) \<longleftrightarrow> token \<in> fst ` set (pl_drains s)"
      by (simp_all add: s1_def drain_take_def calls_of_def update_conv' split: option.splits list.splits)
    then show ?thesis using same_token_ok [OF token_ok_of [OF assms(1), of token], of s1] d(3) by simp
  next
    case True
    note ok = token_ok_of [OF assms(1), of t]
    show ?thesis
    proof (cases "map_of (pl_subs s) t")
      case None
      then have "map_of (pl_subs s1) t = None" "calls_of t s1 = calls_of t s" by (simp_all add: s1_def drain_take_def calls_of_def)
      then show ?thesis using gone_token_ok [OF ok d(3)] known_token [OF ok] t True by simp
    next
      case (Some x)
      show ?thesis
      proof (cases "sb_pending x")
        case Nil
        then show ?thesis using True Some
          by (intro moved_token_ok [OF ok [folded True], of x s1 "x\<lparr>sb_delivering := False\<rparr>"])
            (simp_all add: s1_def drain_take_def calls_of_def update_conv')
      next
        case (Cons e pending)
        have "sb_delivering x" using running_delivers [OF ok Some] t by simp
        then show ?thesis using True Some Cons t
          by (intro moved_token_ok [OF ok [folded True], of x s1 "x\<lparr>sb_pending := pending\<rparr>"])
            (simp_all add: s1_def drain_take_def calls_of_def update_conv')
      qed
    qed
  qed
  then show ?thesis using assms(1) d unfolding s1_def [symmetric] by (simp add: pipe_ok_def)
qed

lemma returned_ok:
  assumes "pipe_ok s" "(t, Some e) \<in> set (pl_drains s)"
  shows "pipe_ok (drain_returned t e s)"
proof -
  define s1 where "s1 = drain_returned t e s"
  have t: "t \<in> fst ` set (pl_drains s)" using assms(2) by force
  have d: "distinct (map fst (pl_drains s1))" "distinct (map fst (pl_subs s1))" "pl_since s1 = pl_since s" "pl_store s1 = pl_store s"
    using assms(1) by (auto simp: s1_def drain_returned_def pipe_ok_def distinct_delete distinct_update split: option.splits)
  have calls: "calls_of token s1 = calls_of token s" for token
    by (simp add: s1_def drain_returned_def calls_of_def split: option.splits)
  have "subscription_ok token s1" for token
  proof (cases "token = t")
    case False
    then have "map_of (pl_subs s1) token = map_of (pl_subs s) token"
      "token \<in> fst ` set (pl_drains s1) \<longleftrightarrow> token \<in> fst ` set (pl_drains s)"
      by (simp_all add: s1_def drain_returned_def update_conv' split: option.splits)
    then show ?thesis using same_token_ok [OF token_ok_of [OF assms(1), of token], of s1] d(3) calls by simp
  next
    case True
    note ok = token_ok_of [OF assms(1), of t]
    show ?thesis
    proof (cases "map_of (pl_subs s) t")
      case None
      then have "map_of (pl_subs s1) t = None" by (simp add: s1_def drain_returned_def)
      then show ?thesis using gone_token_ok [OF ok d(3) calls] known_token [OF ok] t True by simp
    next
      case (Some x)
      have "sb_delivering x" using running_delivers [OF ok Some] t by simp
      then show ?thesis using True Some t calls
        by (intro moved_token_ok [OF ok [folded True], of x s1 "x\<lparr>sb_last := seq_of e\<rparr>"])
          (simp_all add: s1_def drain_returned_def update_conv')
    qed
  qed
  then show ?thesis using assms(1) d unfolding s1_def [symmetric] by (simp add: pipe_ok_def)
qed

lemma history_ok:
  assumes "session_ok sid st"
  shows "sorted_wrt (<) (since # map seq_of (get_events sid since st)) \<and>
    (\<forall>e \<in> set (get_events sid since st). get_key e ''session_id'' = PStr sid)"
proof -
  have seqs: "map seq_of (stream_in sid st) = [1..int (length (stream_in sid st))]"
  proof -
    have "map (\<lambda>v. case v of PInt i \<Rightarrow> i | _ \<Rightarrow> 0) (map (\<lambda>e. get_key e ''sequence'') (stream_in sid st)) =
        map (\<lambda>v. case v of PInt i \<Rightarrow> i | _ \<Rightarrow> 0) (map PInt [1..int (length (stream_in sid st))])"
      using session_stream_ok [OF assms] by (simp only: stream_ok_def)
    then show ?thesis by (simp add: comp_def int_at_def)
  qed
  have "sorted_wrt (<) (map seq_of (stream_in sid st))" unfolding seqs by simp
  then have "sorted_wrt (<) (map seq_of (get_events sid since st))"
    unfolding get_events_def sorted_wrt_map by (rule sorted_wrt_filter)
  moreover have "\<forall>e \<in> set (get_events sid since st). since < seq_of e" by (simp add: get_events_def)
  moreover have "\<forall>e \<in> set (get_events sid since st). get_key e ''session_id'' = PStr sid"
    using assms by (simp add: get_events_def session_ok_def)
  ultimately show ?thesis by simp
qed

lemma subscribe_ok:
  assumes "pipe_ok s" "t \<notin> fst ` set (pl_since s)"
  shows "pipe_ok (subscribe_session t session since s)"
proof (cases "new_subscriber session since (pl_store s)")
  case (Inl e)
  then show ?thesis using assms by (simp add: subscribe_session_def)
next
  case (Inr x)
  define h where "h = get_events session since (pl_store s)"
  define s1 where "s1 = subscribe_session t session since s"
  have x: "x = \<lparr>sb_session = session, sb_last = since, sb_pending = h, sb_delivering = (h \<noteq> []),
      sb_high = (if h = [] then since else seq_of (last h))\<rparr>"
    using Inr by (auto simp: new_subscriber_def SessionSubscriber_def h_def Let_def split: if_splits)
  have s1: "pl_subs s1 = AList.update t x (pl_subs s)" "pl_since s1 = (t, session, since) # pl_since s" "pl_store s1 = pl_store s"
    "pl_drains s1 = pl_drains s @ (if h \<noteq> [] then [(t, None)] else [])" "calls_of token s1 = calls_of token s" for token
    using Inr by (simp_all add: s1_def subscribe_session_def calls_of_def x)
  have old: "map_of (pl_since s) t = None" using assms(2) by (simp add: map_of_eq_None_iff)
  then have new: "calls_of t s = []" "t \<notin> fst ` set (pl_drains s)"
    using token_ok_of [OF assms(1), of t] by (simp_all add: subscription_ok_def)
  have h: "sorted_wrt (<) (since # map seq_of h)" "\<forall>e \<in> set h. get_key e ''session_id'' = PStr session"
    using history_ok [of session "pl_store s" since] assms(1) by (simp_all add: h_def pipe_ok_def store_inv_def)
  have low: "h \<noteq> [] \<Longrightarrow> since \<le> seq_of (last h)" using h(1) by (auto intro: less_imp_le)
  have top: "h \<noteq> [] \<Longrightarrow> \<forall>e \<in> set h. seq_of e \<le> seq_of (last h)"
    using h(1) by (induction h rule: rev_induct) (auto simp: sorted_wrt_append intro: less_imp_le)
  have "subscription_ok token s1" for token
  proof (cases "token = t")
    case True
    have "queue_of t s1 = h" by (simp add: queue_of_def s1(1) update_conv' x)
    then show ?thesis
      using True h top low new by (auto simp: subscription_ok_def s1 update_conv' x)
  next
    case False
    then show ?thesis
      by (intro same_token_ok [OF token_ok_of [OF assms(1), of token], of s1]) (auto simp: s1 update_conv')
  qed
  then show ?thesis
    using assms(1) new unfolding s1_def [symmetric] by (auto simp: pipe_ok_def s1 distinct_update)
qed

lemma pipe_step_ok: "pipe_step orderly s s1 \<Longrightarrow> pipe_ok s \<Longrightarrow> pipe_ok s1"
  by (induction rule: pipe_step.induct)
    (simp_all add: store_ok notify_ok take_ok returned_ok raised_ok subscribe_ok unsubscribe_ok clear_ok)

lemma pipe_ok_start: "pipe_ok AgentEventPipeline"
  by (simp add: pipe_ok_def AgentEventPipeline_def subscription_ok_def calls_of_def store_inv_new)

lemma pipe_run_ok: "(pipe_step orderly)\<^sup>*\<^sup>* AgentEventPipeline s \<Longrightarrow> pipe_ok s"
  by (induction rule: rtranclp_induct) (simp_all add: pipe_ok_start pipe_step_ok)

section \<open>Nothing is lost in an orderly run\<close>

definition in_flight :: "string \<Rightarrow> pipeline \<Rightarrow> payload list" where
  "in_flight sid s = filter (\<lambda>e. get_key e ''session_id'' = PStr sid) (pl_emitting s)"

text \<open>\<open>got\<close> is what a subscriber above \<open>since\<close> has up to its mark, of a stream of which all but the events
  from place \<open>k\<close> on have been notified.\<close>

definition follows :: "payload list \<Rightarrow> int \<Rightarrow> int \<Rightarrow> payload list \<Rightarrow> nat \<Rightarrow> bool" where
  "follows got since high es k \<longleftrightarrow>
     got = drop (nat since) (take (nat high) es) \<and> 0 \<le> since \<and> since \<le> high \<and> int k \<le> high \<and>
     (high \<le> int (length es) \<or> high = since)"

definition session_complete :: "string \<Rightarrow> pipeline \<Rightarrow> bool" where
  "session_complete sid s \<longleftrightarrow>
     (\<exists>k \<le> length (stream_in sid (pl_store s)).
        in_flight sid s = drop k (stream_in sid (pl_store s)) \<and>
        (\<forall>token x since. map_of (pl_subs s) token = Some x \<longrightarrow> map_of (pl_since s) token = Some (sid, since) \<longrightarrow>
           follows (calls_of token s @ sb_pending x) since (sb_high x) (stream_in sid (pl_store s)) k))"

lemma follows_grow: "follows got since high es k \<Longrightarrow> follows got since high (es @ [q]) k"
  by (auto simp: follows_def)

lemma follows_skip: "follows got since high es k \<Longrightarrow> int k < high \<Longrightarrow> follows got since high es (Suc k)"
  by (simp add: follows_def)

lemma follows_next:
  "follows got since high es k \<Longrightarrow> high \<le> int k \<Longrightarrow> k < length es \<Longrightarrow> follows (got @ [es ! k]) since (int k + 1) es (Suc k)"
  by (auto simp: follows_def take_Suc_conv_app_nth nat_add_distrib)

lemma follows_start:
  assumes "0 \<le> since" "k \<le> length es"
  shows "follows (drop (nat since) es) since (if drop (nat since) es = [] then since else int (length es)) es k"
  using assms by (auto simp: follows_def)

lemma complete_kept:
  assumes "session_complete sid s" "stream_in sid (pl_store s1) = stream_in sid (pl_store s)" "pl_emitting s1 = pl_emitting s"
    "\<And>token x1 since. map_of (pl_subs s1) token = Some x1 \<Longrightarrow> map_of (pl_since s1) token = Some (sid, since) \<Longrightarrow>
       \<exists>x. map_of (pl_subs s) token = Some x \<and> map_of (pl_since s) token = Some (sid, since) \<and> sb_high x1 = sb_high x \<and>
         calls_of token s1 @ sb_pending x1 = calls_of token s @ sb_pending x"
  shows "session_complete sid s1"
proof -
  obtain k where k: "k \<le> length (stream_in sid (pl_store s))" "in_flight sid s = drop k (stream_in sid (pl_store s))"
    "\<forall>token x since. map_of (pl_subs s) token = Some x \<longrightarrow> map_of (pl_since s) token = Some (sid, since) \<longrightarrow>
       follows (calls_of token s @ sb_pending x) since (sb_high x) (stream_in sid (pl_store s)) k"
    using assms(1) unfolding session_complete_def by blast
  have "in_flight sid s1 = in_flight sid s" using assms(3) by (simp add: in_flight_def)
  moreover have "follows (calls_of token s1 @ sb_pending x1) since (sb_high x1) (stream_in sid (pl_store s)) k"
    if h: "map_of (pl_subs s1) token = Some x1" "map_of (pl_since s1) token = Some (sid, since)" for token x1 since
    using assms(4) [OF h] k(3) by metis
  ultimately show ?thesis using k(1,2) unfolding session_complete_def assms(2) by metis
qed

lemma complete_store:
  assumes "session_complete sid s" "pipe_ok s"
  shows "session_complete sid (emit_store p s)"
proof (cases p "pl_store s" rule: append_cases)
  case (refused e)
  then show ?thesis
    by (intro complete_kept [OF assms(1)])
      (auto simp: emit_store_def calls_of_def split: prod.splits sum.splits)
next
  case (stored sid2 q s1)
  have q: "get_key q ''session_id'' = PStr sid2" using stored(2,4) by simp
  have e: "emit_store p s = s\<lparr>pl_store := snd (store_append p (pl_store s)), pl_emitting := pl_emitting s @ [q]\<rparr>"
    using stored(1) by (simp add: emit_store_def)
  have st: "stream_in sid (pl_store (emit_store p s)) = stream_in sid (pl_store s) @ (if sid2 = sid then [q] else [])"
    unfolding e using stored(1) by simp
  have fl: "in_flight sid (emit_store p s) = in_flight sid s @ (if sid2 = sid then [q] else [])"
    unfolding e by (simp add: in_flight_def q)
  obtain k where k: "k \<le> length (stream_in sid (pl_store s))" "in_flight sid s = drop k (stream_in sid (pl_store s))"
    "\<forall>token x since. map_of (pl_subs s) token = Some x \<longrightarrow> map_of (pl_since s) token = Some (sid, since) \<longrightarrow>
       follows (calls_of token s @ sb_pending x) since (sb_high x) (stream_in sid (pl_store s)) k"
    using assms(1) unfolding session_complete_def by blast
  have same: "pl_subs (emit_store p s) = pl_subs s" "pl_since (emit_store p s) = pl_since s"
    "calls_of token (emit_store p s) = calls_of token s" for token
    unfolding e by (simp_all add: calls_of_def)
  show ?thesis
    unfolding session_complete_def st fl same
    by (rule exI [of _ k]) (use k in \<open>auto intro: follows_grow\<close>)
qed

lemma emit_notify_fields:
  "pl_subs (emit_notify i s) = kept_subs (pl_emitting s ! i) (pl_subs s)" "pl_since (emit_notify i s) = pl_since s"
  "pl_store (emit_notify i s) = pl_store s" "calls_of token (emit_notify i s) = calls_of token s"
  "pl_emitting (emit_notify i s) = take i (pl_emitting s) @ drop (Suc i) (pl_emitting s)"
  using notify_subs_eq [of "pl_emitting s ! i" "pl_subs s"] by (auto simp: emit_notify_def calls_of_def)

text \<open>A subscriber after a notification: what it has follows the stream past the event.\<close>

lemma notified_follows:
  assumes "follows (c @ sb_pending x) since (sb_high x) es k" "k < length es" "es ! k = e" "seq_of e = int k + 1"
    "get_key e ''session_id'' = PStr (sb_session x)"
    "notify_one e x = Passed \<and> x1 = x \<or> notify_one e x = Queued x1 b"
  shows "follows (c @ sb_pending x1) since (sb_high x1) es (Suc k)"
proof (cases "seq_of e \<le> sb_high x")
  case True
  then have "x1 = x" using assms(6) by (auto simp: queued_iff)
  then show ?thesis using follows_skip [OF assms(1)] True assms(4) by simp
next
  case False
  then have "x1 = x\<lparr>sb_pending := sb_pending x @ [e], sb_high := seq_of e, sb_delivering := True\<rparr>"
    using assms(5,6) by (auto simp: queued_iff notify_one_def split: if_splits)
  then show ?thesis using follows_next [OF assms(1) _ assms(2)] False assms(3,4) by simp
qed

lemma complete_notify:
  assumes "session_complete sid s" "pipe_ok s" "pl_emitting s \<noteq> []"
  shows "session_complete sid (emit_notify 0 s)"
proof -
  obtain e rest where er: "pl_emitting s = e # rest" using assms(3) by (cases "pl_emitting s") auto
  have d: "distinct (map fst (pl_subs s))" and ok: "session_ok sid (pl_store s)"
    using assms(2) by (simp_all add: pipe_ok_def store_inv_def)
  define es where "es = stream_in sid (pl_store s)"
  obtain k where k: "k \<le> length es" "in_flight sid s = drop k es"
    "\<forall>token x since. map_of (pl_subs s) token = Some x \<longrightarrow> map_of (pl_since s) token = Some (sid, since) \<longrightarrow>
       follows (calls_of token s @ sb_pending x) since (sb_high x) es k"
    using assms(1) unfolding session_complete_def es_def by blast
  have own: "sb_session x = sid" if "map_of (pl_subs s) token = Some x" "map_of (pl_since s) token = Some (sid, since)" for token x since
    using token_ok_of [OF assms(2), of token] that by (simp add: subscription_ok_def)
  have kept: "\<exists>x b. map_of (pl_subs s) token = Some x \<and> (notify_one e x = Passed \<and> x1 = x \<or> notify_one e x = Queued x1 b)"
    if "map_of (pl_subs (emit_notify 0 s)) token = Some x1" for token x1
    using that kept_lookup [OF d, of e token] by (auto simp: emit_notify_fields er split: option.splits notified.splits)
  show ?thesis
  proof (cases "get_key e ''session_id'' = PStr sid")
    case False
    have "in_flight sid (emit_notify 0 s) = in_flight sid s" using False by (simp add: in_flight_def emit_notify_fields er)
    moreover have "follows (calls_of token s @ sb_pending x1) since (sb_high x1) es k"
      if h: "map_of (pl_subs (emit_notify 0 s)) token = Some x1" "map_of (pl_since s) token = Some (sid, since)" for token x1 since
    proof -
      obtain x b where x: "map_of (pl_subs s) token = Some x" "notify_one e x = Passed \<and> x1 = x \<or> notify_one e x = Queued x1 b"
        using kept [OF h(1)] by blast
      then have "x1 = x" using own [OF x(1) h(2)] False by (auto simp: queued_iff)
      then show ?thesis using k(3) x(1) h(2) by blast
    qed
    ultimately show ?thesis using k(1,2) unfolding session_complete_def emit_notify_fields es_def [symmetric]
      by (intro exI [of _ k]) auto
  next
    case True
    have fl: "in_flight sid s = e # filter (\<lambda>e. get_key e ''session_id'' = PStr sid) rest" using True by (simp add: in_flight_def er)
    then have lt: "k < length es" using k(2) by (cases "k < length es") auto
    have "e # filter (\<lambda>e. get_key e ''session_id'' = PStr sid) rest = es ! k # drop (Suc k) es"
      using fl k(2) Cons_nth_drop_Suc [OF lt] by simp
    then have at: "es ! k = e" "in_flight sid (emit_notify 0 s) = drop (Suc k) es"
      by (simp_all add: in_flight_def emit_notify_fields er)
    have seq: "seq_of e = int k + 1" using stream_numbers [OF session_stream_ok [OF ok], of k] lt at(1) by (simp add: es_def)
    have "follows (calls_of token s @ sb_pending x1) since (sb_high x1) es (Suc k)"
      if h: "map_of (pl_subs (emit_notify 0 s)) token = Some x1" "map_of (pl_since s) token = Some (sid, since)" for token x1 since
    proof -
      obtain x b where x: "map_of (pl_subs s) token = Some x" "notify_one e x = Passed \<and> x1 = x \<or> notify_one e x = Queued x1 b"
        using kept [OF h(1)] by blast
      then show ?thesis
        using notified_follows [OF _ lt at(1) seq _ x(2)] k(3) h(2) own [OF x(1) h(2)] True by blast
    qed
    then show ?thesis using lt at(2) unfolding session_complete_def emit_notify_fields es_def [symmetric]
      by (intro exI [of _ "Suc k"]) auto
  qed
qed

lemma complete_take:
  assumes "session_complete sid s"
  shows "session_complete sid (drain_take t s)"
  by (rule complete_kept [OF assms])
    (auto simp: drain_take_def calls_of_def update_conv' split: option.splits list.splits if_splits)

lemma complete_returned:
  assumes "session_complete sid s"
  shows "session_complete sid (drain_returned t e s)"
  by (rule complete_kept [OF assms]) (auto simp: drain_returned_def calls_of_def update_conv' split: option.splits if_splits)

lemma complete_dropped:
  assumes "session_complete sid s"
  shows "session_complete sid (drain_raised t s)" "session_complete sid (unsubscribe_session t s)"
  by (rule complete_kept [OF assms];
      auto simp: drain_raised_def unsubscribe_session_def calls_of_def delete_conv' split: if_splits)+

lemma complete_subscribe:
  assumes "session_complete sid s" "pipe_ok s" "t \<notin> fst ` set (pl_since s)"
  shows "session_complete sid (subscribe_session t session since s)"
proof (cases "new_subscriber session since (pl_store s)")
  case (Inl e)
  then show ?thesis using assms by (simp add: subscribe_session_def)
next
  case (Inr x)
  define es where "es = stream_in sid (pl_store s)"
  have ok: "session_ok session (pl_store s)" using assms(2) by (simp add: pipe_ok_def store_inv_def)
  have x: "sb_pending x = drop (nat since) (stream_in session (pl_store s))" "0 \<le> since"
    "sb_high x = (if sb_pending x = [] then since else seq_of (last (sb_pending x)))"
    using Inr get_events_drop [OF ok] by (auto simp: new_subscriber_def SessionSubscriber_def Let_def split: if_splits)
  have fields: "pl_subs (subscribe_session t session since s) = AList.update t x (pl_subs s)"
    "pl_since (subscribe_session t session since s) = (t, session, since) # pl_since s"
    "pl_store (subscribe_session t session since s) = pl_store s"
    "calls_of token (subscribe_session t session since s) = calls_of token s"
    "in_flight sid (subscribe_session t session since s) = in_flight sid s" for token
    using Inr by (simp_all add: subscribe_session_def calls_of_def in_flight_def)
  have "map_of (pl_since s) t = None" using assms(3) by (simp add: map_of_eq_None_iff)
  then have none: "calls_of t s = []" using token_ok_of [OF assms(2), of t] by (simp add: subscription_ok_def)
  obtain k where k: "k \<le> length es" "in_flight sid s = drop k es"
    "\<forall>token x since. map_of (pl_subs s) token = Some x \<longrightarrow> map_of (pl_since s) token = Some (sid, since) \<longrightarrow>
       follows (calls_of token s @ sb_pending x) since (sb_high x) es k"
    using assms(1) unfolding session_complete_def es_def by blast
  have "follows (sb_pending x) since (sb_high x) es k" if "session = sid"
  proof -
    have p: "sb_pending x = drop (nat since) es" using x(1) that by (simp add: es_def)
    have "seq_of (last (sb_pending x)) = int (length es)" if "sb_pending x \<noteq> []"
    proof -
      have ne: "es \<noteq> []" and "nat since < length es" using p that by auto
      then have "last (sb_pending x) = es ! (length es - 1)" by (simp add: p last_conv_nth)
      then show ?thesis
        using stream_numbers [OF session_stream_ok [OF ok], of "length es - 1"] ne \<open>session = sid\<close>
        by (simp add: es_def Suc_le_eq)
    qed
    then show ?thesis using follows_start [OF x(2) k(1)] p x(3) by (simp split: if_splits)
  qed
  then show ?thesis
    using k none unfolding session_complete_def fields es_def [symmetric]
    by (intro exI [of _ k]) (auto simp: update_conv' split: if_splits)
qed

lemma pipe_step_complete:
  "pipe_step orderly s s1 \<Longrightarrow> orderly \<Longrightarrow> pipe_ok s \<Longrightarrow> session_complete sid s \<Longrightarrow> session_complete sid s1"
  by (induction rule: pipe_step.induct)
    (auto simp: complete_store complete_notify complete_take complete_returned complete_dropped complete_subscribe)

lemma complete_start: "session_complete sid AgentEventPipeline"
  by (simp add: session_complete_def AgentEventPipeline_def in_flight_def new_event_store_def stream_in_def)

lemma pipe_run_complete: "(pipe_step True)\<^sup>*\<^sup>* AgentEventPipeline s \<Longrightarrow> session_complete sid s"
proof (induction rule: rtranclp_induct)
  case base
  then show ?case by (rule complete_start)
next
  case (step s s1)
  then show ?case using pipe_step_complete [OF step.hyps(2)] pipe_run_ok [OF step.hyps(1)] by simp
qed

lemma pipe_step_relaxed: "pipe_step True s s1 \<Longrightarrow> pipe_step False s s1"
  by (induction rule: pipe_step.induct) (auto intro: pipe_step.intros)

section \<open>Runs of one subscription\<close>

lemma emit_accepted:
  assumes "redact_event p = p" "get_key p ''session_id'' = PStr sid" "sid \<noteq> []"
    "int (length (stream_in sid (pl_store s))) < MAX_EVENTS_PER_SESSION"
    "q = AList.update ''sequence'' (PInt (int (length (stream_in sid (pl_store s))) + 1)) p"
    "validate_next_event q (state_in sid (pl_store s)) = Inr s1"
  shows "pl_emitting (emit_store p s) = pl_emitting s @ [q] \<and> pl_subs (emit_store p s) = pl_subs s \<and>
    pl_drains (emit_store p s) = pl_drains s \<and> pl_called (emit_store p s) = pl_called s \<and>
    pl_since (emit_store p s) = pl_since s \<and>
    stream_in sid (pl_store (emit_store p s)) = stream_in sid (pl_store s) @ [q] \<and>
    state_in sid (pl_store (emit_store p s)) = s1"
proof -
  obtain c cs where sid: "sid = c # cs" using assms(3) by (cases sid) auto
  have "store_append p (pl_store s) = validate_and_commit sid q (put_stream sid (stream_in sid (pl_store s)) (pl_store s))"
    using assms(1,2,4,5) sid by (simp add: store_append_def append_redacted_def)
  then show ?thesis using assms(6) by (simp add: emit_store_def validate_and_commit_def)
qed

definition watched :: pipeline where
  "watched = subscribe_session ''sub'' ''s'' 0 AgentEventPipeline"

lemma watched_fields:
  "pl_subs watched = [(''sub'', SessionSubscriber ''s'' 0)]" "pl_emitting watched = []" "pl_drains watched = []"
  "pl_called watched = []" "pl_since watched = [(''sub'', ''s'', 0)]" "stream_in ''s'' (pl_store watched) = []"
  "state_in ''s'' (pl_store watched) = EventStreamState"
  by (simp_all add: watched_def subscribe_session_def AgentEventPipeline_def new_subscriber_def get_events_def stream_in_def
      state_in_def new_event_store_def SessionSubscriber_def Let_def MAX_PENDING_EVENTS_def)

lemma watched_reached: "(pipe_step orderly)\<^sup>*\<^sup>* AgentEventPipeline watched"
  unfolding watched_def by (rule r_into_rtranclp, rule subscribes) (simp add: AgentEventPipeline_def)

lemma demo_prefix:
  obtains q1 q2 s1 s2 where "demo_stream ! 0 = q1" "demo_stream ! 1 = q2"
    "validate_next_event q1 EventStreamState = Inr s1" "validate_next_event q2 s1 = Inr s2"
proof -
  have "demo_stream = demo_stream ! 0 # demo_stream ! 1 # drop 2 demo_stream"
    by (simp add: demo_stream_def demo_events_eq)
  then obtain s where "validate_events (demo_stream ! 0 # demo_stream ! 1 # drop 2 demo_stream) EventStreamState = Inr s"
    using demo_accepted by metis
  then show ?thesis using that by (auto split: sum.splits)
qed

lemma demo_event:
  "i < 5 \<Longrightarrow> redact_event (demo_events ! i) = demo_events ! i \<and> get_key (demo_events ! i) ''session_id'' = PStr ''s''"
  "i < 5 \<Longrightarrow> demo_stream ! i = AList.update ''sequence'' (PInt (int i + 1)) (demo_events ! i)"
  by (auto simp: less_Suc_eq numeral_eq_Suc demo_stream_def demo_events_eq redact_event_def get_key_def public_name_rules)

lemma demo_numbers: "i < 5 \<Longrightarrow> seq_of (demo_stream ! i) = int i + 1 \<and> get_key (demo_stream ! i) ''session_id'' = PStr ''s''"
  by (simp add: demo_event int_at_def)

definition one_emitted :: pipeline where "one_emitted = emit_store (demo_events ! 0) watched"

lemma emit_since: "pl_since (emit_store p s) = pl_since s"
  by (simp add: emit_store_def split: prod.splits sum.splits)

definition two_emitted :: pipeline where "two_emitted = emit_store (demo_events ! 1) one_emitted"

lemma one_emitted_fields:
  "pl_subs one_emitted = [(''sub'', SessionSubscriber ''s'' 0)]" "pl_emitting one_emitted = [demo_stream ! 0]" "pl_drains one_emitted = []"
  "pl_called one_emitted = []" "pl_since one_emitted = [(''sub'', ''s'', 0)]" "stream_in ''s'' (pl_store one_emitted) = [demo_stream ! 0]"
  "\<exists>s1. validate_next_event (demo_stream ! 0) EventStreamState = Inr s1 \<and> state_in ''s'' (pl_store one_emitted) = s1 \<and>
    (\<exists>s2. validate_next_event (demo_stream ! 1) s1 = Inr s2)"
proof -
  obtain q1 q2 s1 s2 where q: "demo_stream ! 0 = q1" "demo_stream ! 1 = q2" "validate_next_event q1 EventStreamState = Inr s1"
    "validate_next_event q2 s1 = Inr s2" by (rule demo_prefix)
  have "pl_emitting one_emitted = pl_emitting watched @ [q1] \<and> pl_subs one_emitted = pl_subs watched \<and>
    pl_drains one_emitted = pl_drains watched \<and> pl_called one_emitted = pl_called watched \<and>
    pl_since one_emitted = pl_since watched \<and>
    stream_in ''s'' (pl_store one_emitted) = stream_in ''s'' (pl_store watched) @ [q1] \<and> state_in ''s'' (pl_store one_emitted) = s1"
    unfolding one_emitted_def using demo_event [of 0] q
    by (intro emit_accepted) (simp_all add: watched_fields MAX_EVENTS_PER_SESSION_def)
  then show "pl_subs one_emitted = [(''sub'', SessionSubscriber ''s'' 0)]" "pl_emitting one_emitted = [demo_stream ! 0]" "pl_drains one_emitted = []"
    "pl_called one_emitted = []" "pl_since one_emitted = [(''sub'', ''s'', 0)]" "stream_in ''s'' (pl_store one_emitted) = [demo_stream ! 0]"
    "\<exists>s1. validate_next_event (demo_stream ! 0) EventStreamState = Inr s1 \<and> state_in ''s'' (pl_store one_emitted) = s1 \<and>
      (\<exists>s2. validate_next_event (demo_stream ! 1) s1 = Inr s2)"
    using q by (simp_all add: watched_fields)
qed

lemma two_emitted_fields:
  "pl_subs two_emitted = [(''sub'', SessionSubscriber ''s'' 0)]" "pl_emitting two_emitted = [demo_stream ! 0, demo_stream ! 1]"
  "pl_drains two_emitted = []" "pl_called two_emitted = []" "stream_in ''s'' (pl_store two_emitted) = [demo_stream ! 0, demo_stream ! 1]"
proof -
  obtain s1 s2 where q: "state_in ''s'' (pl_store one_emitted) = s1" "validate_next_event (demo_stream ! 1) s1 = Inr s2"
    using one_emitted_fields(7) by blast
  have "pl_emitting two_emitted = pl_emitting one_emitted @ [demo_stream ! 1] \<and> pl_subs two_emitted = pl_subs one_emitted \<and>
    pl_drains two_emitted = pl_drains one_emitted \<and> pl_called two_emitted = pl_called one_emitted \<and>
    pl_since two_emitted = pl_since one_emitted \<and>
    stream_in ''s'' (pl_store two_emitted) = stream_in ''s'' (pl_store one_emitted) @ [demo_stream ! 1] \<and>
    state_in ''s'' (pl_store two_emitted) = s2"
    unfolding two_emitted_def using demo_event [of 1] q
    by (intro emit_accepted) (simp_all add: one_emitted_fields MAX_EVENTS_PER_SESSION_def)
  then show "pl_subs two_emitted = [(''sub'', SessionSubscriber ''s'' 0)]" "pl_emitting two_emitted = [demo_stream ! 0, demo_stream ! 1]"
    "pl_drains two_emitted = []" "pl_called two_emitted = []" "stream_in ''s'' (pl_store two_emitted) = [demo_stream ! 0, demo_stream ! 1]"
    by (simp_all add: one_emitted_fields)
qed

lemma emitted_since: "pl_since two_emitted = [(''sub'', ''s'', 0)]"
  by (simp add: two_emitted_def one_emitted_def emit_since watched_fields)

lemma emitted_reached:
  "(pipe_step orderly)\<^sup>*\<^sup>* AgentEventPipeline one_emitted" "(pipe_step orderly)\<^sup>*\<^sup>* AgentEventPipeline two_emitted"
  unfolding two_emitted_def one_emitted_def
  by (meson watched_reached stores rtranclp.rtrancl_into_rtrancl)+

text \<open>Two emitters of one session store their events and then notify in the other order: the first
  event stays behind the mark and is never delivered, though nothing is under way any more.\<close>

lemma reversed_notify_loses_event:
  "\<exists>s. (pipe_step False)\<^sup>*\<^sup>* AgentEventPipeline s \<and> pl_emitting s = [] \<and> pl_drains s = [] \<and> queue_of ''sub'' s = [] \<and>
     map_of (pl_since s) ''sub'' = Some (''s'', 0) \<and> map_of (pl_subs s) ''sub'' \<noteq> None \<and>
     stream_in ''s'' (pl_store s) = [demo_stream ! 0, demo_stream ! 1] \<and> calls_of ''sub'' s = [demo_stream ! 1]"
proof -
  let ?q1 = "demo_stream ! 0" and ?q2 = "demo_stream ! 1"
  note n = demo_numbers [of 0, simplified] demo_numbers [of 1, simplified]
  define x where "x = \<lparr>sb_session = ''s'', sb_last = 0, sb_pending = [?q2], sb_delivering = True, sb_high = 2\<rparr>"
  define s1 where "s1 = emit_notify 1 two_emitted"
  have s1: "pl_subs s1 = [(''sub'', x)]" "pl_emitting s1 = [?q1]" "pl_drains s1 = [(''sub'', None)]" "pl_called s1 = []"
    "pl_store s1 = pl_store two_emitted" "pl_since s1 = pl_since two_emitted"
    using n by (simp_all add: s1_def emit_notify_def two_emitted_fields notify_one_def SessionSubscriber_def MAX_PENDING_EVENTS_def x_def)
  define s2 where "s2 = emit_notify 0 s1"
  have s2: "pl_subs s2 = [(''sub'', x)]" "pl_emitting s2 = []" "pl_drains s2 = [(''sub'', None)]" "pl_called s2 = []"
    "pl_store s2 = pl_store two_emitted" "pl_since s2 = pl_since two_emitted"
    using n by (simp_all add: s2_def emit_notify_def s1 notify_one_def x_def)
  define s3 where "s3 = drain_take ''sub'' s2"
  have s3: "pl_subs s3 = [(''sub'', x\<lparr>sb_pending := []\<rparr>)]" "pl_emitting s3 = []" "pl_drains s3 = [(''sub'', Some ?q2)]"
    "pl_called s3 = [(''sub'', ?q2)]" "pl_store s3 = pl_store two_emitted" "pl_since s3 = pl_since two_emitted"
    by (simp_all add: s3_def drain_take_def s2 x_def)
  define s4 where "s4 = drain_returned ''sub'' ?q2 s3"
  have s4: "pl_subs s4 = [(''sub'', x\<lparr>sb_pending := [], sb_last := seq_of ?q2\<rparr>)]" "pl_emitting s4 = []" "pl_drains s4 = [(''sub'', None)]"
    "pl_called s4 = [(''sub'', ?q2)]" "pl_store s4 = pl_store two_emitted" "pl_since s4 = pl_since two_emitted"
    by (simp_all add: s4_def drain_returned_def s3)
  define s5 where "s5 = drain_take ''sub'' s4"
  have s5: "pl_subs s5 = [(''sub'', x\<lparr>sb_pending := [], sb_last := seq_of ?q2, sb_delivering := False\<rparr>)]" "pl_emitting s5 = []" "pl_drains s5 = []"
    "pl_called s5 = [(''sub'', ?q2)]" "pl_store s5 = pl_store two_emitted" "pl_since s5 = pl_since two_emitted"
    by (simp_all add: s5_def drain_take_def s4)
  have "pipe_step False two_emitted s1" unfolding s1_def by (rule notifies) (simp_all add: two_emitted_fields)
  moreover have "pipe_step False s1 s2" unfolding s2_def by (rule notifies) (simp_all add: s1)
  moreover have "pipe_step False s2 s3" unfolding s3_def by (rule takes) (simp add: s2)
  moreover have "pipe_step False s3 s4" unfolding s4_def by (rule returns) (simp add: s3)
  moreover have "pipe_step False s4 s5" unfolding s5_def by (rule takes) (simp add: s4)
  ultimately have "(pipe_step False)\<^sup>*\<^sup>* AgentEventPipeline s5"
    using emitted_reached(2) by (meson rtranclp.rtrancl_into_rtrancl)
  moreover have "map_of (pl_since s5) ''sub'' = Some (''s'', 0)"
    using emitted_since by (simp add: s5)
  ultimately show ?thesis
    by (intro exI [of _ s5]) (simp add: s5 queue_of_def calls_of_def two_emitted_fields)
qed

section \<open>Properties\<close>

text \<open>C39. However the emissions, notifications, drains, subscriptions and cancellations of all threads
  interleave, and also when the store is cleared in between, the callback of a subscription is called
  for events of its session only, in increasing number above the one it asked for, so that no event comes
  twice; and no two drains run for one subscription, so its callbacks never overlap.\<close>

theorem deliveries_in_order:
  assumes "(pipe_step orderly)\<^sup>*\<^sup>* AgentEventPipeline s" "map_of (pl_since s) token = Some (session, since)"
  shows "sorted_wrt (<) (since # map seq_of (calls_of token s)) \<and>
    (\<forall>e \<in> set (calls_of token s). get_key e ''session_id'' = PStr session) \<and> distinct (map fst (pl_drains s))"
proof -
  have ok: "pipe_ok s" using pipe_run_ok [OF assms(1)] .
  then have "distinct (map fst (pl_drains s))" by (simp add: pipe_ok_def)
  then show ?thesis using token_ok_of [OF ok, of token] assms(2) by (auto simp: subscription_ok_def sorted_wrt_append)
qed

definition one_delivered :: pipeline where
  "one_delivered = drain_take ''sub'' (emit_notify 0 one_emitted)"

lemma one_delivered_fields:
  "pl_since one_delivered = [(''sub'', ''s'', 0)]" "calls_of ''sub'' one_delivered = [demo_stream ! 0]"
  "\<exists>x. map_of (pl_subs one_delivered) ''sub'' = Some x \<and> sb_pending x = [] \<and> sb_high x = 1"
  "in_flight ''s'' one_delivered = []" "stream_in ''s'' (pl_store one_delivered) = [demo_stream ! 0]"
  using demo_numbers [of 0]
  by (simp_all add: one_delivered_def drain_take_def emit_notify_def one_emitted_fields notify_one_def SessionSubscriber_def
      MAX_PENDING_EVENTS_def calls_of_def in_flight_def)

lemma one_delivered_reached: "(pipe_step True)\<^sup>*\<^sup>* AgentEventPipeline one_delivered"
proof -
  have "pipe_step True one_emitted (emit_notify 0 one_emitted)" by (rule notifies) (simp_all add: one_emitted_fields)
  moreover have "(''sub'', None) \<in> set (pl_drains (emit_notify 0 one_emitted))"
    using demo_numbers [of 0]
    by (simp add: emit_notify_def one_emitted_fields notify_one_def SessionSubscriber_def MAX_PENDING_EVENTS_def)
  then have "pipe_step True (emit_notify 0 one_emitted) one_delivered" unfolding one_delivered_def by (rule takes)
  ultimately show ?thesis using emitted_reached(1) by (meson rtranclp.rtrancl_into_rtrancl)
qed

lemma deliveries_in_order_witness:
  "calls_of ''sub'' one_delivered = [demo_stream ! 0] \<and> 0 < seq_of (demo_stream ! 0) \<and>
   get_key (demo_stream ! 0) ''session_id'' = PStr ''s'' \<and> distinct (map fst (pl_drains one_delivered))"
proof -
  have "map_of (pl_since one_delivered) ''sub'' = Some (''s'', 0)" by (simp add: one_delivered_fields)
  from deliveries_in_order [OF one_delivered_reached this] show ?thesis by (simp add: one_delivered_fields)
qed

text \<open>C40. When events are notified in the order they were stored and the store is not cleared, nothing is
  lost: for a live subscription, the calls made, its queue and the events still to be notified are
  together the stored events above the number it asked for; and when none is under way and
  no drain runs, it has been called with exactly these.\<close>

theorem orderly_deliveries_complete:
  assumes "(pipe_step True)\<^sup>*\<^sup>* AgentEventPipeline s" "map_of (pl_subs s) token = Some x"
    "map_of (pl_since s) token = Some (session, since)"
  shows "calls_of token s @ sb_pending x @ filter (\<lambda>e. sb_high x < seq_of e) (in_flight session s) =
      drop (nat since) (stream_in session (pl_store s)) \<and>
    (in_flight session s = [] \<longrightarrow> token \<notin> fst ` set (pl_drains s) \<longrightarrow>
      calls_of token s = drop (nat since) (stream_in session (pl_store s)))"
proof -
  define es where "es = stream_in session (pl_store s)"
  have ok: "pipe_ok s" using pipe_run_ok [OF assms(1)] .
  then have sok: "session_ok session (pl_store s)" by (simp add: pipe_ok_def store_inv_def)
  obtain k where k: "k \<le> length es" "in_flight session s = drop k es"
    "follows (calls_of token s @ sb_pending x) since (sb_high x) es k"
    using pipe_run_complete [OF assms(1), of session] assms(2,3) unfolding session_complete_def es_def by blast
  have nums: "\<forall>i < length (drop k es). seq_of (drop k es ! i) = int i + (int k + 1)"
    using stream_numbers [OF session_stream_ok [OF sok]] k(1) by (simp add: es_def)
  have "filter (\<lambda>e. sb_high x < seq_of e) (in_flight session s) = drop (nat (sb_high x)) es"
    using filter_above [OF nums] k by (auto simp: follows_def nat_diff_distrib)
  moreover have "drop (nat since) (take (nat (sb_high x)) es) @ drop (nat (sb_high x)) es = drop (nat since) es"
  proof (cases "sb_high x \<le> int (length es)")
    case True
    then have "nat since \<le> length (take (nat (sb_high x)) es)" using k(3) by (auto simp: follows_def)
    then show ?thesis using drop_append [of "nat since" "take (nat (sb_high x)) es" "drop (nat (sb_high x)) es"] by simp
  next
    case False
    then show ?thesis using k(3) by (simp add: follows_def)
  qed
  ultimately have all: "calls_of token s @ sb_pending x @ filter (\<lambda>e. sb_high x < seq_of e) (in_flight session s) = drop (nat since) es"
    using k(3) by (simp add: follows_def append_assoc [symmetric] del: append_assoc)
  have "sb_pending x = []" if "token \<notin> fst ` set (pl_drains s)"
    using token_ok_of [OF ok, of token] assms(2,3) that by (auto simp: subscription_ok_def)
  with all show ?thesis unfolding es_def by auto
qed

lemma orderly_deliveries_complete_witness:
  "\<exists>x. map_of (pl_subs one_delivered) ''sub'' = Some x \<and>
     calls_of ''sub'' one_delivered @ sb_pending x @ filter (\<lambda>e. sb_high x < seq_of e) (in_flight ''s'' one_delivered) =
       stream_in ''s'' (pl_store one_delivered)"
proof -
  obtain x where x: "map_of (pl_subs one_delivered) ''sub'' = Some x" using one_delivered_fields(3) by blast
  have "map_of (pl_since one_delivered) ''sub'' = Some (''s'', 0)" by (simp add: one_delivered_fields)
  from orderly_deliveries_complete [OF one_delivered_reached x this] x show ?thesis by simp
qed

text \<open>Clearing a session restarts its numbers and leaves the marks of its subscribers: an event stored and
  notified after the clear is not delivered to a live subscriber that had one before.\<close>

lemma clear_silences_subscriber:
  "\<exists>s s1. (pipe_step False)\<^sup>*\<^sup>* AgentEventPipeline s \<and> stream_in ''s'' (pl_store s) = [] \<and>
     (pipe_step False)\<^sup>*\<^sup>* s s1 \<and> stream_in ''s'' (pl_store s1) = [demo_stream ! 0] \<and> pl_emitting s1 = [] \<and> pl_drains s1 = [] \<and>
     map_of (pl_since s1) ''sub'' = Some (''s'', 0) \<and> map_of (pl_subs s1) ''sub'' \<noteq> None \<and> queue_of ''sub'' s1 = [] \<and>
     calls_of ''sub'' s1 = calls_of ''sub'' s"
proof -
  let ?q1 = "demo_stream ! 0"
  note n = demo_numbers [of 0, simplified]
  define x where "x = \<lparr>sb_session = ''s'', sb_last = 1, sb_pending = [], sb_delivering = False, sb_high = 1\<rparr>"
  define r where "r = drain_returned ''sub'' ?q1 one_delivered"
  have d: "pl_drains one_delivered = [(''sub'', Some ?q1)]" "pl_emitting one_delivered = []" "pl_called one_delivered = [(''sub'', ?q1)]"
    "pl_subs one_delivered = [(''sub'', x\<lparr>sb_last := 0, sb_delivering := True\<rparr>)]"
    using n by (simp_all add: one_delivered_def drain_take_def emit_notify_def one_emitted_fields notify_one_def SessionSubscriber_def
        MAX_PENDING_EVENTS_def x_def)
  have r: "pl_drains r = [(''sub'', None)]" "pl_emitting r = []" "pl_called r = [(''sub'', ?q1)]"
    "pl_subs r = [(''sub'', x\<lparr>sb_delivering := True\<rparr>)]" "pl_since r = [(''sub'', ''s'', 0)]"
    using n by (simp_all add: r_def drain_returned_def d one_delivered_fields x_def)
  define e where "e = drain_take ''sub'' r"
  have e: "pl_drains e = []" "pl_emitting e = []" "pl_called e = [(''sub'', ?q1)]" "pl_subs e = [(''sub'', x)]" "pl_since e = [(''sub'', ''s'', 0)]"
    by (simp_all add: e_def drain_take_def r x_def)
  define s where "s = e\<lparr>pl_store := clear_events (Some ''s'') (pl_store e)\<rparr>"
  have s: "stream_in ''s'' (pl_store s) = []" "state_in ''s'' (pl_store s) = EventStreamState" by (simp_all add: s_def)
  obtain z where z: "validate_next_event ?q1 EventStreamState = Inr z" using one_emitted_fields(7) by blast
  define t where "t = emit_store (demo_events ! 0) s"
  have t: "pl_emitting t = [?q1] \<and> pl_subs t = pl_subs s \<and> pl_drains t = pl_drains s \<and> pl_called t = pl_called s \<and>
    pl_since t = pl_since s \<and> stream_in ''s'' (pl_store t) = [?q1]"
    using emit_accepted [of "demo_events ! 0" "''s''" s ?q1 z] demo_event [of 0] z s
    by (simp add: t_def MAX_EVENTS_PER_SESSION_def s_def e)
  define s1 where "s1 = emit_notify 0 t"
  have s1: "pl_emitting s1 = [] \<and> pl_subs s1 = [(''sub'', x)] \<and> pl_drains s1 = [] \<and> pl_called s1 = [(''sub'', ?q1)] \<and>
    pl_since s1 = [(''sub'', ''s'', 0)] \<and> stream_in ''s'' (pl_store s1) = [?q1]"
    using t n by (simp add: s1_def emit_notify_def notify_one_def s_def e x_def)
  have "pipe_step False one_delivered r" unfolding r_def by (rule returns) (simp add: d)
  moreover have "pipe_step False r e" unfolding e_def by (rule takes) (simp add: r)
  moreover have "pipe_step False e s" unfolding s_def by (rule clears) simp
  moreover have "(pipe_step False)\<^sup>*\<^sup>* AgentEventPipeline one_delivered"
    using one_delivered_reached pipe_step_relaxed by (metis mono_rtranclp)
  ultimately have "(pipe_step False)\<^sup>*\<^sup>* AgentEventPipeline s" by (meson rtranclp.rtrancl_into_rtrancl)
  moreover have "pipe_step False s t" unfolding t_def by (rule stores)
  moreover have "pipe_step False t s1" unfolding s1_def by (rule notifies) (simp_all add: t)
  ultimately show ?thesis
    using s s1 e by (intro exI [of _ s] exI [of _ s1]) (auto simp: queue_of_def calls_of_def s_def x_def)
qed

end
