(* ===== verification/Spec2Isabelle.thy ===== *)
theory Spec2Isabelle
  imports ServiceRuns HandlerRuns ActionRegistry GatewaySafety AgentConfirm CrossService AgentMonitor CondParser ApprovedAgent SessionLocks EventPipeline
begin

text \<open>
  Verification of ViGuard: an in-vehicle agent, and the policy guardrail that authorises what the
  agent does.

  \<^bold>\<open>The program.\<close>  A user speaks to the agent (\<open>src/agent/src/vehicle_agent\<close>).  A model proposes a
  tool call, the agent maps it to an intent and asks the guardrail (\<open>src/guardrail\<close>) over HTTP.  The
  guardrail looks up the rules of the intent in a workbook of 109 rows, evaluates their conditions
  on its own copy of the vehicle state and answers ALLOW with a permit, CONFIRM with a confirmation
  id, a block, or an error.  The agent executes a handler only through its gateway, which verifies the
  permit; a handler changes the vehicle state machine.  Long-running actions are registered and
  monitored: while one runs, the agent keeps asking the guardrail, and stops it on anything but ALLOW.
  What the user interface sees is a stream of public events.

  \<^bold>\<open>Foundations.\<close>  \<open>Prelude\<close> has the JSON values (\<open>pyval\<close>, with booleans, unbounded integers and floats
  including NaN and the infinities), their equality, order and truth, dictionaries as association
  lists and first-error chains.  \<open>Platform\<close> has what Python gives both services: the text of values,
  canonical JSON, and a platform record with the clock and \<open>uuid4\<close> as streams of readings.  \<open>AgentText\<close>
  has the string methods.  The locales \<open>keyed_store\<close> (Prelude), \<open>single_use_tokens\<close> (\<open>Tokens\<close>),
  \<open>versioned_store\<close> (\<open>VersionedStore\<close>) and \<open>untouched\<close> (\<open>HandlerSafety\<close>) are the contracts that several
  components share; each is interpreted on the components that provide it.

  \<^bold>\<open>Guardrail.\<close>
  \<^item> \<open>Conditions\<close>, \<open>CondParser\<close>: \<open>policy/conditions.py\<close>, the condition language with its evaluator.  Its
    \<open>ast_parse\<close> stands for Python's on single lines of names, numbers, quoted texts without backslash,
    comparisons, parentheses, \<open>not\<close>, \<open>and\<close>, \<open>or\<close>, and refuses every other text; \<open>Workbook\<close> has what it makes
    of each committed condition.
  \<^item> \<open>PolicyState\<close>, \<open>Rules\<close>, \<open>Workbook\<close>, \<open>Engine\<close>, \<open>PolicySpec\<close>: \<open>policy/state.py\<close>, \<open>rules.py\<close>, the committed
    \<open>constraints.csv\<close> and \<open>engine.py\<close>.  Shown: on the committed workbook the engine refines a
    decision table written independently per intent, and the table is complete.
  \<^item> \<open>ToolMap\<close>, \<open>StateStore\<close>, \<open>Confirmations\<close>, \<open>ActiveActions\<close>, \<open>AnswerFacts\<close>, \<open>Envelope\<close>, \<open>Trace\<close>, \<open>Service\<close>:
    \<open>service/tool_map.py\<close>, \<open>state_store.py\<close>, \<open>confirmations.py\<close>, \<open>active_actions.py\<close>, \<open>answer_facts.py\<close>,
    \<open>envelope.py\<close>, \<open>trace.py\<close> and the routes of \<open>app.py\<close>.
  \<^item> \<open>ServiceFrame\<close>, \<open>ServiceSafety\<close>, \<open>ServiceRuns\<close>: what every request keeps, the specification \<open>authorised\<close>
    of a permit, and the runs of a service.  Shown: every permit is authorised, a confirmation is
    redeemed once, an allowed action does get its permit, a permit meets the decision table, and
    access to doors and trunk is permitted only at standstill.

  \<^bold>\<open>Agent.\<close>
  \<^item> \<open>AgentState\<close>, \<open>AgentMachine\<close>: \<open>vehicle/state/model.py\<close>, \<open>presets.py\<close>, \<open>machine.py\<close>, \<open>events.py\<close>.  Shown: every
    reachable state is valid, a step is atomic, the event log is the history.
  \<^item> \<open>Handlers\<close>, \<open>Catalog\<close>, \<open>HandlerSafety\<close>, \<open>HandlerRuns\<close>: \<open>vehicle/execution/generic.py\<close>, \<open>open_door.py\<close>,
    \<open>behaviors/catalog.py\<close>.  Shown: the catalog covers the approved intents and no handler writes the
    dynamics of the vehicle.
  \<^item> \<open>ActionRegistry\<close>: \<open>active_actions/\<close>.  Shown: one running action per session and intent; an ended
    action stays ended until a start is given its identifier.
  \<^item> \<open>Contract\<close>, \<open>Gateway\<close>, \<open>GatewaySafety\<close>: \<open>authorization/contract.py\<close>, \<open>vehicle/execution/verifier.py\<close>,
    \<open>gateway.py\<close>.  Shown: a handler needs a fitting permit, a permit runs once, a reset revokes.
  \<^item> \<open>AgentConfirm\<close>: \<open>confirmation/manager.py\<close>, with the calls of several threads interleaved.  Shown: a
    confirmation executes at most once and only after a fresh ALLOW.
  \<^item> \<open>IntentManifest\<close>, \<open>ToolRegistry\<close>, \<open>AgentMapper\<close>: \<open>catalog/manifest.py\<close>, \<open>tools/registry/registry.py\<close>,
    \<open>tools/mapping/mapper.py\<close> with their committed tables.  Shown: the tables pass their own checks,
    every valid call has exactly one intent, and agent and guardrail map a call to the same intent.
  \<^item> \<open>ModelRouter\<close>, \<open>SessionLocks\<close>, \<open>Orchestrator\<close>, \<open>ApprovedAgent\<close>: \<open>model_providers/selection.py\<close>, \<open>orchestrator/\<close>
    and \<open>vehicle/execution/approved.py\<close>.  Shown: failover asks at most two providers, the turns of a session exclude
    each other, a turn executes only what was authorised, its result names the execution unless
    the turn is cancelled after it, and an authorised turn completes.
  \<^item> \<open>AegisClient\<close>, \<open>AgentMonitor\<close>: \<open>integrations/aegis/client.py\<close>, \<open>monitor.py\<close>.  Shown: an action is asked about
    once, and a running action that the guardrail does not allow is stopped.
  \<^item> \<open>EventContract\<close>, \<open>EventStore\<close>, \<open>EventPipeline\<close>: \<open>contracts/agent_ui/v1/contract.py\<close> and \<open>events/\<close>.  Shown: the
    stored events of a session are always a stream the contract accepts, an execution follows its
    ALLOW, the evidence that a proposal was not executed lasts, and a subscription is called in order
    and, when events are notified in order, for every event.
  \<^item> \<open>CrossService\<close>: both services together.  Shown: they agree on what a proposal is and on its digest, and a
    permit the guardrail issues runs its handler at the agent while it is valid.

  \<^bold>\<open>Correspondence.\<close>  A definition has the name of the function or class it models, or that name with its
  component in front.  Mutable objects are records passed from operation to operation; an operation
  that a lock makes atomic is one step, and where a lock is released in between (confirmations,
  message turns, the lock table, event delivery) the parts are steps that other steps may come between.  A
  raised exception is the left side of a sum with a code for its text.

  \<^bold>\<open>Bounds.\<close>  The parser of conditions recurses to the depth of Python's limit of nested parentheses and
  its loops run as many turns as there are tokens; \<open>parser_bound_invisible\<close> and \<open>parser_loops_end\<close> show that
  no larger bound gives another result on a text within that limit.  Everything else is structural or terminates by a measure.  The limits of the code (trace window, event and chunk
  limits, two providers) are constants with the code's values.

  \<^bold>\<open>Parameters.\<close>  SHA-256, the text of floats and of instants, \<open>datetime.fromisoformat\<close>, the readings of clock
  and \<open>uuid4\<close>, the HTTP transport and the model adapters are arguments.  What is assumed of them is a
  hypothesis of the theorem that needs it, and its witness instantiates them.

  \<^bold>\<open>Restrictions.\<close>  A string is the bytes of its UTF-8 form, so \<open>len\<close> counts bytes (the tool registry counts
  characters), and lower-casing and white space are the ASCII ones.  Texts of messages and log lines are
  left out.  NaN as a dictionary key, and objects that are no JSON values, do not occur.

  \<^bold>\<open>Not modelled.\<close>  The cache and the sample matching of \<open>runtime.py\<close>, \<open>operations/\<close>, \<open>simulation/\<close>, \<open>workflows/\<close>, \<open>queries/\<close>, \<open>responses/\<close>, \<open>behaviors/hero/\<close> and \<open>coverage/\<close>: they are built
  on the modelled operations, produce texts or reports, or are left for later.  The HTTP shells, the
  adapters and transports of the model providers, the classifiers (scikit-learn), the evaluation
  datasets and scripts and the demo: input and output, third-party code or data.

  \<^bold>\<open>What modelling showed.\<close>  Properties and lemmas beside them pin down where the code does not do what it or
  its documentation says: \<open>ended_until_restarted\<close> (a start overwrites an ended action), \<open>turn_result_truthful\<close>
  (a turn cancelled after executing names no execution), \<open>incomplete_state_escapes\<close> (the monitor), \<open>unreadable_never_expires\<close>
  (confirmations), \<open>toggle_unknown_word\<close> and \<open>seat_words_rejected\<close> (handlers), \<open>agent_snapshot_refused\<close>
  (both services), \<open>offset_clock_commits_without_event\<close> (state machine), \<open>stop_decision_refused\<close>,
  \<open>redaction_leaves_private_field\<close>, \<open>reversed_notify_loses_event\<close> and \<open>clear_silences_subscriber\<close> (events).
\<close>

end
